(* ===== verification/Prelude.thy ===== *)
theory Prelude
  imports Main "HOL-Library.Word"
begin

text \<open>
  Shared vocabulary of the development: the type names of the Rust integers and strings, the
  combinators that stand for the \<open>?\<close> operator, \<open>map_err\<close> and \<open>ok_or\<close> on results, and
  the generic facts on lists, options and words that the component theories use.

  A Rust \<open>Result<T, E>\<close> is the sum \<open>'e + 'a\<close> with \<open>Inl\<close> for \<open>Err\<close>. A Rust string is its
  list of UTF-8 bytes (an Isabelle \<open>char\<close> is one byte), so \<open>length\<close> is \<open>str::len\<close>; the
  character view is defined in \<open>Rust_Std\<close>.
\<close>

section \<open>Types and collections\<close>

type_synonym u8 = "8 word"
type_synonym u16 = "16 word"
type_synonym u32 = "32 word"
type_synonym u64 = "64 word"
type_synonym bytes = string

text \<open>Definitions that unfold in the proofs of one layer.\<close>

named_theorems res_simps "equations of the result combinators"
named_theorems rust_simps "equations of the modelled standard library"
named_theorems io_defs "the effectful combinators"
named_theorems session_defs "operations on the local session"
named_theorems client_defs "operations of the controller clients"

section \<open>Results\<close>

text \<open>The \<open>?\<close> operator: an error returns early, a value goes on.\<close>

definition bind_res :: "('e + 'a) \<Rightarrow> ('a \<Rightarrow> 'e + 'b) \<Rightarrow> 'e + 'b" where
  "bind_res r f = (case r of Inl e \<Rightarrow> Inl e | Inr a \<Rightarrow> f a)"

definition map_err :: "('e \<Rightarrow> 'f) \<Rightarrow> ('e + 'a) \<Rightarrow> 'f + 'a" where
  "map_err f r = (case r of Inl e \<Rightarrow> Inl (f e) | Inr a \<Rightarrow> Inr a)"

definition map_ok :: "('a \<Rightarrow> 'b) \<Rightarrow> ('e + 'a) \<Rightarrow> 'e + 'b" where
  "map_ok f r = (case r of Inl e \<Rightarrow> Inl e | Inr a \<Rightarrow> Inr (f a))"

definition ok_or :: "'e \<Rightarrow> 'a option \<Rightarrow> 'e + 'a" where
  "ok_or e x = (case x of None \<Rightarrow> Inl e | Some a \<Rightarrow> Inr a)"

definition ok :: "('e + 'a) \<Rightarrow> 'a option" where
  "ok r = (case r of Inl e \<Rightarrow> None | Inr a \<Rightarrow> Some a)"

lemma bind_res_Inl [simp, res_simps]: "bind_res (Inl e) f = Inl e"
  by (simp add: bind_res_def)

lemma bind_res_Inr [simp, res_simps]: "bind_res (Inr a) f = f a"
  by (simp add: bind_res_def)

lemma bind_res_eq_Inr [res_simps]:
  "bind_res r f = Inr b \<longleftrightarrow> (\<exists>a. r = Inr a \<and> f a = Inr b)"
  by (cases r) auto

lemma bind_res_eq_Inl [res_simps]:
  "bind_res r f = Inl e \<longleftrightarrow> r = Inl e \<or> (\<exists>a. r = Inr a \<and> f a = Inl e)"
  by (cases r) auto

lemma map_err_simps [simp, res_simps]:
  "map_err f (Inl e) = Inl (f e)" "map_err f (Inr a) = Inr a"
  by (simp_all add: map_err_def)

lemma map_err_eq_Inr [simp, res_simps]: "map_err f r = Inr a \<longleftrightarrow> r = Inr a"
  by (cases r) auto

lemma map_ok_simps [simp, res_simps]:
  "map_ok f (Inl e) = Inl e" "map_ok f (Inr a) = Inr (f a)"
  by (simp_all add: map_ok_def)

lemma map_ok_eq_Inr: "map_ok f r = Inr y \<longleftrightarrow> (\<exists>x. r = Inr x \<and> y = f x)"
  by (cases r) auto

lemma ok_or_simps [simp, res_simps]:
  "ok_or e None = Inl e" "ok_or e (Some a) = Inr a"
  by (simp_all add: ok_or_def)

lemma ok_simps [simp, res_simps]:
  "ok (Inl e) = None" "ok (Inr a) = Some a"
  by (simp_all add: ok_def)

section \<open>Checked and saturating arithmetic\<close>

definition checked_add :: "'a::len word \<Rightarrow> 'a word \<Rightarrow> 'a word option" where
  "checked_add a b =
     (if unat a + unat b < 2 ^ LENGTH('a) then Some (a + b) else None)"

definition checked_sub :: "'a::len word \<Rightarrow> 'a word \<Rightarrow> 'a word option" where
  "checked_sub a b = (if b \<le> a then Some (a - b) else None)"

definition u64_max :: nat where
  "u64_max = 2 ^ 64 - 1"

text \<open>\<open>u64::saturating_add\<close> on values read as naturals; \<open>saturating_sub\<close> is \<open>-\<close> on \<open>nat\<close>.\<close>

definition saturating_add :: "nat \<Rightarrow> nat \<Rightarrow> nat" where
  "saturating_add a b = min (a + b) u64_max"

lemma checked_add_Some_iff:
  fixes a b c :: "'a::len word"
  shows "checked_add a b = Some c \<longleftrightarrow> unat c = unat a + unat b"
proof
  assume "checked_add a b = Some c"
  then show "unat c = unat a + unat b"
    by (auto simp: checked_add_def unat_word_ariths split: if_splits)
next
  assume sum: "unat c = unat a + unat b"
  have "unat c < 2 ^ LENGTH('a)" by (rule unsigned_less)
  with sum have bound: "unat a + unat b < 2 ^ LENGTH('a)" by simp
  then have "unat (a + b) = unat c"
    by (simp add: sum unat_word_ariths)
  then have "a + b = c" by (simp add: word_unat_eq_iff)
  with bound show "checked_add a b = Some c"
    by (simp add: checked_add_def)
qed

lemma checked_add_None_iff:
  fixes a b :: "'a::len word"
  shows "checked_add a b = None \<longleftrightarrow> 2 ^ LENGTH('a) \<le> unat a + unat b"
  by (simp add: checked_add_def not_less)

lemma checked_sub_Some:
  fixes a b c :: "'a::len word"
  assumes "checked_sub a b = Some c"
  shows "unat c + unat b = unat a"
proof -
  from assms have le: "b \<le> a" and c: "c = a - b"
    by (auto simp: checked_sub_def split: if_splits)
  from le have "unat (a - b) = unat a - unat b" by (rule unat_sub)
  moreover from le have "unat b \<le> unat a" by (simp add: word_le_nat_alt)
  ultimately show ?thesis using c by simp
qed

lemma checked_sub_1_None:
  fixes a :: "'a::len word"
  shows "checked_sub a 1 = None \<longleftrightarrow> a = 0"
  by (auto simp: checked_sub_def not_le)

lemma checked_sub_1_le:
  fixes a b d :: "'a::len word"
  assumes "checked_sub a 1 = Some d"
  shows "b \<le> d \<longleftrightarrow> b < a"
proof -
  from assms have le: "1 \<le> a" and d: "d = a - 1"
    by (auto simp: checked_sub_def split: if_splits)
  from assms have "unat d + 1 = unat a"
    using checked_sub_Some [OF assms] by simp
  then show ?thesis
    by (auto simp: word_le_nat_alt word_less_nat_alt)
qed

lemma saturating_add_le [simp]: "saturating_add a b \<le> u64_max"
  by (simp add: saturating_add_def)

section \<open>Lists\<close>

text \<open>\<open>Iterator::any\<close> over two-element windows and the sortedness it decides.\<close>

fun windows2_any :: "('a \<Rightarrow> 'a \<Rightarrow> bool) \<Rightarrow> 'a list \<Rightarrow> bool" where
  "windows2_any p (x # y # zs) = (p x y \<or> windows2_any p (y # zs))"
| "windows2_any p _ = False"

lemma windows2_any_sorted_wrt:
  assumes "transp q" and "\<And>x y. q x y \<longleftrightarrow> \<not> p x y"
  shows "windows2_any p xs \<longleftrightarrow> \<not> sorted_wrt q xs"
  using assms
proof (induction p xs rule: windows2_any.induct)
  case (1 p x y zs)
  then show ?case
    by (auto dest: transpD)
qed auto

text \<open>\<open>Iterator::position\<close>.\<close>

fun position :: "('a \<Rightarrow> bool) \<Rightarrow> 'a list \<Rightarrow> nat option" where
  "position p [] = None"
| "position p (x # xs) = (if p x then Some 0 else map_option Suc (position p xs))"

lemma position_None: "position p xs = None \<longleftrightarrow> (\<forall>x\<in>set xs. \<not> p x)"
  by (induction xs) auto

lemma position_SomeD:
  "position p xs = Some i \<Longrightarrow> i < length xs \<and> p (xs ! i) \<and> take i xs = takeWhile (Not \<circ> p) xs"
  by (induction xs arbitrary: i) (auto split: if_splits)

lemma sorted_wrt_takeWhile_filter:
  assumes "sorted_wrt (\<lambda>x y. p y \<longrightarrow> p x) xs"
  shows "takeWhile p xs = filter p xs"
  using assms by (induction xs) (auto simp: filter_empty_conv)

lemma butlast_take_Suc: "length xs = Suc n \<Longrightarrow> butlast xs = take n xs"
  by (simp add: butlast_conv_take)

text \<open>Lookups in association lists, the model of ordered maps.\<close>

definition get :: "'k \<Rightarrow> ('k \<times> 'v) list \<Rightarrow> 'v option" where
  "get k m = map_of m k"

lemma get_simps [simp]:
  "get k [] = None" "get k ((k', v) # m) = (if k = k' then Some v else get k m)"
  by (auto simp: get_def)

lemma get_eq_None [simp]: "get k m = None \<longleftrightarrow> k \<notin> fst ` set m"
  by (simp add: get_def map_of_eq_None_iff)

lemma get_notin: "k \<notin> fst ` set m \<Longrightarrow> get k m = None"
  by simp

lemma get_eq_Some_iff: "distinct (map fst m) \<Longrightarrow> get k m = Some v \<longleftrightarrow> (k, v) \<in> set m"
  by (simp add: get_def)

lemma get_SomeD: "get k m = Some v \<Longrightarrow> (k, v) \<in> set m"
  by (simp add: get_def map_of_SomeD)

lemma get_in_set: "distinct (map fst m) \<Longrightarrow> (k, v) \<in> set m \<Longrightarrow> get k m = Some v"
  by (simp add: get_def)

end
