(* ===== verification/Json.thy ===== *)
theory Json
  imports Rust_Std "HOL-Library.List_Lexorder" "HOL-Library.Char_ord"
begin

text \<open>
  JSON values as \<open>serde_json::Value\<close> holds them in this program: objects are ordered maps
  (\<open>BTreeMap\<close>, so iteration is by key), and numbers keep the controller's text because the
  workspace enables \<open>arbitrary_precision\<close>, so two numbers are equal when their text is.
\<close>

datatype json =
    JNull
  | JBool bool
  | JNum string
  | JStr string
  | JArr "json list"
  | JObj "(string \<times> json) list"

text \<open>An ordered map: keys strictly increasing, as \<open>BTreeMap\<close> iterates.\<close>

definition ordered_map :: "('k::linorder \<times> 'v) list \<Rightarrow> bool" where
  "ordered_map m \<longleftrightarrow> sorted_wrt (<) (map fst m)"

lemma ordered_map_distinct: "ordered_map m \<Longrightarrow> distinct (map fst m)"
  unfolding ordered_map_def by (simp add: strict_sorted_iff)

text \<open>\<open>Value::get\<close> with a string key, \<open>as_str\<close>, \<open>as_array\<close>, \<open>as_object\<close> and \<open>is_null\<close>.\<close>

fun jget :: "string \<Rightarrow> json \<Rightarrow> json option" where
  "jget k (JObj m) = get k m"
| "jget k _ = None"

fun jstr :: "json \<Rightarrow> string option" where
  "jstr (JStr s) = Some s"
| "jstr _ = None"

fun jarr :: "json \<Rightarrow> json list option" where
  "jarr (JArr xs) = Some xs"
| "jarr _ = None"

fun jobj :: "json \<Rightarrow> (string \<times> json) list option" where
  "jobj (JObj m) = Some m"
| "jobj _ = None"

fun jnull :: "json \<Rightarrow> bool" where
  "jnull JNull = True"
| "jnull _ = False"

text \<open>\<open>Value::as_u64\<close> reads the kept number text as an unsigned integer.\<close>

fun ju64 :: "json \<Rightarrow> nat option" where
  "ju64 (JNum t) = parse_unsigned u64_max t"
| "ju64 _ = None"

text \<open>
  Insertion into and lookup in an ordered map: the \<open>BTreeMap\<close> operations the program uses.
\<close>

fun map_insert :: "'k::linorder \<Rightarrow> 'v \<Rightarrow> ('k \<times> 'v) list \<Rightarrow> ('k \<times> 'v) list" where
  "map_insert k v [] = [(k, v)]"
| "map_insert k v ((k', v') # m) =
     (if k < k' then (k, v) # (k', v') # m
      else if k = k' then (k, v) # m
      else (k', v') # map_insert k v m)"

locale ordered_map_ops =
  fixes insert :: "'k::linorder \<Rightarrow> 'v \<Rightarrow> 'm \<Rightarrow> 'm"
    and lookup :: "'k \<Rightarrow> 'm \<Rightarrow> 'v option"
    and keys :: "'m \<Rightarrow> 'k list"
    and invar :: "'m \<Rightarrow> bool"
  assumes lookup_insert: "invar m \<Longrightarrow> lookup a (insert k v m) = (if a = k then Some v else lookup a m)"
    and invar_insert: "invar m \<Longrightarrow> invar (insert k v m)"
    and keys_lookup: "invar m \<Longrightarrow> k \<in> set (keys m) \<longleftrightarrow> lookup k m \<noteq> None"
    and keys_sorted: "invar m \<Longrightarrow> sorted_wrt (<) (keys m)"
begin

lemma keys_insert: "invar m \<Longrightarrow> set (keys (insert k v m)) = Set.insert k (set (keys m))"
proof -
  assume m: "invar m"
  then have i: "invar (insert k v m)" by (rule invar_insert)
  show ?thesis
  proof (rule set_eqI)
    fix a
    show "a \<in> set (keys (insert k v m)) \<longleftrightarrow> a \<in> Set.insert k (set (keys m))"
      using keys_lookup [OF i, of a] keys_lookup [OF m, of a] lookup_insert [OF m, of a k v]
      by auto
  qed
qed

lemma keys_distinct: "invar m \<Longrightarrow> distinct (keys m)"
  using keys_sorted by (simp add: strict_sorted_iff)

lemma length_keys_insert:
  assumes "invar m"
  shows "length (keys (insert k v m)) \<le> Suc (length (keys m))"
proof -
  have "card (set (keys (insert k v m))) \<le> Suc (card (set (keys m)))"
    by (simp add: keys_insert [OF assms] card_insert_if)
  then show ?thesis
    using keys_distinct [OF assms] keys_distinct [OF invar_insert [OF assms]]
    by (simp add: distinct_card)
qed

end

lemma fst_map_insert: "fst ` set (map_insert k v m) = insert k (fst ` set m)"
  by (induction k v m rule: map_insert.induct) auto

lemma in_map_insertD: "(a, b) \<in> set (map_insert k v m) \<Longrightarrow> a = k \<or> (a, b) \<in> set m"
  by (induction k v m rule: map_insert.induct) (auto split: if_splits)

lemma ordered_map_insert: "ordered_map m \<Longrightarrow> ordered_map (map_insert k v m)"
proof (induction k v m rule: map_insert.induct)
  case (2 k v k' v' m)
  then show ?case
    by (fastforce simp: ordered_map_def dest: in_map_insertD)
qed (simp add: ordered_map_def)

lemma get_map_insert:
  "ordered_map m \<Longrightarrow> get a (map_insert k v m) = (if a = k then Some v else get a m)"
  by (induction k v m rule: map_insert.induct) (auto simp: ordered_map_def)

interpretation omap: ordered_map_ops map_insert get "map fst" ordered_map
proof
  fix m :: "('k::linorder \<times> 'v) list" and k
  assume "ordered_map m"
  show "k \<in> set (map fst m) \<longleftrightarrow> get k m \<noteq> None"
    by (auto simp: image_iff)
qed (use ordered_map_insert in \<open>auto simp: get_map_insert ordered_map_def\<close>)

text \<open>\<open>retain\<close> keeps an ordered map ordered.\<close>

lemma ordered_map_filter: "ordered_map m \<Longrightarrow> ordered_map (filter p m)"
  unfolding ordered_map_def by (induction m) auto

lemma get_filter_key:
  "ordered_map m \<Longrightarrow> get k (filter (\<lambda>(a, _). p a) m) = (if p k then get k m else None)"
  unfolding ordered_map_def by (induction m) (auto split: if_splits)

end
