(* ===== verification/Api_Error.thy ===== *)
theory Api_Error
  imports Rust_Std
begin

text \<open>
  The error type of the controller clients (\<open>crates/unifi-api/src/error.rs\<close>): messages kept
  within a byte budget and the \<open>ApiError\<close> enum with its two conversions. The Base64 encoder is
  a crate the program calls, so it is a parameter.
\<close>

section \<open>Bounded messages\<close>

definition MAXIMUM_RESPONSE_BYTES :: nat where
  "MAXIMUM_RESPONSE_BYTES = 4 * 1024 * 1024"

definition MAXIMUM_MESSAGE_BYTES :: nat where
  "MAXIMUM_MESSAGE_BYTES = MAXIMUM_RESPONSE_BYTES"

definition TRUNCATION_MARKER :: string where
  "TRUNCATION_MARKER = '' [truncated]''"

datatype bounded_message = BoundedMessage (as_str: string)

text \<open>
  The first loop of \<open>with_limit\<close>: characters are pushed until one does not fit. The result is
  the pushed characters and whether the loop broke off.
\<close>

fun push_chars :: "nat \<Rightarrow> string list \<Rightarrow> string list \<Rightarrow> string list \<times> bool" where
  "push_chars limit message [] = (message, False)"
| "push_chars limit message (c # cs) =
     (if length (concat message) + length c > limit then (message, True)
      else push_chars limit (message @ [c]) cs)"

text \<open>
  The second loop pops characters until the marker fits. Popping an empty string changes
  nothing, so on an empty message with a marker that does not fit the loop does not end:
  \<open>None\<close>.
\<close>

fun pop_chars :: "nat \<Rightarrow> string list \<Rightarrow> string list option" where
  "pop_chars limit rmessage =
     (if length (concat rmessage) + length TRUNCATION_MARKER > limit
      then (case rmessage of [] \<Rightarrow> None | _ # rest \<Rightarrow> pop_chars limit rest)
      else Some rmessage)"

declare pop_chars.simps [simp del]

definition with_limit :: "string \<Rightarrow> nat \<Rightarrow> bounded_message option" where
  "with_limit raw limit =
     (case push_chars limit [] (chars raw) of
        (message, truncated) \<Rightarrow>
          (if truncated
           then map_option
                  (\<lambda>rmessage. BoundedMessage (concat (rev rmessage) @ TRUNCATION_MARKER))
                  (pop_chars limit (rev message))
           else Some (BoundedMessage (concat message))))"

text \<open>\<open>BoundedMessage::new\<close>, which is also \<open>From<&str>\<close> and \<open>From<String>\<close>.\<close>

definition bounded_new :: "string \<Rightarrow> bounded_message" where
  "bounded_new raw =
     (case with_limit raw MAXIMUM_MESSAGE_BYTES of
        Some m \<Rightarrow> m
      | None \<Rightarrow> BoundedMessage [])"

text \<open>
  UTF-8 well-formedness as \<open>std::str::from_utf8\<close> decides it: the byte ranges of the Unicode
  standard's table of well-formed sequences.
\<close>

definition in_range :: "nat \<Rightarrow> nat \<Rightarrow> char \<Rightarrow> bool" where
  "in_range lo hi c \<longleftrightarrow> lo \<le> (of_char c :: nat) \<and> (of_char c :: nat) \<le> hi"

fun valid_utf8 :: "bytes \<Rightarrow> bool" where
  "valid_utf8 [] = True"
| "valid_utf8 (a # bs) =
     (if in_range 0 127 a then valid_utf8 bs
      else (case bs of
              [] \<Rightarrow> False
            | b # cs \<Rightarrow>
                (if in_range 194 223 a then in_range 128 191 b \<and> valid_utf8 cs
                 else (case cs of
                         [] \<Rightarrow> False
                       | c # ds \<Rightarrow>
                           (if in_range 224 239 a
                            then in_range (if of_char a = (224 :: nat) then 160 else 128)
                                          (if of_char a = (237 :: nat) then 159 else 191) b
                                 \<and> in_range 128 191 c \<and> valid_utf8 ds
                            else (case ds of
                                    [] \<Rightarrow> False
                                  | d # es \<Rightarrow>
                                      in_range 240 244 a
                                      \<and> in_range (if of_char a = (240 :: nat) then 144 else 128)
                                                 (if of_char a = (244 :: nat) then 143 else 191) b
                                      \<and> in_range 128 191 c \<and> in_range 128 191 d
                                      \<and> valid_utf8 es))))))"

definition from_controller_bytes :: "(bytes \<Rightarrow> string) \<Rightarrow> bytes \<Rightarrow> bounded_message" where
  "from_controller_bytes b64 body =
     (if valid_utf8 body then BoundedMessage body
      else BoundedMessage (''non-UTF-8 controller response (base64): '' @ b64 body))"

section \<open>The error type\<close>

text \<open>Durations and instants are counted in nanoseconds.\<close>

type_synonym duration = nat
type_synonym instant = nat

definition from_secs :: "nat \<Rightarrow> duration" where
  "from_secs n = n * 1000000000"

datatype api_error =
    Config string
  | Status nat bounded_message
  | RateLimited "duration option" bounded_message
  | Rejected "nat option" bounded_message bounded_message
  | Transport bounded_message
  | SessionRefresh api_error api_error
  | ResponseTooLarge nat
  | InvalidJson string nat nat "bounded_message option"
  | SchemaMismatch string bounded_message "bounded_message option"
  | Decode bounded_message
  | DecodeResponse bounded_message bounded_message

definition decode_failure :: "(bytes \<Rightarrow> string) \<Rightarrow> string \<Rightarrow> bytes \<Rightarrow> api_error" where
  "decode_failure b64 err body =
     DecodeResponse (from_controller_bytes b64 body) (bounded_new err)"

definition with_refresh_failure :: "api_error \<Rightarrow> api_error \<Rightarrow> api_error" where
  "with_refresh_failure self refresh = SessionRefresh self refresh"

fun with_controller_response :: "(bytes \<Rightarrow> string) \<Rightarrow> api_error \<Rightarrow> bytes \<Rightarrow> api_error" where
  "with_controller_response b64 (SchemaMismatch endpoint path _) body =
     SchemaMismatch endpoint path (Some (from_controller_bytes b64 body))"
| "with_controller_response b64 (Decode diagnostic) body =
     DecodeResponse (from_controller_bytes b64 body) diagnostic"
| "with_controller_response b64 other body = other"

definition controller_response_suffix :: "bounded_message option \<Rightarrow> string" where
  "controller_response_suffix response =
     (case response of None \<Rightarrow> [] | Some body \<Rightarrow> ''; controller response: '' @ as_str body)"

definition rejection_status_prefix :: "nat option \<Rightarrow> string" where
  "rejection_status_prefix status =
     (case status of
        None \<Rightarrow> []
      | Some status \<Rightarrow> ''controller rejected HTTP '' @ show_nat status @ '': '')"

text \<open>The \<open>Display\<close> form that the \<open>#[error(...)]\<close> attributes give each variant.\<close>

fun render :: "api_error \<Rightarrow> string" where
  "render (Config message) = ''invalid controller configuration: '' @ message"
| "render (Status status message) =
     ''controller returned HTTP '' @ show_nat status @ '': '' @ as_str message"
| "render (RateLimited _ message) = ''controller returned HTTP 429: '' @ as_str message"
| "render (Rejected status _ message) = rejection_status_prefix status @ as_str message"
| "render (Transport message) = ''transport failure: '' @ as_str message"
| "render (SessionRefresh original refresh) =
     ''original request: '' @ render original @ ''; session refresh: '' @ render refresh"
| "render (ResponseTooLarge limit) =
     ''controller response exceeded the '' @ show_nat limit @ ''-byte budget''"
| "render (InvalidJson endpoint line column response) =
     ''invalid JSON from '' @ endpoint @ '' at line '' @ show_nat line @ '', column ''
       @ show_nat column @ controller_response_suffix response"
| "render (SchemaMismatch endpoint path response) =
     ''response from '' @ endpoint @ '' did not match its schema''
       @ controller_response_suffix response @ '' at '' @ as_str path"
| "render (Decode diagnostic) = ''response decoding failed: '' @ as_str diagnostic"
| "render (DecodeResponse response diagnostic) =
     ''controller response: '' @ as_str response @ ''; decode error: '' @ as_str diagnostic"

section \<open>What truncation keeps\<close>

lemma push_chars_spec:
  assumes "push_chars limit message cs = (kept, truncated)"
    and "length (concat message) \<le> limit"
  shows "\<exists>rest. message @ cs = kept @ rest \<and> length (concat kept) \<le> limit
           \<and> (truncated \<longleftrightarrow> rest \<noteq> [])
           \<and> (truncated \<longrightarrow> limit < length (concat (kept @ [hd rest])))"
  using assms
proof (induction limit message cs rule: push_chars.induct)
  case (1 limit message)
  then show ?case by simp
next
  case (2 limit message c cs)
  show ?case
  proof (cases "length (concat message) + length c > limit")
    case True
    with "2.prems" show ?thesis by (intro exI [of _ "c # cs"]) simp
  next
    case False
    with "2.prems" have "push_chars limit (message @ [c]) cs = (kept, truncated)"
      and "length (concat (message @ [c])) \<le> limit" by simp_all
    from "2.IH" [OF False this] show ?thesis by simp
  qed
qed

lemma pop_chars_spec:
  assumes "length TRUNCATION_MARKER \<le> limit"
  shows "\<exists>dropped kept. pop_chars limit rmessage = Some kept \<and> rmessage = dropped @ kept
           \<and> length (concat kept) + length TRUNCATION_MARKER \<le> limit"
proof (induction rmessage)
  case Nil
  with assms show ?case by (subst pop_chars.simps) simp
next
  case (Cons c rest)
  show ?case
  proof (cases "length (concat (c # rest)) + length TRUNCATION_MARKER > limit")
    case True
    then have eq: "pop_chars limit (c # rest) = pop_chars limit rest"
      by (subst pop_chars.simps) simp
    from Cons.IH obtain dropped kept where
      "pop_chars limit rest = Some kept" "rest = dropped @ kept"
      "length (concat kept) + length TRUNCATION_MARKER \<le> limit" by blast
    with eq show ?thesis by (intro exI [of _ "c # dropped"] exI [of _ kept]) simp
  next
    case False
    then show ?thesis
      by (intro exI [of _ "[]"] exI [of _ "c # rest"]) (subst pop_chars.simps, simp)
  qed
qed

lemma length_concat_rev [simp]: "length (concat (rev xss)) = length (concat xss)"
  by (simp add: length_concat flip: rev_map)

text \<open>
  For every limit that can hold the truncation marker, building a bounded message ends.
  When the raw text fits it is kept byte for byte; otherwise the result is a whole number of
  leading characters of the text (never part of one) followed by the marker. In both cases the
  result is within the limit.
\<close>

theorem with_limit_keeps_whole_characters:
  assumes "length TRUNCATION_MARKER \<le> limit"
  shows "\<exists>m. with_limit raw limit = Some m \<and> length (as_str m) \<le> limit
           \<and> (if length raw \<le> limit then as_str m = raw
              else \<exists>n < length (chars raw).
                     as_str m = concat (take n (chars raw)) @ TRUNCATION_MARKER)"
proof -
  obtain kept truncated where push: "push_chars limit [] (chars raw) = (kept, truncated)"
    by (metis surj_pair)
  from push_chars_spec [OF this] obtain rest where
    split: "chars raw = kept @ rest" and fits: "length (concat kept) \<le> limit"
    and trunc: "truncated \<longleftrightarrow> rest \<noteq> []"
    and over: "truncated \<longrightarrow> limit < length (concat (kept @ [hd rest]))" by auto
  have raw: "raw = concat kept @ concat rest"
    using concat_chars [of raw] split by simp
  show ?thesis
  proof (cases truncated)
    case False
    with trunc raw fits push show ?thesis by (simp add: with_limit_def)
  next
    case True
    with over trunc raw have long: "limit < length raw"
      by (cases rest) auto
    from pop_chars_spec [OF assms, of "rev kept"] obtain dropped front where
      pop: "pop_chars limit (rev kept) = Some front" and rk: "rev kept = dropped @ front"
      and room: "length (concat front) + length TRUNCATION_MARKER \<le> limit" by blast
    from rk have kept: "kept = rev front @ rev dropped"
      by (metis rev_append rev_rev_ident)
    with split have "take (length front) (chars raw) = rev front" by simp
    moreover from split kept True trunc have "length front < length (chars raw)"
      by (cases rest) auto
    ultimately show ?thesis
      using pop push True long room
      by (auto simp: with_limit_def intro!: exI [of _ "length front"])
  qed
qed

theorem with_limit_keeps_whole_characters_witness:
  "length TRUNCATION_MARKER \<le> 13
     \<and> with_limit ''abcdefghijklmn'' 13 = Some (BoundedMessage ''a [truncated]'')
     \<and> (\<exists>m. with_limit ''abcdefghijklmn'' 13 = Some m \<and> length (as_str m) \<le> 13)"
proof -
  have h: "length TRUNCATION_MARKER \<le> 13" by (simp add: TRUNCATION_MARKER_def)
  have "with_limit ''abcdefghijklmn'' 13 = Some (BoundedMessage ''a [truncated]'')"
    by (simp add: with_limit_def is_continuation_def pop_chars.simps TRUNCATION_MARKER_def)
  with with_limit_keeps_whole_characters [OF h, of "''abcdefghijklmn''"] h
  show ?thesis by blast
qed

lemma marker_fits: "length TRUNCATION_MARKER \<le> MAXIMUM_MESSAGE_BYTES"
  by (simp add: TRUNCATION_MARKER_def MAXIMUM_MESSAGE_BYTES_def MAXIMUM_RESPONSE_BYTES_def)

text \<open>A text that fits the message budget is kept as it is: the case of every status code.\<close>

lemma bounded_new_short:
  assumes "length raw \<le> MAXIMUM_MESSAGE_BYTES"
  shows "bounded_new raw = BoundedMessage raw"
proof -
  obtain kept truncated where
    push: "push_chars MAXIMUM_MESSAGE_BYTES [] (chars raw) = (kept, truncated)"
    by (metis surj_pair)
  from push_chars_spec [OF this] obtain rest where
    split: "chars raw = kept @ rest" and trunc: "truncated \<longleftrightarrow> rest \<noteq> []"
    and over: "truncated \<longrightarrow> MAXIMUM_MESSAGE_BYTES < length (concat (kept @ [hd rest]))" by auto
  have raw: "raw = concat kept @ concat rest"
    using concat_chars [of raw] split by simp
  have "\<not> truncated"
    using over trunc raw assms by (cases rest) auto
  with trunc raw push show ?thesis by (simp add: bounded_new_def with_limit_def)
qed

end
