(* ===== verification/Http.thy ===== *)
theory Http
  imports Json Api_Error
begin

text \<open>
  The plumbing both controller clients share (\<open>crates/unifi-api/src/http.rs\<close>), with the
  boundary to the outside: the HTTP stack, the clock, the JSON parser, the Base64 encoder and
  the Unicode case table are crates or tables the program calls, collected in one record of
  parameters. What the program does to the outside is kept as a trace of requests and sleeps.
\<close>

section \<open>Requests and responses\<close>

datatype http_method = GET | POST | PUT | PATCH | DELETE

text \<open>
  A base URL is opaque but for whether it can carry a path; a URL is the base with the calls
  made on it in order: the segments pushed (each one literal, whatever it contains) and the
  query pairs appended.
\<close>

record base_url =
  base_origin :: string
  cannot_be_a_base :: bool

record url =
  url_base :: base_url
  url_segments :: "string list"
  url_query :: "(string \<times> string) list"

record request =
  rq_method :: http_method
  rq_url :: url
  rq_headers :: "(string \<times> string) list"
  rq_body :: "json option"

text \<open>
  A response: its status, its headers (\<open>None\<close> when absent, \<open>Some None\<close> when \<open>to_str\<close> fails)
  and the results of reading its body chunk by chunk.
\<close>

record response =
  rs_status :: nat
  rs_header :: "string \<Rightarrow> string option option"
  rs_chunks :: "(string + bytes) list"

definition is_success :: "nat \<Rightarrow> bool" where
  "is_success status \<longleftrightarrow> 200 \<le> status \<and> status < 300"

definition is_server_error :: "nat \<Rightarrow> bool" where
  "is_server_error status \<longleftrightarrow> 500 \<le> status \<and> status < 600"

section \<open>Bodies, URLs and retry timing\<close>

fun read_chunks :: "bytes \<Rightarrow> (string + bytes) list \<Rightarrow> api_error + bytes" where
  "read_chunks body [] = Inr body"
| "read_chunks body (Inl err # _) = Inl (Transport (bounded_new err))"
| "read_chunks body (Inr chunk # rest) =
     (if length body + length chunk > MAXIMUM_RESPONSE_BYTES
      then Inl (ResponseTooLarge MAXIMUM_RESPONSE_BYTES)
      else read_chunks (body @ chunk) rest)"

definition read_bounded_body :: "response \<Rightarrow> api_error + bytes" where
  "read_bounded_body response = read_chunks [] (rs_chunks response)"

text \<open>The \<open>Retry-After\<close> header in its delta-seconds form.\<close>

definition retry_after :: "response \<Rightarrow> duration option" where
  "retry_after response =
     (case rs_header response ''retry-after'' of
        Some (Some value) \<Rightarrow> map_option from_secs (parse_unsigned u64_max (trim value))
      | _ \<Rightarrow> None)"

definition rate_limited :: "(bytes \<Rightarrow> string) \<Rightarrow> response \<Rightarrow> api_error + api_error" where
  "rate_limited b64 response =
     bind_res (read_bounded_body response) (\<lambda>body.
       Inr (RateLimited (retry_after response) (from_controller_bytes b64 body)))"

text \<open>\<open>return Err(http::rate_limited(response).await?)\<close>: either way the caller fails.\<close>

definition rate_limited_error :: "(bytes \<Rightarrow> string) \<Rightarrow> response \<Rightarrow> api_error" where
  "rate_limited_error b64 response =
     (case rate_limited b64 response of Inl e \<Rightarrow> e | Inr e \<Rightarrow> e)"

definition invalid_segment :: "string \<Rightarrow> bool" where
  "invalid_segment segment \<longleftrightarrow> segment = [] \<or> segment = ''.'' \<or> segment = ''..''"

text \<open>The \<open>Debug\<close> form of a segment \<open>invalid_segment\<close> refuses: the text between quotes.\<close>

definition debug_segment :: "string \<Rightarrow> string" where
  "debug_segment segment = CHR 0x22 # segment @ [CHR 0x22]"

text \<open>The loop of \<open>build_url\<close>: segments are pushed in order, the first bad one is refused.\<close>

fun push_segments :: "url \<Rightarrow> string list \<Rightarrow> api_error + url" where
  "push_segments u [] = Inr u"
| "push_segments u (segment # rest) =
     (if invalid_segment segment then Inl (Config (''invalid path segment '' @ debug_segment segment))
      else push_segments (u\<lparr>url_segments := url_segments u @ [segment]\<rparr>) rest)"

definition build_url ::
  "base_url \<Rightarrow> string list \<Rightarrow> (string \<times> string) list \<Rightarrow> api_error + url" where
  "build_url base segments query =
     (if cannot_be_a_base base then Inl (Config ''base URL cannot carry API paths'')
      else bind_res
             (push_segments \<lparr>url_base = base, url_segments = [], url_query = []\<rparr> segments)
             (\<lambda>u. Inr (u\<lparr>url_query := url_query u @ query\<rparr>)))"

section \<open>The outside world\<close>

record 'e externals =
  ext_send :: "request \<Rightarrow> 'e \<Rightarrow> (string + response) \<times> 'e"
  ext_now :: "'e \<Rightarrow> instant"
  ext_sleep :: "duration \<Rightarrow> 'e \<Rightarrow> 'e"
  ext_value :: "bytes \<Rightarrow> string + json"
  ext_b64 :: "bytes \<Rightarrow> string"
  ext_lowercase :: "string \<Rightarrow> string"

datatype io_event = Sent request | Slept duration

record 'e net =
  env :: 'e
  trace :: "io_event list"

text \<open>One request on the wire, with its transport failure translated.\<close>

definition send_request ::
  "('e, 'x) externals_scheme \<Rightarrow> request \<Rightarrow> ('e, 'w) net_scheme
     \<Rightarrow> (api_error + response) \<times> ('e, 'w) net_scheme" where
  "send_request X request w =
     (case ext_send X request (env w) of
        (result, e) \<Rightarrow>
          (map_err (\<lambda>err. Transport (bounded_new err)) result,
           w\<lparr>env := e, trace := trace w @ [Sent request]\<rparr>))"

definition sleep :: "('e, 'x) externals_scheme \<Rightarrow> duration \<Rightarrow> ('e, 'w) net_scheme
     \<Rightarrow> ('e, 'w) net_scheme" where
  "sleep X d w = w\<lparr>env := ext_sleep X d (env w), trace := trace w @ [Slept d]\<rparr>"

text \<open>The \<open>?\<close> operator in a function with effects.\<close>

definition bind_io ::
  "('w \<Rightarrow> ('err + 'a) \<times> 'w) \<Rightarrow> ('a \<Rightarrow> 'w \<Rightarrow> ('err + 'b) \<times> 'w) \<Rightarrow> 'w \<Rightarrow> ('err + 'b) \<times> 'w" where
  "bind_io m f w = (case m w of (Inl e, w') \<Rightarrow> (Inl e, w') | (Inr a, w') \<Rightarrow> f a w')"

definition return_io :: "('err + 'a) \<Rightarrow> 'w \<Rightarrow> ('err + 'a) \<times> 'w" where
  "return_io r w = (r, w)"

definition map_io :: "('a \<Rightarrow> 'b) \<Rightarrow> ('w \<Rightarrow> ('err + 'a) \<times> 'w) \<Rightarrow> 'w \<Rightarrow> ('err + 'b) \<times> 'w" where
  "map_io f m w = (case m w of (r, w') \<Rightarrow> (map_ok f r, w'))"

definition map_err_io :: "('err \<Rightarrow> 'err2) \<Rightarrow> ('w \<Rightarrow> ('err + 'a) \<times> 'w) \<Rightarrow> 'w \<Rightarrow> ('err2 + 'a) \<times> 'w" where
  "map_err_io f m w = (case m w of (r, w') \<Rightarrow> (map_err f r, w'))"

declare bind_io_def [io_defs] return_io_def [io_defs] map_io_def [io_defs] map_err_io_def [io_defs]

lemma return_io_simp [simp]: "return_io r w = (r, w)"
  by (simp add: return_io_def)

lemma snd_map_io [simp]: "snd (map_io f m w) = snd (m w)"
  by (simp add: map_io_def split: prod.split)

lemma fst_map_io [simp]: "fst (map_io f m w) = map_ok f (fst (m w))"
  by (simp add: map_io_def split: prod.split)

lemma snd_map_err_io [simp]: "snd (map_err_io f m w) = snd (m w)"
  by (simp add: map_err_io_def split: prod.split)

lemma fst_map_err_io [simp]: "fst (map_err_io f m w) = map_err f (fst (m w))"
  by (simp add: map_err_io_def split: prod.split)

lemma bind_io_Inl: "m w = (Inl e, w') \<Longrightarrow> bind_io m f w = (Inl e, w')"
  by (simp add: bind_io_def)

lemma bind_io_Inr: "m w = (Inr a, w') \<Longrightarrow> bind_io m f w = f a w'"
  by (simp add: bind_io_def)

lemma snd_bind_io:
  "snd (bind_io m f w) = (case fst (m w) of Inl e \<Rightarrow> snd (m w) | Inr a \<Rightarrow> snd (f a (snd (m w))))"
  by (simp add: bind_io_def split: prod.split sum.split)

lemma fst_bind_io:
  "fst (bind_io m f w) = (case fst (m w) of Inl e \<Rightarrow> Inl e | Inr a \<Rightarrow> fst (f a (snd (m w))))"
  by (simp add: bind_io_def split: prod.split sum.split)

lemma fst_bind_io_Inr:
  "fst (bind_io m f w) = Inr b \<longleftrightarrow> (\<exists>a w'. m w = (Inr a, w') \<and> fst (f a w') = Inr b)"
  by (cases "m w"; cases "fst (m w)") (auto simp: bind_io_def)

lemma trace_send_request [simp]:
  "trace (snd (send_request X request w)) = trace w @ [Sent request]"
  by (simp add: send_request_def split: prod.split)

lemma trace_sleep [simp]: "trace (sleep X d w) = trace w @ [Slept d]"
  by (simp add: sleep_def)

section \<open>What the plumbing guarantees\<close>

text \<open>The bytes of the chunks that arrived before the first failure.\<close>

fun chunk_bytes :: "(string + bytes) list \<Rightarrow> bytes" where
  "chunk_bytes [] = []"
| "chunk_bytes (Inl _ # _) = []"
| "chunk_bytes (Inr chunk # rest) = chunk @ chunk_bytes rest"

lemma read_chunks_Inr_iff:
  assumes "length body \<le> MAXIMUM_RESPONSE_BYTES"
  shows "read_chunks body cs = Inr out \<longleftrightarrow>
           (\<forall>c\<in>set cs. \<exists>chunk. c = Inr chunk) \<and> out = body @ chunk_bytes cs
           \<and> length out \<le> MAXIMUM_RESPONSE_BYTES"
  using assms
proof (induction body cs rule: read_chunks.induct)
  case (3 body chunk rest)
  show ?case
  proof (cases "length body + length chunk > MAXIMUM_RESPONSE_BYTES")
    case True
    then show ?thesis by auto
  next
    case False
    then have "length (body @ chunk) \<le> MAXIMUM_RESPONSE_BYTES" by simp
    with "3.IH" [OF False this] False show ?thesis by auto
  qed
qed auto

text \<open>
  A body is accepted exactly when every chunk arrived and the whole of it is within the
  4 MiB budget, and then it is the chunks in order, whatever way the transport cut them.
\<close>

theorem read_bounded_body_iff:
  "read_bounded_body response = Inr body \<longleftrightarrow>
     (\<forall>c\<in>set (rs_chunks response). \<exists>chunk. c = Inr chunk)
     \<and> body = chunk_bytes (rs_chunks response) \<and> length body \<le> MAXIMUM_RESPONSE_BYTES"
  using read_chunks_Inr_iff [of "[]"] by (simp add: read_bounded_body_def)

theorem read_bounded_body_iff_witness:
  "read_bounded_body \<lparr>rs_status = 200, rs_header = (\<lambda>_. None),
       rs_chunks = [Inr ''ab'', Inr ''c'']\<rparr> = Inr ''abc''"
  by (simp add: read_bounded_body_iff MAXIMUM_RESPONSE_BYTES_def)

lemma push_segments_spec:
  "push_segments u segments =
     (case List.find invalid_segment segments of
        Some s \<Rightarrow> Inl (Config (''invalid path segment '' @ debug_segment s))
      | None \<Rightarrow> Inr (u\<lparr>url_segments := url_segments u @ segments\<rparr>))"
  by (induction u segments rule: push_segments.induct) (auto split: option.splits)

text \<open>
  A URL is built exactly when the base can carry a path and no segment is empty or a dot segment;
  it then carries every segment literally and in order, and exactly the query pairs given.
\<close>

lemma build_url_iff:
  "build_url base segments query = Inr u \<longleftrightarrow>
     \<not> cannot_be_a_base base \<and> (\<forall>s\<in>set segments. s \<noteq> [] \<and> s \<noteq> ''.'' \<and> s \<noteq> ''..'')
     \<and> u = \<lparr>url_base = base, url_segments = segments, url_query = query\<rparr>"
proof (cases "List.find invalid_segment segments")
  case None
  then have "\<forall>s\<in>set segments. s \<noteq> [] \<and> s \<noteq> ''.'' \<and> s \<noteq> ''..''"
    by (auto simp: find_None_iff invalid_segment_def)
  with None show ?thesis
    by (auto simp: build_url_def push_segments_spec)
next
  case (Some s)
  then have "s \<in> set segments" "invalid_segment s"
    by (auto simp: find_Some_iff)
  with Some show ?thesis
    by (auto simp: build_url_def push_segments_spec invalid_segment_def)
qed

lemma build_url_segments: "build_url base segments query = Inr u \<Longrightarrow> url_segments u = segments"
  by (simp add: build_url_iff)

end
