(* ===== verification/Legacy_Session.thy ===== *)
theory Legacy_Session
  imports Http
begin

text \<open>
  The cookie session of the legacy controller client (\<open>crates/unifi-api/src/legacy.rs\<close>):
  console detection, login, the shared login failure with its backoff window, re-authentication
  by generation, and the CSRF token. The session sits behind a mutex that is held across a
  login, so each operation here is one atomic section; the step relation at the end is what any
  interleaving of such sections can do to the session.
\<close>

section \<open>State\<close>

datatype console_kind = UnifiOs | Standalone

datatype request_class = IdempotentRead | Mutation

record failed_login_state =
  until :: instant
  login_error :: api_error

record session_state =
  kind :: "console_kind option"
  csrf :: "string option"
  authenticated :: bool
  generation :: u64
  failed_login :: "failed_login_state option"

definition session_default :: session_state where
  "session_default =
     \<lparr>kind = None, csrf = None, authenticated = False, generation = 0, failed_login = None\<rparr>"

record 'e legacy_client = "'e externals" +
  base :: base_url
  username :: string
  password :: string

record 'e world = "'e net" +
  session :: session_state

abbreviation modify_session :: "(session_state \<Rightarrow> session_state) \<Rightarrow> 'e world \<Rightarrow> 'e world" where
  "modify_session f w \<equiv> w\<lparr>session := f (session w)\<rparr>"

section \<open>Classification of answers\<close>

definition LOGIN_REQUIRED_CODE :: string where
  "LOGIN_REQUIRED_CODE = ''api.err.LoginRequired''"

definition CSRF_HEADER :: string where
  "CSRF_HEADER = ''x-csrf-token''"

definition header_value :: "response \<Rightarrow> string \<Rightarrow> string option" where
  "header_value response name =
     (case rs_header response name of Some (Some value) \<Rightarrow> Some value | _ \<Rightarrow> None)"

fun is_login_required :: "api_error \<Rightarrow> bool" where
  "is_login_required (Rejected _ code _) = (as_str code = LOGIN_REQUIRED_CODE)"
| "is_login_required (Status status _) = (status = 401)"
| "is_login_required _ = False"

text \<open>
  A rejection envelope in a body: \<open>meta.rc\<close> is present and not \<open>ok\<close>. The outer option says
  whether there is one, the inner one is its optional \<open>meta.msg\<close> code.
\<close>

definition meta_field :: "string \<Rightarrow> json \<Rightarrow> string option" where
  "meta_field name value =
     Option.bind (Option.bind (jget ''meta'' value) (jget name)) jstr"

definition envelope_rejection ::
  "('e, 'x) externals_scheme \<Rightarrow> bytes \<Rightarrow> string option option" where
  "envelope_rejection X body =
     (case ext_value X body of
        Inl _ \<Rightarrow> None
      | Inr value \<Rightarrow>
          (case meta_field ''rc'' value of
             None \<Rightarrow> None
           | Some rc \<Rightarrow> (if rc = ''ok'' then None else Some (meta_field ''msg'' value))))"

definition rejection ::
  "('e, 'x) externals_scheme \<Rightarrow> nat option \<Rightarrow> string option \<Rightarrow> bytes \<Rightarrow> api_error" where
  "rejection X status code body =
     Rejected status (bounded_new (case code of None \<Rightarrow> [] | Some c \<Rightarrow> c))
       (from_controller_bytes (ext_b64 X) body)"

definition translate_failure ::
  "('e, 'x) externals_scheme \<Rightarrow> nat \<Rightarrow> bytes \<Rightarrow> request_class \<Rightarrow> api_error" where
  "translate_failure X status body class =
     (if status = 401 then Status status (from_controller_bytes (ext_b64 X) body)
      else (case envelope_rejection X body of
              Some code \<Rightarrow> rejection X (Some status) code body
            | None \<Rightarrow> Status status (from_controller_bytes (ext_b64 X) body)))"

section \<open>Operations under the session lock\<close>

definition capture_csrf_into :: "session_state \<Rightarrow> response \<Rightarrow> session_state" where
  "capture_csrf_into s response =
     (case header_value response CSRF_HEADER of
        Some token \<Rightarrow> s\<lparr>csrf := Some token\<rparr>
      | None \<Rightarrow> s)"

definition capture_csrf :: "response \<Rightarrow> 'e world \<Rightarrow> 'e world" where
  "capture_csrf response w = modify_session (\<lambda>s. capture_csrf_into s response) w"

definition shared_failure :: "instant \<Rightarrow> session_state \<Rightarrow> api_error option" where
  "shared_failure now s =
     (case failed_login s of
        Some failure \<Rightarrow> (if now < until failure then Some (login_error failure) else None)
      | None \<Rightarrow> None)"

fun backoff_window :: "api_error \<Rightarrow> duration" where
  "backoff_window (RateLimited (Some delay) _) = max (from_secs 1) (min delay (from_secs 60))"
| "backoff_window (RateLimited None _) = from_secs 5"
| "backoff_window _ = from_secs 1"

definition record_failure :: "instant \<Rightarrow> api_error \<Rightarrow> session_state \<Rightarrow> session_state" where
  "record_failure now err s =
     s\<lparr>failed_login := Some \<lparr>until = now + backoff_window err, login_error = err\<rparr>\<rparr>"

definition send_login ::
  "('e, 'x) legacy_client_scheme \<Rightarrow> string list \<Rightarrow> 'e world
     \<Rightarrow> (api_error + response) \<times> 'e world" where
  "send_login cl segments w =
     (case build_url (base cl) segments [] of
        Inl e \<Rightarrow> (Inl e, w)
      | Inr u \<Rightarrow>
          send_request cl
            \<lparr>rq_method = POST, rq_url = u, rq_headers = [(''accept'', ''application/json'')],
             rq_body = Some (JObj [(''password'', JStr (password cl)),
                                   (''username'', JStr (username cl))])\<rparr> w)"

definition login_accepted :: "session_state \<Rightarrow> session_state" where
  "login_accepted s =
     s\<lparr>authenticated := True, generation := generation s + 1, failed_login := None\<rparr>"

definition finish_login ::
  "('e, 'x) legacy_client_scheme \<Rightarrow> response \<Rightarrow> 'e world \<Rightarrow> (api_error + unit) \<times> 'e world" where
  "finish_login cl response w =
     (let w = capture_csrf response w;
          status = rs_status response
      in if status = 429 then (Inl (rate_limited_error (ext_b64 cl) response), w)
         else (case read_bounded_body response of
                 Inl e \<Rightarrow> (Inl e, w)
               | Inr body \<Rightarrow>
                   (if \<not> is_success status
                    then (Inl (translate_failure cl status body IdempotentRead), w)
                    else (case envelope_rejection cl body of
                            Some code \<Rightarrow> (Inl (rejection cl (Some status) code body), w)
                          | None \<Rightarrow> (Inr (), modify_session login_accepted w)))))"

fun login_segments :: "console_kind \<Rightarrow> string list" where
  "login_segments UnifiOs = [''api'', ''auth'', ''login'']"
| "login_segments Standalone = [''api'', ''login'']"

definition set_kind :: "console_kind \<Rightarrow> 'e world \<Rightarrow> 'e world" where
  "set_kind k w = modify_session (\<lambda>s. s\<lparr>kind := Some k\<rparr>) w"

definition login_at ::
  "('e, 'x) legacy_client_scheme \<Rightarrow> console_kind \<Rightarrow> 'e world \<Rightarrow> (api_error + unit) \<times> 'e world" where
  "login_at cl k = bind_io (send_login cl (login_segments k)) (finish_login cl)"

definition login ::
  "('e, 'x) legacy_client_scheme \<Rightarrow> 'e world \<Rightarrow> (api_error + unit) \<times> 'e world" where
  "login cl w =
     (case kind (session w) of
        Some k \<Rightarrow> login_at cl k w
      | None \<Rightarrow>
          bind_io (send_login cl [''api'', ''auth'', ''login'']) (\<lambda>probe w.
            let status = rs_status probe
            in if status = 404 then login_at cl Standalone (set_kind Standalone w)
               else if status = 429 \<or> is_server_error status then finish_login cl probe w
               else finish_login cl probe (set_kind UnifiOs w)) w)"

text \<open>The tail both callers of \<open>login\<close> share: a failure is recorded for its backoff window.\<close>

definition login_recording ::
  "('e, 'x) legacy_client_scheme \<Rightarrow> 'e world \<Rightarrow> (api_error + unit) \<times> 'e world" where
  "login_recording cl w =
     (case login cl w of
        (Inr u, w) \<Rightarrow> (Inr u, w)
      | (Inl e, w) \<Rightarrow> (Inl e, modify_session (record_failure (ext_now cl (env w)) e) w))"

definition ensure_session ::
  "('e, 'x) legacy_client_scheme \<Rightarrow> 'e world \<Rightarrow> (api_error + u64) \<times> 'e world" where
  "ensure_session cl w =
     (if \<not> authenticated (session w)
      then (case shared_failure (ext_now cl (env w)) (session w) of
              Some shared \<Rightarrow> (Inl shared, w)
            | None \<Rightarrow>
                bind_io (login_recording cl) (\<lambda>_ w. (Inr (generation (session w)), w)) w)
      else (Inr (generation (session w)), w))"

definition refresh_session ::
  "('e, 'x) legacy_client_scheme \<Rightarrow> u64 \<Rightarrow> 'e world \<Rightarrow> (api_error + unit) \<times> 'e world" where
  "refresh_session cl observed_generation w =
     (if generation (session w) \<noteq> observed_generation \<and> authenticated (session w)
      then (Inr (), w)
      else (case shared_failure (ext_now cl (env w)) (session w) of
              Some shared \<Rightarrow> (Inl shared, w)
            | None \<Rightarrow> login_recording cl (modify_session (\<lambda>s. s\<lparr>authenticated := False\<rparr>) w)))"

section \<open>Steps of the session\<close>

text \<open>
  What one atomic section may do to the session. Every operation of the client, and so every
  interleaving of operations of concurrent callers, is a sequence of these steps.
\<close>

inductive session_step :: "session_state \<Rightarrow> session_state \<Rightarrow> bool" where
  token: "session_step s (s\<lparr>csrf := Some t\<rparr>)"
| latch: "kind s = None \<Longrightarrow> session_step s (s\<lparr>kind := Some k\<rparr>)"
| expire: "session_step s (s\<lparr>authenticated := False\<rparr>)"
| accept: "kind s \<noteq> None \<Longrightarrow> session_step s (login_accepted s)"
| refuse: "\<not> authenticated s \<Longrightarrow> session_step s (record_failure now err s)"

abbreviation session_steps :: "session_state \<Rightarrow> session_state \<Rightarrow> bool" where
  "session_steps \<equiv> session_step\<^sup>*\<^sup>*"

inductive_cases session_stepE: "session_step s t"

text \<open>The invariant: an authenticated session knows its console and carries no shared failure.\<close>

definition session_inv :: "session_state \<Rightarrow> bool" where
  "session_inv s \<longleftrightarrow>
     (authenticated s \<longrightarrow> kind s \<noteq> None \<and> failed_login s = None)"

lemma session_inv_default: "session_inv session_default"
  by (simp add: session_inv_def session_default_def)

lemma session_step_inv: "session_step s t \<Longrightarrow> session_inv s \<Longrightarrow> session_inv t"
  by (auto elim!: session_stepE simp: session_inv_def login_accepted_def record_failure_def)

lemma session_steps_inv: "session_steps s t \<Longrightarrow> session_inv s \<Longrightarrow> session_inv t"
  by (induction rule: rtranclp_induct) (auto intro: session_step_inv)

lemma session_step_kind: "session_step s t \<Longrightarrow> kind s = Some k \<Longrightarrow> kind t = Some k"
  by (auto elim!: session_stepE simp: login_accepted_def record_failure_def)

lemma session_steps_kind: "session_steps s t \<Longrightarrow> kind s = Some k \<Longrightarrow> kind t = Some k"
  by (induction rule: rtranclp_induct) (auto intro: session_step_kind)

section \<open>Operations are sequences of steps\<close>

lemma session_send_request [simp]: "session (snd (send_request X request w)) = session w"
  by (simp add: send_request_def split: prod.split)

lemma session_sleep [simp]: "session (sleep X d w) = session w"
  by (simp add: sleep_def)

lemma session_send_login [simp]: "session (snd (send_login cl segments w)) = session w"
  by (simp add: send_login_def split: sum.split)

lemma trace_capture_csrf [simp]: "trace (capture_csrf response w) = trace w"
  by (simp add: capture_csrf_def)

lemma trace_set_kind [simp]: "trace (set_kind k w) = trace w"
  by (simp add: set_kind_def)

lemma session_set_kind [simp]: "session (set_kind k w) = (session w)\<lparr>kind := Some k\<rparr>"
  by (simp add: set_kind_def)

lemma capture_csrf_into_steps: "session_steps s (capture_csrf_into s response)"
  by (auto simp: capture_csrf_into_def split: option.split intro: session_step.token)

lemma capture_csrf_steps: "session_steps (session w) (session (capture_csrf response w))"
  by (simp add: capture_csrf_def capture_csrf_into_steps)

lemma capture_csrf_into_frame [simp]:
  "kind (capture_csrf_into s response) = kind s"
  "authenticated (capture_csrf_into s response) = authenticated s"
  "generation (capture_csrf_into s response) = generation s"
  "failed_login (capture_csrf_into s response) = failed_login s"
  by (simp_all add: capture_csrf_into_def split: option.split)

text \<open>A login answer either leaves everything but the token alone, or starts a generation.\<close>

lemma finish_login_or:
  "(\<exists>e. finish_login cl response w = (Inl e, capture_csrf response w))
   \<or> finish_login cl response w = (Inr (), modify_session login_accepted (capture_csrf response w))
     \<and> is_success (rs_status response)"
  by (simp add: finish_login_def Let_def split: sum.split option.split)

lemma finish_login_cases:
  obtains (refused) e where "finish_login cl response w = (Inl e, capture_csrf response w)"
  | (accepted) "finish_login cl response w =
        (Inr (), modify_session login_accepted (capture_csrf response w))"
      "is_success (rs_status response)"
  using finish_login_or [of cl response w] by blast

lemma trace_finish_login [simp]: "trace (snd (finish_login cl response w)) = trace w"
  by (rule finish_login_cases [of cl response w]) auto

lemma finish_login_steps:
  assumes "kind (session w) \<noteq> None \<or> \<not> is_success (rs_status response)"
  shows "session_steps (session w) (session (snd (finish_login cl response w)))"
proof (rule finish_login_cases [of cl response w])
  fix e assume "finish_login cl response w = (Inl e, capture_csrf response w)"
  then show ?thesis by (simp add: capture_csrf_steps)
next
  assume eq: "finish_login cl response w =
      (Inr (), modify_session login_accepted (capture_csrf response w))"
    and "is_success (rs_status response)"
  with assms have "kind (session (capture_csrf response w)) \<noteq> None"
    by (simp add: capture_csrf_def)
  then have "session_step (session (capture_csrf response w))
      (login_accepted (session (capture_csrf response w)))"
    by (rule session_step.accept)
  with capture_csrf_steps [of w response] eq show ?thesis by simp
qed

lemma login_at_steps:
  assumes "kind (session w) \<noteq> None"
  shows "session_steps (session w) (session (snd (login_at cl k w)))"
  using finish_login_steps [of "snd (send_login cl (login_segments k) w)" _ cl] assms
  by (auto simp: login_at_def snd_bind_io split: sum.split)

lemma not_success_transient: "status = 429 \<or> is_server_error status \<Longrightarrow> \<not> is_success status"
  by (auto simp: is_success_def is_server_error_def)

lemma latch_then:
  assumes "kind s = None" and "session_steps (s\<lparr>kind := Some k\<rparr>) t"
  shows "session_steps s t"
  using session_step.latch [OF assms(1)] assms(2) by (rule converse_rtranclp_into_rtranclp)

lemma login_steps: "session_steps (session w) (session (snd (login cl w)))"
proof (cases "kind (session w)")
  case (Some k)
  then show ?thesis by (simp add: login_def login_at_steps)
next
  case None
  obtain r w' where probe: "send_login cl [''api'', ''auth'', ''login''] w = (r, w')"
    by (metis surj_pair)
  have sw: "session w' = session w"
    using session_send_login [of cl "[''api'', ''auth'', ''login'']" w] probe by simp
  show ?thesis
  proof (cases r)
    case (Inl e)
    with None probe sw show ?thesis by (simp add: login_def bind_io_def)
  next
    case (Inr response)
    have latched: "session_steps (session (set_kind k w')) t \<Longrightarrow> session_steps (session w) t" for k t
      using latch_then [OF None, of k t] sw by simp
    from None probe Inr show ?thesis
      using latched [OF login_at_steps [of "set_kind Standalone w'" cl Standalone]]
        latched [OF finish_login_steps [of "set_kind UnifiOs w'" response cl]]
        finish_login_steps [of w' response cl] not_success_transient [of "rs_status response"] sw
      by (auto simp: login_def bind_io_def Let_def)
  qed
qed

lemma login_failure_unauthenticated:
  assumes "login cl w = (Inl e, w')" and "\<not> authenticated (session w)"
  shows "\<not> authenticated (session w')"
proof -
  have finish: "\<not> authenticated (session v')"
    if "finish_login cl response v = (Inl err, v')" "\<not> authenticated (session v)" for response v v' err
    using that by (rule_tac finish_login_cases [of cl response v]) (auto simp: capture_csrf_def)
  have sent: "authenticated (session v') = authenticated (session v)"
    if "send_login cl segments v = (r, v')" for segments v r v'
    using session_send_login [of cl segments v] that by simp
  have at: "\<not> authenticated (session v')"
    if "login_at cl k v = (Inl err, v')" "\<not> authenticated (session v)" for k v v' err
    using that finish sent
    by (auto simp: login_at_def bind_io_def split: prod.splits sum.splits)
  show ?thesis
    using assms finish at sent
    by (auto simp: login_def bind_io_def Let_def split: option.splits prod.splits sum.splits if_splits)
qed

lemma finish_login_success:
  assumes "finish_login cl response w = (Inr u, w')"
  shows "session w' = login_accepted (capture_csrf_into (session w) response)"
  using finish_login_or [of cl response w] assms by (auto simp: capture_csrf_def)

text \<open>A login that succeeds starts exactly one generation, on a known console.\<close>

lemma login_success:
  assumes "login cl w = (Inr u, w')"
  shows "authenticated (session w') \<and> failed_login (session w') = None
         \<and> kind (session w') \<noteq> None \<and> generation (session w') = generation (session w) + 1"
proof -
  have finish: "authenticated (session v') \<and> failed_login (session v') = None
      \<and> kind (session v') = kind (session v) \<and> generation (session v') = generation (session v) + 1"
    if "finish_login cl response v = (Inr x, v')" for response v v' x
    using finish_login_success [OF that] by (simp add: login_accepted_def)
  have sent: "session v' = session v" if "send_login cl segments v = (r, v')" for segments v r v'
    using session_send_login [of cl segments v] that by simp
  have at: "authenticated (session v') \<and> failed_login (session v') = None
      \<and> kind (session v') = kind (session v) \<and> generation (session v') = generation (session v) + 1"
    if "login_at cl k v = (Inr x, v')" for k v v' x
  proof -
    from that obtain response v1 where
      1: "send_login cl (login_segments k) v = (Inr response, v1)"
      and 2: "finish_login cl response v1 = (Inr x, v')"
      by (auto simp: login_at_def bind_io_def split: prod.splits sum.splits)
    from finish [OF 2] sent [OF 1] show ?thesis by simp
  qed
  show ?thesis
  proof (cases "kind (session w)")
    case (Some k)
    with assms at [of k w u w'] show ?thesis by (simp add: login_def)
  next
    case None
    with assms obtain response w1 where
      send: "send_login cl [''api'', ''auth'', ''login''] w = (Inr response, w1)"
      by (auto simp: login_def bind_io_def split: prod.splits sum.splits)
    show ?thesis
    proof (cases "rs_status response = 404")
      case True
      with assms None send have "login_at cl Standalone (set_kind Standalone w1) = (Inr u, w')"
        by (simp add: login_def bind_io_def Let_def)
      from at [OF this] sent [OF send] show ?thesis by simp
    next
      case False
      show ?thesis
      proof (cases "rs_status response = 429 \<or> is_server_error (rs_status response)")
        case True
        with False assms None send have "finish_login cl response w1 = (Inr u, w')"
          by (simp add: login_def bind_io_def Let_def)
        with not_success_transient [OF True] finish_login_or [of cl response w1] show ?thesis
          by auto
      next
        case later: False
        with False assms None send
        have "finish_login cl response (set_kind UnifiOs w1) = (Inr u, w')"
          by (simp add: login_def bind_io_def Let_def)
        from finish [OF this] sent [OF send] show ?thesis by simp
      qed
    qed
  qed
qed

lemma login_recording_steps:
  assumes "\<not> authenticated (session w)"
  shows "session_steps (session w) (session (snd (login_recording cl w)))"
proof (cases "login cl w")
  case (Pair r w')
  have steps: "session_steps (session w) (session w')"
    using login_steps [of w cl] Pair by simp
  show ?thesis
  proof (cases r)
    case (Inr u)
    with Pair steps show ?thesis by (simp add: login_recording_def)
  next
    case (Inl e)
    with Pair have "\<not> authenticated (session w')"
      using login_failure_unauthenticated assms by blast
    then have "session_step (session w') (record_failure (ext_now cl (env w')) e (session w'))"
      by (rule session_step.refuse)
    with steps Pair Inl show ?thesis by (simp add: login_recording_def)
  qed
qed

lemma ensure_session_steps: "session_steps (session w) (session (snd (ensure_session cl w)))"
  using login_recording_steps [of w cl]
  by (auto simp: ensure_session_def snd_bind_io split: option.split sum.split)

lemma refresh_session_steps: "session_steps (session w) (session (snd (refresh_session cl g w)))"
proof -
  let ?w = "modify_session (\<lambda>s. s\<lparr>authenticated := False\<rparr>) w"
  have "session_steps (session ?w) (session (snd (login_recording cl ?w)))"
    by (rule login_recording_steps) simp
  moreover have "session_step (session w) (session ?w)"
    using session_step.expire [of "session w"] by simp
  ultimately show ?thesis
    by (auto simp: refresh_session_def split: option.split intro: converse_rtranclp_into_rtranclp)
qed

lemma ensure_session_success:
  assumes "ensure_session cl w = (Inr g, w')" and "session_inv (session w)"
  shows "authenticated (session w') \<and> kind (session w') \<noteq> None \<and> g = generation (session w')"
proof (cases "authenticated (session w)")
  case True
  with assms show ?thesis by (auto simp: ensure_session_def session_inv_def)
next
  case False
  with assms obtain u w1 where "login cl w = (Inr u, w1)" "w' = w1" "g = generation (session w1)"
    by (auto simp: ensure_session_def bind_io_def login_recording_def
        split: option.splits prod.splits sum.splits)
  with login_success show ?thesis by blast
qed

section \<open>What is sent\<close>

definition is_login_request :: "request \<Rightarrow> bool" where
  "is_login_request r \<longleftrightarrow>
     url_segments (rq_url r) = [''api'', ''auth'', ''login'']
     \<or> url_segments (rq_url r) = [''api'', ''login'']"

fun login_event :: "io_event \<Rightarrow> bool" where
  "login_event (Sent r) = is_login_request r"
| "login_event (Slept _) = False"

lemma send_login_trace:
  "\<exists>tr. trace (snd (send_login cl (login_segments k) w)) = trace w @ tr
        \<and> (\<forall>ev\<in>set tr. login_event ev) \<and> length tr \<le> 1"
  by (cases k)
     (auto simp: send_login_def is_login_request_def dest: build_url_segments split: sum.split)

lemma login_at_trace:
  "\<exists>tr. trace (snd (login_at cl k w)) = trace w @ tr
        \<and> (\<forall>ev\<in>set tr. login_event ev) \<and> length tr \<le> 1"
  using send_login_trace [of cl k w]
  by (auto simp: login_at_def snd_bind_io split: sum.split)

lemma login_trace:
  "\<exists>tr. trace (snd (login cl w)) = trace w @ tr \<and> (\<forall>ev\<in>set tr. login_event ev)
        \<and> length tr \<le> (if kind (session w) = None then 2 else 1)"
proof (cases "kind (session w)")
  case (Some k)
  with login_at_trace [of cl k w] show ?thesis by (simp add: login_def)
next
  case None
  obtain r w1 where probe: "send_login cl [''api'', ''auth'', ''login''] w = (r, w1)"
    by (metis surj_pair)
  from send_login_trace [of cl UnifiOs w] probe obtain tr1 where
    1: "trace w1 = trace w @ tr1" "\<forall>ev\<in>set tr1. login_event ev" "length tr1 \<le> 1" by auto
  show ?thesis
  proof (cases "\<exists>response. r = Inr response \<and> rs_status response = 404")
    case True
    then obtain response where r: "r = Inr response" "rs_status response = 404" by blast
    from login_at_trace [of cl Standalone "set_kind Standalone w1"] obtain tr2 where
      2: "trace (snd (login_at cl Standalone (set_kind Standalone w1))) = trace w1 @ tr2"
        "\<forall>ev\<in>set tr2. login_event ev" "length tr2 \<le> 1" by auto
    from None probe r have "snd (login cl w) = snd (login_at cl Standalone (set_kind Standalone w1))"
      by (simp add: login_def bind_io_def)
    with 1 2 None show ?thesis by (intro exI [of _ "tr1 @ tr2"]) auto
  next
    case False
    with None probe 1 show ?thesis
      by (cases r) (auto simp: login_def bind_io_def Let_def)
  qed
qed

lemma login_recording_trace:
  "\<exists>tr. trace (snd (login_recording cl w)) = trace w @ tr \<and> (\<forall>ev\<in>set tr. login_event ev)
        \<and> length tr \<le> (if kind (session w) = None then 2 else 1)"
  using login_trace [of cl w] by (auto simp: login_recording_def split: prod.split sum.split)

lemma ensure_session_trace:
  "\<exists>tr. trace (snd (ensure_session cl w)) = trace w @ tr \<and> (\<forall>ev\<in>set tr. login_event ev)
        \<and> length tr \<le> 2"
  using login_recording_trace [of cl w]
  by (auto simp: ensure_session_def snd_bind_io split: option.split sum.split if_splits)

lemma refresh_session_trace:
  assumes "kind (session w) \<noteq> None"
  shows "\<exists>tr. trace (snd (refresh_session cl g w)) = trace w @ tr
           \<and> (\<forall>ev\<in>set tr. login_event ev) \<and> length tr \<le> 1"
  using login_recording_trace [of cl "modify_session (\<lambda>s. s\<lparr>authenticated := False\<rparr>) w"] assms
  by (auto simp: refresh_session_def split: option.split)

section \<open>Properties of the session\<close>

text \<open>
  An offline client for concrete instances: its transport answers every request with the same
  result.
\<close>

definition canned_client :: "(string + response) \<Rightarrow> unit legacy_client" where
  "canned_client answer =
     \<lparr>ext_send = (\<lambda>_ e. (answer, e)), ext_now = (\<lambda>_. 0), ext_sleep = (\<lambda>_ e. e),
      ext_value = (\<lambda>_. Inr JNull), ext_b64 = (\<lambda>b. b), ext_lowercase = to_ascii_lowercase,
      base = \<lparr>base_origin = ''https://console'', cannot_be_a_base = False\<rparr>,
      username = ''u'', password = ''p''\<rparr>"

definition canned_world :: "session_state \<Rightarrow> unit world" where
  "canned_world s = \<lparr>env = (), trace = [], session = s\<rparr>"

text \<open>
  However a login fails, the next one is held back between one second and one minute, and
  the controller's own \<open>Retry-After\<close> is what decides within these bounds.
\<close>

theorem backoff_window_bounds:
  "from_secs 1 \<le> backoff_window err \<and> backoff_window err \<le> from_secs 60
   \<and> (\<forall>d m. err = RateLimited (Some d) m \<and> from_secs 1 \<le> d \<and> d \<le> from_secs 60
        \<longrightarrow> backoff_window err = d)"
  by (cases err rule: backoff_window.cases) (auto simp: from_secs_def max_def min_def)

theorem backoff_window_bounds_witness:
  "backoff_window (RateLimited (Some (from_secs 7)) (BoundedMessage ''slow down'')) = from_secs 7"
proof -
  have h: "RateLimited (Some (from_secs 7)) (BoundedMessage ''slow down'')
             = RateLimited (Some (from_secs 7)) (BoundedMessage ''slow down'')
           \<and> from_secs 1 \<le> from_secs 7 \<and> from_secs 7 \<le> from_secs 60"
    by (simp add: from_secs_def)
  show ?thesis
    by (rule backoff_window_bounds [THEN conjunct2, THEN conjunct2, rule_format, OF h])
qed

text \<open>
  A session handed to a caller is ready for use: it is authenticated, its console kind is
  known, and the generation returned is the current one. So the client never reaches its
  \<open>session used before console detection\<close> error after opening a session.
\<close>

theorem ensure_session_ready:
  assumes "ensure_session cl w = (Inr g, w')" and "session_inv (session w)"
  shows "authenticated (session w') \<and> kind (session w') \<noteq> None \<and> g = generation (session w')"
  using ensure_session_success [OF assms] .

theorem ensure_session_ready_witness:
  "session_inv (session (canned_world (session_default\<lparr>kind := Some UnifiOs, authenticated := True\<rparr>)))
   \<and> authenticated (session (canned_world (session_default\<lparr>kind := Some UnifiOs, authenticated := True\<rparr>)))"
proof -
  let ?w = "canned_world (session_default\<lparr>kind := Some UnifiOs, authenticated := True\<rparr>)"
  have inv: "session_inv (session ?w)"
    by (simp add: canned_world_def session_inv_def session_default_def)
  have "ensure_session (canned_client (Inl ''down'')) ?w = (Inr 0, ?w)"
    by (simp add: ensure_session_def canned_world_def session_default_def)
  from ensure_session_ready [OF this inv] inv show ?thesis by blast
qed

lemma login_recording_failure:
  assumes "login_recording cl w = (Inl err, w')" and "\<not> authenticated (session w)"
  shows "\<not> authenticated (session w')
         \<and> failed_login (session w') =
             Some \<lparr>until = ext_now cl (env w') + backoff_window err, login_error = err\<rparr>"
proof -
  from assms(1) obtain w1 where l: "login cl w = (Inl err, w1)"
    and w': "w' = modify_session (record_failure (ext_now cl (env w1)) err) w1"
    by (auto simp: login_recording_def split: prod.splits sum.splits)
  from login_failure_unauthenticated [OF l assms(2)] w' show ?thesis
    by (simp add: record_failure_def)
qed

lemma refresh_session_failure:
  assumes "refresh_session cl g w = (Inl err, w')" and "session_inv (session w)"
  shows "\<not> authenticated (session w') \<and> (\<exists>f. failed_login (session w') = Some f \<and> login_error f = err)"
proof (cases "shared_failure (ext_now cl (env w)) (session w)")
  case (Some shared)
  with assms show ?thesis
    by (auto simp: refresh_session_def shared_failure_def session_inv_def
        split: option.splits if_splits)
next
  case None
  let ?w = "modify_session (\<lambda>s. s\<lparr>authenticated := False\<rparr>) w"
  from None assms(1) have "login_recording cl ?w = (Inl err, w')"
    by (simp add: refresh_session_def split: if_splits)
  from login_recording_failure [OF this] show ?thesis by simp
qed

text \<open>
  C9. When a refresh fails, every caller that comes before the backoff window closes gets that
  same error at once: no request is sent and nothing of the session changes, whatever generation
  the caller saw.
\<close>

theorem failed_refresh_is_shared:
  assumes "refresh_session cl g w = (Inl err, w')" and "session_inv (session w)"
  shows "\<exists>f. failed_login (session w') = Some f \<and> login_error f = err
           \<and> (\<forall>e g'. ext_now cl e < until f \<longrightarrow>
                 refresh_session cl g' (w'\<lparr>env := e\<rparr>) = (Inl err, w'\<lparr>env := e\<rparr>)
                 \<and> ensure_session cl (w'\<lparr>env := e\<rparr>) = (Inl err, w'\<lparr>env := e\<rparr>))"
proof -
  from refresh_session_failure [OF assms] obtain f where
    "\<not> authenticated (session w')" "failed_login (session w') = Some f" "login_error f = err" by blast
  then show ?thesis
    by (intro exI [of _ f]) (simp add: refresh_session_def ensure_session_def shared_failure_def)
qed

theorem failed_refresh_is_shared_witness:
  "\<exists>f. failed_login (session (snd (refresh_session (canned_client (Inl ''down'')) 0
          (canned_world (session_default\<lparr>kind := Some UnifiOs, authenticated := True\<rparr>))))) = Some f
       \<and> login_error f = Transport (bounded_new ''down'')"
proof -
  let ?w = "canned_world (session_default\<lparr>kind := Some UnifiOs, authenticated := True\<rparr>)"
  let ?cl = "canned_client (Inl ''down'')"
  have inv: "session_inv (session ?w)"
    by (simp add: canned_world_def session_inv_def session_default_def)
  have "fst (refresh_session ?cl 0 ?w) = Inl (Transport (bounded_new ''down''))"
    by (simp add: refresh_session_def canned_world_def session_default_def canned_client_def
        shared_failure_def login_recording_def login_def login_at_def bind_io_def send_login_def
        build_url_def invalid_segment_def send_request_def)
  then have "refresh_session ?cl 0 ?w = (Inl (Transport (bounded_new ''down'')), snd (refresh_session ?cl 0 ?w))"
    by (metis prod.collapse)
  from failed_refresh_is_shared [OF this inv] show ?thesis by blast
qed

text \<open>
  C10. Callers that saw the same expired generation share one login: once one of them has
  refreshed the session, the refresh of any other is a no-op that sends nothing. (The generation
  a caller saw is never the one a login to come will start.)
\<close>

theorem refresh_happens_once_per_generation:
  assumes "refresh_session cl g w = (Inr u, w')" and "g \<noteq> generation (session w) + 1"
  shows "refresh_session cl g w' = (Inr (), w')"
proof (cases "generation (session w) \<noteq> g \<and> authenticated (session w)")
  case True
  with assms show ?thesis by (simp add: refresh_session_def)
next
  case False
  let ?w = "modify_session (\<lambda>s. s\<lparr>authenticated := False\<rparr>) w"
  from False assms(1) have "login_recording cl ?w = (Inr u, w')"
    by (auto simp: refresh_session_def split: option.splits)
  then have "login cl ?w = (Inr u, w')"
    by (auto simp: login_recording_def split: prod.splits sum.splits)
  from login_success [OF this] assms(2) show ?thesis by (auto simp: refresh_session_def)
qed

theorem refresh_happens_once_per_generation_witness:
  "\<exists>w'. refresh_session (canned_client (Inr \<lparr>rs_status = 200, rs_header = (\<lambda>_. None), rs_chunks = []\<rparr>)) 0
          (canned_world (session_default\<lparr>kind := Some UnifiOs, authenticated := True\<rparr>)) = (Inr (), w')
        \<and> refresh_session (canned_client (Inr \<lparr>rs_status = 200, rs_header = (\<lambda>_. None), rs_chunks = []\<rparr>)) 0
            w' = (Inr (), w')"
proof -
  let ?w = "canned_world (session_default\<lparr>kind := Some UnifiOs, authenticated := True\<rparr>)"
  let ?cl = "canned_client (Inr \<lparr>rs_status = 200, rs_header = (\<lambda>_. None), rs_chunks = []\<rparr>)"
  have "fst (refresh_session ?cl 0 ?w) = Inr ()"
    by (simp add: refresh_session_def canned_world_def session_default_def canned_client_def
        shared_failure_def login_recording_def login_def login_at_def bind_io_def send_login_def
        build_url_def invalid_segment_def send_request_def finish_login_def read_bounded_body_def
        envelope_rejection_def meta_field_def is_success_def Let_def)
  then have 1: "refresh_session ?cl 0 ?w = (Inr (), snd (refresh_session ?cl 0 ?w))"
    by (metis prod.collapse)
  have 2: "0 \<noteq> generation (session ?w) + 1"
    by (simp add: canned_world_def session_default_def)
  from 1 refresh_happens_once_per_generation [OF 1 2] show ?thesis by blast
qed

end
