(* ===== verification/Legacy_Client.thy ===== *)
theory Legacy_Client
  imports Legacy_Session
begin

text \<open>
  The request path of the legacy controller client (\<open>crates/unifi-api/src/legacy.rs\<close>): one
  request, its decoding, and the rule for reissuing it. Typed decoding is generated by serde,
  so each operation takes the decoder of its row type as a parameter. The operations built on
  this path are in \<open>Legacy_Operations\<close>.
\<close>

section \<open>One request\<close>

definition MAXIMUM_RETRY_AFTER :: duration where
  "MAXIMUM_RETRY_AFTER = from_secs 10"

record 'a legacy_envelope =
  meta_rc :: string
  meta_msg :: "string option"
  envelope_data :: "'a list"

type_synonym 'a decoder = "bytes \<Rightarrow> string + 'a"

definition accept_json :: "(string \<times> string) list" where
  "accept_json = [(''accept'', ''application/json'')]"

definition execute_request_bytes ::
  "('e, 'x) legacy_client_scheme \<Rightarrow> request_class \<Rightarrow> request \<Rightarrow> 'e world
     \<Rightarrow> (api_error + nat \<times> bytes) \<times> 'e world" where
  "execute_request_bytes cl cls request =
     bind_io (send_request cl request) (\<lambda>response w.
       let w = capture_csrf response w;
           status = rs_status response
       in if status = 429 then (Inl (rate_limited_error (ext_b64 cl) response), w)
          else (case read_bounded_body response of
                  Inl e \<Rightarrow> (Inl e, w)
                | Inr body \<Rightarrow>
                    (if \<not> is_success status then (Inl (translate_failure cl status body cls), w)
                     else (Inr (status, body), w))))"

fun site_segments :: "console_kind \<Rightarrow> string \<Rightarrow> string list \<Rightarrow> string list" where
  "site_segments UnifiOs site tail = [''proxy'', ''network'', ''api'', ''s''] @ [site] @ tail"
| "site_segments Standalone site tail = [''api'', ''s''] @ [site] @ tail"

text \<open>The token goes with anything but a \<open>GET\<close>, and only to a UniFi OS console.\<close>

definition csrf_headers ::
  "http_method \<Rightarrow> console_kind \<Rightarrow> string option \<Rightarrow> (string \<times> string) list" where
  "csrf_headers verb k token =
     (if verb \<noteq> GET \<and> k = UnifiOs
      then (case token of Some t \<Rightarrow> [(CSRF_HEADER, t)] | None \<Rightarrow> []) else [])"

definition execute_bytes ::
  "('e, 'x) legacy_client_scheme \<Rightarrow> request_class \<Rightarrow> http_method \<Rightarrow> string \<Rightarrow> string list
     \<Rightarrow> json option \<Rightarrow> 'e world \<Rightarrow> (api_error + nat \<times> bytes) \<times> 'e world" where
  "execute_bytes cl cls verb site tail body w =
     (case kind (session w) of
        None \<Rightarrow> (Inl (Config ''session used before console detection''), w)
      | Some k \<Rightarrow>
          (case build_url (base cl) (site_segments k site tail) [] of
             Inl e \<Rightarrow> (Inl e, w)
           | Inr u \<Rightarrow>
               execute_request_bytes cl cls
                 \<lparr>rq_method = verb, rq_url = u,
                  rq_headers = accept_json @ csrf_headers verb k (csrf (session w)),
                  rq_body = body\<rparr> w))"

definition execute_with_status_bytes ::
  "'a legacy_envelope decoder \<Rightarrow> ('e, 'x) legacy_client_scheme \<Rightarrow> request_class \<Rightarrow> http_method
     \<Rightarrow> string \<Rightarrow> string list \<Rightarrow> json option \<Rightarrow> 'e world
     \<Rightarrow> (api_error + 'a list \<times> nat \<times> bytes) \<times> 'e world" where
  "execute_with_status_bytes dec cl cls verb site tail body =
     bind_io (execute_bytes cl cls verb site tail body) (\<lambda>(status, bytes).
       return_io
         (case dec bytes of
            Inl err \<Rightarrow> Inl (decode_failure (ext_b64 cl) err bytes)
          | Inr envelope \<Rightarrow>
              (if meta_rc envelope = ''ok'' then Inr (envelope_data envelope, status, bytes)
               else Inl (rejection cl (Some status) (meta_msg envelope) bytes))))"

definition execute_with_bytes ::
  "'a legacy_envelope decoder \<Rightarrow> ('e, 'x) legacy_client_scheme \<Rightarrow> request_class \<Rightarrow> http_method
     \<Rightarrow> string \<Rightarrow> string list \<Rightarrow> json option \<Rightarrow> 'e world
     \<Rightarrow> (api_error + 'a list \<times> bytes) \<times> 'e world" where
  "execute_with_bytes dec cl cls verb site tail body =
     map_io (\<lambda>(rows, _, bytes). (rows, bytes))
       (execute_with_status_bytes dec cl cls verb site tail body)"

definition execute ::
  "'a legacy_envelope decoder \<Rightarrow> ('e, 'x) legacy_client_scheme \<Rightarrow> request_class \<Rightarrow> http_method
     \<Rightarrow> string \<Rightarrow> string list \<Rightarrow> json option \<Rightarrow> 'e world
     \<Rightarrow> (api_error + 'a list) \<times> 'e world" where
  "execute dec cl cls verb site tail body =
     map_io fst (execute_with_bytes dec cl cls verb site tail body)"

section \<open>Reissuing a request\<close>

text \<open>\<open>Err(RateLimited { retry_after: Some(delay), .. }) if delay <= MAXIMUM_RETRY_AFTER\<close>.\<close>

fun retry_delay :: "api_error \<Rightarrow> duration option" where
  "retry_delay (RateLimited (Some delay) _) =
     (if delay \<le> MAXIMUM_RETRY_AFTER then Some delay else None)"
| "retry_delay _ = None"

text \<open>
  The shape every dedicated read of the client repeats: execute; when the session is gone,
  refresh it and execute once more; when rate limited with a short delay, sleep and execute once
  more. \<open>retry_limits\<close> says whether the read has the rate-limit arm.
\<close>

definition read_with_reauth ::
  "bool \<Rightarrow> ('e, 'x) legacy_client_scheme \<Rightarrow> ('e world \<Rightarrow> (api_error + 'a) \<times> 'e world) \<Rightarrow> 'e world
     \<Rightarrow> (api_error + 'a) \<times> 'e world" where
  "read_with_reauth retry_limits cl attempt =
     bind_io (ensure_session cl) (\<lambda>observed w.
       case attempt w of
         (Inr result, w) \<Rightarrow> (Inr result, w)
       | (Inl err, w) \<Rightarrow>
           (if is_login_required err
            then bind_io (map_err_io (with_refresh_failure err) (refresh_session cl observed))
                   (\<lambda>_. attempt) w
            else (case retry_delay err of
                    Some delay \<Rightarrow> (if retry_limits then attempt (sleep cl delay w) else (Inl err, w))
                  | None \<Rightarrow> (Inl err, w))))"

text \<open>
  The general request: the same for an idempotent read; a mutation refreshes the session for
  later callers but is never sent again, and its caller gets the controller's own answer.
\<close>

definition request_with_reauth_with_status_bytes ::
  "'a legacy_envelope decoder \<Rightarrow> ('e, 'x) legacy_client_scheme \<Rightarrow> request_class \<Rightarrow> http_method
     \<Rightarrow> string \<Rightarrow> string list \<Rightarrow> json option \<Rightarrow> 'e world
     \<Rightarrow> (api_error + 'a list \<times> nat \<times> bytes) \<times> 'e world" where
  "request_with_reauth_with_status_bytes dec cl cls verb site tail body =
     bind_io (ensure_session cl) (\<lambda>observed w.
       case execute_with_status_bytes dec cl cls verb site tail body w of
         (Inr result, w) \<Rightarrow> (Inr result, w)
       | (Inl err, w) \<Rightarrow>
           (if is_login_required err
            then (case refresh_session cl observed w of
                    (refresh, w) \<Rightarrow>
                      (if cls = Mutation then (Inl err, w)
                       else (case map_err (with_refresh_failure err) refresh of
                               Inl e \<Rightarrow> (Inl e, w)
                             | Inr _ \<Rightarrow>
                                 execute_with_status_bytes dec cl cls verb site tail body w)))
            else (case retry_delay err of
                    Some delay \<Rightarrow>
                      (if cls = IdempotentRead
                       then execute_with_status_bytes dec cl cls verb site tail body
                              (sleep cl delay w)
                       else (Inl err, w))
                  | None \<Rightarrow> (Inl err, w))))"

definition request_with_reauth_with_bytes ::
  "'a legacy_envelope decoder \<Rightarrow> ('e, 'x) legacy_client_scheme \<Rightarrow> request_class \<Rightarrow> http_method
     \<Rightarrow> string \<Rightarrow> string list \<Rightarrow> json option \<Rightarrow> 'e world
     \<Rightarrow> (api_error + 'a list \<times> bytes) \<times> 'e world" where
  "request_with_reauth_with_bytes dec cl cls verb site tail body =
     map_io (\<lambda>(rows, _, bytes). (rows, bytes))
       (request_with_reauth_with_status_bytes dec cl cls verb site tail body)"

definition request_with_reauth ::
  "'a legacy_envelope decoder \<Rightarrow> ('e, 'x) legacy_client_scheme \<Rightarrow> request_class \<Rightarrow> http_method
     \<Rightarrow> string \<Rightarrow> string list \<Rightarrow> json option \<Rightarrow> 'e world
     \<Rightarrow> (api_error + 'a list) \<times> 'e world" where
  "request_with_reauth dec cl cls verb site tail body =
     map_io fst (request_with_reauth_with_bytes dec cl cls verb site tail body)"

section \<open>Attempts: the interface the reissuing code relies on\<close>

text \<open>
  One attempt of a request: it only takes session steps and sends at most one request, never a
  login. Everything the reissuing rule guarantees follows from these laws.
\<close>

locale request_attempt =
  fixes attempt :: "'e world \<Rightarrow> (api_error + 'a) \<times> 'e world"
  assumes attempt_steps: "session_steps (session w) (session (snd (attempt w)))"
    and attempt_trace: "\<exists>tr. trace (snd (attempt w)) = trace w @ tr \<and> length tr \<le> 1
                          \<and> (\<forall>ev\<in>set tr. \<exists>r. ev = Sent r \<and> \<not> is_login_request r)"
begin

lemma attempt_inv: "session_inv (session w) \<Longrightarrow> session_inv (session (snd (attempt w)))"
  using attempt_steps by (rule session_steps_inv)

lemma attempt_kind: "kind (session w) \<noteq> None \<Longrightarrow> kind (session (snd (attempt w))) \<noteq> None"
  using session_steps_kind [OF attempt_steps] by fastforce

end

text \<open>The events of a trace that put a request other than a login on the wire.\<close>

definition payload_sends :: "io_event list \<Rightarrow> nat" where
  "payload_sends tr =
     length (filter (\<lambda>ev. case ev of Sent r \<Rightarrow> \<not> is_login_request r | Slept _ \<Rightarrow> False) tr)"

definition login_sends :: "io_event list \<Rightarrow> nat" where
  "login_sends tr = length (filter login_event tr)"

definition sleeps :: "io_event list \<Rightarrow> duration list" where
  "sleeps tr = List.map_filter (\<lambda>ev. case ev of Slept d \<Rightarrow> Some d | Sent _ \<Rightarrow> None) tr"

lemma payload_sends_append [simp]:
  "payload_sends [] = 0" "payload_sends (tr @ tr') = payload_sends tr + payload_sends tr'"
  by (simp_all add: payload_sends_def)

lemma login_sends_append [simp]:
  "login_sends [] = 0" "login_sends (tr @ tr') = login_sends tr + login_sends tr'"
  by (simp_all add: login_sends_def)

lemma sleeps_append [simp]: "sleeps [] = []" "sleeps (tr @ tr') = sleeps tr @ sleeps tr'"
  by (simp_all add: sleeps_def map_filter_def)

lemma slept_counts [simp]:
  "payload_sends (Slept d # tr) = payload_sends tr"
  "login_sends (Slept d # tr) = login_sends tr"
  "sleeps (Slept d # tr) = d # sleeps tr"
  by (simp_all add: payload_sends_def login_sends_def sleeps_def map_filter_def)

lemma login_events_counts:
  assumes "\<forall>ev\<in>set tr. login_event ev"
  shows "payload_sends tr = 0 \<and> login_sends tr = length tr \<and> sleeps tr = []"
  using assms
proof (induction tr)
  case (Cons ev tr)
  then show ?case
    by (cases ev) (auto simp: payload_sends_def login_sends_def sleeps_def map_filter_def)
qed simp

lemma attempt_events_counts:
  assumes "\<forall>ev\<in>set tr. \<exists>r. ev = Sent r \<and> \<not> is_login_request r"
  shows "payload_sends tr = length tr \<and> login_sends tr = 0 \<and> sleeps tr = []"
  using assms
  by (induction tr) (auto simp: payload_sends_def login_sends_def sleeps_def map_filter_def)

section \<open>What a reissued read sends\<close>

lemma ensure_session_counts:
  "\<exists>tr. trace (snd (ensure_session cl w)) = trace w @ tr
        \<and> payload_sends tr = 0 \<and> login_sends tr \<le> 2 \<and> sleeps tr = []"
proof -
  from ensure_session_trace [of cl w] obtain tr where
    "trace (snd (ensure_session cl w)) = trace w @ tr"
    "\<forall>ev\<in>set tr. login_event ev" "length tr \<le> 2" by blast
  with login_events_counts [of tr] show ?thesis by (intro exI [of _ tr]) simp
qed

lemma refresh_session_counts:
  assumes "kind (session w) \<noteq> None"
  shows "\<exists>tr. trace (snd (refresh_session cl g w)) = trace w @ tr
           \<and> payload_sends tr = 0 \<and> login_sends tr \<le> 1 \<and> sleeps tr = []"
proof -
  from refresh_session_trace [OF assms, of cl g] obtain tr where
    "trace (snd (refresh_session cl g w)) = trace w @ tr"
    "\<forall>ev\<in>set tr. login_event ev" "length tr \<le> 1" by blast
  with login_events_counts [of tr] show ?thesis by (intro exI [of _ tr]) simp
qed

lemma retry_delay_bound: "retry_delay err = Some d \<Longrightarrow> d \<le> MAXIMUM_RETRY_AFTER"
  by (cases err rule: retry_delay.cases) (auto split: if_splits)

text \<open>What follows a failed first attempt of a read, and what follows any first attempt.\<close>

definition second_try ::
  "('e world \<Rightarrow> (api_error + 'a) \<times> 'e world) \<Rightarrow> bool \<Rightarrow> ('e, 'x) legacy_client_scheme \<Rightarrow> u64
     \<Rightarrow> api_error \<Rightarrow> 'e world \<Rightarrow> (api_error + 'a) \<times> 'e world" where
  "second_try attempt retry_limits cl observed err w =
     (if is_login_required err
      then bind_io (map_err_io (with_refresh_failure err) (refresh_session cl observed))
             (\<lambda>_. attempt) w
      else (case retry_delay err of
              Some delay \<Rightarrow> (if retry_limits then attempt (sleep cl delay w) else (Inl err, w))
            | None \<Rightarrow> (Inl err, w)))"

lemma read_with_reauth_eq:
  "read_with_reauth retry_limits cl attempt =
     bind_io (ensure_session cl) (\<lambda>observed w.
       case attempt w of
         (Inr result, w) \<Rightarrow> (Inr result, w)
       | (Inl err, w) \<Rightarrow> second_try attempt retry_limits cl observed err w)"
  by (simp only: read_with_reauth_def second_try_def)

context request_attempt
begin

lemma attempt_counts:
  "\<exists>tr. trace (snd (attempt w)) = trace w @ tr
        \<and> payload_sends tr \<le> 1 \<and> login_sends tr = 0 \<and> sleeps tr = []"
proof -
  from attempt_trace [of w] obtain tr where
    "trace (snd (attempt w)) = trace w @ tr" "length tr \<le> 1"
    "\<forall>ev\<in>set tr. \<exists>r. ev = Sent r \<and> \<not> is_login_request r" by blast
  with attempt_events_counts [of tr] show ?thesis by (intro exI [of _ tr]) simp
qed

lemma second_try_steps:
  "session_steps (session w) (session (snd (second_try attempt retry_limits cl observed err w)))"
proof (cases "is_login_required err")
  case True
  let ?r = "snd (refresh_session cl observed w)"
  have "session_steps (session w) (session ?r)" by (rule refresh_session_steps)
  moreover have "session_steps (session ?r) (session (snd (attempt ?r)))" by (rule attempt_steps)
  ultimately have "session_steps (session w) (session (snd (attempt ?r)))" by (rule rtranclp_trans)
  with True refresh_session_steps [of w cl observed] show ?thesis
    by (auto simp: second_try_def snd_bind_io split: sum.split)
next
  case False
  show ?thesis
    using False attempt_steps [of "sleep cl d w" for d]
    by (auto simp: second_try_def split: option.split)
qed

lemma second_try_counts:
  assumes "kind (session w) \<noteq> None"
  shows "\<exists>tr. trace (snd (second_try attempt retry_limits cl observed err w)) = trace w @ tr
           \<and> payload_sends tr \<le> 1 \<and> login_sends tr \<le> 1
           \<and> length (sleeps tr) \<le> 1 \<and> (\<forall>d\<in>set (sleeps tr). d \<le> MAXIMUM_RETRY_AFTER)
           \<and> (\<not> retry_limits \<longrightarrow> sleeps tr = [])"
proof (cases "is_login_required err")
  case True
  from refresh_session_counts [OF assms, of cl observed] obtain tr1 where
    1: "trace (snd (refresh_session cl observed w)) = trace w @ tr1"
      "payload_sends tr1 = 0" "login_sends tr1 \<le> 1" "sleeps tr1 = []" by blast
  from attempt_counts [of "snd (refresh_session cl observed w)"] obtain tr2 where
    2: "trace (snd (attempt (snd (refresh_session cl observed w)))) =
          trace (snd (refresh_session cl observed w)) @ tr2"
      "payload_sends tr2 \<le> 1" "login_sends tr2 = 0" "sleeps tr2 = []" by blast
  from True have
    "snd (second_try attempt retry_limits cl observed err w) = snd (refresh_session cl observed w)
     \<or> snd (second_try attempt retry_limits cl observed err w)
       = snd (attempt (snd (refresh_session cl observed w)))"
    by (simp add: second_try_def snd_bind_io split: sum.split)
  then show ?thesis
  proof
    assume "snd (second_try attempt retry_limits cl observed err w) = snd (refresh_session cl observed w)"
    with 1 show ?thesis by (intro exI [of _ tr1]) simp
  next
    assume "snd (second_try attempt retry_limits cl observed err w)
       = snd (attempt (snd (refresh_session cl observed w)))"
    with 1 2 show ?thesis by (intro exI [of _ "tr1 @ tr2"]) simp
  qed
next
  case False
  show ?thesis
  proof (cases "retry_delay err")
    case None
    with False show ?thesis by (intro exI [of _ "[]"]) (simp add: second_try_def)
  next
    case (Some delay)
    from attempt_counts [of "sleep cl delay w"] obtain tr where
      tr: "trace (snd (attempt (sleep cl delay w))) = trace (sleep cl delay w) @ tr"
        "payload_sends tr \<le> 1" "login_sends tr = 0" "sleeps tr = []" by blast
    show ?thesis
    proof (cases retry_limits)
      case True
      with False Some tr retry_delay_bound [OF Some] show ?thesis
        by (intro exI [of _ "Slept delay # tr"]) (simp add: second_try_def)
    next
      case no_retry: False
      with False Some show ?thesis by (intro exI [of _ "[]"]) (simp add: second_try_def)
    qed
  qed
qed

lemma read_with_reauth_steps:
  "session_steps (session w) (session (snd (read_with_reauth retry_limits cl attempt w)))"
proof -
  let ?e = "snd (ensure_session cl w)"
  have 1: "session_steps (session w) (session ?e)" by (rule ensure_session_steps)
  have 2: "session_steps (session w) (session (snd (attempt ?e)))"
    using 1 attempt_steps by (rule rtranclp_trans)
  have 3: "session_steps (session w) (session (snd (second_try attempt retry_limits cl g err (snd (attempt ?e)))))"
    for g err using 2 second_try_steps by (rule rtranclp_trans)
  show ?thesis
    using 1 2 3
    by (simp add: read_with_reauth_eq snd_bind_io split: sum.split prod.split) (metis snd_conv)
qed

lemma read_with_reauth_counts:
  assumes "session_inv (session w)"
  shows "\<exists>tr. trace (snd (read_with_reauth retry_limits cl attempt w)) = trace w @ tr
           \<and> payload_sends tr \<le> 2 \<and> login_sends tr \<le> 3
           \<and> length (sleeps tr) \<le> 1 \<and> (\<forall>d\<in>set (sleeps tr). d \<le> MAXIMUM_RETRY_AFTER)
           \<and> (\<not> retry_limits \<longrightarrow> sleeps tr = [])"
proof -
  obtain r w1 where ensure: "ensure_session cl w = (r, w1)" by (metis surj_pair)
  from ensure_session_counts [of cl w] ensure obtain tr1 where
    1: "trace w1 = trace w @ tr1" "payload_sends tr1 = 0" "login_sends tr1 \<le> 2" "sleeps tr1 = []"
    by auto
  show ?thesis
  proof (cases r)
    case (Inl e)
    with ensure 1 show ?thesis
      by (intro exI [of _ tr1]) (simp add: read_with_reauth_eq bind_io_def)
  next
    case (Inr observed)
    with ensure assms have kind: "kind (session w1) \<noteq> None"
      using ensure_session_success by blast
    obtain a w2 where att: "attempt w1 = (a, w2)" by (metis surj_pair)
    from attempt_counts [of w1] att obtain tr2 where
      2: "trace w2 = trace w1 @ tr2" "payload_sends tr2 \<le> 1" "login_sends tr2 = 0" "sleeps tr2 = []"
      by auto
    show ?thesis
    proof (cases a)
      case (Inr result)
      with ensure \<open>r = Inr observed\<close> att 1 2 show ?thesis
        by (intro exI [of _ "tr1 @ tr2"]) (simp add: read_with_reauth_eq bind_io_def)
    next
      case (Inl err)
      from attempt_kind [OF kind] att have "kind (session w2) \<noteq> None" by simp
      from second_try_counts [OF this, of retry_limits cl observed err] obtain tr3 where
        3: "trace (snd (second_try attempt retry_limits cl observed err w2)) = trace w2 @ tr3"
          "payload_sends tr3 \<le> 1" "login_sends tr3 \<le> 1"
          "length (sleeps tr3) \<le> 1" "\<forall>d\<in>set (sleeps tr3). d \<le> MAXIMUM_RETRY_AFTER"
          "\<not> retry_limits \<longrightarrow> sleeps tr3 = []" by blast
      with ensure \<open>r = Inr observed\<close> att Inl 1 2 show ?thesis
        by (intro exI [of _ "tr1 @ tr2 @ tr3"]) (simp add: read_with_reauth_eq bind_io_def)
    qed
  qed
qed

end

section \<open>The client's own request is an attempt\<close>

lemma execute_request_bytes_snd:
  "\<exists>e tok. snd (execute_request_bytes cl cls request w) =
     w\<lparr>env := e, trace := trace w @ [Sent request], session := tok (session w)\<rparr>
     \<and> (tok = id \<or> (\<exists>response. tok = (\<lambda>s. capture_csrf_into s response)))"
proof -
  obtain r e where send: "ext_send cl request (env w) = (r, e)" by (metis surj_pair)
  show ?thesis
  proof (cases r)
    case (Inl err)
    with send show ?thesis
      by (intro exI [of _ e] exI [of _ id]) (simp add: execute_request_bytes_def bind_io_def send_request_def)
  next
    case (Inr response)
    with send show ?thesis
      by (intro exI [of _ e] exI [of _ "\<lambda>s. capture_csrf_into s response"])
         (auto simp: execute_request_bytes_def bind_io_def send_request_def capture_csrf_def Let_def
           split: sum.split)
  qed
qed

lemma execute_request_bytes_steps:
  "session_steps (session w) (session (snd (execute_request_bytes cl cls request w)))"
  using execute_request_bytes_snd [of cl cls request w] capture_csrf_into_steps by auto

lemma execute_request_bytes_trace [simp]:
  "trace (snd (execute_request_bytes cl cls request w)) = trace w @ [Sent request]"
  using execute_request_bytes_snd [of cl cls request w] by auto

lemma site_segments_not_login:
  "build_url b (site_segments k site tail) q = Inr u \<Longrightarrow> \<not> is_login_request
     \<lparr>rq_method = verb, rq_url = u, rq_headers = hs, rq_body = body\<rparr>"
  by (cases k) (auto simp: is_login_request_def dest!: build_url_segments)

lemma execute_bytes_steps:
  "session_steps (session w) (session (snd (execute_bytes cl cls verb site tail body w)))"
  by (auto simp: execute_bytes_def execute_request_bytes_steps split: option.split sum.split)

lemma execute_bytes_trace:
  "\<exists>tr. trace (snd (execute_bytes cl cls verb site tail body w)) = trace w @ tr \<and> length tr \<le> 1
     \<and> (\<forall>ev\<in>set tr. \<exists>r. ev = Sent r \<and> \<not> is_login_request r)"
  by (auto simp: execute_bytes_def site_segments_not_login split: option.split sum.split)

lemma snd_execute_with_status_bytes [simp]:
  "snd (execute_with_status_bytes dec cl cls verb site tail body w) =
     snd (execute_bytes cl cls verb site tail body w)"
  by (simp add: execute_with_status_bytes_def snd_bind_io split: sum.split)

interpretation exec: request_attempt "execute_with_status_bytes dec cl cls verb site tail body"
  for dec :: "'a legacy_envelope decoder" and cl :: "('e, 'x) legacy_client_scheme"
    and cls verb site tail body
  by unfold_locales (simp_all only: snd_execute_with_status_bytes execute_bytes_steps execute_bytes_trace)

text \<open>For an idempotent read the general request is the shape of the dedicated reads.\<close>

lemma request_idempotent_eq:
  "request_with_reauth_with_status_bytes dec cl IdempotentRead verb site tail body =
     read_with_reauth True cl (execute_with_status_bytes dec cl IdempotentRead verb site tail body)"
  unfolding request_with_reauth_with_status_bytes_def read_with_reauth_def
  by (rule arg_cong [where f = "bind_io (ensure_session cl)"])
     (auto simp: fun_eq_iff bind_io_def map_err_io_def split: prod.split sum.split option.split)

lemma request_mutation_eq:
  "request_with_reauth_with_status_bytes dec cl Mutation verb site tail body =
     bind_io (ensure_session cl) (\<lambda>observed w.
       case execute_with_status_bytes dec cl Mutation verb site tail body w of
         (Inr result, w) \<Rightarrow> (Inr result, w)
       | (Inl err, w) \<Rightarrow>
           (Inl err, if is_login_required err then snd (refresh_session cl observed w) else w))"
  unfolding request_with_reauth_with_status_bytes_def
  by (rule arg_cong [where f = "bind_io (ensure_session cl)"])
     (auto simp: fun_eq_iff split: prod.split sum.split option.split)

lemma snd_request_with_reauth [simp]:
  "snd (request_with_reauth dec cl cls verb site tail body w) =
     snd (request_with_reauth_with_status_bytes dec cl cls verb site tail body w)"
  by (simp add: request_with_reauth_def request_with_reauth_with_bytes_def)

lemma fst_request_with_reauth:
  "fst (request_with_reauth dec cl cls verb site tail body w) =
     map_ok fst (fst (request_with_reauth_with_status_bytes dec cl cls verb site tail body w))"
  by (cases "fst (request_with_reauth_with_status_bytes dec cl cls verb site tail body w)")
     (auto simp: request_with_reauth_def request_with_reauth_with_bytes_def)

lemma mutation_counts:
  assumes "session_inv (session w)"
  shows "\<exists>tr. trace (snd (request_with_reauth_with_status_bytes dec cl Mutation verb site tail body w))
            = trace w @ tr \<and> payload_sends tr \<le> 1 \<and> login_sends tr \<le> 3 \<and> sleeps tr = []"
proof -
  obtain r w1 where ensure: "ensure_session cl w = (r, w1)" by (metis surj_pair)
  from ensure_session_counts [of cl w] ensure obtain tr1 where
    1: "trace w1 = trace w @ tr1" "payload_sends tr1 = 0" "login_sends tr1 \<le> 2" "sleeps tr1 = []"
    by auto
  show ?thesis
  proof (cases r)
    case (Inl e)
    with ensure 1 show ?thesis
      by (intro exI [of _ tr1]) (simp add: request_mutation_eq bind_io_def)
  next
    case (Inr observed)
    with ensure assms have kind: "kind (session w1) \<noteq> None"
      using ensure_session_success by blast
    obtain a w2 where att: "execute_with_status_bytes dec cl Mutation verb site tail body w1 = (a, w2)"
      by (metis surj_pair)
    from exec.attempt_counts [of dec cl Mutation verb site tail body w1] att obtain tr2 where
      2: "trace w2 = trace w1 @ tr2" "payload_sends tr2 \<le> 1" "login_sends tr2 = 0" "sleeps tr2 = []"
      by auto
    from exec.attempt_kind [OF kind, of dec cl Mutation verb site tail body] att
    have "kind (session w2) \<noteq> None" by simp
    from refresh_session_counts [OF this, of cl observed] obtain tr3 where
      3: "trace (snd (refresh_session cl observed w2)) = trace w2 @ tr3"
        "payload_sends tr3 = 0" "login_sends tr3 \<le> 1" "sleeps tr3 = []" by blast
    have "snd (request_with_reauth_with_status_bytes dec cl Mutation verb site tail body w) \<in>
        {w2, snd (refresh_session cl observed w2)}"
      using ensure Inr att by (auto simp: request_mutation_eq bind_io_def split: sum.split)
    then show ?thesis
    proof (elim insertE emptyE)
      assume "snd (request_with_reauth_with_status_bytes dec cl Mutation verb site tail body w) = w2"
      with 1 2 show ?thesis by (intro exI [of _ "tr1 @ tr2"]) simp
    next
      assume "snd (request_with_reauth_with_status_bytes dec cl Mutation verb site tail body w)
        = snd (refresh_session cl observed w2)"
      with 1 2 3 show ?thesis by (intro exI [of _ "tr1 @ tr2 @ tr3"]) simp
    qed
  qed
qed

section \<open>Properties of the request path\<close>

text \<open>
  A mutation reaches the wire at most once: whatever the controller answers, the client
  sends the mutating request no second time, never sleeps, and logs in at most three times
  (twice while detecting the console, once to refresh the session for later callers). The
  session invariant survives and a detected console kind is never changed.
\<close>

theorem mutation_sent_once:
  assumes "session_inv (session w)"
  shows "\<exists>tr. trace (snd (request_with_reauth dec cl Mutation verb site tail body w)) = trace w @ tr
           \<and> payload_sends tr \<le> 1 \<and> login_sends tr \<le> 3 \<and> sleeps tr = []"
  using mutation_counts [OF assms] by simp

theorem mutation_sent_once_witness:
  "session_inv (session (canned_world session_default))
   \<and> (\<exists>tr. trace (snd (request_with_reauth (\<lambda>_. Inl ''x'') (canned_client (Inl ''refused'')) Mutation
              POST ''default'' [''cmd'', ''stamgr''] None (canned_world session_default)))
          = trace (canned_world session_default) @ tr
        \<and> payload_sends tr \<le> 1 \<and> login_sends tr \<le> 3 \<and> sleeps tr = [])"
proof -
  have inv: "session_inv (session (canned_world session_default))"
    by (simp add: canned_world_def session_inv_default)
  show ?thesis
    by (rule conjI [OF inv], rule mutation_sent_once [OF inv])
qed

text \<open>
  C7. A mutation's caller always gets the outcome of its single attempt: the controller's own
  answer, or the failure to open a session before anything was sent. No retry and no refresh
  failure ever replaces it.
\<close>

theorem mutation_reports_its_attempt:
  "fst (request_with_reauth_with_status_bytes dec cl Mutation verb site tail body w) =
     (case ensure_session cl w of
        (Inl e, _) \<Rightarrow> Inl e
      | (Inr _, w') \<Rightarrow> fst (execute_with_status_bytes dec cl Mutation verb site tail body w'))"
  by (auto simp: request_mutation_eq bind_io_def split: prod.split sum.split)

text \<open>
  C6. A read is sent at most twice, with at most one pause between, of at most ten seconds, and
  at most three logins: no answer of the controller can keep the client retrying.
\<close>

theorem read_retries_bounded:
  assumes "session_inv (session w)"
  shows "\<exists>tr. trace (snd (request_with_reauth dec cl IdempotentRead verb site tail body w)) = trace w @ tr
           \<and> payload_sends tr \<le> 2 \<and> login_sends tr \<le> 3 \<and> length (sleeps tr) \<le> 1
           \<and> (\<forall>d\<in>set (sleeps tr). d \<le> from_secs 10)"
proof -
  let ?att = "execute_with_status_bytes dec cl IdempotentRead verb site tail body"
  have "\<exists>tr. trace (snd (read_with_reauth True cl ?att w)) = trace w @ tr
      \<and> payload_sends tr \<le> 2 \<and> login_sends tr \<le> 3 \<and> length (sleeps tr) \<le> 1
      \<and> (\<forall>d\<in>set (sleeps tr). d \<le> MAXIMUM_RETRY_AFTER) \<and> (\<not> True \<longrightarrow> sleeps tr = [])"
    by (rule exec.read_with_reauth_counts [OF assms])
  then show ?thesis by (auto simp: request_idempotent_eq MAXIMUM_RETRY_AFTER_def)
qed

theorem read_retries_bounded_witness:
  "session_inv (session (canned_world session_default))
   \<and> (\<exists>tr. trace (snd (request_with_reauth (\<lambda>_. Inl ''x'') (canned_client (Inl ''refused''))
              IdempotentRead GET ''default'' [''stat'', ''sta''] None (canned_world session_default)))
          = trace (canned_world session_default) @ tr
        \<and> payload_sends tr \<le> 2 \<and> login_sends tr \<le> 3 \<and> length (sleeps tr) \<le> 1
        \<and> list_all (\<lambda>d. d \<le> from_secs 10) (sleeps tr))"
proof -
  have inv: "session_inv (session (canned_world session_default))"
    by (simp add: canned_world_def session_inv_default)
  show ?thesis
    unfolding list_all_iff by (rule conjI [OF inv], rule read_retries_bounded [OF inv])
qed

lemma mutation_steps:
  "session_steps (session w)
     (session (snd (request_with_reauth_with_status_bytes dec cl Mutation verb site tail body w)))"
proof -
  obtain r w1 where ensure: "ensure_session cl w = (r, w1)" by (metis surj_pair)
  with ensure_session_steps [of w cl] have 1: "session_steps (session w) (session w1)" by simp
  obtain a w2 where att: "execute_with_status_bytes dec cl Mutation verb site tail body w1 = (a, w2)"
    by (metis surj_pair)
  with exec.attempt_steps [of w1 dec cl Mutation verb site tail body] 1
  have 2: "session_steps (session w) (session w2)" by auto
  have 3: "session_steps (session w) (session (snd (refresh_session cl g w2)))" for g
    using 2 refresh_session_steps by (rule rtranclp_trans)
  show ?thesis
    using ensure att 1 2 3 by (auto simp: request_mutation_eq bind_io_def split: sum.split)
qed

text \<open>
  C8. Every request of the legacy client, read or mutation, keeps the session invariant (an
  authenticated session knows its console kind and carries no shared failure) and never changes
  a console kind once it is detected.
\<close>

theorem request_keeps_session:
  assumes "session_inv (session w)"
  shows "session_inv (session (snd (request_with_reauth dec cl cls verb site tail body w)))
         \<and> (\<forall>k. kind (session w) = Some k \<longrightarrow>
               kind (session (snd (request_with_reauth dec cl cls verb site tail body w))) = Some k)"
proof -
  have "session_steps (session w) (session (snd (request_with_reauth dec cl cls verb site tail body w)))"
    by (cases cls) (simp_all add: mutation_steps request_idempotent_eq exec.read_with_reauth_steps)
  with assms session_steps_inv session_steps_kind show ?thesis by blast
qed

theorem request_keeps_session_witness:
  "session_inv (session (canned_world (session_default\<lparr>kind := Some UnifiOs\<rparr>)))
   \<and> kind (session (snd (request_with_reauth (\<lambda>_. Inl ''x'') (canned_client (Inl ''refused'')) Mutation
        POST ''default'' [] None (canned_world (session_default\<lparr>kind := Some UnifiOs\<rparr>))))) = Some UnifiOs"
proof -
  have inv: "session_inv (session (canned_world (session_default\<lparr>kind := Some UnifiOs\<rparr>)))"
    by (simp add: canned_world_def session_inv_def session_default_def)
  have k: "kind (session (canned_world (session_default\<lparr>kind := Some UnifiOs\<rparr>))) = Some UnifiOs"
    by (simp add: canned_world_def)
  show ?thesis
    by (rule conjI [OF inv], rule request_keeps_session [OF inv, THEN conjunct2, rule_format, OF k])
qed

end
