(* ===== verification/Models.thy ===== *)
theory Models
  imports Http
begin

text \<open>
  The request models and record views of \<open>crates/unifi-api/src/models.rs\<close> and the record
  fingerprint of \<open>crates/unifi-api/src/legacy.rs\<close>: partial updates with the body serde derives
  for them, the deep-packet-inspection report, and the comparison of two readings of a record.
\<close>

section \<open>Partial updates\<close>

record wlan_conf =
  wlan_id :: string
  wlan_name :: "string option"
  wlan_enabled :: "bool option"
  wlan_security :: "string option"
  wlan_x_passphrase :: "string option"
  wlan_networkconf_id :: "string option"
  wlan_hide_ssid :: "bool option"
  wlan_radius_profile_id :: "string option"

record wlan_patch =
  wp_name :: "string option"
  wp_enabled :: "bool option"
  wp_security :: "string option"
  wp_x_passphrase :: "string option"
  wp_hide_ssid :: "bool option"
  wp_radius_profile_id :: "string option"

record port_forward =
  pf_id :: string
  pf_name :: "string option"
  pf_enabled :: "bool option"
  pf_src :: "string option"
  pf_fwd :: "string option"
  pf_fwd_port :: "string option"
  pf_dst_port :: "string option"
  pf_proto :: "string option"

record port_forward_patch =
  pp_name :: "string option"
  pp_enabled :: "bool option"
  pp_src :: "string option"
  pp_fwd :: "string option"
  pp_fwd_port :: "string option"
  pp_dst_port :: "string option"
  pp_proto :: "string option"

definition wlan_patch_is_empty :: "wlan_patch \<Rightarrow> bool" where
  "wlan_patch_is_empty p \<longleftrightarrow>
     wp_name p = None \<and> wp_enabled p = None \<and> wp_security p = None \<and> wp_x_passphrase p = None
     \<and> wp_hide_ssid p = None \<and> wp_radius_profile_id p = None"

definition port_forward_patch_is_empty :: "port_forward_patch \<Rightarrow> bool" where
  "port_forward_patch_is_empty p \<longleftrightarrow>
     pp_name p = None \<and> pp_enabled p = None \<and> pp_src p = None \<and> pp_fwd p = None
     \<and> pp_fwd_port p = None \<and> pp_dst_port p = None \<and> pp_proto p = None"

text \<open>
  \<open>serde_json::to_value\<close> of a structure whose fields carry \<open>skip_serializing_if =
  "Option::is_none"\<close>: each set field is inserted into the object, in declaration order.
\<close>

fun put_field :: "string \<times> json option \<Rightarrow> (string \<times> json) list \<Rightarrow> (string \<times> json) list" where
  "put_field (name, None) m = m"
| "put_field (name, Some v) m = map_insert name v m"

definition set_fields :: "(string \<times> json option) list \<Rightarrow> (string \<times> json) list" where
  "set_fields fs = fold put_field fs []"

definition wlan_patch_fields :: "wlan_patch \<Rightarrow> (string \<times> json option) list" where
  "wlan_patch_fields p =
     [(''name'', map_option JStr (wp_name p)), (''enabled'', map_option JBool (wp_enabled p)),
      (''security'', map_option JStr (wp_security p)),
      (''x_passphrase'', map_option JStr (wp_x_passphrase p)),
      (''hide_ssid'', map_option JBool (wp_hide_ssid p)),
      (''radius_profile_id'', map_option JStr (wp_radius_profile_id p))]"

definition port_forward_patch_fields :: "port_forward_patch \<Rightarrow> (string \<times> json option) list" where
  "port_forward_patch_fields p =
     [(''name'', map_option JStr (pp_name p)), (''enabled'', map_option JBool (pp_enabled p)),
      (''src'', map_option JStr (pp_src p)), (''fwd'', map_option JStr (pp_fwd p)),
      (''fwd_port'', map_option JStr (pp_fwd_port p)),
      (''dst_port'', map_option JStr (pp_dst_port p)), (''proto'', map_option JStr (pp_proto p))]"

definition wlan_patch_json :: "wlan_patch \<Rightarrow> json" where
  "wlan_patch_json p = JObj (set_fields (wlan_patch_fields p))"

definition port_forward_patch_json :: "port_forward_patch \<Rightarrow> json" where
  "port_forward_patch_json p = JObj (set_fields (port_forward_patch_fields p))"

lemma ordered_put_field: "ordered_map m \<Longrightarrow> ordered_map (put_field f m)"
  by (cases f; cases "snd f") (auto intro: ordered_map_insert)

lemma ordered_fold_put: "ordered_map m \<Longrightarrow> ordered_map (fold put_field fs m)"
  by (induction fs arbitrary: m) (auto intro: ordered_put_field)

lemma ordered_set_fields: "ordered_map (set_fields fs)"
  unfolding set_fields_def by (rule ordered_fold_put) (simp add: ordered_map_def)

lemma get_put_field:
  assumes "ordered_map m" and "fst f \<noteq> k \<or> get k m = None"
  shows "get k (put_field f m) = (if fst f = k then snd f else get k m)"
  using assms by (cases f; cases "snd f") (auto simp: get_map_insert)

lemma get_fold_put:
  assumes "ordered_map m" and "distinct (map fst fs)"
    and "\<And>k. k \<in> fst ` set fs \<Longrightarrow> get k m = None"
  shows "get k (fold put_field fs m) =
           (case map_of fs k of Some v \<Rightarrow> v | None \<Rightarrow> get k m)"
  using assms
proof (induction fs arbitrary: m)
  case (Cons f fs)
  obtain name v where f: "f = (name, v)" by (cases f)
  have m': "ordered_map (put_field f m)" using Cons.prems(1) by (rule ordered_put_field)
  have get': "get j (put_field f m) = (if name = j then v else get j m)" for j
    using get_put_field [OF Cons.prems(1), of f j] Cons.prems(3) [of j] f by auto
  have "get k (fold put_field fs (put_field f m)) =
      (case map_of fs k of Some v \<Rightarrow> v | None \<Rightarrow> get k (put_field f m))"
  proof (rule Cons.IH [OF m'])
    show "distinct (map fst fs)" using Cons.prems(2) by simp
    fix j assume "j \<in> fst ` set fs"
    with Cons.prems(2) f have "name \<noteq> j" by auto
    with \<open>j \<in> fst ` set fs\<close> Cons.prems(3) [of j] show "get j (put_field f m) = None"
      unfolding get' by simp
  qed
  moreover from Cons.prems(2) f have "map_of fs name = None" by (simp add: map_of_eq_None_iff)
  ultimately have "get k (fold put_field (f # fs) m) =
      (case map_of fs k of Some v \<Rightarrow> v | None \<Rightarrow> if name = k then v else get k m)"
    by (simp only: fold_simps get')
  with f \<open>map_of fs name = None\<close> show ?case by (auto split: option.split)
qed simp

text \<open>The serialized object has exactly the fields that are set.\<close>

lemma get_set_fields:
  assumes "distinct (map fst fs)"
  shows "get k (set_fields fs) = Option.bind (map_of fs k) id"
  using get_fold_put [of "[]" fs k] assms
  by (simp add: set_fields_def ordered_map_def split: option.split)

section \<open>Deep-packet-inspection report\<close>

record dpi_application =
  app :: u32
  cat :: u32
  dpi_rx_bytes :: u64
  dpi_tx_bytes :: u64

datatype dpi_application_record = Application dpi_application | UnrecognizedApplication

datatype dpi_record = Table "dpi_application_record list" | Flat dpi_application_record

datatype dpi_availability = DpiReported | DpiUnsupported | DpiUnrecognized

record dpi_report =
  applications :: "dpi_application list"
  unrecognized_records :: nat
  availability :: dpi_availability
  unsupported_response :: "api_error option"

definition dpi_report_default :: dpi_report where
  "dpi_report_default =
     \<lparr>applications = [], unrecognized_records = 0, availability = DpiReported,
      unsupported_response = None\<rparr>"

fun dpi_add :: "dpi_application_record \<Rightarrow> dpi_report \<Rightarrow> dpi_report" where
  "dpi_add (Application a) r = r\<lparr>applications := applications r @ [a]\<rparr>"
| "dpi_add UnrecognizedApplication r = r\<lparr>unrecognized_records := unrecognized_records r + 1\<rparr>"

fun dpi_record_add :: "dpi_record \<Rightarrow> dpi_report \<Rightarrow> dpi_report" where
  "dpi_record_add (Table by_app) r = fold dpi_add by_app r"
| "dpi_record_add (Flat a) r = dpi_add a r"

definition from_records :: "dpi_record list \<Rightarrow> dpi_report" where
  "from_records records = fold dpi_record_add records dpi_report_default"

text \<open>The application records of a response, tables flattened.\<close>

fun record_rows :: "dpi_record \<Rightarrow> dpi_application_record list" where
  "record_rows (Table by_app) = by_app"
| "record_rows (Flat a) = [a]"

definition recognized :: "dpi_application_record list \<Rightarrow> dpi_application list" where
  "recognized rows =
     List.map_filter (\<lambda>r. case r of Application a \<Rightarrow> Some a | UnrecognizedApplication \<Rightarrow> None) rows"

lemma fold_dpi_add:
  "fold dpi_add rows r =
     r\<lparr>applications := applications r @ recognized rows,
       unrecognized_records := unrecognized_records r
         + length (filter (\<lambda>x. x = UnrecognizedApplication) rows)\<rparr>"
proof (induction rows arbitrary: r)
  case (Cons row rows)
  then show ?case by (cases row) (simp_all add: recognized_def map_filter_def)
qed (simp add: recognized_def map_filter_def)

lemma fold_dpi_record_add:
  "fold dpi_record_add records r = fold dpi_add (concat (map record_rows records)) r"
proof (induction records arbitrary: r)
  case (Cons row rows)
  then show ?case by (cases row) simp_all
qed simp

text \<open>
  The report accounts for every row the controller sent, in tables or flat: the usable rows
  are listed in order, every other row is counted, and none is lost.
\<close>

theorem from_records_accounts:
  "applications (from_records records) = recognized (concat (map record_rows records))
   \<and> length (applications (from_records records)) + unrecognized_records (from_records records)
       = length (concat (map record_rows records))
   \<and> availability (from_records records) = DpiReported"
proof -
  have "length (recognized rows) + length (filter (\<lambda>x. x = UnrecognizedApplication) rows)
      = length rows" for rows
  proof (induction rows)
    case (Cons row rows)
    then show ?case by (cases row) (simp_all add: recognized_def map_filter_def)
  qed (simp add: recognized_def map_filter_def)
  then show ?thesis
    by (simp add: from_records_def fold_dpi_record_add fold_dpi_add dpi_report_default_def)
qed

section \<open>Record fingerprints\<close>

datatype record_fingerprint = RecordFingerprint (properties: "(string \<times> json) list")

text \<open>\<open>BTreeMap\<close> of raw values: each property is kept as the text the controller sent.\<close>

definition from_raw_record :: "(string \<times> string) list \<Rightarrow> record_fingerprint" where
  "from_raw_record r =
     RecordFingerprint (fold (\<lambda>(name, text) m. map_insert name (JStr text) m) r [])"

text \<open>\<open>Vec::dedup\<close> removes repeated neighbours.\<close>

definition changed_properties :: "record_fingerprint \<Rightarrow> record_fingerprint \<Rightarrow> string list" where
  "changed_properties self other =
     remdups_adj (sort (filter (\<lambda>p. get p (properties self) \<noteq> get p (properties other))
       (map fst (properties self) @ map fst (properties other))))"

lemma sorted_remdups_adj_strict: "sorted xs \<Longrightarrow> sorted_wrt (<) (remdups_adj xs)"
proof (induction xs rule: remdups_adj.induct)
  case (3 x y xs)
  then show ?case by (cases "x = y") (auto simp: order.strict_iff_order)
qed simp_all

lemma set_changed_properties:
  "set (changed_properties a b) = {p. get p (properties a) \<noteq> get p (properties b)}"
proof -
  have "p \<in> fst ` set (properties a) \<or> p \<in> fst ` set (properties b)"
    if "get p (properties a) \<noteq> get p (properties b)" for p
    using that get_eq_None by metis
  then show ?thesis by (auto simp: changed_properties_def)
qed

text \<open>
  Comparing two readings of a record names exactly the properties that differ: a property is
  listed if and only if its stored value is not the same in both, including one present in only
  one of them; the names come sorted and without repetition.
\<close>

theorem changed_properties_exact:
  "set (changed_properties a b) = {p. get p (properties a) \<noteq> get p (properties b)}
   \<and> sorted_wrt (<) (changed_properties a b)"
  by (simp add: set_changed_properties) (simp add: changed_properties_def sorted_remdups_adj_strict)

end
