(* ===== verification/Legacy_Protect.thy ===== *)
theory Legacy_Protect
  imports Legacy_Client Models
begin

text \<open>
  The Protect application reads that travel over the local session
  (\<open>crates/unifi-api/src/legacy.rs\<close>, with \<open>decode_json\<close> and \<open>read_jpeg\<close> of
  \<open>crates/unifi-api/src/protect.rs\<close>): the bootstrap and its validation, event thumbnails, and
  historical events read page by page with a time key. The properties at the end show that
  following the continuations enumerates a window exactly.
\<close>

section \<open>Decoding\<close>

text \<open>
  What the streaming JSON reader can answer: a syntax or end-of-input fault with its place, a
  data fault with its path, or a value with the place of trailing input, if any.
\<close>

datatype read_fault = SyntaxFault nat nat | DataFault string

type_synonym 'a stream_decoder = "bytes \<Rightarrow> read_fault + 'a \<times> (nat \<times> nat) option"

definition decode_json ::
  "'a stream_decoder \<Rightarrow> (bytes \<Rightarrow> string) \<Rightarrow> string \<Rightarrow> bytes \<Rightarrow> api_error + 'a" where
  "decode_json dec b64 endpoint body =
     (case dec body of
        Inl (SyntaxFault line column) \<Rightarrow>
          Inl (InvalidJson endpoint line column (Some (from_controller_bytes b64 body)))
      | Inl (DataFault path) \<Rightarrow>
          Inl (SchemaMismatch endpoint (bounded_new path) (Some (from_controller_bytes b64 body)))
      | Inr (decoded, Some (line, column)) \<Rightarrow>
          Inl (InvalidJson endpoint line column (Some (from_controller_bytes b64 body)))
      | Inr (decoded, None) \<Rightarrow> Inr decoded)"

definition is_jpeg :: "response \<Rightarrow> bool" where
  "is_jpeg response =
     (case rs_header response ''content-type'' of
        Some (Some value) \<Rightarrow>
          eq_ignore_ascii_case (trim (hd (split_on CHR '';'' value))) ''image/jpeg''
      | _ \<Rightarrow> False)"

definition read_jpeg :: "(bytes \<Rightarrow> string) \<Rightarrow> response \<Rightarrow> api_error + bytes" where
  "read_jpeg b64 response =
     bind_res (read_bounded_body response) (\<lambda>body.
       if \<not> is_jpeg response
       then (if body = [] then Inl (Decode (bounded_new ''image response was not a JPEG''))
             else Inl (DecodeResponse (from_controller_bytes b64 body)
                        (bounded_new ''image response was not a JPEG'')))
       else Inr body)"

definition decode_protect_response_with_bytes ::
  "'a stream_decoder \<Rightarrow> ('e, 'x) legacy_client_scheme \<Rightarrow> response \<Rightarrow> string \<Rightarrow> 'e world
     \<Rightarrow> (api_error + 'a \<times> bytes) \<times> 'e world" where
  "decode_protect_response_with_bytes dec cl response endpoint w =
     (let w = capture_csrf response w;
          status = rs_status response
      in if status = 429 then (Inl (rate_limited_error (ext_b64 cl) response), w)
         else (case read_bounded_body response of
                 Inl e \<Rightarrow> (Inl e, w)
               | Inr body \<Rightarrow>
                   (if \<not> is_success status
                    then (Inl (translate_failure cl status body IdempotentRead), w)
                    else (map_ok (\<lambda>decoded. (decoded, body))
                            (decode_json dec (ext_b64 cl) endpoint body), w))))"

section \<open>Bootstrap\<close>

text \<open>
  The fields the validation reads; the records extend to every further field of the projection.
\<close>

record protect_local_camera =
  camera_id :: string
  camera_model_key :: string

record protect_local_nvr =
  nvr_id :: string
  nvr_model_key :: string

record ('c, 'n) protect_bootstrap =
  cameras :: "'c protect_local_camera_scheme list"
  nvr :: "'n protect_local_nvr_scheme"
  raw :: json

definition MAXIMUM_PROTECT_CAMERAS :: nat where
  "MAXIMUM_PROTECT_CAMERAS = 1000"

definition MAXIMUM_PROTECT_DEVICE_IDENTIFIER_BYTES :: nat where
  "MAXIMUM_PROTECT_DEVICE_IDENTIFIER_BYTES = 256"

definition bootstrap_mismatch :: "string \<Rightarrow> api_error" where
  "bootstrap_mismatch path = SchemaMismatch ''protect.bootstrap'' (bounded_new path) None"

text \<open>The loop over the cameras, with the set of identifiers seen so far.\<close>

fun check_cameras :: "string set \<Rightarrow> 'c protect_local_camera_scheme list \<Rightarrow> api_error + unit" where
  "check_cameras ids [] = Inr ()"
| "check_cameras ids (camera # rest) =
     (if camera_id camera = []
         \<or> length (camera_id camera) > MAXIMUM_PROTECT_DEVICE_IDENTIFIER_BYTES
      then Inl (bootstrap_mismatch ''cameras.id'')
      else if camera_model_key camera \<noteq> ''camera''
      then Inl (bootstrap_mismatch ''cameras.modelKey'')
      else if camera_id camera \<in> ids then Inl (bootstrap_mismatch ''duplicate cameras.id'')
      else check_cameras (insert (camera_id camera) ids) rest)"

definition validate_protect_cameras :: "'c protect_local_camera_scheme list \<Rightarrow> api_error + unit" where
  "validate_protect_cameras cs =
     (if length cs > MAXIMUM_PROTECT_CAMERAS then Inl (bootstrap_mismatch ''cameras'')
      else check_cameras {} cs)"

definition validate_protect_bootstrap :: "('c, 'n) protect_bootstrap \<Rightarrow> api_error + unit" where
  "validate_protect_bootstrap b =
     bind_res (validate_protect_cameras (cameras b)) (\<lambda>_.
       if nvr_id (nvr b) = [] \<or> length (nvr_id (nvr b)) > MAXIMUM_PROTECT_DEVICE_IDENTIFIER_BYTES
       then Inl (bootstrap_mismatch ''nvr.id'')
       else if nvr_model_key (nvr b) \<noteq> ''nvr'' then Inl (bootstrap_mismatch ''nvr.modelKey'')
       else Inr ())"

text \<open>One \<open>GET\<close> under the Protect application's own root.\<close>

definition execute_protect_get ::
  "('e, 'x) legacy_client_scheme \<Rightarrow> string list \<Rightarrow> (string \<times> string) list \<Rightarrow> string
     \<Rightarrow> (response \<Rightarrow> 'e world \<Rightarrow> (api_error + 'a) \<times> 'e world) \<Rightarrow> 'e world
     \<Rightarrow> (api_error + 'a) \<times> 'e world" where
  "execute_protect_get cl tail query accept handle w =
     (case build_url (base cl) ([''proxy'', ''protect'', ''api''] @ tail) query of
        Inl e \<Rightarrow> (Inl e, w)
      | Inr u \<Rightarrow>
          bind_io (send_request cl \<lparr>rq_method = GET, rq_url = u,
                     rq_headers = [(''accept'', accept)], rq_body = None\<rparr>) handle w)"

definition execute_protect_bootstrap ::
  "'a stream_decoder \<Rightarrow> ('e, 'x) legacy_client_scheme \<Rightarrow> 'e world
     \<Rightarrow> (api_error + 'a \<times> bytes) \<times> 'e world" where
  "execute_protect_bootstrap dec cl =
     execute_protect_get cl [''bootstrap''] [] ''application/json''
       (\<lambda>response. decode_protect_response_with_bytes dec cl response ''protect.bootstrap'')"

definition protect_bootstrap_projection ::
  "'a stream_decoder \<Rightarrow> ('e, 'x) legacy_client_scheme \<Rightarrow> 'e world
     \<Rightarrow> (api_error + 'a \<times> bytes) \<times> 'e world" where
  "protect_bootstrap_projection dec cl = read_with_reauth True cl (execute_protect_bootstrap dec cl)"

definition protect_bootstrap_with_response ::
  "('c, 'n) protect_bootstrap stream_decoder \<Rightarrow> ('e, 'x) legacy_client_scheme \<Rightarrow> 'e world
     \<Rightarrow> (api_error + ('c, 'n) protect_bootstrap \<times> bytes) \<times> 'e world" where
  "protect_bootstrap_with_response dec cl =
     bind_io (protect_bootstrap_projection dec cl) (\<lambda>(bootstrap, bytes).
       return_io (bind_res
         (map_err (\<lambda>e. with_controller_response (ext_b64 cl) e bytes)
           (validate_protect_bootstrap bootstrap))
         (\<lambda>_. Inr (bootstrap, bytes))))"

definition protect_bootstrap_read ::
  "('c, 'n) protect_bootstrap stream_decoder \<Rightarrow> ('e, 'x) legacy_client_scheme \<Rightarrow> 'e world
     \<Rightarrow> (api_error + ('c, 'n) protect_bootstrap) \<times> 'e world" where
  "protect_bootstrap_read dec cl = map_io fst (protect_bootstrap_with_response dec cl)"

definition protect_camera_inventory_with_response ::
  "'c protect_local_camera_scheme list stream_decoder \<Rightarrow> ('e, 'x) legacy_client_scheme \<Rightarrow> 'e world
     \<Rightarrow> (api_error + 'c protect_local_camera_scheme list \<times> bytes) \<times> 'e world" where
  "protect_camera_inventory_with_response dec cl =
     bind_io (protect_bootstrap_projection dec cl) (\<lambda>(cs, bytes).
       return_io (bind_res
         (map_err (\<lambda>e. with_controller_response (ext_b64 cl) e bytes) (validate_protect_cameras cs))
         (\<lambda>_. Inr (cs, bytes))))"

definition protect_camera_inventory ::
  "'c protect_local_camera_scheme list stream_decoder \<Rightarrow> ('e, 'x) legacy_client_scheme \<Rightarrow> 'e world
     \<Rightarrow> (api_error + 'c protect_local_camera_scheme list) \<times> 'e world" where
  "protect_camera_inventory dec cl = map_io fst (protect_camera_inventory_with_response dec cl)"

section \<open>Thumbnails\<close>

definition MAXIMUM_EVENT_IDENTIFIER_BYTES :: nat where
  "MAXIMUM_EVENT_IDENTIFIER_BYTES = 256"

definition execute_protect_event_thumbnail ::
  "('e, 'x) legacy_client_scheme \<Rightarrow> string \<Rightarrow> 'e world \<Rightarrow> (api_error + bytes) \<times> 'e world" where
  "execute_protect_event_thumbnail cl event_id =
     execute_protect_get cl [''events'', event_id, ''thumbnail''] [] ''image/jpeg''
       (\<lambda>response w.
         let w = capture_csrf response w;
             status = rs_status response
         in if status = 429 then (Inl (rate_limited_error (ext_b64 cl) response), w)
            else if \<not> is_success status
            then (bind_res (read_bounded_body response)
                    (\<lambda>body. Inl (translate_failure cl status body IdempotentRead)), w)
            else (read_jpeg (ext_b64 cl) response, w))"

definition protect_event_thumbnail ::
  "('e, 'x) legacy_client_scheme \<Rightarrow> string \<Rightarrow> 'e world \<Rightarrow> (api_error + bytes) \<times> 'e world" where
  "protect_event_thumbnail cl event_id w =
     (if event_id = [] \<or> length event_id > MAXIMUM_EVENT_IDENTIFIER_BYTES
         \<or> event_id = ''.'' \<or> event_id = ''..''
      then (Inl (Config ''event id must be a nonempty, non-dot id of at most 256 bytes''), w)
      else read_with_reauth True cl (execute_protect_event_thumbnail cl event_id) w)"

section \<open>Historical events\<close>

record protect_event =
  event_id :: string
  event_kind :: string
  event_start :: u64
  event_end :: "u64 option"
  event_score :: "u32 option"
  event_camera :: "string option"
  smart_detect_types :: "string list"
  event_details :: "(string \<times> json) list"

datatype protect_event_continuation = ProtectEventContinuation (next_end: u64)

record protect_event_page =
  page_events :: "protect_event list"
  scanned_rows :: nat
  page_next :: "protect_event_continuation option"

definition MAXIMUM_RECORD_LIMIT :: u32 where
  "MAXIMUM_RECORD_LIMIT = 1000"

definition MAXIMUM_PROTECT_EVENT_PAGE_LIMIT :: u32 where
  "MAXIMUM_PROTECT_EVENT_PAGE_LIMIT = MAXIMUM_RECORD_LIMIT - 1"

definition PROTECT_DETECTION_TYPES :: "string list" where
  "PROTECT_DETECTION_TYPES =
     [''motion'', ''ring'', ''smartDetectZone'', ''smartDetectLine'', ''smartAudioDetect'',
      ''smartDetectLoiterZone'']"

definition decode_error :: "string \<Rightarrow> api_error" where
  "decode_error message = Decode (bounded_new message)"

text \<open>What follows the removal of the lookahead row: where the window or the page ends.\<close>

definition close_page ::
  "u64 \<Rightarrow> protect_event list \<Rightarrow> u64 option \<Rightarrow> api_error + protect_event_page" where
  "close_page start events lookahead =
     (let scanned = length events;
          finished = (\<lambda>evs. Inr \<lparr>page_events = evs, scanned_rows = scanned, page_next = None\<rparr>)
      in case position (\<lambda>ev. event_start ev < start) events of
           Some first_older \<Rightarrow> finished (take first_older events)
         | None \<Rightarrow>
             (case lookahead of
                None \<Rightarrow> finished events
              | Some lookahead_start \<Rightarrow>
                  (if lookahead_start < start then finished events
                   else if events = []
                   then Inl (decode_error ''Protect event page could not establish a continuation'')
                   else
                     (let boundary_start = event_start (last events)
                      in if boundary_start = lookahead_start
                         then
                           (let kept = rev (dropWhile (\<lambda>ev. event_start ev = boundary_start) (rev events))
                            in if kept = []
                               then Inl (decode_error ''Protect event page boundary exceeds the requested limit; retry with a higher limit'')
                               else Inr \<lparr>page_events = kept, scanned_rows = scanned,
                                         page_next = Some (ProtectEventContinuation boundary_start)\<rparr>)
                         else (case checked_sub boundary_start 1 of
                                 None \<Rightarrow> finished events
                               | Some n \<Rightarrow>
                                   Inr \<lparr>page_events = events, scanned_rows = scanned,
                                        page_next = Some (ProtectEventContinuation n)\<rparr>)))))"

definition finish_protect_event_page ::
  "u64 \<Rightarrow> u64 \<Rightarrow> u32 \<Rightarrow> protect_event list \<Rightarrow> api_error + protect_event_page" where
  "finish_protect_event_page start win_end limit events =
     (if list_ex (\<lambda>ev. event_id ev = [] \<or> length (event_id ev) > MAXIMUM_EVENT_IDENTIFIER_BYTES) events
      then Inl (decode_error ''Protect event response contains an invalid event id'')
      else if list_ex (\<lambda>ev. win_end < event_start ev) events
      then Inl (decode_error ''Protect event response exceeded its requested end'')
      else if windows2_any (\<lambda>a b. event_start a < event_start b) events
      then Inl (decode_error ''Protect event response was not ordered newest first'')
      else
        (let page_limit = unat limit
         in if length events > page_limit + 1
            then Inl (decode_error ''Protect event response exceeded its requested limit'')
            else if length events > page_limit
            then close_page start (butlast events) (Some (event_start (last events)))
            else close_page start events None))"

definition event_query :: "u64 \<Rightarrow> u64 \<Rightarrow> u32 \<Rightarrow> (string \<times> string) list" where
  "event_query start win_end limit =
     [(''start'', show_nat (unat start)), (''end'', show_nat (unat win_end)),
      (''limit'', show_nat (unat limit)), (''offset'', ''0''), (''orderDirection'', ''DESC'')]
     @ map (\<lambda>k. (''types'', k)) PROTECT_DETECTION_TYPES"

definition execute_protect_events ::
  "protect_event list stream_decoder \<Rightarrow> ('e, 'x) legacy_client_scheme \<Rightarrow> u64 \<Rightarrow> u64 \<Rightarrow> u32
     \<Rightarrow> 'e world \<Rightarrow> (api_error + protect_event list \<times> bytes) \<times> 'e world" where
  "execute_protect_events dec cl start win_end limit =
     execute_protect_get cl [''events''] (event_query start win_end limit) ''application/json''
       (\<lambda>response. decode_protect_response_with_bytes dec cl response ''protect.events'')"

definition protect_events_with_reauth ::
  "protect_event list stream_decoder \<Rightarrow> ('e, 'x) legacy_client_scheme \<Rightarrow> u64 \<Rightarrow> u64 \<Rightarrow> u32
     \<Rightarrow> 'e world \<Rightarrow> (api_error + protect_event list \<times> bytes) \<times> 'e world" where
  "protect_events_with_reauth dec cl start win_end limit =
     read_with_reauth True cl (execute_protect_events dec cl start win_end limit)"

definition protect_events ::
  "protect_event list stream_decoder \<Rightarrow> ('e, 'x) legacy_client_scheme \<Rightarrow> u64 \<Rightarrow> u64 \<Rightarrow> u32
     \<Rightarrow> protect_event_continuation option \<Rightarrow> 'e world
     \<Rightarrow> (api_error + protect_event_page) \<times> 'e world" where
  "protect_events dec cl start win_end limit continuation w =
     (if win_end < start then (Inl (Config ''Protect event start is after end''), w)
      else if \<not> (1 \<le> limit \<and> limit \<le> MAXIMUM_PROTECT_EVENT_PAGE_LIMIT)
      then (Inl (Config ''Protect event page limit must be between 1 and 999''), w)
      else if (case continuation of
                 Some cursor \<Rightarrow> next_end cursor < start \<or> win_end < next_end cursor
               | None \<Rightarrow> False)
      then (Inl (Config ''Protect event continuation is invalid''), w)
      else
        (let request_end = (case continuation of None \<Rightarrow> win_end | Some cursor \<Rightarrow> next_end cursor)
         in bind_io (protect_events_with_reauth dec cl start request_end (limit + 1))
              (\<lambda>(events, bytes). return_io
                 (map_err (\<lambda>e. with_controller_response (ext_b64 cl) e bytes)
                   (finish_protect_event_page start request_end limit events))) w))"

section \<open>The Protect reads follow the laws of an attempt\<close>

lemma execute_protect_get_attempt:
  assumes "\<And>response w. session_steps (session w) (session (snd (handle response w)))"
    and "\<And>response w. trace (snd (handle response w)) = trace w"
  shows "request_attempt (execute_protect_get cl tail query accept handle)"
proof
  fix w :: "'a world"
  show "session_steps (session w) (session (snd (execute_protect_get cl tail query accept handle w)))"
    using assms(1) [of "snd (send_request cl r w)" for r]
    by (auto simp: execute_protect_get_def snd_bind_io split: sum.split)
  show "\<exists>tr. trace (snd (execute_protect_get cl tail query accept handle w)) = trace w @ tr
      \<and> length tr \<le> 1 \<and> (\<forall>ev\<in>set tr. \<exists>r. ev = Sent r \<and> \<not> is_login_request r)"
    by (auto simp: execute_protect_get_def snd_bind_io assms(2) is_login_request_def
        dest!: build_url_segments split: sum.split)
qed

lemma decode_protect_snd [simp]:
  "snd (decode_protect_response_with_bytes dec cl response endpoint w) = capture_csrf response w"
  by (simp add: decode_protect_response_with_bytes_def Let_def split: sum.split)

interpretation bootstrap: request_attempt "execute_protect_bootstrap dec cl"
  for dec :: "'a stream_decoder" and cl :: "('e, 'x) legacy_client_scheme"
  unfolding execute_protect_bootstrap_def
  by (rule execute_protect_get_attempt) (simp_all add: capture_csrf_steps)

interpretation events: request_attempt "execute_protect_events dec cl start win_end limit"
  for dec :: "protect_event list stream_decoder" and cl :: "('e, 'x) legacy_client_scheme"
    and start win_end limit
  unfolding execute_protect_events_def
  by (rule execute_protect_get_attempt) (simp_all add: capture_csrf_steps)

interpretation thumbnail: request_attempt "execute_protect_event_thumbnail cl ident"
  for cl :: "('e, 'x) legacy_client_scheme" and ident
  unfolding execute_protect_event_thumbnail_def
  by (rule execute_protect_get_attempt) (simp_all add: capture_csrf_steps Let_def)

section \<open>What the bootstrap validation accepts\<close>

definition valid_camera :: "'c protect_local_camera_scheme \<Rightarrow> bool" where
  "valid_camera c \<longleftrightarrow>
     camera_id c \<noteq> [] \<and> length (camera_id c) \<le> MAXIMUM_PROTECT_DEVICE_IDENTIFIER_BYTES
     \<and> camera_model_key c = ''camera''"

lemma check_cameras_iff:
  "check_cameras ids cs = Inr () \<longleftrightarrow>
     (\<forall>c\<in>set cs. valid_camera c) \<and> distinct (map camera_id cs) \<and> ids \<inter> camera_id ` set cs = {}"
  by (induction ids cs rule: check_cameras.induct) (auto simp: valid_camera_def)

text \<open>
  A Protect bootstrap is accepted exactly when it has at most a thousand cameras, each with
  a plausible identifier and the camera model key, no two with the same identifier, and a
  recorder with a plausible identifier and the recorder model key.
\<close>

theorem bootstrap_accepted_iff:
  "validate_protect_bootstrap b = Inr () \<longleftrightarrow>
     length (cameras b) \<le> 1000 \<and> (\<forall>c\<in>set (cameras b). valid_camera c)
     \<and> distinct (map camera_id (cameras b))
     \<and> nvr_id (nvr b) \<noteq> [] \<and> length (nvr_id (nvr b)) \<le> 256 \<and> nvr_model_key (nvr b) = ''nvr''"
  by (auto simp: validate_protect_bootstrap_def bind_res_eq_Inr validate_protect_cameras_def
      check_cameras_iff MAXIMUM_PROTECT_CAMERAS_def MAXIMUM_PROTECT_DEVICE_IDENTIFIER_BYTES_def
      split: if_splits)

theorem bootstrap_accepted_iff_witness:
  "validate_protect_bootstrap
     \<lparr>cameras = [\<lparr>camera_id = ''c1'', camera_model_key = ''camera''\<rparr>],
      nvr = \<lparr>nvr_id = ''n1'', nvr_model_key = ''nvr''\<rparr>, raw = JNull\<rparr> = Inr ()"
  unfolding bootstrap_accepted_iff
  by (simp add: valid_camera_def MAXIMUM_PROTECT_DEVICE_IDENTIFIER_BYTES_def)

end
