(* ===== verification/Protect_Paging.thy ===== *)
theory Protect_Paging
  imports Legacy_Protect
begin

text \<open>
  What the time-key paging of historical Protect events guarantees. The controller is described
  by its event log, newest first, and by how it answers a query; a caller that follows the
  continuations is \<open>drain\<close>. The main property is that following them returns every event of
  the window exactly once and in order, and ends.
\<close>

section \<open>Specification\<close>

definition newest_first :: "protect_event list \<Rightarrow> bool" where
  "newest_first log \<longleftrightarrow> sorted_wrt (\<lambda>a b. event_start b \<le> event_start a) log"

definition valid_event :: "protect_event \<Rightarrow> bool" where
  "valid_event ev \<longleftrightarrow> event_id ev \<noteq> [] \<and> length (event_id ev) \<le> MAXIMUM_EVENT_IDENTIFIER_BYTES"

definition window :: "protect_event list \<Rightarrow> u64 \<Rightarrow> u64 \<Rightarrow> protect_event list" where
  "window log start win_end =
     filter (\<lambda>ev. start \<le> event_start ev \<and> event_start ev \<le> win_end) log"

text \<open>
  The controller's answer to a query for at most \<open>n\<close> events: the newest that are not after the
  end, with those before the start left out or not (the client relies on neither).
\<close>

definition serve ::
  "bool \<Rightarrow> protect_event list \<Rightarrow> u64 \<Rightarrow> nat \<Rightarrow> u64 \<Rightarrow> protect_event list" where
  "serve keep_older log start n win_end =
     take n (filter (\<lambda>ev. event_start ev \<le> win_end \<and> (keep_older \<or> start \<le> event_start ev)) log)"

text \<open>A caller that follows the continuations; \<open>None\<close> when its fuel runs out.\<close>

fun drain ::
  "nat \<Rightarrow> (u64 \<Rightarrow> protect_event list) \<Rightarrow> u64 \<Rightarrow> u32 \<Rightarrow> u64 \<Rightarrow> (api_error + protect_event list) option"
where
  "drain 0 reply start limit win_end = None"
| "drain (Suc fuel) reply start limit win_end =
     (case finish_protect_event_page start win_end limit (reply win_end) of
        Inl err \<Rightarrow> Some (Inl err)
      | Inr page \<Rightarrow>
          (case page_next page of
             None \<Rightarrow> Some (Inr (page_events page))
           | Some c \<Rightarrow>
               map_option (map_ok (\<lambda>rest. page_events page @ rest))
                 (drain fuel reply start limit (next_end c))))"

section \<open>One page\<close>

lemma newest_first_filter: "newest_first log \<Longrightarrow> newest_first (filter p log)"
  by (simp add: newest_first_def sorted_wrt_filter)

lemma newest_first_append:
  "newest_first (xs @ ys) \<longleftrightarrow>
     newest_first xs \<and> newest_first ys \<and> (\<forall>x\<in>set xs. \<forall>y\<in>set ys. event_start y \<le> event_start x)"
  by (simp add: newest_first_def sorted_wrt_append)

lemma newest_first_take: "newest_first xs \<Longrightarrow> newest_first (take n xs)"
  by (metis append_take_drop_id newest_first_append)

lemma newest_first_partition:
  assumes "newest_first xs" and "\<And>a b. event_start b \<le> event_start a \<Longrightarrow> p b \<Longrightarrow> p a"
  shows "xs = filter p xs @ filter (\<lambda>ev. \<not> p ev) xs"
  using assms(1)
proof (induction xs)
  case (Cons x xs)
  then have ih: "xs = filter p xs @ filter (\<lambda>ev. \<not> p ev) xs"
    by (simp add: newest_first_def)
  show ?case
  proof (cases "p x")
    case True
    with ih show ?thesis by simp
  next
    case False
    with Cons.prems assms(2) have "\<forall>y\<in>set xs. \<not> p y"
      by (auto simp: newest_first_def)
    with False show ?thesis by (simp add: filter_empty_conv)
  qed
qed simp

lemma windows_newest_first:
  "windows2_any (\<lambda>a b. event_start a < event_start b) xs \<longleftrightarrow> \<not> newest_first xs"
  unfolding newest_first_def
  by (rule windows2_any_sorted_wrt) (auto simp: transp_def)

text \<open>The rows served are the window followed by older events.\<close>

lemma serve_split:
  assumes "newest_first log"
  obtains older where "serve keep_older log start n win_end = take n (window log start win_end @ older)"
    and "\<forall>ev\<in>set older. event_start ev < start"
    and "newest_first (window log start win_end @ older)"
    and "set (window log start win_end @ older) \<subseteq> set log"
    and "\<forall>ev\<in>set (window log start win_end @ older). event_start ev \<le> win_end"
proof -
  let ?xs = "filter (\<lambda>ev. event_start ev \<le> win_end \<and> (keep_older \<or> start \<le> event_start ev)) log"
  let ?older = "filter (\<lambda>ev. \<not> start \<le> event_start ev) ?xs"
  have nf: "newest_first ?xs" using assms by (rule newest_first_filter)
  have "?xs = filter (\<lambda>ev. start \<le> event_start ev) ?xs @ ?older"
    by (rule newest_first_partition [OF nf]) simp
  also have "filter (\<lambda>ev. start \<le> event_start ev) ?xs = window log start win_end"
    by (auto simp: window_def intro: filter_cong)
  finally have xs: "?xs = window log start win_end @ ?older" .
  show thesis
  proof (rule that [of ?older])
    show "serve keep_older log start n win_end = take n (window log start win_end @ ?older)"
      unfolding serve_def by (rule arg_cong [OF xs])
    show "newest_first (window log start win_end @ ?older)"
      unfolding xs [symmetric] by (rule nf)
  qed (auto simp: window_def)
qed

lemma take_eq_filter:
  assumes "\<forall>x\<in>set (take k xs). p x" and "\<forall>x\<in>set (drop k xs). \<not> p x"
  shows "take k xs = filter p xs"
proof -
  have "filter p xs = filter p (take k xs) @ filter p (drop k xs)"
    by (metis append_take_drop_id filter_append)
  also have "\<dots> = take k xs" using assms by (simp add: filter_empty_conv)
  finally show ?thesis by simp
qed

lemma dropWhile_rev_filter:
  assumes "newest_first xs" and "\<forall>x\<in>set xs. b \<le> event_start x"
  shows "rev (dropWhile (\<lambda>ev. event_start ev = b) (rev xs)) = filter (\<lambda>ev. b < event_start ev) xs"
  using assms
proof (induction xs rule: rev_induct)
  case (snoc x xs)
  then have xs: "newest_first xs" "\<forall>y\<in>set xs. b \<le> event_start y"
    and x: "b \<le> event_start x" "\<forall>y\<in>set xs. event_start x \<le> event_start y"
    by (auto simp: newest_first_append)
  show ?case
  proof (cases "event_start x = b")
    case True
    with snoc.IH [OF xs] show ?thesis by simp
  next
    case False
    with x have "\<forall>y\<in>set xs. b < event_start y" "b < event_start x" by auto
    with False show ?thesis by simp
  qed
qed simp

text \<open>What a closed page is, when the rows are a window \<open>W\<close> followed by older events.\<close>

definition page_spec ::
  "u64 \<Rightarrow> nat \<Rightarrow> protect_event list \<Rightarrow> api_error + protect_event_page \<Rightarrow> bool" where
  "page_spec start k W r \<longleftrightarrow>
     (case r of
        Inl err \<Rightarrow>
          k < length W \<and> (\<forall>ev\<in>set (take (Suc k) W). event_start ev = event_start (hd W))
      | Inr page \<Rightarrow>
          (case page_next page of
             None \<Rightarrow> page_events page = W
           | Some c \<Rightarrow>
               page_events page = filter (\<lambda>ev. next_end c < event_start ev) W
               \<and> page_events page \<noteq> [] \<and> start \<le> next_end c
               \<and> (\<exists>ev\<in>set W. next_end c \<le> event_start ev)))"

lemma close_page_older:
  assumes "\<forall>ev\<in>set W. start \<le> event_start ev" and "\<forall>ev\<in>set older. event_start ev < start"
    and "older = [] \<longrightarrow> lookahead = None \<or> (\<exists>l. lookahead = Some l \<and> l < start)"
  shows "\<exists>page. close_page start (W @ older) lookahead = Inr page
           \<and> page_next page = None \<and> page_events page = W"
proof (cases older)
  case Nil
  with assms have "position (\<lambda>ev. event_start ev < start) (W @ older) = None" by (auto simp: position_None)
  with Nil assms(3) show ?thesis by (auto simp: close_page_def Let_def)
next
  case (Cons x xs)
  with assms(2) have x: "event_start x < start" by simp
  have "position (\<lambda>ev. event_start ev < start) (W @ older) \<noteq> None"
    using Cons x by (auto simp: position_None)
  then obtain i where i: "position (\<lambda>ev. event_start ev < start) (W @ older) = Some i" by blast
  from position_SomeD [OF i] have
    "take i (W @ older) = takeWhile (Not \<circ> (\<lambda>ev. event_start ev < start)) (W @ older)" by blast
  also have "\<dots> = W" using assms(1) Cons x by (subst takeWhile_append2) auto
  finally show ?thesis using i by (auto simp: close_page_def)
qed

lemma close_page_window:
  assumes nf: "newest_first W" and ge: "\<forall>ev\<in>set W. start \<le> event_start ev"
    and k: "0 < k" "k < length W"
  shows "page_spec start k W (close_page start (take k W) (Some (event_start (W ! k))))"
proof -
  let ?evs = "take k W"
  let ?b = "event_start (last ?evs)" and ?la = "event_start (W ! k)"
  have ne: "?evs \<noteq> []" using k by auto
  have pos: "position (\<lambda>ev. event_start ev < start) ?evs = None"
    using ge by (fastforce simp: position_None not_less dest: in_set_takeD)
  have la: "start \<le> ?la" using ge k by simp
  have nfe: "newest_first ?evs" using nf by (rule newest_first_take)
  have front: "\<forall>ev\<in>set ?evs. ?b \<le> event_start ev"
  proof -
    have split: "butlast ?evs @ [last ?evs] = ?evs" using ne by (rule append_butlast_last_id)
    have "newest_first (butlast ?evs @ [last ?evs])" unfolding split by (rule nfe)
    then have "\<forall>ev\<in>set (butlast ?evs @ [last ?evs]). ?b \<le> event_start ev"
      unfolding newest_first_append by auto
    then show ?thesis unfolding split .
  qed
  have rest: "drop k W = W ! k # drop (Suc k) W" using k by (simp add: Cons_nth_drop_Suc)
  have later: "\<forall>ev\<in>set (drop k W). event_start ev \<le> ?la"
  proof -
    have "newest_first (take k W @ drop k W)" using nf by simp
    then have "newest_first (drop k W)" unfolding newest_first_append by simp
    then show ?thesis unfolding rest by (auto simp: newest_first_def)
  qed
  have across: "?la \<le> ?b"
  proof -
    have "newest_first (take k W @ drop k W)" using nf by simp
    moreover have "last ?evs \<in> set (take k W)" "W ! k \<in> set (drop k W)"
      using ne rest by auto
    ultimately show ?thesis unfolding newest_first_append by blast
  qed
  have inW: "last ?evs \<in> set W" using ne by (meson in_set_takeD last_in_set)
  show ?thesis
  proof (cases "?b = ?la")
    case True
    let ?kept = "rev (dropWhile (\<lambda>ev. event_start ev = ?b) (rev ?evs))"
    have kept: "?kept = filter (\<lambda>ev. ?b < event_start ev) ?evs"
      by (rule dropWhile_rev_filter [OF nfe front])
    have "filter (\<lambda>ev. ?b < event_start ev) (drop k W) = []"
      using later True by (auto simp: filter_empty_conv)
    then have kept': "?kept = filter (\<lambda>ev. ?b < event_start ev) W"
      by (metis append_Nil2 append_take_drop_id filter_append kept)
    show ?thesis
    proof (cases "?kept = []")
      case empty: True
      then have "\<forall>ev\<in>set ?evs. event_start ev = ?b"
        using kept front by (auto simp: filter_empty_conv)
      moreover have "take (Suc k) W = ?evs @ [W ! k]" using k by (simp add: take_Suc_conv_app_nth)
      moreover have "hd W \<in> set ?evs" using k by (cases W; cases k) auto
      ultimately have "\<forall>ev\<in>set (take (Suc k) W). event_start ev = event_start (hd W)"
        using True by auto
      with pos la ne True empty k show ?thesis
        by (simp add: close_page_def Let_def page_spec_def)
    next
      case False
      have "start \<le> ?b" using la True by simp
      moreover have "\<exists>ev\<in>set W. ?b \<le> event_start ev" by (rule bexI [OF _ inW]) simp
      ultimately show ?thesis using pos la ne True False kept'
        by (auto simp: close_page_def Let_def page_spec_def)
    qed
  next
    case False
    with across have less: "?la < ?b" by simp
    then have "checked_sub ?b 1 \<noteq> None" by (simp add: checked_sub_1_None) (auto simp: not_less)
    then obtain n where n: "checked_sub ?b 1 = Some n" by blast
    have n_less: "t \<le> n \<longleftrightarrow> t < ?b" for t using checked_sub_1_le [OF n] .
    have "?evs = filter (\<lambda>ev. n < event_start ev) W"
    proof (rule take_eq_filter)
      show "\<forall>ev\<in>set ?evs. n < event_start ev"
        using front n_less by (metis leD leI)
      show "\<forall>ev\<in>set (drop k W). \<not> n < event_start ev"
        using later less n_less by (metis leD le_less_trans)
    qed
    moreover have "start \<le> n" using n_less la less by (metis le_less_trans)
    moreover have "n \<le> ?b" using n_less by (metis order.refl order.strict_implies_order)
    then have "\<exists>ev\<in>set W. n \<le> event_start ev" using inW by blast
    ultimately show ?thesis
      using pos la ne False n
      by (auto simp: close_page_def Let_def page_spec_def)
  qed
qed

section \<open>Pages of an honest controller\<close>

lemma finish_page_spec:
  assumes nf: "newest_first log" and valid: "\<forall>ev\<in>set log. valid_event ev" and limit: "0 < unat limit"
  shows "page_spec start (unat limit) (window log start win_end)
           (finish_protect_event_page start win_end limit
             (serve keep_older log start (Suc (unat limit)) win_end))"
proof -
  let ?k = "unat limit" and ?W = "window log start win_end"
  obtain older where
    rows: "serve keep_older log start (Suc ?k) win_end = take (Suc ?k) (?W @ older)"
    and old: "\<forall>ev\<in>set older. event_start ev < start"
    and nfa: "newest_first (?W @ older)" and sub: "set (?W @ older) \<subseteq> set log"
    and le: "\<forall>ev\<in>set (?W @ older). event_start ev \<le> win_end"
    by (rule serve_split [OF nf])
  let ?rows = "take (Suc ?k) (?W @ older)"
  have in_rows: "ev \<in> set ?rows \<Longrightarrow> ev \<in> set (?W @ older)" for ev by (rule in_set_takeD)
  have 1: "\<not> list_ex (\<lambda>ev. event_id ev = [] \<or> length (event_id ev) > MAXIMUM_EVENT_IDENTIFIER_BYTES) ?rows"
    using in_rows sub valid by (fastforce simp: list_ex_iff valid_event_def)
  have 2: "\<not> list_ex (\<lambda>ev. win_end < event_start ev) ?rows"
    unfolding list_ex_iff using in_rows le leD by blast
  have 3: "\<not> windows2_any (\<lambda>a b. event_start a < event_start b) ?rows"
    using newest_first_take [OF nfa] by (simp add: windows_newest_first)
  have ge: "\<forall>ev\<in>set ?W. start \<le> event_start ev" by (simp add: window_def)
  have nfW: "newest_first ?W" using nf unfolding window_def by (rule newest_first_filter)
  have finish: "finish_protect_event_page start win_end limit ?rows =
      (if length ?rows > ?k then close_page start (butlast ?rows) (Some (event_start (last ?rows)))
       else close_page start ?rows None)"
  proof -
    have len: "\<not> length ?rows > ?k + 1" by simp
    show ?thesis
      unfolding finish_protect_event_page_def Let_def if_not_P [OF 1] if_not_P [OF 2] if_not_P [OF 3]
        if_not_P [OF len] ..
  qed
  show ?thesis
  proof (cases "length (?W @ older) \<le> ?k")
    case True
    then have "?rows = ?W @ older" by simp
    with True finish rows close_page_older [OF ge old, of None] show ?thesis
      by (auto simp: page_spec_def)
  next
    case False
    then have split: "?rows = take ?k (?W @ older) @ [(?W @ older) ! ?k]"
      by (simp only: not_le take_Suc_conv_app_nth)
    have longer: "length ?rows > ?k" using False by simp
    have fin: "finish_protect_event_page start win_end limit ?rows =
        close_page start (take ?k (?W @ older)) (Some (event_start ((?W @ older) ! ?k)))"
      unfolding finish if_P [OF longer] by (simp only: split butlast_snoc last_snoc)
    show ?thesis
    proof (cases "?k < length ?W")
      case True
      with fin rows close_page_window [OF nfW ge limit] show ?thesis
        by (simp add: nth_append)
    next
      case short: False
      then have front: "take ?k (?W @ older) = ?W @ take (?k - length ?W) older" by simp
      have old': "\<forall>ev\<in>set (take (?k - length ?W) older). event_start ev < start"
        using old by (meson in_set_takeD)
      have "(?W @ older) ! ?k \<in> set older"
        using short False by (simp add: nth_append)
      with old have "event_start ((?W @ older) ! ?k) < start" by blast
      then have "\<exists>page. close_page start (?W @ take (?k - length ?W) older)
            (Some (event_start ((?W @ older) ! ?k))) = Inr page
          \<and> page_next page = None \<and> page_events page = ?W"
        by (intro close_page_older [OF ge old']) simp
      with fin rows front show ?thesis by (auto simp: page_spec_def)
    qed
  qed
qed

text \<open>What is left of the window below a continuation is shorter.\<close>

lemma window_lower:
  assumes "n \<le> win_end"
  shows "window log start n = filter (\<lambda>ev. event_start ev \<le> n) (window log start win_end)"
  using assms by (auto simp: window_def intro!: filter_cong)

lemma window_split:
  assumes "newest_first log" and "n \<le> win_end"
  shows "filter (\<lambda>ev. n < event_start ev) (window log start win_end) @ window log start n
           = window log start win_end"
proof -
  let ?W = "window log start win_end"
  have "newest_first ?W" using assms(1) unfolding window_def by (rule newest_first_filter)
  then have "?W = filter (\<lambda>ev. n < event_start ev) ?W @ filter (\<lambda>ev. \<not> n < event_start ev) ?W"
    by (rule newest_first_partition) simp
  then show ?thesis using window_lower [OF assms(2)] by (simp add: not_less)
qed

section \<open>Following the continuations\<close>

lemma crowded_error:
  assumes "k < length W" and "\<forall>ev\<in>set (take (Suc k) W). event_start ev = t"
  shows "k < length (filter (\<lambda>ev. event_start ev = t) W)"
proof -
  have "Suc k = length (filter (\<lambda>ev. event_start ev = t) (take (Suc k) W))"
    using assms by simp
  also have "\<dots> \<le> length (filter (\<lambda>ev. event_start ev = t) (take (Suc k) W @ drop (Suc k) W))"
    by (simp only: filter_append length_append)
  finally show ?thesis by simp
qed

lemma drain_window:
  assumes "newest_first log" and "\<forall>ev\<in>set log. valid_event ev" and "0 < unat limit"
    and "\<forall>t. length (filter (\<lambda>ev. event_start ev = t) (window log start win_end)) \<le> unat limit"
    and "length (window log start win_end) < fuel"
  shows "drain fuel (serve keep_older log start (Suc (unat limit))) start limit win_end
           = Some (Inr (window log start win_end))"
  using assms(4,5)
proof (induction fuel arbitrary: win_end)
  case (Suc fuel)
  let ?W = "window log start win_end"
  let ?r = "finish_protect_event_page start win_end limit
      (serve keep_older log start (Suc (unat limit)) win_end)"
  have spec: "page_spec start (unat limit) ?W ?r" by (rule finish_page_spec [OF assms(1,2,3)])
  show ?case
  proof (cases ?r)
    case (Inl err)
    with spec have "unat limit < length ?W"
      "\<forall>ev\<in>set (take (Suc (unat limit)) ?W). event_start ev = event_start (hd ?W)"
      by (auto simp: page_spec_def)
    from crowded_error [OF this] Suc.prems(1) [rule_format, of "event_start (hd ?W)"]
    show ?thesis by simp
  next
    case (Inr page)
    show ?thesis
    proof (cases "page_next page")
      case None
      with Inr spec show ?thesis by (simp add: page_spec_def)
    next
      case (Some c)
      let ?n = "next_end c"
      from Some Inr spec have evs: "page_events page = filter (\<lambda>ev. ?n < event_start ev) ?W"
        and ne: "page_events page \<noteq> []" and ex: "\<exists>ev\<in>set ?W. ?n \<le> event_start ev"
        by (auto simp: page_spec_def)
      from ex have le: "?n \<le> win_end" by (auto simp: window_def)
      have split: "page_events page @ window log start ?n = ?W"
        unfolding evs by (rule window_split [OF assms(1) le])
      then have "length (page_events page) + length (window log start ?n) = length ?W"
        by (metis length_append)
      with ne Suc.prems(2) have "length (window log start ?n) < fuel"
        by (cases "page_events page") auto
      moreover have "\<forall>t. length (filter (\<lambda>ev. event_start ev = t) (window log start ?n)) \<le> unat limit"
      proof
        fix t
        have "length (filter (\<lambda>ev. event_start ev = t) (window log start ?n))
            \<le> length (filter (\<lambda>ev. event_start ev = t) (page_events page @ window log start ?n))"
          by simp
        also have "\<dots> \<le> unat limit" unfolding split by (rule Suc.prems(1) [rule_format])
        finally show
          "length (filter (\<lambda>ev. event_start ev = t) (window log start ?n)) \<le> unat limit" .
      qed
      ultimately have "drain fuel (serve keep_older log start (Suc (unat limit))) start limit ?n
          = Some (Inr (window log start ?n))" using Suc.IH by blast
      with Inr Some split show ?thesis by simp
    qed
  qed
qed simp

text \<open>
  C5. Following the continuations enumerates the window: against a controller whose log is
  newest first, with plausible identifiers and no more simultaneous events than the page limit,
  a caller that keeps asking with the continuation it was given stops after finitely many pages
  and has every event of the window exactly once, in order, whether or not the controller also
  sends events older than the window.
\<close>

theorem event_paging_enumerates_window:
  assumes "newest_first log" and "\<forall>ev\<in>set log. valid_event ev"
    and "1 \<le> limit" and "limit \<le> MAXIMUM_PROTECT_EVENT_PAGE_LIMIT"
    and "\<forall>t. length (filter (\<lambda>ev. event_start ev = t) (window log start win_end)) \<le> unat limit"
  shows "drain (Suc (length (window log start win_end)))
           (serve keep_older log start (unat (limit + 1))) start limit win_end
           = Some (Inr (window log start win_end))"
proof -
  from assms(3) have pos: "0 < unat limit"
    by (metis gr0I unat_eq_zero word_not_simps(3) word_le_0_iff zero_neq_one)
  from assms(4) have "unat limit \<le> 999"
    by (simp add: MAXIMUM_PROTECT_EVENT_PAGE_LIMIT_def MAXIMUM_RECORD_LIMIT_def word_le_nat_alt)
  then have "unat (limit + 1) = Suc (unat limit)"
    by (simp add: unat_word_ariths)
  with drain_window [OF assms(1,2) pos assms(5), of "Suc (length (window log start win_end))"]
  show ?thesis by simp
qed

definition sample_event :: "string \<Rightarrow> u64 \<Rightarrow> protect_event" where
  "sample_event i t =
     \<lparr>event_id = i, event_kind = ''motion'', event_start = t, event_end = None, event_score = None,
      event_camera = None, smart_detect_types = [], event_details = []\<rparr>"

definition sample_log :: "protect_event list" where
  "sample_log = [sample_event ''d'' 40, sample_event ''c'' 30, sample_event ''b'' 30, sample_event ''a'' 5]"

theorem event_paging_enumerates_window_witness:
  "drain 4 (serve True sample_log 10 3) 10 2 50
     = Some (Inr [sample_event ''d'' 40, sample_event ''c'' 30, sample_event ''b'' 30])"
proof -
  have w: "window sample_log 10 50 =
      [sample_event ''d'' 40, sample_event ''c'' 30, sample_event ''b'' 30]"
    by (simp add: window_def sample_log_def sample_event_def)
  have "drain (Suc (length (window sample_log 10 50)))
      (serve True sample_log 10 (unat ((2::u32) + 1))) 10 2 50 = Some (Inr (window sample_log 10 50))"
  proof (rule event_paging_enumerates_window)
    show "newest_first sample_log" by (simp add: newest_first_def sample_log_def sample_event_def)
    show "\<forall>ev\<in>set sample_log. valid_event ev"
      by (simp add: sample_log_def sample_event_def valid_event_def MAXIMUM_EVENT_IDENTIFIER_BYTES_def)
    show "(2::u32) \<le> MAXIMUM_PROTECT_EVENT_PAGE_LIMIT"
      by (simp add: MAXIMUM_PROTECT_EVENT_PAGE_LIMIT_def MAXIMUM_RECORD_LIMIT_def)
    show "\<forall>t. length (filter (\<lambda>ev. event_start ev = t) (window sample_log 10 50)) \<le> unat (2::u32)"
      unfolding w by (auto simp: sample_event_def)
  qed simp
  moreover have "unat ((2::u32) + 1) = 3" by simp
  moreover have "Suc (length (window sample_log 10 50)) = 4" unfolding w by simp
  ultimately show ?thesis by (simp only: w)
qed

lemma rev_dropWhile_rev_take: "\<exists>n. rev (dropWhile p (rev xs)) = take n xs"
proof -
  have "xs = rev (dropWhile p (rev xs)) @ rev (takeWhile p (rev xs))"
    by (metis rev_append rev_rev_ident takeWhile_dropWhile_id)
  then show ?thesis by (metis append_eq_conv_conj)
qed

lemma close_page_prefix:
  assumes "close_page start events lookahead = Inr page"
  shows "\<exists>n. page_events page = take n events"
proof -
  have whole: "\<exists>n. events = take n events" by (metis order.refl take_all)
  show ?thesis
    using assms whole rev_dropWhile_rev_take
    by (auto simp: close_page_def Let_def split: option.splits if_splits)
qed

text \<open>
  C27. A page that was accepted is sound on its own, whatever the controller sent: its events are
  a leading part of the rows received, at most as many as the page limit, every one inside the
  requested window, newest first; a continuation lies inside the window and strictly below every
  event returned, so the next request is accepted and repeats nothing.
\<close>

theorem event_page_sound:
  assumes "finish_protect_event_page start win_end limit rows = Inr page" and "1 \<le> limit"
  shows "(\<exists>n. page_events page = take n rows) \<and> length (page_events page) \<le> unat limit
         \<and> newest_first (page_events page)
         \<and> (\<forall>ev\<in>set (page_events page). start \<le> event_start ev \<and> event_start ev \<le> win_end)
         \<and> (\<forall>c. page_next page = Some c \<longrightarrow> start \<le> next_end c \<and> next_end c \<le> win_end
              \<and> (\<forall>ev\<in>set (page_events page). next_end c < event_start ev))"
proof -
  from assms(2) have pos: "0 < unat limit"
    by (metis gr0I unat_eq_zero word_le_0_iff zero_neq_one)
  from assms(1) have ids: "\<forall>ev\<in>set rows. valid_event ev"
    and le: "\<forall>ev\<in>set rows. event_start ev \<le> win_end" and nf: "newest_first rows"
    and len: "length rows \<le> Suc (unat limit)"
    by (auto simp: finish_protect_event_page_def list_ex_iff valid_event_def windows_newest_first
        not_less Let_def split: if_splits)
  have "serve True rows start (Suc (unat limit)) win_end = rows"
    using le len by (simp add: serve_def)
  with finish_page_spec [OF nf ids pos, of start win_end True] assms(1)
  have spec: "page_spec start (unat limit) (window rows start win_end) (Inr page)" by simp
  obtain n where n: "page_events page = take n (if length rows > unat limit then butlast rows else rows)"
    using assms(1) close_page_prefix
    by (fastforce simp: finish_protect_event_page_def Let_def split: if_splits)
  then have prefix: "\<exists>n. page_events page = take n rows" and "length (page_events page) \<le> unat limit"
    using len by (auto simp: butlast_conv_take split: if_splits)
  moreover from prefix nf newest_first_take have "newest_first (page_events page)" by auto
  moreover from spec have "\<forall>ev\<in>set (page_events page). start \<le> event_start ev \<and> event_start ev \<le> win_end"
    by (auto simp: page_spec_def window_def split: option.splits)
  moreover from spec have "\<forall>c. page_next page = Some c \<longrightarrow> start \<le> next_end c \<and> next_end c \<le> win_end
      \<and> (\<forall>ev\<in>set (page_events page). next_end c < event_start ev)"
    by (auto simp: page_spec_def window_def)
  ultimately show ?thesis by blast
qed

theorem event_page_sound_witness:
  "newest_first (page_events \<lparr>page_events = [sample_event ''d'' 40], scanned_rows = 2,
     page_next = Some (ProtectEventContinuation 30)\<rparr>)"
proof -
  have "finish_protect_event_page 10 50 2
      [sample_event ''d'' 40, sample_event ''c'' 30, sample_event ''b'' 30] =
      Inr \<lparr>page_events = [sample_event ''d'' 40], scanned_rows = 2,
           page_next = Some (ProtectEventContinuation 30)\<rparr>"
    by (simp add: finish_protect_event_page_def close_page_def sample_event_def
        MAXIMUM_EVENT_IDENTIFIER_BYTES_def)
  from event_page_sound [OF this] show ?thesis by simp
qed

end
