(* ===== verification/Legacy_Operations.thy ===== *)
theory Legacy_Operations
  imports Legacy_Client Models
begin

text \<open>
  The operations of the legacy controller client (\<open>crates/unifi-api/src/legacy.rs\<close>): reads,
  detail reads with their row and identity checks, complete record envelopes, partial updates,
  device and station commands, and the reads with a route of their own (access-point groups,
  deep packet inspection, Protect bootstrap and thumbnails). Row types that the code only passes
  through are type variables, their decoders parameters. Historical Protect events are in
  \<open>Protect_Events\<close>.
\<close>

section \<open>Reads of typed rows\<close>

definition site_health ::
  "'a legacy_envelope decoder \<Rightarrow> ('e, 'x) legacy_client_scheme \<Rightarrow> string \<Rightarrow> 'e world
     \<Rightarrow> (api_error + 'a list) \<times> 'e world" where
  "site_health dec cl site =
     request_with_reauth dec cl IdempotentRead GET site [''stat'', ''health''] None"

definition active_clients ::
  "'a legacy_envelope decoder \<Rightarrow> ('e, 'x) legacy_client_scheme \<Rightarrow> string \<Rightarrow> 'e world
     \<Rightarrow> (api_error + 'a list) \<times> 'e world" where
  "active_clients dec cl site =
     request_with_reauth dec cl IdempotentRead GET site [''stat'', ''sta''] None"

definition networks ::
  "'a legacy_envelope decoder \<Rightarrow> ('e, 'x) legacy_client_scheme \<Rightarrow> string \<Rightarrow> 'e world
     \<Rightarrow> (api_error + 'a list) \<times> 'e world" where
  "networks dec cl site =
     request_with_reauth dec cl IdempotentRead GET site [''rest'', ''networkconf''] None"

definition wlans ::
  "'a legacy_envelope decoder \<Rightarrow> ('e, 'x) legacy_client_scheme \<Rightarrow> string \<Rightarrow> 'e world
     \<Rightarrow> (api_error + 'a list) \<times> 'e world" where
  "wlans dec cl site =
     request_with_reauth dec cl IdempotentRead GET site [''rest'', ''wlanconf''] None"

definition port_forwards ::
  "'a legacy_envelope decoder \<Rightarrow> ('e, 'x) legacy_client_scheme \<Rightarrow> string \<Rightarrow> 'e world
     \<Rightarrow> (api_error + 'a list) \<times> 'e world" where
  "port_forwards dec cl site =
     request_with_reauth dec cl IdempotentRead GET site [''rest'', ''portforward''] None"

definition traffic_rules ::
  "'a legacy_envelope decoder \<Rightarrow> ('e, 'x) legacy_client_scheme \<Rightarrow> string \<Rightarrow> 'e world
     \<Rightarrow> (api_error + 'a list) \<times> 'e world" where
  "traffic_rules dec cl site =
     request_with_reauth dec cl IdempotentRead GET site [''rest'', ''trafficrule''] None"

definition traffic_routes ::
  "'a legacy_envelope decoder \<Rightarrow> ('e, 'x) legacy_client_scheme \<Rightarrow> string \<Rightarrow> 'e world
     \<Rightarrow> (api_error + 'a list) \<times> 'e world" where
  "traffic_routes dec cl site =
     request_with_reauth dec cl IdempotentRead GET site [''rest'', ''trafficroute''] None"

definition rogue_aps ::
  "'a legacy_envelope decoder \<Rightarrow> ('e, 'x) legacy_client_scheme \<Rightarrow> string \<Rightarrow> 'e world
     \<Rightarrow> (api_error + 'a list) \<times> 'e world" where
  "rogue_aps dec cl site =
     request_with_reauth dec cl IdempotentRead GET site [''stat'', ''rogueap''] None"

text \<open>The hourly report, refused before any request when its window is empty or inverted.\<close>

definition wan_report_body :: "u64 \<Rightarrow> u64 \<Rightarrow> json" where
  "wan_report_body start_ms end_ms =
     JObj [(''attrs'', JArr [JStr ''time'', JStr ''wan-tx_bytes'', JStr ''wan-rx_bytes'']),
           (''end'', JNum (show_nat (unat end_ms))),
           (''start'', JNum (show_nat (unat start_ms)))]"

definition hourly_wan_report_with_response ::
  "'a legacy_envelope decoder \<Rightarrow> ('e, 'x) legacy_client_scheme \<Rightarrow> string \<Rightarrow> u64 \<Rightarrow> u64 \<Rightarrow> 'e world
     \<Rightarrow> (api_error + 'a list \<times> bytes) \<times> 'e world" where
  "hourly_wan_report_with_response dec cl site start_ms end_ms w =
     (if end_ms \<le> start_ms then (Inl (Config ''report window end must be after its start''), w)
      else request_with_reauth_with_bytes dec cl IdempotentRead POST site
             [''stat'', ''report'', ''hourly.site''] (Some (wan_report_body start_ms end_ms)) w)"

definition hourly_wan_report ::
  "'a legacy_envelope decoder \<Rightarrow> ('e, 'x) legacy_client_scheme \<Rightarrow> string \<Rightarrow> u64 \<Rightarrow> u64 \<Rightarrow> 'e world
     \<Rightarrow> (api_error + 'a list) \<times> 'e world" where
  "hourly_wan_report dec cl site start_ms end_ms =
     map_io fst (hourly_wan_report_with_response dec cl site start_ms end_ms)"

section \<open>Detail reads\<close>

definition legacy_detail_row ::
  "('e, 'x) externals_scheme \<Rightarrow> 'a list \<Rightarrow> bytes \<Rightarrow> string \<Rightarrow> api_error + 'a" where
  "legacy_detail_row X rows body what =
     (case rows of
        [row] \<Rightarrow> Inr row
      | _ \<Rightarrow>
          Inl (DecodeResponse (from_controller_bytes (ext_b64 X) body)
            (bounded_new
              (if rows = [] then what @ '' response contains no row for requested id''
               else what @ '' response contains '' @ show_nat (length rows)
                      @ '' rows for requested id''))))"

definition validate_legacy_detail_id ::
  "('e, 'x) externals_scheme \<Rightarrow> string \<Rightarrow> string \<Rightarrow> bytes \<Rightarrow> string \<Rightarrow> api_error + unit" where
  "validate_legacy_detail_id X actual requested body what =
     (if actual \<noteq> requested
      then Inl (DecodeResponse (from_controller_bytes (ext_b64 X) body)
             (bounded_new (what @ '' response id does not match requested id'')))
      else Inr ())"

definition wlan ::
  "wlan_conf legacy_envelope decoder \<Rightarrow> ('e, 'x) legacy_client_scheme \<Rightarrow> string \<Rightarrow> string \<Rightarrow> 'e world
     \<Rightarrow> (api_error + wlan_conf) \<times> 'e world" where
  "wlan dec cl site rid =
     bind_io (request_with_reauth_with_bytes dec cl IdempotentRead GET site
                [''rest'', ''wlanconf'', rid] None) (\<lambda>(rows, bytes).
       return_io
         (bind_res (legacy_detail_row cl rows bytes ''wireless network'') (\<lambda>row.
          bind_res (validate_legacy_detail_id cl (wlan_id row) rid bytes ''wireless network'') (\<lambda>_.
          Inr row))))"

text \<open>
  A detail read as both the typed record and the fingerprint, from one response: rows are read
  as whole objects, and the typed record is decoded from the single row.
\<close>

type_synonym json_object = "(string \<times> json) list"

definition wlan_snapshot ::
  "json_object legacy_envelope decoder \<Rightarrow> (json \<Rightarrow> string + wlan_conf)
     \<Rightarrow> ('e, 'x) legacy_client_scheme \<Rightarrow> string \<Rightarrow> string \<Rightarrow> 'e world
     \<Rightarrow> (api_error + wlan_conf \<times> record_fingerprint) \<times> 'e world" where
  "wlan_snapshot dec from_value cl site rid =
     bind_io (request_with_reauth_with_bytes dec cl IdempotentRead GET site
                [''rest'', ''wlanconf'', rid] None) (\<lambda>(rows, bytes).
       return_io
         (bind_res (legacy_detail_row cl rows bytes ''wireless network'') (\<lambda>row.
          bind_res (map_err (\<lambda>err. decode_failure (ext_b64 cl) err bytes) (from_value (JObj row)))
            (\<lambda>conf.
          bind_res (validate_legacy_detail_id cl (wlan_id conf) rid bytes ''wireless network'') (\<lambda>_.
          Inr (conf, RecordFingerprint row))))))"

definition port_forward_snapshot ::
  "json_object legacy_envelope decoder \<Rightarrow> (json \<Rightarrow> string + port_forward)
     \<Rightarrow> ('e, 'x) legacy_client_scheme \<Rightarrow> string \<Rightarrow> string \<Rightarrow> 'e world
     \<Rightarrow> (api_error + port_forward \<times> record_fingerprint) \<times> 'e world" where
  "port_forward_snapshot dec from_value cl site rid =
     bind_io (request_with_reauth_with_bytes dec cl IdempotentRead GET site
                [''rest'', ''portforward'', rid] None) (\<lambda>(rows, bytes).
       return_io
         (bind_res (legacy_detail_row cl rows bytes ''port forward'') (\<lambda>row.
          bind_res (map_err (\<lambda>err. decode_failure (ext_b64 cl) err bytes) (from_value (JObj row)))
            (\<lambda>forward.
          bind_res (validate_legacy_detail_id cl (pf_id forward) rid bytes ''port forward'') (\<lambda>_.
          Inr (forward, RecordFingerprint row))))))"

section \<open>Complete record envelopes\<close>

definition legacy_record_envelope :: "('e, 'x) externals_scheme \<Rightarrow> bytes \<Rightarrow> api_error + json" where
  "legacy_record_envelope X body =
     bind_res (map_err (\<lambda>err. decode_failure (ext_b64 X) err body) (ext_value X body)) (\<lambda>envelope.
       if Option.bind (jget ''data'' envelope) jarr = None
       then Inl (decode_failure (ext_b64 X) ''record envelope contains no data array'' body)
       else Inr envelope)"

definition read_envelope ::
  "json legacy_envelope decoder \<Rightarrow> ('e, 'x) legacy_client_scheme \<Rightarrow> http_method \<Rightarrow> string
     \<Rightarrow> string list \<Rightarrow> json option \<Rightarrow> 'e world \<Rightarrow> (api_error + json) \<times> 'e world" where
  "read_envelope dec cl verb site tail body =
     bind_io (request_with_reauth_with_bytes dec cl IdempotentRead verb site tail body)
       (\<lambda>(_, bytes). return_io (legacy_record_envelope cl bytes))"

definition read_record_envelope ::
  "json legacy_envelope decoder \<Rightarrow> ('e, 'x) legacy_client_scheme \<Rightarrow> string \<Rightarrow> string list
     \<Rightarrow> 'e world \<Rightarrow> (api_error + json) \<times> 'e world" where
  "read_record_envelope dec cl site tail = read_envelope dec cl GET site tail None"

definition port_forward_records ::
  "json legacy_envelope decoder \<Rightarrow> ('e, 'x) legacy_client_scheme \<Rightarrow> string \<Rightarrow> 'e world
     \<Rightarrow> (api_error + json) \<times> 'e world" where
  "port_forward_records dec cl site = read_envelope dec cl GET site [''rest'', ''portforward''] None"

definition port_forward_record ::
  "json legacy_envelope decoder \<Rightarrow> ('e, 'x) legacy_client_scheme \<Rightarrow> string \<Rightarrow> string \<Rightarrow> 'e world
     \<Rightarrow> (api_error + json) \<times> 'e world" where
  "port_forward_record dec cl site rid = read_envelope dec cl GET site [''rest'', ''portforward'', rid] None"

definition wlan_records ::
  "json legacy_envelope decoder \<Rightarrow> ('e, 'x) legacy_client_scheme \<Rightarrow> string \<Rightarrow> 'e world
     \<Rightarrow> (api_error + json) \<times> 'e world" where
  "wlan_records dec cl site = read_record_envelope dec cl site [''rest'', ''wlanconf'']"

definition wlan_record ::
  "json legacy_envelope decoder \<Rightarrow> ('e, 'x) legacy_client_scheme \<Rightarrow> string \<Rightarrow> string \<Rightarrow> 'e world
     \<Rightarrow> (api_error + json) \<times> 'e world" where
  "wlan_record dec cl site rid = read_record_envelope dec cl site [''rest'', ''wlanconf'', rid]"

definition wlan_groups ::
  "json legacy_envelope decoder \<Rightarrow> ('e, 'x) legacy_client_scheme \<Rightarrow> string \<Rightarrow> 'e world
     \<Rightarrow> (api_error + json) \<times> 'e world" where
  "wlan_groups dec cl site = read_record_envelope dec cl site [''rest'', ''wlangroup'']"

definition user_groups ::
  "json legacy_envelope decoder \<Rightarrow> ('e, 'x) legacy_client_scheme \<Rightarrow> string \<Rightarrow> 'e world
     \<Rightarrow> (api_error + json) \<times> 'e world" where
  "user_groups dec cl site = read_record_envelope dec cl site [''rest'', ''usergroup'']"

datatype legacy_diagnostic_source =
    ActiveClients | SiteHealth | NetworkConfiguration | NeighborAccessPoints | DpiCounters

definition by_app_body :: json where
  "by_app_body = JObj [(''type'', JStr ''by_app'')]"

fun diagnostic_request ::
  "legacy_diagnostic_source \<Rightarrow> http_method \<times> string list \<times> json option" where
  "diagnostic_request ActiveClients = (GET, [''stat'', ''sta''], None)"
| "diagnostic_request SiteHealth = (GET, [''stat'', ''health''], None)"
| "diagnostic_request NetworkConfiguration = (GET, [''rest'', ''networkconf''], None)"
| "diagnostic_request NeighborAccessPoints = (GET, [''stat'', ''rogueap''], None)"
| "diagnostic_request DpiCounters = (POST, [''stat'', ''sitedpi''], Some by_app_body)"

definition diagnostic_records ::
  "json legacy_envelope decoder \<Rightarrow> ('e, 'x) legacy_client_scheme \<Rightarrow> string
     \<Rightarrow> legacy_diagnostic_source \<Rightarrow> 'e world \<Rightarrow> (api_error + json) \<times> 'e world" where
  "diagnostic_records dec cl site src =
     (case diagnostic_request src of
        (verb, tail, body) \<Rightarrow> read_envelope dec cl verb site tail body)"

section \<open>Mutations\<close>

text \<open>The common tail of every write: the accepted status and the complete envelope.\<close>

definition write_with_status ::
  "json legacy_envelope decoder \<Rightarrow> ('e, 'x) legacy_client_scheme \<Rightarrow> http_method \<Rightarrow> string
     \<Rightarrow> string list \<Rightarrow> json option \<Rightarrow> 'e world \<Rightarrow> (api_error + nat \<times> bytes) \<times> 'e world" where
  "write_with_status dec cl verb site tail body =
     map_io (\<lambda>(_, status, bytes). (status, bytes))
       (request_with_reauth_with_status_bytes dec cl Mutation verb site tail body)"

definition update_wlan ::
  "json legacy_envelope decoder \<Rightarrow> ('e, 'x) legacy_client_scheme \<Rightarrow> string \<Rightarrow> string \<Rightarrow> wlan_patch
     \<Rightarrow> 'e world \<Rightarrow> (api_error + nat \<times> bytes) \<times> 'e world" where
  "update_wlan dec cl site rid patch w =
     (if wlan_patch_is_empty patch
      then (Inl (Config ''wireless network update carries no fields''), w)
      else write_with_status dec cl PUT site [''rest'', ''wlanconf'', rid]
             (Some (wlan_patch_json patch)) w)"

definition update_port_forward ::
  "json legacy_envelope decoder \<Rightarrow> ('e, 'x) legacy_client_scheme \<Rightarrow> string \<Rightarrow> string
     \<Rightarrow> port_forward_patch \<Rightarrow> 'e world \<Rightarrow> (api_error + nat \<times> bytes) \<times> 'e world" where
  "update_port_forward dec cl site rid patch w =
     (if port_forward_patch_is_empty patch
      then (Inl (Config ''port forward update carries no fields''), w)
      else write_with_status dec cl PUT site [''rest'', ''portforward'', rid]
             (Some (port_forward_patch_json patch)) w)"

definition create_port_forward ::
  "json legacy_envelope decoder \<Rightarrow> ('e, 'x) legacy_client_scheme \<Rightarrow> string \<Rightarrow> json \<Rightarrow> 'e world
     \<Rightarrow> (api_error + nat \<times> bytes) \<times> 'e world" where
  "create_port_forward dec cl site configuration =
     write_with_status dec cl POST site [''rest'', ''portforward''] (Some configuration)"

definition configure_port_forward ::
  "json legacy_envelope decoder \<Rightarrow> ('e, 'x) legacy_client_scheme \<Rightarrow> string \<Rightarrow> string \<Rightarrow> json \<Rightarrow> 'e world
     \<Rightarrow> (api_error + nat \<times> bytes) \<times> 'e world" where
  "configure_port_forward dec cl site rid configuration =
     write_with_status dec cl PUT site [''rest'', ''portforward'', rid] (Some configuration)"

definition delete_port_forward ::
  "json legacy_envelope decoder \<Rightarrow> ('e, 'x) legacy_client_scheme \<Rightarrow> string \<Rightarrow> string \<Rightarrow> 'e world
     \<Rightarrow> (api_error + nat \<times> bytes) \<times> 'e world" where
  "delete_port_forward dec cl site rid =
     write_with_status dec cl DELETE site [''rest'', ''portforward'', rid] None"

definition create_wlan ::
  "json legacy_envelope decoder \<Rightarrow> ('e, 'x) legacy_client_scheme \<Rightarrow> string \<Rightarrow> json \<Rightarrow> 'e world
     \<Rightarrow> (api_error + nat \<times> bytes) \<times> 'e world" where
  "create_wlan dec cl site configuration =
     write_with_status dec cl POST site [''rest'', ''wlanconf''] (Some configuration)"

definition configure_wlan ::
  "json legacy_envelope decoder \<Rightarrow> ('e, 'x) legacy_client_scheme \<Rightarrow> string \<Rightarrow> string \<Rightarrow> json \<Rightarrow> 'e world
     \<Rightarrow> (api_error + nat \<times> bytes) \<times> 'e world" where
  "configure_wlan dec cl site rid configuration =
     write_with_status dec cl PUT site [''rest'', ''wlanconf'', rid] (Some configuration)"

definition delete_wlan ::
  "json legacy_envelope decoder \<Rightarrow> ('e, 'x) legacy_client_scheme \<Rightarrow> string \<Rightarrow> string \<Rightarrow> 'e world
     \<Rightarrow> (api_error + nat \<times> bytes) \<times> 'e world" where
  "delete_wlan dec cl site rid =
     write_with_status dec cl DELETE site [''rest'', ''wlanconf'', rid] None"

definition command_body :: "('e, 'x) externals_scheme \<Rightarrow> string \<Rightarrow> string \<Rightarrow> json" where
  "command_body X command mac = JObj [(''cmd'', JStr command), (''mac'', JStr (ext_lowercase X mac))]"

definition device_command ::
  "json legacy_envelope decoder \<Rightarrow> ('e, 'x) legacy_client_scheme \<Rightarrow> string \<Rightarrow> string \<Rightarrow> string \<Rightarrow> 'e world
     \<Rightarrow> (api_error + nat \<times> bytes) \<times> 'e world" where
  "device_command dec cl site command mac =
     write_with_status dec cl POST site [''cmd'', ''devmgr''] (Some (command_body cl command mac))"

definition station_command ::
  "json legacy_envelope decoder \<Rightarrow> ('e, 'x) legacy_client_scheme \<Rightarrow> string \<Rightarrow> string \<Rightarrow> string \<Rightarrow> 'e world
     \<Rightarrow> (api_error + nat \<times> bytes) \<times> 'e world" where
  "station_command dec cl site command mac =
     write_with_status dec cl POST site [''cmd'', ''stamgr''] (Some (command_body cl command mac))"

definition kick_client ::
  "json legacy_envelope decoder \<Rightarrow> ('e, 'x) legacy_client_scheme \<Rightarrow> string \<Rightarrow> string \<Rightarrow> 'e world
     \<Rightarrow> (api_error + nat \<times> bytes) \<times> 'e world" where
  "kick_client dec cl site mac = station_command dec cl site ''kick-sta'' mac"

definition block_client ::
  "json legacy_envelope decoder \<Rightarrow> ('e, 'x) legacy_client_scheme \<Rightarrow> string \<Rightarrow> string \<Rightarrow> 'e world
     \<Rightarrow> (api_error + nat \<times> bytes) \<times> 'e world" where
  "block_client dec cl site mac = station_command dec cl site ''block-sta'' mac"

definition unblock_client ::
  "json legacy_envelope decoder \<Rightarrow> ('e, 'x) legacy_client_scheme \<Rightarrow> string \<Rightarrow> string \<Rightarrow> 'e world
     \<Rightarrow> (api_error + nat \<times> bytes) \<times> 'e world" where
  "unblock_client dec cl site mac = station_command dec cl site ''unblock-sta'' mac"

definition restart_device ::
  "json legacy_envelope decoder \<Rightarrow> ('e, 'x) legacy_client_scheme \<Rightarrow> string \<Rightarrow> string \<Rightarrow> 'e world
     \<Rightarrow> (api_error + nat \<times> bytes) \<times> 'e world" where
  "restart_device dec cl site mac = device_command dec cl site ''restart'' mac"

definition locate_device ::
  "json legacy_envelope decoder \<Rightarrow> ('e, 'x) legacy_client_scheme \<Rightarrow> string \<Rightarrow> string \<Rightarrow> bool
     \<Rightarrow> 'e world \<Rightarrow> (api_error + nat \<times> bytes) \<times> 'e world" where
  "locate_device dec cl site mac on =
     device_command dec cl site (if on then ''set-locate'' else ''unset-locate'') mac"

section \<open>Reads with a route of their own\<close>

fun ap_group_segments :: "console_kind \<Rightarrow> string \<Rightarrow> string list" where
  "ap_group_segments UnifiOs site =
     [''proxy'', ''network'', ''v2'', ''api'', ''site'', site, ''apgroups'']"
| "ap_group_segments Standalone site = [''v2'', ''api'', ''site'', site, ''apgroups'']"

definition execute_ap_groups ::
  "json list decoder \<Rightarrow> ('e, 'x) legacy_client_scheme \<Rightarrow> string \<Rightarrow> 'e world
     \<Rightarrow> (api_error + json) \<times> 'e world" where
  "execute_ap_groups dec cl site w =
     (case kind (session w) of
        None \<Rightarrow> (Inl (Config ''session used before console detection''), w)
      | Some k \<Rightarrow>
          (case build_url (base cl) (ap_group_segments k site) [] of
             Inl e \<Rightarrow> (Inl e, w)
           | Inr u \<Rightarrow>
               bind_io (execute_request_bytes cl IdempotentRead
                          \<lparr>rq_method = GET, rq_url = u, rq_headers = accept_json, rq_body = None\<rparr>)
                 (\<lambda>(_, bytes). return_io
                    (map_ok JArr (map_err (\<lambda>err. decode_failure (ext_b64 cl) err bytes) (dec bytes))))
                 w))"

definition ap_groups ::
  "json list decoder \<Rightarrow> ('e, 'x) legacy_client_scheme \<Rightarrow> string \<Rightarrow> 'e world
     \<Rightarrow> (api_error + json) \<times> 'e world" where
  "ap_groups dec cl site = read_with_reauth True cl (execute_ap_groups dec cl site)"

fun dpi_unsupported :: "api_error \<Rightarrow> bool" where
  "dpi_unsupported (Status status _) = (status = 404 \<or> status = 405)"
| "dpi_unsupported _ = False"

definition execute_dpi ::
  "dpi_record legacy_envelope decoder \<Rightarrow> ('e, 'x) legacy_client_scheme \<Rightarrow> string \<Rightarrow> 'e world
     \<Rightarrow> (api_error + dpi_report) \<times> 'e world" where
  "execute_dpi dec cl site w =
     (case execute dec cl IdempotentRead POST site [''stat'', ''sitedpi''] (Some by_app_body) w of
        (Inr records, w) \<Rightarrow> (Inr (from_records records), w)
      | (Inl err, w) \<Rightarrow>
          (if dpi_unsupported err
           then (Inr (dpi_report_default\<lparr>availability := DpiUnsupported,
                                         unsupported_response := Some err\<rparr>), w)
           else (Inl err, w)))"

definition dpi_by_application ::
  "dpi_record legacy_envelope decoder \<Rightarrow> ('e, 'x) legacy_client_scheme \<Rightarrow> string \<Rightarrow> 'e world
     \<Rightarrow> (api_error + dpi_report) \<times> 'e world" where
  "dpi_by_application dec cl site = read_with_reauth True cl (execute_dpi dec cl site)"

section \<open>Their attempts follow the laws of an attempt\<close>

lemma ap_group_segments_not_login:
  "build_url b (ap_group_segments k site) q = Inr u \<Longrightarrow> \<not> is_login_request
     \<lparr>rq_method = verb, rq_url = u, rq_headers = hs, rq_body = body\<rparr>"
  by (cases k) (auto simp: is_login_request_def dest!: build_url_segments)

lemma snd_execute_dpi [simp]:
  "snd (execute_dpi dec cl site w) =
     snd (execute_bytes cl IdempotentRead POST site [''stat'', ''sitedpi''] (Some by_app_body) w)"
proof -
  have "snd (execute dec cl IdempotentRead POST site [''stat'', ''sitedpi''] (Some by_app_body) w) =
      snd (execute_bytes cl IdempotentRead POST site [''stat'', ''sitedpi''] (Some by_app_body) w)"
    by (simp add: execute_def execute_with_bytes_def)
  then show ?thesis
    by (auto simp: execute_dpi_def split: prod.splits sum.splits)
qed

lemma snd_execute_ap_groups:
  "snd (execute_ap_groups dec cl site w) =
     (case kind (session w) of
        None \<Rightarrow> w
      | Some k \<Rightarrow>
          (case build_url (base cl) (ap_group_segments k site) [] of
             Inl _ \<Rightarrow> w
           | Inr u \<Rightarrow> snd (execute_request_bytes cl IdempotentRead
               \<lparr>rq_method = GET, rq_url = u, rq_headers = accept_json, rq_body = None\<rparr> w)))"
  by (auto simp: execute_ap_groups_def snd_bind_io split: option.split sum.split)

interpretation ap: request_attempt "execute_ap_groups dec cl site"
  for dec :: "json list decoder" and cl :: "('e, 'x) legacy_client_scheme" and site
proof
  fix w :: "'e world"
  show "session_steps (session w) (session (snd (execute_ap_groups dec cl site w)))"
    by (auto simp: snd_execute_ap_groups execute_request_bytes_steps split: option.split sum.split)
  show "\<exists>tr. trace (snd (execute_ap_groups dec cl site w)) = trace w @ tr \<and> length tr \<le> 1
      \<and> (\<forall>ev\<in>set tr. \<exists>r. ev = Sent r \<and> \<not> is_login_request r)"
    by (auto simp: snd_execute_ap_groups ap_group_segments_not_login split: option.split sum.split)
qed

interpretation dpi: request_attempt "execute_dpi dec cl site"
  for dec :: "dpi_record legacy_envelope decoder" and cl :: "('e, 'x) legacy_client_scheme" and site
  by unfold_locales (simp_all only: snd_execute_dpi execute_bytes_steps execute_bytes_trace)

section \<open>Properties of the operations\<close>

text \<open>Every operation of the client that changes the controller, as a change of the world.\<close>

inductive legacy_write ::
  "json legacy_envelope decoder \<Rightarrow> ('e, 'x) legacy_client_scheme \<Rightarrow> ('e world \<Rightarrow> 'e world) \<Rightarrow> bool"
  for dec cl where
  "legacy_write dec cl (\<lambda>w. snd (update_wlan dec cl site rid wpatch w))"
| "legacy_write dec cl (\<lambda>w. snd (create_wlan dec cl site conf w))"
| "legacy_write dec cl (\<lambda>w. snd (configure_wlan dec cl site rid conf w))"
| "legacy_write dec cl (\<lambda>w. snd (delete_wlan dec cl site rid w))"
| "legacy_write dec cl (\<lambda>w. snd (update_port_forward dec cl site rid ppatch w))"
| "legacy_write dec cl (\<lambda>w. snd (create_port_forward dec cl site conf w))"
| "legacy_write dec cl (\<lambda>w. snd (configure_port_forward dec cl site rid conf w))"
| "legacy_write dec cl (\<lambda>w. snd (delete_port_forward dec cl site rid w))"
| "legacy_write dec cl (\<lambda>w. snd (kick_client dec cl site mac w))"
| "legacy_write dec cl (\<lambda>w. snd (block_client dec cl site mac w))"
| "legacy_write dec cl (\<lambda>w. snd (unblock_client dec cl site mac w))"
| "legacy_write dec cl (\<lambda>w. snd (restart_device dec cl site mac w))"
| "legacy_write dec cl (\<lambda>w. snd (locate_device dec cl site mac on w))"

lemmas write_defs =
  update_wlan_def create_wlan_def configure_wlan_def delete_wlan_def
  update_port_forward_def create_port_forward_def configure_port_forward_def delete_port_forward_def
  kick_client_def block_client_def unblock_client_def restart_device_def locate_device_def
  station_command_def device_command_def

definition sent_once :: "'e world \<Rightarrow> 'e world \<Rightarrow> bool" where
  "sent_once w w' \<longleftrightarrow>
     (\<exists>tr. trace w' = trace w @ tr \<and> payload_sends tr \<le> 1 \<and> login_sends tr \<le> 3 \<and> sleeps tr = [])"

lemma sent_once_refl: "sent_once w w"
  unfolding sent_once_def by (intro exI [of _ "[]"]) simp

lemma write_sent_once:
  assumes "session_inv (session w)"
  shows "sent_once w (snd (write_with_status dec cl verb site tail body w))"
  using mutation_counts [OF assms] by (simp add: write_with_status_def sent_once_def)

text \<open>
  C3. No operation that changes the controller is ever sent twice, by any of its thirteen entry
  points: at most one request that is not a login leaves the client, and it never pauses to
  retry.
\<close>

theorem writes_are_sent_once:
  assumes "legacy_write dec cl run" and "session_inv (session w)"
  shows "\<exists>tr. trace (run w) = trace w @ tr
           \<and> payload_sends tr \<le> 1 \<and> login_sends tr \<le> 3 \<and> sleeps tr = []"
proof -
  from assms(1) have "sent_once w (run w)"
    by cases (simp_all add: write_defs write_sent_once [OF assms(2)] sent_once_refl)
  then show ?thesis by (simp add: sent_once_def)
qed

theorem writes_are_sent_once_witness:
  "\<exists>tr. trace (snd (kick_client (\<lambda>_. Inl ''x'') (canned_client (Inl ''down'')) ''default''
            ''AA:BB:CC:DD:EE:FF'' (canned_world session_default)))
          = trace (canned_world session_default) @ tr
        \<and> payload_sends tr \<le> 1 \<and> login_sends tr \<le> 3 \<and> sleeps tr = []"
proof -
  have inv: "session_inv (session (canned_world session_default))"
    by (simp add: canned_world_def session_inv_default)
  show ?thesis
    by (rule writes_are_sent_once [OF legacy_write.intros(9) inv])
qed

lemma put_field_keys: "fst ` set (put_field f m) \<subseteq> insert (fst f) (fst ` set m)"
  by (cases f; cases "snd f") (auto simp: fst_map_insert)

text \<open>
  A partial update is refused without any traffic exactly when it sets nothing; otherwise
  the body it sends has a property for each field that is set, with its value, and no other.
\<close>

theorem update_body_is_the_patch:
  "(\<forall>k. get k (set_fields (wlan_patch_fields p)) = Option.bind (map_of (wlan_patch_fields p) k) id)
   \<and> (wlan_patch_is_empty p \<longleftrightarrow> set_fields (wlan_patch_fields p) = [])
   \<and> (wlan_patch_is_empty p \<longrightarrow>
        update_wlan dec cl site rid p w = (Inl (Config ''wireless network update carries no fields''), w))
   \<and> (\<not> wlan_patch_is_empty p \<longrightarrow>
        update_wlan dec cl site rid p w =
          write_with_status dec cl PUT site [''rest'', ''wlanconf'', rid] (Some (wlan_patch_json p)) w)"
proof -
  have get: "get k (set_fields (wlan_patch_fields p)) = Option.bind (map_of (wlan_patch_fields p) k) id" for k
    by (rule get_set_fields) (simp add: wlan_patch_fields_def)
  have "set_fields (wlan_patch_fields p) = []" if "wlan_patch_is_empty p"
    using that by (simp add: set_fields_def wlan_patch_fields_def wlan_patch_is_empty_def)
  moreover have "wlan_patch_is_empty p" if nil: "set_fields (wlan_patch_fields p) = []"
  proof -
    have "Option.bind (map_of (wlan_patch_fields p) k) id = None" for k
      using get [of k] nil by simp
    from this [of "''name''"] this [of "''enabled''"] this [of "''security''"]
      this [of "''x_passphrase''"] this [of "''hide_ssid''"] this [of "''radius_profile_id''"]
    show ?thesis by (simp add: wlan_patch_fields_def wlan_patch_is_empty_def)
  qed
  ultimately show ?thesis using get by (auto simp: update_wlan_def)
qed

theorem update_body_is_the_patch_witness:
  "update_wlan (\<lambda>_. Inl ''x'') (canned_client (Inl ''down'')) ''default'' ''w1''
     \<lparr>wp_name = None, wp_enabled = None, wp_security = None, wp_x_passphrase = None,
      wp_hide_ssid = None, wp_radius_profile_id = None\<rparr> (canned_world session_default)
   = (Inl (Config ''wireless network update carries no fields''), canned_world session_default)"
proof -
  have h: "wlan_patch_is_empty \<lparr>wp_name = None, wp_enabled = None, wp_security = None,
      wp_x_passphrase = None, wp_hide_ssid = None, wp_radius_profile_id = None\<rparr>"
    by (simp add: wlan_patch_is_empty_def)
  show ?thesis
    by (rule update_body_is_the_patch [THEN conjunct2, THEN conjunct2, THEN conjunct1, rule_format, OF h])
qed

text \<open>
  A record snapshot is only ever of the record asked for: when it returns, the response had
  exactly one row, the typed record was decoded from that same row, the fingerprint holds it
  whole, and its identity is the requested one.
\<close>

theorem snapshot_is_of_the_requested_record:
  assumes "fst (wlan_snapshot dec from_value cl site rid w) = Inr (conf, fp)"
  shows "wlan_id conf = rid \<and> from_value (JObj (properties fp)) = Inr conf
         \<and> (\<exists>bytes. fst (request_with_reauth_with_bytes dec cl IdempotentRead GET site
                [''rest'', ''wlanconf'', rid] None w) = Inr ([properties fp], bytes))"
  using assms
  by (auto simp: wlan_snapshot_def fst_bind_io bind_res_eq_Inr legacy_detail_row_def
      validate_legacy_detail_id_def split: sum.splits prod.splits list.splits if_splits)

definition sample_wlan :: wlan_conf where
  "sample_wlan =
     \<lparr>wlan_id = ''w1'', wlan_name = Some ''home'', wlan_enabled = Some True, wlan_security = None,
      wlan_x_passphrase = None, wlan_networkconf_id = None, wlan_hide_ssid = None,
      wlan_radius_profile_id = None\<rparr>"

theorem snapshot_is_of_the_requested_record_witness:
  "wlan_id sample_wlan = ''w1''
   \<and> fst (wlan_snapshot
        (\<lambda>_. Inr \<lparr>meta_rc = ''ok'', meta_msg = None, envelope_data = [[(''_id'', JStr ''w1'')]]\<rparr>)
        (\<lambda>_. Inr sample_wlan)
        (canned_client (Inr \<lparr>rs_status = 200, rs_header = (\<lambda>_. None), rs_chunks = []\<rparr>))
        ''default'' ''w1''
        (canned_world (session_default\<lparr>kind := Some Standalone, authenticated := True\<rparr>)))
      = Inr (sample_wlan, RecordFingerprint [(''_id'', JStr ''w1'')])"
proof -
  have run: "fst (wlan_snapshot
        (\<lambda>_. Inr \<lparr>meta_rc = ''ok'', meta_msg = None, envelope_data = [[(''_id'', JStr ''w1'')]]\<rparr>)
        (\<lambda>_. Inr sample_wlan)
        (canned_client (Inr \<lparr>rs_status = 200, rs_header = (\<lambda>_. None), rs_chunks = []\<rparr>))
        ''default'' ''w1''
        (canned_world (session_default\<lparr>kind := Some Standalone, authenticated := True\<rparr>)))
      = Inr (sample_wlan, RecordFingerprint [(''_id'', JStr ''w1'')])"
    by (simp add: wlan_snapshot_def request_with_reauth_with_bytes_def
        request_with_reauth_with_status_bytes_def ensure_session_def canned_world_def
        session_default_def bind_io_def map_io_def execute_with_status_bytes_def execute_bytes_def
        execute_request_bytes_def build_url_def invalid_segment_def canned_client_def send_request_def
        read_bounded_body_def is_success_def capture_csrf_def Let_def legacy_detail_row_def
        validate_legacy_detail_id_def sample_wlan_def)
  from snapshot_is_of_the_requested_record [OF run] run show ?thesis by blast
qed

end
