(* ===== verification/Traffic.thy ===== *)
theory Traffic
  imports Legacy_Operations
begin

text \<open>
  Internet activity and the traffic reports kept for retention: the reporting window
  (\<open>crates/unifi-api/src/traffic.rs\<close>), the activity reads over the local session
  (\<open>legacy/traffic.rs\<close>), the three report sources and their snapshot (\<open>collection.rs\<close>,
  \<open>legacy/collection.rs\<close>) and the checked totals (\<open>collection/totals.rs\<close>). Raw JSON text is
  kept as the controller sent it.
\<close>

section \<open>Windows and reads\<close>

record activity_window =
  win_start :: u64
  win_stop :: u64

definition activity_window_new :: "u64 \<Rightarrow> u64 \<Rightarrow> api_error + activity_window" where
  "activity_window_new start stop =
     (if stop \<le> start \<or> start mod 3600000 \<noteq> 0 \<or> stop mod 3600000 \<noteq> 0
      then Inl (Config ''activity window must cover ordered whole UTC hours'')
      else Inr \<lparr>win_start = start, win_stop = stop\<rparr>)"

datatype 'a activity_read =
    Reported 'a
  | Unsupported "api_error option"
  | Unrecognized

record application_activity =
  application :: u16
  category :: u16
  bytes_received :: u64
  bytes_transmitted :: u64

record activity_client =
  client_mac :: string
  client_name :: "string option"

record client_activity =
  client :: activity_client
  usage_by_app :: "application_activity list"

record activity_report =
  client_usage_by_app :: "client_activity list"
  total_usage_by_app :: "application_activity list"

record activity_bucket =
  bucket_timestamp :: u64
  interval_seconds :: u32

definition activity_request :: "bool \<Rightarrow> string option \<Rightarrow> url \<Rightarrow> request" where
  "activity_request graph token u =
     \<lparr>rq_method = (if graph then POST else GET), rq_url = u,
      rq_headers = accept_json @ (case token of Some t \<Rightarrow> [(CSRF_HEADER, t)] | None \<Rightarrow> []),
      rq_body = (if graph then Some (JObj []) else None)\<rparr>"

definition finish_activity ::
  "'a decoder \<Rightarrow> ('e, 'x) legacy_client_scheme \<Rightarrow> response \<Rightarrow> 'e world
     \<Rightarrow> (api_error + 'a activity_read \<times> bytes) \<times> 'e world" where
  "finish_activity dec cl response w =
     (let w = capture_csrf response w;
          status = rs_status response
      in if status = 429 then (Inl (rate_limited_error (ext_b64 cl) response), w)
         else (case read_bounded_body response of
                 Inl e \<Rightarrow> (Inl e, w)
               | Inr body \<Rightarrow>
                   (if status = 404 \<or> status = 405
                    then (Inr (Unsupported
                            (Some (translate_failure cl status body IdempotentRead)), []), w)
                    else if \<not> is_success status
                    then (Inl (translate_failure cl status body IdempotentRead), w)
                    else (case dec body of
                            Inl err \<Rightarrow> (Inl (decode_failure (ext_b64 cl) err body), w)
                          | Inr report \<Rightarrow> (Inr (Reported report, body), w)))))"

definition activity_url ::
  "('e, 'x) legacy_client_scheme \<Rightarrow> string \<Rightarrow> activity_window \<Rightarrow> bool \<Rightarrow> api_error + url" where
  "activity_url cl site win graph =
     build_url (base cl)
       [''proxy'', ''network'', ''v2'', ''api'', ''site'', site,
        if graph then ''app-traffic-rate'' else ''traffic'']
       [(''start'', show_nat (unat (win_start win))), (''end'', show_nat (unat (win_stop win))),
        (''includeUnidentified'', ''true'')]"

definition execute_activity ::
  "'a decoder \<Rightarrow> ('e, 'x) legacy_client_scheme \<Rightarrow> string \<Rightarrow> activity_window \<Rightarrow> bool \<Rightarrow> 'e world
     \<Rightarrow> (api_error + 'a activity_read \<times> bytes) \<times> 'e world" where
  "execute_activity dec cl site win graph w =
     (if kind (session w) \<noteq> Some UnifiOs then (Inr (Unsupported None, []), w)
      else (case activity_url cl site win graph of
              Inl e \<Rightarrow> (Inl e, w)
            | Inr u \<Rightarrow>
                bind_io (send_request cl (activity_request graph (csrf (session w)) u))
                  (finish_activity dec cl) w))"

definition activity_read_with_bytes ::
  "'a decoder \<Rightarrow> ('e, 'x) legacy_client_scheme \<Rightarrow> string \<Rightarrow> activity_window \<Rightarrow> bool \<Rightarrow> 'e world
     \<Rightarrow> (api_error + 'a activity_read \<times> bytes) \<times> 'e world" where
  "activity_read_with_bytes dec cl site win graph w =
     (case activity_window_new (win_start win) (win_stop win) of
        Inl e \<Rightarrow> (Inl e, w)
      | Inr _ \<Rightarrow> read_with_reauth False cl (execute_activity dec cl site win graph) w)"

definition activity_read_only ::
  "'a decoder \<Rightarrow> ('e, 'x) legacy_client_scheme \<Rightarrow> string \<Rightarrow> activity_window \<Rightarrow> bool \<Rightarrow> 'e world
     \<Rightarrow> (api_error + 'a activity_read) \<times> 'e world" where
  "activity_read_only dec cl site win graph = map_io fst (activity_read_with_bytes dec cl site win graph)"

fun with_bytes :: "'a activity_read \<times> bytes \<Rightarrow> ('a \<times> bytes) activity_read" where
  "with_bytes (Reported report, body) = Reported (report, body)"
| "with_bytes (Unsupported response, body) = Unsupported response"
| "with_bytes (Unrecognized, body) = Unrecognized"

definition activity_with_response ::
  "activity_report decoder \<Rightarrow> ('e, 'x) legacy_client_scheme \<Rightarrow> string \<Rightarrow> activity_window \<Rightarrow> 'e world
     \<Rightarrow> (api_error + (activity_report \<times> bytes) activity_read) \<times> 'e world" where
  "activity_with_response dec cl site win =
     map_io with_bytes (activity_read_with_bytes dec cl site win False)"

definition activity ::
  "activity_report decoder \<Rightarrow> ('e, 'x) legacy_client_scheme \<Rightarrow> string \<Rightarrow> activity_window \<Rightarrow> 'e world
     \<Rightarrow> (api_error + activity_report activity_read) \<times> 'e world" where
  "activity dec cl site win =
     map_io (map_activity_read fst) (activity_with_response dec cl site win)"

text \<open>A bucket whose interval is empty or runs past the end of time.\<close>

definition invalid_bucket :: "activity_bucket \<Rightarrow> bool" where
  "invalid_bucket row \<longleftrightarrow>
     interval_seconds row = 0
     \<or> checked_add (bucket_timestamp row) (ucast (interval_seconds row) * 1000) = None"

definition activity_buckets ::
  "activity_bucket list decoder \<Rightarrow> ('e, 'x) legacy_client_scheme \<Rightarrow> string \<Rightarrow> activity_window
     \<Rightarrow> 'e world \<Rightarrow> (api_error + activity_bucket list activity_read) \<times> 'e world" where
  "activity_buckets dec cl site win =
     bind_io (activity_read_with_bytes dec cl site win True) (\<lambda>(result, bytes).
       return_io
         (case result of
            Reported rows \<Rightarrow>
              (if list_ex invalid_bucket rows
               then Inl (with_controller_response (ext_b64 cl)
                      (Decode (bounded_new ''activity graph has an invalid interval'')) bytes)
               else Inr result)
          | _ \<Rightarrow> Inr result))"

section \<open>Report sources\<close>

datatype traffic_source_kind = ActivitySource | GraphSource | WanSource

datatype source_status = Collected | SourceUnsupported | SourceUnrecognized | Failed

record source_report =
  src_status :: source_status
  src_data :: "string option"
  src_error :: "string option"

text \<open>One WAN sample; \<open>'f\<close> is the type of its floating-point counters.\<close>

record 'f site_wan_sample =
  sample_time :: "u64 option"
  sample_tx_bytes :: "'f option"
  sample_rx_bytes :: "'f option"

record 'f wan_report =
  wan_rc :: string
  wan_data :: "'f site_wan_sample list"

record traffic_snapshot =
  snap_start_ms :: u64
  snap_end_ms :: u64
  snap_activity :: source_report
  snap_graph :: source_report
  snap_wan :: source_report

definition collected :: "traffic_snapshot \<Rightarrow> bool" where
  "collected s = list_all (\<lambda>r. src_status r = Collected) [snap_activity s, snap_graph s, snap_wan s]"

definition source ::
  "(string \<Rightarrow> string + 't) \<Rightarrow> ('t \<Rightarrow> bool) \<Rightarrow> api_error + string activity_read \<Rightarrow> source_report" where
  "source from_str valid read =
     (case read of
        Inr (Reported data) \<Rightarrow>
          \<lparr>src_status = (case from_str data of
                           Inr v \<Rightarrow> (if valid v then Collected else SourceUnrecognized)
                         | Inl _ \<Rightarrow> SourceUnrecognized),
           src_data = Some data, src_error = None\<rparr>
      | Inr (Unsupported response) \<Rightarrow>
          \<lparr>src_status = SourceUnsupported, src_data = None, src_error = map_option render response\<rparr>
      | Inr Unrecognized \<Rightarrow>
          \<lparr>src_status = SourceUnrecognized, src_data = None, src_error = None\<rparr>
      | Inl err \<Rightarrow>
          \<lparr>src_status = Failed, src_data = None, src_error = Some (render err)\<rparr>)"

definition collect_wan_bytes ::
  "('e, 'x) legacy_client_scheme \<Rightarrow> string \<Rightarrow> json \<Rightarrow> 'e world \<Rightarrow> (api_error + bytes) \<times> 'e world" where
  "collect_wan_bytes cl site body =
     bind_io (execute_bytes cl IdempotentRead POST site [''stat'', ''report'', ''hourly.site'']
                (Some body))
       (\<lambda>(status, bytes). return_io
         (case envelope_rejection cl bytes of
            Some code \<Rightarrow> Inl (rejection cl (Some status) code bytes)
          | None \<Rightarrow> Inr bytes))"

fun wan_unsupported :: "api_error \<Rightarrow> bool" where
  "wan_unsupported (Status status _) = (status = 404 \<or> status = 405)"
| "wan_unsupported (Rejected (Some status) _ _) = (status = 404 \<or> status = 405)"
| "wan_unsupported _ = False"

text \<open>What a finished read means: a missing route is an answer, any other failure an error.\<close>

definition wan_result ::
  "string decoder \<Rightarrow> ('e, 'x) externals_scheme \<Rightarrow> api_error + bytes
     \<Rightarrow> api_error + string activity_read" where
  "wan_result raw_dec X read =
     (case read of
        Inl err \<Rightarrow> (if wan_unsupported err then Inr (Unsupported (Some err)) else Inl err)
      | Inr bytes \<Rightarrow>
          map_ok Reported (map_err (\<lambda>err. decode_failure (ext_b64 X) err bytes) (raw_dec bytes)))"

definition collect_wan ::
  "string decoder \<Rightarrow> ('e, 'x) legacy_client_scheme \<Rightarrow> string \<Rightarrow> activity_window \<Rightarrow> 'e world
     \<Rightarrow> (api_error + string activity_read) \<times> 'e world" where
  "collect_wan raw_dec cl site win =
     bind_io (ensure_session cl) (\<lambda>observed w.
       let attempt = collect_wan_bytes cl site (wan_report_body (win_start win) (win_stop win))
       in case attempt w of
            (Inr bytes, w) \<Rightarrow> (wan_result raw_dec cl (Inr bytes), w)
          | (Inl err, w) \<Rightarrow>
              (if is_login_required err
               then bind_io (map_err_io (with_refresh_failure err) (refresh_session cl observed))
                      (\<lambda>_ w. case attempt w of (read, w) \<Rightarrow> (wan_result raw_dec cl read, w)) w
               else (wan_result raw_dec cl (Inl err), w)))"

text \<open>The typed projections a source's text must match: parameters, as serde derives them.\<close>

record 'f source_readers =
  read_raw :: "bytes \<Rightarrow> string + string"
  read_activity :: "string \<Rightarrow> string + activity_report"
  read_buckets :: "string \<Rightarrow> string + activity_bucket list"
  read_wan :: "string \<Rightarrow> string + 'f wan_report"

definition read_source ::
  "'f source_readers \<Rightarrow> ('e, 'x) legacy_client_scheme \<Rightarrow> string \<Rightarrow> activity_window
     \<Rightarrow> traffic_source_kind \<Rightarrow> 'e world \<Rightarrow> source_report \<times> 'e world" where
  "read_source rd cl site win selected w =
     (case selected of
        ActivitySource \<Rightarrow>
          map_prod (source (read_activity rd) (\<lambda>_. True)) (\<lambda>w. w)
            (activity_read_only (read_raw rd) cl site win False w)
      | GraphSource \<Rightarrow>
          map_prod (source (read_buckets rd) (\<lambda>_. True)) (\<lambda>w. w)
            (activity_read_only (read_raw rd) cl site win True w)
      | WanSource \<Rightarrow>
          map_prod (source (read_wan rd) (\<lambda>r. wan_rc r = ''ok'')) (\<lambda>w. w)
            (collect_wan (read_raw rd) cl site win w))"

definition traffic_source ::
  "'f source_readers \<Rightarrow> ('e, 'x) legacy_client_scheme \<Rightarrow> string \<Rightarrow> activity_window
     \<Rightarrow> traffic_source_kind \<Rightarrow> 'e world \<Rightarrow> (api_error + source_report) \<times> 'e world" where
  "traffic_source rd cl site win selected w =
     (case activity_window_new (win_start win) (win_stop win) of
        Inl e \<Rightarrow> (Inl e, w)
      | Inr _ \<Rightarrow> map_prod Inr (\<lambda>w. w) (read_source rd cl site win selected w))"

definition collect_traffic ::
  "'f source_readers \<Rightarrow> ('e, 'x) legacy_client_scheme \<Rightarrow> string \<Rightarrow> activity_window \<Rightarrow> 'e world
     \<Rightarrow> (api_error + traffic_snapshot) \<times> 'e world" where
  "collect_traffic rd cl site win w =
     (case activity_window_new (win_start win) (win_stop win) of
        Inl e \<Rightarrow> (Inl e, w)
      | Inr _ \<Rightarrow>
          bind_io (traffic_source rd cl site win ActivitySource) (\<lambda>act.
          bind_io (traffic_source rd cl site win GraphSource) (\<lambda>graph.
          bind_io (traffic_source rd cl site win WanSource) (\<lambda>wan.
          return_io (Inr \<lparr>snap_start_ms = win_start win, snap_end_ms = win_stop win,
                          snap_activity = act, snap_graph = graph, snap_wan = wan\<rparr>)))) w)"

section \<open>Totals\<close>

record byte_counts =
  rx_bytes :: u64
  tx_bytes :: u64

record client_row =
  row_mac :: string
  row_name :: "string option"
  row_bytes :: byte_counts

definition bytes_default :: byte_counts where
  "bytes_default = \<lparr>rx_bytes = 0, tx_bytes = 0\<rparr>"

definition invalid :: "string \<Rightarrow> api_error" where
  "invalid message = Decode (bounded_new message)"

text \<open>
  The octet loop: the octets still to read, the first byte once it is known, whether all bytes so
  far were zero, and the rest of the split. \<open>None\<close> for an octet that is missing or malformed.
\<close>

definition octet_byte :: "string \<Rightarrow> nat option" where
  "octet_byte s =
     (case s of
        [a, b] \<Rightarrow>
          (case (hex_digit a, hex_digit b) of (Some x, Some y) \<Rightarrow> Some (16 * x + y) | _ \<Rightarrow> None)
      | _ \<Rightarrow> None)"

fun mac_loop ::
  "nat \<Rightarrow> nat option \<Rightarrow> bool \<Rightarrow> string list \<Rightarrow> (nat option \<times> bool \<times> string list) option" where
  "mac_loop 0 first_byte all_zero octets = Some (first_byte, all_zero, octets)"
| "mac_loop (Suc n) first_byte all_zero [] = None"
| "mac_loop (Suc n) first_byte all_zero (octet # rest) =
     (if length octet \<noteq> 2 \<or> \<not> list_all is_ascii_hexdigit octet then None
      else (case octet_byte octet of
              None \<Rightarrow> None
            | Some b \<Rightarrow>
                mac_loop n (if Suc n = 6 then Some b else first_byte) (all_zero \<and> b = 0) rest))"

definition valid_mac :: "string \<Rightarrow> bool" where
  "valid_mac value \<longleftrightarrow>
     length value = 17
     \<and> (case mac_loop 6 None True (split_on CHR '':'' value) of
           None \<Rightarrow> False
         | Some (first_byte, all_zero, rest) \<Rightarrow>
             rest = [] \<and> (case first_byte of Some b \<Rightarrow> even b | None \<Rightarrow> False) \<and> \<not> all_zero)"

definition add_bytes :: "byte_counts \<Rightarrow> byte_counts \<Rightarrow> api_error + byte_counts" where
  "add_bytes acc v =
     bind_res (ok_or (invalid ''activity byte total overflow'') (checked_add (rx_bytes acc) (rx_bytes v)))
       (\<lambda>rx. bind_res
          (ok_or (invalid ''activity byte total overflow'') (checked_add (tx_bytes acc) (tx_bytes v)))
          (\<lambda>tx. Inr \<lparr>rx_bytes = rx, tx_bytes = tx\<rparr>))"

fun sum_loop ::
  "byte_counts \<Rightarrow> (u16 \<times> u16) set \<Rightarrow> application_activity list \<Rightarrow> api_error + byte_counts" where
  "sum_loop acc seen [] = Inr acc"
| "sum_loop acc seen (row # rest) =
     (if (category row, application row) \<in> seen
      then Inl (invalid ''activity response contains duplicate application counters'')
      else bind_res
             (add_bytes acc \<lparr>rx_bytes = bytes_received row, tx_bytes = bytes_transmitted row\<rparr>)
             (\<lambda>acc. sum_loop acc (insert (category row, application row) seen) rest))"

definition sum_apps :: "application_activity list \<Rightarrow> api_error + byte_counts" where
  "sum_apps rows = sum_loop bytes_default {} rows"

fun totals_loop ::
  "string set \<Rightarrow> client_row list \<Rightarrow> byte_counts \<Rightarrow> client_activity list
     \<Rightarrow> api_error + client_row list \<times> byte_counts" where
  "totals_loop seen clients acc [] = Inr (clients, acc)"
| "totals_loop seen clients acc (row # rest) =
     (if usage_by_app row = [] then Inl (invalid ''activity client has no reported counters'')
      else
        (let mac = to_ascii_lowercase (trim (client_mac (client row)))
         in if \<not> valid_mac mac \<or> mac \<in> seen
            then Inl (invalid ''activity response contains invalid or duplicate client identities'')
            else bind_res (sum_apps (usage_by_app row)) (\<lambda>bytes.
                 bind_res (add_bytes acc bytes) (\<lambda>acc.
                 totals_loop (insert mac seen)
                   (clients @ [\<lparr>row_mac = mac, row_name = client_name (client row), row_bytes = bytes\<rparr>])
                   acc rest))))"

definition activity_totals ::
  "activity_report \<Rightarrow> api_error + client_row list \<times> byte_counts \<times> byte_counts" where
  "activity_totals report =
     bind_res (totals_loop {} [] bytes_default (client_usage_by_app report)) (\<lambda>(clients, acc).
     bind_res (sum_apps (total_usage_by_app report)) (\<lambda>reported.
     Inr (clients, acc, reported)))"

definition activity_totals_with_response ::
  "('e, 'x) externals_scheme \<Rightarrow> activity_report \<Rightarrow> bytes
     \<Rightarrow> api_error + client_row list \<times> byte_counts \<times> byte_counts" where
  "activity_totals_with_response X report body =
     map_err (\<lambda>e. with_controller_response (ext_b64 X) e body) (activity_totals report)"

section \<open>Properties\<close>

subsection \<open>Byte totals\<close>

definition received :: "application_activity list \<Rightarrow> nat" where
  "received rows = (\<Sum>row\<leftarrow>rows. unat (bytes_received row))"

definition transmitted :: "application_activity list \<Rightarrow> nat" where
  "transmitted rows = (\<Sum>row\<leftarrow>rows. unat (bytes_transmitted row))"

definition app_key :: "application_activity \<Rightarrow> u16 \<times> u16" where
  "app_key row = (category row, application row)"

definition app_keys_distinct :: "application_activity list \<Rightarrow> bool" where
  "app_keys_distinct rows \<longleftrightarrow> distinct (map app_key rows)"

lemma word_of_unat_le:
  fixes c :: "'a::len word"
  assumes "n \<le> unat c"
  shows "\<exists>m::'a word. unat m = n"
proof -
  have "n < 2 ^ LENGTH('a)" using assms unsigned_less [of c] by (metis le_less_trans)
  then have "unat (of_nat n :: 'a word) = n" by (simp add: unsigned_of_nat take_bit_nat_eq_self)
  then show ?thesis by blast
qed

lemma add_bytes_Inr_iff:
  "add_bytes a v = Inr b \<longleftrightarrow>
     unat (rx_bytes b) = unat (rx_bytes a) + unat (rx_bytes v)
     \<and> unat (tx_bytes b) = unat (tx_bytes a) + unat (tx_bytes v)"
proof -
  have ok: "ok_or e x = Inr y \<longleftrightarrow> x = Some y" for e :: api_error and x and y :: u64
    by (cases x) auto
  show ?thesis
    by (cases b) (auto simp: add_bytes_def bind_res_eq_Inr ok checked_add_Some_iff)
qed

lemma sum_loop_Inr_iff:
  "sum_loop a seen rows = Inr b \<longleftrightarrow>
     app_keys_distinct rows \<and> app_key ` set rows \<inter> seen = {}
     \<and> unat (rx_bytes b) = unat (rx_bytes a) + received rows
     \<and> unat (tx_bytes b) = unat (tx_bytes a) + transmitted rows"
proof (induction a seen rows rule: sum_loop.induct)
  case (1 a seen)
  have "a = b \<longleftrightarrow> unat (rx_bytes b) = unat (rx_bytes a) \<and> unat (tx_bytes b) = unat (tx_bytes a)"
    by (cases a; cases b) (auto simp: word_unat_eq_iff)
  then show ?case
    by (auto simp: received_def transmitted_def app_keys_distinct_def)
next
  case (2 a seen row rest)
  let ?v = "\<lparr>rx_bytes = bytes_received row, tx_bytes = bytes_transmitted row\<rparr>"
  show ?case
  proof (cases "app_key row \<in> seen")
    case True
    then show ?thesis by (auto simp: app_key_def)
  next
    case False
    then have "sum_loop a seen (row # rest) = Inr b \<longleftrightarrow>
        (\<exists>m. add_bytes a ?v = Inr m \<and> sum_loop m (insert (app_key row) seen) rest = Inr b)"
      by (simp add: bind_res_eq_Inr app_key_def)
    also have "\<dots> \<longleftrightarrow> (\<exists>m::byte_counts. unat (rx_bytes m) = unat (rx_bytes a) + unat (bytes_received row)
        \<and> unat (tx_bytes m) = unat (tx_bytes a) + unat (bytes_transmitted row)
        \<and> app_keys_distinct rest \<and> app_key ` set rest \<inter> insert (app_key row) seen = {}
        \<and> unat (rx_bytes b) = unat (rx_bytes m) + received rest
        \<and> unat (tx_bytes b) = unat (tx_bytes m) + transmitted rest)"
      using "2.IH" False by (simp add: add_bytes_Inr_iff app_key_def)
    also have "\<dots> \<longleftrightarrow> app_keys_distinct (row # rest) \<and> app_key ` set (row # rest) \<inter> seen = {}
        \<and> unat (rx_bytes b) = unat (rx_bytes a) + received (row # rest)
        \<and> unat (tx_bytes b) = unat (tx_bytes a) + transmitted (row # rest)" (is "?L \<longleftrightarrow> ?R")
    proof
      assume ?L then show ?R
        using False by (auto simp: received_def transmitted_def app_keys_distinct_def)
    next
      assume r: ?R
      then have "unat (rx_bytes a) + unat (bytes_received row) \<le> unat (rx_bytes b)"
        "unat (tx_bytes a) + unat (bytes_transmitted row) \<le> unat (tx_bytes b)"
        by (simp_all add: received_def transmitted_def)
      then obtain rx tx :: u64 where "unat rx = unat (rx_bytes a) + unat (bytes_received row)"
        "unat tx = unat (tx_bytes a) + unat (bytes_transmitted row)"
        by (meson word_of_unat_le)
      with r show ?L
        by (intro exI [of _ "\<lparr>rx_bytes = rx, tx_bytes = tx\<rparr>"])
           (auto simp: received_def transmitted_def app_keys_distinct_def)
    qed
    finally show ?thesis .
  qed
qed

lemma sum_apps_Inr_iff:
  "sum_apps rows = Inr b \<longleftrightarrow>
     app_keys_distinct rows \<and> unat (rx_bytes b) = received rows \<and> unat (tx_bytes b) = transmitted rows"
  by (simp add: sum_apps_def sum_loop_Inr_iff bytes_default_def)

definition normal_mac :: "client_activity \<Rightarrow> string" where
  "normal_mac row = to_ascii_lowercase (trim (client_mac (client row)))"

text \<open>What the totals of a list of clients must be.\<close>

definition client_row_of :: "client_activity \<Rightarrow> client_row \<Rightarrow> bool" where
  "client_row_of row c \<longleftrightarrow>
     row_mac c = normal_mac row \<and> row_name c = client_name (client row)
     \<and> unat (rx_bytes (row_bytes c)) = received (usage_by_app row)
     \<and> unat (tx_bytes (row_bytes c)) = transmitted (usage_by_app row)"

definition valid_client :: "client_activity \<Rightarrow> bool" where
  "valid_client row \<longleftrightarrow>
     usage_by_app row \<noteq> [] \<and> valid_mac (normal_mac row) \<and> app_keys_distinct (usage_by_app row)"

lemma totals_loop_exact:
  assumes "totals_loop seen clients acc rows = Inr (out, b)"
  shows "\<exists>cs. out = clients @ cs \<and> list_all2 client_row_of rows cs
           \<and> (\<forall>row\<in>set rows. valid_client row)
           \<and> distinct (map normal_mac rows) \<and> normal_mac ` set rows \<inter> seen = {}
           \<and> unat (rx_bytes b) = unat (rx_bytes acc) + (\<Sum>row\<leftarrow>rows. received (usage_by_app row))
           \<and> unat (tx_bytes b) = unat (tx_bytes acc) + (\<Sum>row\<leftarrow>rows. transmitted (usage_by_app row))"
  using assms
proof (induction seen clients acc rows rule: totals_loop.induct)
  case (2 seen clients acc row rest)
  let ?mac = "normal_mac row"
  from "2.prems" obtain bytes acc' where ne: "usage_by_app row \<noteq> []"
    and mac: "valid_mac ?mac" "?mac \<notin> seen"
    and sum: "sum_apps (usage_by_app row) = Inr bytes" and add: "add_bytes acc bytes = Inr acc'"
    and rec: "totals_loop (insert ?mac seen)
        (clients @ [\<lparr>row_mac = ?mac, row_name = client_name (client row), row_bytes = bytes\<rparr>])
        acc' rest = Inr (out, b)"
    by (auto simp: Let_def normal_mac_def bind_res_eq_Inr split: if_splits)
  let ?c = "\<lparr>row_mac = ?mac, row_name = client_name (client row), row_bytes = bytes\<rparr>"
  from mac have "\<not> (\<not> valid_mac ?mac \<or> ?mac \<in> seen)" by simp
  from "2.IH" [OF ne normal_mac_def this rec] obtain cs where
    cs: "out = clients @ ?c # cs" "list_all2 client_row_of rest cs"
      "\<forall>row\<in>set rest. valid_client row"
      "distinct (map normal_mac rest)" "normal_mac ` set rest \<inter> insert ?mac seen = {}"
      "unat (rx_bytes b) = unat (rx_bytes acc') + (\<Sum>row\<leftarrow>rest. received (usage_by_app row))"
      "unat (tx_bytes b) = unat (tx_bytes acc') + (\<Sum>row\<leftarrow>rest. transmitted (usage_by_app row))"
    by auto
  moreover from sum have "client_row_of row ?c" "app_keys_distinct (usage_by_app row)"
    by (auto simp: sum_apps_Inr_iff client_row_of_def)
  ultimately show ?case
    using add sum mac ne
    by (intro exI [of _ "?c # cs"])
       (auto simp: add_bytes_Inr_iff sum_apps_Inr_iff valid_client_def)
qed simp

text \<open>
  C26. The activity totals are exact: when they are returned, there is one row per reported
  client, in order, with its normalized address; the addresses are valid and distinct; no
  application is counted twice; and every total is the true sum of the reported counters, never
  a wrapped one.
\<close>

theorem activity_totals_exact:
  assumes "activity_totals report = Inr (clients, all_clients, reported)"
  shows "list_all2 client_row_of (client_usage_by_app report) clients
         \<and> (\<forall>row\<in>set (client_usage_by_app report). valid_client row)
         \<and> distinct (map row_mac clients)
         \<and> unat (rx_bytes all_clients) = (\<Sum>row\<leftarrow>client_usage_by_app report. received (usage_by_app row))
         \<and> unat (tx_bytes all_clients) = (\<Sum>row\<leftarrow>client_usage_by_app report. transmitted (usage_by_app row))
         \<and> app_keys_distinct (total_usage_by_app report)
         \<and> unat (rx_bytes reported) = received (total_usage_by_app report)
         \<and> unat (tx_bytes reported) = transmitted (total_usage_by_app report)"
proof -
  from assms have loop: "totals_loop {} [] bytes_default (client_usage_by_app report)
      = Inr (clients, all_clients)" and sum: "sum_apps (total_usage_by_app report) = Inr reported"
    by (auto simp: activity_totals_def bind_res_eq_Inr)
  from totals_loop_exact [OF loop] have
    1: "list_all2 client_row_of (client_usage_by_app report) clients"
      "\<forall>row\<in>set (client_usage_by_app report). valid_client row"
      "distinct (map normal_mac (client_usage_by_app report))"
      "unat (rx_bytes all_clients) = (\<Sum>row\<leftarrow>client_usage_by_app report. received (usage_by_app row))"
      "unat (tx_bytes all_clients) = (\<Sum>row\<leftarrow>client_usage_by_app report. transmitted (usage_by_app row))"
    by (auto simp: bytes_default_def)
  have "map row_mac clients = map normal_mac (client_usage_by_app report)"
    using 1(1) by (induction rule: list_all2_induct) (auto simp: client_row_of_def)
  with 1 sum show ?thesis by (simp add: sum_apps_Inr_iff)
qed

definition sample_usage :: application_activity where
  "sample_usage = \<lparr>application = 1, category = 2, bytes_received = 7, bytes_transmitted = 5\<rparr>"

definition sample_report :: activity_report where
  "sample_report =
     \<lparr>client_usage_by_app =
        [\<lparr>client = \<lparr>client_mac = ''02:00:00:00:00:01'', client_name = None\<rparr>,
          usage_by_app = [sample_usage]\<rparr>],
      total_usage_by_app = [sample_usage]\<rparr>"

lemma sample_report_totals:
  "activity_totals sample_report =
     Inr ([\<lparr>row_mac = ''02:00:00:00:00:01'', row_name = None,
            row_bytes = \<lparr>rx_bytes = 7, tx_bytes = 5\<rparr>\<rparr>],
          \<lparr>rx_bytes = 7, tx_bytes = 5\<rparr>, \<lparr>rx_bytes = 7, tx_bytes = 5\<rparr>)"
proof -
  have mac: "to_ascii_lowercase (trim ''02:00:00:00:00:01'') = ''02:00:00:00:00:01''"
    by (simp add: trim_def is_continuation_def is_whitespace_def to_ascii_lowercase_def ascii_lower_def)
  have valid: "valid_mac ''02:00:00:00:00:01''"
    by (simp add: valid_mac_def octet_byte_def hex_digit_def is_ascii_hexdigit_def is_ascii_digit_def
        numeral_eq_Suc)
  have sum: "sum_apps [sample_usage] = Inr \<lparr>rx_bytes = 7, tx_bytes = 5\<rparr>"
    by (simp add: sum_apps_Inr_iff app_keys_distinct_def received_def transmitted_def sample_usage_def)
  have add: "add_bytes bytes_default \<lparr>rx_bytes = 7, tx_bytes = 5\<rparr> = Inr \<lparr>rx_bytes = 7, tx_bytes = 5\<rparr>"
    by (simp add: add_bytes_Inr_iff bytes_default_def)
  show ?thesis
    by (simp add: activity_totals_def sample_report_def mac valid sum add)
qed

theorem activity_totals_exact_witness:
  "activity_totals sample_report =
     Inr ([\<lparr>row_mac = ''02:00:00:00:00:01'', row_name = None,
            row_bytes = \<lparr>rx_bytes = 7, tx_bytes = 5\<rparr>\<rparr>],
          \<lparr>rx_bytes = 7, tx_bytes = 5\<rparr>, \<lparr>rx_bytes = 7, tx_bytes = 5\<rparr>)
   \<and> list_all valid_client (client_usage_by_app sample_report)"
  unfolding list_all_iff
  using activity_totals_exact [OF sample_report_totals] sample_report_totals by blast

subsection \<open>Client addresses\<close>

definition hex_octet :: "string \<Rightarrow> bool" where
  "hex_octet s \<longleftrightarrow> length s = 2 \<and> list_all is_ascii_hexdigit s"

lemma hex_octet_byte: "hex_octet s \<Longrightarrow> \<exists>b. octet_byte s = Some b"
proof -
  assume h: "hex_octet s"
  then obtain x y where s: "s = [x, y]"
    by (auto simp: hex_octet_def length_Suc_conv numeral_2_eq_2)
  with h have "\<exists>d. hex_digit x = Some d" "\<exists>d. hex_digit y = Some d"
    by (simp_all add: hex_octet_def hex_digit_Some_iff)
  with s show ?thesis by (auto simp: octet_byte_def)
qed

lemma mac_loop_Some_iff:
  assumes "n < 6"
  shows "mac_loop n f z os = Some (f', z', rest) \<longleftrightarrow>
    (\<exists>pre. os = pre @ rest \<and> length pre = n \<and> (\<forall>s\<in>set pre. hex_octet s) \<and> f' = f
       \<and> z' = (z \<and> (\<forall>s\<in>set pre. octet_byte s = Some 0)))"
  using assms
proof (induction n arbitrary: f z os)
  case 0
  then show ?case by auto
next
  case (Suc n)
  show ?case
  proof (cases os)
    case Nil
    then show ?thesis by auto
  next
    case (Cons s os')
    show ?thesis
    proof (cases "hex_octet s")
      case False
      with Cons show ?thesis by (auto simp: hex_octet_def Cons_eq_append_conv)
    next
      case True
      then obtain b where b: "octet_byte s = Some b" using hex_octet_byte by blast
      from Suc.prems have ih: "mac_loop n f (z \<and> b = 0) os' = Some (f', z', rest) \<longleftrightarrow>
          (\<exists>pre. os' = pre @ rest \<and> length pre = n \<and> (\<forall>s\<in>set pre. hex_octet s) \<and> f' = f
             \<and> z' = ((z \<and> b = 0) \<and> (\<forall>s\<in>set pre. octet_byte s = Some 0)))"
        by (intro Suc.IH) simp
      have "mac_loop (Suc n) f z os = mac_loop n f (z \<and> b = 0) os'"
        using True b Cons Suc.prems by (simp add: hex_octet_def)
      with ih True b Cons show ?thesis
        by (auto simp: Cons_eq_append_conv)
    qed
  qed
qed

lemma mac_loop_six:
  "mac_loop 6 None True os = Some (f, z, []) \<longleftrightarrow>
     length os = 6 \<and> (\<forall>s\<in>set os. hex_octet s) \<and> f = octet_byte (hd os)
     \<and> z = (\<forall>s\<in>set os. octet_byte s = Some 0)"
proof (cases os)
  case Nil
  then show ?thesis by (auto simp: numeral_eq_Suc)
next
  case (Cons s os')
  show ?thesis
  proof (cases "hex_octet s")
    case False
    with Cons show ?thesis by (auto simp: hex_octet_def numeral_eq_Suc)
  next
    case True
    then obtain b where b: "octet_byte s = Some b" using hex_octet_byte by blast
    have "mac_loop 6 None True os = mac_loop (Suc 5) None True (s # os')"
      using Cons by (simp add: eval_nat_numeral)
    also have "\<dots> = mac_loop 5 (Some b) (b = 0) os'"
      using True b unfolding mac_loop.simps by (simp add: hex_octet_def)
    finally show ?thesis
      using True b Cons mac_loop_Some_iff [of 5 "Some b" "b = 0" os' f z "[]"] by auto
  qed
qed

text \<open>
  A client address is accepted exactly when it is six two-digit hexadecimal octets between
  colons, the first octet is even (it names one device, not a group), and not every octet is
  zero. Signs, spaces, other separators and other lengths are all refused.
\<close>

theorem valid_mac_iff:
  "valid_mac v \<longleftrightarrow>
     (\<exists>os. v = join CHR '':'' os \<and> length os = 6 \<and> list_all hex_octet os
        \<and> (\<exists>b. octet_byte (hd os) = Some b \<and> even b) \<and> \<not> list_all (\<lambda>s. octet_byte s = Some 0) os)"
  (is "_ \<longleftrightarrow> (\<exists>os. ?P os)")
proof
  assume v: "valid_mac v"
  then obtain f z where loop: "mac_loop 6 None True (split_on CHR '':'' v) = Some (f, z, [])"
    and f: "\<exists>b. f = Some b \<and> even b" and z: "\<not> z"
    by (auto simp: valid_mac_def split: option.splits prod.splits)
  then have "?P (split_on CHR '':'' v)"
    by (auto simp: mac_loop_six list_all_iff)
  then show "\<exists>os. ?P os" by blast
next
  assume "\<exists>os. ?P os"
  then obtain os where os: "?P os" by blast
  have "CHR '':'' \<notin> set s" if "hex_octet s" for s
    using that by (auto simp: hex_octet_def list_all_iff is_ascii_hexdigit_def is_ascii_digit_def)
  with os have split: "split_on CHR '':'' v = os"
    by (metis length_0_conv list_all_iff split_on_join zero_neq_numeral)
  have "length v = 17"
  proof -
    from os obtain a b c d e g where "os = [a, b, c, d, e, g]"
      by (auto simp: numeral_eq_Suc length_Suc_conv)
    with os show ?thesis by (simp add: hex_octet_def)
  qed
  moreover have "mac_loop 6 None True os =
      Some (octet_byte (hd os), \<forall>s\<in>set os. octet_byte s = Some 0, [])"
    using os by (simp add: mac_loop_six list_all_iff)
  ultimately show "valid_mac v"
    using os split by (auto simp: valid_mac_def list_all_iff)
qed

subsection \<open>Report sources\<close>

lemma snd_collect_wan_bytes [simp]:
  "snd (collect_wan_bytes cl site body w) =
     snd (execute_bytes cl IdempotentRead POST site [''stat'', ''report'', ''hourly.site''] (Some body) w)"
  by (simp add: collect_wan_bytes_def snd_bind_io split: sum.split)

interpretation wan: request_attempt "collect_wan_bytes cl site body"
  for cl :: "('e, 'x) legacy_client_scheme" and site body
  by unfold_locales (simp_all only: snd_collect_wan_bytes execute_bytes_steps execute_bytes_trace)

lemma snd_finish_activity [simp]: "snd (finish_activity dec cl response w) = capture_csrf response w"
  by (simp add: finish_activity_def Let_def split: sum.split)

lemma activity_request_not_login:
  "activity_url cl site win graph = Inr u \<Longrightarrow> \<not> is_login_request (activity_request graph token u)"
  by (auto simp: activity_url_def activity_request_def is_login_request_def dest!: build_url_segments)

interpretation act: request_attempt "execute_activity dec cl site win graph"
  for dec :: "'a decoder" and cl :: "('e, 'x) legacy_client_scheme" and site win graph
proof
  fix w :: "'e world"
  show "session_steps (session w) (session (snd (execute_activity dec cl site win graph w)))"
    using capture_csrf_steps [of "snd (send_request cl r w)" for r]
    by (auto simp: execute_activity_def snd_bind_io split: sum.split)
  show "\<exists>tr. trace (snd (execute_activity dec cl site win graph w)) = trace w @ tr \<and> length tr \<le> 1
      \<and> (\<forall>ev\<in>set tr. \<exists>r. ev = Sent r \<and> \<not> is_login_request r)"
    by (auto simp: execute_activity_def snd_bind_io activity_request_not_login split: sum.split)
qed

lemma snd_collect_wan:
  "snd (collect_wan raw_dec cl site win w) =
     snd (read_with_reauth False cl
       (collect_wan_bytes cl site (wan_report_body (win_start win) (win_stop win))) w)"
  by (auto simp: collect_wan_def read_with_reauth_def bind_io_def Let_def map_err_io_def
      split: prod.splits sum.splits option.splits)

text \<open>
  A collection never loses one report because another failed: for every acceptable window
  it returns a snapshot over exactly that window, whose three reports are those of the three
  sources read in turn; for any other window it is refused before the controller is contacted.
\<close>

theorem collect_traffic_is_source_local:
  "collect_traffic rd cl site win w =
     (if win_start win < win_stop win \<and> win_start win mod 3600000 = 0 \<and> win_stop win mod 3600000 = 0
      then let (act, w) = read_source rd cl site win ActivitySource w;
               (graph, w) = read_source rd cl site win GraphSource w;
               (wan, w) = read_source rd cl site win WanSource w
           in (Inr \<lparr>snap_start_ms = win_start win, snap_end_ms = win_stop win,
                    snap_activity = act, snap_graph = graph, snap_wan = wan\<rparr>, w)
      else (Inl (Config ''activity window must cover ordered whole UTC hours''), w))"
  by (auto simp: collect_traffic_def traffic_source_def activity_window_new_def bind_io_def
      split: prod.split)

text \<open>
  A source report says what happened and nothing else: it counts as collected exactly when
  the controller's text matches the report's schema, it keeps that text unchanged whenever there
  is one, and it is failed exactly when the read failed, with the failure's text.
\<close>

theorem source_report_faithful:
  "(src_status (source from_str valid read) = Collected \<longleftrightarrow>
      (\<exists>d v. read = Inr (Reported d) \<and> from_str d = Inr v \<and> valid v))
   \<and> (src_data (source from_str valid read) = Some d \<longleftrightarrow> read = Inr (Reported d))
   \<and> (src_status (source from_str valid read) = Failed \<longleftrightarrow> (\<exists>e. read = Inl e))
   \<and> (src_status (source from_str valid read) = SourceUnsupported \<longleftrightarrow>
        (\<exists>r. read = Inr (Unsupported r)))
   \<and> src_error (source from_str valid (Inl err)) = Some (render err)"
  by (auto simp: source_def split: sum.split activity_read.split)

end
