(* ===== verification/System_Log.thy ===== *)
theory System_Log
  imports Legacy_Client
begin

text \<open>
  Bounded pages of the Network system log: the query and the checks on a page
  (\<open>crates/unifi-api/src/system_log.rs\<close>) and the read over the local session
  (\<open>crates/unifi-api/src/legacy/system_log.rs\<close>).
\<close>

section \<open>Queries and pages\<close>

datatype system_log_severity = Low | Medium | High | VeryHigh

record system_log_query =
  timestamp_from :: u64
  timestamp_to :: u64
  query_page_number :: u64
  page_size :: nat
  severities :: "system_log_severity list"

record 'a system_log_page =
  log_data :: "'a list"
  page_number :: u64
  total_element_count :: u64
  total_page_count :: u64

definition query_new :: "u64 \<Rightarrow> u64 \<Rightarrow> nat \<Rightarrow> api_error + system_log_query" where
  "query_new start stop limit =
     (if stop < start then Inl (Config ''system log window must be ordered'')
      else if limit = 0 then Inl (Config ''system log page size must be positive'')
      else Inr \<lparr>timestamp_from = start, timestamp_to = stop, query_page_number = 0,
                page_size = limit, severities = []\<rparr>)"

definition query_page :: "u64 \<Rightarrow> system_log_query \<Rightarrow> system_log_query" where
  "query_page n q = q\<lparr>query_page_number := n\<rparr>"

definition query_severity :: "system_log_severity \<Rightarrow> system_log_query \<Rightarrow> system_log_query" where
  "query_severity s q = q\<lparr>severities := [s]\<rparr>"

definition high_severity :: "system_log_query \<Rightarrow> system_log_query" where
  "high_severity q = q\<lparr>severities := [High, VeryHigh]\<rparr>"

fun severity_name :: "system_log_severity \<Rightarrow> string" where
  "severity_name Low = ''LOW''"
| "severity_name Medium = ''MEDIUM''"
| "severity_name High = ''HIGH''"
| "severity_name VeryHigh = ''VERY_HIGH''"

text \<open>The derived serialization: camel-case names, and no severities when none is selected.\<close>

definition query_json :: "system_log_query \<Rightarrow> json" where
  "query_json q =
     JObj ([(''timestampFrom'', JNum (show_nat (unat (timestamp_from q)))),
            (''timestampTo'', JNum (show_nat (unat (timestamp_to q)))),
            (''pageNumber'', JNum (show_nat (unat (query_page_number q)))),
            (''pageSize'', JNum (show_nat (page_size q)))]
           @ (if severities q = [] then []
              else [(''severities'', JArr (map (JStr \<circ> severity_name) (severities q)))]))"

text \<open>The row count is read as a \<open>u64\<close>; on the platforms the program supports it always fits.\<close>

definition validate_response :: "system_log_query \<Rightarrow> 'a system_log_page \<Rightarrow> api_error + unit" where
  "validate_response q page =
     (let rows = length (log_data page)
      in if page_number page \<noteq> query_page_number q
            \<or> rows > page_size q
            \<or> unat (total_element_count page) < rows
            \<or> (rows = 0 \<and> total_element_count page \<noteq> 0 \<and> page_number page < total_page_count page)
            \<or> (rows \<noteq> 0 \<and> total_page_count page = 0)
         then Inl (Decode (bounded_new ''system log pagination did not match the requested page''))
         else Inr ())"

definition has_more :: "'a system_log_page \<Rightarrow> bool" where
  "has_more page \<longleftrightarrow>
     page_number page = 0 \<and> length (log_data page) < unat (total_element_count page)
     \<or> (case checked_add (page_number page) 1 of
          Some n \<Rightarrow> n < total_page_count page
        | None \<Rightarrow> False)"

section \<open>The read\<close>

definition system_log_route :: "console_kind option \<Rightarrow> string \<Rightarrow> string list" where
  "system_log_route k site =
     (if k = Some UnifiOs then [''proxy'', ''network''] else [])
     @ [''v2'', ''api'', ''site'', site, ''system-log'', ''all'']"

definition finish_system_log ::
  "json system_log_page decoder \<Rightarrow> ('e, 'x) legacy_client_scheme \<Rightarrow> system_log_query \<Rightarrow> response
     \<Rightarrow> 'e world \<Rightarrow> (api_error + bytes) \<times> 'e world" where
  "finish_system_log dec cl q response w =
     (let w = capture_csrf response w;
          status = rs_status response
      in if status = 429 then (Inl (rate_limited_error (ext_b64 cl) response), w)
         else (case read_bounded_body response of
                 Inl e \<Rightarrow> (Inl e, w)
               | Inr body \<Rightarrow>
                   (if \<not> is_success status
                    then (Inl (translate_failure cl status body IdempotentRead), w)
                    else (bind_res (map_err (\<lambda>err. decode_failure (ext_b64 cl) err body) (dec body))
                            (\<lambda>page. bind_res
                              (map_err (\<lambda>e. with_controller_response (ext_b64 cl) e body)
                                (validate_response q page))
                              (\<lambda>_. Inr body)), w))))"

definition execute_system_log ::
  "json system_log_page decoder \<Rightarrow> ('e, 'x) legacy_client_scheme \<Rightarrow> string \<Rightarrow> system_log_query
     \<Rightarrow> 'e world \<Rightarrow> (api_error + bytes) \<times> 'e world" where
  "execute_system_log dec cl site q w =
     (case build_url (base cl) (system_log_route (kind (session w)) site) [] of
        Inl e \<Rightarrow> (Inl e, w)
      | Inr u \<Rightarrow>
          bind_io
            (send_request cl
              \<lparr>rq_method = POST, rq_url = u,
               rq_headers = accept_json
                 @ (case csrf (session w) of Some t \<Rightarrow> [(CSRF_HEADER, t)] | None \<Rightarrow> []),
               rq_body = Some (query_json q)\<rparr>)
            (finish_system_log dec cl q) w)"

definition system_log_bytes ::
  "json system_log_page decoder \<Rightarrow> ('e, 'x) legacy_client_scheme \<Rightarrow> string \<Rightarrow> system_log_query
     \<Rightarrow> 'e world \<Rightarrow> (api_error + bytes) \<times> 'e world" where
  "system_log_bytes dec cl site q = read_with_reauth True cl (execute_system_log dec cl site q)"

text \<open>Both views of a page: the compact one, and every original field.\<close>

definition system_log ::
  "json system_log_page decoder \<Rightarrow> 'a system_log_page decoder \<Rightarrow> ('e, 'x) legacy_client_scheme
     \<Rightarrow> string \<Rightarrow> system_log_query \<Rightarrow> 'e world \<Rightarrow> (api_error + 'a system_log_page) \<times> 'e world" where
  "system_log dec typed cl site q =
     bind_io (system_log_bytes dec cl site q) (\<lambda>bytes.
       return_io (map_err (\<lambda>err. decode_failure (ext_b64 cl) err bytes) (typed bytes)))"

definition system_log_records ::
  "json system_log_page decoder \<Rightarrow> (string \<times> json) list decoder \<Rightarrow> ('e, 'x) legacy_client_scheme
     \<Rightarrow> string \<Rightarrow> system_log_query \<Rightarrow> 'e world \<Rightarrow> (api_error + (string \<times> json) list) \<times> 'e world" where
  "system_log_records dec whole cl site q =
     bind_io (system_log_bytes dec cl site q) (\<lambda>bytes.
       return_io (map_err (\<lambda>err. decode_failure (ext_b64 cl) err bytes) (whole bytes)))"

lemma snd_finish_system_log [simp]:
  "snd (finish_system_log dec cl q response w) = capture_csrf response w"
  by (simp add: finish_system_log_def Let_def split: sum.split)

interpretation syslog: request_attempt "execute_system_log dec cl site q"
  for dec :: "json system_log_page decoder" and cl :: "('e, 'x) legacy_client_scheme" and site q
proof
  fix w :: "'e world"
  show "session_steps (session w) (session (snd (execute_system_log dec cl site q w)))"
    using capture_csrf_steps [of "snd (send_request cl r w)" for r]
    by (auto simp: execute_system_log_def snd_bind_io split: sum.split)
  show "\<exists>tr. trace (snd (execute_system_log dec cl site q w)) = trace w @ tr \<and> length tr \<le> 1
      \<and> (\<forall>ev\<in>set tr. \<exists>r. ev = Sent r \<and> \<not> is_login_request r)"
    by (auto simp: execute_system_log_def snd_bind_io is_login_request_def system_log_route_def
        dest!: build_url_segments split: sum.split)
qed

section \<open>Properties\<close>

text \<open>A controller that pages a log of \<open>n\<close> rows consistently.\<close>

definition log_page :: "'a list \<Rightarrow> nat \<Rightarrow> nat \<Rightarrow> 'a system_log_page" where
  "log_page rows sz p =
     \<lparr>log_data = take sz (drop (p * sz) rows), page_number = of_nat p,
      total_element_count = of_nat (length rows),
      total_page_count = of_nat ((length rows + sz - 1) div sz)\<rparr>"

lemma unat_of_nat_small: "n < 2 ^ 64 \<Longrightarrow> unat (of_nat n :: u64) = n"
  by (simp add: unsigned_of_nat take_bit_nat_eq_self)

lemma less_ceiling_div:
  fixes a n s :: nat
  assumes "0 < s"
  shows "a < (n + s - 1) div s \<longleftrightarrow> a * s < n"
proof -
  have "a < (n + s - 1) div s \<longleftrightarrow> Suc a * s \<le> n + s - 1"
    using assms by (simp add: Suc_le_eq [symmetric] less_eq_div_iff_mult_less_eq)
  also have "\<dots> \<longleftrightarrow> a * s < n" using assms by (simp add: algebra_simps) linarith
  finally show ?thesis .
qed

text \<open>
  Reading pages of a controller that pages consistently never fails the pagination check,
  whichever page is asked for, and \<open>has_more\<close> is true exactly when rows remain after this page.
\<close>

theorem system_log_paging:
  assumes "query_new start stop sz = Inr q" and "length rows < 2 ^ 63" and "p < 2 ^ 63" and "sz < 2 ^ 63"
  shows "validate_response (query_page (of_nat p) q) (log_page rows sz p) = Inr ()
         \<and> (has_more (log_page rows sz p) \<longleftrightarrow> Suc p * sz < length rows)"
proof -
  let ?n = "length rows" and ?pg = "log_page rows sz p"
  let ?pages = "(?n + sz - 1) div sz"
  from assms(1) have q: "page_size q = sz" and sz: "0 < sz"
    by (auto simp: query_new_def split: if_splits)
  have "?n + sz - 1 < 2 ^ 64" using assms(2,4) by simp
  then have small: "?pages < 2 ^ 64" by (rule le_less_trans [OF div_le_dividend])
  have len: "length (log_data ?pg) = min sz (?n - p * sz)" by (simp add: log_page_def)
  have pn: "unat (page_number ?pg) = p" using assms(3) by (simp add: log_page_def unat_of_nat_small)
  have te: "unat (total_element_count ?pg) = ?n"
    using assms(2) by (simp add: log_page_def unat_of_nat_small)
  have tp: "unat (total_page_count ?pg) = ?pages"
    using small by (simp add: log_page_def unat_of_nat_small)
  have lt: "page_number ?pg < total_page_count ?pg \<longleftrightarrow> p * sz < ?n"
    unfolding word_less_nat_alt pn tp by (rule less_ceiling_div [OF sz])
  have zero: "total_page_count ?pg = 0 \<Longrightarrow> ?n \<le> p * sz"
    using lt by (metis leI word_less_nat_alt unat_0 not_less0)
  have "page_number ?pg = query_page_number (query_page (of_nat p) q)"
    by (simp add: log_page_def query_page_def)
  moreover have "page_size (query_page (of_nat p) q) = sz" using q by (simp add: query_page_def)
  ultimately have valid: "validate_response (query_page (of_nat p) q) ?pg = Inr ()"
    using len te lt zero sz by (auto simp: validate_response_def Let_def)
  obtain m where m: "checked_add (page_number ?pg) 1 = Some m" and um: "unat m = Suc p"
  proof -
    have "unat (page_number ?pg) + unat (1::u64) < 2 ^ 64" using pn assms(3) by simp
    then obtain m where "checked_add (page_number ?pg) 1 = Some m" by (simp add: checked_add_def)
    with that pn show thesis by (simp add: checked_add_Some_iff)
  qed
  have step: "m < total_page_count ?pg \<longleftrightarrow> Suc p * sz < ?n"
    unfolding word_less_nat_alt um tp by (rule less_ceiling_div [OF sz])
  have "p = 0 \<and> length (log_data ?pg) < ?n \<longrightarrow> Suc p * sz < ?n"
    using len by auto
  moreover have "page_number ?pg = 0 \<longleftrightarrow> p = 0" using pn by (metis unat_0 unat_eq_zero)
  ultimately have "has_more ?pg \<longleftrightarrow> Suc p * sz < ?n"
    using m step te by (auto simp: has_more_def)
  with valid show ?thesis by blast
qed

theorem system_log_paging_witness:
  "query_new 0 10 2 = Inr \<lparr>timestamp_from = 0, timestamp_to = 10, query_page_number = 0,
     page_size = 2, severities = []\<rparr>
   \<and> has_more (log_page [1::int, 2, 3] 2 0) \<and> \<not> has_more (log_page [1::int, 2, 3] 2 1)"
proof -
  have q: "query_new 0 10 2 = Inr \<lparr>timestamp_from = 0, timestamp_to = 10, query_page_number = 0,
      page_size = 2, severities = []\<rparr>"
    by (simp add: query_new_def)
  from system_log_paging [OF q, of "[1::int, 2, 3]" 0] system_log_paging [OF q, of "[1::int, 2, 3]" 1] q
  show ?thesis by simp
qed

end
