(* ===== verification/Auth.thy ===== *)
theory Auth
  imports Http
begin

text \<open>
  The gateway's ingress authentication (\<open>crates/unifi-server/src/auth.rs\<close>): the rotating service
  credentials, the settings of the identity verifier, the cached key set with its refresh
  cooldown, the checks on an identity token, and the composition of all of them for a request.
  The JWT library, the key-set parser, the HTTP client and the two clocks are parameters; 64-bit
  signed seconds are integers with the saturation and the overflow check written out.
\<close>

section \<open>Service credentials\<close>

definition MINIMUM_BEARER_BYTES :: nat where
  "MINIMUM_BEARER_BYTES = 32"

datatype auth_config_error =
  InvalidBearer | DuplicateBearers | UnsafeJwksUrl | InvalidIdentitySettings | IdentityClient

record gateway_bearers =
  current :: string
  previous :: "string option"

definition validate_bearer :: "string \<Rightarrow> auth_config_error + unit" where
  "validate_bearer v =
     (if length v < MINIMUM_BEARER_BYTES \<or> list_ex is_ascii_whitespace v then Inl InvalidBearer
      else Inr ())"

text \<open>Comparison in constant time: a fold of the bytewise differences, no early exit.\<close>

definition constant_time_equal :: "bytes \<Rightarrow> bytes \<Rightarrow> bool" where
  "constant_time_equal l r =
     (if length l \<noteq> length r then False
      else fold (\<lambda>(a, b) acc. acc \<and> a = b) (zip l r) True)"

definition from_protected :: "string \<Rightarrow> string option \<Rightarrow> auth_config_error + gateway_bearers" where
  "from_protected cur prev =
     bind_res (validate_bearer cur) (\<lambda>_.
       case prev of
         None \<Rightarrow> Inr \<lparr>current = cur, previous = prev\<rparr>
       | Some p \<Rightarrow>
           bind_res (validate_bearer p) (\<lambda>_.
             if constant_time_equal cur p then Inl DuplicateBearers
             else Inr \<lparr>current = cur, previous = prev\<rparr>))"

definition accepts :: "gateway_bearers \<Rightarrow> bytes \<Rightarrow> bool" where
  "accepts b supplied \<longleftrightarrow>
     constant_time_equal supplied (current b)
     \<or> (case previous b of None \<Rightarrow> False | Some p \<Rightarrow> constant_time_equal supplied p)"

section \<open>Verifier settings\<close>

datatype host = Ipv4 u8 u8 u8 u8 | Ipv6 "128 word" | Domain string

record jwks_url =
  ju_scheme :: string
  ju_username :: string
  ju_password :: "string option"
  ju_host :: "host option"
  ju_query :: "string option"
  ju_fragment :: "string option"

text \<open>The address tests of the standard library.\<close>

fun is_loopback :: "host \<Rightarrow> bool" where
  "is_loopback (Ipv4 a b c d) = (a = 127)"
| "is_loopback (Ipv6 w) = (w = 1)"
| "is_loopback (Domain d) = False"

fun is_private :: "host \<Rightarrow> bool" where
  "is_private (Ipv4 a b c d) =
     (a = 10 \<or> a = 172 \<and> 16 \<le> b \<and> b \<le> 31 \<or> a = 192 \<and> b = 168)"
| "is_private (Ipv6 w) = (drop_bit 121 w = 126)"
| "is_private (Domain d) = False"

definition is_private_host :: "jwks_url \<Rightarrow> bool" where
  "is_private_host u =
     (case ju_host u of
        Some (Domain domain) \<Rightarrow> domain = ''localhost'' \<or> CHR ''.'' \<notin> set domain
      | Some h \<Rightarrow> is_loopback h \<or> is_private h
      | None \<Rightarrow> False)"

definition validate_jwks_url :: "jwks_url \<Rightarrow> auth_config_error + unit" where
  "validate_jwks_url u =
     (if ju_username u = [] \<and> ju_password u = None \<and> ju_query u = None \<and> ju_fragment u = None
         \<and> (ju_scheme u = ''https'' \<or> ju_scheme u = ''http'' \<and> is_private_host u)
      then Inr () else Inl UnsafeJwksUrl)"

record identity_verifier_settings =
  jwks_url_setting :: jwks_url
  issuer :: string
  actor :: string
  audience :: string
  request_timeout :: duration
  cache_ttl :: duration

definition MAXIMUM_IDENTITY_ACTOR_BYTES :: nat where
  "MAXIMUM_IDENTITY_ACTOR_BYTES = 256"

definition validate_settings :: "identity_verifier_settings \<Rightarrow> auth_config_error + unit" where
  "validate_settings st =
     bind_res (validate_jwks_url (jwks_url_setting st)) (\<lambda>_.
       if trim (issuer st) = [] \<or> trim (actor st) \<noteq> actor st \<or> actor st = []
          \<or> trim (audience st) \<noteq> audience st \<or> audience st = []
          \<or> list_ex is_control (chars (audience st))
          \<or> length (actor st) > MAXIMUM_IDENTITY_ACTOR_BYTES
          \<or> list_ex is_control (chars (actor st))
          \<or> request_timeout st = 0 \<or> request_timeout st > from_secs 30
          \<or> cache_ttl st = 0 \<or> cache_ttl st > from_secs 3600
       then Inl InvalidIdentitySettings else Inr ())"

section \<open>The key cache\<close>

datatype identity_error = Invalid | KeyUnavailable | Unavailable

datatype algorithm = EdDSA | OtherAlgorithm

record identity_claims =
  claim_sub :: string
  claim_iat :: int
  claim_exp :: int
  claim_groups :: "string list"
  claim_act_sub :: string

record identity_principal =
  subject :: string
  groups :: "string list"

record ('ks) cached_keys =
  key_set :: 'ks
  expires_at :: instant

record ('ks) cache_state =
  cached :: "'ks cached_keys option"
  last_attempt :: "instant option"

datatype 'j cache_lookup = Found 'j | MissInCooldown | Refreshable

definition JWKS_REFRESH_COOLDOWN :: duration where
  "JWKS_REFRESH_COOLDOWN = from_secs 30"

definition MAXIMUM_JWKS_BYTES :: nat where
  "MAXIMUM_JWKS_BYTES = 64 * 1024"

text \<open>
  What the verifier calls: the key-set request, the wait for the refresh lock, the monotonic and
  the wall clock, the key-set parser and lookup, and the JWT library. \<open>'ks\<close> is a key set, \<open>'j\<close>
  one key, \<open>'d\<close> a decoding key.
\<close>

record ('e, 'ks, 'j, 'd) auth_externals =
  ax_get :: "'e \<Rightarrow> (string + response) \<times> 'e"
  ax_lock :: "'e \<Rightarrow> 'e"
  ax_now :: "'e \<Rightarrow> instant"
  ax_unix :: "'e \<Rightarrow> int option"
  ax_parse :: "bytes \<Rightarrow> string + 'ks"
  ax_find :: "'ks \<Rightarrow> string \<Rightarrow> 'j option"
  ax_header :: "string \<Rightarrow> (algorithm \<times> string option) option"
  ax_from_jwk :: "'j \<Rightarrow> 'd option"
  ax_decode :: "string \<Rightarrow> 'd \<Rightarrow> string \<Rightarrow> string \<Rightarrow> nat \<Rightarrow> identity_claims option"

text \<open>The verifier's world: the cache and the fetches made, each with its start and its end.\<close>

record ('e, 'ks) auth_world =
  aenv :: 'e
  cache :: "'ks cache_state"
  fetches :: "(instant \<times> instant) list"

definition cached_lookup ::
  "('e, 'ks, 'j, 'd) auth_externals \<Rightarrow> string \<Rightarrow> ('e, 'ks) auth_world \<Rightarrow> 'j cache_lookup" where
  "cached_lookup X key_id w =
     (let now = ax_now X (aenv w);
          hit = Option.bind (cached (cache w))
                  (\<lambda>c. if expires_at c > now then ax_find X (key_set c) key_id else None)
      in case hit of
           Some key \<Rightarrow> Found key
         | None \<Rightarrow>
             (case last_attempt (cache w) of
                Some attempt \<Rightarrow>
                  (if now < attempt + JWKS_REFRESH_COOLDOWN then MissInCooldown else Refreshable)
              | None \<Rightarrow> Refreshable))"

fun read_jwks :: "bytes \<Rightarrow> (string + bytes) list \<Rightarrow> identity_error + bytes" where
  "read_jwks body [] = Inr body"
| "read_jwks body (Inl _ # _) = Inl Unavailable"
| "read_jwks body (Inr chunk # rest) =
     (if length body + length chunk > MAXIMUM_JWKS_BYTES then Inl Unavailable
      else read_jwks (body @ chunk) rest)"

definition fetch_keys ::
  "('e, 'ks, 'j, 'd) auth_externals \<Rightarrow> ('e, 'ks) auth_world
     \<Rightarrow> (identity_error + 'ks) \<times> ('e, 'ks) auth_world" where
  "fetch_keys X w =
     (case ax_get X (aenv w) of
        (result, e) \<Rightarrow>
          (case result of
             Inl _ \<Rightarrow> Inl Unavailable
           | Inr response \<Rightarrow>
               (if \<not> is_success (rs_status response) then Inl Unavailable
                else bind_res (read_jwks [] (rs_chunks response))
                       (\<lambda>body. map_err (\<lambda>_. Unavailable) (ax_parse X body))),
           w\<lparr>aenv := e, fetches := fetches w @ [(ax_now X (aenv w), ax_now X e)]\<rparr>))"

text \<open>The section under the refresh lock: look again, then fetch once and store the outcome.\<close>

definition refresh_key ::
  "('e, 'ks, 'j, 'd) auth_externals \<Rightarrow> identity_verifier_settings \<Rightarrow> string \<Rightarrow> ('e, 'ks) auth_world
     \<Rightarrow> (identity_error + 'j) \<times> ('e, 'ks) auth_world" where
  "refresh_key X st key_id w =
     (case cached_lookup X key_id w of
        Found key \<Rightarrow> (Inr key, w)
      | MissInCooldown \<Rightarrow> (Inl KeyUnavailable, w)
      | Refreshable \<Rightarrow>
          (case fetch_keys X w of
             (result, w) \<Rightarrow>
               (let now = ax_now X (aenv w);
                    w = w\<lparr>cache := (cache w)\<lparr>last_attempt := Some now\<rparr>\<rparr>
                in case result of
                     Inl err \<Rightarrow> (Inl err, w)
                   | Inr keys \<Rightarrow>
                       (ok_or KeyUnavailable (ax_find X keys key_id),
                        w\<lparr>cache := (cache w)\<lparr>cached := Some \<lparr>key_set = keys,
                            expires_at = now + cache_ttl st\<rparr>\<rparr>\<rparr>))))"

definition key ::
  "('e, 'ks, 'j, 'd) auth_externals \<Rightarrow> identity_verifier_settings \<Rightarrow> string \<Rightarrow> ('e, 'ks) auth_world
     \<Rightarrow> (identity_error + 'j) \<times> ('e, 'ks) auth_world" where
  "key X st key_id w =
     (case cached_lookup X key_id w of
        Found k \<Rightarrow> (Inr k, w)
      | MissInCooldown \<Rightarrow> (Inl KeyUnavailable, w)
      | Refreshable \<Rightarrow> refresh_key X st key_id (w\<lparr>aenv := ax_lock X (aenv w)\<rparr>))"

section \<open>Identity tokens\<close>

definition CLOCK_SKEW_SECONDS :: int where
  "CLOCK_SKEW_SECONDS = 30"

definition MAXIMUM_IDENTITY_TOKEN_AGE_SECONDS :: int where
  "MAXIMUM_IDENTITY_TOKEN_AGE_SECONDS = 240"

definition MAXIMUM_IDENTITY_TOKEN_LIFETIME_SECONDS :: int where
  "MAXIMUM_IDENTITY_TOKEN_LIFETIME_SECONDS = 300"

definition i64_min :: int where "i64_min = - (2 ^ 63)"
definition i64_max :: int where "i64_max = 2 ^ 63 - 1"

definition is_i64 :: "int \<Rightarrow> bool" where
  "is_i64 n \<longleftrightarrow> i64_min \<le> n \<and> n \<le> i64_max"

definition saturate :: "int \<Rightarrow> int" where
  "saturate n = max i64_min (min n i64_max)"

definition checked_sub_i64 :: "int \<Rightarrow> int \<Rightarrow> int option" where
  "checked_sub_i64 a b = (if is_i64 (a - b) then Some (a - b) else None)"

definition valid_claims :: "identity_verifier_settings \<Rightarrow> int \<Rightarrow> identity_claims \<Rightarrow> bool" where
  "valid_claims st now c =
     (let valid_lifetime =
            (case checked_sub_i64 (claim_exp c) (claim_iat c) of
               None \<Rightarrow> False
             | Some lifetime \<Rightarrow> 1 \<le> lifetime \<and> lifetime \<le> MAXIMUM_IDENTITY_TOKEN_LIFETIME_SECONDS)
      in \<not> (claim_sub c = []
            \<or> claim_act_sub c \<noteq> actor st
            \<or> claim_iat c < saturate (now - saturate (MAXIMUM_IDENTITY_TOKEN_AGE_SECONDS + CLOCK_SKEW_SECONDS))
            \<or> claim_iat c > saturate (now + CLOCK_SKEW_SECONDS)
            \<or> claim_exp c > saturate (now + saturate (MAXIMUM_IDENTITY_TOKEN_LIFETIME_SECONDS + CLOCK_SKEW_SECONDS))
            \<or> \<not> valid_lifetime
            \<or> length (claim_groups c) > 256
            \<or> list_ex (\<lambda>g. length g > 256) (claim_groups c)))"

definition verify_with_time ::
  "('e, 'ks, 'j, 'd) auth_externals \<Rightarrow> identity_verifier_settings \<Rightarrow> string \<Rightarrow> int option
     \<Rightarrow> ('e, 'ks) auth_world \<Rightarrow> (identity_error + identity_principal) \<times> ('e, 'ks) auth_world" where
  "verify_with_time X st token timestamp w =
     (case ax_header X token of
        None \<Rightarrow> (Inl Invalid, w)
      | Some (alg, kid) \<Rightarrow>
          (if alg \<noteq> EdDSA then (Inl Invalid, w)
           else (case kid of
                   None \<Rightarrow> (Inl Invalid, w)
                 | Some key_id \<Rightarrow>
                     bind_io (key X st key_id) (\<lambda>k w.
                       case ax_from_jwk X k of
                         None \<Rightarrow> (Inl Invalid, w)
                       | Some decoding \<Rightarrow>
                           (case ax_decode X token decoding (issuer st) (audience st)
                                   (nat CLOCK_SKEW_SECONDS) of
                              None \<Rightarrow> (Inl Invalid, w)
                            | Some claims \<Rightarrow>
                                (case (case timestamp of Some t \<Rightarrow> Some t | None \<Rightarrow> ax_unix X (aenv w)) of
                                   None \<Rightarrow> (Inl Invalid, w)
                                 | Some now \<Rightarrow>
                                     (if valid_claims st now claims
                                      then (Inr \<lparr>subject = claim_sub claims,
                                                 groups = claim_groups claims\<rparr>, w)
                                      else (Inl Invalid, w))))) w)))"

definition verify ::
  "('e, 'ks, 'j, 'd) auth_externals \<Rightarrow> identity_verifier_settings \<Rightarrow> string
     \<Rightarrow> ('e, 'ks) auth_world \<Rightarrow> (identity_error + identity_principal) \<times> ('e, 'ks) auth_world" where
  "verify X st token = verify_with_time X st token None"

section \<open>Requests\<close>

record ingress_auth =
  bearers :: gateway_bearers
  verifier :: identity_verifier_settings
  allowed_hosts :: "string list"
  allowed_origins :: "string list"

text \<open>A header: absent, present but not text, or text.\<close>

type_synonym header_map = "string \<Rightarrow> string option option"

definition text_header :: "header_map \<Rightarrow> string \<Rightarrow> string option" where
  "text_header hs name = (case hs name of Some (Some v) \<Rightarrow> Some v | _ \<Rightarrow> None)"

definition origin_allowed :: "ingress_auth \<Rightarrow> header_map \<Rightarrow> bool" where
  "origin_allowed auth hs =
     (case hs ''origin'' of
        None \<Rightarrow> True
      | Some None \<Rightarrow> False
      | Some (Some origin) \<Rightarrow> list_ex (\<lambda>a. a = origin) (allowed_origins auth))"

definition authenticate ::
  "('e, 'ks, 'j, 'd) auth_externals \<Rightarrow> ingress_auth \<Rightarrow> header_map \<Rightarrow> ('e, 'ks) auth_world
     \<Rightarrow> identity_principal option \<times> ('e, 'ks) auth_world" where
  "authenticate X auth hs w =
     (case map_option to_ascii_lowercase (text_header hs ''host'') of
        None \<Rightarrow> (None, w)
      | Some h \<Rightarrow>
          (if \<not> list_ex (\<lambda>a. a = h) (allowed_hosts auth) then (None, w)
           else if \<not> origin_allowed auth hs then (None, w)
           else (case Option.bind (text_header hs ''authorization'') (strip_prefix ''Bearer '') of
                   None \<Rightarrow> (None, w)
                 | Some bearer \<Rightarrow>
                     (if \<not> accepts (bearers auth) bearer then (None, w)
                      else (case text_header hs ''x-mcp-identity'' of
                              None \<Rightarrow> (None, w)
                            | Some identity \<Rightarrow>
                                (case verify X (verifier auth) identity w of
                                   (r, w) \<Rightarrow> (ok r, w)))))))"

text \<open>\<open>require_gateway\<close>: the request goes on with its principal, or is answered 401.\<close>

datatype gateway_outcome = RunNext identity_principal | Unauthorized

definition require_gateway ::
  "('e, 'ks, 'j, 'd) auth_externals \<Rightarrow> ingress_auth \<Rightarrow> header_map \<Rightarrow> ('e, 'ks) auth_world
     \<Rightarrow> gateway_outcome \<times> ('e, 'ks) auth_world" where
  "require_gateway X auth hs w =
     (case authenticate X auth hs w of
        (Some who, w) \<Rightarrow> (RunNext who, w)
      | (None, w) \<Rightarrow> (Unauthorized, w))"

section \<open>Properties\<close>

subsection \<open>Credentials\<close>

lemma fold_all: "fold (\<lambda>(a, b) acc. acc \<and> a = b) ps z \<longleftrightarrow> z \<and> (\<forall>(a, b)\<in>set ps. a = b)"
  by (induction ps arbitrary: z) auto

lemma constant_time_equal_iff [simp]: "constant_time_equal l r \<longleftrightarrow> l = r"
proof (cases "length l = length r")
  case True
  then show ?thesis
    by (auto simp: constant_time_equal_def fold_all list_eq_iff_nth_eq set_zip)
qed (auto simp: constant_time_equal_def)

definition strong_bearer :: "string \<Rightarrow> bool" where
  "strong_bearer v \<longleftrightarrow> 32 \<le> length v \<and> \<not> list_ex is_ascii_whitespace v"

lemma validate_bearer_iff: "validate_bearer v = Inr u \<longleftrightarrow> strong_bearer v"
  by (auto simp: validate_bearer_def strong_bearer_def MINIMUM_BEARER_BYTES_def)

text \<open>
  A rotation set is accepted exactly when each credential is at least 32 bytes without
  white space and the two differ; it then accepts exactly the bytes of the current or of the
  previous credential, and nothing else.
\<close>

theorem rotation_set_iff:
  "from_protected cur prev = Inr b \<longleftrightarrow>
     strong_bearer cur \<and> (case prev of None \<Rightarrow> True | Some p \<Rightarrow> strong_bearer p \<and> p \<noteq> cur)
     \<and> b = \<lparr>current = cur, previous = prev\<rparr>
     \<and> {s. accepts b s} = insert cur (set_option prev)"
  by (auto simp: from_protected_def bind_res_eq_Inr validate_bearer_iff accepts_def
      split: option.splits if_splits)

subsection \<open>Identity tokens\<close>

text \<open>
  On 64-bit times, the claims of an identity token are accepted exactly when it names a
  subject and the configured actor, was issued within the last 270 seconds and at most 30 seconds
  ahead, lives between 1 and 300 seconds, and lists at most 256 groups of at most 256 bytes: the
  saturating arithmetic never lets a time outside these bounds through.
\<close>

theorem valid_claims_iff:
  assumes "is_i64 now" and "is_i64 (claim_iat c)" and "is_i64 (claim_exp c)" and "0 \<le> now"
    and "now < i64_max - 330"
  shows "valid_claims st now c \<longleftrightarrow>
     claim_sub c \<noteq> [] \<and> claim_act_sub c = actor st
     \<and> now - 270 \<le> claim_iat c \<and> claim_iat c \<le> now + 30
     \<and> 1 \<le> claim_exp c - claim_iat c \<and> claim_exp c - claim_iat c \<le> 300
     \<and> length (claim_groups c) \<le> 256 \<and> (\<forall>g\<in>set (claim_groups c). length g \<le> 256)"
proof -
  have s: "saturate (now - 270) = now - 270" "saturate (now + 30) = now + 30"
    "saturate (now + 330) = now + 330" "saturate 270 = 270" "saturate 330 = 330"
    using assms(4,5) by (auto simp: saturate_def i64_min_def i64_max_def)
  have life: "(case checked_sub_i64 (claim_exp c) (claim_iat c) of
        None \<Rightarrow> False | Some l \<Rightarrow> 1 \<le> l \<and> l \<le> 300)
      \<longleftrightarrow> 1 \<le> claim_exp c - claim_iat c \<and> claim_exp c - claim_iat c \<le> 300"
    by (auto simp: checked_sub_i64_def is_i64_def i64_min_def i64_max_def)
  show ?thesis
    unfolding valid_claims_def Let_def MAXIMUM_IDENTITY_TOKEN_AGE_SECONDS_def CLOCK_SKEW_SECONDS_def
      MAXIMUM_IDENTITY_TOKEN_LIFETIME_SECONDS_def
    by (auto simp: s life list_ex_iff not_less not_le)
qed

theorem valid_claims_iff_witness:
  "valid_claims
     \<lparr>jwks_url_setting = \<lparr>ju_scheme = ''https'', ju_username = [], ju_password = None, ju_host = None,
        ju_query = None, ju_fragment = None\<rparr>, issuer = ''gw'', actor = ''gateway'',
      audience = ''unifi'', request_timeout = 1, cache_ttl = 1\<rparr> 1000
     \<lparr>claim_sub = ''ann'', claim_iat = 900, claim_exp = 1200, claim_groups = [],
      claim_act_sub = ''gateway''\<rparr>"
  by (subst valid_claims_iff) (simp_all add: is_i64_def i64_min_def i64_max_def)

lemma verify_with_time_sound:
  assumes "verify_with_time X st token timestamp w = (Inr who, w')"
  shows "\<exists>key_id k d c now. ax_header X token = Some (EdDSA, Some key_id)
           \<and> key X st key_id w = (Inr k, w') \<and> ax_from_jwk X k = Some d
           \<and> ax_decode X token d (issuer st) (audience st) 30 = Some c
           \<and> (case timestamp of Some t \<Rightarrow> now = t | None \<Rightarrow> ax_unix X (aenv w') = Some now)
           \<and> valid_claims st now c \<and> who = \<lparr>subject = claim_sub c, groups = claim_groups c\<rparr>"
  using assms
  by (auto simp: verify_with_time_def bind_io_def CLOCK_SKEW_SECONDS_def
      split: option.splits prod.splits sum.splits if_splits)

text \<open>
  C28. A request gets through only with all of its proofs: an allowed host (compared in lower
  case), no foreign origin, a current or previous service credential, and an identity token
  signed with \<open>EdDSA\<close> by a key of the configured key set, decoded for the configured issuer and
  audience, whose claims hold now; the caller is then exactly the one the token names.
\<close>

theorem authenticate_sound:
  assumes "authenticate X auth hs w = (Some who, w')"
  shows "\<exists>h bearer token key_id k d c now.
           hs ''host'' = Some (Some h) \<and> to_ascii_lowercase h \<in> set (allowed_hosts auth)
         \<and> (hs ''origin'' = None \<or> (\<exists>o'\<in>set (allowed_origins auth). hs ''origin'' = Some (Some o')))
         \<and> hs ''authorization'' = Some (Some (''Bearer '' @ bearer))
         \<and> bearer \<in> insert (current (bearers auth)) (set_option (previous (bearers auth)))
         \<and> hs ''x-mcp-identity'' = Some (Some token)
         \<and> ax_header X token = Some (EdDSA, Some key_id)
         \<and> key X (verifier auth) key_id w = (Inr k, w') \<and> ax_from_jwk X k = Some d
         \<and> ax_decode X token d (issuer (verifier auth)) (audience (verifier auth)) 30 = Some c
         \<and> ax_unix X (aenv w') = Some now \<and> valid_claims (verifier auth) now c
         \<and> who = \<lparr>subject = claim_sub c, groups = claim_groups c\<rparr>"
proof -
  have hdr: "text_header hs n = Some v \<longleftrightarrow> hs n = Some (Some v)" for n v
    by (auto simp: text_header_def split: option.splits)
  from assms obtain h bearer token where
    host: "hs ''host'' = Some (Some h)" "to_ascii_lowercase h \<in> set (allowed_hosts auth)"
    and org: "origin_allowed auth hs"
    and b: "hs ''authorization'' = Some (Some (''Bearer '' @ bearer))" "accepts (bearers auth) bearer"
    and tok: "hs ''x-mcp-identity'' = Some (Some token)"
    and v: "verify X (verifier auth) token w = (Inr who, w')"
    by (auto simp: authenticate_def hdr strip_prefix_Some_iff list_ex_iff ok_def bind_eq_Some_conv
        split: option.splits if_splits prod.splits sum.splits)
  from org have o': "hs ''origin'' = None \<or> (\<exists>o'\<in>set (allowed_origins auth). hs ''origin'' = Some (Some o'))"
    by (auto simp: origin_allowed_def list_ex_iff split: option.splits)
  from b(2) have acc: "bearer \<in> insert (current (bearers auth)) (set_option (previous (bearers auth)))"
    by (auto simp: accepts_def split: option.splits)
  from verify_with_time_sound [OF v [unfolded verify_def]] obtain key_id k d c now where
    "ax_header X token = Some (EdDSA, Some key_id)" "key X (verifier auth) key_id w = (Inr k, w')"
    "ax_from_jwk X k = Some d"
    "ax_decode X token d (issuer (verifier auth)) (audience (verifier auth)) 30 = Some c"
    "ax_unix X (aenv w') = Some now" "valid_claims (verifier auth) now c"
    "who = \<lparr>subject = claim_sub c, groups = claim_groups c\<rparr>" by auto
  with host o' b(1) acc tok show ?thesis by blast
qed

subsection \<open>Key fetches\<close>

text \<open>
  What concurrent requests can do to the verifier: time passes, and one of them runs the section
  under the refresh lock. The first lookup of a request changes nothing.
\<close>

inductive verifier_steps ::
  "('e, 'ks, 'j, 'd) auth_externals \<Rightarrow> identity_verifier_settings
     \<Rightarrow> ('e, 'ks) auth_world \<Rightarrow> ('e, 'ks) auth_world \<Rightarrow> bool" for X st where
  start: "verifier_steps X st w w"
| idle: "verifier_steps X st w w' \<Longrightarrow> verifier_steps X st w (w'\<lparr>aenv := e\<rparr>)"
| locked: "verifier_steps X st w w' \<Longrightarrow> verifier_steps X st w (snd (refresh_key X st key_id w'))"

definition spaced :: "(instant \<times> instant) list \<Rightarrow> bool" where
  "spaced fs \<longleftrightarrow> \<not> windows2_any (\<lambda>a b. fst b < snd a + JWKS_REFRESH_COOLDOWN) fs"

definition cache_inv :: "('e, 'ks) auth_world \<Rightarrow> bool" where
  "cache_inv w \<longleftrightarrow>
     spaced (fetches w)
     \<and> last_attempt (cache w) = (if fetches w = [] then None else Some (snd (last (fetches w))))"

lemma windows2_any_snoc:
  "windows2_any p (xs @ [y]) \<longleftrightarrow> windows2_any p xs \<or> xs \<noteq> [] \<and> p (last xs) y"
  by (induction p xs rule: windows2_any.induct) auto

lemma refreshable_cooldown:
  "cached_lookup X key_id w = Refreshable \<Longrightarrow> last_attempt (cache w) = Some a
     \<Longrightarrow> a + JWKS_REFRESH_COOLDOWN \<le> ax_now X (aenv w)"
  by (auto simp: cached_lookup_def Let_def split: option.splits if_splits)

lemma fetch_keys_snd:
  "snd (fetch_keys X w) = w\<lparr>aenv := snd (ax_get X (aenv w)),
     fetches := fetches w @ [(ax_now X (aenv w), ax_now X (snd (ax_get X (aenv w))))]\<rparr>"
  by (simp add: fetch_keys_def split: prod.split)

lemma refresh_key_world:
  "cached_lookup X key_id w = Refreshable \<Longrightarrow>
     fetches (snd (refresh_key X st key_id w)) =
       fetches w @ [(ax_now X (aenv w), ax_now X (snd (ax_get X (aenv w))))]
     \<and> last_attempt (cache (snd (refresh_key X st key_id w))) =
         Some (ax_now X (snd (ax_get X (aenv w))))"
  using fetch_keys_snd [of X w]
  by (auto simp: refresh_key_def Let_def split: prod.splits sum.splits)

lemma refresh_key_inv: "cache_inv w \<Longrightarrow> cache_inv (snd (refresh_key X st key_id w))"
proof (cases "cached_lookup X key_id w")
  case Refreshable
  assume inv: "cache_inv w"
  then have "spaced (fetches w @ [(ax_now X (aenv w), n)])" for n
    using refreshable_cooldown [OF Refreshable]
    by (auto simp: cache_inv_def spaced_def windows2_any_snoc split: if_splits)
  with refresh_key_world [OF Refreshable, of st] show ?thesis
    by (simp add: cache_inv_def)
qed (simp_all add: refresh_key_def)

text \<open>
  C29. However many requests arrive, whatever keys they name and however they interleave, the key
  set is fetched again only thirty seconds after the previous attempt ended, whether that attempt
  succeeded or failed.
\<close>

theorem key_fetches_are_spaced:
  assumes "verifier_steps X st w w'" and "fetches w = []" and "last_attempt (cache w) = None"
  shows "spaced (fetches w')"
proof -
  from assms have "cache_inv w'"
  proof (induction rule: verifier_steps.induct)
    case (start w)
    then show ?case by (simp add: cache_inv_def spaced_def)
  next
    case (idle w w' e)
    then show ?case by (simp add: cache_inv_def)
  next
    case (locked w w' key_id)
    then show ?case by (simp add: refresh_key_inv)
  qed
  then show ?thesis by (simp add: cache_inv_def)
qed

text \<open>Every request is a sequence of such steps.\<close>

lemma key_is_steps: "verifier_steps X st w (snd (key X st key_id w))"
proof (cases "cached_lookup X key_id w")
  case Refreshable
  have "verifier_steps X st w (w\<lparr>aenv := ax_lock X (aenv w)\<rparr>)"
    by (intro verifier_steps.intros)
  then have "verifier_steps X st w (snd (refresh_key X st key_id (w\<lparr>aenv := ax_lock X (aenv w)\<rparr>)))"
    by (rule verifier_steps.locked)
  with Refreshable show ?thesis by (simp add: key_def)
qed (simp_all add: key_def verifier_steps.start)

subsection \<open>Concrete instances\<close>

text \<open>A clock that counts nanoseconds, a key server that takes one, and a transparent token library.\<close>

definition sample_externals :: "(nat, unit, unit, unit) auth_externals" where
  "sample_externals =
     \<lparr>ax_get = (\<lambda>e. (Inr \<lparr>rs_status = 200, rs_header = (\<lambda>_. None), rs_chunks = []\<rparr>, Suc e)),
      ax_lock = (\<lambda>e. e), ax_now = (\<lambda>e. e), ax_unix = (\<lambda>_. Some 1000), ax_parse = (\<lambda>_. Inr ()),
      ax_find = (\<lambda>_ _. Some ()), ax_header = (\<lambda>_. Some (EdDSA, Some ''k1'')),
      ax_from_jwk = (\<lambda>_. Some ()),
      ax_decode = (\<lambda>_ _ _ _ _. Some \<lparr>claim_sub = ''ann'', claim_iat = 900, claim_exp = 1200,
        claim_groups = [], claim_act_sub = ''gateway''\<rparr>)\<rparr>"

definition sample_settings :: identity_verifier_settings where
  "sample_settings =
     \<lparr>jwks_url_setting = \<lparr>ju_scheme = ''https'', ju_username = [], ju_password = None, ju_host = None,
        ju_query = None, ju_fragment = None\<rparr>, issuer = ''gw'', actor = ''gateway'',
      audience = ''unifi'', request_timeout = 1, cache_ttl = 1\<rparr>"

definition sample_world :: "(nat, unit) auth_world" where
  "sample_world = \<lparr>aenv = 0, cache = \<lparr>cached = None, last_attempt = None\<rparr>, fetches = []\<rparr>"

definition sample_ingress :: ingress_auth where
  "sample_ingress =
     \<lparr>bearers = \<lparr>current = ''secret'', previous = None\<rparr>, verifier = sample_settings,
      allowed_hosts = [''unifi''], allowed_origins = []\<rparr>"

definition sample_headers :: header_map where
  "sample_headers name =
     map_of [(''host'', Some ''unifi''), (''authorization'', Some ''Bearer secret''),
             (''x-mcp-identity'', Some ''token'')] name"

lemma sample_authenticates:
  "fst (authenticate sample_externals sample_ingress sample_headers sample_world) =
     Some \<lparr>subject = ''ann'', groups = []\<rparr>"
proof -
  have claims: "valid_claims sample_settings 1000 \<lparr>claim_sub = ''ann'', claim_iat = 900,
      claim_exp = 1200, claim_groups = [], claim_act_sub = ''gateway''\<rparr>"
    by (simp add: valid_claims_def sample_settings_def saturate_def i64_min_def i64_max_def
        checked_sub_i64_def is_i64_def MAXIMUM_IDENTITY_TOKEN_AGE_SECONDS_def
        CLOCK_SKEW_SECONDS_def MAXIMUM_IDENTITY_TOKEN_LIFETIME_SECONDS_def)
  have lookup: "cached_lookup sample_externals i sample_world = Refreshable" for i
    by (simp add: cached_lookup_def sample_world_def)
  have key: "fst (key sample_externals sample_settings i sample_world) = Inr ()" for i
    by (simp add: key_def refresh_key_def lookup sample_externals_def sample_world_def
        cached_lookup_def fetch_keys_def is_success_def Let_def)
  obtain w' where k: "key sample_externals sample_settings ''k1'' sample_world = (Inr (), w')"
    using key [of "''k1''"] by (metis prod.collapse)
  have unix: "ax_unix sample_externals (aenv w') = Some 1000" by (simp add: sample_externals_def)
  have "fst (verify sample_externals sample_settings ''token'' sample_world)
      = Inr \<lparr>subject = ''ann'', groups = []\<rparr>"
    using claims k unix
    by (simp add: verify_def verify_with_time_def bind_io_def sample_externals_def)
  then show ?thesis
    by (auto simp: authenticate_def sample_headers_def sample_ingress_def text_header_def
        origin_allowed_def accepts_def to_ascii_lowercase_def ascii_lower_def split: prod.splits)
qed

theorem authenticate_sound_witness:
  "\<exists>h. sample_headers ''host'' = Some (Some h) \<and> to_ascii_lowercase h \<in> set (allowed_hosts sample_ingress)"
proof -
  obtain w' where "authenticate sample_externals sample_ingress sample_headers sample_world
      = (Some \<lparr>subject = ''ann'', groups = []\<rparr>, w')"
    using sample_authenticates by (metis prod.collapse)
  from authenticate_sound [OF this] show ?thesis by blast
qed

theorem key_fetches_are_spaced_witness:
  "spaced (fetches (snd (refresh_key sample_externals sample_settings ''k2''
     ((snd (refresh_key sample_externals sample_settings ''k1'' sample_world))
        \<lparr>aenv := from_secs 60\<rparr>))))"
proof (rule key_fetches_are_spaced)
  show "verifier_steps sample_externals sample_settings sample_world
      (snd (refresh_key sample_externals sample_settings ''k2''
        ((snd (refresh_key sample_externals sample_settings ''k1'' sample_world))
           \<lparr>aenv := from_secs 60\<rparr>)))"
    by (intro verifier_steps.intros)
  show "fetches sample_world = []" "last_attempt (cache sample_world) = None"
    by (simp_all add: sample_world_def)
qed

end
