(* ===== verification/Sink.thy ===== *)
theory Sink
  imports Traffic
begin

text \<open>
  Publication of a traffic snapshot to the operator's time-series store
  (\<open>crates/unifi-server/src/collector/sink.rs\<close>): the lines of one publication, their batches, and
  the order in which they are written. The serializer, the digest, the Base64 encoder, the typed
  readers and the floating-point operations are parameters.
\<close>

section \<open>Lines\<close>

record 'f sink_externals =
  sx_to_vec :: "traffic_snapshot \<Rightarrow> string + bytes"
  sx_digest :: "bytes \<Rightarrow> string"
  sx_base64 :: "bytes \<Rightarrow> string"
  sx_activity :: "string \<Rightarrow> string + activity_report"
  sx_wan :: "string \<Rightarrow> string + 'f wan_report"
  sx_name_json :: "string option \<Rightarrow> string"
  f_finite :: "'f \<Rightarrow> bool"
  f_nonneg :: "'f \<Rightarrow> bool"
  f_show :: "'f \<Rightarrow> string"
  f_sub :: "'f \<Rightarrow> 'f \<Rightarrow> 'f"
  f_of_u64 :: "u64 \<Rightarrow> 'f"

record publication =
  batches :: "string list"
  marker :: string
  records :: nat

definition MAX_ARCHIVE_BYTES :: nat where
  "MAX_ARCHIVE_BYTES = 32 * 1024 * 1024"

definition newline :: string where
  "newline = [CHR 0x0A]"

definition dquote :: char where
  "dquote = CHR 0x22"

definition backslash :: char where
  "backslash = CHR 0x5C"

text \<open>\<open>str::replace\<close> of one character.\<close>

definition replace_char :: "char \<Rightarrow> string \<Rightarrow> string \<Rightarrow> string" where
  "replace_char c by s = concat (map (\<lambda>x. if x = c then by else [x]) s)"

definition quoted :: "string \<Rightarrow> string" where
  "quoted v =
     dquote # replace_char dquote [backslash, dquote] (replace_char backslash [backslash, backslash] v)
       @ [dquote]"

text \<open>\<open>slice::chunks\<close>.\<close>

function chunks_of :: "nat \<Rightarrow> 'a list \<Rightarrow> 'a list list" where
  "chunks_of n xs = (if xs = [] \<or> n = 0 then [] else take n xs # chunks_of n (drop n xs))"
  by pat_completeness auto
termination
  by (relation "measure (\<lambda>(n, xs). length xs)") (auto simp: neq_Nil_conv)

declare chunks_of.simps [simp del]

fun status_name :: "source_status \<Rightarrow> string" where
  "status_name Collected = ''collected''"
| "status_name SourceUnsupported = ''unsupported''"
| "status_name SourceUnrecognized = ''unrecognized''"
| "status_name Failed = ''failed''"

definition show_bool :: "bool \<Rightarrow> string" where
  "show_bool b = (if b then ''true'' else ''false'')"

definition show_u64 :: "u64 \<Rightarrow> string" where
  "show_u64 n = show_nat (unat n)"

definition archive_lines :: "'f sink_externals \<Rightarrow> string \<Rightarrow> string \<Rightarrow> bytes \<Rightarrow> string list" where
  "archive_lines X tags timestamp body =
     map (\<lambda>(index, chunk).
            ''unifi_archive,'' @ tags @ '',part='' @ show_nat index @ '' data='' @ [dquote]
              @ sx_base64 X chunk @ [dquote] @ '' '' @ timestamp @ newline)
       (enumerate 0 (chunks_of 12000 body))"

definition client_line :: "'f sink_externals \<Rightarrow> string \<Rightarrow> string \<Rightarrow> client_row \<Rightarrow> string" where
  "client_line X tags timestamp c =
     (let prefix = ''unifi_client,'' @ tags @ '',client='' @ row_mac c @ '' rx_bytes=''
            @ show_u64 (rx_bytes (row_bytes c)) @ ''u,tx_bytes='' @ show_u64 (tx_bytes (row_bytes c)) @ ''u,'';
          line = prefix @ ''name_json='' @ quoted (sx_name_json X (row_name c)) @ '' '' @ timestamp @ newline
      in if length line \<le> 64 * 1024 then line
         else prefix @ ''name_in_archive=true '' @ timestamp @ newline)"

definition summary_head :: "traffic_snapshot \<Rightarrow> nat \<Rightarrow> string" where
  "summary_head s parts =
     ''start_ms='' @ show_u64 (snap_start_ms s) @ ''u,end_ms='' @ show_u64 (snap_end_ms s)
       @ ''u,collected='' @ show_bool (collected s) @ '',archive_parts='' @ show_nat parts
       @ ''u,schema=1i''
       @ concat (map (\<lambda>(name, src). '','' @ name @ ''_status='' @ [dquote] @ status_name (src_status src) @ [dquote])
           [(''activity'', snap_activity s), (''graph'', snap_graph s), (''wan'', snap_wan s)])"

text \<open>
  The client lines, the addition to the summary and the totals, when the activity source was
  collected. A report that no longer decodes, or no data at all, is an error.
\<close>

definition activity_part ::
  "'f sink_externals \<Rightarrow> string \<Rightarrow> string \<Rightarrow> traffic_snapshot
     \<Rightarrow> string + string list \<times> string \<times> byte_counts option" where
  "activity_part X tags timestamp s =
     (if src_status (snap_activity s) = Collected
      then (case src_data (snap_activity s) of
              None \<Rightarrow> Inl ''collected source has no data''
            | Some data \<Rightarrow>
                bind_res (sx_activity X data) (\<lambda>report.
                  case activity_totals report of
                    Inr (clients, tot, apps) \<Rightarrow>
                      Inr (map (client_line X tags timestamp) clients,
                           '',client_rx_bytes='' @ show_u64 (rx_bytes tot)
                             @ ''u,client_tx_bytes='' @ show_u64 (tx_bytes tot)
                             @ ''u,application_rx_bytes='' @ show_u64 (rx_bytes apps)
                             @ ''u,application_tx_bytes='' @ show_u64 (tx_bytes apps) @ ''u''
                             @ '',totals_status='' @ [dquote] @ ''calculated'' @ [dquote],
                           Some tot)
                  | Inl _ \<Rightarrow>
                      Inr ([], '',totals_status='' @ [dquote] @ ''invalid_counters'' @ [dquote], None)))
      else Inr ([], [], None))"

definition in_interval :: "traffic_snapshot \<Rightarrow> 'f site_wan_sample \<Rightarrow> bool" where
  "in_interval s row =
     (case sample_time row of Some t \<Rightarrow> snap_start_ms s \<le> t \<and> t < snap_end_ms s | None \<Rightarrow> False)"

text \<open>The site counters: only from a single usable sample that starts the interval.\<close>

definition wan_part ::
  "'f sink_externals \<Rightarrow> traffic_snapshot \<Rightarrow> byte_counts option \<Rightarrow> string + string" where
  "wan_part X s totals =
     (if src_status (snap_wan s) = Collected
      then (case src_data (snap_wan s) of
              None \<Rightarrow> Inl ''collected source has no data''
            | Some data \<Rightarrow>
                bind_res (sx_wan X data) (\<lambda>wan.
                  case filter (in_interval s) (wan_data wan) of
                    [row] \<Rightarrow>
                      (case (sample_rx_bytes row, sample_tx_bytes row) of
                         (Some rx, Some tx) \<Rightarrow>
                           (if sample_time row = Some (snap_start_ms s) \<and> f_finite X rx \<and> f_finite X tx
                               \<and> f_nonneg X rx \<and> f_nonneg X tx
                            then Inr ('',site_rx_bytes='' @ f_show X rx @ '',site_tx_bytes='' @ f_show X tx
                                   @ (case totals of
                                        None \<Rightarrow> []
                                      | Some tot \<Rightarrow>
                                          '',unmatched_rx_bytes='' @ f_show X (f_sub X rx (f_of_u64 X (rx_bytes tot)))
                                            @ '',unmatched_tx_bytes='' @ f_show X (f_sub X tx (f_of_u64 X (tx_bytes tot)))))
                            else Inr [])
                       | _ \<Rightarrow> Inr [])
                  | _ \<Rightarrow> Inr []))
      else Inr [])"

section \<open>Batches\<close>

text \<open>The loop over the lines: the batches closed so far and the one being filled.\<close>

fun batch_loop :: "string list \<Rightarrow> string \<Rightarrow> string list \<Rightarrow> string + string list" where
  "batch_loop closed_ones batch [] = Inr (if batch = [] then closed_ones else closed_ones @ [batch])"
| "batch_loop closed_ones batch (line # rest) =
     (if length line > 64 * 1024 then Inl ''collection line exceeds bound''
      else if length batch + length line > 256 * 1024
      then batch_loop (closed_ones @ [batch]) line rest
      else batch_loop closed_ones (batch @ line) rest)"

definition publication_build ::
  "'f sink_externals \<Rightarrow> traffic_snapshot \<Rightarrow> string \<Rightarrow> string + publication" where
  "publication_build X s identity =
     bind_res (sx_to_vec X s) (\<lambda>body.
       if length body > MAX_ARCHIVE_BYTES then Inl ''collection archive exceeds bound''
       else
         (let revision = sx_digest X body;
              tags = ''collector='' @ identity @ '',revision='' @ revision;
              timestamp = show_u64 (snap_start_ms s);
              archive = archive_lines X tags timestamp body
          in bind_res (activity_part X tags timestamp s) (\<lambda>(client_lines, more, totals).
             bind_res (wan_part X s totals) (\<lambda>site.
             let summary = summary_head s (length (chunks_of 12000 body)) @ more @ site;
                 lines = archive @ client_lines
                   @ [''unifi_interval,'' @ tags @ '' '' @ summary @ '' '' @ timestamp @ newline]
             in bind_res (batch_loop [] [] lines) (\<lambda>bs.
                if length bs > 256 then Inl ''collection publication exceeds request bound''
                else Inr \<lparr>batches = bs,
                          marker = ''unifi_publication,collector='' @ identity @ '' revision='' @ [dquote]
                            @ revision @ [dquote] @ '' '' @ timestamp @ newline,
                          records = length lines\<rparr>)))))"

section \<open>Writing\<close>

text \<open>
  One write: the destination's answer is a status or a transport failure; only 204 acknowledges.
  The bodies sent are kept in order.
\<close>

type_synonym 'e sink_send = "string \<Rightarrow> 'e \<Rightarrow> (string + nat) \<times> 'e"

definition sink_write ::
  "'e sink_send \<Rightarrow> string \<Rightarrow> 'e \<times> string list \<Rightarrow> (string + unit) \<times> 'e \<times> string list" where
  "sink_write send body w =
     (case send body (fst w) of
        (result, e) \<Rightarrow>
          (case result of
             Inl _ \<Rightarrow> Inl ''sink_transport''
           | Inr status \<Rightarrow> (if status = 204 then Inr () else Inl ''sink_rejected''),
           e, snd w @ [body]))"

fun write_all ::
  "'e sink_send \<Rightarrow> string list \<Rightarrow> 'e \<times> string list \<Rightarrow> (string + unit) \<times> 'e \<times> string list" where
  "write_all send [] w = (Inr (), w)"
| "write_all send (batch # rest) w =
     (case sink_write send batch w of
        (Inl e, w) \<Rightarrow> (Inl e, w)
      | (Inr _, w) \<Rightarrow> write_all send rest w)"

definition publish ::
  "'e sink_send \<Rightarrow> publication \<Rightarrow> 'e \<times> string list \<Rightarrow> (string + unit) \<times> 'e \<times> string list" where
  "publish send p w =
     (case write_all send (batches p) w of
        (Inl e, w) \<Rightarrow> (Inl e, w)
      | (Inr _, w) \<Rightarrow> sink_write send (marker p) w)"

section \<open>Properties\<close>

subsection \<open>Batches\<close>

lemma batch_loop_groups:
  assumes "batch_loop closed_ones (concat open_lines) lines = Inr bs"
    and "\<forall>l\<in>set (open_lines @ lines). l \<noteq> []" and "length (concat open_lines) \<le> 256 * 1024"
  shows "\<exists>groups. bs = closed_ones @ map concat groups \<and> concat groups = open_lines @ lines
           \<and> (\<forall>g\<in>set groups. length (concat g) \<le> 256 * 1024)"
  using assms
proof (induction lines arbitrary: closed_ones open_lines)
  case Nil
  show ?case
  proof (cases "concat open_lines = []")
    case True
    with Nil have "open_lines = []" by (cases open_lines) auto
    with Nil True show ?thesis by (intro exI [of _ "[]"]) auto
  next
    case False
    with Nil show ?thesis by (intro exI [of _ "[open_lines]"]) auto
  qed
next
  case (Cons line rest)
  then have short: "\<not> length line > 64 * 1024" by (auto split: if_splits)
  show ?case
  proof (cases "length (concat open_lines) + length line > 256 * 1024")
    case True
    with Cons.prems short have "batch_loop (closed_ones @ [concat open_lines]) (concat [line]) rest = Inr bs"
      by simp
    moreover have "\<forall>l\<in>set ([line] @ rest). l \<noteq> []" "length (concat [line]) \<le> 256 * 1024"
      using Cons.prems(2) short by auto
    ultimately obtain groups where
      "bs = (closed_ones @ [concat open_lines]) @ map concat groups" "concat groups = [line] @ rest"
      "\<forall>g\<in>set groups. length (concat g) \<le> 256 * 1024"
      using Cons.IH by blast
    with Cons.prems(3) show ?thesis by (intro exI [of _ "open_lines # groups"]) auto
  next
    case False
    with Cons.prems short have "batch_loop closed_ones (concat (open_lines @ [line])) rest = Inr bs"
      by simp
    moreover have "\<forall>l\<in>set ((open_lines @ [line]) @ rest). l \<noteq> []"
      "length (concat (open_lines @ [line])) \<le> 256 * 1024"
      using Cons.prems(2) False by auto
    ultimately obtain groups where
      "bs = closed_ones @ map concat groups" "concat groups = (open_lines @ [line]) @ rest"
      "\<forall>g\<in>set groups. length (concat g) \<le> 256 * 1024"
      using Cons.IH by blast
    then show ?thesis by (intro exI [of _ groups]) auto
  qed
qed

text \<open>
  C33. Batching keeps every line whole and in order: the batches are the concatenations of
  consecutive groups of lines, no line is lost, repeated or split between two requests, and no
  request is larger than 256 KiB.
\<close>

theorem batches_keep_lines_whole:
  assumes "batch_loop [] [] lines = Inr bs" and "\<forall>l\<in>set lines. l \<noteq> []"
  shows "\<exists>groups. bs = map concat groups \<and> concat groups = lines
           \<and> (\<forall>g\<in>set groups. length (concat g) \<le> 256 * 1024)"
  using batch_loop_groups [of "[]" "[]" lines bs] assms by simp

theorem batches_keep_lines_whole_witness:
  "\<exists>groups. [''abc''] = map concat groups \<and> concat groups = [''a'', ''bc'']"
proof -
  have 1: "batch_loop [] [] [''a'', ''bc''] = Inr [''abc'']" by simp
  have 2: "\<forall>l\<in>set [''a'', ''bc'']. l \<noteq> []" by simp
  from batches_keep_lines_whole [OF 1 2] show ?thesis
    by (elim exE conjE) (intro exI conjI)
qed

subsection \<open>Order of the writes\<close>

text \<open>The destination's answers to bodies sent one after the other, whether or not a writer stops.\<close>

fun answers :: "'e sink_send \<Rightarrow> string list \<Rightarrow> 'e \<Rightarrow> (string + nat) list" where
  "answers send [] e = []"
| "answers send (body # rest) e = (case send body e of (r, e') \<Rightarrow> r # answers send rest e')"

lemma answers_append:
  "\<exists>e'. answers send (xs @ ys) e = answers send xs e @ answers send ys e'"
  by (induction send xs e rule: answers.induct) (auto split: prod.split)

lemma length_answers [simp]: "length (answers send bodies e) = length bodies"
  by (induction send bodies e rule: answers.induct) (auto split: prod.split)

text \<open>The writes go on exactly as long as the destination acknowledges.\<close>

lemma write_all_exact:
  "snd (snd (write_all send bs w)) = snd w @ take (Suc (length (takeWhile ((=) (Inr 204)) (answers send bs (fst w))))) bs"
  "fst (write_all send bs w) = Inr () \<longleftrightarrow> list_all ((=) (Inr 204)) (answers send bs (fst w))"
proof (induction send bs w rule: write_all.induct)
  case (2 send batch rest w)
  obtain r e where ans: "send batch (fst w) = (r, e)" by (metis surj_pair)
  have wr: "sink_write send batch w = (if r = Inr 204 then Inr () else
      Inl (case r of Inl _ \<Rightarrow> ''sink_transport'' | Inr _ \<Rightarrow> ''sink_rejected''), e, snd w @ [batch])"
    by (simp add: sink_write_def ans split: sum.split)
  {
    case 1
    show ?case
    proof (cases "r = Inr 204")
      case True
      then have ok: "sink_write send batch w = (Inr (), e, snd w @ [batch])" by (simp add: wr)
      from "2.IH"(1) [OF ok [symmetric] refl] True ok ans show ?thesis by simp
    qed (auto simp: wr ans)
  next
    case 2
    show ?case
    proof (cases "r = Inr 204")
      case True
      then have ok: "sink_write send batch w = (Inr (), e, snd w @ [batch])" by (simp add: wr)
      from "2.IH"(2) [OF ok [symmetric] refl] True ok ans show ?thesis by simp
    qed (auto simp: wr ans)
  }
qed simp_all

lemma publish_writes_all: "publish send p w = write_all send (batches p @ [marker p]) w"
proof -
  have "write_all send (xs @ [y]) w =
      (case write_all send xs w of (Inl e, w) \<Rightarrow> (Inl e, w) | (Inr _, w) \<Rightarrow> sink_write send y w)" for xs y
    by (induction send xs w rule: write_all.induct) (auto split: prod.split sum.split)
  then show ?thesis by (simp add: publish_def)
qed

lemma takeWhile_shorter: "\<not> list_all P xs \<Longrightarrow> length (takeWhile P (xs @ ys)) < length xs"
  by (induction xs) auto

text \<open>
  C34. The publication selector is written last and only when every record before it was
  acknowledged. What the destination receives are the batches and then the marker, up to and
  including the first body it does not answer with 204; the marker is among them only when every
  batch was answered with 204; and a publication is reported as successful exactly when every
  body, the marker too, was.
\<close>

theorem marker_is_written_last:
  "let acked = length (takeWhile ((=) (Inr 204)) (answers send (batches p @ [marker p]) (fst w)))
   in snd (snd (publish send p w)) = snd w @ take (Suc acked) (batches p @ [marker p])
     \<and> (acked < length (batches p) \<or> list_all ((=) (Inr 204)) (answers send (batches p) (fst w)))
     \<and> (fst (publish send p w) = Inr ()
          \<longleftrightarrow> list_all ((=) (Inr 204)) (answers send (batches p @ [marker p]) (fst w)))"
proof -
  let ?ok = "(=) (Inr 204)" and ?bodies = "batches p @ [marker p]"
  have split: "\<exists>e'. answers send ?bodies (fst w) = answers send (batches p) (fst w) @ answers send [marker p] e'"
    by (rule answers_append)
  have "length (takeWhile ?ok (answers send ?bodies (fst w))) < length (batches p)"
    if "\<not> list_all ?ok (answers send (batches p) (fst w))"
    using split takeWhile_shorter [OF that] by auto
  then show ?thesis
    unfolding Let_def publish_writes_all by (intro conjI write_all_exact) blast
qed

subsection \<open>Quoted fields\<close>

text \<open>How the destination reads a quoted field: a backslash takes the next byte literally.\<close>

fun unquote_tail :: "string \<Rightarrow> string option" where
  "unquote_tail [] = None"
| "unquote_tail (c # cs) =
     (if c = dquote then (if cs = [] then Some [] else None)
      else if c = backslash
      then (case cs of [] \<Rightarrow> None | d # ds \<Rightarrow> map_option (Cons d) (unquote_tail ds))
      else map_option (Cons c) (unquote_tail cs))"

fun unquote :: "string \<Rightarrow> string option" where
  "unquote [] = None"
| "unquote (c # cs) = (if c = dquote then unquote_tail cs else None)"

lemma dquote_not_backslash [simp]: "dquote \<noteq> backslash" "backslash \<noteq> dquote"
  by (simp_all add: dquote_def backslash_def)

lemma unquote_tail_escaped:
  "unquote_tail (replace_char dquote [backslash, dquote]
       (replace_char backslash [backslash, backslash] v) @ [dquote]) = Some v"
proof (induction v)
  case (Cons c v)
  then show ?case by (auto simp: replace_char_def)
qed (simp add: replace_char_def)

text \<open>
  A client name written as a quoted field reads back as itself, whatever bytes it holds:
  quotes and backslashes in it can neither end the field early nor change it.
\<close>

theorem quoted_round_trip: "unquote (quoted v) = Some v"
  by (simp add: quoted_def unquote_tail_escaped)

subsection \<open>Archive parts\<close>

lemma concat_chunks_of: "0 < n \<Longrightarrow> concat (chunks_of n xs) = xs"
proof (induction n xs rule: chunks_of.induct)
  case (1 n xs)
  then show ?case by (subst chunks_of.simps) auto
qed

lemma chunks_of_length: "c \<in> set (chunks_of n xs) \<Longrightarrow> c \<noteq> [] \<and> length c \<le> n"
proof (induction n xs rule: chunks_of.induct)
  case (1 n xs)
  show ?case
  proof (cases "xs = [] \<or> n = 0")
    case True
    with "1.prems" show ?thesis by (subst (asm) chunks_of.simps) simp
  next
    case False
    with "1.prems" have "c = take n xs \<or> c \<in> set (chunks_of n (drop n xs))"
      by (subst (asm) chunks_of.simps) simp
    with "1.IH" [OF False] False show ?thesis by auto
  qed
qed

end
