(* ===== verification/Collector.thy ===== *)
theory Collector
  imports Sink
begin

text \<open>
  The optional collector (\<open>crates/unifi-server/src/collector.rs\<close> and
  \<open>collector/config.rs\<close>): its settings, its status, the choice of the hours to collect, and the
  cycle that fetches a report, stores it, publishes it and only then forgets it. The file system
  may fail before or after an operation took effect; the controller read is the traffic collection
  of \<open>Traffic\<close>, passed as a parameter so that the worker's own state stays apart. Unsigned 64-bit
  times are naturals; every subtraction that saturates in the code is the truncated one.
\<close>

section \<open>Settings\<close>

record sink_url =
  su_scheme :: string
  su_has_host :: bool
  su_username :: string
  su_password :: "string option"
  su_query :: "string option"
  su_fragment :: "string option"
  su_path :: string

record collection_settings =
  url :: sink_url
  org :: string
  bucket :: string
  token :: string
  directory :: string
  identity :: string
  cadence :: duration
  delay_ms :: nat
  history_hours :: nat
  correction_hours :: nat
  intervals_per_cycle :: nat

type_synonym environment = "string \<Rightarrow> string option"

definition required :: "environment \<Rightarrow> string \<Rightarrow> string + string" where
  "required getenv name =
     bind_res (ok_or (''missing '' @ name) (getenv name)) (\<lambda>v.
       if v \<noteq> [] \<and> length v \<le> 4096 \<and> \<not> list_ex is_control (chars v) then Inr v
       else Inl (''invalid '' @ name))"

definition number :: "environment \<Rightarrow> string \<Rightarrow> nat \<Rightarrow> nat \<Rightarrow> nat \<Rightarrow> string + nat" where
  "number getenv name dflt mn mx =
     bind_res (case getenv name of
                 None \<Rightarrow> Inr dflt
               | Some v \<Rightarrow> ok_or (''invalid '' @ name) (parse_unsigned u64_max v)) (\<lambda>v.
       if mn \<le> v \<and> v \<le> mx then Inr v else Inl (''out of range '' @ name))"

definition origin_url :: "sink_url \<Rightarrow> bool" where
  "origin_url u \<longleftrightarrow>
     (su_scheme u = ''http'' \<or> su_scheme u = ''https'') \<and> su_has_host u \<and> su_username u = []
     \<and> su_password u = None \<and> su_query u = None \<and> su_fragment u = None \<and> su_path u = ''/''"

definition identity_byte :: "char \<Rightarrow> bool" where
  "identity_byte b \<longleftrightarrow> is_ascii_alphanumeric b \<or> b \<in> set ''-_.''"

definition collection_read ::
  "(string \<Rightarrow> sink_url option) \<Rightarrow> environment \<Rightarrow> string + collection_settings option" where
  "collection_read parse_url getenv =
     (case getenv ''UNIFI_MCP_COLLECTION_ENABLED'' of
        None \<Rightarrow> Inr None
      | Some enabled \<Rightarrow>
          (if enabled = ''false'' then Inr None
           else if enabled \<noteq> ''true'' then Inl ''UNIFI_MCP_COLLECTION_ENABLED must be true or false''
           else
             bind_res (required getenv ''UNIFI_MCP_COLLECTION_INFLUX_URL'') (\<lambda>raw_url.
             bind_res (ok_or ''invalid collection URL'' (parse_url raw_url)) (\<lambda>u.
             if \<not> origin_url u
             then Inl ''collection URL must be an HTTP(S) origin without credentials''
             else
             bind_res (required getenv ''UNIFI_MCP_COLLECTION_ID'') (\<lambda>ident.
             if \<not> (length ident \<le> 128 \<and> list_all identity_byte ident)
             then Inl ''collection ID must contain only letters, digits, dot, dash, underscore''
             else
             bind_res (required getenv ''UNIFI_MCP_COLLECTION_INFLUX_TOKEN'') (\<lambda>tok.
             if \<not> list_all is_ascii_graphic tok then Inl ''invalid collection token''
             else
             bind_res (number getenv ''UNIFI_MCP_COLLECTION_HISTORY_HOURS'' 24 1 168) (\<lambda>history.
             bind_res (number getenv ''UNIFI_MCP_COLLECTION_CORRECTION_HOURS'' 3 1 168) (\<lambda>correction.
             if \<not> correction \<le> history then Inl ''correction window exceeds history window''
             else
             bind_res (required getenv ''UNIFI_MCP_COLLECTION_INFLUX_ORG'') (\<lambda>o'.
             bind_res (required getenv ''UNIFI_MCP_COLLECTION_INFLUX_BUCKET'') (\<lambda>b.
             bind_res (required getenv ''UNIFI_MCP_COLLECTION_STATE_DIR'') (\<lambda>dir.
             bind_res (number getenv ''UNIFI_MCP_COLLECTION_CADENCE_SECONDS'' 300 60 3600) (\<lambda>cad.
             bind_res (number getenv ''UNIFI_MCP_COLLECTION_DELAY_SECONDS'' 600 0 86400) (\<lambda>delay.
             bind_res (number getenv ''UNIFI_MCP_COLLECTION_INTERVALS_PER_CYCLE'' 4 1 24) (\<lambda>per.
             Inr (Some \<lparr>url = u, org = o', bucket = b, token = tok, directory = dir,
                        identity = ident, cadence = from_secs cad, delay_ms = delay * 1000,
                        history_hours = history, correction_hours = correction,
                        intervals_per_cycle = per\<rparr>)))))))))))))))"

section \<open>Status and schedule\<close>

record status =
  binding :: string
  last_collected_interval :: "nat option"
  last_published_interval :: "nat option"
  updated_ms :: nat
  lag_ms :: "nat option"
  status_records :: nat
  status_error :: "string option"
  sink_available :: "bool option"
  intervals :: "(nat \<times> bool) list"
  expired_gaps :: nat
  cursor :: "nat option"

definition HOUR :: nat where
  "HOUR = 3600000"

text \<open>\<open>(start..end).step_by(HOUR)\<close>.\<close>

definition hours :: "nat \<Rightarrow> nat \<Rightarrow> nat list" where
  "hours start stop = map (\<lambda>i. start + i * HOUR) [0..<(stop - start + HOUR - 1) div HOUR]"

definition or_insert :: "nat \<Rightarrow> (nat \<times> bool) list \<Rightarrow> (nat \<times> bool) list" where
  "or_insert t m = (if get t m = None then map_insert t False m else m)"

text \<open>The window of hours that can be collected at a given time.\<close>

definition window_end :: "collection_settings \<Rightarrow> nat \<Rightarrow> nat" where
  "window_end st now = (now - delay_ms st) div HOUR * HOUR"

definition window_start :: "collection_settings \<Rightarrow> nat \<Rightarrow> nat" where
  "window_start st now = window_end st now - history_hours st * HOUR"

definition skipped_hours :: "nat \<Rightarrow> (nat \<times> bool) list \<Rightarrow> nat" where
  "skipped_hours start m =
     (if m = [] then 0 else (start - saturating_add (fst (last m)) HOUR) div HOUR)"

definition eligible :: "collection_settings \<Rightarrow> nat \<Rightarrow> (nat \<times> bool) list \<Rightarrow> nat list" where
  "eligible st stop m =
     map fst (filter (\<lambda>(t, complete). \<not> complete \<or> stop - correction_hours st * HOUR \<le> t) m)"

text \<open>\<open>partition_point\<close> on a sorted list and \<open>rotate_left\<close>.\<close>

definition rotate_after :: "nat option \<Rightarrow> nat list \<Rightarrow> nat list" where
  "rotate_after cur ts =
     (case cur of
        None \<Rightarrow> ts
      | Some c \<Rightarrow> (let split = length (takeWhile (\<lambda>t. t \<le> c) ts) in drop split ts @ take split ts))"

definition schedule :: "collection_settings \<Rightarrow> nat \<Rightarrow> status \<Rightarrow> nat list \<times> status" where
  "schedule st now s =
     (let stop = window_end st now;
          start = window_start st now;
          gaps = expired_gaps s + skipped_hours start (intervals s)
                 + length (filter (\<lambda>(t, complete). t < start \<and> \<not> complete) (intervals s));
          kept = filter (\<lambda>(t, _). start \<le> t \<and> t < stop) (intervals s);
          ints = fold or_insert (hours start stop) kept
      in (take (intervals_per_cycle st) (rotate_after (cursor s) (eligible st stop ints)),
          s\<lparr>expired_gaps := gaps, intervals := ints\<rparr>))"

section \<open>Durable state\<close>

text \<open>A file operation takes effect, or fails before or after it did.\<close>

datatype fs_outcome = FsDone | FailedBefore | FailedAfter

text \<open>What the worker did to the outside, in order.\<close>

datatype collector_event = Fetched nat | Stored | Acknowledged | Dropped

record ('e, 'f) collector_externals = "'f sink_externals" +
  cx_send :: "'e sink_send"
  cx_fs :: "'e \<Rightarrow> fs_outcome \<times> 'e"
  cx_now_ms :: "'e \<Rightarrow> nat option"
  cx_parse :: "bytes \<Rightarrow> traffic_snapshot option"
  cx_collect :: "activity_window \<Rightarrow> 'e \<Rightarrow> (api_error + traffic_snapshot) \<times> 'e"
  cx_pause :: "'e \<Rightarrow> 'e"

record 'e worker =
  wenv :: 'e
  status :: status
  disk_status :: "status option"
  pending :: "bytes option"
  sent :: "string list"
  history :: "collector_event list"

abbreviation modify_status :: "(status \<Rightarrow> status) \<Rightarrow> 'e worker \<Rightarrow> 'e worker" where
  "modify_status f w \<equiv> w\<lparr>status := f (status w)\<rparr>"

definition fs_step ::
  "('e, 'f) collector_externals \<Rightarrow> string \<Rightarrow> ('e worker \<Rightarrow> 'e worker) \<Rightarrow> 'e worker
     \<Rightarrow> (string + unit) \<times> 'e worker" where
  "fs_step X err act w =
     (case cx_fs X (wenv w) of
        (outcome, e) \<Rightarrow>
          (let w = w\<lparr>wenv := e\<rparr>
           in case outcome of
                FsDone \<Rightarrow> (Inr (), act w)
              | FailedBefore \<Rightarrow> (Inl err, w)
              | FailedAfter \<Rightarrow> (Inl err, act w)))"

definition save :: "('e, 'f) collector_externals \<Rightarrow> 'e worker \<Rightarrow> (string + unit) \<times> 'e worker" where
  "save X = fs_step X ''collection_state_write'' (\<lambda>w. w\<lparr>disk_status := Some (status w)\<rparr>)"

definition write_pending ::
  "('e, 'f) collector_externals \<Rightarrow> bytes \<Rightarrow> 'e worker \<Rightarrow> (string + unit) \<times> 'e worker" where
  "write_pending X body =
     fs_step X ''collection_state_write''
       (\<lambda>w. w\<lparr>pending := Some body, history := history w @ [Stored]\<rparr>)"

definition remove_pending ::
  "('e, 'f) collector_externals \<Rightarrow> 'e worker \<Rightarrow> (string + unit) \<times> 'e worker" where
  "remove_pending X =
     fs_step X ''collection_state_write''
       (\<lambda>w. w\<lparr>pending := None, history := history w @ [Dropped]\<rparr>)"

definition read_pending ::
  "('e, 'f) collector_externals \<Rightarrow> 'e worker \<Rightarrow> (string + bytes option) \<times> 'e worker" where
  "read_pending X w =
     (case fs_step X ''collection_state_read'' (\<lambda>w. w) w of
        (Inl e, w) \<Rightarrow> (Inl e, w)
      | (Inr _, w) \<Rightarrow>
          (case pending w of
             None \<Rightarrow> (Inr None, w)
           | Some body \<Rightarrow>
               (if length body \<le> MAX_ARCHIVE_BYTES then (Inr (Some body), w)
                else (Inl ''collection_state_bound'', w))))"

section \<open>Publishing\<close>

definition max_interval :: "nat option \<Rightarrow> nat \<Rightarrow> nat option" where
  "max_interval prev t = Some (max (case prev of None \<Rightarrow> 0 | Some p \<Rightarrow> p) t)"

fun trim_intervals :: "(nat \<times> bool) list \<Rightarrow> nat \<Rightarrow> (nat \<times> bool) list \<times> nat" where
  "trim_intervals [] gaps = ([], gaps)"
| "trim_intervals ((t, complete) # rest) gaps =
     (if length ((t, complete) # rest) > 168
      then trim_intervals rest (if complete then gaps else gaps + 1)
      else ((t, complete) # rest, gaps))"

definition published :: "traffic_snapshot \<Rightarrow> nat \<Rightarrow> status \<Rightarrow> status" where
  "published snap n s =
     (let t = unat (snap_start_ms snap);
          (ints, gaps) = trim_intervals (map_insert t (collected snap) (intervals s)) (expired_gaps s)
      in s\<lparr>sink_available := Some True,
           last_published_interval := max_interval (last_published_interval s) t,
           status_records := n,
           last_collected_interval :=
             (if collected snap then max_interval (last_collected_interval s) t
              else last_collected_interval s),
           intervals := ints, expired_gaps := gaps, cursor := Some t,
           status_error := (if collected snap then None else Some ''source_incomplete'')\<rparr>)"

definition whole_hour :: "traffic_snapshot \<Rightarrow> bool" where
  "whole_hour snap \<longleftrightarrow>
     checked_add (snap_start_ms snap) (of_nat HOUR) = Some (snap_end_ms snap)
     \<and> unat (snap_start_ms snap) mod HOUR = 0"

definition publish_pending ::
  "('e, 'f) collector_externals \<Rightarrow> collection_settings \<Rightarrow> 'e worker \<Rightarrow> (string + unit) \<times> 'e worker" where
  "publish_pending X st =
     bind_io (read_pending X) (\<lambda>stored w.
       case stored of
         None \<Rightarrow> (Inr (), w)
       | Some body \<Rightarrow>
           (case cx_parse X body of
              None \<Rightarrow> (Inl ''invalid pending collection'', w)
            | Some snap \<Rightarrow>
                (if \<not> whole_hour snap then (Inl ''invalid pending interval'', w)
                 else (case publication_build (sink_externals.truncate X) snap (identity st) of
                         Inl e \<Rightarrow> (Inl e, w)
                       | Inr p \<Rightarrow>
                           (case publish (cx_send X) p (wenv w, sent w) of
                              (result, e, log) \<Rightarrow>
                                (let w = w\<lparr>wenv := e, sent := log\<rparr>
                                 in case result of
                                      Inl _ \<Rightarrow>
                                        (Inl ''publication_failed'',
                                         modify_status (\<lambda>s. s\<lparr>sink_available := Some False\<rparr>) w)
                                    | Inr _ \<Rightarrow>
                                        bind_io (save X) (\<lambda>_. remove_pending X)
                                          (modify_status (published snap (records p))
                                            (w\<lparr>history := history w @ [Acknowledged]\<rparr>))))))))"

section \<open>The cycle\<close>

definition collect_one ::
  "('e, 'f) collector_externals \<Rightarrow> collection_settings \<Rightarrow> nat \<Rightarrow> 'e worker
     \<Rightarrow> (string + unit) \<times> 'e worker" where
  "collect_one X st start w =
     (case activity_window_new (of_nat start) (of_nat (start + HOUR)) of
        Inl e \<Rightarrow> (Inl (render e), w)
      | Inr win \<Rightarrow>
          (case cx_collect X win (wenv w) of
             (result, e) \<Rightarrow>
               (let w = w\<lparr>wenv := e, history := history w @ [Fetched start]\<rparr>
                in case result of
                     Inl err \<Rightarrow> (Inl (render err), w)
                   | Inr snap \<Rightarrow>
                       (case publication_build (sink_externals.truncate X) snap (identity st) of
                          Inl err \<Rightarrow> (Inl err, w)
                        | Inr _ \<Rightarrow>
                            (case sx_to_vec X snap of
                               Inl err \<Rightarrow> (Inl err, w)
                             | Inr body \<Rightarrow>
                                 bind_io (write_pending X body) (\<lambda>_ w.
                                 bind_io (save X) (\<lambda>_.
                                 bind_io (publish_pending X st) (\<lambda>_ w.
                                   (Inr (), w\<lparr>wenv := cx_pause X (wenv w)\<rparr>)))
                                   (if collected snap
                                    then modify_status (\<lambda>s. s\<lparr>last_collected_interval :=
                                           max_interval (last_collected_interval s) start\<rparr>) w
                                    else w)) w)))))"

fun collect_each ::
  "('e, 'f) collector_externals \<Rightarrow> collection_settings \<Rightarrow> nat list \<Rightarrow> 'e worker
     \<Rightarrow> (string + unit) \<times> 'e worker" where
  "collect_each X st [] w = (Inr (), w)"
| "collect_each X st (start # rest) w =
     bind_io (collect_one X st start) (\<lambda>_. collect_each X st rest) w"

definition cycle ::
  "('e, 'f) collector_externals \<Rightarrow> collection_settings \<Rightarrow> 'e worker \<Rightarrow> (string + unit) \<times> 'e worker" where
  "cycle X st =
     bind_io (publish_pending X st) (\<lambda>_ w.
       case cx_now_ms X (wenv w) of
         None \<Rightarrow> (Inl ''clock before the epoch'', w)
       | Some now \<Rightarrow>
           (case schedule st now (status w) of
              (candidates, s) \<Rightarrow>
                bind_io (save X) (\<lambda>_. collect_each X st candidates) (w\<lparr>status := s\<rparr>)))"

text \<open>What the worker's loop records after a cycle; a cycle cut off by its time limit too.\<close>

datatype cycle_outcome = CycleOk | CycleFailed | CycleTimeout

definition after_cycle ::
  "('e, 'f) collector_externals \<Rightarrow> cycle_outcome \<Rightarrow> 'e worker \<Rightarrow> 'e worker" where
  "after_cycle X outcome w =
     (let s = status w;
          s = (case outcome of
                 CycleOk \<Rightarrow> s
               | CycleFailed \<Rightarrow> s\<lparr>status_error := Some ''collection_or_publication_failed''\<rparr>
               | CycleTimeout \<Rightarrow> s\<lparr>status_error := Some ''cycle_timeout''\<rparr>);
          s = s\<lparr>updated_ms := (case cx_now_ms X (wenv w) of None \<Rightarrow> updated_ms s | Some n \<Rightarrow> n)\<rparr>;
          s = s\<lparr>lag_ms := map_option (\<lambda>t. updated_ms s - (t + HOUR)) (last_published_interval s)\<rparr>
      in snd (save X (w\<lparr>status := s\<rparr>)))"

text \<open>One turn of the worker's loop, for a cycle that ran to its end.\<close>

definition worker_round ::
  "('e, 'f) collector_externals \<Rightarrow> collection_settings \<Rightarrow> 'e worker \<Rightarrow> 'e worker" where
  "worker_round X st w =
     (case cycle X st w of
        (r, w) \<Rightarrow> after_cycle X (case r of Inr _ \<Rightarrow> CycleOk | Inl _ \<Rightarrow> CycleFailed) w)"

section \<open>Properties\<close>

subsection \<open>The schedule\<close>

lemma HOUR_pos [simp]: "0 < HOUR"
  by (simp add: HOUR_def)

lemma hours_sorted: "sorted_wrt (<) (hours start stop)"
  by (simp add: hours_def sorted_wrt_map)

lemma hour_count: "(b * HOUR - a * HOUR + HOUR - 1) div HOUR = b - a"
proof -
  have "b * HOUR - a * HOUR + HOUR - 1 = (HOUR - 1) + (b - a) * HOUR"
    using HOUR_pos unfolding diff_mult_distrib by linarith
  then show ?thesis by (simp add: HOUR_def)
qed

lemma set_hours:
  assumes "HOUR dvd start" and "HOUR dvd stop"
  shows "set (hours start stop) = {t. start \<le> t \<and> t < stop \<and> HOUR dvd t}"
proof (intro set_eqI iffI)
  fix t
  assume "t \<in> set (hours start stop)"
  then obtain i where i: "i < (stop - start + HOUR - 1) div HOUR" "t = start + i * HOUR"
    by (auto simp: hours_def)
  obtain a b where ab: "start = a * HOUR" "stop = b * HOUR" using assms by (metis dvdE mult.commute)
  have "(stop - start + HOUR - 1) div HOUR = b - a"
    unfolding ab by (rule hour_count)
  with i ab have "a + i < b" "t = (a + i) * HOUR" by (auto simp: algebra_simps)
  with ab show "t \<in> {t. start \<le> t \<and> t < stop \<and> HOUR dvd t}" by simp
next
  fix t
  assume "t \<in> {t. start \<le> t \<and> t < stop \<and> HOUR dvd t}"
  then have t: "start \<le> t" "t < stop" "HOUR dvd t" by simp_all
  from t(3) obtain c where c: "t = c * HOUR" by (metis dvdE mult.commute)
  obtain a b where ab: "start = a * HOUR" "stop = b * HOUR" using assms by (metis dvdE mult.commute)
  have "(stop - start + HOUR - 1) div HOUR = b - a"
    unfolding ab by (rule hour_count)
  moreover from c t ab have "a \<le> c" "c < b" by simp_all
  moreover from this c ab have "t = start + (c - a) * HOUR" by (simp add: diff_mult_distrib)
  ultimately show "t \<in> set (hours start stop)"
    unfolding hours_def by (auto intro!: image_eqI [of _ _ "c - a"])
qed

lemma or_insert_ordered: "ordered_map m \<Longrightarrow> ordered_map (or_insert t m)"
  by (simp add: or_insert_def ordered_map_insert)

lemma get_or_insert:
  "ordered_map m \<Longrightarrow>
     get k (or_insert t m) = (case get k m of Some b \<Rightarrow> Some b | None \<Rightarrow> if k = t then Some False else None)"
  by (auto simp: or_insert_def get_map_insert simp del: get_eq_None split: option.split)

lemma fold_or_insert:
  assumes "ordered_map m"
  shows "ordered_map (fold or_insert ts m)
    \<and> get k (fold or_insert ts m) =
        (case get k m of Some b \<Rightarrow> Some b | None \<Rightarrow> if k \<in> set ts then Some False else None)"
  using assms
proof (induction ts arbitrary: m)
  case (Cons t ts)
  from Cons.IH [OF or_insert_ordered [OF Cons.prems]] get_or_insert [OF Cons.prems, of k t]
  show ?case by (cases "get k m") (simp_all del: get_eq_None)
qed (auto split: option.split)

lemma sorted_same_set:
  fixes xs ys :: "nat list"
  assumes "sorted_wrt (<) xs" and "sorted_wrt (<) ys" and "set xs = set ys"
  shows "xs = ys"
  using assms by (simp add: strict_sorted_iff sorted_distinct_set_unique)

lemma rotate_after_set: "set (rotate_after cur ts) = set ts"
proof (cases cur)
  case (Some c)
  have "set (drop n ts) \<union> set (take n ts) = set ts" for n
    by (metis append_take_drop_id set_append sup_commute)
  with Some show ?thesis by (simp add: rotate_after_def Let_def)
qed (simp add: rotate_after_def)

lemma rotate_after_distinct: "distinct ts \<Longrightarrow> distinct (rotate_after cur ts)"
proof (cases cur)
  case (Some c)
  assume "distinct ts"
  then have "distinct (take n ts @ drop n ts)" for n by simp
  then have "distinct (drop n ts @ take n ts)" for n
    by (metis distinct_append inf_commute)
  with Some show ?thesis by (simp only: rotate_after_def Let_def option.case)
qed (simp add: rotate_after_def)

lemma window_aligned: "HOUR dvd window_end st now" "HOUR dvd window_start st now"
  by (simp_all add: window_end_def window_start_def dvd_diff_nat)

lemma schedule_intervals:
  assumes "ordered_map (intervals s)" and "\<forall>t\<in>fst ` set (intervals s). HOUR dvd t"
    and ints_def: "ints = intervals (snd (schedule st now s))"
  shows "ordered_map ints \<and> map fst ints = hours (window_start st now) (window_end st now)
         \<and> (\<forall>t\<in>fst ` set ints. get t ints = Some (get t (intervals s) = Some True))"
proof -
  let ?a = "window_start st now" and ?b = "window_end st now"
  let ?kept = "filter (\<lambda>(t, _). ?a \<le> t \<and> t < ?b) (intervals s)"
  have ints: "ints = fold or_insert (hours ?a ?b) ?kept"
    by (simp add: ints_def schedule_def Let_def)
  have kept: "ordered_map ?kept" using assms(1) by (rule ordered_map_filter)
  have getk: "get t ?kept = (if ?a \<le> t \<and> t < ?b then get t (intervals s) else None)" for t
    using get_filter_key [OF assms(1), of t "\<lambda>t. ?a \<le> t \<and> t < ?b"] .
  have ord: "ordered_map ints" using fold_or_insert [OF kept] ints by blast
  have get_ints: "get t ints = (case get t ?kept of Some b \<Rightarrow> Some b
      | None \<Rightarrow> if t \<in> set (hours ?a ?b) then Some False else None)" for t
    using fold_or_insert [OF kept, of "hours ?a ?b" t] ints by blast
  have hrs: "set (hours ?a ?b) = {t. ?a \<le> t \<and> t < ?b \<and> HOUR dvd t}"
    using window_aligned by (intro set_hours)
  have key: "t \<in> fst ` set m \<longleftrightarrow> get t m \<noteq> None" for t and m :: "(nat \<times> bool) list"
    by simp
  have "set (map fst ints) = set (hours ?a ?b)"
  proof (intro set_eqI)
    fix t
    have "t \<in> set (map fst ints) \<longleftrightarrow> get t ints \<noteq> None" using key [of t ints] by simp
    also have "\<dots> \<longleftrightarrow> t \<in> set (hours ?a ?b)"
    proof (cases "get t ?kept")
      case None
      then show ?thesis by (auto simp: get_ints simp del: get_eq_None)
    next
      case (Some b)
      then have "?a \<le> t" "t < ?b" "get t (intervals s) \<noteq> None"
        by (auto simp: getk simp del: get_eq_None split: if_splits)
      with assms(2) key [of t "intervals s"] have "t \<in> set (hours ?a ?b)" unfolding hrs by blast
      with Some show ?thesis by (simp add: get_ints del: get_eq_None)
    qed
    finally show "t \<in> set (map fst ints) \<longleftrightarrow> t \<in> set (hours ?a ?b)" .
  qed
  then have keys: "map fst ints = hours ?a ?b"
    using ord hours_sorted unfolding ordered_map_def by (intro sorted_same_set)
  have "get t ints = Some (get t (intervals s) = Some True)" if "t \<in> fst ` set ints" for t
  proof -
    from that keys have "t \<in> set (hours ?a ?b)" by (metis list.set_map)
    then have "?a \<le> t" "t < ?b" "t \<in> set (hours ?a ?b)" by (simp_all add: hrs)
    then show ?thesis
      by (simp add: get_ints getk del: get_eq_None split: option.split)
  qed
  with ord keys show ?thesis by blast
qed

lemma aligned_less:
  assumes "HOUR dvd t" and "t < window_end st now"
  shows "t + HOUR + delay_ms st \<le> now"
proof -
  obtain a where a: "t = a * HOUR" using assms(1) by (metis dvdE mult.commute)
  let ?b = "(now - delay_ms st) div HOUR"
  from assms(2) a have "a < ?b" by (simp add: window_end_def)
  then have "(a + 1) * HOUR \<le> ?b * HOUR" by (intro mult_le_mono1) simp
  also have "\<dots> \<le> now - delay_ms st" by simp
  finally have "t + HOUR \<le> now - delay_ms st" using a by simp
  with HOUR_pos show ?thesis by linarith
qed

lemma eligible_member:
  assumes "ordered_map m" and "t \<in> set (eligible st stop m)"
  shows "t \<in> fst ` set m \<and> (get t m = Some False \<or> stop \<le> t + correction_hours st * HOUR)"
proof -
  from assms(2) obtain c where c: "(t, c) \<in> set m" "\<not> c \<or> stop - correction_hours st * HOUR \<le> t"
    by (auto simp: eligible_def)
  from c(1) have "t \<in> fst ` set m" by (rule rev_image_eqI) simp
  with get_in_set [OF ordered_map_distinct [OF assms(1)] c(1)] c show ?thesis by auto
qed

lemma eligible_distinct: "ordered_map m \<Longrightarrow> distinct (eligible st stop m)"
  unfolding eligible_def
  using ordered_map_filter [THEN ordered_map_distinct] by blast

text \<open>
  C31. After scheduling, the collector tracks exactly the whole hours of its recovery window, with
  what it already knew about each, and chooses at most the configured number of them, each once:
  only hours that ended at least the configured delay ago, and only those still missing or inside
  the correction window.
\<close>

theorem schedule_sound:
  assumes "ordered_map (intervals s)" and "\<forall>t\<in>fst ` set (intervals s). HOUR dvd t"
    and "schedule st now s = (chosen, s')"
  shows "map fst (intervals s') = hours (window_start st now) (window_end st now)
         \<and> (\<forall>t\<in>fst ` set (intervals s'). get t (intervals s') = Some (get t (intervals s) = Some True))
         \<and> distinct chosen \<and> length chosen \<le> intervals_per_cycle st
         \<and> (\<forall>t\<in>set chosen. HOUR dvd t \<and> t + HOUR + delay_ms st \<le> now
              \<and> (get t (intervals s') = Some False
                 \<or> window_end st now \<le> t + correction_hours st * HOUR))"
proof -
  let ?e = "eligible st (window_end st now) (intervals s')"
  from assms(3) have s': "intervals s' = intervals (snd (schedule st now s))" by simp
  from schedule_intervals [OF assms(1,2) s'] have ord: "ordered_map (intervals s')"
    and keys: "map fst (intervals s') = hours (window_start st now) (window_end st now)"
    and vals: "\<forall>t\<in>fst ` set (intervals s'). get t (intervals s') = Some (get t (intervals s) = Some True)"
    by blast+
  from assms(3) have ch: "chosen = take (intervals_per_cycle st) (rotate_after (cursor s) ?e)"
    by (auto simp: schedule_def Let_def)
  have "distinct chosen" "length chosen \<le> intervals_per_cycle st"
    unfolding ch using rotate_after_distinct [OF eligible_distinct [OF ord]] by simp_all
  moreover have "HOUR dvd t \<and> t + HOUR + delay_ms st \<le> now
      \<and> (get t (intervals s') = Some False \<or> window_end st now \<le> t + correction_hours st * HOUR)"
    if "t \<in> set chosen" for t
  proof -
    from that ch have "t \<in> set ?e" by (metis in_set_takeD rotate_after_set)
    from eligible_member [OF ord this] have
      m: "t \<in> fst ` set (intervals s')"
        "get t (intervals s') = Some False \<or> window_end st now \<le> t + correction_hours st * HOUR"
      by blast+
    from m(1) keys have "t \<in> set (hours (window_start st now) (window_end st now))"
      by (metis list.set_map)
    then have "HOUR dvd t" "t < window_end st now"
      by (simp_all add: set_hours [OF window_aligned(2,1)])
    with aligned_less m(2) show ?thesis by blast
  qed
  ultimately show ?thesis using keys vals by blast
qed

definition sample_collection :: collection_settings where
  "sample_collection =
     \<lparr>url = \<lparr>su_scheme = ''https'', su_has_host = True, su_username = [], su_password = None,
        su_query = None, su_fragment = None, su_path = ''/''\<rparr>, org = ''o'', bucket = ''b'',
      token = ''t'', directory = ''d'', identity = ''i'', cadence = 1, delay_ms = 0,
      history_hours = 2, correction_hours = 1, intervals_per_cycle = 4\<rparr>"

definition sample_status :: status where
  "sample_status =
     \<lparr>binding = [], last_collected_interval = None, last_published_interval = None, updated_ms = 0,
      lag_ms = None, status_records = 0, status_error = None, sink_available = None,
      intervals = [(0, True)], expired_gaps = 0, cursor = None\<rparr>"

theorem schedule_sound_witness:
  "map fst (intervals (snd (schedule sample_collection (2 * HOUR) sample_status))) = hours 0 (2 * HOUR)"
proof -
  have 1: "ordered_map (intervals sample_status)"
    by (simp add: sample_status_def ordered_map_def)
  have 2: "\<forall>t\<in>fst ` set (intervals sample_status). HOUR dvd t" by (simp add: sample_status_def)
  have w: "window_end sample_collection (2 * HOUR) = 2 * HOUR"
    "window_start sample_collection (2 * HOUR) = 0"
    by (simp_all add: window_start_def window_end_def sample_collection_def)
  from schedule_sound [OF 1 2 surjective_pairing, of sample_collection "2 * HOUR"]
  show ?thesis unfolding w by blast
qed

subsection \<open>A report is forgotten only when it was acknowledged\<close>

text \<open>
  The order of the worker's effects: nothing is fetched while a report waits to be acknowledged,
  and a stored report is dropped only after an acknowledgement. A report may be acknowledged
  again when the worker could not drop it.
\<close>

datatype phase = Idle | Held | Acked

fun protocol :: "phase \<Rightarrow> collector_event list \<Rightarrow> phase option" where
  "protocol ph [] = Some ph"
| "protocol Idle (Fetched t # evs) = protocol Idle evs"
| "protocol Idle (Stored # evs) = protocol Held evs"
| "protocol Held (Acknowledged # evs) = protocol Acked evs"
| "protocol Acked (Acknowledged # evs) = protocol Acked evs"
| "protocol Acked (Dropped # evs) = protocol Idle evs"
| "protocol _ _ = None"

definition start_phase :: "'e worker \<Rightarrow> phase" where
  "start_phase w = (if pending w = None then Idle else Held)"

definition follows :: "'e worker \<Rightarrow> 'e worker \<Rightarrow> bool" where
  "follows w w' \<longleftrightarrow>
     (\<exists>evs ph. history w' = history w @ evs \<and> protocol (start_phase w) evs = Some ph
        \<and> (ph = Idle \<longleftrightarrow> pending w' = None))"

lemma protocol_append:
  "protocol ph (xs @ ys) = Option.bind (protocol ph xs) (\<lambda>ph'. protocol ph' ys)"
  by (induction ph xs rule: protocol.induct) auto

lemma protocol_acked:
  assumes "protocol Held evs = Some ph"
  shows "\<exists>ph'. protocol Acked evs = Some ph' \<and> (ph' = Idle \<longleftrightarrow> ph = Idle)"
proof (cases evs)
  case Nil
  with assms show ?thesis by auto
next
  case (Cons ev rest)
  with assms show ?thesis by (cases ev) auto
qed

lemma follows_refl:
  "history w' = history w \<Longrightarrow> pending w' = pending w \<Longrightarrow> follows w w'"
  unfolding follows_def start_phase_def by (intro exI [of _ "[]"]) auto

lemma follows_trans:
  assumes "follows w w1" and "follows w1 w2"
  shows "follows w w2"
proof -
  from assms(1) obtain evs1 ph1 where
    1: "history w1 = history w @ evs1" "protocol (start_phase w) evs1 = Some ph1"
      "ph1 = Idle \<longleftrightarrow> pending w1 = None" by (auto simp: follows_def)
  from assms(2) obtain evs2 ph2 where
    2: "history w2 = history w1 @ evs2" "protocol (start_phase w1) evs2 = Some ph2"
      "ph2 = Idle \<longleftrightarrow> pending w2 = None" by (auto simp: follows_def)
  obtain ph where "protocol ph1 evs2 = Some ph" "ph = Idle \<longleftrightarrow> ph2 = Idle"
  proof (cases ph1)
    case Idle
    with 1(3) 2(2) that show thesis by (simp add: start_phase_def)
  next
    case Held
    with 1(3) 2(2) that show thesis by (auto simp: start_phase_def)
  next
    case Acked
    with 1(3) 2(2) have "protocol Held evs2 = Some ph2" by (auto simp: start_phase_def)
    with protocol_acked that Acked show thesis by blast
  qed
  with 1 2 show ?thesis
    unfolding follows_def by (intro exI [of _ "evs1 @ evs2"] exI [of _ ph]) (simp add: protocol_append)
qed

lemma fs_step_cases:
  obtains (effect) r e where "fs_step X err act w = (r, act (w\<lparr>wenv := e\<rparr>))"
  | (nothing) e where "fs_step X err act w = (Inl err, w\<lparr>wenv := e\<rparr>)"
  by (cases "cx_fs X (wenv w)"; cases "fst (cx_fs X (wenv w))") (auto simp: fs_step_def Let_def)

lemma save_frame [simp]:
  "history (snd (save X w)) = history w" "pending (snd (save X w)) = pending w"
  by (rule fs_step_cases [of X "''collection_state_write''" "\<lambda>w. w\<lparr>disk_status := Some (status w)\<rparr>" w],
      auto simp: save_def)+

lemma read_pending_frame:
  assumes "read_pending X w = (r, w')"
  shows "history w' = history w \<and> pending w' = pending w \<and> (\<forall>b. r = Inr b \<longrightarrow> b = pending w)"
  using assms
  by (cases "cx_fs X (wenv w)"; cases "fst (cx_fs X (wenv w))")
     (auto simp: read_pending_def fs_step_def Let_def split: option.splits if_splits)

lemma remove_pending_effect:
  "history (snd (remove_pending X w)) = history w \<and> pending (snd (remove_pending X w)) = pending w
      \<and> fst (remove_pending X w) \<noteq> Inr ()
   \<or> history (snd (remove_pending X w)) = history w @ [Dropped] \<and> pending (snd (remove_pending X w)) = None"
  by (cases "cx_fs X (wenv w)"; cases "fst (cx_fs X (wenv w))")
     (auto simp: remove_pending_def fs_step_def Let_def)

lemma publish_pending_effect:
  fixes X :: "('e, 'f) collector_externals"
  assumes "publish_pending X st w = (r, w')"
  shows "history w' = history w \<and> pending w' = pending w \<and> (r = Inr () \<longrightarrow> pending w = None)
    \<or> pending w \<noteq> None \<and> history w' = history w @ [Acknowledged] \<and> pending w' = pending w \<and> r \<noteq> Inr ()
    \<or> pending w \<noteq> None \<and> history w' = history w @ [Acknowledged, Dropped] \<and> pending w' = None"
proof -
  obtain rr w1 where read: "read_pending X w = (rr, w1)" by (metis surj_pair)
  from read_pending_frame [OF read] have fr: "history w1 = history w" "pending w1 = pending w"
    and rp: "\<And>b. rr = Inr b \<Longrightarrow> b = pending w" by auto
  show ?thesis
  proof (cases "\<exists>body snap p. rr = Inr (Some body) \<and> cx_parse X body = Some snap \<and> whole_hour snap
      \<and> publication_build (sink_externals.truncate X) snap (identity st) = Inr p
      \<and> fst (publish (cx_send X) p (wenv w1, sent w1)) = Inr ()")
    case False
    then show ?thesis
      using assms read fr rp
      by (auto simp: publish_pending_def bind_io_def Let_def
          split: sum.splits option.splits if_splits prod.splits)
  next
    case True
    then obtain body snap p where b: "rr = Inr (Some body)" "cx_parse X body = Some snap" "whole_hour snap"
      "publication_build (sink_externals.truncate X) snap (identity st) = Inr p"
      "fst (publish (cx_send X) p (wenv w1, sent w1)) = Inr ()" by blast
    obtain e log where pub: "publish (cx_send X) p (wenv w1, sent w1) = (Inr (), e, log)"
      using b(5) by (metis prod.collapse)
    let ?w2 = "modify_status (published snap (records p))
        (w1\<lparr>wenv := e, sent := log, history := history w1 @ [Acknowledged]\<rparr>)"
    have run: "publish_pending X st w = bind_io (save X) (\<lambda>_. remove_pending X) ?w2"
      using read b(1-4) pub by (simp add: publish_pending_def bind_io_def)
    obtain sr w3 where sv: "save X ?w2 = (sr, w3)" by (metis surj_pair)
    then have "w3 = snd (save X ?w2)" by simp
    then have w3: "history w3 = history w @ [Acknowledged]" "pending w3 = pending w"
      using fr by simp_all
    have some: "pending w \<noteq> None" using rp [OF b(1)] by (metis option.distinct(1))
    show ?thesis
    proof (cases sr)
      case (Inl err)
      with run assms sv w3 some show ?thesis by (simp add: bind_io_def)
    next
      case (Inr u)
      with run sv assms have "remove_pending X w3 = (r, w')" by (simp add: bind_io_def)
      with remove_pending_effect [of X w3] w3 some show ?thesis by auto
    qed
  qed
qed

lemma publish_pending_follows:
  assumes "publish_pending X st w = (r, w')"
  shows "follows w w' \<and> (r = Inr () \<longrightarrow> pending w' = None)"
proof -
  have held: "start_phase w = Held" if "pending w \<noteq> None" using that by (simp add: start_phase_def)
  from publish_pending_effect [OF assms] show ?thesis
  proof (elim disjE conjE)
    assume "history w' = history w" "pending w' = pending w" "r = Inr () \<longrightarrow> pending w = None"
    then show ?thesis by (simp add: follows_refl)
  next
    assume "pending w \<noteq> None" "history w' = history w @ [Acknowledged]" "pending w' = pending w" "r \<noteq> Inr ()"
    with held show ?thesis
      unfolding follows_def by (intro conjI exI [of _ "[Acknowledged]"] exI [of _ Acked]) auto
  next
    assume "pending w \<noteq> None" "history w' = history w @ [Acknowledged, Dropped]" "pending w' = None"
    with held show ?thesis
      unfolding follows_def by (intro conjI exI [of _ "[Acknowledged, Dropped]"] exI [of _ Idle]) auto
  qed
qed

lemma write_pending_follows:
  assumes "write_pending X body w = (r, w')" and "pending w = None"
  shows "follows w w'"
proof (rule fs_step_cases [of X "''collection_state_write''"
      "\<lambda>w. w\<lparr>pending := Some body, history := history w @ [Stored]\<rparr>" w])
  fix r' e
  assume "fs_step X ''collection_state_write'' (\<lambda>w. w\<lparr>pending := Some body, history := history w @ [Stored]\<rparr>) w
    = (r', (w\<lparr>wenv := e\<rparr>)\<lparr>pending := Some body, history := history (w\<lparr>wenv := e\<rparr>) @ [Stored]\<rparr>)"
  with assms show ?thesis
    unfolding follows_def start_phase_def write_pending_def
    by (intro exI [of _ "[Stored]"] exI [of _ Held]) auto
next
  fix e
  assume "fs_step X ''collection_state_write'' (\<lambda>w. w\<lparr>pending := Some body, history := history w @ [Stored]\<rparr>) w
    = (Inl ''collection_state_write'', w\<lparr>wenv := e\<rparr>)"
  with assms show ?thesis unfolding write_pending_def by (intro follows_refl) auto
qed

lemma fetched_follows:
  "pending w = None \<Longrightarrow> follows w (w\<lparr>wenv := e, history := history w @ [Fetched t]\<rparr>)"
  unfolding follows_def start_phase_def by (intro exI [of _ "[Fetched t]"] exI [of _ Idle]) auto

lemma bind_io_follows:
  assumes "bind_io m f w = (r, w')"
    and "\<And>a w1. m w = (a, w1) \<Longrightarrow> follows w w1"
    and "\<And>a w1. m w = (Inr a, w1) \<Longrightarrow> f a w1 = (r, w') \<Longrightarrow> follows w1 w' \<and> (r = Inr () \<longrightarrow> P w')"
  shows "follows w w' \<and> (r = Inr () \<longrightarrow> P w')"
proof (cases "m w")
  case (Pair a w1)
  show ?thesis
  proof (cases a)
    case (Inl e)
    with Pair assms(1,2) show ?thesis by (auto simp: bind_io_def)
  next
    case (Inr b)
    with Pair assms(1) have "f b w1 = (r, w')" by (simp add: bind_io_def)
    with assms(3) Pair Inr have "follows w1 w' \<and> (r = Inr () \<longrightarrow> P w')" by blast
    with assms(2) [OF Pair] show ?thesis using follows_trans by blast
  qed
qed

lemma collect_one_follows:
  assumes "collect_one X st start w = (r, w')" and "pending w = None"
  shows "follows w w' \<and> (r = Inr () \<longrightarrow> pending w' = None)"
proof (cases "activity_window_new (of_nat start) (of_nat (start + HOUR))")
  case (Inl e)
  with assms show ?thesis by (simp add: collect_one_def follows_refl)
next
  case (Inr win)
  obtain res e where col: "cx_collect X win (wenv w) = (res, e)" by (metis surj_pair)
  let ?w1 = "w\<lparr>wenv := e, history := history w @ [Fetched start]\<rparr>"
  have fetched: "follows w ?w1" using assms(2) by (rule fetched_follows)
  show ?thesis
  proof (cases "\<exists>snap p body. res = Inr snap \<and> sx_to_vec X snap = Inr body
      \<and> publication_build (sink_externals.truncate X) snap (identity st) = Inr p")
    case False
    with assms Inr col fetched show ?thesis
      by (auto simp: collect_one_def Let_def split: sum.splits)
  next
    case True
    then obtain snap p body where s: "res = Inr snap" "sx_to_vec X snap = Inr body"
      "publication_build (sink_externals.truncate X) snap (identity st) = Inr p" by blast
    let ?mark = "\<lambda>w. if collected snap then modify_status (\<lambda>s. s\<lparr>last_collected_interval :=
        max_interval (last_collected_interval s) start\<rparr>) w else w"
    let ?rest = "bind_io (save X) (\<lambda>_. bind_io (publish_pending X st)
        (\<lambda>_ w. (Inr (), w\<lparr>wenv := cx_pause X (wenv w)\<rparr>)))"
    have run: "bind_io (write_pending X body) (\<lambda>_ w. ?rest (?mark w)) ?w1 = (r, w')"
      using assms(1) Inr col s by (simp add: collect_one_def)
    have tail: "follows v w' \<and> (r = Inr () \<longrightarrow> pending w' = None)" if rest: "?rest (?mark v) = (r, w')" for v
    proof -
      have mark: "follows v (?mark v)" by (rule follows_refl) simp_all
      have "follows (?mark v) w' \<and> (r = Inr () \<longrightarrow> pending w' = None)"
      proof (rule bind_io_follows [OF rest])
        fix a w1 assume "save X (?mark v) = (a, w1)"
        then have "w1 = snd (save X (?mark v))" by simp
        then show "follows (?mark v) w1" by (intro follows_refl) simp_all
      next
        fix a w1 assume pub: "bind_io (publish_pending X st)
            (\<lambda>_ w. (Inr (), w\<lparr>wenv := cx_pause X (wenv w)\<rparr>)) w1 = (r, w')"
        show "follows w1 w' \<and> (r = Inr () \<longrightarrow> pending w' = None)"
        proof (rule bind_io_follows [OF pub])
          fix a w2 assume "publish_pending X st w1 = (a, w2)"
          then show "follows w1 w2" using publish_pending_follows by blast
        next
          fix a w2 assume "publish_pending X st w1 = (Inr a, w2)"
            and "(Inr (), w2\<lparr>wenv := cx_pause X (wenv w2)\<rparr>) = (r, w')"
          moreover from this(1) have "pending w2 = None" using publish_pending_follows by fastforce
          ultimately show "follows w2 w' \<and> (r = Inr () \<longrightarrow> pending w' = None)"
            by (auto intro!: follows_refl)
        qed
      qed
      with follows_trans [OF mark] show ?thesis by blast
    qed
    have "follows ?w1 w' \<and> (r = Inr () \<longrightarrow> pending w' = None)"
    proof (rule bind_io_follows [OF run])
      fix a w1 assume "write_pending X body ?w1 = (a, w1)"
      then show "follows ?w1 w1" by (rule write_pending_follows) (simp add: assms(2))
    next
      fix a w1 assume "?rest (?mark w1) = (r, w')"
      then show "follows w1 w' \<and> (r = Inr () \<longrightarrow> pending w' = None)" by (rule tail)
    qed
    with follows_trans [OF fetched] show ?thesis by blast
  qed
qed

lemma collect_each_follows:
  assumes "collect_each X st starts w = (r, w')" and "pending w = None"
  shows "follows w w'"
  using assms
proof (induction starts arbitrary: w)
  case Nil
  then show ?case by (auto intro: follows_refl)
next
  case (Cons start starts)
  from Cons.prems(1) have b: "bind_io (collect_one X st start) (\<lambda>_. collect_each X st starts) w = (r, w')"
    by simp
  have "follows w w' \<and> (r = Inr () \<longrightarrow> True)"
  proof (rule bind_io_follows [OF b])
    fix a w1 assume "collect_one X st start w = (a, w1)"
    then show "follows w w1" using collect_one_follows Cons.prems(2) by blast
  next
    fix a w1 assume "collect_one X st start w = (Inr a, w1)" and "collect_each X st starts w1 = (r, w')"
    moreover from this(1) have "pending w1 = None" using collect_one_follows Cons.prems(2) by fastforce
    ultimately show "follows w1 w' \<and> (r = Inr () \<longrightarrow> True)" using Cons.IH by blast
  qed
  then show ?case by blast
qed

lemma cycle_follows: "follows w (snd (cycle X st w))"
proof -
  obtain r w' where c: "cycle X st w = (r, w')" by (metis surj_pair)
  have "follows w w' \<and> (r = Inr () \<longrightarrow> True)"
  proof (rule bind_io_follows [OF c [unfolded cycle_def]])
    fix a w1 assume "publish_pending X st w = (a, w1)"
    then show "follows w w1" using publish_pending_follows by blast
  next
    fix a w1
    assume p: "publish_pending X st w = (Inr a, w1)"
      and rest: "(case cx_now_ms X (wenv w1) of
         None \<Rightarrow> (Inl ''clock before the epoch'', w1)
       | Some now \<Rightarrow>
           (case schedule st now (status w1) of
              (candidates, s) \<Rightarrow>
                bind_io (save X) (\<lambda>_. collect_each X st candidates) (w1\<lparr>status := s\<rparr>))) = (r, w')"
    have none: "pending w1 = None" using publish_pending_follows [OF p] by simp
    show "follows w1 w' \<and> (r = Inr () \<longrightarrow> True)"
    proof (cases "cx_now_ms X (wenv w1)")
      case None
      with rest show ?thesis by (auto intro: follows_refl)
    next
      case (Some now)
      obtain cs s where sch: "schedule st now (status w1) = (cs, s)" by (metis surj_pair)
      with rest Some have b: "bind_io (save X) (\<lambda>_. collect_each X st cs) (w1\<lparr>status := s\<rparr>) = (r, w')"
        by simp
      have "follows (w1\<lparr>status := s\<rparr>) w' \<and> (r = Inr () \<longrightarrow> True)"
      proof (rule bind_io_follows [OF b])
        fix a w2 assume "save X (w1\<lparr>status := s\<rparr>) = (a, w2)"
        then have "w2 = snd (save X (w1\<lparr>status := s\<rparr>))" by simp
        then show "follows (w1\<lparr>status := s\<rparr>) w2" by (intro follows_refl) simp_all
      next
        fix a w2 assume sv: "save X (w1\<lparr>status := s\<rparr>) = (Inr a, w2)" and "collect_each X st cs w2 = (r, w')"
        moreover from sv have "w2 = snd (save X (w1\<lparr>status := s\<rparr>))" by simp
        then have "pending w2 = None" using none by simp
        ultimately show "follows w2 w' \<and> (r = Inr () \<longrightarrow> True)" using collect_each_follows by blast
      qed
      moreover have "follows w1 (w1\<lparr>status := s\<rparr>)" by (rule follows_refl) simp_all
      ultimately show ?thesis using follows_trans by blast
    qed
  qed
  with c show ?thesis by simp
qed

lemma after_cycle_follows: "follows w (after_cycle X outcome w)"
  by (rule follows_refl) (simp_all add: after_cycle_def Let_def)

lemma worker_rounds_follow: "follows w ((worker_round X st ^^ n) w)"
proof (induction n)
  case 0
  then show ?case by (simp add: follows_refl)
next
  case (Suc n)
  let ?v = "(worker_round X st ^^ n) w"
  obtain r v' where c: "cycle X st ?v = (r, v')" by (metis surj_pair)
  with cycle_follows [of ?v X st] have "follows ?v v'" by simp
  from follows_trans [OF this after_cycle_follows] c have "follows ?v (worker_round X st ?v)"
    by (simp add: worker_round_def)
  with Suc show ?case using follows_trans by auto
qed

text \<open>
  C30. Over any number of completed cycles, with file operations failing before or after they took
  effect and the destination failing at any point, the collector never fetches a report while an
  earlier one is stored and unacknowledged, never drops a stored report that was not
  acknowledged, and can tell from its file alone whether one is still waiting.
\<close>

theorem pending_report_is_never_lost:
  "\<exists>evs ph. history ((worker_round X st ^^ n) w) = history w @ evs
     \<and> protocol (start_phase w) evs = Some ph
     \<and> (ph = Idle \<longleftrightarrow> pending ((worker_round X st ^^ n) w) = None)"
  using worker_rounds_follow unfolding follows_def .

subsection \<open>No hour is starved\<close>

text \<open>
  How many hours may be served before \<open>t\<close> when the cursor stands on \<open>c\<close>, in a window of \<open>h\<close> hours;
  hours are counted, not milliseconds. This is the measure that every round without \<open>t\<close> decreases by
  the number of hours it serves, however the set of eligible hours changes from round to round.
\<close>

definition waiting :: "nat \<Rightarrow> nat \<Rightarrow> nat \<Rightarrow> nat" where
  "waiting h c t = (if c < t then t - c - 1 else h - 1 - (c - t))"

lemma sorted_take_before:
  fixes xs :: "nat list"
  assumes "sorted_wrt (<) xs" and "t \<in> set xs" and "t \<notin> set (take k xs)"
  shows "length (take k xs) = k" and "set (take k xs) \<subseteq> {..<t}"
proof -
  from assms(2,3) have t: "t \<in> set (drop k xs)" by (metis Un_iff append_take_drop_id set_append)
  then have "k < length xs" by (cases "k < length xs") auto
  then show "length (take k xs) = k" by simp
  from assms(1) have "sorted_wrt (<) (take k xs @ drop k xs)" by simp
  with t show "set (take k xs) \<subseteq> {..<t}" unfolding sorted_wrt_append by auto
qed

lemma sorted_below_last:
  fixes xs :: "nat list"
  assumes "sorted_wrt (<) xs" and "x \<in> set xs"
  shows "x \<le> last xs"
proof -
  from assms(2) have "xs = butlast xs @ [last xs]" by (cases xs) simp_all
  with assms have "sorted_wrt (<) (butlast xs @ [last xs])" "x \<in> set (butlast xs @ [last xs])" by metis+
  then show ?thesis by (auto simp: sorted_wrt_append)
qed

lemma rotate_after_parts:
  fixes ts :: "nat list"
  assumes "sorted_wrt (<) ts"
  obtains low high where "ts = low @ high" "rotate_after (Some c) ts = high @ low"
    "set low \<subseteq> {..c}" "set high \<subseteq> {c<..}"
proof
  let ?low = "takeWhile (\<lambda>t. t \<le> c) ts" and ?high = "dropWhile (\<lambda>t. t \<le> c) ts"
  show "ts = ?low @ ?high" by simp
  show "rotate_after (Some c) ts = ?high @ ?low"
    by (simp add: rotate_after_def Let_def dropWhile_eq_drop [symmetric] takeWhile_eq_take [symmetric])
  show "set ?low \<subseteq> {..c}" by (auto dest: set_takeWhileD)
  show "set ?high \<subseteq> {c<..}"
  proof (cases ?high)
    case (Cons x xs)
    then have "c < x" using hd_dropWhile [of "\<lambda>t. t \<le> c" ts] by auto
    moreover from assms have "sorted_wrt (<) (?low @ ?high)" by simp
    then have "sorted_wrt (<) ?high" by (simp only: sorted_wrt_append)
    ultimately show ?thesis using Cons by auto
  next
    case Nil
    then show ?thesis by (simp only: list.set(1) empty_subsetI)
  qed
qed

lemma card_chosen:
  fixes xs :: "nat list"
  assumes "sorted_wrt (<) xs" and "set xs \<subseteq> A" and "finite A"
  shows "length xs \<le> card A"
  using card_mono [OF assms(3,2)] assms(1) by (simp add: strict_sorted_iff distinct_card)

text \<open>A round that leaves an eligible \<open>t\<close> out serves its full number of hours, all of them before \<open>t\<close>.\<close>

lemma rotation_progress:
  fixes ts :: "nat list"
  assumes sorted: "sorted_wrt (<) ts" and window: "set ts \<subseteq> {a..<b}" "b \<le> a + h"
    and t: "t \<in> set ts" "t \<notin> set (take k (rotate_after (Some c) ts))" and k: "0 < k"
  shows "length (take k (rotate_after (Some c) ts)) = k"
    and "waiting h (last (take k (rotate_after (Some c) ts))) t + k < h"
    and "c < b \<Longrightarrow> c \<noteq> t \<Longrightarrow> waiting h (last (take k (rotate_after (Some c) ts))) t + k \<le> waiting h c t"
proof -
  let ?chosen = "take k (rotate_after (Some c) ts)"
  let ?l = "last ?chosen"
  obtain low high where parts: "ts = low @ high" "rotate_after (Some c) ts = high @ low"
    "set low \<subseteq> {..c}" "set high \<subseteq> {c<..}"
    using rotate_after_parts [OF sorted] .
  have srt: "sorted_wrt (<) low" "sorted_wrt (<) high" using sorted parts(1) by (simp_all add: sorted_wrt_append)
  have len: "length ?chosen = k"
  proof (rule ccontr)
    assume "length ?chosen \<noteq> k"
    then have "?chosen = rotate_after (Some c) ts" by simp
    with t show False by (simp add: rotate_after_set)
  qed
  then show "length ?chosen = k" .
  have ne: "?chosen \<noteq> []" using len k by auto
  have at: "a \<le> t" "t < b" using window(1) t(1) by auto
  have goals: "waiting h ?l t + k < h \<and> (c < b \<longrightarrow> c \<noteq> t \<longrightarrow> waiting h ?l t + k \<le> waiting h c t)"
  proof (cases "c < t")
    case True
    then have th: "t \<in> set high" using t(1) parts(1,3) by auto
    have "t \<notin> set (take k high)" using t(2) parts(2) by (auto simp: in_set_conv_decomp)
    note before = sorted_take_before [OF srt(2) th this]
    from before(1) have ch: "?chosen = take k high" by (simp add: parts(2))
    have "sorted_wrt (<) ?chosen" unfolding ch using srt(2) by (rule sorted_wrt_take)
    moreover have "set ?chosen \<subseteq> {max (Suc c) a..?l}"
    proof
      fix x assume x: "x \<in> set ?chosen"
      with ch have "x \<in> set high" by (auto dest: in_set_takeD)
      with parts(1,4) window(1) have "c < x" "a \<le> x" by auto
      moreover have "x \<le> ?l" using sorted_below_last [OF \<open>sorted_wrt (<) ?chosen\<close> x] .
      ultimately show "x \<in> {max (Suc c) a..?l}" by simp
    qed
    ultimately have "k \<le> card {max (Suc c) a..?l}" using card_chosen len by (metis finite_atLeastAtMost)
    then have "k \<le> Suc ?l - max (Suc c) a" by simp
    moreover have "?l < t" using before(2) ch ne last_in_set by (metis lessThan_iff subsetD)
    ultimately show ?thesis using True at window(2) k by (auto simp: waiting_def)
  next
    case False
    then have tl: "t \<in> set low" using t(1) parts(1,4) by auto
    show ?thesis
    proof (cases "k \<le> length high")
      case True
      then have ch: "?chosen = take k high" by (simp add: parts(2))
      have "sorted_wrt (<) ?chosen" unfolding ch using srt(2) by (rule sorted_wrt_take)
      moreover have "set ?chosen \<subseteq> {c<..?l}"
        using sorted_below_last [OF \<open>sorted_wrt (<) ?chosen\<close>] parts(4) ch by (auto dest: in_set_takeD)
      ultimately have "k \<le> ?l - c" using card_chosen len by (metis card_greaterThanAtMost finite_greaterThanAtMost)
      moreover have "?l \<in> set ts" using ne ch parts(1) by (metis in_set_takeD last_in_set set_append Un_iff)
      then have "?l < b" using window(1) by auto
      ultimately show ?thesis using False at window(2) k by (auto simp: waiting_def)
    next
      case more: False
      let ?m = "k - length high"
      from more have ch: "?chosen = high @ take ?m low" by (simp add: parts(2))
      then have "t \<notin> set (take ?m low)" using t(2) by auto
      note before = sorted_take_before [OF srt(1) tl this]
      from before(1) more have ne2: "take ?m low \<noteq> []" by (metis length_0_conv diff_is_0_eq)
      then have l: "?l = last (take ?m low)" "take ?m low \<noteq> []" unfolding ch by simp_all
      then have "?l < t" using before(2) last_in_set by (metis lessThan_iff subsetD)
      have "sorted_wrt (<) (take ?m low)" using srt(1) by (rule sorted_wrt_take)
      moreover have "set (take ?m low) \<subseteq> {a..?l}"
        using sorted_below_last [OF \<open>sorted_wrt (<) (take ?m low)\<close>] l window(1) parts(1) by (auto dest: in_set_takeD)
      ultimately have m: "?m \<le> Suc ?l - a" using card_chosen before(1) by (metis card_atLeastAtMost finite_atLeastAtMost)
      have al: "a \<le> ?l" using l \<open>set (take ?m low) \<subseteq> {a..?l}\<close> last_in_set by (metis atLeastAtMost_iff subsetD)
      have "set high \<subseteq> {max (Suc c) a..<b}"
      proof
        fix x assume "x \<in> set high"
        then have "c < x" "a \<le> x" "x < b" using parts(1,4) window(1) by auto
        then show "x \<in> {max (Suc c) a..<b}" by simp
      qed
      then have hi: "length high \<le> b - max (Suc c) a" using card_chosen [OF srt(2)] by (metis card_atLeastLessThan finite_atLeastLessThan)
      from m hi more \<open>?l < t\<close> al at window(2) False show ?thesis by (auto simp: waiting_def)
    qed
  qed
  then show "waiting h ?l t + k < h" and "c < b \<Longrightarrow> c \<noteq> t \<Longrightarrow> waiting h ?l t + k \<le> waiting h c t" by blast+
qed

lemma rotate_after_end:
  assumes "set ts \<subseteq> {..<b}"
  shows "rotate_after None ts = rotate_after (Some b) ts"
  using assms by (simp add: rotate_after_def Let_def takeWhile_eq_all_conv [THEN iffD2] subset_iff less_imp_le)

lemma rotate_after_hours:
  assumes "\<forall>e\<in>set ts. HOUR dvd e"
  shows "rotate_after (Some (c div HOUR)) (map (\<lambda>e. e div HOUR) ts) = map (\<lambda>e. e div HOUR) (rotate_after (Some c) ts)"
proof -
  have "e div HOUR \<le> c div HOUR \<longleftrightarrow> e \<le> c" if "HOUR dvd e" for e
    using that HOUR_pos by (metis div_le_mono dvd_div_mult_self less_eq_div_iff_mult_less_eq)
  with assms have "takeWhile (\<lambda>e. e div HOUR \<le> c div HOUR) ts = takeWhile (\<lambda>e. e \<le> c) ts"
    by (intro takeWhile_cong) auto
  then have "takeWhile (\<lambda>u. u \<le> c div HOUR) (map (\<lambda>e. e div HOUR) ts) = map (\<lambda>e. e div HOUR) (takeWhile (\<lambda>e. e \<le> c) ts)"
    by (simp add: takeWhile_map comp_def)
  then show ?thesis by (simp add: rotate_after_def Let_def drop_map take_map)
qed

lemma div_HOUR_less: "HOUR dvd x \<Longrightarrow> HOUR dvd y \<Longrightarrow> x div HOUR < y div HOUR \<longleftrightarrow> x < y"
  by (metis HOUR_pos dvd_div_mult_self mult_less_cancel2)

lemma div_HOUR_eq: "HOUR dvd x \<Longrightarrow> HOUR dvd y \<Longrightarrow> x div HOUR = y div HOUR \<longleftrightarrow> x = y"
  by (metis dvd_div_mult_self)

lemma round_progress:
  assumes sorted: "sorted_wrt (<) ts" and window: "set ts \<subseteq> {a..<b}" "\<forall>e\<in>set ts. HOUR dvd e"
    and aligned: "HOUR dvd a" "HOUR dvd b" "b \<le> a + h * HOUR"
    and t: "t \<in> set ts" "t \<notin> set (take k (rotate_after cur ts))" and k: "0 < k"
  shows "take k (rotate_after cur ts) \<noteq> []"
    and "last (take k (rotate_after cur ts)) \<in> set ts - {t}"
    and "waiting h (last (take k (rotate_after cur ts)) div HOUR) (t div HOUR) + k < h"
    and "cur = Some c \<Longrightarrow> c < b \<Longrightarrow> c \<noteq> t \<Longrightarrow> HOUR dvd c \<Longrightarrow>
      waiting h (last (take k (rotate_after cur ts)) div HOUR) (t div HOUR) + k \<le> waiting h (c div HOUR) (t div HOUR)"
proof -
  let ?u = "\<lambda>e. e div HOUR"
  let ?us = "map ?u ts"
  obtain d where d: "rotate_after cur ts = rotate_after (Some d) ts" "cur = None \<or> cur = Some d"
  proof (cases cur)
    case None
    from window(1) have "set ts \<subseteq> {..<b}" by auto
    from rotate_after_end [OF this] None that show thesis by simp
  qed simp
  let ?chosen = "take k (rotate_after (Some d) ts)"
  have chosen: "take k (rotate_after (Some (?u d)) ?us) = map ?u ?chosen"
    by (simp add: rotate_after_hours [OF window(2)] take_map)
  have sub: "set ?chosen \<subseteq> set ts" using rotate_after_set by (metis in_set_takeD subsetI)
  have s: "sorted_wrt (<) ?us"
    unfolding sorted_wrt_map by (rule sorted_wrt_mono_rel [OF _ sorted]) (use window(2) in \<open>simp add: div_HOUR_less\<close>)
  have w: "set ?us \<subseteq> {?u a..<?u b}"
    using window aligned by (auto simp: div_HOUR_less div_le_mono)
  have width: "?u b \<le> ?u a + h" using div_le_mono [OF aligned(3), of HOUR] by simp
  have tin: "?u t \<in> set ?us" using t(1) by simp
  have tout: "?u t \<notin> set (take k (rotate_after (Some (?u d)) ?us))"
  proof
    assume "?u t \<in> set (take k (rotate_after (Some (?u d)) ?us))"
    then obtain e where e: "e \<in> set ?chosen" "?u e = ?u t" unfolding chosen by auto
    with sub window(2) t(1) have "e = t" by (metis div_HOUR_eq subsetD)
    with e t(2) d show False by simp
  qed
  note progress = rotation_progress [OF s w width tin tout k]
  have len: "length ?chosen = k" using progress(1) by (simp only: chosen length_map)
  then show ne: "take k (rotate_after cur ts) \<noteq> []" using k d by auto
  have last: "last (take k (rotate_after (Some (?u d)) ?us)) = ?u (last ?chosen)"
    unfolding chosen using ne d by (simp add: last_map)
  show "last (take k (rotate_after cur ts)) \<in> set ts - {t}"
    using ne t(2) sub d last_in_set by (metis DiffI singletonD subsetD)
  show "waiting h (last (take k (rotate_after cur ts)) div HOUR) (t div HOUR) + k < h"
    using progress(2) unfolding last d .
  assume c: "cur = Some c" "c < b" "c \<noteq> t" "HOUR dvd c"
  with d have "d = c" by simp
  with c aligned(2) window(2) t(1) progress(3) [unfolded last]
  show "waiting h (last (take k (rotate_after cur ts)) div HOUR) (t div HOUR) + k \<le> waiting h (c div HOUR) (t div HOUR)"
    by (simp add: d div_HOUR_less div_HOUR_eq)
qed

subsection \<open>A cycle that succeeds\<close>

text \<open>
  What the outside owes the collector: a read of a window returns that window's report, the archive
  parser reads back what the serializer wrote, and the clock fits 64 bits. The first is what
  \<open>collect_traffic\<close> does.
\<close>

definition lawful :: "('e, 'f) collector_externals \<Rightarrow> bool" where
  "lawful X \<longleftrightarrow>
     (\<forall>win e snap e'. cx_collect X win e = (Inr snap, e') \<longrightarrow> snap_start_ms snap = win_start win)
     \<and> (\<forall>snap body. sx_to_vec X snap = Inr body \<longrightarrow> cx_parse X body = Some snap)
     \<and> (\<forall>e now. cx_now_ms X e = Some now \<longrightarrow> now < 2 ^ 64)"

lemma collect_traffic_window:
  "fst (collect_traffic rd cl site win w) = Inr snap \<Longrightarrow> snap_start_ms snap = win_start win"
  by (auto simp: collect_traffic_def bind_io_def return_io_def split: sum.splits prod.splits)

text \<open>The hours the status tracks are whole hours, in order.\<close>

definition tracks_hours :: "status \<Rightarrow> bool" where
  "tracks_hours s \<longleftrightarrow> ordered_map (intervals s) \<and> (\<forall>t\<in>fst ` set (intervals s). HOUR dvd t)"

lemma tracks_hours_cong: "intervals s = intervals s' \<Longrightarrow> tracks_hours s = tracks_hours s'"
  by (simp add: tracks_hours_def)

lemma trim_intervals_suffix: "\<exists>n. fst (trim_intervals m gaps) = drop n m"
proof (induction m gaps rule: trim_intervals.induct)
  case (2 t complete rest gaps)
  show ?case
  proof (cases "length ((t, complete) # rest) > 168")
    case True
    with 2 obtain n where "fst (trim_intervals ((t, complete) # rest) gaps) = drop (Suc n) ((t, complete) # rest)" by auto
    then show ?thesis by blast
  qed (auto intro: exI [of _ 0])
qed simp

lemma published_tracks_hours:
  assumes "tracks_hours s" and "whole_hour snap"
  shows "tracks_hours (published snap n s)"
proof -
  let ?t = "unat (snap_start_ms snap)"
  let ?m = "map_insert ?t (collected snap) (intervals s)"
  obtain k where k: "fst (trim_intervals ?m (expired_gaps s)) = drop k ?m" using trim_intervals_suffix by blast
  have "intervals (published snap n s) = drop k ?m"
    using k by (cases "trim_intervals ?m (expired_gaps s)") (simp add: published_def Let_def)
  moreover have "ordered_map ?m" using assms(1) by (simp add: tracks_hours_def ordered_map_insert)
  then have "ordered_map (drop k ?m)" by (simp add: ordered_map_def drop_map [symmetric] sorted_wrt_drop)
  moreover have "HOUR dvd t" if "t \<in> fst ` set ?m" for t
  proof -
    have "ordered_map (intervals s)" using assms(1) unfolding tracks_hours_def by blast
    from get_map_insert [OF this] that have "t = ?t \<or> t \<in> fst ` set (intervals s)"
      by (metis get_eq_None)
    then show ?thesis
      using assms unfolding tracks_hours_def whole_hour_def by (auto simp only: dvd_eq_mod_eq_0)
  qed
  then have "\<forall>t\<in>fst ` set (drop k ?m). HOUR dvd t" by (auto dest: in_set_dropD)
  ultimately show ?thesis by (simp add: tracks_hours_def)
qed

lemma fs_step_done:
  assumes "fs_step X err act w = (Inr u, w')"
  obtains e where "w' = act (w\<lparr>wenv := e\<rparr>)"
  using assms that by (auto simp: fs_step_def Let_def split: prod.splits fs_outcome.splits)

text \<open>Publishing what is stored: acknowledged, recorded in the status and dropped.\<close>

lemma publish_pending_done:
  assumes "publish_pending X st w = (Inr u, w')" and "pending w = Some body" and "cx_parse X body = Some snap"
  obtains n where "status w' = published snap n (status w)" "whole_hour snap" "pending w' = None"
    "history w' = history w @ [Acknowledged, Dropped]"
proof -
  obtain rr w1 where read: "read_pending X w = (rr, w1)" by (metis surj_pair)
  have st1: "status w1 = status w"
    using read by (auto simp: read_pending_def fs_step_def Let_def split: prod.splits fs_outcome.splits option.splits if_splits)
  from read_pending_frame [OF read] have fr: "history w1 = history w" "pending w1 = pending w"
    and rp: "\<And>b. rr = Inr b \<Longrightarrow> b = pending w" by auto
  from assms(1) read obtain b where "rr = Inr b" by (cases rr) (auto simp: publish_pending_def bind_io_def)
  with rp assms(2) have rr: "rr = Inr (Some body)" by simp
  have "publish_pending X st w = (if \<not> whole_hour snap then (Inl ''invalid pending interval'', w1)
      else (case publication_build (sink_externals.truncate X) snap (identity st) of
         Inl e \<Rightarrow> (Inl e, w1)
       | Inr p \<Rightarrow> (case publish (cx_send X) p (wenv w1, sent w1) of
              (result, e, log) \<Rightarrow>
                (let w = w1\<lparr>wenv := e, sent := log\<rparr>
                 in case result of
                      Inl _ \<Rightarrow> (Inl ''publication_failed'', modify_status (\<lambda>s. s\<lparr>sink_available := Some False\<rparr>) w)
                    | Inr _ \<Rightarrow> bind_io (save X) (\<lambda>_. remove_pending X)
                        (modify_status (published snap (records p)) (w\<lparr>history := history w @ [Acknowledged]\<rparr>))))))"
    by (simp add: publish_pending_def bind_io_def read rr assms(3))
  with assms(1) obtain p where whole: "whole_hour snap"
    and built: "(case publish (cx_send X) p (wenv w1, sent w1) of
              (result, e, log) \<Rightarrow>
                (let w = w1\<lparr>wenv := e, sent := log\<rparr>
                 in case result of
                      Inl _ \<Rightarrow> (Inl ''publication_failed'', modify_status (\<lambda>s. s\<lparr>sink_available := Some False\<rparr>) w)
                    | Inr _ \<Rightarrow> bind_io (save X) (\<lambda>_. remove_pending X)
                        (modify_status (published snap (records p)) (w\<lparr>history := history w @ [Acknowledged]\<rparr>)))) = (Inr u, w')"
    by (auto split: if_splits sum.splits)
  obtain result e log where "publish (cx_send X) p (wenv w1, sent w1) = (result, e, log)" by (metis surj_pair)
  with built have run: "bind_io (save X) (\<lambda>_. remove_pending X) (modify_status (published snap (records p))
        (w1\<lparr>wenv := e, sent := log, history := history w1 @ [Acknowledged]\<rparr>)) = (Inr u, w')"
    by (cases result) (simp_all add: Let_def)
  let ?v = "modify_status (published snap (records p))
        (w1\<lparr>wenv := e, sent := log, history := history w1 @ [Acknowledged]\<rparr>)"
  from run obtain x w2 where "save X ?v = (Inr x, w2)" and drop: "remove_pending X w2 = (Inr u, w')"
    by (auto simp: bind_io_def split: prod.splits sum.splits)
  from this(1) obtain e2 where "w2 = ?v\<lparr>wenv := e2, disk_status := Some (status ?v)\<rparr>"
    unfolding save_def by (rule fs_step_done) simp
  moreover from drop obtain e3 where "w' = (w2\<lparr>wenv := e3\<rparr>)\<lparr>pending := None, history := history w2 @ [Dropped]\<rparr>"
    unfolding remove_pending_def by (rule fs_step_done) simp
  ultimately show ?thesis using that [of "records p"] whole st1 fr by simp
qed

lemma publish_pending_tracks_hours:
  assumes "publish_pending X st w = (Inr u, w')" and "tracks_hours (status w)"
  shows "tracks_hours (status w')"
proof (cases "pending w")
  case None
  obtain rr w1 where read: "read_pending X w = (rr, w1)" by (metis surj_pair)
  then have "status w1 = status w"
    by (auto simp: read_pending_def fs_step_def Let_def split: prod.splits fs_outcome.splits option.splits if_splits)
  moreover from read_pending_frame [OF read] None have "\<And>b. rr = Inr b \<Longrightarrow> b = None" by simp
  with assms(1) read have "w' = w1" by (cases rr) (auto simp: publish_pending_def bind_io_def)
  ultimately show ?thesis using assms(2) by simp
next
  case (Some body)
  have "cx_parse X body \<noteq> None"
  proof
    assume "cx_parse X body = None"
    moreover obtain rr w1 where read: "read_pending X w = (rr, w1)" by (metis surj_pair)
    moreover from read_pending_frame [OF read] Some have "\<And>b. rr = Inr b \<Longrightarrow> b = Some body" by simp
    ultimately show False using assms(1) by (cases rr) (auto simp: publish_pending_def bind_io_def)
  qed
  then obtain snap where "cx_parse X body = Some snap" by blast
  from publish_pending_done [OF assms(1) Some this] published_tracks_hours [OF assms(2)] show ?thesis by metis
qed

text \<open>The traces of hours that were collected: fetched, stored, acknowledged and dropped.\<close>

definition collected_hour :: "nat \<Rightarrow> collector_event list" where
  "collected_hour t = [Fetched t, Stored, Acknowledged, Dropped]"

lemma collect_one_done:
  assumes "collect_one X st start w = (Inr u, w')" and "lawful X" and "start < 2 ^ 64" and "tracks_hours (status w)"
  shows "history w' = history w @ collected_hour start \<and> pending w' = None \<and> cursor (status w') = Some start
    \<and> tracks_hours (status w')"
proof -
  from assms(1) obtain win where win: "activity_window_new (of_nat start) (of_nat (start + HOUR)) = Inr win"
    by (cases "activity_window_new (of_nat start) (of_nat (start + HOUR))") (auto simp: collect_one_def)
  obtain res e where col: "cx_collect X win (wenv w) = (res, e)" by (metis surj_pair)
  let ?w1 = "w\<lparr>wenv := e, history := history w @ [Fetched start]\<rparr>"
  let ?mark = "\<lambda>snap w. if collected snap then modify_status (\<lambda>s. s\<lparr>last_collected_interval :=
      max_interval (last_collected_interval s) start\<rparr>) w else w"
  let ?rest = "bind_io (save X) (\<lambda>_. bind_io (publish_pending X st)
      (\<lambda>_ w. (Inr (), w\<lparr>wenv := cx_pause X (wenv w)\<rparr>)))"
  from assms(1) win col obtain snap body where res: "res = Inr snap" and ser: "sx_to_vec X snap = Inr body"
    and run: "bind_io (write_pending X body) (\<lambda>_ w. ?rest (?mark snap w)) ?w1 = (Inr u, w')"
    by (auto simp: collect_one_def Let_def split: sum.splits)
  from run obtain x w2 where "write_pending X body ?w1 = (Inr x, w2)" and rest: "?rest (?mark snap w2) = (Inr u, w')"
    by (auto simp: bind_io_def split: prod.splits sum.splits)
  from this(1) obtain e2 where w2: "w2 = (?w1\<lparr>wenv := e2\<rparr>)\<lparr>pending := Some body, history := history ?w1 @ [Stored]\<rparr>"
    unfolding write_pending_def by (rule fs_step_done) simp
  from rest obtain y w3 where "save X (?mark snap w2) = (Inr y, w3)"
    and rest3: "bind_io (publish_pending X st) (\<lambda>_ w. (Inr (), w\<lparr>wenv := cx_pause X (wenv w)\<rparr>)) w3 = (Inr u, w')"
    by (auto simp: bind_io_def split: prod.splits sum.splits)
  from this(1) obtain e3 where w3: "w3 = (?mark snap w2)\<lparr>wenv := e3, disk_status := Some (status (?mark snap w2))\<rparr>"
    unfolding save_def by (rule fs_step_done) simp
  from rest3 obtain z w4 where pub: "publish_pending X st w3 = (Inr z, w4)" and w': "w' = w4\<lparr>wenv := cx_pause X (wenv w4)\<rparr>"
    by (auto simp: bind_io_def split: prod.splits sum.splits)
  have pend: "pending w3 = Some body" "history w3 = history w @ [Fetched start, Stored]" using w2 w3 by simp_all
  have "intervals (status w3) = intervals (status w)" using w2 w3 by simp
  then have th: "tracks_hours (status w3)" using assms(4) tracks_hours_cong by blast
  have parsed: "cx_parse X body = Some snap" using assms(2) ser by (simp add: lawful_def)
  from win have "win_start win = of_nat start" by (auto simp: activity_window_new_def split: if_splits)
  then have "snap_start_ms snap = of_nat start" using assms(2) col res unfolding lawful_def by metis
  then have start: "unat (snap_start_ms snap) = start" using assms(3) by (simp add: unat_of_nat take_bit_nat_eq_self)
  from publish_pending_done [OF pub pend(1) parsed] obtain n where
    p: "status w4 = published snap n (status w3)" "pending w4 = None" "history w4 = history w3 @ [Acknowledged, Dropped]"
    by metis
  have "cursor (published snap n (status w3)) = Some start"
    by (simp add: published_def Let_def start split: prod.split)
  with publish_pending_tracks_hours [OF pub th] p pend w' show ?thesis by (simp add: collected_hour_def)
qed

lemma collect_each_done:
  assumes "collect_each X st starts w = (Inr u, w')" and "lawful X" and "\<forall>t\<in>set starts. t < 2 ^ 64"
    and "tracks_hours (status w)" and "pending w = None"
  shows "history w' = history w @ concat (map collected_hour starts) \<and> pending w' = None \<and> tracks_hours (status w')
    \<and> cursor (status w') = (if starts = [] then cursor (status w) else Some (last starts))"
  using assms(1,3-5)
proof (induction starts arbitrary: w)
  case (Cons start starts)
  from Cons.prems(1) obtain x w1 where one: "collect_one X st start w = (Inr x, w1)"
    and rest: "collect_each X st starts w1 = (Inr u, w')"
    by (auto simp: bind_io_def split: prod.splits sum.splits)
  from collect_one_done [OF one assms(2)] Cons.prems have
    1: "history w1 = history w @ collected_hour start" "pending w1 = None" "cursor (status w1) = Some start"
      "tracks_hours (status w1)" by auto
  from Cons.IH [OF rest _ 1(4,2)] Cons.prems(2) 1 show ?case by auto
qed simp

lemma schedule_parts:
  assumes "schedule st now s = (chosen, s')"
  shows "chosen = take (intervals_per_cycle st) (rotate_after (cursor s) (eligible st (window_end st now) (intervals s')))"
    and "cursor s' = cursor s"
  using assms by (auto simp: schedule_def Let_def)

text \<open>The hours a schedule may choose from: in order, whole and inside the window.\<close>

lemma eligible_window:
  assumes "tracks_hours s" and "schedule st now s = (chosen, s')"
  defines "ts \<equiv> eligible st (window_end st now) (intervals s')"
  shows "tracks_hours s'" and "sorted_wrt (<) ts" and "set ts \<subseteq> {window_start st now..<window_end st now}"
    and "\<forall>e\<in>set ts. HOUR dvd e" and "\<forall>e\<in>set ts. e \<le> now"
proof -
  from assms(2) have s': "intervals s' = intervals (snd (schedule st now s))" by simp
  from assms(1) have th: "ordered_map (intervals s)" "\<forall>t\<in>fst ` set (intervals s). HOUR dvd t"
    unfolding tracks_hours_def by blast+
  note ints = schedule_intervals [OF th s']
  have hrs: "set (hours (window_start st now) (window_end st now)) =
      {t. window_start st now \<le> t \<and> t < window_end st now \<and> HOUR dvd t}"
    using window_aligned by (intro set_hours)
  have keys: "fst ` set (intervals s') = set (hours (window_start st now) (window_end st now))"
    using ints by (metis list.set_map)
  then show "tracks_hours s'" using ints by (auto simp: tracks_hours_def hrs)
  have sub: "set ts \<subseteq> fst ` set (intervals s')" unfolding ts_def eligible_def by auto
  then show "set ts \<subseteq> {window_start st now..<window_end st now}" "\<forall>e\<in>set ts. HOUR dvd e"
    unfolding keys hrs by auto
  then show "\<forall>e\<in>set ts. e \<le> now" using aligned_less by (fastforce simp: subset_iff)
  have "ordered_map (filter (\<lambda>(t, complete). \<not> complete \<or> window_end st now - correction_hours st * HOUR \<le> t) (intervals s'))"
    using ints by (intro ordered_map_filter) blast
  then show "sorted_wrt (<) ts" unfolding ts_def eligible_def ordered_map_def .
qed

text \<open>One round of the worker seen from its schedule.\<close>

definition before_schedule :: "('e, 'f) collector_externals \<Rightarrow> collection_settings \<Rightarrow> 'e worker \<Rightarrow> 'e worker" where
  "before_schedule X st w = snd (publish_pending X st w)"

definition round_clock :: "('e, 'f) collector_externals \<Rightarrow> collection_settings \<Rightarrow> 'e worker \<Rightarrow> nat option" where
  "round_clock X st w = cx_now_ms X (wenv (before_schedule X st w))"

definition due :: "('e, 'f) collector_externals \<Rightarrow> collection_settings \<Rightarrow> 'e worker \<Rightarrow> nat \<Rightarrow> bool" where
  "due X st w t \<longleftrightarrow>
     (case round_clock X st w of
        None \<Rightarrow> False
      | Some now \<Rightarrow> t \<in> set (eligible st (window_end st now)
                         (intervals (snd (schedule st now (status (before_schedule X st w)))))))"

lemma worker_round_done:
  assumes "fst (cycle X st w) = Inr ()" and "round_clock X st w = Some now" and "lawful X" and "tracks_hours (status w)"
  defines "chosen \<equiv> fst (schedule st now (status (before_schedule X st w)))"
  shows "(\<exists>evs. history (worker_round X st w) = history w @ evs @ concat (map collected_hour chosen))
    \<and> pending (worker_round X st w) = None \<and> tracks_hours (status (worker_round X st w))
    \<and> cursor (status (worker_round X st w)) =
        (if chosen = [] then cursor (status (before_schedule X st w)) else Some (last chosen))"
proof -
  obtain w' where cyc: "cycle X st w = (Inr (), w')" using assms(1) by (metis prod.collapse)
  from cyc obtain u w1 where pub: "publish_pending X st w = (Inr u, w1)"
    by (cases "publish_pending X st w"; cases "fst (publish_pending X st w)") (auto simp: cycle_def bind_io_def)
  then have w1: "before_schedule X st w = w1" by (simp add: before_schedule_def)
  obtain cs s where sch: "schedule st now (status w1) = (cs, s)" by (metis surj_pair)
  have ch: "chosen = cs" by (simp add: chosen_def w1 sch)
  from cyc pub assms(2) sch have run: "bind_io (save X) (\<lambda>_. collect_each X st cs) (w1\<lparr>status := s\<rparr>) = (Inr (), w')"
    by (simp add: cycle_def bind_io_def round_clock_def w1)
  then obtain x w2 where "save X (w1\<lparr>status := s\<rparr>) = (Inr x, w2)" and each: "collect_each X st cs w2 = (Inr (), w')"
    by (auto simp: bind_io_def split: prod.splits sum.splits)
  from this(1) obtain e where w2: "w2 = w1\<lparr>status := s, wenv := e, disk_status := Some s\<rparr>"
    unfolding save_def by (rule fs_step_done) simp
  have th1: "tracks_hours (status w1)" using publish_pending_tracks_hours [OF pub assms(4)] .
  note win = eligible_window [OF th1 sch]
  have none: "pending w1 = None" using publish_pending_follows [OF pub] by simp
  have "cs = take (intervals_per_cycle st) (rotate_after (cursor (status w1)) (eligible st (window_end st now) (intervals s)))"
    by (rule schedule_parts(1) [OF sch])
  then have "set cs \<subseteq> set (eligible st (window_end st now) (intervals s))"
    using rotate_after_set by (metis in_set_takeD subsetI)
  moreover have "now < 2 ^ 64" using assms(2,3) by (simp add: round_clock_def lawful_def)
  ultimately have "\<forall>t\<in>set cs. t < 2 ^ 64" using win(5) by fastforce
  from collect_each_done [OF each assms(3) this] win(1) none w2 have
    finished: "history w' = history w1 @ concat (map collected_hour cs)" "pending w' = None" "tracks_hours (status w')"
      "cursor (status w') = (if cs = [] then cursor s else Some (last cs))" by simp_all
  obtain evs where "history w1 = history w @ evs"
    using publish_pending_follows [OF pub] by (auto simp: follows_def)
  moreover have after: "history (after_cycle X CycleOk w') = history w'" "pending (after_cycle X CycleOk w') = pending w'"
    by (simp_all add: after_cycle_def Let_def)
  moreover have "intervals (status (after_cycle X CycleOk w')) = intervals (status w')
      \<and> cursor (status (after_cycle X CycleOk w')) = cursor (status w')"
  proof -
    have "status (snd (save X v)) = status v" for v
      by (rule fs_step_cases [of X "''collection_state_write''" "\<lambda>w. w\<lparr>disk_status := Some (status w)\<rparr>" v])
        (auto simp: save_def)
    then show ?thesis by (simp add: after_cycle_def Let_def)
  qed
  ultimately show ?thesis
    using finished schedule_parts(2) [OF sch] tracks_hours_cong [of "status (after_cycle X CycleOk w')" "status w'"]
    by (simp add: worker_round_def cyc ch w1)
qed

text \<open>Without a pending report, publishing leaves the status as it is.\<close>

lemma before_schedule_idle: "pending w = None \<Longrightarrow> status (before_schedule X st w) = status w"
proof -
  assume none: "pending w = None"
  obtain rr w1 where read: "read_pending X w = (rr, w1)" by (metis surj_pair)
  then have "status w1 = status w"
    by (auto simp: read_pending_def fs_step_def Let_def split: prod.splits fs_outcome.splits option.splits if_splits)
  moreover from read_pending_frame [OF read] none have "\<And>b. rr = Inr b \<Longrightarrow> b = None" by simp
  then have "publish_pending X st w = (map_ok (\<lambda>_. ()) rr, w1)"
    using read by (cases rr) (auto simp: publish_pending_def bind_io_def)
  ultimately show ?thesis by (simp add: before_schedule_def)
qed

definition chosen_in :: "('e, 'f) collector_externals \<Rightarrow> collection_settings \<Rightarrow> nat \<Rightarrow> 'e worker \<Rightarrow> nat list" where
  "chosen_in X st now w = fst (schedule st now (status (before_schedule X st w)))"

text \<open>As long as no round chose \<open>t\<close>, every round has brought the cursor nearer to it.\<close>

lemma passed_over:
  assumes laws: "lawful X" and hrs: "tracks_hours (status w)"
    and ok: "\<forall>i<n. fst (cycle X st ((worker_round X st ^^ i) w)) = Inr ()"
    and clock: "\<forall>i<n. round_clock X st ((worker_round X st ^^ i) w) = Some (clock i)" "mono clock"
    and due: "\<forall>i<n. due X st ((worker_round X st ^^ i) w) t"
    and out: "\<forall>i<n. t \<notin> set (chosen_in X st (clock i) ((worker_round X st ^^ i) w))"
    and few: "history_hours st \<le> n * intervals_per_cycle st"
  shows "m \<le> n \<Longrightarrow> tracks_hours (status ((worker_round X st ^^ m) w))
    \<and> (m = 0 \<or> pending ((worker_round X st ^^ m) w) = None
        \<and> (\<exists>c. cursor (status ((worker_round X st ^^ m) w)) = Some c \<and> c \<noteq> t \<and> HOUR dvd c
            \<and> c < window_end st (clock (m - 1))
            \<and> waiting (history_hours st) (c div HOUR) (t div HOUR) + m * intervals_per_cycle st < history_hours st))"
proof (induction m)
  case 0
  then show ?case using hrs by simp
next
  case (Suc m)
  let ?w = "(worker_round X st ^^ m) w" and ?k = "intervals_per_cycle st" and ?h = "history_hours st"
  let ?v = "before_schedule X st ?w" and ?a = "window_start st (clock m)" and ?b = "window_end st (clock m)"
  from Suc.prems have m: "m < n" by simp
  from Suc.IH m have th: "tracks_hours (status ?w)" by simp
  obtain cs s where sch: "schedule st (clock m) (status ?v) = (cs, s)" by (metis surj_pair)
  let ?ts = "eligible st ?b (intervals s)"
  have cs: "cs = take ?k (rotate_after (cursor (status ?v)) ?ts)" by (rule schedule_parts(1) [OF sch])
  have cyc: "fst (cycle X st ?w) = Inr ()" and clk: "round_clock X st ?w = Some (clock m)" using ok clock(1) m by blast+
  from cyc obtain u where pub: "publish_pending X st ?w = (Inr u, ?v)"
    by (cases "publish_pending X st ?w"; cases "fst (publish_pending X st ?w)")
      (auto simp: cycle_def bind_io_def before_schedule_def)
  note win = eligible_window [OF publish_pending_tracks_hours [OF pub th] sch]
  have t: "t \<in> set ?ts" using due m sch clk by (auto simp: due_def split: option.splits)
  have tout: "t \<notin> set (take ?k (rotate_after (cursor (status ?v)) ?ts))"
    using out m sch by (auto simp: chosen_in_def cs)
  have width: "?b \<le> ?a + ?h * HOUR" by (simp add: window_start_def)
  have k: "0 < ?k"
  proof (rule ccontr)
    assume "\<not> 0 < ?k"
    then have "?h = 0" using few by simp
    with width win(3) t show False by auto
  qed
  note progress = round_progress [OF win(2-4) window_aligned(2,1) width t tout k, folded cs]
  have finished: "pending (worker_round X st ?w) = None \<and> tracks_hours (status (worker_round X st ?w))
      \<and> cursor (status (worker_round X st ?w)) = Some (last cs)"
    using worker_round_done [OF cyc clk laws th] progress(1) by (simp add: sch)
  have l: "last cs \<noteq> t" "HOUR dvd last cs" "last cs < ?b" using progress(2) win(3,4) by auto
  have "waiting ?h (last cs div HOUR) (t div HOUR) + Suc m * ?k < ?h"
  proof (cases "m = 0")
    case True
    with progress(3) show ?thesis by simp
  next
    case False
    with Suc.IH m obtain c where c: "pending ?w = None" "cursor (status ?w) = Some c" "c \<noteq> t" "HOUR dvd c"
      "c < window_end st (clock (m - 1))" "waiting ?h (c div HOUR) (t div HOUR) + m * ?k < ?h"
      by (metis less_imp_le)
    have "clock (m - 1) \<le> clock m" using clock(2) by (simp add: monoD)
    then have "window_end st (clock (m - 1)) \<le> ?b" by (simp add: window_end_def div_le_mono diff_le_mono)
    with c(5) have "c < ?b" by linarith
    with progress(4) [of c] c before_schedule_idle [OF c(1), of X st] show ?thesis by simp
  qed
  with finished l show ?case by simp
qed

text \<open>
  C32. The collector starves no hour. Over any succession of rounds of the worker that succeed, under
  a clock that does not run backwards, with whatever becomes eligible or complete meanwhile: an hour
  that is due in each of them is fetched, stored, acknowledged by the destination and dropped in
  one of them, as soon as the rounds can serve as many hours as the recovery window has.
\<close>

theorem cursor_is_fair:
  assumes "lawful X" and "tracks_hours (status w)"
    and "0 < n" and "history_hours st \<le> n * intervals_per_cycle st"
    and "\<forall>i<n. fst (cycle X st ((worker_round X st ^^ i) w)) = Inr ()"
    and "\<forall>i<n. round_clock X st ((worker_round X st ^^ i) w) = Some (clock i)" and "mono clock"
    and "\<forall>i<n. due X st ((worker_round X st ^^ i) w) t"
  shows "\<exists>before after. history ((worker_round X st ^^ n) w)
           = history w @ before @ [Fetched t, Stored, Acknowledged, Dropped] @ after"
proof -
  let ?W = "\<lambda>i. (worker_round X st ^^ i) w"
  obtain i where i: "i < n" "t \<in> set (chosen_in X st (clock i) (?W i))"
    using passed_over [OF assms(1,2,5-8) _ assms(4), of n] assms(3,4) by fastforce
  have "tracks_hours (status (?W j))" if "j \<le> n" for j
    using that
  proof (induction j)
    case (Suc j)
    then show ?case using worker_round_done [of X st "?W j" "clock j"] assms(1,5,6) by simp
  qed (simp add: assms(2))
  with i(1) have th: "tracks_hours (status (?W i))" by simp
  have one: "fst (cycle X st (?W i)) = Inr ()" "round_clock X st (?W i) = Some (clock i)" using assms(5,6) i(1) by blast+
  obtain evs where evs: "history (?W (Suc i)) = history (?W i) @ evs
      @ concat (map collected_hour (chosen_in X st (clock i) (?W i)))"
    using worker_round_done [OF one assms(1) th] by (auto simp: chosen_in_def)
  from i(2) obtain xs ys where split: "chosen_in X st (clock i) (?W i) = xs @ t # ys" by (meson split_list)
  obtain pre where pre: "history (?W i) = history w @ pre"
    using worker_rounds_follow [of w i X st] unfolding follows_def by blast
  have "?W n = (worker_round X st ^^ (n - Suc i)) (?W (Suc i))"
    using i(1) by (metis Suc_leI comp_apply funpow_add le_add_diff_inverse2)
  then obtain post where "history (?W n) = history (?W (Suc i)) @ post"
    using worker_rounds_follow by (metis follows_def)
  with evs pre split show ?thesis
    by (intro exI [of _ "pre @ evs @ concat (map collected_hour xs)"]
        exI [of _ "concat (map collected_hour ys) @ post"]) (simp add: collected_hour_def)
qed

text \<open>An hour whose sources were all unavailable, and an outside in which everything succeeds.\<close>

definition hour_snapshot :: traffic_snapshot where
  "hour_snapshot =
     (let none = \<lparr>src_status = Failed, src_data = None, src_error = None\<rparr>
      in \<lparr>snap_start_ms = 3600000, snap_end_ms = 7200000, snap_activity = none, snap_graph = none, snap_wan = none\<rparr>)"

definition sample_outside :: "(unit, unit) collector_externals" where
  "sample_outside =
     \<lparr>sx_to_vec = (\<lambda>snap. if snap = hour_snapshot then Inr [] else Inl ''x''), sx_digest = id, sx_base64 = id,
      sx_activity = (\<lambda>_. Inl ''x''), sx_wan = (\<lambda>_. Inl ''x''), sx_name_json = (\<lambda>_. []), f_finite = (\<lambda>_. True),
      f_nonneg = (\<lambda>_. True), f_show = (\<lambda>_. []), f_sub = (\<lambda>_ _. ()), f_of_u64 = (\<lambda>_. ()),
      cx_send = (\<lambda>_ e. (Inr 204, e)), cx_fs = (\<lambda>e. (FsDone, e)), cx_now_ms = (\<lambda>_. Some (2 * HOUR)),
      cx_parse = (\<lambda>_. Some hour_snapshot),
      cx_collect = (\<lambda>win e. (if win_start win = 3600000 then Inr hour_snapshot else Inl (Config ''x''), e)),
      cx_pause = id\<rparr>"

definition sample_worker :: "unit worker" where
  "sample_worker =
     \<lparr>wenv = (), status = sample_status, disk_status = None, pending = None, sent = [], history = []\<rparr>"

lemma sample_outside_lawful: "lawful sample_outside"
  by (simp add: lawful_def sample_outside_def hour_snapshot_def HOUR_def Let_def)

lemma show_hour: "show_nat 3600000 = ''3600000''" "show_nat 7200000 = ''7200000''" "show_nat 0 = ''0''"
  by (simp_all add: show_nat.simps char_of_def bit_0)

lemma sample_publication:
  "\<exists>p. publication_build (sink_externals.truncate sample_outside) hour_snapshot (identity sample_collection) = Inr p"
proof -
  have "chunks_of 12000 ([] :: bytes) = []" by (subst chunks_of.simps) simp
  then show ?thesis
    by (simp add: publication_build_def sink_externals.defs sample_outside_def MAX_ARCHIVE_BYTES_def archive_lines_def
        activity_part_def wan_part_def hour_snapshot_def summary_head_def show_u64_def show_hour Sink.show_bool_def
        collected_def newline_def sample_collection_def Let_def)
qed

lemma sample_schedule:
  "schedule sample_collection (2 * HOUR) sample_status =
     ([HOUR], sample_status\<lparr>intervals := [(0, True), (HOUR, False)]\<rparr>)"
  by (simp add: schedule_def window_end_def window_start_def sample_collection_def sample_status_def skipped_hours_def
      HOUR_def hours_def or_insert_def eligible_def rotate_after_def Let_def upt_conv_Cons numeral_2_eq_2)

lemma acknowledged_writes: "fst (write_all (\<lambda>_ e. (Inr 204, e)) bodies v) = Inr ()"
  by (induction bodies arbitrary: v) (simp_all add: sink_write_def)

lemma sample_cycle: "fst (cycle sample_outside sample_collection sample_worker) = Inr ()"
proof -
  obtain p where p: "publication_build (sink_externals.truncate sample_outside) hour_snapshot (identity sample_collection) = Inr p"
    using sample_publication by blast
  have sends: "cx_send sample_outside = (\<lambda>_ e. (Inr 204, e))" by (simp add: sample_outside_def)
  obtain log where pub: "publish (cx_send sample_outside) p ((), []) = (Inr (), (), log)"
  proof -
    obtain r v where rv: "write_all (cx_send sample_outside) (batches p) ((), []) = (r, v)" by (metis surj_pair)
    with acknowledged_writes [of "batches p" "((), [])"] have "r = Inr ()" by (simp add: sends)
    with rv that show thesis by (auto simp: publish_def sink_write_def sends)
  qed
  have laws: "cx_fs sample_outside = (\<lambda>e. (FsDone, e))" "cx_now_ms sample_outside = (\<lambda>_. Some (2 * HOUR))"
    "cx_parse sample_outside = (\<lambda>_. Some hour_snapshot)" "sx_to_vec sample_outside hour_snapshot = Inr []"
    "cx_collect sample_outside = (\<lambda>win e. (if win_start win = 3600000 then Inr hour_snapshot else Inl (Config ''x''), e))"
    by (simp_all add: sample_outside_def)
  have hour: "activity_window_new (of_nat HOUR) (2 * of_nat HOUR) = Inr \<lparr>win_start = 3600000, win_stop = 7200000\<rparr>"
    by (simp add: activity_window_new_def HOUR_def)
  have whole: "whole_hour hour_snapshot"
    by (simp add: whole_hour_def hour_snapshot_def checked_add_def HOUR_def Let_def)
  have "collected hour_snapshot = False" by (simp add: collected_def hour_snapshot_def Let_def)
  then show ?thesis
    by (simp add: cycle_def bind_io_def publish_pending_def read_pending_def fs_step_def save_def write_pending_def
        remove_pending_def collect_one_def laws hour whole p pub sample_schedule sample_worker_def MAX_ARCHIVE_BYTES_def)
qed

theorem cursor_is_fair_witness:
  "\<exists>before after. history (worker_round sample_outside sample_collection sample_worker)
     = before @ [Fetched HOUR, Stored, Acknowledged, Dropped] @ after"
proof -
  have idle: "before_schedule sample_outside sample_collection sample_worker = sample_worker"
    by (simp add: before_schedule_def publish_pending_def read_pending_def fs_step_def bind_io_def sample_outside_def
        sample_worker_def)
  have clock: "round_clock sample_outside sample_collection sample_worker = Some (2 * HOUR)"
    by (simp add: round_clock_def sample_outside_def)
  have due: "due sample_outside sample_collection sample_worker HOUR"
    using clock idle
    by (simp add: due_def) (simp add: sample_worker_def sample_schedule; simp add: eligible_def sample_collection_def window_end_def HOUR_def)
  have "tracks_hours (status sample_worker)"
    by (simp add: tracks_hours_def sample_worker_def sample_status_def ordered_map_def)
  from cursor_is_fair [of sample_outside sample_worker 1 sample_collection "\<lambda>_. 2 * HOUR" HOUR,
      OF sample_outside_lawful this] sample_cycle clock due
  show ?thesis by (simp add: sample_collection_def sample_worker_def mono_def)
qed

lemma trim_intervals_length: "length (fst (trim_intervals m gaps)) \<le> 168"
  by (induction m gaps rule: trim_intervals.induct) auto

end
