(* ===== verification/Integration_Client.thy ===== *)
theory Integration_Client
  imports Legacy_Client Models
begin

text \<open>
  The client of the official Network Integration API (\<open>crates/unifi-api/src/client.rs\<close>): the
  request path with its one bounded retry of reads, and every operation built on it. Typed
  decoding is generated by serde, so an operation takes the decoder of its result as a
  parameter; an operation that returns a plain \<open>serde_json::Value\<close> uses the parser of the
  externals. A request body is the JSON value that is serialized.
\<close>

section \<open>Data\<close>

record 'a page =
  page_offset :: u64
  page_limit :: u64
  page_count :: u64
  total_count :: u64
  page_data :: "'a list"

record page_request =
  req_offset :: u64
  req_limit :: u32

datatype site_inventory_kind =
    InvClients | InvDevices | InvDeviceTags | InvLags | InvMcLagDomains | InvSwitchStacks
  | InvWanInterfaces | InvVpnServers | InvSiteToSiteVpnTunnels

datatype switching_detail_kind = DetailLag | DetailMcLagDomain | DetailSwitchStack

datatype inventory_detail_kind = DetailClient | DetailDevice | DetailDeviceStatistics

datatype dpi_catalog_kind = Applications | Categories

datatype network_policy_collection =
  AclRules | FirewallZones | FirewallPolicies | DnsPolicies | TrafficMatchingLists

record dpi_name =
  dpi_id :: u32
  dpi_display :: string

record guest_authorization_limits =
  time_limit_minutes :: "u64 option"
  data_usage_limit_m_bytes :: "u64 option"
  rx_rate_limit_kbps :: "u64 option"
  tx_rate_limit_kbps :: "u64 option"

text \<open>An authorization is only passed on, so its type is a parameter.\<close>

record 'g guest_action_response =
  guest_action :: string
  granted_authorization :: "'g option"
  revoked_authorization :: "'g option"

record voucher_create =
  vc_name :: string
  vc_count :: u32
  vc_time_limit_minutes :: u32
  vc_authorized_guest_limit :: "u64 option"
  vc_data_usage_limit_m_bytes :: "u64 option"
  vc_rx_rate_limit_kbps :: "u64 option"
  vc_tx_rate_limit_kbps :: "u64 option"

record 'e integration_client = "'e externals" +
  ic_base :: base_url
  ic_api_key :: string

definition jword :: "'a::len word \<Rightarrow> json" where
  "jword v = JNum (show_nat (unat v))"

definition limit_fields :: "guest_authorization_limits \<Rightarrow> (string \<times> json option) list" where
  "limit_fields l =
     [(''timeLimitMinutes'', map_option jword (time_limit_minutes l)),
      (''dataUsageLimitMBytes'', map_option jword (data_usage_limit_m_bytes l)),
      (''rxRateLimitKbps'', map_option jword (rx_rate_limit_kbps l)),
      (''txRateLimitKbps'', map_option jword (tx_rate_limit_kbps l))]"

text \<open>The actions of \<open>models.rs\<close>: an object tagged \<open>action\<close>, with the limits flattened in.\<close>

datatype client_action = AuthorizeGuestAccess guest_authorization_limits | UnauthorizeGuestAccess

fun client_action_json :: "client_action \<Rightarrow> json" where
  "client_action_json (AuthorizeGuestAccess limits) =
     JObj (set_fields ((''action'', Some (JStr ''AUTHORIZE_GUEST_ACCESS'')) # limit_fields limits))"
| "client_action_json UnauthorizeGuestAccess =
     JObj (set_fields [(''action'', Some (JStr ''UNAUTHORIZE_GUEST_ACCESS''))])"

definition device_action_restart :: json where
  "device_action_restart = JObj [(''action'', JStr ''RESTART'')]"

definition port_action_power_cycle :: json where
  "port_action_power_cycle = JObj [(''action'', JStr ''POWER_CYCLE'')]"

definition voucher_create_json :: "voucher_create \<Rightarrow> json" where
  "voucher_create_json v =
     JObj (set_fields
       [(''name'', Some (JStr (vc_name v))), (''count'', Some (jword (vc_count v))),
        (''timeLimitMinutes'', Some (jword (vc_time_limit_minutes v))),
        (''authorizedGuestLimit'', map_option jword (vc_authorized_guest_limit v)),
        (''dataUsageLimitMBytes'', map_option jword (vc_data_usage_limit_m_bytes v)),
        (''rxRateLimitKbps'', map_option jword (vc_rx_rate_limit_kbps v)),
        (''txRateLimitKbps'', map_option jword (vc_tx_rate_limit_kbps v))])"

section \<open>The request path\<close>

type_synonym ('e, 'w, 'a) api_call =
  "('e, 'w) net_scheme \<Rightarrow> (api_error + 'a) \<times> ('e, 'w) net_scheme"

definition integration_prefix :: "string list" where
  "integration_prefix = [''proxy'', ''network'', ''integration'', ''v1'']"

definition endpoint ::
  "('e, 'x) integration_client_scheme \<Rightarrow> string list \<Rightarrow> (string \<times> string) list \<Rightarrow> api_error + url" where
  "endpoint ic segments query = build_url (ic_base ic) (integration_prefix @ segments) query"

definition request_with_query ::
  "('e, 'x) integration_client_scheme \<Rightarrow> http_method \<Rightarrow> string list \<Rightarrow> (string \<times> string) list
     \<Rightarrow> api_error + request" where
  "request_with_query ic verb segments query =
     bind_res (endpoint ic segments query) (\<lambda>u.
       Inr \<lparr>rq_method = verb, rq_url = u,
            rq_headers = [(''X-API-KEY'', ic_api_key ic), (''accept'', ''application/json'')],
            rq_body = None\<rparr>)"

definition request_plain ::
  "('e, 'x) integration_client_scheme \<Rightarrow> http_method \<Rightarrow> string list \<Rightarrow> api_error + request" where
  "request_plain ic verb segments = request_with_query ic verb segments []"

definition bounded_error_message :: "(bytes \<Rightarrow> string) \<Rightarrow> response \<Rightarrow> api_error + bounded_message" where
  "bounded_error_message b64 response =
     map_ok (from_controller_bytes b64) (read_bounded_body response)"

definition send ::
  "('e, 'x) externals_scheme \<Rightarrow> request \<Rightarrow> ('e, 'w, response) api_call" where
  "send X request =
     bind_io (send_request X request) (\<lambda>response.
       return_io
         (let status = rs_status response
          in if is_success status then Inr response
             else if status = 429 then Inl (rate_limited_error (ext_b64 X) response)
             else bind_res (bounded_error_message (ext_b64 X) response)
                    (\<lambda>message. Inl (Status status message))))"

definition get_attempt ::
  "('e, 'x) integration_client_scheme \<Rightarrow> string list \<Rightarrow> (string \<times> string) list
     \<Rightarrow> ('e, 'w, response) api_call" where
  "get_attempt ic segments query =
     bind_io (return_io (request_with_query ic GET segments query)) (send ic)"

definition decode_body :: "'a decoder \<Rightarrow> ('e, 'x) externals_scheme \<Rightarrow> bytes \<Rightarrow> api_error + 'a" where
  "decode_body dec X bytes = map_err (\<lambda>err. decode_failure (ext_b64 X) err bytes) (dec bytes)"

definition get_json_with_response ::
  "'a decoder \<Rightarrow> ('e, 'x) integration_client_scheme \<Rightarrow> string list \<Rightarrow> (string \<times> string) list
     \<Rightarrow> ('e, 'w, 'a \<times> bytes) api_call" where
  "get_json_with_response dec ic segments query =
     bind_io
       (\<lambda>w. case get_attempt ic segments query w of
              (Inr response, w) \<Rightarrow> (Inr response, w)
            | (Inl err, w) \<Rightarrow>
                (case retry_delay err of
                   Some delay \<Rightarrow> get_attempt ic segments query (sleep ic delay w)
                 | None \<Rightarrow> (Inl err, w)))
       (\<lambda>response.
          return_io
            (bind_res (read_bounded_body response) (\<lambda>bytes.
             bind_res (decode_body dec ic bytes) (\<lambda>v. Inr (v, bytes)))))"

definition get_json ::
  "'a decoder \<Rightarrow> ('e, 'x) integration_client_scheme \<Rightarrow> string list \<Rightarrow> (string \<times> string) list
     \<Rightarrow> ('e, 'w, 'a) api_call" where
  "get_json dec ic segments query = map_io fst (get_json_with_response dec ic segments query)"

text \<open>
  A write: one request with its body, then the accepted status and the bounded body. The
  operations spell these lines out; \<open>accepted\<close> is \<open>send\<close> followed by reading status and body.
\<close>

definition accepted ::
  "('e, 'x) externals_scheme \<Rightarrow> (api_error + request) \<Rightarrow> ('e, 'w, nat \<times> bytes) api_call" where
  "accepted X request =
     bind_io (return_io request) (\<lambda>request.
     bind_io (send X request) (\<lambda>response.
       return_io (map_ok (\<lambda>body. (rs_status response, body)) (read_bounded_body response))))"

definition with_json :: "(api_error + request) \<Rightarrow> json \<Rightarrow> api_error + request" where
  "with_json request body = map_ok (\<lambda>r. r\<lparr>rq_body := Some body\<rparr>) request"

definition post_action ::
  "('e, 'x) integration_client_scheme \<Rightarrow> string list \<Rightarrow> json \<Rightarrow> ('e, 'w, nat \<times> bytes) api_call" where
  "post_action ic segments action = accepted ic (with_json (request_plain ic POST segments) action)"

definition accepted_record ::
  "'a decoder \<Rightarrow> ('e, 'x) externals_scheme \<Rightarrow> (api_error + request)
     \<Rightarrow> ('e, 'w, 'a \<times> nat \<times> bytes) api_call" where
  "accepted_record dec X request =
     bind_io (accepted X request) (\<lambda>(status, bytes).
       return_io (map_ok (\<lambda>result. (result, status, bytes)) (decode_body dec X bytes)))"

definition post_action_result ::
  "'a decoder \<Rightarrow> ('e, 'x) integration_client_scheme \<Rightarrow> string list \<Rightarrow> json
     \<Rightarrow> ('e, 'w, 'a \<times> nat \<times> bytes) api_call" where
  "post_action_result dec ic segments action =
     accepted_record dec ic (with_json (request_plain ic POST segments) action)"

definition page_query :: "page_request \<Rightarrow> (string \<times> string) list" where
  "page_query pg =
     [(''offset'', show_nat (unat (req_offset pg))), (''limit'', show_nat (unat (req_limit pg)))]"

text \<open>\<open>if let Some(filter) = filter { query.push(("filter", filter)) }\<close>.\<close>

definition filtered_query :: "page_request \<Rightarrow> string option \<Rightarrow> (string \<times> string) list" where
  "filtered_query pg flt =
     page_query pg @ (case flt of None \<Rightarrow> [] | Some f \<Rightarrow> [(''filter'', f)])"

text \<open>A read that also keeps the accepted response as a message.\<close>

definition get_with_message ::
  "'a decoder \<Rightarrow> ('e, 'x) integration_client_scheme \<Rightarrow> string list \<Rightarrow> (string \<times> string) list
     \<Rightarrow> ('e, 'w, 'a \<times> bounded_message) api_call" where
  "get_with_message dec ic segments query =
     map_io (\<lambda>(v, bytes). (v, from_controller_bytes (ext_b64 ic) bytes))
       (get_json_with_response dec ic segments query)"

section \<open>What goes on the wire\<close>

text \<open>
  A request of this client: to its own console, below the Integration prefix with the pushed
  segments literal, and with its key.
\<close>

definition integration_request :: "('e, 'x) integration_client_scheme \<Rightarrow> request \<Rightarrow> bool" where
  "integration_request ic r \<longleftrightarrow>
     url_base (rq_url r) = ic_base ic
     \<and> take 4 (url_segments (rq_url r)) = integration_prefix
     \<and> rq_headers r = [(''X-API-KEY'', ic_api_key ic), (''accept'', ''application/json'')]"

definition read_trace :: "('e, 'x) integration_client_scheme \<Rightarrow> io_event list \<Rightarrow> bool" where
  "read_trace ic tr \<longleftrightarrow>
     tr = [] \<or>
     (\<exists>r. integration_request ic r \<and> rq_method r = GET \<and> rq_body r = None
        \<and> (tr = [Sent r] \<or> (\<exists>d\<le>MAXIMUM_RETRY_AFTER. tr = [Sent r, Slept d, Sent r])))"

definition write_trace :: "('e, 'x) integration_client_scheme \<Rightarrow> io_event list \<Rightarrow> bool" where
  "write_trace ic tr \<longleftrightarrow>
     tr = [] \<or> (\<exists>r. integration_request ic r \<and> rq_method r \<noteq> GET \<and> tr = [Sent r])"

text \<open>The contract of a read and of a write, over the change each makes to the world.\<close>

locale integration_reader =
  fixes ic :: "('e, 'x) integration_client_scheme"
    and run :: "('e, 'w) net_scheme \<Rightarrow> ('e, 'w) net_scheme"
  assumes reads: "\<exists>tr. trace (run w) = trace w @ tr \<and> read_trace ic tr"
begin

lemma at_most_two_requests: "\<exists>tr. trace (run w) = trace w @ tr \<and> length tr \<le> 3"
proof -
  from reads [of w] obtain tr where "trace (run w) = trace w @ tr" "read_trace ic tr" by blast
  moreover from \<open>read_trace ic tr\<close> have "length tr \<le> 3" by (auto simp: read_trace_def)
  ultimately show ?thesis by blast
qed

end

locale integration_writer =
  fixes ic :: "('e, 'x) integration_client_scheme"
    and run :: "('e, 'w) net_scheme \<Rightarrow> ('e, 'w) net_scheme"
  assumes writes: "\<exists>tr. trace (run w) = trace w @ tr \<and> write_trace ic tr"
begin

lemma at_most_one_request: "\<exists>tr. trace (run w) = trace w @ tr \<and> length tr \<le> 1"
proof -
  from writes [of w] obtain tr where "trace (run w) = trace w @ tr" "write_trace ic tr" by blast
  moreover from \<open>write_trace ic tr\<close> have "length tr \<le> 1" by (auto simp: write_trace_def)
  ultimately show ?thesis by blast
qed

end

lemma snd_bind_io_pure:
  assumes "\<And>a w. snd (f a w) = w"
  shows "snd (bind_io m f w) = snd (m w)"
  using assms by (simp add: snd_bind_io split: sum.split)

lemma request_with_query_Inr:
  assumes "request_with_query ic verb segments query = Inr r"
  shows "integration_request ic r \<and> rq_method r = verb \<and> rq_body r = None
         \<and> url_segments (rq_url r) = integration_prefix @ segments \<and> url_query (rq_url r) = query"
proof -
  from assms obtain u where u: "build_url (ic_base ic) (integration_prefix @ segments) query = Inr u"
    and r: "r = \<lparr>rq_method = verb, rq_url = u,
       rq_headers = [(''X-API-KEY'', ic_api_key ic), (''accept'', ''application/json'')], rq_body = None\<rparr>"
    by (auto simp: request_with_query_def endpoint_def bind_res_eq_Inr)
  from u have "u = \<lparr>url_base = ic_base ic, url_segments = integration_prefix @ segments, url_query = query\<rparr>"
    unfolding build_url_iff by blast
  with r show ?thesis by (simp add: integration_request_def integration_prefix_def)
qed

lemma trace_send [simp]: "trace (snd (send X r w)) = trace w @ [Sent r]"
  unfolding send_def by (subst snd_bind_io_pure) simp_all

lemma get_attempt_Inl:
  "request_with_query ic GET segments query = Inl e \<Longrightarrow> get_attempt ic segments query w = (Inl e, w)"
  by (simp add: get_attempt_def bind_io_def)

lemma get_attempt_Inr:
  "request_with_query ic GET segments query = Inr r \<Longrightarrow> get_attempt ic segments query w = send ic r w"
  by (simp add: get_attempt_def bind_io_def)

lemma build_url_error_not_retried: "build_url b segments query = Inl e \<Longrightarrow> retry_delay e = None"
  by (auto simp: build_url_def push_segments_spec bind_res_eq_Inl split: if_splits option.splits)

lemma request_error_not_retried:
  "request_with_query ic verb segments query = Inl e \<Longrightarrow> retry_delay e = None"
  by (auto simp: request_with_query_def endpoint_def bind_res_eq_Inl build_url_error_not_retried)

lemma get_json_with_response_trace:
  "\<exists>tr. trace (snd (get_json_with_response dec ic segments query w)) = trace w @ tr \<and> read_trace ic tr"
proof (cases "request_with_query ic GET segments query")
  case (Inl e)
  then have "snd (get_json_with_response dec ic segments query w) = w"
    unfolding get_json_with_response_def
    by (subst snd_bind_io_pure) (simp_all add: get_attempt_Inl request_error_not_retried)
  then show ?thesis by (intro exI [of _ "[]"]) (simp add: read_trace_def)
next
  case (Inr r)
  obtain res w1 where first: "send ic r w = (res, w1)" by (metis surj_pair)
  then have t1: "trace w1 = trace w @ [Sent r]" by (metis snd_conv trace_send)
  from request_with_query_Inr [OF Inr] have ok: "integration_request ic r" "rq_method r = GET" "rq_body r = None"
    by blast+
  have "\<exists>tr. trace (snd (get_json_with_response dec ic segments query w)) = trace w @ tr
      \<and> (tr = [Sent r] \<or> (\<exists>d\<le>MAXIMUM_RETRY_AFTER. tr = [Sent r, Slept d, Sent r]))"
    unfolding get_json_with_response_def
    by (subst snd_bind_io_pure)
      (auto simp: get_attempt_Inr [OF Inr] first t1 dest: retry_delay_bound split: sum.split option.split)
  with ok show ?thesis unfolding read_trace_def by blast
qed

lemma accepted_trace:
  assumes "\<And>r. request = Inr r \<Longrightarrow> integration_request ic r \<and> rq_method r \<noteq> GET"
  shows "\<exists>tr. trace (snd (accepted ic request w)) = trace w @ tr \<and> write_trace ic tr"
proof (cases request)
  case (Inl e)
  then have "snd (accepted ic request w) = w" by (simp add: accepted_def snd_bind_io)
  then show ?thesis by (intro exI [of _ "[]"]) (simp add: write_trace_def)
next
  case (Inr r)
  have "trace (snd (accepted ic request w)) = trace w @ [Sent r]"
    unfolding accepted_def Inr by (simp add: snd_bind_io split: sum.split)
  with assms [OF Inr] show ?thesis by (auto simp: write_trace_def)
qed

lemma with_json_Inr:
  assumes "with_json (request_with_query ic verb segments query) body = Inr r"
  shows "integration_request ic r \<and> rq_method r = verb \<and> rq_body r = Some body"
proof -
  from assms obtain r0 where "request_with_query ic verb segments query = Inr r0"
    "r = r0\<lparr>rq_body := Some body\<rparr>"
    by (cases "request_with_query ic verb segments query") (auto simp: with_json_def map_ok_def)
  with request_with_query_Inr [of ic verb segments query r0] show ?thesis
    by (auto simp: integration_request_def)
qed

interpretation get_json_io: integration_reader ic "\<lambda>w. snd (get_json_with_response dec ic segments query w)"
  for ic :: "('e, 'x) integration_client_scheme" and dec :: "'a decoder" and segments query
  by unfold_locales (rule get_json_with_response_trace)

lemma post_action_trace:
  "\<exists>tr. trace (snd (post_action ic segments action w)) = trace w @ tr \<and> write_trace ic tr"
  unfolding post_action_def request_plain_def
  by (rule accepted_trace) (auto dest!: with_json_Inr)

interpretation post_io: integration_writer ic "\<lambda>w. snd (post_action ic segments action w)"
  for ic :: "('e, 'x) integration_client_scheme" and segments action
  by unfold_locales (rule post_action_trace)

interpretation delete_io: integration_writer ic
  "\<lambda>w. snd (accepted ic (request_with_query ic DELETE segments query) w)"
  for ic :: "('e, 'x) integration_client_scheme" and segments query
  by unfold_locales (auto intro!: accepted_trace dest!: request_with_query_Inr)

end
