(* ===== verification/Integration_Operations.thy ===== *)
theory Integration_Operations
  imports Integration_Client
begin

text \<open>
  The operations of the Integration API client (\<open>crates/unifi-api/src/client.rs\<close>): reads,
  which may be repeated once after a short rate limit, and writes, which are sent once. The
  theorems say what each group puts on the wire, and what the operations that judge their answer
  promise about it.
\<close>

section \<open>Reads\<close>

definition info ::
  "'a decoder \<Rightarrow> ('e, 'x) integration_client_scheme
     \<Rightarrow> ('e, 'w, 'a) api_call" where
  "info dec ic =
     get_json dec ic [''info''] []"

definition info_record ::
  "('e, 'x) integration_client_scheme
     \<Rightarrow> ('e, 'w, json) api_call" where
  "info_record ic =
     get_json (ext_value ic) ic [''info''] []"

fun catalog_segment :: "dpi_catalog_kind \<Rightarrow> string" where
  "catalog_segment Applications = ''applications''"
| "catalog_segment Categories = ''categories''"

definition dpi_catalog ::
  "'a page decoder \<Rightarrow> ('e, 'x) integration_client_scheme \<Rightarrow> dpi_catalog_kind \<Rightarrow> page_request \<Rightarrow> string option
     \<Rightarrow> ('e, 'w, 'a page \<times> bounded_message) api_call" where
  "dpi_catalog dec ic knd pg flt =
     get_with_message dec ic [''dpi'', catalog_segment knd] (filtered_query pg flt)"

definition MAXIMUM_DPI_NAME_IDS :: nat where
  "MAXIMUM_DPI_NAME_IDS = 50"

definition dpi_names ::
  "dpi_name page decoder \<Rightarrow> ('e, 'x) integration_client_scheme \<Rightarrow> u32 list \<Rightarrow> bool
     \<Rightarrow> ('e, 'w, dpi_name list) api_call" where
  "dpi_names dec ic ids categories =
     (if ids = [] \<or> length ids > MAXIMUM_DPI_NAME_IDS
      then return_io (Inl (Config ''DPI name selection must contain 1-50 IDs''))
      else
        bind_io (get_json_with_response dec ic
                   [''dpi'', if categories then ''categories'' else ''applications'']
                   [(''offset'', ''0''), (''limit'', ''50''),
                    (''filter'', ''id.in('' @ join CHR '','' (map (show_nat \<circ> unat) ids) @ '')'')])
          (\<lambda>(page, bytes).
             return_io
               (if length (page_data page) > length ids
                   \<or> list_ex (\<lambda>row. dpi_id row \<notin> set ids \<or> length (dpi_display row) > 4096)
                        (page_data page)
                then Inl (DecodeResponse (from_controller_bytes (ext_b64 ic) bytes)
                       (bounded_new ''unexpected DPI name selection''))
                else Inr (page_data page))))"

definition sites ::
  "'a page decoder \<Rightarrow> ('e, 'x) integration_client_scheme \<Rightarrow> page_request
     \<Rightarrow> ('e, 'w, 'a page) api_call" where
  "sites dec ic pg =
     get_json dec ic [''sites''] (page_query pg)"

fun inventory_segments :: "site_inventory_kind \<Rightarrow> string list" where
  "inventory_segments InvClients = [''clients'']"
| "inventory_segments InvDevices = [''devices'']"
| "inventory_segments InvDeviceTags = [''device-tags'']"
| "inventory_segments InvLags = [''switching'', ''lags'']"
| "inventory_segments InvMcLagDomains = [''switching'', ''mc-lag-domains'']"
| "inventory_segments InvSwitchStacks = [''switching'', ''switch-stacks'']"
| "inventory_segments InvWanInterfaces = [''wans'']"
| "inventory_segments InvVpnServers = [''vpn'', ''servers'']"
| "inventory_segments InvSiteToSiteVpnTunnels = [''vpn'', ''site-to-site-tunnels'']"

definition site_inventory ::
  "'a page decoder \<Rightarrow> ('e, 'x) integration_client_scheme \<Rightarrow> string \<Rightarrow> site_inventory_kind \<Rightarrow> page_request \<Rightarrow> string option
     \<Rightarrow> ('e, 'w, 'a page \<times> bounded_message) api_call" where
  "site_inventory dec ic site knd pg flt =
     get_with_message dec ic ([''sites'', site] @ inventory_segments knd) (filtered_query pg flt)"

definition countries ::
  "'a page decoder \<Rightarrow> ('e, 'x) integration_client_scheme \<Rightarrow> page_request \<Rightarrow> string option
     \<Rightarrow> ('e, 'w, 'a page \<times> bounded_message) api_call" where
  "countries dec ic pg flt =
     get_with_message dec ic [''countries''] (filtered_query pg flt)"

definition site_records ::
  "'a page decoder \<Rightarrow> ('e, 'x) integration_client_scheme \<Rightarrow> page_request \<Rightarrow> string option
     \<Rightarrow> ('e, 'w, 'a page \<times> bounded_message) api_call" where
  "site_records dec ic pg flt =
     get_with_message dec ic [''sites''] (filtered_query pg flt)"

definition device_detail_raw ::
  "('e, 'x) integration_client_scheme \<Rightarrow> string \<Rightarrow> string
     \<Rightarrow> ('e, 'w, json) api_call" where
  "device_detail_raw ic site rid =
     get_json (ext_value ic) ic [''sites'', site, ''devices'', rid] []"

fun inventory_detail ::
  "('e, 'x) integration_client_scheme \<Rightarrow> string \<Rightarrow> inventory_detail_kind \<Rightarrow> string
     \<Rightarrow> ('e, 'w, json) api_call" where
  "inventory_detail ic site DetailClient rid =
     get_json (ext_value ic) ic [''sites'', site, ''clients'', rid] []"
| "inventory_detail ic site DetailDevice rid = device_detail_raw ic site rid"
| "inventory_detail ic site DetailDeviceStatistics rid =
     get_json (ext_value ic) ic [''sites'', site, ''devices'', rid, ''statistics'', ''latest''] []"

fun switching_segment :: "switching_detail_kind \<Rightarrow> string" where
  "switching_segment DetailLag = ''lags''"
| "switching_segment DetailMcLagDomain = ''mc-lag-domains''"
| "switching_segment DetailSwitchStack = ''switch-stacks''"

definition switching_detail ::
  "('e, 'x) integration_client_scheme \<Rightarrow> string \<Rightarrow> switching_detail_kind \<Rightarrow> string
     \<Rightarrow> ('e, 'w, json) api_call" where
  "switching_detail ic site knd rid =
     get_json (ext_value ic) ic [''sites'', site, ''switching'', switching_segment knd, rid] []"

definition pending_devices ::
  "'a page decoder \<Rightarrow> ('e, 'x) integration_client_scheme \<Rightarrow> page_request \<Rightarrow> string option
     \<Rightarrow> ('e, 'w, 'a page \<times> bounded_message) api_call" where
  "pending_devices dec ic pg flt =
     get_with_message dec ic [''pending-devices''] (filtered_query pg flt)"

definition network_records ::
  "('e, 'x) integration_client_scheme \<Rightarrow> string \<Rightarrow> page_request \<Rightarrow> string option
     \<Rightarrow> ('e, 'w, json \<times> bounded_message) api_call" where
  "network_records ic site pg flt =
     get_with_message (ext_value ic) ic [''sites'', site, ''networks''] (filtered_query pg flt)"

definition network_record ::
  "('e, 'x) integration_client_scheme \<Rightarrow> string \<Rightarrow> string
     \<Rightarrow> ('e, 'w, json) api_call" where
  "network_record ic site rid =
     get_json (ext_value ic) ic [''sites'', site, ''networks'', rid] []"

definition network_references ::
  "('e, 'x) integration_client_scheme \<Rightarrow> string \<Rightarrow> string
     \<Rightarrow> ('e, 'w, json) api_call" where
  "network_references ic site rid =
     get_json (ext_value ic) ic [''sites'', site, ''networks'', rid, ''references''] []"

fun collection_segments :: "network_policy_collection \<Rightarrow> string list" where
  "collection_segments AclRules = [''acl-rules'']"
| "collection_segments DnsPolicies = [''dns'', ''policies'']"
| "collection_segments FirewallZones = [''firewall'', ''zones'']"
| "collection_segments FirewallPolicies = [''firewall'', ''policies'']"
| "collection_segments TrafficMatchingLists = [''traffic-matching-lists'']"

definition policy_segments :: "string \<Rightarrow> network_policy_collection \<Rightarrow> string option \<Rightarrow> string list" where
  "policy_segments site coll rid =
     [''sites'', site] @ collection_segments coll @ (case rid of None \<Rightarrow> [] | Some i \<Rightarrow> [i])"

definition network_policy_page ::
  "'a page decoder \<Rightarrow> ('e, 'x) integration_client_scheme \<Rightarrow> string \<Rightarrow> network_policy_collection \<Rightarrow> page_request \<Rightarrow> string option
     \<Rightarrow> ('e, 'w, 'a page \<times> bounded_message) api_call" where
  "network_policy_page dec ic site coll pg flt =
     get_with_message dec ic ([''sites'', site] @ collection_segments coll) (filtered_query pg flt)"

definition network_policy_detail ::
  "('e, 'x) integration_client_scheme \<Rightarrow> string \<Rightarrow> network_policy_collection \<Rightarrow> string
     \<Rightarrow> ('e, 'w, json) api_call" where
  "network_policy_detail ic site coll rid =
     get_json (ext_value ic) ic ([''sites'', site] @ collection_segments coll @ [rid]) []"

definition acl_rule_ordering ::
  "('e, 'x) integration_client_scheme \<Rightarrow> string
     \<Rightarrow> ('e, 'w, json) api_call" where
  "acl_rule_ordering ic site =
     get_json (ext_value ic) ic [''sites'', site, ''acl-rules'', ''ordering''] []"

definition firewall_policy_ordering ::
  "('e, 'x) integration_client_scheme \<Rightarrow> string
     \<Rightarrow> ('e, 'w, json) api_call" where
  "firewall_policy_ordering ic site =
     get_json (ext_value ic) ic [''sites'', site, ''firewall'', ''policies'', ''ordering''] []"

definition radius_profile_records ::
  "'a page decoder \<Rightarrow> ('e, 'x) integration_client_scheme \<Rightarrow> string \<Rightarrow> page_request \<Rightarrow> string option
     \<Rightarrow> ('e, 'w, 'a page \<times> bounded_message) api_call" where
  "radius_profile_records dec ic site pg flt =
     get_with_message dec ic [''sites'', site, ''radius'', ''profiles''] (filtered_query pg flt)"

definition radius_profiles_with_response ::
  "'a page decoder \<Rightarrow> ('e, 'x) integration_client_scheme \<Rightarrow> string \<Rightarrow> page_request
     \<Rightarrow> ('e, 'w, 'a page \<times> bounded_message) api_call" where
  "radius_profiles_with_response dec ic site pg =
     radius_profile_records dec ic site pg None"

definition radius_profiles ::
  "'a page decoder \<Rightarrow> ('e, 'x) integration_client_scheme \<Rightarrow> string \<Rightarrow> page_request
     \<Rightarrow> ('e, 'w, 'a page) api_call" where
  "radius_profiles dec ic site pg =
     map_io fst (radius_profiles_with_response dec ic site pg)"

definition wifi_broadcasts_with_response ::
  "'a page decoder \<Rightarrow> ('e, 'x) integration_client_scheme \<Rightarrow> string \<Rightarrow> page_request
     \<Rightarrow> ('e, 'w, 'a page \<times> bounded_message) api_call" where
  "wifi_broadcasts_with_response dec ic site pg =
     get_with_message dec ic [''sites'', site, ''wifi'', ''broadcasts''] (page_query pg)"

definition wifi_broadcasts ::
  "'a page decoder \<Rightarrow> ('e, 'x) integration_client_scheme \<Rightarrow> string \<Rightarrow> page_request
     \<Rightarrow> ('e, 'w, 'a page) api_call" where
  "wifi_broadcasts dec ic site pg =
     map_io fst (wifi_broadcasts_with_response dec ic site pg)"

definition wifi_broadcast_records ::
  "('e, 'x) integration_client_scheme \<Rightarrow> string \<Rightarrow> page_request \<Rightarrow> string option
     \<Rightarrow> ('e, 'w, json \<times> bounded_message) api_call" where
  "wifi_broadcast_records ic site pg flt =
     get_with_message (ext_value ic) ic [''sites'', site, ''wifi'', ''broadcasts''] (filtered_query pg flt)"

definition wifi_broadcast ::
  "'a decoder \<Rightarrow> ('e, 'x) integration_client_scheme \<Rightarrow> string \<Rightarrow> string
     \<Rightarrow> ('e, 'w, 'a) api_call" where
  "wifi_broadcast dec ic site rid =
     get_json dec ic [''sites'', site, ''wifi'', ''broadcasts'', rid] []"

definition devices ::
  "'a page decoder \<Rightarrow> ('e, 'x) integration_client_scheme \<Rightarrow> string \<Rightarrow> page_request
     \<Rightarrow> ('e, 'w, 'a page) api_call" where
  "devices dec ic site pg =
     get_json dec ic [''sites'', site, ''devices''] (page_query pg)"

definition device_detail ::
  "'a decoder \<Rightarrow> ('e, 'x) integration_client_scheme \<Rightarrow> string \<Rightarrow> string
     \<Rightarrow> ('e, 'w, 'a) api_call" where
  "device_detail dec ic site rid =
     get_json dec ic [''sites'', site, ''devices'', rid] []"

definition device_statistics ::
  "'a decoder \<Rightarrow> ('e, 'x) integration_client_scheme \<Rightarrow> string \<Rightarrow> string
     \<Rightarrow> ('e, 'w, 'a) api_call" where
  "device_statistics dec ic site rid =
     get_json dec ic [''sites'', site, ''devices'', rid, ''statistics'', ''latest''] []"

definition clients ::
  "'a page decoder \<Rightarrow> ('e, 'x) integration_client_scheme \<Rightarrow> string \<Rightarrow> page_request
     \<Rightarrow> ('e, 'w, 'a page) api_call" where
  "clients dec ic site pg =
     get_json dec ic [''sites'', site, ''clients''] (page_query pg)"

definition client_detail_with_response ::
  "'a decoder \<Rightarrow> ('e, 'x) integration_client_scheme \<Rightarrow> string \<Rightarrow> string
     \<Rightarrow> ('e, 'w, 'a \<times> bounded_message) api_call" where
  "client_detail_with_response dec ic site rid =
     get_with_message dec ic [''sites'', site, ''clients'', rid] []"

definition client_detail ::
  "'a decoder \<Rightarrow> ('e, 'x) integration_client_scheme \<Rightarrow> string \<Rightarrow> string
     \<Rightarrow> ('e, 'w, 'a) api_call" where
  "client_detail dec ic site rid =
     map_io fst (client_detail_with_response dec ic site rid)"

definition vouchers_with_response ::
  "'a page decoder \<Rightarrow> ('e, 'x) integration_client_scheme \<Rightarrow> string \<Rightarrow> page_request
     \<Rightarrow> ('e, 'w, 'a page \<times> bounded_message) api_call" where
  "vouchers_with_response dec ic site pg =
     get_with_message dec ic [''sites'', site, ''hotspot'', ''vouchers''] (page_query pg)"

definition vouchers ::
  "'a page decoder \<Rightarrow> ('e, 'x) integration_client_scheme \<Rightarrow> string \<Rightarrow> page_request
     \<Rightarrow> ('e, 'w, 'a page) api_call" where
  "vouchers dec ic site pg =
     map_io fst (vouchers_with_response dec ic site pg)"

definition voucher_records ::
  "'a page decoder \<Rightarrow> ('e, 'x) integration_client_scheme \<Rightarrow> string \<Rightarrow> page_request \<Rightarrow> string option
     \<Rightarrow> ('e, 'w, 'a page \<times> bounded_message) api_call" where
  "voucher_records dec ic site pg flt =
     get_with_message dec ic [''sites'', site, ''hotspot'', ''vouchers''] (filtered_query pg flt)"

definition voucher_with_response ::
  "'a decoder \<Rightarrow> ('e, 'x) integration_client_scheme \<Rightarrow> string \<Rightarrow> string
     \<Rightarrow> ('e, 'w, 'a \<times> bounded_message) api_call" where
  "voucher_with_response dec ic site rid =
     get_with_message dec ic [''sites'', site, ''hotspot'', ''vouchers'', rid] []"

definition voucher ::
  "'a decoder \<Rightarrow> ('e, 'x) integration_client_scheme \<Rightarrow> string \<Rightarrow> string
     \<Rightarrow> ('e, 'w, 'a) api_call" where
  "voucher dec ic site rid =
     map_io fst (voucher_with_response dec ic site rid)"

definition firewall_zones ::
  "'a page decoder \<Rightarrow> ('e, 'x) integration_client_scheme \<Rightarrow> string \<Rightarrow> page_request
     \<Rightarrow> ('e, 'w, 'a page) api_call" where
  "firewall_zones dec ic site pg =
     get_json dec ic [''sites'', site, ''firewall'', ''zones''] (page_query pg)"

definition firewall_policies ::
  "'a page decoder \<Rightarrow> ('e, 'x) integration_client_scheme \<Rightarrow> string \<Rightarrow> page_request
     \<Rightarrow> ('e, 'w, 'a page) api_call" where
  "firewall_policies dec ic site pg =
     get_json dec ic [''sites'', site, ''firewall'', ''policies''] (page_query pg)"

text \<open>
  The policy snapshot goes around \<open>get_json\<close> in the source: one request, never repeated. The
  record is a \<open>BTreeMap\<close> from property names to the text the controller sent.
\<close>

type_synonym raw_record = "(string \<times> string) list"

definition firewall_policy_snapshot_with_response ::
  "raw_record decoder \<Rightarrow> ('e, 'x) integration_client_scheme \<Rightarrow> string \<Rightarrow> string
     \<Rightarrow> ('e, 'w, raw_record \<times> record_fingerprint \<times> bounded_message) api_call" where
  "firewall_policy_snapshot_with_response dec ic site rid =
     bind_io (return_io (request_plain ic GET [''sites'', site, ''firewall'', ''policies'', rid])) (\<lambda>request.
     bind_io (send ic request) (\<lambda>response.
       return_io
         (bind_res (read_bounded_body response) (\<lambda>bytes.
          bind_res (decode_body dec ic bytes) (\<lambda>r.
            Inr (r, from_raw_record r, from_controller_bytes (ext_b64 ic) bytes))))))"

definition firewall_policy_snapshot ::
  "raw_record decoder \<Rightarrow> ('e, 'x) integration_client_scheme \<Rightarrow> string \<Rightarrow> string
     \<Rightarrow> ('e, 'w, raw_record \<times> record_fingerprint) api_call" where
  "firewall_policy_snapshot dec ic site rid =
     map_io (\<lambda>(r, fp, _). (r, fp)) (firewall_policy_snapshot_with_response dec ic site rid)"

section \<open>Writes\<close>

definition adopt_device ::
  "('e, 'x) integration_client_scheme \<Rightarrow> string \<Rightarrow> string \<Rightarrow> bool
     \<Rightarrow> ('e, 'w, json) api_call" where
  "adopt_device ic site mac ignore_limit =
     map_io fst (post_action_result (ext_value ic) ic [''sites'', site, ''devices'']
       (JObj [(''ignoreDeviceLimit'', JBool ignore_limit), (''macAddress'', JStr mac)]))"

definition remove_device ::
  "('e, 'x) integration_client_scheme \<Rightarrow> string \<Rightarrow> string
     \<Rightarrow> ('e, 'w, nat \<times> bytes) api_call" where
  "remove_device ic site rid =
     accepted ic (request_plain ic DELETE [''sites'', site, ''devices'', rid])"

definition create_network ::
  "('e, 'x) integration_client_scheme \<Rightarrow> string \<Rightarrow> json
     \<Rightarrow> ('e, 'w, nat \<times> bytes) api_call" where
  "create_network ic site body =
     accepted ic (with_json (request_plain ic POST [''sites'', site, ''networks'']) body)"

definition replace_network ::
  "('e, 'x) integration_client_scheme \<Rightarrow> string \<Rightarrow> string \<Rightarrow> json
     \<Rightarrow> ('e, 'w, nat \<times> bytes) api_call" where
  "replace_network ic site rid body =
     accepted ic (with_json (request_plain ic PUT [''sites'', site, ''networks'', rid]) body)"

text \<open>\<open>bool::to_string\<close>.\<close>

definition show_flag :: "bool \<Rightarrow> string" where
  "show_flag b = (if b then ''true'' else ''false'')"

definition delete_network ::
  "('e, 'x) integration_client_scheme \<Rightarrow> string \<Rightarrow> string \<Rightarrow> bool
     \<Rightarrow> ('e, 'w, nat \<times> bytes) api_call" where
  "delete_network ic site rid force =
     accepted ic (request_with_query ic DELETE [''sites'', site, ''networks'', rid]
       [(''force'', show_flag force)])"

definition network_policy_record_write ::
  "('e, 'x) integration_client_scheme \<Rightarrow> http_method \<Rightarrow> string \<Rightarrow> network_policy_collection
     \<Rightarrow> string option \<Rightarrow> json \<Rightarrow> ('e, 'w, nat \<times> json) api_call" where
  "network_policy_record_write ic verb site coll rid body =
     map_io (\<lambda>(record, status, _). (status, record))
       (accepted_record (ext_value ic) ic
         (with_json (request_plain ic verb (policy_segments site coll rid)) body))"

definition network_policy_create ::
  "('e, 'x) integration_client_scheme \<Rightarrow> string \<Rightarrow> network_policy_collection \<Rightarrow> json
     \<Rightarrow> ('e, 'w, nat \<times> json) api_call" where
  "network_policy_create ic site coll body =
     network_policy_record_write ic POST site coll None body"

definition network_policy_update ::
  "('e, 'x) integration_client_scheme \<Rightarrow> string \<Rightarrow> network_policy_collection \<Rightarrow> string \<Rightarrow> json
     \<Rightarrow> ('e, 'w, nat \<times> json) api_call" where
  "network_policy_update ic site coll rid body =
     network_policy_record_write ic PUT site coll (Some rid) body"

definition network_policy_delete ::
  "('e, 'x) integration_client_scheme \<Rightarrow> string \<Rightarrow> network_policy_collection \<Rightarrow> string
     \<Rightarrow> ('e, 'w, nat \<times> bytes) api_call" where
  "network_policy_delete ic site coll rid =
     accepted ic (request_plain ic DELETE (policy_segments site coll (Some rid)))"

definition replace_acl_rule_ordering ::
  "('e, 'x) integration_client_scheme \<Rightarrow> string \<Rightarrow> string list
     \<Rightarrow> ('e, 'w, nat \<times> json) api_call" where
  "replace_acl_rule_ordering ic site ids =
     map_io (\<lambda>(r, status, _). (status, r))
       (accepted_record (ext_value ic) ic
         (with_json (request_plain ic PUT [''sites'', site, ''acl-rules'', ''ordering''])
           (JObj [(''orderedAclRuleIds'', JArr (map JStr ids))])))"

definition replace_firewall_policy_ordering ::
  "('e, 'x) integration_client_scheme \<Rightarrow> string \<Rightarrow> string list \<Rightarrow> string list
     \<Rightarrow> ('e, 'w, nat \<times> json) api_call" where
  "replace_firewall_policy_ordering ic site bef aft =
     map_io (\<lambda>(r, status, _). (status, r))
       (accepted_record (ext_value ic) ic
         (with_json (request_plain ic PUT [''sites'', site, ''firewall'', ''policies'', ''ordering''])
           (JObj [(''orderedFirewallPolicyIds'',
              JObj [(''afterSystemDefined'', JArr (map JStr aft)),
                    (''beforeSystemDefined'', JArr (map JStr bef))])])))"

definition create_wifi_broadcast ::
  "('e, 'x) integration_client_scheme \<Rightarrow> string \<Rightarrow> json
     \<Rightarrow> ('e, 'w, nat \<times> bytes) api_call" where
  "create_wifi_broadcast ic site body =
     accepted ic (with_json (request_plain ic POST [''sites'', site, ''wifi'', ''broadcasts'']) body)"

definition replace_wifi_broadcast ::
  "('e, 'x) integration_client_scheme \<Rightarrow> string \<Rightarrow> string \<Rightarrow> json
     \<Rightarrow> ('e, 'w, nat \<times> bytes) api_call" where
  "replace_wifi_broadcast ic site rid body =
     accepted ic (with_json (request_plain ic PUT [''sites'', site, ''wifi'', ''broadcasts'', rid]) body)"

definition delete_wifi_broadcast ::
  "('e, 'x) integration_client_scheme \<Rightarrow> string \<Rightarrow> string \<Rightarrow> bool
     \<Rightarrow> ('e, 'w, nat \<times> bytes) api_call" where
  "delete_wifi_broadcast ic site rid force =
     accepted ic (request_with_query ic DELETE [''sites'', site, ''wifi'', ''broadcasts'', rid]
       [(''force'', show_flag force)])"

definition integration_restart_device ::
  "('e, 'x) integration_client_scheme \<Rightarrow> string \<Rightarrow> string
     \<Rightarrow> ('e, 'w, nat \<times> bytes) api_call" where
  "integration_restart_device ic site rid =
     post_action ic [''sites'', site, ''devices'', rid, ''actions''] device_action_restart"

definition power_cycle_port ::
  "('e, 'x) integration_client_scheme \<Rightarrow> string \<Rightarrow> string \<Rightarrow> u32
     \<Rightarrow> ('e, 'w, nat \<times> bytes) api_call" where
  "power_cycle_port ic site rid port_index =
     post_action ic [''sites'', site, ''devices'', rid, ''interfaces'', ''ports'',
       show_nat (unat port_index), ''actions''] port_action_power_cycle"

definition outside :: "u64 \<Rightarrow> u64 \<Rightarrow> u64 option \<Rightarrow> bool" where
  "outside low high v \<longleftrightarrow> (case v of None \<Rightarrow> False | Some x \<Rightarrow> \<not> (low \<le> x \<and> x \<le> high))"

definition validate_guest_limits :: "guest_authorization_limits \<Rightarrow> api_error + unit" where
  "validate_guest_limits limits =
     (if outside 1 1000000 (time_limit_minutes limits)
         \<or> outside 1 1048576 (data_usage_limit_m_bytes limits)
         \<or> outside 2 100000 (rx_rate_limit_kbps limits)
         \<or> outside 2 100000 (tx_rate_limit_kbps limits)
      then Inl (Config ''guest authorization limits are outside the Integration API ranges'')
      else Inr ())"

definition authorize_guest ::
  "'g guest_action_response decoder \<Rightarrow> ('e, 'x) integration_client_scheme \<Rightarrow> string \<Rightarrow> string
     \<Rightarrow> guest_authorization_limits \<Rightarrow> ('e, 'w, 'g guest_action_response \<times> nat \<times> bytes) api_call" where
  "authorize_guest dec ic site rid limits =
     bind_io (return_io (validate_guest_limits limits)) (\<lambda>_.
     bind_io (post_action_result dec ic [''sites'', site, ''clients'', rid, ''actions'']
                (client_action_json (AuthorizeGuestAccess limits))) (\<lambda>(result, status, bytes).
       return_io
         (if guest_action result \<noteq> ''AUTHORIZE_GUEST_ACCESS'' \<or> granted_authorization result = None
          then Inl (with_controller_response (ext_b64 ic)
                 (SchemaMismatch ''guests.authorize'' (bounded_new ''action/grantedAuthorization'') None)
                 bytes)
          else Inr (result, status, bytes))))"

definition unauthorize_guest ::
  "'g guest_action_response decoder \<Rightarrow> ('e, 'x) integration_client_scheme \<Rightarrow> string \<Rightarrow> string
     \<Rightarrow> ('e, 'w, 'g guest_action_response \<times> nat \<times> bytes) api_call" where
  "unauthorize_guest dec ic site rid =
     bind_io (post_action_result dec ic [''sites'', site, ''clients'', rid, ''actions'']
                (client_action_json UnauthorizeGuestAccess)) (\<lambda>(result, status, bytes).
       return_io
         (if guest_action result \<noteq> ''UNAUTHORIZE_GUEST_ACCESS'' \<or> revoked_authorization result = None
          then Inl (with_controller_response (ext_b64 ic)
                 (SchemaMismatch ''guests.unauthorize'' (bounded_new ''action/revokedAuthorization'') None)
                 bytes)
          else Inr (result, status, bytes)))"

definition delete_matching_vouchers ::
  "('e, 'x) integration_client_scheme \<Rightarrow> string \<Rightarrow> string
     \<Rightarrow> ('e, 'w, nat \<times> bytes) api_call" where
  "delete_matching_vouchers ic site flt =
     accepted ic (request_with_query ic DELETE [''sites'', site, ''hotspot'', ''vouchers''] [(''filter'', flt)])"

definition create_vouchers_with_response ::
  "'a decoder \<Rightarrow> ('e, 'x) integration_client_scheme \<Rightarrow> string \<Rightarrow> voucher_create
     \<Rightarrow> ('e, 'w, 'a \<times> nat \<times> bytes) api_call" where
  "create_vouchers_with_response dec ic site v =
     bind_io (post_action ic [''sites'', site, ''hotspot'', ''vouchers''] (voucher_create_json v))
       (\<lambda>(status, bytes).
          return_io (map_ok (\<lambda>created. (created, status, bytes)) (decode_body dec ic bytes)))"

definition create_vouchers ::
  "'a decoder \<Rightarrow> ('e, 'x) integration_client_scheme \<Rightarrow> string \<Rightarrow> voucher_create
     \<Rightarrow> ('e, 'w, 'a) api_call" where
  "create_vouchers dec ic site v =
     map_io fst (create_vouchers_with_response dec ic site v)"

definition delete_voucher ::
  "('e, 'x) integration_client_scheme \<Rightarrow> string \<Rightarrow> string
     \<Rightarrow> ('e, 'w, nat \<times> bytes) api_call" where
  "delete_voucher ic site rid =
     accepted ic (request_plain ic DELETE [''sites'', site, ''hotspot'', ''vouchers'', rid])"

definition patch_firewall_policy_logging ::
  "('e, 'x) integration_client_scheme \<Rightarrow> string \<Rightarrow> string \<Rightarrow> bool
     \<Rightarrow> ('e, 'w, nat \<times> bytes) api_call" where
  "patch_firewall_policy_logging ic site rid logging_enabled =
     accepted ic (with_json (request_plain ic PATCH [''sites'', site, ''firewall'', ''policies'', rid])
       (JObj [(''loggingEnabled'', JBool logging_enabled)]))"

text \<open>
  The record goes back as the texts it was read as; \<open>raw\<close> gives the value serde writes for such
  a text.
\<close>

definition replace_firewall_policy ::
  "(string \<Rightarrow> json) \<Rightarrow> ('e, 'x) integration_client_scheme \<Rightarrow> string \<Rightarrow> string \<Rightarrow> raw_record
     \<Rightarrow> ('e, 'w, nat \<times> bytes) api_call" where
  "replace_firewall_policy raw ic site rid r =
     accepted ic (with_json (request_plain ic PUT [''sites'', site, ''firewall'', ''policies'', rid])
       (JObj (map (\<lambda>(name, text). (name, raw text)) r)))"

definition delete_firewall_policy ::
  "('e, 'x) integration_client_scheme \<Rightarrow> string \<Rightarrow> string
     \<Rightarrow> ('e, 'w, nat \<times> bytes) api_call" where
  "delete_firewall_policy ic site rid =
     accepted ic (request_plain ic DELETE [''sites'', site, ''firewall'', ''policies'', rid])"

section \<open>What the operations put on the wire\<close>

text \<open>Every read and every write of the client, as a change of the world.\<close>

inductive integration_read ::
  "'a decoder \<Rightarrow> 'a page decoder \<Rightarrow> dpi_name page decoder \<Rightarrow> raw_record decoder
     \<Rightarrow> ('e, 'x) integration_client_scheme \<Rightarrow> (('e, 'w) net_scheme \<Rightarrow> ('e, 'w) net_scheme) \<Rightarrow> bool"
  for dec pdec ndec rdec ic where
  "integration_read dec pdec ndec rdec ic (\<lambda>w. snd (info dec ic w))"
| "integration_read dec pdec ndec rdec ic (\<lambda>w. snd (info_record ic w))"
| "integration_read dec pdec ndec rdec ic (\<lambda>w. snd (dpi_catalog pdec ic knd pg flt w))"
| "integration_read dec pdec ndec rdec ic (\<lambda>w. snd (dpi_names ndec ic ids categories w))"
| "integration_read dec pdec ndec rdec ic (\<lambda>w. snd (sites pdec ic pg w))"
| "integration_read dec pdec ndec rdec ic (\<lambda>w. snd (site_inventory pdec ic site knd pg flt w))"
| "integration_read dec pdec ndec rdec ic (\<lambda>w. snd (countries pdec ic pg flt w))"
| "integration_read dec pdec ndec rdec ic (\<lambda>w. snd (site_records pdec ic pg flt w))"
| "integration_read dec pdec ndec rdec ic (\<lambda>w. snd (device_detail_raw ic site rid w))"
| "integration_read dec pdec ndec rdec ic (\<lambda>w. snd (inventory_detail ic site dkind rid w))"
| "integration_read dec pdec ndec rdec ic (\<lambda>w. snd (switching_detail ic site knd rid w))"
| "integration_read dec pdec ndec rdec ic (\<lambda>w. snd (pending_devices pdec ic pg flt w))"
| "integration_read dec pdec ndec rdec ic (\<lambda>w. snd (network_records ic site pg flt w))"
| "integration_read dec pdec ndec rdec ic (\<lambda>w. snd (network_record ic site rid w))"
| "integration_read dec pdec ndec rdec ic (\<lambda>w. snd (network_references ic site rid w))"
| "integration_read dec pdec ndec rdec ic (\<lambda>w. snd (network_policy_page pdec ic site coll pg flt w))"
| "integration_read dec pdec ndec rdec ic (\<lambda>w. snd (network_policy_detail ic site coll rid w))"
| "integration_read dec pdec ndec rdec ic (\<lambda>w. snd (acl_rule_ordering ic site w))"
| "integration_read dec pdec ndec rdec ic (\<lambda>w. snd (firewall_policy_ordering ic site w))"
| "integration_read dec pdec ndec rdec ic (\<lambda>w. snd (radius_profile_records pdec ic site pg flt w))"
| "integration_read dec pdec ndec rdec ic (\<lambda>w. snd (radius_profiles_with_response pdec ic site pg w))"
| "integration_read dec pdec ndec rdec ic (\<lambda>w. snd (radius_profiles pdec ic site pg w))"
| "integration_read dec pdec ndec rdec ic (\<lambda>w. snd (wifi_broadcasts_with_response pdec ic site pg w))"
| "integration_read dec pdec ndec rdec ic (\<lambda>w. snd (wifi_broadcasts pdec ic site pg w))"
| "integration_read dec pdec ndec rdec ic (\<lambda>w. snd (wifi_broadcast_records ic site pg flt w))"
| "integration_read dec pdec ndec rdec ic (\<lambda>w. snd (wifi_broadcast dec ic site rid w))"
| "integration_read dec pdec ndec rdec ic (\<lambda>w. snd (devices pdec ic site pg w))"
| "integration_read dec pdec ndec rdec ic (\<lambda>w. snd (device_detail dec ic site rid w))"
| "integration_read dec pdec ndec rdec ic (\<lambda>w. snd (device_statistics dec ic site rid w))"
| "integration_read dec pdec ndec rdec ic (\<lambda>w. snd (clients pdec ic site pg w))"
| "integration_read dec pdec ndec rdec ic (\<lambda>w. snd (client_detail_with_response dec ic site rid w))"
| "integration_read dec pdec ndec rdec ic (\<lambda>w. snd (client_detail dec ic site rid w))"
| "integration_read dec pdec ndec rdec ic (\<lambda>w. snd (vouchers_with_response pdec ic site pg w))"
| "integration_read dec pdec ndec rdec ic (\<lambda>w. snd (vouchers pdec ic site pg w))"
| "integration_read dec pdec ndec rdec ic (\<lambda>w. snd (voucher_records pdec ic site pg flt w))"
| "integration_read dec pdec ndec rdec ic (\<lambda>w. snd (voucher_with_response dec ic site rid w))"
| "integration_read dec pdec ndec rdec ic (\<lambda>w. snd (voucher dec ic site rid w))"
| "integration_read dec pdec ndec rdec ic (\<lambda>w. snd (firewall_zones pdec ic site pg w))"
| "integration_read dec pdec ndec rdec ic (\<lambda>w. snd (firewall_policies pdec ic site pg w))"
| "integration_read dec pdec ndec rdec ic (\<lambda>w. snd (firewall_policy_snapshot_with_response rdec ic site rid w))"
| "integration_read dec pdec ndec rdec ic (\<lambda>w. snd (firewall_policy_snapshot rdec ic site rid w))"

inductive integration_write ::
  "'a decoder \<Rightarrow> 'g guest_action_response decoder \<Rightarrow> (string \<Rightarrow> json)
     \<Rightarrow> ('e, 'x) integration_client_scheme \<Rightarrow> (('e, 'w) net_scheme \<Rightarrow> ('e, 'w) net_scheme) \<Rightarrow> bool"
  for dec gdec raw ic where
  "integration_write dec gdec raw ic (\<lambda>w. snd (adopt_device ic site mac ignore_limit w))"
| "integration_write dec gdec raw ic (\<lambda>w. snd (remove_device ic site rid w))"
| "integration_write dec gdec raw ic (\<lambda>w. snd (create_network ic site body w))"
| "integration_write dec gdec raw ic (\<lambda>w. snd (replace_network ic site rid body w))"
| "integration_write dec gdec raw ic (\<lambda>w. snd (delete_network ic site rid force w))"
| "integration_write dec gdec raw ic (\<lambda>w. snd (network_policy_create ic site coll body w))"
| "integration_write dec gdec raw ic (\<lambda>w. snd (network_policy_update ic site coll rid body w))"
| "integration_write dec gdec raw ic (\<lambda>w. snd (network_policy_delete ic site coll rid w))"
| "integration_write dec gdec raw ic (\<lambda>w. snd (replace_acl_rule_ordering ic site ids w))"
| "integration_write dec gdec raw ic (\<lambda>w. snd (replace_firewall_policy_ordering ic site bef aft w))"
| "integration_write dec gdec raw ic (\<lambda>w. snd (create_wifi_broadcast ic site body w))"
| "integration_write dec gdec raw ic (\<lambda>w. snd (replace_wifi_broadcast ic site rid body w))"
| "integration_write dec gdec raw ic (\<lambda>w. snd (delete_wifi_broadcast ic site rid force w))"
| "integration_write dec gdec raw ic (\<lambda>w. snd (integration_restart_device ic site rid w))"
| "integration_write dec gdec raw ic (\<lambda>w. snd (power_cycle_port ic site rid port_index w))"
| "integration_write dec gdec raw ic (\<lambda>w. snd (authorize_guest gdec ic site rid limits w))"
| "integration_write dec gdec raw ic (\<lambda>w. snd (unauthorize_guest gdec ic site rid w))"
| "integration_write dec gdec raw ic (\<lambda>w. snd (delete_matching_vouchers ic site flt w))"
| "integration_write dec gdec raw ic (\<lambda>w. snd (create_vouchers_with_response dec ic site v w))"
| "integration_write dec gdec raw ic (\<lambda>w. snd (create_vouchers dec ic site v w))"
| "integration_write dec gdec raw ic (\<lambda>w. snd (delete_voucher ic site rid w))"
| "integration_write dec gdec raw ic (\<lambda>w. snd (patch_firewall_policy_logging ic site rid logging_enabled w))"
| "integration_write dec gdec raw ic (\<lambda>w. snd (replace_firewall_policy raw ic site rid r w))"
| "integration_write dec gdec raw ic (\<lambda>w. snd (delete_firewall_policy ic site rid w))"

lemmas read_op_defs [client_defs] =
  info_def info_record_def dpi_catalog_def dpi_names_def sites_def site_inventory_def
  countries_def site_records_def device_detail_raw_def switching_detail_def pending_devices_def
  network_records_def network_record_def network_references_def network_policy_page_def
  network_policy_detail_def acl_rule_ordering_def firewall_policy_ordering_def
  radius_profile_records_def radius_profiles_with_response_def radius_profiles_def
  wifi_broadcasts_with_response_def wifi_broadcasts_def wifi_broadcast_records_def
  wifi_broadcast_def devices_def device_detail_def device_statistics_def clients_def
  client_detail_with_response_def client_detail_def vouchers_with_response_def vouchers_def
  voucher_records_def voucher_with_response_def voucher_def firewall_zones_def
  firewall_policies_def firewall_policy_snapshot_with_response_def firewall_policy_snapshot_def

lemmas write_op_defs [client_defs] =
  adopt_device_def remove_device_def create_network_def replace_network_def delete_network_def
  network_policy_record_write_def network_policy_create_def network_policy_update_def
  network_policy_delete_def replace_acl_rule_ordering_def replace_firewall_policy_ordering_def
  create_wifi_broadcast_def replace_wifi_broadcast_def delete_wifi_broadcast_def
  integration_restart_device_def power_cycle_port_def authorize_guest_def unauthorize_guest_def
  delete_matching_vouchers_def create_vouchers_with_response_def create_vouchers_def
  delete_voucher_def patch_firewall_policy_logging_def replace_firewall_policy_def
  delete_firewall_policy_def

lemma get_json_trace [simp]:
  "\<exists>tr. trace (snd (get_json dec ic segments query w)) = trace w @ tr \<and> read_trace ic tr"
  by (simp add: get_json_def get_json_io.reads)

lemma get_with_message_trace [simp]:
  "\<exists>tr. trace (snd (get_with_message dec ic segments query w)) = trace w @ tr \<and> read_trace ic tr"
  by (simp add: get_with_message_def get_json_io.reads)

lemma dpi_names_trace:
  "\<exists>tr. trace (snd (dpi_names dec ic ids categories w)) = trace w @ tr \<and> read_trace ic tr"
proof (cases "ids = [] \<or> length ids > MAXIMUM_DPI_NAME_IDS")
  case True
  then show ?thesis by (intro exI [of _ "[]"]) (auto simp: dpi_names_def read_trace_def)
next
  case False
  then show ?thesis
    by (simp add: dpi_names_def snd_bind_io_pure get_json_io.reads split: prod.split)
qed

lemma snapshot_trace:
  "\<exists>tr. trace (snd (firewall_policy_snapshot_with_response dec ic site rid w)) = trace w @ tr
        \<and> read_trace ic tr"
proof (cases "request_plain ic GET [''sites'', site, ''firewall'', ''policies'', rid]")
  case (Inl e)
  then show ?thesis
    by (intro exI [of _ "[]"])
      (simp add: firewall_policy_snapshot_with_response_def snd_bind_io read_trace_def)
next
  case (Inr r)
  then have "trace (snd (firewall_policy_snapshot_with_response dec ic site rid w)) = trace w @ [Sent r]"
    by (simp add: firewall_policy_snapshot_with_response_def snd_bind_io split: sum.split)
  moreover from request_with_query_Inr [OF Inr [unfolded request_plain_def]]
  have "read_trace ic [Sent r]" by (auto simp: read_trace_def)
  ultimately show ?thesis by blast
qed

lemma inventory_detail_trace:
  "\<exists>tr. trace (snd (inventory_detail ic site knd rid w)) = trace w @ tr \<and> read_trace ic tr"
  by (cases knd) (simp_all add: device_detail_raw_def)

text \<open>A client whose controller always gives the same answer.\<close>

definition canned_integration :: "(string + response) \<Rightarrow> unit integration_client" where
  "canned_integration answer =
     \<lparr>ext_send = (\<lambda>_ e. (answer, e)), ext_now = (\<lambda>_. 0), ext_sleep = (\<lambda>_ e. e),
      ext_value = (\<lambda>_. Inl ''x''), ext_b64 = id, ext_lowercase = id,
      ic_base = \<lparr>base_origin = ''https://console'', cannot_be_a_base = False\<rparr>,
      ic_api_key = ''key''\<rparr>"

definition canned_net :: "unit net" where
  "canned_net = \<lparr>env = (), trace = []\<rparr>"

text \<open>
  Every one of the forty-one reads puts on the wire nothing, one \<open>GET\<close> of this console
  below the Integration prefix with the client's key, or that same \<open>GET\<close> twice with one pause
  of at most ten seconds in between.
\<close>

theorem integration_reads_are_bounded:
  assumes "integration_read dec pdec ndec rdec ic run"
  shows "\<exists>tr. trace (run w) = trace w @ tr \<and> read_trace ic tr"
  using assms
  by cases
    (simp_all only: read_op_defs snd_map_io get_json_trace get_with_message_trace
      inventory_detail_trace dpi_names_trace [unfolded dpi_names_def]
      snapshot_trace [unfolded firewall_policy_snapshot_with_response_def])

theorem integration_reads_are_bounded_witness:
  "\<exists>tr. trace (snd (info (\<lambda>_. Inr ()) (canned_integration (Inl ''down'')) canned_net))
          = trace canned_net @ tr \<and> read_trace (canned_integration (Inl ''down'')) tr"
  by (rule integration_reads_are_bounded [OF integration_read.intros(1)])

lemma accepted_record_snd [simp]: "snd (accepted_record dec X request w) = snd (accepted X request w)"
  unfolding accepted_record_def by (rule snd_bind_io_pure) (simp split: prod.split)

lemma write_json_trace:
  assumes "verb \<noteq> GET"
  shows "\<exists>tr. trace (snd (accepted ic (with_json (request_plain ic verb segments) body) w)) = trace w @ tr
              \<and> write_trace ic tr"
  using assms unfolding request_plain_def by (intro accepted_trace) (auto dest!: with_json_Inr)

lemma post_action_result_snd:
  "snd (post_action_result dec ic segments action w) =
     snd (accepted ic (with_json (request_plain ic POST segments) action) w)"
  by (simp add: post_action_result_def)

lemma authorize_guest_snd:
  "snd (authorize_guest dec ic site rid limits w) =
     (case validate_guest_limits limits of
        Inl _ \<Rightarrow> w
      | Inr _ \<Rightarrow> snd (accepted ic (with_json (request_plain ic POST
          [''sites'', site, ''clients'', rid, ''actions''])
          (client_action_json (AuthorizeGuestAccess limits))) w))"
  by (auto simp: authorize_guest_def snd_bind_io post_action_result_snd split: sum.split prod.split)

lemma unauthorize_guest_snd:
  "snd (unauthorize_guest dec ic site rid w) =
     snd (accepted ic (with_json (request_plain ic POST
       [''sites'', site, ''clients'', rid, ''actions'']) (client_action_json UnauthorizeGuestAccess)) w)"
  by (auto simp: unauthorize_guest_def snd_bind_io post_action_result_snd split: sum.split prod.split)

lemma create_vouchers_snd:
  "snd (create_vouchers_with_response dec ic site v w) =
     snd (post_action ic [''sites'', site, ''hotspot'', ''vouchers''] (voucher_create_json v) w)"
  unfolding create_vouchers_with_response_def by (rule snd_bind_io_pure) (simp split: prod.split)

lemma write_trace_Nil: "write_trace ic []"
  by (simp add: write_trace_def)

lemma authorize_guest_trace:
  "\<exists>tr. trace (snd (authorize_guest dec ic site rid limits w)) = trace w @ tr \<and> write_trace ic tr"
  by (cases "validate_guest_limits limits")
    (simp_all add: authorize_guest_snd write_json_trace write_trace_Nil)

lemma unauthorize_guest_trace:
  "\<exists>tr. trace (snd (unauthorize_guest dec ic site rid w)) = trace w @ tr \<and> write_trace ic tr"
  by (simp add: unauthorize_guest_snd write_json_trace)

lemmas write_traces =
  authorize_guest_trace unauthorize_guest_trace write_json_trace post_io.writes delete_io.writes

lemmas simple_write_defs =
  adopt_device_def remove_device_def create_network_def replace_network_def delete_network_def
  network_policy_record_write_def network_policy_create_def network_policy_update_def
  network_policy_delete_def replace_acl_rule_ordering_def replace_firewall_policy_ordering_def
  create_wifi_broadcast_def replace_wifi_broadcast_def delete_wifi_broadcast_def
  integration_restart_device_def power_cycle_port_def delete_matching_vouchers_def
  create_vouchers_def delete_voucher_def patch_firewall_policy_logging_def
  replace_firewall_policy_def delete_firewall_policy_def

lemma plain_delete_trace:
  "\<exists>tr. trace (snd (accepted ic (request_plain ic DELETE segments) w)) = trace w @ tr \<and> write_trace ic tr"
  unfolding request_plain_def by (rule delete_io.writes)

text \<open>
  C35. Every one of the twenty-four writes puts at most one request on the wire, of this
  console below the Integration prefix with the client's key, whatever the controller or the
  network answers: a write is never repeated, not even after a rate limit.
\<close>

theorem integration_writes_are_sent_once:
  assumes "integration_write dec gdec raw ic run"
  shows "\<exists>tr. trace (run w) = trace w @ tr \<and> write_trace ic tr"
  using assms
  by cases
    (simp_all add: simple_write_defs create_vouchers_snd post_action_result_snd write_traces
      plain_delete_trace)

theorem integration_writes_are_sent_once_witness:
  "\<exists>tr. trace (snd (remove_device (canned_integration (Inl ''down'')) ''site'' ''device'' canned_net))
          = trace canned_net @ tr \<and> write_trace (canned_integration (Inl ''down'')) tr"
  by (rule integration_writes_are_sent_once [OF integration_write.intros(2)])

section \<open>Answers that are judged\<close>

text \<open>Names are only returned for identifiers that were asked for.\<close>

lemma dpi_names_selected:
  assumes "fst (dpi_names dec ic ids categories w) = Inr rows"
  shows "ids \<noteq> [] \<and> length ids \<le> 50 \<and> length rows \<le> length ids
         \<and> (\<forall>row\<in>set rows. dpi_id row \<in> set ids \<and> length (dpi_display row) \<le> 4096)"
  using assms
  by (auto simp: dpi_names_def fst_bind_io MAXIMUM_DPI_NAME_IDS_def list_ex_iff
      split: if_splits sum.splits prod.splits)

definition limits_in_range :: "guest_authorization_limits \<Rightarrow> bool" where
  "limits_in_range l \<longleftrightarrow>
     (\<forall>v\<in>set_option (time_limit_minutes l). unat v \<in> {1..1000000})
     \<and> (\<forall>v\<in>set_option (data_usage_limit_m_bytes l). unat v \<in> {1..1048576})
     \<and> (\<forall>v\<in>set_option (rx_rate_limit_kbps l). unat v \<in> {2..100000})
     \<and> (\<forall>v\<in>set_option (tx_rate_limit_kbps l). unat v \<in> {2..100000})"

lemma outside_iff:
  "outside low high v \<longleftrightarrow> \<not> (\<forall>x\<in>set_option v. unat x \<in> {unat low..unat high})"
  by (cases v) (auto simp: outside_def word_le_nat_alt)

lemma validate_guest_limits_iff: "validate_guest_limits l = Inr u \<longleftrightarrow> limits_in_range l"
  by (auto simp: validate_guest_limits_def outside_iff limits_in_range_def)

lemma accepted_body:
  assumes "fst (accepted ic (with_json (request_plain ic verb segments) body) w) = Inr (status, bytes)"
  shows "\<exists>r. trace (snd (accepted ic (with_json (request_plain ic verb segments) body) w)) = trace w @ [Sent r]
           \<and> rq_method r = verb \<and> rq_body r = Some body
           \<and> url_segments (rq_url r) = integration_prefix @ segments \<and> is_success status"
proof -
  from assms obtain r0 where r0: "request_with_query ic verb segments [] = Inr r0"
    by (cases "request_with_query ic verb segments []")
      (auto simp: accepted_def with_json_def request_plain_def fst_bind_io map_ok_def)
  let ?r = "r0\<lparr>rq_body := Some body\<rparr>"
  have eq: "with_json (request_plain ic verb segments) body = Inr ?r"
    by (simp add: with_json_def request_plain_def r0 map_ok_def)
  have "is_success status"
    using assms unfolding eq
    by (auto simp: accepted_def fst_bind_io send_def map_ok_def Let_def bind_res_def
        split: sum.splits if_splits)
  moreover have "trace (snd (accepted ic (Inr ?r) w)) = trace w @ [Sent ?r]"
    by (simp add: accepted_def snd_bind_io split: sum.split)
  ultimately show ?thesis using request_with_query_Inr [OF r0] unfolding eq by auto
qed

text \<open>
  A guest is reported as authorized only when all limits are inside the documented ranges,
  exactly one request was sent, to that client's action route with the action and precisely the
  limits that were set, and a success answer named the action and carried the granted
  authorization.
\<close>

theorem authorized_guest_was_granted:
  assumes "fst (authorize_guest dec ic site rid limits w) = Inr (result, status, bytes)"
  shows "limits_in_range limits \<and> is_success status \<and> dec bytes = Inr result
         \<and> guest_action result = ''AUTHORIZE_GUEST_ACCESS'' \<and> granted_authorization result \<noteq> None
         \<and> (\<exists>r m. trace (snd (authorize_guest dec ic site rid limits w)) = trace w @ [Sent r]
              \<and> rq_method r = POST \<and> rq_body r = Some (JObj m)
              \<and> url_segments (rq_url r) =
                  integration_prefix @ [''sites'', site, ''clients'', rid, ''actions'']
              \<and> (\<forall>k. get k m = (if k = ''action'' then Some (JStr ''AUTHORIZE_GUEST_ACCESS'')
                               else Option.bind (map_of (limit_fields limits) k) id)))"
proof -
  let ?body = "client_action_json (AuthorizeGuestAccess limits)"
  let ?segments = "[''sites'', site, ''clients'', rid, ''actions'']"
  let ?send = "accepted ic (with_json (request_plain ic POST ?segments) ?body)"
  from assms obtain valid: "validate_guest_limits limits = Inr ()"
    and acc: "fst (?send w) = Inr (status, bytes)" and dec: "dec bytes = Inr result"
    and judged: "guest_action result = ''AUTHORIZE_GUEST_ACCESS''" "granted_authorization result \<noteq> None"
    by (auto simp: authorize_guest_def post_action_result_def accepted_record_def fst_bind_io
        map_ok_def decode_body_def map_err_def split: sum.splits prod.splits if_splits)
  have get: "get k (set_fields ((''action'', Some (JStr ''AUTHORIZE_GUEST_ACCESS'')) # limit_fields limits)) =
      (if k = ''action'' then Some (JStr ''AUTHORIZE_GUEST_ACCESS'')
       else Option.bind (map_of (limit_fields limits) k) id)" for k
    by (subst get_set_fields) (simp_all add: limit_fields_def)
  have "snd (authorize_guest dec ic site rid limits w) = snd (?send w)"
    by (simp only: authorize_guest_snd valid sum.case)
  with accepted_body [OF acc] valid dec judged get show ?thesis
    by (auto simp: validate_guest_limits_iff [symmetric, of _ "()"])
qed

definition sample_limits :: guest_authorization_limits where
  "sample_limits = \<lparr>time_limit_minutes = Some 60, data_usage_limit_m_bytes = None,
     rx_rate_limit_kbps = None, tx_rate_limit_kbps = None\<rparr>"

definition sample_grant :: "unit guest_action_response" where
  "sample_grant = \<lparr>guest_action = ''AUTHORIZE_GUEST_ACCESS'', granted_authorization = Some (),
     revoked_authorization = None\<rparr>"

definition granting_client :: "unit integration_client" where
  "granting_client =
     canned_integration (Inr \<lparr>rs_status = 200, rs_header = (\<lambda>_. None), rs_chunks = [Inr ''ok'']\<rparr>)"

theorem authorized_guest_was_granted_witness:
  "fst (authorize_guest (\<lambda>_. Inr sample_grant) granting_client ''s'' ''c'' sample_limits canned_net)
     = Inr (sample_grant, 200, ''ok'')
   \<and> limits_in_range sample_limits
   \<and> (\<exists>r m. trace (snd (authorize_guest (\<lambda>_. Inr sample_grant) granting_client ''s'' ''c''
                 sample_limits canned_net)) = trace canned_net @ [Sent r] \<and> rq_body r = Some (JObj m))"
proof -
  have run: "fst (authorize_guest (\<lambda>_. Inr sample_grant) granting_client ''s'' ''c'' sample_limits canned_net)
     = Inr (sample_grant, 200, ''ok'')"
    by (simp add: authorize_guest_def validate_guest_limits_def outside_def sample_limits_def
        post_action_result_def accepted_record_def accepted_def with_json_def request_plain_def
        request_with_query_def endpoint_def build_url_def invalid_segment_def integration_prefix_def
        granting_client_def canned_integration_def send_def send_request_def bind_io_def
        is_success_def read_bounded_body_def MAXIMUM_RESPONSE_BYTES_def decode_body_def
        map_err_def map_ok_def sample_grant_def canned_net_def Let_def)
  from authorized_guest_was_granted [OF run] run show ?thesis by blast
qed

end
