(* ===== verification/Handler.thy ===== *)
theory Handler
  imports Integration_Operations
begin

text \<open>
  Two consumers of the Integration client. \<open>crates/unifi-api/src/capability.rs\<close> finds out which
  firewall generation a console runs; the site resolution of \<open>crates/unifi-mcp/src/handler.rs\<close>
  pages through the site catalog of the controller, under a ceiling of its own, and remembers
  the site it found.
\<close>

section \<open>Capability detection\<close>

datatype firewall_generation = ZoneBased | Classic

record capabilities =
  application_version :: string
  firewall :: firewall_generation
  firewall_rejection :: "api_error option"

text \<open>The guarded pattern of \<open>detect\<close>: the documented rejection of a classic-firewall console.\<close>

fun classic_rejection :: "(string \<Rightarrow> string) \<Rightarrow> api_error \<Rightarrow> bool" where
  "classic_rejection lowercase (Status status message) \<longleftrightarrow>
     status = 400 \<and> contains ''zone based firewall'' (lowercase (as_str message))"
| "classic_rejection lowercase _ \<longleftrightarrow> False"

definition detect ::
  "string decoder \<Rightarrow> 'z page decoder \<Rightarrow> ('e, 'x) integration_client_scheme \<Rightarrow> string
     \<Rightarrow> ('e, 'w, capabilities) api_call" where
  "detect idec zdec ic site =
     bind_io (info idec ic) (\<lambda>version w.
       case firewall_zones zdec ic site \<lparr>req_offset = 0, req_limit = 1\<rparr> w of
         (Inr _, w) \<Rightarrow>
           (Inr \<lparr>application_version = version, firewall = ZoneBased, firewall_rejection = None\<rparr>, w)
       | (Inl err, w) \<Rightarrow>
           (if classic_rejection (ext_lowercase ic) err
            then (Inr \<lparr>application_version = version, firewall = Classic,
                       firewall_rejection = Some err\<rparr>, w)
            else (Inl err, w)))"

text \<open>
  A console is called classic only on the documented rejection, which is kept, and zone based
  only when the zones were really served; every other failure stays a failure.
\<close>

lemma detect_classifies:
  assumes "info idec ic w = (Inr version, w1)"
    and "firewall_zones zdec ic site \<lparr>req_offset = 0, req_limit = 1\<rparr> w1 = (probe, w2)"
  shows "detect idec zdec ic site w =
     (case probe of
        Inr _ \<Rightarrow> Inr \<lparr>application_version = version, firewall = ZoneBased, firewall_rejection = None\<rparr>
      | Inl err \<Rightarrow>
          if \<exists>m u v. err = Status 400 m \<and> ext_lowercase ic (as_str m) = u @ ''zone based firewall'' @ v
          then Inr \<lparr>application_version = version, firewall = Classic, firewall_rejection = Some err\<rparr>
          else Inl err, w2)"
proof -
  have "classic_rejection (ext_lowercase ic) err \<longleftrightarrow>
      (\<exists>m u v. err = Status 400 m \<and> ext_lowercase ic (as_str m) = u @ ''zone based firewall'' @ v)" for err
    by (cases err) (auto simp: contains_iff)
  with assms show ?thesis
    by (auto simp: detect_def bind_io_def split: sum.split)
qed

section \<open>Site resolution\<close>

datatype mcp_error = InternalError string | InvalidParams string | InvalidRequest string

definition mcp_api_error :: "api_error \<Rightarrow> mcp_error" where
  "mcp_api_error err = InternalError (render err)"

record site_summary =
  summary_id :: string
  summary_name :: "string option"
  internal_reference :: "string option"

definition SITES_PAGE_LIMIT :: u32 where
  "SITES_PAGE_LIMIT = 100"

definition SITES_SCAN_CEILING :: nat where
  "SITES_SCAN_CEILING = 10000"

definition ceiling_error :: mcp_error where
  "ceiling_error = InternalError (''the configured site was not found within the '' @
     ''site-scan ceiling; refusing to page further through the catalog the controller reports'')"

definition site_not_found :: mcp_error where
  "site_not_found = InternalError ''configured site was not found on the controller''"

definition is_configured :: "string \<Rightarrow> site_summary \<Rightarrow> bool" where
  "is_configured legacy_site site \<longleftrightarrow> internal_reference site = Some legacy_site"

text \<open>\<open>offset == 0 && page.total_count == 1 && let [only] = page.data.as_slice()\<close>.\<close>

definition note_sole ::
  "nat \<Rightarrow> site_summary page \<Rightarrow> string option \<Rightarrow> string option" where
  "note_sole offset page sole =
     (if offset = 0 \<and> total_count page = 1
      then (case page_data page of [only] \<Rightarrow> Some (summary_id only) | _ \<Rightarrow> sole) else sole)"

text \<open>
  The scan loop. The offset stays below the ceiling plus one page of memory, far below the range
  of a \<open>u64\<close>, so it is a natural number here. Every further round has moved the offset, and the
  ceiling stops it.
\<close>

function site_scan ::
  "site_summary page decoder \<Rightarrow> ('e, 'x) integration_client_scheme \<Rightarrow> string \<Rightarrow> nat \<Rightarrow> string option
     \<Rightarrow> ('e, 'w) net_scheme \<Rightarrow> (mcp_error + string) \<times> ('e, 'w) net_scheme" where
  "site_scan dec ic legacy_site offset sole w =
     (case sites dec ic \<lparr>req_offset = of_nat offset, req_limit = SITES_PAGE_LIMIT\<rparr> w of
        (Inl err, w) \<Rightarrow> (Inl (mcp_api_error err), w)
      | (Inr page, w) \<Rightarrow>
          (case List.find (is_configured legacy_site) (page_data page) of
             Some site \<Rightarrow> (Inr (summary_id site), w)
           | None \<Rightarrow>
               (let sole = note_sole offset page sole;
                    offset = offset + length (page_data page)
                in if page_data page = [] \<or> unat (total_count page) \<le> offset
                   then (ok_or site_not_found sole, w)
                   else if SITES_SCAN_CEILING \<le> offset then (Inl ceiling_error, w)
                   else site_scan dec ic legacy_site offset sole w)))"
  by pat_completeness auto

termination
  by (relation "measure (\<lambda>(_, _, _, offset, _, _). SITES_SCAN_CEILING - offset)")
    (auto intro!: diff_less_mono2)

declare site_scan.simps [simp del]

text \<open>\<open>OnceCell::get_or_try_init\<close>: only success is remembered.\<close>

definition site_id ::
  "site_summary page decoder \<Rightarrow> ('e, 'x) integration_client_scheme \<Rightarrow> string
     \<Rightarrow> string option \<times> ('e, 'w) net_scheme
     \<Rightarrow> (mcp_error + string) \<times> string option \<times> ('e, 'w) net_scheme" where
  "site_id dec ic legacy_site = (\<lambda>(cell, w).
     case cell of
       Some site \<Rightarrow> (Inr site, cell, w)
     | None \<Rightarrow>
         (case site_scan dec ic legacy_site 0 None w of
            (Inr site, w) \<Rightarrow> (Inr site, Some site, w)
          | (Inl err, w) \<Rightarrow> (Inl err, None, w)))"

section \<open>Properties of the resolution\<close>

definition sent_count :: "io_event list \<Rightarrow> nat" where
  "sent_count tr = length (filter (\<lambda>ev. case ev of Sent _ \<Rightarrow> True | Slept _ \<Rightarrow> False) tr)"

lemma sent_count_append: "sent_count (tr @ tr') = sent_count tr + sent_count tr'"
  by (simp add: sent_count_def)

lemma read_trace_sent_count: "read_trace ic tr \<Longrightarrow> sent_count tr \<le> 2"
  by (auto simp: read_trace_def sent_count_def)

lemma sites_sends:
  "\<exists>tr. trace (snd (sites dec ic pg w)) = trace w @ tr \<and> sent_count tr \<le> 2"
proof -
  obtain tr where "trace (snd (sites dec ic pg w)) = trace w @ tr" "read_trace ic tr"
    using get_json_trace by (metis sites_def)
  with read_trace_sent_count show ?thesis by blast
qed

text \<open>However the controller answers, the scan ends after a bounded number of requests.\<close>

lemma site_scan_sends:
  "\<exists>tr. trace (snd (site_scan dec ic legacy_site offset sole w)) = trace w @ tr
        \<and> sent_count tr \<le> 2 * Suc (SITES_SCAN_CEILING - offset)"
proof (induction dec ic legacy_site offset sole w rule: site_scan.induct)
  case (1 dec ic legacy_site offset sole w)
  let ?pg = "\<lparr>req_offset = of_nat offset, req_limit = SITES_PAGE_LIMIT\<rparr>"
  obtain res w1 where read: "sites dec ic ?pg w = (res, w1)" by (metis surj_pair)
  from sites_sends [of dec ic ?pg w] obtain tr1 where
    tr1: "trace w1 = trace w @ tr1" "sent_count tr1 \<le> 2" using read by auto
  have stop: ?case if "snd (site_scan dec ic legacy_site offset sole w) = w1"
    using that tr1 by (intro exI [of _ tr1]) simp
  show ?case
  proof (cases res)
    case (Inl err)
    then show ?thesis by (intro stop) (simp add: site_scan.simps [of dec ic legacy_site offset] read)
  next
    case (Inr page)
    let ?o = "offset + length (page_data page)"
    let ?s = "note_sole offset page sole"
    show ?thesis
    proof (cases "List.find (is_configured legacy_site) (page_data page) = None
        \<and> page_data page \<noteq> [] \<and> \<not> unat (total_count page) \<le> ?o \<and> \<not> SITES_SCAN_CEILING \<le> ?o")
      case False
      then show ?thesis
        by (intro stop)
          (auto simp: site_scan.simps [of dec ic legacy_site offset] read Inr Let_def split: option.split)
    next
      case True
      then have eq: "site_scan dec ic legacy_site offset sole w = site_scan dec ic legacy_site ?o ?s w1"
        by (simp add: site_scan.simps [of dec ic legacy_site offset] read Inr)
      from True have "\<exists>tr. trace (snd (site_scan dec ic legacy_site ?o ?s w1)) = trace w1 @ tr
          \<and> sent_count tr \<le> 2 * Suc (SITES_SCAN_CEILING - ?o)"
        by (intro "1.IH" [OF read [symmetric] Inr _ refl refl]) auto
      then obtain tr2 where tr2: "trace (snd (site_scan dec ic legacy_site ?o ?s w1)) = trace w1 @ tr2"
        "sent_count tr2 \<le> 2 * Suc (SITES_SCAN_CEILING - ?o)" by blast
      from True have "length (page_data page) > 0" "?o < SITES_SCAN_CEILING" by auto
      then have "2 + 2 * Suc (SITES_SCAN_CEILING - ?o) \<le> 2 * Suc (SITES_SCAN_CEILING - offset)"
        by arith
      with tr1(2) tr2(2) have "sent_count (tr1 @ tr2) \<le> 2 * Suc (SITES_SCAN_CEILING - offset)"
        unfolding sent_count_append by linarith
      with tr1(1) tr2(1) show ?thesis by (intro exI [of _ "tr1 @ tr2"]) (simp add: eq)
    qed
  qed
qed

text \<open>
  What the resolution should find in a catalog: the first site within the ceiling that carries
  the configured reference; failing that, a refusal when the catalog is longer than the ceiling,
  and otherwise the sole site when there is exactly one.
\<close>

definition resolved_site :: "string \<Rightarrow> site_summary list \<Rightarrow> mcp_error + string" where
  "resolved_site legacy_site catalog =
     (case List.find (is_configured legacy_site) (take SITES_SCAN_CEILING catalog) of
        Some site \<Rightarrow> Inr (summary_id site)
      | None \<Rightarrow>
          if SITES_SCAN_CEILING < length catalog then Inl ceiling_error
          else (case catalog of [only] \<Rightarrow> Inr (summary_id only) | _ \<Rightarrow> Inl site_not_found))"

text \<open>A controller that serves \<open>catalog\<close>: each full page asked for, and the right total.\<close>

definition serves ::
  "site_summary page decoder \<Rightarrow> ('e, 'x) integration_client_scheme \<Rightarrow> site_summary list
     \<Rightarrow> ('e, 'w) net_scheme itself \<Rightarrow> bool" where
  "serves dec ic catalog _ \<longleftrightarrow>
     (\<forall>k (w :: ('e, 'w) net_scheme). k = 0 \<or> 100 * k < length catalog \<longrightarrow>
        (\<exists>page w'. sites dec ic \<lparr>req_offset = of_nat (100 * k), req_limit = SITES_PAGE_LIMIT\<rparr> w = (Inr page, w')
           \<and> page_data page = take 100 (drop (100 * k) catalog)
           \<and> unat (total_count page) = length catalog))"

lemma find_append:
  "List.find P (xs @ ys) = (case List.find P xs of None \<Rightarrow> List.find P ys | Some x \<Rightarrow> Some x)"
  by (induction xs) auto

lemma find_take_drop:
  assumes "List.find P (take n xs) = None" and "n + m \<le> c"
  shows "List.find P (take m (drop n xs)) = Some x \<Longrightarrow> List.find P (take c xs) = Some x"
    and "List.find P (take m (drop n xs)) = None \<Longrightarrow> List.find P (take (n + m) xs) = None"
proof -
  have split: "take c xs = take n xs @ take m (drop n xs) @ take (c - n - m) (drop (n + m) xs)"
    using assms(2) take_add [of n "c - n" xs] take_add [of m "c - n - m" "drop n xs"]
    by (simp add: add.commute)
  show "List.find P (take m (drop n xs)) = Some x \<Longrightarrow> List.find P (take c xs) = Some x"
    unfolding split by (simp add: find_append assms(1))
  show "List.find P (take m (drop n xs)) = None \<Longrightarrow> List.find P (take (n + m) xs) = None"
    unfolding take_add by (simp add: find_append assms(1))
qed

lemma site_scan_serves:
  fixes w :: "('e, 'w) net_scheme"
  assumes "serves dec ic catalog TYPE(('e, 'w) net_scheme)"
    and "k = 0 \<or> 100 * k < length catalog" and "k < 100"
    and "List.find (is_configured legacy_site) (take (100 * k) catalog) = None"
  shows "fst (site_scan dec ic legacy_site (100 * k) None w) = resolved_site legacy_site catalog"
  using assms(2,3,4)
proof (induction "100 - k" arbitrary: k w rule: less_induct)
  case less
  let ?m = "is_configured legacy_site"
  let ?rows = "take 100 (drop (100 * k) catalog)"
  from assms(1) less.prems(1) obtain page w' where
    read: "sites dec ic \<lparr>req_offset = of_nat (100 * k), req_limit = SITES_PAGE_LIMIT\<rparr> w = (Inr page, w')"
    and data: "page_data page = ?rows" and count: "unat (total_count page) = length catalog"
    unfolding serves_def by blast
  have within: "100 * k + 100 \<le> SITES_SCAN_CEILING"
    using less.prems(2) by (simp add: SITES_SCAN_CEILING_def)
  note step = site_scan.simps [of dec ic legacy_site "100 * k" None w, unfolded read prod.case sum.case data]
  show ?case
  proof (cases "List.find ?m ?rows")
    case (Some site)
    from find_take_drop(1) [OF less.prems(3) within Some] Some show ?thesis
      by (simp add: step resolved_site_def)
  next
    case None
    have none: "List.find ?m (take (100 * k + 100) catalog) = None"
      by (rule find_take_drop(2) [OF less.prems(3) within None])
    show ?thesis
    proof (cases "length catalog \<le> 100 * k + 100")
      case True
      then have all: "take (100 * k + 100) catalog = catalog" by simp
      have one: "total_count page = 1 \<longleftrightarrow> length catalog = 1"
        using count by (metis unat_1 word_unat_eq_iff)
      have sole: "note_sole (100 * k) page None =
          (case catalog of [only] \<Rightarrow> Some (summary_id only) | _ \<Rightarrow> None)"
        using less.prems(1) one data
        by (auto simp: note_sole_def split: list.splits)
      have "length catalog \<le> 100 * k + length ?rows" using True by (auto simp: min_def)
      then have brk: "(?rows = [] \<or> unat (total_count page) \<le> 100 * k + length ?rows) = True"
        unfolding count by blast
      have "fst (site_scan dec ic legacy_site (100 * k) None w) =
           ok_or site_not_found (case catalog of [only] \<Rightarrow> Some (summary_id only) | _ \<Rightarrow> None)"
        by (simp only: step None option.case Let_def sole brk if_True fst_conv)
      moreover have "List.find ?m (take SITES_SCAN_CEILING catalog) = None"
        using none True within all by simp
      ultimately show ?thesis
        using True within by (auto simp: resolved_site_def ok_or_def split: list.splits)
    next
      case False
      then have rows: "length ?rows = 100" "?rows \<noteq> []" by auto
      have "note_sole (100 * k) page None = None"
      proof -
        have "total_count page \<noteq> 1" using count False by (auto dest!: arg_cong [of _ _ unat])
        then show ?thesis by (simp add: note_sole_def)
      qed
      with None count data rows False have eq:
        "site_scan dec ic legacy_site (100 * k) None w =
          (if SITES_SCAN_CEILING \<le> 100 * k + 100 then (Inl ceiling_error, w')
           else site_scan dec ic legacy_site (100 * Suc k) None w')"
        by (simp add: step add.commute)
      show ?thesis
      proof (cases "Suc k < 100")
        case True
        then have "\<not> SITES_SCAN_CEILING \<le> 100 * k + 100" by (simp add: SITES_SCAN_CEILING_def)
        moreover have "fst (site_scan dec ic legacy_site (100 * Suc k) None w') =
            resolved_site legacy_site catalog"
          using True False none by (intro less.hyps) (auto simp: add.commute)
        ultimately show ?thesis by (simp add: eq)
      next
        case False': False
        with less.prems(2) have k: "k = 99" by simp
        then have "fst (site_scan dec ic legacy_site (100 * k) None w) = Inl ceiling_error"
          unfolding eq by (simp add: SITES_SCAN_CEILING_def)
        also have "\<dots> = resolved_site legacy_site catalog"
          using False none k by (simp add: resolved_site_def SITES_SCAN_CEILING_def)
        finally show ?thesis .
      qed
    qed
  qed
qed

lemma site_id_cached: "site_id dec ic legacy_site (Some site, w) = (Inr site, Some site, w)"
  by (simp add: site_id_def)

text \<open>
  C36. On a controller that serves its site catalog page by page, the resolution finds exactly
  what the catalog says: the first site with the configured reference within the ceiling, the
  sole site when there is just one, a refusal otherwise, never a subset taken for the whole. A
  site that was found is remembered: every later resolution returns it without any traffic.
\<close>

theorem site_id_resolves:
  fixes w w' :: "('e, 'w) net_scheme"
  assumes "serves dec ic catalog TYPE(('e, 'w) net_scheme)"
  shows "fst (site_id dec ic legacy_site (None, w)) = resolved_site legacy_site catalog
         \<and> fst (snd (site_id dec ic legacy_site (None, w))) = ok (resolved_site legacy_site catalog)
         \<and> (\<forall>site. resolved_site legacy_site catalog = Inr site \<longrightarrow>
              site_id dec ic legacy_site (fst (snd (site_id dec ic legacy_site (None, w))), w')
                = (Inr site, Some site, w'))"
proof -
  have scan: "fst (site_scan dec ic legacy_site 0 None w) = resolved_site legacy_site catalog"
    using site_scan_serves [OF assms, of 0 legacy_site w] by simp
  then have "fst (site_id dec ic legacy_site (None, w)) = resolved_site legacy_site catalog"
    and cell: "fst (snd (site_id dec ic legacy_site (None, w))) = ok (resolved_site legacy_site catalog)"
    by (auto simp: site_id_def ok_def split: prod.splits sum.splits)
  then show ?thesis by (auto simp: cell ok_def site_id_cached)
qed

text \<open>
  Whatever the controller answers, even a catalog that never ends, one resolution puts at
  most 20002 requests on the wire, at most two for each page read.
\<close>

theorem site_resolution_is_bounded:
  "\<exists>tr. trace (snd (snd (site_id dec ic legacy_site (cell, w)))) = trace w @ tr \<and> sent_count tr \<le> 20002"
proof (cases cell)
  case None
  from site_scan_sends [of dec ic legacy_site 0 None w] show ?thesis
    by (auto simp: site_id_def None SITES_SCAN_CEILING_def split: prod.splits sum.splits)
next
  case (Some site)
  then show ?thesis by (intro exI [of _ "[]"]) (simp add: site_id_cached sent_count_def)
qed

definition sample_site :: site_summary where
  "sample_site = \<lparr>summary_id = ''s1'', summary_name = None, internal_reference = Some ''default''\<rparr>"

definition sample_site_page :: "site_summary page" where
  "sample_site_page = \<lparr>page_offset = 0, page_limit = 100, page_count = 1, total_count = 1,
     page_data = [sample_site]\<rparr>"

lemma granting_client_serves:
  "serves (\<lambda>_. Inr sample_site_page) granting_client [sample_site] TYPE(unit net)"
  by (auto simp: serves_def sites_def get_json_def get_json_with_response_def get_attempt_def
      map_io_def bind_io_def request_with_query_def endpoint_def build_url_def invalid_segment_def
      integration_prefix_def granting_client_def canned_integration_def send_def send_request_def
      is_success_def read_bounded_body_def MAXIMUM_RESPONSE_BYTES_def decode_body_def map_err_def
      map_ok_def Let_def sample_site_page_def)

theorem site_id_resolves_witness:
  "fst (site_id (\<lambda>_. Inr sample_site_page) granting_client ''default'' (None, canned_net)) = Inr ''s1''"
proof -
  have "resolved_site ''default'' [sample_site] = Inr ''s1''"
    by (simp add: resolved_site_def is_configured_def sample_site_def SITES_SCAN_CEILING_def)
  with site_id_resolves [OF granting_client_serves, of "''default''" canned_net] show ?thesis by simp
qed

end
