(* ===== verification/Mutation.thy ===== *)
theory Mutation
  imports Json
begin

text \<open>
  The safety machinery of write tools (\<open>crates/unifi-mcp/src/mutation.rs\<close>): what a write would
  change, and what the controller did with each requested field, judged by reading the resource
  back. The requested fields are an ordered map, as \<open>serde_json::Map\<close> iterates it.
\<close>

datatype field_status = Persisted | FieldDropped | Coerced

record field_outcome =
  oc_field :: string
  oc_status :: field_status
  oc_previous :: "json option"
  oc_requested :: "json option"
  oc_observed :: "json option"

record planned_change =
  pc_field :: string
  pc_from :: "json option"
  pc_to :: "json option"

definition get_or_null :: "string \<Rightarrow> json \<Rightarrow> json" where
  "get_or_null k v = (case jget k v of Some x \<Rightarrow> x | None \<Rightarrow> JNull)"

definition plan :: "(string \<times> json) list \<Rightarrow> json \<Rightarrow> planned_change list" where
  "plan requested current_value =
     map (\<lambda>(f, wanted). \<lparr>pc_field = f, pc_from = Some (get_or_null f current_value), pc_to = Some wanted\<rparr>)
       (filter (\<lambda>(f, wanted). jget f current_value \<noteq> Some wanted) requested)"

definition field_verdict :: "json \<Rightarrow> json \<Rightarrow> json \<Rightarrow> field_status" where
  "field_verdict observed wanted previous =
     (if observed = wanted then Persisted else if observed = previous then FieldDropped else Coerced)"

definition verify_fields :: "(string \<times> json) list \<Rightarrow> json \<Rightarrow> json \<Rightarrow> field_outcome list" where
  "verify_fields requested before after =
     map (\<lambda>(f, wanted).
        \<lparr>oc_field = f,
         oc_status = field_verdict (get_or_null f after) wanted (get_or_null f before),
         oc_previous = Some (get_or_null f before), oc_requested = Some wanted,
         oc_observed = Some (get_or_null f after)\<rparr>) requested"

section \<open>What the preview and the read-back promise\<close>

lemma plan_fields:
  "map pc_field (plan requested v) =
     map fst (filter (\<lambda>(f, wanted). jget f v \<noteq> Some wanted) requested)"
  by (induction requested) (auto simp: plan_def)

lemma plan_Nil_iff: "plan requested v = [] \<longleftrightarrow> (\<forall>(f, wanted)\<in>set requested. jget f v = Some wanted)"
  by (auto simp: plan_def filter_empty_conv)

lemma get_or_null_Some: "jget f v = Some x \<Longrightarrow> get_or_null f v = x"
  by (simp add: get_or_null_def)

text \<open>
  Preview and read-back agree, for any requested fields and any readings of the resource.
  When the resource holds every requested value afterwards, nothing is left to plan and every
  field is reported as persisted. When nothing changed, the fields reported as dropped are
  exactly the planned changes that would have moved a value, and none is called rewritten. A
  field is called rewritten only when the resource holds a third value.
\<close>

theorem plan_and_read_back_agree:
  "(plan requested after = [] \<longrightarrow> (\<forall>oc\<in>set (verify_fields requested before after). oc_status oc = Persisted))
   \<and> map oc_field (filter (\<lambda>oc. oc_status oc \<noteq> Persisted) (verify_fields requested before before)) =
      map pc_field (filter (\<lambda>pc. pc_from pc \<noteq> pc_to pc) (plan requested before))
   \<and> (\<forall>oc\<in>set (verify_fields requested before before). oc_status oc \<noteq> Coerced)
   \<and> (\<forall>oc\<in>set (verify_fields requested before after).
        oc_status oc = Coerced \<longleftrightarrow> oc_observed oc \<noteq> oc_requested oc \<and> oc_observed oc \<noteq> oc_previous oc)"
proof (intro conjI impI)
  assume "plan requested after = []"
  then have "\<forall>(f, wanted)\<in>set requested. get_or_null f after = wanted"
    by (auto simp: plan_Nil_iff get_or_null_Some)
  then show "\<forall>oc\<in>set (verify_fields requested before after). oc_status oc = Persisted"
    by (auto simp: verify_fields_def field_verdict_def)
next
  show "map oc_field (filter (\<lambda>oc. oc_status oc \<noteq> Persisted) (verify_fields requested before before)) =
      map pc_field (filter (\<lambda>pc. pc_from pc \<noteq> pc_to pc) (plan requested before))"
    by (induction requested)
      (auto simp: verify_fields_def plan_def field_verdict_def get_or_null_Some)
qed (auto simp: verify_fields_def field_verdict_def split: if_splits)

theorem plan_and_read_back_agree_witness:
  "oc_status (hd (verify_fields [(''ssid'', JStr ''a'')] JNull (JObj [(''ssid'', JStr ''a'')]))) = Persisted"
proof -
  have "plan [(''ssid'', JStr ''a'')] (JObj [(''ssid'', JStr ''a'')]) = []" by (simp add: plan_def)
  with plan_and_read_back_agree [of "[(''ssid'', JStr ''a'')]" "JObj [(''ssid'', JStr ''a'')]" JNull]
  show ?thesis by (simp add: verify_fields_def)
qed

text \<open>One outcome for each requested field, in the order of the request.\<close>

lemma verify_fields_names: "map oc_field (verify_fields requested before after) = map fst requested"
  by (auto simp: verify_fields_def)

end
