(* ===== verification/Pinning.thy ===== *)
theory Pinning
  imports Rust_Std
begin

text \<open>
  Certificate pinning (\<open>crates/unifi-api/src/pinning.rs\<close>): parsing an operator's fingerprint and
  the decision on a presented certificate. The digest function is a parameter; handshake
  signatures stay with the TLS library.
\<close>

section \<open>The decision\<close>

type_synonym fingerprint = "u8 list"

text \<open>\<open>ct_eq\<close> compares all the bytes of two digests of the same length.\<close>

definition ct_eq :: "fingerprint \<Rightarrow> fingerprint \<Rightarrow> bool" where
  "ct_eq a b \<longleftrightarrow> length a = length b \<and> fold (\<lambda>(x, y) acc. acc \<and> x = y) (zip a b) True"

definition is_pinned :: "fingerprint list \<Rightarrow> fingerprint \<Rightarrow> bool" where
  "is_pinned pins digest = fold (\<lambda>pin seen. seen \<or> ct_eq pin digest) pins False"

definition verify_server_cert ::
  "(bytes \<Rightarrow> fingerprint) \<Rightarrow> fingerprint list \<Rightarrow> bytes \<Rightarrow> string + unit" where
  "verify_server_cert sha256 pins end_entity =
     (if is_pinned pins (sha256 end_entity) then Inr ()
      else Inl ''controller certificate does not match any pinned fingerprint'')"

section \<open>Parsing\<close>

definition is_hex_char :: "string \<Rightarrow> bool" where
  "is_hex_char c = (case c of [b] \<Rightarrow> is_ascii_hexdigit b | _ \<Rightarrow> False)"

definition to_digit :: "string \<Rightarrow> nat" where
  "to_digit c = (case c of [b] \<Rightarrow> (case hex_digit b of Some d \<Rightarrow> d | None \<Rightarrow> 0) | _ \<Rightarrow> 0)"

definition digest_byte :: "string list \<Rightarrow> nat \<Rightarrow> u8" where
  "digest_byte digits index =
     (let n = to_digit (digits ! (index * 2)) * 16 + to_digit (digits ! (index * 2 + 1))
      in if n \<le> 255 then of_nat n else 0)"

definition parse_fingerprint :: "string \<Rightarrow> string + fingerprint" where
  "parse_fingerprint v =
     (let digits = filter (\<lambda>c. c \<noteq> '':'' \<and> c \<noteq> '' '') (chars v)
      in if length digits \<noteq> 64
         then Inl (''expected 64 hexadecimal characters for a SHA-256 fingerprint, found '' @
                   show_nat (length digits))
         else (case List.find (\<lambda>c. \<not> is_hex_char c) digits of
                 Some c \<Rightarrow> Inl (CHR 0x60 # c @ CHR 0x60 # '' is not a hexadecimal digit'')
               | None \<Rightarrow> Inr (map (digest_byte digits) [0..<32])))"

section \<open>What they guarantee\<close>

lemma fold_and_eq: "fold (\<lambda>(x, y) acc. acc \<and> x = y) ps z \<longleftrightarrow> z \<and> (\<forall>(x, y)\<in>set ps. x = y)"
  by (induction ps arbitrary: z) auto

lemma ct_eq_iff: "ct_eq a b \<longleftrightarrow> a = b"
proof (cases "length a = length b")
  case True
  then show ?thesis by (auto simp: ct_eq_def fold_and_eq list_eq_iff_nth_eq set_zip)
qed (auto simp: ct_eq_def)

lemma fold_seen: "fold (\<lambda>pin seen. seen \<or> ct_eq pin digest) pins z \<longleftrightarrow> z \<or> digest \<in> set pins"
  by (induction pins arbitrary: z) (auto simp: ct_eq_iff)

text \<open>The two printed forms of a digest, in either case of letters.\<close>

definition hex_char :: "bool \<Rightarrow> nat \<Rightarrow> char" where
  "hex_char upper n = (if upper then ''0123456789ABCDEF'' else ''0123456789abcdef'') ! n"

definition hex_pair :: "bool \<Rightarrow> u8 \<Rightarrow> string" where
  "hex_pair upper b = [hex_char upper (unat b div 16), hex_char upper (unat b mod 16)]"

definition colon_form :: "bool \<Rightarrow> fingerprint \<Rightarrow> string" where
  "colon_form upper d = join CHR '':'' (map (hex_pair upper) d)"

definition bare_form :: "bool \<Rightarrow> fingerprint \<Rightarrow> string" where
  "bare_form upper d = concat (map (hex_pair upper) d)"

lemma nibble_cases: "n < 16 \<Longrightarrow> n \<in> {0, 1, 2, 3, 4, 5, 6, 7, 8, 9, 10, 11, 12, 13, 14, 15::nat}"
  unfolding insert_iff empty_iff by presburger

lemma hex_char_digit: "n < 16 \<Longrightarrow> hex_digit (hex_char upper n) = Some n"
  by (drule nibble_cases) (cases upper; auto simp: hex_char_def hex_digit_def)

lemma hex_char_plain:
  "n < 16 \<Longrightarrow> \<not> is_continuation (hex_char upper n) \<and> hex_char upper n \<noteq> CHR '':''
     \<and> hex_char upper n \<noteq> CHR '' ''"
  by (drule nibble_cases) (cases upper; auto simp: hex_char_def is_continuation_def)

lemma chars_ascii: "\<forall>b\<in>set s. \<not> is_continuation b \<Longrightarrow> chars s = map (\<lambda>b. [b]) s"
proof (induction s)
  case (Cons b s)
  then have "takeWhile is_continuation s = []" "dropWhile is_continuation s = s"
    by (cases s; simp)+
  with Cons show ?case by simp
qed simp

lemma unat_u8: "unat (b :: u8) < 256"
  by (rule unsigned_less [where w = b and ?'a = nat, simplified])

lemma unat_nibbles: "unat (b :: u8) div 16 < 16" "unat b mod 16 < 16"
  using unat_u8 [of b] by auto

lemma concat_pairs_nth:
  assumes "\<forall>x\<in>set xs. length (f x) = 2" and "i < length xs"
  shows "concat (map f xs) ! (i * 2) = f (xs ! i) ! 0 \<and> concat (map f xs) ! (i * 2 + 1) = f (xs ! i) ! 1"
  using assms
proof (induction xs arbitrary: i)
  case (Cons x xs)
  then show ?case
  proof (cases i)
    case (Suc j)
    with Cons show ?thesis by (simp add: nth_append)
  qed (simp add: nth_append)
qed simp

text \<open>Digits of a text that prints a digest, whatever separators are between the pairs.\<close>

lemma parse_pairs:
  assumes "length d = 32"
    and "filter (\<lambda>c. c \<noteq> '':'' \<and> c \<noteq> '' '') (chars v) = map (\<lambda>b. [b]) (bare_form upper d)"
  shows "parse_fingerprint v = Inr d"
proof -
  let ?digits = "map (\<lambda>b. [b]) (bare_form upper d)"
  have len: "length (bare_form upper ds) = 2 * length ds" for ds
    by (induction ds) (simp_all add: bare_form_def hex_pair_def)
  have hex: "\<forall>c\<in>set ?digits. is_hex_char c"
    using unat_nibbles hex_char_digit
    by (auto simp: bare_form_def hex_pair_def is_hex_char_def simp flip: hex_digit_Some_iff)
  have "digest_byte ?digits i = d ! i" if i: "i < 32" for i
  proof -
    have "bare_form upper d ! (i * 2) = hex_char upper (unat (d ! i) div 16)"
      "bare_form upper d ! (i * 2 + 1) = hex_char upper (unat (d ! i) mod 16)"
      using concat_pairs_nth [of d "hex_pair upper" i] i assms(1)
      by (auto simp: bare_form_def hex_pair_def)
    moreover have "i * 2 < length (bare_form upper d)" "i * 2 + 1 < length (bare_form upper d)"
      using i len [of d] assms(1) by auto
    ultimately have "to_digit (?digits ! (i * 2)) * 16 + to_digit (?digits ! (i * 2 + 1)) = unat (d ! i)"
      using unat_nibbles [of "d ! i"] by (simp add: to_digit_def hex_char_digit)
    moreover have "unat (d ! i) \<le> 255" using unat_u8 [of "d ! i"] by simp
    ultimately show ?thesis by (simp add: digest_byte_def)
  qed
  then have "map (digest_byte ?digits) [0..<32] = d"
    using assms(1) by (auto simp: list_eq_iff_nth_eq)
  moreover have "List.find (\<lambda>c. \<not> is_hex_char c) ?digits = None"
    using hex by (simp add: find_None_iff)
  ultimately show ?thesis
    using len [of d] assms by (simp add: parse_fingerprint_def)
qed

lemma bare_plain: "b \<in> set (bare_form upper d) \<Longrightarrow> \<not> is_continuation b \<and> b \<noteq> CHR '':'' \<and> b \<noteq> CHR '' ''"
  using hex_char_plain unat_nibbles by (auto simp: bare_form_def hex_pair_def)

lemma bare_digits:
  "filter (\<lambda>c. c \<noteq> '':'' \<and> c \<noteq> '' '') (chars (bare_form upper d)) = map (\<lambda>b. [b]) (bare_form upper d)"
proof -
  have "chars (bare_form upper d) = map (\<lambda>b. [b]) (bare_form upper d)"
    using bare_plain by (intro chars_ascii) blast
  moreover have "filter (\<lambda>c. c \<noteq> '':'' \<and> c \<noteq> '' '') (map (\<lambda>b. [b]) (bare_form upper d)) =
      map (\<lambda>b. [b]) (bare_form upper d)"
    using bare_plain by (intro filter_True) auto
  ultimately show ?thesis by simp
qed

lemma set_join: "set (join c ps) \<subseteq> insert c (\<Union>p\<in>set ps. set p)"
  by (induction c ps rule: join.induct) auto

lemma colon_chars:
  "b \<in> set (colon_form upper d) \<Longrightarrow> b \<in> set (bare_form upper d) \<or> b = CHR '':''"
  using set_join [of "CHR '':''" "map (hex_pair upper) d"]
  by (auto simp: colon_form_def bare_form_def)

lemma filter_join:
  "\<forall>p\<in>set ps. c \<notin> set p \<Longrightarrow> filter (\<lambda>b. b \<noteq> c) (join c ps) = concat ps"
  by (induction c ps rule: join.induct) (auto simp: filter_id_conv)

lemma colon_digits:
  "filter (\<lambda>c. c \<noteq> '':'' \<and> c \<noteq> '' '') (chars (colon_form upper d)) = map (\<lambda>b. [b]) (bare_form upper d)"
proof -
  have "\<not> is_continuation CHR '':''" by (simp add: is_continuation_def)
  then have "chars (colon_form upper d) = map (\<lambda>b. [b]) (colon_form upper d)"
    using bare_plain colon_chars by (intro chars_ascii) blast
  moreover have "CHR '' '' \<notin> set (colon_form upper d)"
    using bare_plain colon_chars [of "CHR '' ''" upper d] by fastforce
  then have "filter (\<lambda>c. c \<noteq> '':'' \<and> c \<noteq> '' '') (map (\<lambda>b. [b]) (colon_form upper d)) =
      map (\<lambda>b. [b]) (filter (\<lambda>b. b \<noteq> CHR '':'') (colon_form upper d))"
    unfolding filter_map
    by (intro arg_cong [of _ _ "map (\<lambda>b. [b])"] filter_cong) (auto simp: comp_def)
  moreover have "filter (\<lambda>b. b \<noteq> CHR '':'') (colon_form upper d) = bare_form upper d"
    using bare_plain [of "CHR '':''" upper d] unfolding colon_form_def bare_form_def
    by (intro filter_join) auto
  ultimately show ?thesis by simp
qed

text \<open>
  A pin an operator copies from the console or from \<open>openssl\<close> is the digest it prints:
  both printed forms of any digest, in either case of letters, parse back to that digest; and a
  controller certificate is accepted exactly when its own digest is one of the pins.
\<close>

theorem pins_decide:
  assumes "length d = 32"
  shows "parse_fingerprint (colon_form upper d) = Inr d \<and> parse_fingerprint (bare_form upper d) = Inr d
         \<and> (verify_server_cert sha256 pins cert = Inr () \<longleftrightarrow> sha256 cert \<in> set pins)"
  using parse_pairs [OF assms colon_digits] parse_pairs [OF assms bare_digits]
  by (simp add: verify_server_cert_def is_pinned_def fold_seen)

theorem pins_decide_witness:
  "parse_fingerprint (colon_form True (replicate 32 0)) = Inr (replicate 32 0)"
  using pins_decide [of "replicate 32 0" True] by simp

end
