(* ===== verification/Portable.thy ===== *)
theory Portable
  imports Auth
begin

text \<open>
  The independent transports (\<open>crates/unifi-server/src/portable.rs\<close>): their settings from the
  environment, the guard of the direct HTTP endpoint, and the newline-delimited stdio transport
  that closes on malformed or oversized input. The router and the serving loop belong to the
  HTTP and MCP libraries.
\<close>

section \<open>Settings\<close>

text \<open>\<open>env::var\<close> as the program reads it.\<close>

datatype env_var = EnvText string | NotPresent | NotUnicode

type_synonym env_vars = "string \<Rightarrow> env_var"

datatype settings_error = SettingsMessage string | SettingsBearer auth_config_error

record portable_settings =
  max_body_bytes :: nat
  max_concurrent_requests :: nat
  request_timeout :: duration
  log_level :: string

record direct_http_settings =
  direct_host :: string
  direct_port :: u16
  direct_bearers :: gateway_bearers
  direct_allowed_hosts :: "string list"
  direct_allowed_origins :: "string list"

definition env_value :: "env_vars \<Rightarrow> string \<Rightarrow> string \<Rightarrow> settings_error + string" where
  "env_value vars name default_text =
     (case vars name of
        EnvText v \<Rightarrow> Inr v
      | NotPresent \<Rightarrow> Inr default_text
      | NotUnicode \<Rightarrow> Inl (SettingsMessage (name @ '' must be valid Unicode'')))"

definition env_number :: "env_vars \<Rightarrow> string \<Rightarrow> nat \<Rightarrow> nat \<Rightarrow> nat \<Rightarrow> settings_error + nat" where
  "env_number vars name default_value low high =
     bind_res (env_value vars name (show_nat default_value)) (\<lambda>v.
     bind_res (ok_or (SettingsMessage (name @ '' must be an unsigned integer''))
                (parse_unsigned u64_max v)) (\<lambda>parsed.
       if low \<le> parsed \<and> parsed \<le> high then Inr parsed
       else Inl (SettingsMessage
              (name @ '' must be in '' @ show_nat low @ ''..='' @ show_nat high))))"

definition portable_from_env :: "env_vars \<Rightarrow> settings_error + portable_settings" where
  "portable_from_env vars =
     bind_res (env_number vars ''UNIFI_MCP_MAX_BODY_BYTES'' (1024 * 1024) 1024 (4 * 1024 * 1024)) (\<lambda>body.
     bind_res (env_number vars ''UNIFI_MCP_MAX_CONCURRENT_REQUESTS'' 32 1 256) (\<lambda>concurrent.
     bind_res (env_number vars ''UNIFI_MCP_REQUEST_TIMEOUT_SECONDS'' 30 1 120) (\<lambda>timeout.
     bind_res (env_value vars ''UNIFI_MCP_LOG_LEVEL'' ''info'') (\<lambda>level.
       Inr \<lparr>max_body_bytes = body, max_concurrent_requests = concurrent,
            request_timeout = from_secs timeout, log_level = level\<rparr>))))"

definition env_secret :: "env_vars \<Rightarrow> string \<Rightarrow> settings_error + string option" where
  "env_secret vars name =
     (case vars name of
        EnvText v \<Rightarrow>
          (if length v \<le> 16 * 1024 then Inr (Some v)
           else Inl (SettingsMessage (name @ '' exceeds the secret size limit'')))
      | NotPresent \<Rightarrow> Inr None
      | NotUnicode \<Rightarrow> Inl (SettingsMessage (name @ '' is invalid'')))"

definition csv :: "string \<Rightarrow> string list" where
  "csv v = filter (\<lambda>part. part \<noteq> []) (map trim (split_on CHR '','' v))"

definition default_hosts :: "u16 \<Rightarrow> string" where
  "default_hosts port =
     (let p = show_nat (unat port)
      in ''localhost,localhost:'' @ p @ '',127.0.0.1,127.0.0.1:'' @ p @ '',[::1],[::1]:'' @ p)"

definition direct_from_env :: "env_vars \<Rightarrow> settings_error + direct_http_settings" where
  "direct_from_env vars =
     bind_res (bind_res (env_secret vars ''UNIFI_MCP_HTTP_BEARER_CURRENT'')
       (ok_or (SettingsMessage ''UNIFI_MCP_HTTP_BEARER_CURRENT is required for HTTP''))) (\<lambda>cur.
     bind_res (env_secret vars ''UNIFI_MCP_HTTP_BEARER_PREVIOUS'') (\<lambda>prev.
     bind_res (env_value vars ''UNIFI_MCP_HOST'' ''127.0.0.1'') (\<lambda>h.
     bind_res (env_number vars ''UNIFI_MCP_PORT'' 8000 1 65535) (\<lambda>p.
     (let port = of_nat p :: u16 in
     bind_res (map_err SettingsBearer (from_protected cur prev)) (\<lambda>rotation.
     bind_res (env_value vars ''UNIFI_MCP_ALLOWED_HOSTS'' (default_hosts port)) (\<lambda>hosts.
     bind_res (env_value vars ''UNIFI_MCP_ALLOWED_ORIGINS'' []) (\<lambda>origins.
       Inr \<lparr>direct_host = h, direct_port = port, direct_bearers = rotation,
            direct_allowed_hosts = csv hosts, direct_allowed_origins = csv origins\<rparr>))))))))"

lemma env_number_range:
  "env_number vars name d low high = Inr n \<Longrightarrow> low \<le> n \<and> n \<le> high"
  by (auto simp: env_number_def bind_res_eq_Inr split: if_splits)

text \<open>Whatever the environment, the limits the server runs with are within their bounds.\<close>

lemma portable_from_env_bounds:
  assumes "portable_from_env vars = Inr s"
  shows "1024 \<le> max_body_bytes s \<and> max_body_bytes s \<le> 4 * 1024 * 1024
         \<and> 1 \<le> max_concurrent_requests s \<and> max_concurrent_requests s \<le> 256
         \<and> from_secs 1 \<le> request_timeout s \<and> request_timeout s \<le> from_secs 120"
  using assms
  by (auto simp: portable_from_env_def bind_res_eq_Inr from_secs_def dest!: env_number_range)

lemma csv_nonempty: "[] \<notin> set (csv v)"
  by (simp add: csv_def)

section \<open>The direct HTTP guard\<close>

text \<open>All the values of a header, in order; a value that is not text is \<open>None\<close>.\<close>

type_synonym header_values = "string \<Rightarrow> string option list"

definition first_text :: "header_values \<Rightarrow> string \<Rightarrow> string option" where
  "first_text hs name = (case hs name of Some v # _ \<Rightarrow> Some v | _ \<Rightarrow> None)"

datatype direct_outcome = Forbidden | UnauthorizedBearer | Passed

definition is_some_and :: "('a \<Rightarrow> bool) \<Rightarrow> 'a option \<Rightarrow> bool" where
  "is_some_and p x = (case x of Some v \<Rightarrow> p v | None \<Rightarrow> False)"

definition require_direct_client :: "direct_http_settings \<Rightarrow> header_values \<Rightarrow> direct_outcome" where
  "require_direct_client auth hs =
     (if \<not> is_some_and (\<lambda>h. list_ex (\<lambda>allowed. eq_ignore_ascii_case allowed h) (direct_allowed_hosts auth))
            (first_text hs ''host'') then Forbidden
      else if hs ''origin'' \<noteq> []
           \<and> \<not> is_some_and (\<lambda>orig. list_ex (\<lambda>allowed. allowed = orig) (direct_allowed_origins auth))
                 (first_text hs ''origin'') then Forbidden
      else (let bearer = Option.bind (first_text hs ''authorization'') (strip_prefix ''Bearer '')
            in if length (hs ''authorization'') \<noteq> 1
                  \<or> \<not> is_some_and (\<lambda>b. accepts (direct_bearers auth) b) bearer
               then UnauthorizedBearer else Passed))"

lemma is_some_and_first_text:
  "is_some_and p (first_text hs n) \<longleftrightarrow> (\<exists>v rest. hs n = Some v # rest \<and> p v)"
  by (auto simp: is_some_and_def first_text_def split: list.split option.split)

lemma strip_prefix_append [simp]: "strip_prefix p (p @ b) = Some b"
  by (induction p) auto

lemma three_guards:
  "(if \<not> a then Forbidden else if b \<and> \<not> c then Forbidden
    else if d \<or> \<not> e then UnauthorizedBearer else Passed) = Passed \<longleftrightarrow> a \<and> (\<not> b \<or> c) \<and> \<not> d \<and> e"
  by auto

lemma single_bearer:
  "length (hs n) = 1 \<and> is_some_and p (Option.bind (first_text hs n) (strip_prefix scheme)) \<longleftrightarrow>
     (\<exists>b. hs n = [Some (scheme @ b)] \<and> p b)"
proof (cases "hs n")
  case (Cons v rest)
  then show ?thesis
    by (cases v) (auto simp: first_text_def is_some_and_def strip_prefix_Some_iff split: option.split)
qed simp

lemma accepts_iff: "accepts b v \<longleftrightarrow> v \<in> insert (current b) (set_option (previous b))"
  by (auto simp: accepts_def split: option.split)

text \<open>
  A direct request passes exactly when its host is one of the allowed hosts up to case, an
  origin, if it has one, is one of the allowed origins to the letter, and it carries exactly one
  authorization value, the scheme followed by one of the bearers of the rotation set.
\<close>

theorem direct_client_passes_iff:
  "require_direct_client auth hs = Passed \<longleftrightarrow>
     (\<exists>h rest. hs ''host'' = Some h # rest
        \<and> to_ascii_lowercase h \<in> to_ascii_lowercase ` set (direct_allowed_hosts auth))
     \<and> (hs ''origin'' = [] \<or> (\<exists>orig rest. hs ''origin'' = Some orig # rest
        \<and> orig \<in> set (direct_allowed_origins auth)))
     \<and> (\<exists>bearer. hs ''authorization'' = [Some (''Bearer '' @ bearer)]
        \<and> bearer \<in> insert (current (direct_bearers auth)) (set_option (previous (direct_bearers auth))))"
proof -
  let ?host = "is_some_and (\<lambda>h. list_ex (\<lambda>allowed. eq_ignore_ascii_case allowed h) (direct_allowed_hosts auth))
      (first_text hs ''host'')"
  let ?origin = "is_some_and (\<lambda>orig. list_ex (\<lambda>allowed. allowed = orig) (direct_allowed_origins auth))
      (first_text hs ''origin'')"
  have "require_direct_client auth hs = Passed \<longleftrightarrow>
      ?host \<and> (hs ''origin'' = [] \<or> ?origin) \<and> length (hs ''authorization'') = 1
      \<and> is_some_and (\<lambda>b. accepts (direct_bearers auth) b)
          (Option.bind (first_text hs ''authorization'') (strip_prefix ''Bearer ''))"
    unfolding require_direct_client_def Let_def by (simp only: three_guards not_not)
  also have "?host \<longleftrightarrow> (\<exists>h rest. hs ''host'' = Some h # rest
        \<and> to_ascii_lowercase h \<in> to_ascii_lowercase ` set (direct_allowed_hosts auth))"
    unfolding is_some_and_first_text list_ex_iff eq_ignore_ascii_case_def image_iff by metis
  also have "?origin \<longleftrightarrow> (\<exists>orig rest. hs ''origin'' = Some orig # rest
        \<and> orig \<in> set (direct_allowed_origins auth))"
    unfolding is_some_and_first_text list_ex_iff by metis
  finally show ?thesis unfolding single_bearer accepts_iff by blast
qed

section \<open>Bounded stdio\<close>

text \<open>
  The reader as what its next \<open>fill_buf\<close> calls return: a failure, or the bytes that are
  available; an empty buffer is the end of the input. \<open>consume\<close> takes bytes from the first.
\<close>

type_synonym reader = "(unit + bytes) list"

definition consume :: "bytes \<Rightarrow> reader \<Rightarrow> reader" where
  "consume remaining rest = (if remaining = [] then rest else Inr remaining # rest)"

definition line_feed :: char where
  "line_feed = CHR 0x0A"

text \<open>
  \<open>receive\<close>: the message or \<open>None\<close> when the transport closes, the pending bytes and the reader
  it leaves behind. \<open>parse\<close> is \<open>serde_json::from_slice(..).ok()\<close> of the message type.
\<close>

fun receive ::
  "(bytes \<Rightarrow> 'm option) \<Rightarrow> nat \<Rightarrow> bytes \<Rightarrow> reader \<Rightarrow> 'm option \<times> bytes \<times> reader" where
  "receive parse limit pending [] = (None, pending, [])"
| "receive parse limit pending (Inl err # rest) = (None, pending, Inl err # rest)"
| "receive parse limit pending (Inr available # rest) =
     (if available = [] then (None, pending, Inr available # rest)
      else (let nl = position (\<lambda>b. b = line_feed) available;
                count = (case nl of None \<Rightarrow> length available | Some index \<Rightarrow> index + 1)
            in if limit < length pending + count then (None, pending, Inr available # rest)
               else (case nl of
                       Some _ \<Rightarrow>
                         (parse (pending @ take count available), [],
                          consume (drop count available) rest)
                     | None \<Rightarrow> receive parse limit (pending @ take count available) rest)))"

text \<open>The bytes a reader still has to deliver, and a reader without failure.\<close>

definition stream_of :: "reader \<Rightarrow> bytes" where
  "stream_of reader = concat (map (\<lambda>r. case r of Inr b \<Rightarrow> b | Inl _ \<Rightarrow> []) reader)"

definition healthy :: "reader \<Rightarrow> bool" where
  "healthy reader \<longleftrightarrow> (\<forall>r\<in>set reader. \<exists>b. r = Inr b \<and> b \<noteq> [])"

definition before_nl :: "bytes \<Rightarrow> bytes" where
  "before_nl = takeWhile (\<lambda>b. b \<noteq> line_feed)"

definition after_nl :: "bytes \<Rightarrow> bytes" where
  "after_nl bs = tl (dropWhile (\<lambda>b. b \<noteq> line_feed) bs)"

text \<open>What one call should return for the bytes at hand.\<close>

definition first_message :: "(bytes \<Rightarrow> 'm option) \<Rightarrow> nat \<Rightarrow> bytes \<Rightarrow> 'm option" where
  "first_message parse limit bs =
     (if line_feed \<in> set bs \<and> Suc (length (before_nl bs)) \<le> limit
      then parse (before_nl bs @ [line_feed]) else None)"

lemma stream_of_simps [simp]:
  "stream_of [] = []" "stream_of (Inr b # rest) = b @ stream_of rest"
  "stream_of (consume bs rest) = bs @ stream_of rest"
  by (simp_all add: stream_of_def consume_def)

lemma position_line:
  assumes "position (\<lambda>b. b = line_feed) bs = Some i"
  shows "take (i + 1) bs = before_nl bs @ [line_feed] \<and> drop (i + 1) bs = after_nl bs
         \<and> length (before_nl bs) = i \<and> line_feed \<in> set bs"
  using assms
proof (induction bs arbitrary: i)
  case (Cons b bs)
  then show ?case
    by (cases "b = line_feed") (auto simp: before_nl_def after_nl_def)
qed simp

lemma before_nl_append:
  "line_feed \<notin> set p \<Longrightarrow> before_nl (p @ bs) = p @ before_nl bs"
  "line_feed \<notin> set p \<Longrightarrow> after_nl (p @ bs) = after_nl bs"
  by (induction p) (auto simp: before_nl_def after_nl_def)

lemma before_nl_prefix:
  "line_feed \<in> set bs \<Longrightarrow> before_nl (bs @ rest) = before_nl bs \<and> after_nl (bs @ rest) = after_nl bs @ rest"
  by (induction bs) (auto simp: before_nl_def after_nl_def)

lemma before_nl_longer:
  "line_feed \<notin> set p \<Longrightarrow> length p \<le> length (before_nl (p @ bs))"
  by (simp add: before_nl_append)

lemma receive_stream:
  assumes "healthy reader" and "line_feed \<notin> set pending"
  shows "fst (receive parse limit pending reader) =
           first_message parse limit (pending @ stream_of reader)
       \<and> (line_feed \<in> set (stream_of reader)
            \<and> Suc (length (before_nl (pending @ stream_of reader))) \<le> limit
          \<longrightarrow> fst (snd (receive parse limit pending reader)) = []
            \<and> stream_of (snd (snd (receive parse limit pending reader))) =
                after_nl (pending @ stream_of reader)
            \<and> healthy (snd (snd (receive parse limit pending reader))))"
  using assms
proof (induction parse limit pending reader rule: receive.induct)
  case (1 parse limit pending)
  then show ?case by (simp add: first_message_def)
next
  case (2 parse limit pending err rest)
  then show ?case by (simp add: healthy_def)
next
  case (3 parse limit pending available rest)
  from "3.prems"(1) have ne: "available \<noteq> []" and rest: "healthy rest" by (auto simp: healthy_def)
  show ?case
  proof (cases "position (\<lambda>b. b = line_feed) available")
    case None
    then have no: "line_feed \<notin> set available" by (auto simp: position_None)
    with "3.prems"(2) have pend: "line_feed \<notin> set (pending @ available)" by simp
    show ?thesis
    proof (cases "limit < length pending + length available")
      case True
      from before_nl_longer [OF pend, of "stream_of rest"] True
      show ?thesis by (simp add: ne None first_message_def)
    next
      case False
      from None False ne have
        eq: "receive parse limit pending (Inr available # rest) = receive parse limit (pending @ available) rest"
        by simp
      have "line_feed \<in> set (stream_of (Inr available # rest)) \<longleftrightarrow> line_feed \<in> set (stream_of rest)"
        using no by simp
      with "3.IH" [OF ne refl refl _ None] False rest pend None show ?thesis
        unfolding eq by (simp add: append_assoc)
    qed
  next
    case (Some i)
    note line = position_line [OF Some]
    from line before_nl_prefix [of available "stream_of rest"] "3.prems"(2)
    have all: "before_nl (pending @ available @ stream_of rest) = pending @ before_nl available"
      "after_nl (pending @ available @ stream_of rest) = after_nl available @ stream_of rest"
      by (simp_all add: before_nl_append)
    have "healthy (consume (after_nl available) rest)"
      using rest by (auto simp: healthy_def consume_def)
    with line all ne Some show ?thesis by (auto simp: first_message_def)
  qed
qed

text \<open>
  C38. What the stdio transport receives depends only on the bytes that arrive, not on how the
  operating system cuts them, nor on how many were already taken in by a call that was
  cancelled: from the pending bytes and the input it returns the first line, when that line with
  its newline is within the limit and parses, closing otherwise, and it leaves exactly the bytes
  after the line for the next call.
\<close>

theorem stdio_receives_lines:
  assumes "healthy reader" and "line_feed \<notin> set pending"
    and "bs = pending @ stream_of reader"
  shows "fst (receive parse limit pending reader) =
           (if line_feed \<in> set bs \<and> length (before_nl bs) < limit
            then parse (before_nl bs @ [line_feed]) else None)
       \<and> (if line_feed \<in> set bs \<and> length (before_nl bs) < limit
          then fst (snd (receive parse limit pending reader)) = []
            \<and> stream_of (snd (snd (receive parse limit pending reader))) = after_nl bs
            \<and> bs = before_nl bs @ [line_feed] @ after_nl bs
          else True)"
proof -
  have "bs = before_nl bs @ [line_feed] @ after_nl bs" if "line_feed \<in> set bs"
    using that by (induction bs) (auto simp: before_nl_def after_nl_def)
  with receive_stream [OF assms(1,2), of parse limit] assms(2,3) show ?thesis
    by (auto simp: first_message_def)
qed

theorem stdio_receives_lines_witness:
  "fst (receive (\<lambda>b. Some b) 10 ''a'' [Inr ''b'', Inr [CHR ''c'', line_feed, CHR ''d'']]) =
     Some [CHR ''a'', CHR ''b'', CHR ''c'', line_feed]"
proof -
  have 1: "healthy [Inr ''b'', Inr [CHR ''c'', line_feed, CHR ''d'']]" by (auto simp: healthy_def)
  have 2: "line_feed \<notin> set ''a''" by (simp add: line_feed_def)
  have "before_nl (''a'' @ stream_of [Inr ''b'', Inr [CHR ''c'', line_feed, CHR ''d'']]) = ''abc''"
    by (simp add: before_nl_def line_feed_def)
  with stdio_receives_lines [OF 1 2 refl, of "\<lambda>b. Some b" 10] show ?thesis by simp
qed

end
