(* ===== verification/Registry.thy ===== *)
theory Registry
  imports Prelude "HOL-Library.Multiset"
begin

text \<open>
  The tool registry (\<open>crates/unifi-mcp/src/registry.rs\<close>): the kinds of tools, their
  authorization class and surface, the behavior labels, and the table every catalog is taken
  from. The prose descriptions the table also carries are not modelled.
\<close>

section \<open>Kinds\<close>

datatype tool_surface = NetworkSurface | ProtectSurface

fun server_name :: "tool_surface \<Rightarrow> string" where
  "server_name NetworkSurface = ''unifi''"
| "server_name ProtectSurface = ''unifi-protect''"

datatype (plugins only:) tool_kind =
    NetworkOverview | ClientsSearch | ClientsContext | DevicesSearch | DevicesStatus |
    PendingDevicesList | DevicesAdopt | DevicesRemove | FirewallRead | NetworksRead |
    NetworksList | NetworksStatus | NetworksConfigure | RadiusProfilesList | NetworkSourceRead |
    NetworkInventoryList | NetworkInventoryDetail | NetworkSwitchingDetail | NetworkPolicyList |
    NetworkPolicyDetail | AclRulesConfigure | AclRulesOrderingRead |
    FirewallPoliciesOrderingRead | AclRulesOrderingConfigure |
    FirewallPoliciesOrderingConfigure | DnsPoliciesConfigure | FirewallZonesConfigure |
    FirewallPoliciesConfigure | TrafficListsConfigure | WifiBroadcastsList |
    WifiBroadcastsStatus | WifiBroadcastsConfigure | CamerasSearch | CamerasStatus |
    ProtectDevicesList | ProtectDevicesStatus | ProtectDevicesAction |
    ProtectDevicesSettingsUpdate | ProtectArmProfilesList | ProtectArmProfilesConfigure |
    ProtectAlarmsAction | ProtectUsersList | ProtectUsersStatus | CamerasPosTransaction |
    ProtectViewersList | ProtectViewersStatus | ProtectViewersSettingsUpdate |
    ProtectLiveviewsList | ProtectLiveviewsStatus | ProtectLiveviewsConfigure |
    CamerasSettingsRead | CamerasSettingsUpdate | CamerasSnapshot | CamerasPtzControl |
    CamerasMicrophoneDisable | ProtectAssetsList | ProtectAssetsUpload | CamerasStreamsList |
    CamerasStreamsUpdate | CamerasTalkbackStart | ProtectOverview | ProtectEvents |
    ProtectUpdates | ProtectEventThumbnail | WifiDiagnose | EventsSearch | EventsRead |
    StatsQuery | TrafficRead | WlansUpdate | WlansList | WlansStatus | WlansConfigure |
    WlanGroupsList | ClientsControl | DevicesControl | GuestsStatus | GuestsAuthorize |
    GuestsUnauthorize | PortForwardsUpdate | PortForwardsList | PortForwardsStatus |
    PortForwardsConfigure | FirewallPoliciesUpdate | FirewallPoliciesDelete | VouchersSearch |
    VouchersStatus | VouchersRevoke | VouchersRevokeMatching | VouchersCreate

text \<open>The arms of the two exhaustive matches that answer \<open>true\<close> and \<open>Protect\<close>.\<close>

definition write_kinds :: "tool_kind list" where
  "write_kinds = [
     WlansUpdate, WlansConfigure, NetworksConfigure, WifiBroadcastsConfigure, ClientsControl,
     DevicesControl, DevicesAdopt, DevicesRemove, AclRulesConfigure, AclRulesOrderingConfigure,
     FirewallPoliciesOrderingConfigure, DnsPoliciesConfigure, FirewallZonesConfigure,
     FirewallPoliciesConfigure, TrafficListsConfigure, GuestsAuthorize, GuestsUnauthorize,
     PortForwardsUpdate, PortForwardsConfigure, FirewallPoliciesUpdate, FirewallPoliciesDelete,
     VouchersRevoke, VouchersRevokeMatching, CamerasPtzControl, CamerasMicrophoneDisable,
     ProtectAssetsUpload, CamerasSettingsUpdate, CamerasStreamsUpdate, CamerasTalkbackStart,
     CamerasPosTransaction, ProtectDevicesAction, ProtectDevicesSettingsUpdate,
     ProtectArmProfilesConfigure, ProtectAlarmsAction, ProtectViewersSettingsUpdate,
     ProtectLiveviewsConfigure, VouchersCreate]"

definition requires_write_access :: "tool_kind \<Rightarrow> bool" where
  "requires_write_access k \<longleftrightarrow> k \<in> set write_kinds"

definition protect_kinds :: "tool_kind list" where
  "protect_kinds = [
     CamerasSearch, CamerasStatus, ProtectDevicesList, ProtectDevicesStatus,
     ProtectDevicesAction, ProtectDevicesSettingsUpdate, ProtectArmProfilesList,
     ProtectArmProfilesConfigure, ProtectAlarmsAction, ProtectUsersList, ProtectUsersStatus,
     ProtectViewersList, ProtectViewersStatus, ProtectViewersSettingsUpdate,
     ProtectLiveviewsList, ProtectLiveviewsStatus, ProtectLiveviewsConfigure,
     CamerasSettingsRead, CamerasSettingsUpdate, CamerasSnapshot, CamerasPtzControl,
     CamerasMicrophoneDisable, ProtectAssetsList, ProtectAssetsUpload, CamerasStreamsList,
     CamerasStreamsUpdate, CamerasTalkbackStart, CamerasPosTransaction, ProtectOverview,
     ProtectEvents, ProtectUpdates, ProtectEventThumbnail]"

definition surface :: "tool_kind \<Rightarrow> tool_surface" where
  "surface k = (if k \<in> set protect_kinds then ProtectSurface else NetworkSurface)"

section \<open>Behavior and specifications\<close>

record tool_behavior =
  read_only :: bool
  destructive :: bool
  idempotent :: bool
  open_world :: bool
  outcome :: string
  requires_review :: bool
  input_sensitive :: bool
  result_sensitive :: bool
  result_untrusted :: bool

definition mark_result_sensitive :: "tool_behavior \<Rightarrow> tool_behavior" where
  "mark_result_sensitive b = b\<lparr>result_sensitive := True\<rparr>"

definition mark_input_sensitive :: "tool_behavior \<Rightarrow> tool_behavior" where
  "mark_input_sensitive b = b\<lparr>input_sensitive := True\<rparr>"

definition behavior_write :: "bool \<Rightarrow> tool_behavior" where
  "behavior_write idem =
     \<lparr>read_only = False, destructive = True, idempotent = idem, open_world = False,
      outcome = ''impactful'', requires_review = True, input_sensitive = False,
      result_sensitive = False, result_untrusted = True\<rparr>"

definition behavior_read :: tool_behavior where
  "behavior_read =
     \<lparr>read_only = True, destructive = False, idempotent = True, open_world = False,
      outcome = ''benign'', requires_review = False, input_sensitive = False,
      result_sensitive = False, result_untrusted = True\<rparr>"

record tool_spec =
  spec_name :: string
  spec_risk :: string
  spec_behavior :: tool_behavior
  spec_kind :: tool_kind

definition sensitive_read_spec :: "tool_kind \<Rightarrow> string \<Rightarrow> tool_spec" where
  "sensitive_read_spec k name =
     \<lparr>spec_name = name, spec_risk = ''low'',
      spec_behavior = mark_result_sensitive behavior_read, spec_kind = k\<rparr>"

definition credential_read_spec :: "tool_kind \<Rightarrow> string \<Rightarrow> tool_spec" where
  "credential_read_spec k name =
     \<lparr>spec_name = name, spec_risk = ''high'',
      spec_behavior = mark_result_sensitive behavior_read, spec_kind = k\<rparr>"

definition write_spec :: "tool_kind \<Rightarrow> string \<Rightarrow> tool_behavior \<Rightarrow> tool_spec" where
  "write_spec k name b =
     \<lparr>spec_name = name, spec_risk = ''high'', spec_behavior = b, spec_kind = k\<rparr>"

definition read_spec :: "tool_kind \<Rightarrow> string \<Rightarrow> tool_spec" where
  "read_spec k name =
     \<lparr>spec_name = name, spec_risk = ''low'', spec_behavior = behavior_read, spec_kind = k\<rparr>"

section \<open>The table\<close>

definition TOOL_REGISTRY :: "tool_spec list" where
  "TOOL_REGISTRY = [
     read_spec NetworkOverview ''network.overview'',
     read_spec ClientsSearch ''clients.search'',
     read_spec ClientsContext ''clients.context'',
     read_spec DevicesSearch ''devices.search'',
     read_spec DevicesStatus ''devices.status'',
     sensitive_read_spec PendingDevicesList ''devices.pending.list'',
     sensitive_read_spec FirewallRead ''firewall.read'',
     sensitive_read_spec CamerasSearch ''cameras.search'',
     sensitive_read_spec CamerasStatus ''cameras.status'',
     sensitive_read_spec ProtectDevicesList ''protect.devices.list'',
     sensitive_read_spec ProtectDevicesStatus ''protect.devices.status'',
     write_spec ProtectDevicesAction ''protect.devices.action'' (mark_result_sensitive (mark_input_sensitive (behavior_write False))),
     write_spec ProtectDevicesSettingsUpdate ''protect.devices.settings.update'' (mark_result_sensitive (mark_input_sensitive (behavior_write True))),
     sensitive_read_spec ProtectArmProfilesList ''protect.arm_profiles.list'',
     write_spec ProtectArmProfilesConfigure ''protect.arm_profiles.configure'' (mark_result_sensitive (mark_input_sensitive (behavior_write False))),
     write_spec ProtectAlarmsAction ''protect.alarms.action'' (mark_result_sensitive (mark_input_sensitive (behavior_write False))),
     sensitive_read_spec ProtectUsersList ''protect.users.list'',
     sensitive_read_spec ProtectUsersStatus ''protect.users.status'',
     write_spec CamerasPosTransaction ''cameras.pos.transaction'' (mark_result_sensitive (mark_input_sensitive (behavior_write False))),
     sensitive_read_spec ProtectViewersList ''protect.viewers.list'',
     sensitive_read_spec ProtectViewersStatus ''protect.viewers.status'',
     write_spec ProtectViewersSettingsUpdate ''protect.viewers.settings.update'' (mark_result_sensitive (mark_input_sensitive (behavior_write True))),
     sensitive_read_spec ProtectLiveviewsList ''protect.liveviews.list'',
     sensitive_read_spec ProtectLiveviewsStatus ''protect.liveviews.status'',
     write_spec ProtectLiveviewsConfigure ''protect.liveviews.configure'' (mark_result_sensitive (mark_input_sensitive (behavior_write False))),
     sensitive_read_spec CamerasSettingsRead ''cameras.settings.read'',
     write_spec CamerasSettingsUpdate ''cameras.settings.update'' (mark_result_sensitive (behavior_write True)),
     sensitive_read_spec CamerasSnapshot ''cameras.snapshot'',
     write_spec CamerasPtzControl ''cameras.ptz.control'' (mark_result_sensitive (behavior_write False)),
     write_spec CamerasMicrophoneDisable ''cameras.microphone.disable'' (mark_result_sensitive (behavior_write True)),
     sensitive_read_spec ProtectAssetsList ''protect.assets.list'',
     write_spec ProtectAssetsUpload ''protect.assets.upload'' (mark_result_sensitive (mark_input_sensitive (behavior_write False))),
     credential_read_spec CamerasStreamsList ''cameras.streams.list'',
     write_spec CamerasStreamsUpdate ''cameras.streams.update'' (mark_result_sensitive (behavior_write False)),
     write_spec CamerasTalkbackStart ''cameras.talkback.start'' (mark_result_sensitive (behavior_write False)),
     sensitive_read_spec ProtectOverview ''protect.overview'',
     sensitive_read_spec ProtectEvents ''protect.events'',
     sensitive_read_spec ProtectEventThumbnail ''protect.event.thumbnail'',
     sensitive_read_spec ProtectUpdates ''protect.updates'',
     read_spec WifiDiagnose ''wifi.diagnose'',
     read_spec EventsSearch ''events.search'',
     sensitive_read_spec EventsRead ''events.read'',
     read_spec StatsQuery ''stats.query'',
     sensitive_read_spec TrafficRead ''traffic.read'',
     sensitive_read_spec NetworksRead ''networks.read'',
     sensitive_read_spec NetworksList ''networks.list'',
     sensitive_read_spec NetworksStatus ''networks.status'',
     write_spec NetworksConfigure ''networks.configure'' (mark_result_sensitive (mark_input_sensitive (behavior_write False))),
     sensitive_read_spec RadiusProfilesList ''radius_profiles.list'',
     sensitive_read_spec NetworkSourceRead ''network.source.read'',
     sensitive_read_spec NetworkInventoryList ''network.inventory.list'',
     sensitive_read_spec NetworkInventoryDetail ''network.inventory.detail'',
     sensitive_read_spec NetworkSwitchingDetail ''network.switching.detail'',
     sensitive_read_spec NetworkPolicyList ''network.policy.list'',
     sensitive_read_spec NetworkPolicyDetail ''network.policy.detail'',
     write_spec AclRulesConfigure ''acl.rules.configure'' (mark_result_sensitive (mark_input_sensitive (behavior_write False))),
     sensitive_read_spec AclRulesOrderingRead ''acl.rules.ordering.read'',
     write_spec AclRulesOrderingConfigure ''acl.rules.ordering.configure'' (mark_result_sensitive (mark_input_sensitive (behavior_write True))),
     sensitive_read_spec FirewallPoliciesOrderingRead ''firewall.policies.ordering.read'',
     write_spec FirewallPoliciesOrderingConfigure ''firewall.policies.ordering.configure'' (mark_result_sensitive (mark_input_sensitive (behavior_write True))),
     write_spec FirewallZonesConfigure ''firewall.zones.configure'' (mark_result_sensitive (mark_input_sensitive (behavior_write False))),
     write_spec FirewallPoliciesConfigure ''firewall.policies.configure'' (mark_result_sensitive (mark_input_sensitive (behavior_write False))),
     write_spec DnsPoliciesConfigure ''dns.policies.configure'' (mark_result_sensitive (mark_input_sensitive (behavior_write False))),
     write_spec TrafficListsConfigure ''traffic.matching_lists.configure'' (mark_result_sensitive (mark_input_sensitive (behavior_write False))),
     write_spec WifiBroadcastsConfigure ''wifi.broadcasts.configure'' (mark_result_sensitive (mark_input_sensitive (behavior_write False))),
     sensitive_read_spec WifiBroadcastsList ''wifi.broadcasts.list'',
     sensitive_read_spec WifiBroadcastsStatus ''wifi.broadcasts.status'',
     sensitive_read_spec WlansList ''wlans.list'',
     sensitive_read_spec WlansStatus ''wlans.status'',
     sensitive_read_spec WlanGroupsList ''wlans.groups.list'',
     write_spec WlansConfigure ''wlans.configure'' (mark_result_sensitive (mark_input_sensitive (behavior_write False))),
     write_spec WlansUpdate ''wlans.update'' (mark_result_sensitive (mark_input_sensitive (behavior_write True))),
     write_spec ClientsControl ''clients.control'' (mark_result_sensitive (behavior_write False)),
     write_spec DevicesControl ''devices.control'' (mark_result_sensitive (behavior_write False)),
     write_spec DevicesAdopt ''devices.adopt'' (mark_result_sensitive (mark_input_sensitive (behavior_write False))),
     write_spec DevicesRemove ''devices.remove'' (mark_result_sensitive (behavior_write False)),
     sensitive_read_spec GuestsStatus ''guests.status'',
     write_spec GuestsAuthorize ''guests.authorize'' (mark_result_sensitive (behavior_write False)),
     write_spec GuestsUnauthorize ''guests.unauthorize'' (mark_result_sensitive (behavior_write False)),
     sensitive_read_spec PortForwardsList ''port_forwards.list'',
     sensitive_read_spec PortForwardsStatus ''port_forwards.status'',
     write_spec PortForwardsConfigure ''port_forwards.configure'' (mark_result_sensitive (mark_input_sensitive (behavior_write False))),
     write_spec PortForwardsUpdate ''port_forwards.update'' (mark_result_sensitive (behavior_write True)),
     write_spec FirewallPoliciesUpdate ''firewall.policies.update'' (mark_result_sensitive (behavior_write True)),
     write_spec FirewallPoliciesDelete ''firewall.policies.delete'' (mark_result_sensitive (behavior_write True)),
     credential_read_spec VouchersSearch ''vouchers.search'',
     credential_read_spec VouchersStatus ''vouchers.status'',
     write_spec VouchersRevoke ''vouchers.revoke'' (mark_result_sensitive (behavior_write True)),
     write_spec VouchersRevokeMatching ''vouchers.revoke_matching'' (mark_result_sensitive (mark_input_sensitive (behavior_write False))),
     write_spec VouchersCreate ''vouchers.create'' (mark_result_sensitive (behavior_write False))]"

definition tools_for_surface :: "tool_surface \<Rightarrow> tool_spec list" where
  "tools_for_surface s = filter (\<lambda>spec. surface (spec_kind spec) = s) TOOL_REGISTRY"

section \<open>What the table guarantees\<close>

lemmas spec_defs =
  read_spec_def sensitive_read_spec_def credential_read_spec_def write_spec_def
  behavior_read_def behavior_write_def mark_result_sensitive_def mark_input_sensitive_def

lemma registry_kinds_distinct: "distinct (map spec_kind TOOL_REGISTRY)"
  by (simp add: TOOL_REGISTRY_def spec_defs)

lemma registry_kinds_complete: "k \<in> set (map spec_kind TOOL_REGISTRY)"
  by (cases k) (simp_all add: TOOL_REGISTRY_def spec_defs)

lemma registry_names_distinct: "distinct (map spec_name TOOL_REGISTRY)"
  by (simp add: TOOL_REGISTRY_def spec_defs)

text \<open>
  How a specification is labelled: the annotations of a write go with the authorization class of
  its kind, a write is of high risk and reviewed, and no result is ever called trusted.
\<close>

definition consistently_labelled :: "tool_spec \<Rightarrow> bool" where
  "consistently_labelled s \<longleftrightarrow>
     (read_only (spec_behavior s) \<longleftrightarrow> \<not> requires_write_access (spec_kind s))
     \<and> (destructive (spec_behavior s) \<longleftrightarrow> requires_write_access (spec_kind s))
     \<and> (requires_review (spec_behavior s) \<longleftrightarrow> requires_write_access (spec_kind s))
     \<and> (outcome (spec_behavior s) = (if requires_write_access (spec_kind s) then ''impactful'' else ''benign''))
     \<and> (idempotent (spec_behavior s) \<or> requires_write_access (spec_kind s))
     \<and> (spec_risk s = ''high'' \<or> \<not> requires_write_access (spec_kind s))
     \<and> result_untrusted (spec_behavior s) \<and> \<not> open_world (spec_behavior s)"

lemma registry_labels: "list_all consistently_labelled TOOL_REGISTRY"
  by (simp add: TOOL_REGISTRY_def spec_defs consistently_labelled_def requires_write_access_def
      write_kinds_def)

lemma surfaces_partition:
  "mset TOOL_REGISTRY = mset (tools_for_surface NetworkSurface) + mset (tools_for_surface ProtectSurface)"
proof -
  have "s \<noteq> ProtectSurface \<longleftrightarrow> s = NetworkSurface" for s by (cases s) simp_all
  then have "filter (\<lambda>spec. surface (spec_kind spec) = ProtectSurface) TOOL_REGISTRY =
      filter (\<lambda>spec. \<not> surface (spec_kind spec) = NetworkSurface) TOOL_REGISTRY"
    by (metis tool_surface.distinct(1))
  then show ?thesis by (simp add: tools_for_surface_def multiset_partition)
qed

lemma one_spec_per_kind: "\<exists>!s. s \<in> set TOOL_REGISTRY \<and> spec_kind s = k"
proof -
  from registry_kinds_complete [of k] obtain s where s: "s \<in> set TOOL_REGISTRY" "spec_kind s = k" by auto
  moreover have "t = s" if "t \<in> set TOOL_REGISTRY" "spec_kind t = k" for t
    using registry_kinds_distinct that s by (auto simp: distinct_map inj_on_def)
  ultimately show ?thesis by blast
qed

text \<open>
  C39. The registry and the classification never disagree: every kind of tool is registered
  exactly once and under a name no other tool has; the annotations, the risk and the review flag
  of each entry follow the authorization class of its kind; and the catalogs of the two surfaces
  together hold every entry exactly once.
\<close>

theorem registry_is_consistent:
  "(\<exists>!s. s \<in> set TOOL_REGISTRY \<and> spec_kind s = k)
   \<and> distinct (map spec_name TOOL_REGISTRY) \<and> length TOOL_REGISTRY = 90
   \<and> list_all consistently_labelled TOOL_REGISTRY
   \<and> mset TOOL_REGISTRY = mset (tools_for_surface NetworkSurface) + mset (tools_for_surface ProtectSurface)
   \<and> distinct (map spec_kind (tools_for_surface surf))"
proof -
  have "length TOOL_REGISTRY = 90" by (simp add: TOOL_REGISTRY_def)
  moreover have "distinct (map spec_kind (tools_for_surface surf))"
    using registry_kinds_distinct by (simp add: tools_for_surface_def distinct_map_filter)
  ultimately show ?thesis
    using one_spec_per_kind registry_names_distinct registry_labels surfaces_partition by blast
qed

end
