(* ===== verification/Tool_Runtime.thy ===== *)
theory Tool_Runtime
  imports Legacy_Operations Handler Mutation
begin

text \<open>
  What every tool handler of \<open>crates/unifi-mcp/src/tools.rs\<close> runs on: the runtime of
  \<open>handler.rs\<close> (the two clients, the configured site, the request timeout), the way a client call
  is made and its error translated, the timed read-back of a write, the parsing of arguments, and
  the shaping of a result that is too large for structured content. The last section bounds the
  writes a handler can put on the wire, by rules that follow the structure of its code.
\<close>

named_theorems io_bounds "how many writes a call of a client can make"

section \<open>The runtime\<close>

text \<open>
  The fields of \<open>Runtime::Network\<close> with the request timeout, and the outside the handlers use:
  serde's printer, the display form of an MCP error, the response decoders serde derives, and
  tokio's timer. \<open>rt_cut budget before after\<close> says whether a future that would take the program
  from \<open>before\<close> to \<open>after\<close> is dropped by a timer of \<open>budget\<close>; if so it gives how many of its
  events had happened by then and what it had left of the site cell, the environment and the
  session.
\<close>

record 'e tool_runtime =
  integration :: "'e integration_client"
  legacy :: "'e legacy_client"
  legacy_site :: string
  request_timeout :: duration
  rt_cut :: "duration \<Rightarrow> string option \<times> 'e world \<Rightarrow> string option \<times> 'e world
               \<Rightarrow> (nat \<times> string option \<times> 'e \<times> session_state) option"
  show_json :: "json \<Rightarrow> string"
  show_mcp_error :: "mcp_error \<Rightarrow> string"
  dec_sites :: "site_summary page decoder"
  dec_envelope :: "json legacy_envelope decoder"
  dec_rows :: "json_object legacy_envelope decoder"

type_synonym 'e tool_state = "string option \<times> 'e world"

type_synonym ('e, 'a) tool = "'e tool_state \<Rightarrow> (mcp_error + 'a) \<times> 'e tool_state"

text \<open>A call of a client: the site cell is the server's own and is not touched.\<close>

definition on_world :: "('e world \<Rightarrow> 'r \<times> 'e world) \<Rightarrow> 'e tool_state \<Rightarrow> 'r \<times> 'e tool_state" where
  "on_world m = (\<lambda>(cell, w). case m w of (r, w') \<Rightarrow> (r, cell, w'))"

text \<open>\<open>.await.map_err(api_error)?\<close>.\<close>

definition upstream :: "('e world \<Rightarrow> (api_error + 'a) \<times> 'e world) \<Rightarrow> ('e, 'a) tool" where
  "upstream m = map_err_io mcp_api_error (on_world m)"

definition resolve_site :: "('e, 'x) tool_runtime_scheme \<Rightarrow> ('e, string) tool" where
  "resolve_site rt = site_id (dec_sites rt) (integration rt) (legacy_site rt)"

definition instant_now :: "('e, 'x) tool_runtime_scheme \<Rightarrow> 'e tool_state \<Rightarrow> instant" where
  "instant_now rt s = ext_now (integration rt) (env (snd s))"

section \<open>Timed read-back\<close>

text \<open>Each write tool has its own pair of constants; all of them are five seconds and 500 ms.\<close>

definition READBACK_BUDGET :: duration where
  "READBACK_BUDGET = from_secs 5"

definition RESPONSE_RESERVE :: duration where
  "RESPONSE_RESERVE = 500000000"

text \<open>\<open>Duration::saturating_sub\<close> is subtraction of natural numbers.\<close>

definition readback_budget :: "duration \<Rightarrow> instant \<Rightarrow> instant \<Rightarrow> duration" where
  "readback_budget timeout started now = min (timeout - (now - started) - RESPONSE_RESERVE) READBACK_BUDGET"

text \<open>\<open>tokio::time::timeout\<close>: the result, or the future dropped at one of its await points.\<close>

definition tokio_timeout ::
  "('e, 'x) tool_runtime_scheme \<Rightarrow> duration \<Rightarrow> ('e tool_state \<Rightarrow> 'r \<times> 'e tool_state)
     \<Rightarrow> 'e tool_state \<Rightarrow> 'r option \<times> 'e tool_state" where
  "tokio_timeout rt budget m s =
     (case m s of (r, s') \<Rightarrow>
        (case rt_cut rt budget s s' of
           None \<Rightarrow> (Some r, s')
         | Some (k, cell, e, sess) \<Rightarrow>
             (None, cell,
              (snd s')\<lparr>env := e, session := sess,
                 trace := take (length (trace (snd s)) + k) (trace (snd s'))\<rparr>)))"

datatype 'r timed = Skipped | TimedOut | Finished 'r

definition timed_readback ::
  "('e, 'x) tool_runtime_scheme \<Rightarrow> instant \<Rightarrow> ('e tool_state \<Rightarrow> 'r \<times> 'e tool_state)
     \<Rightarrow> 'e tool_state \<Rightarrow> 'r timed \<times> 'e tool_state" where
  "timed_readback rt started m s =
     (let budget = readback_budget (request_timeout rt) started (instant_now rt s)
      in if budget = 0 then (Skipped, s)
         else case tokio_timeout rt budget m s of
                (None, s') \<Rightarrow> (TimedOut, s')
              | (Some r, s') \<Rightarrow> (Finished r, s'))"

lemma timed_readback_Finished:
  "timed_readback rt started m s = (Finished r, s') \<Longrightarrow> fst (m s) = r"
  by (auto simp: timed_readback_def tokio_timeout_def Let_def split: prod.splits option.splits if_splits)

section \<open>Arguments and results\<close>

record params =
  arguments :: "(string \<times> json) list option"

definition parse :: "(json \<Rightarrow> string + 'i) \<Rightarrow> params \<Rightarrow> mcp_error + 'i" where
  "parse from_value ps =
     map_err (\<lambda>err. InvalidParams (''arguments do not match the advertised schema: '' @ err))
       (from_value (JObj (case arguments ps of None \<Rightarrow> [] | Some m \<Rightarrow> m)))"

definition STRUCTURED_CONTENT_TARGET_BYTES :: nat where
  "STRUCTURED_CONTENT_TARGET_BYTES = 48 * 1024"

text \<open>
  \<open>CallToolResult::structured(value)\<close> carries the value and its text as the first content block;
  the blocks pushed after it are kept apart here.
\<close>

record call_result =
  structured_content :: json
  extra_content :: "string list"

definition structured :: "json \<Rightarrow> call_result" where
  "structured v = \<lparr>structured_content = v, extra_content = []\<rparr>"

definition exceeds :: "('e, 'x) tool_runtime_scheme \<Rightarrow> json \<Rightarrow> bool" where
  "exceeds rt v \<longleftrightarrow> STRUCTURED_CONTENT_TARGET_BYTES < length (show_json rt v)"

definition text_block :: "string \<Rightarrow> string \<Rightarrow> string" where
  "text_block label text = label @ '': '' @ text"

definition map_remove :: "'k \<Rightarrow> ('k \<times> 'v) list \<Rightarrow> ('k \<times> 'v) list" where
  "map_remove k m = filter (\<lambda>(a, _). a \<noteq> k) m"

text \<open>
  One step of the shaping of a serialized result: a text field moves to a content block when the
  whole is too large, and leaves a marker.
\<close>

definition spill_text ::
  "('e, 'x) tool_runtime_scheme \<Rightarrow> string \<times> string \<Rightarrow> json \<times> string list \<Rightarrow> json \<times> string list" where
  "spill_text rt = (\<lambda>(field, marker) (v, content).
     if exceeds rt v
     then (case v of
             JObj m \<Rightarrow>
               (case get field m of
                  None \<Rightarrow> (v, content)
                | Some (JStr body) \<Rightarrow>
                    (JObj (map_insert marker (JBool True) (map_remove field m)),
                     content @ [text_block field body])
                | Some _ \<Rightarrow> (JObj (map_remove field m), content))
           | _ \<Rightarrow> (v, content))
     else (v, content))"

definition structured_with_accepted_response ::
  "('e, 'x) tool_runtime_scheme \<Rightarrow> json \<Rightarrow> call_result" where
  "structured_with_accepted_response rt output =
     (case fold (spill_text rt)
             [(''responseBody'', ''responseBodyInContent''), (''readbackError'', ''readbackErrorInContent'')]
             (output, []) of
        (v, content) \<Rightarrow> \<lparr>structured_content = v, extra_content = content\<rparr>)"

text \<open>
  The same step on a typed output, as the result functions of the tools repeat it: \<open>take\<close> is
  \<open>output.field.take()\<close> with the marker set, and gives the text of the block.
\<close>

definition spill_field ::
  "('e, 'x) tool_runtime_scheme \<Rightarrow> ('o \<Rightarrow> json) \<Rightarrow> string \<times> ('o \<Rightarrow> (string \<times> 'o) option)
     \<Rightarrow> 'o \<times> string list \<Rightarrow> 'o \<times> string list" where
  "spill_field rt ser = (\<lambda>(label, take_field) (output, content).
     if exceeds rt (ser output)
     then (case take_field output of
             None \<Rightarrow> (output, content)
           | Some (text, output) \<Rightarrow> (output, content @ [text_block label text]))
     else (output, content))"

definition spilled_result ::
  "('e, 'x) tool_runtime_scheme \<Rightarrow> ('o \<Rightarrow> json) \<Rightarrow> (string \<times> ('o \<Rightarrow> (string \<times> 'o) option)) list
     \<Rightarrow> 'o \<Rightarrow> call_result" where
  "spilled_result rt ser steps output =
     (case fold (spill_field rt ser) steps (output, []) of
        (output, content) \<Rightarrow> (structured (ser output))\<lparr>extra_content := content\<rparr>)"

section \<open>Writes on the wire\<close>

text \<open>
  Some reads of the legacy API are posted: the hourly and the DPI report, the system log and the
  activity graph take their question in a body. They ask, and change nothing.
\<close>

definition query_tails :: "string list list" where
  "query_tails =
     [[''stat'', ''report'', ''hourly.site''], [''stat'', ''sitedpi''], [''system-log'', ''all''], [''app-traffic-rate'']]"

definition query_request :: "request \<Rightarrow> bool" where
  "query_request r \<longleftrightarrow>
     rq_method r = POST
     \<and> list_ex (\<lambda>tail. take (length tail) (rev (url_segments (rq_url r))) = rev tail) query_tails"

text \<open>A write is a request that is neither a \<open>GET\<close> nor a login nor such a question.\<close>

fun write_event :: "io_event \<Rightarrow> bool" where
  "write_event (Sent r) \<longleftrightarrow> rq_method r \<noteq> GET \<and> \<not> is_login_request r \<and> \<not> query_request r"
| "write_event (Slept _) \<longleftrightarrow> False"

definition write_count :: "io_event list \<Rightarrow> nat" where
  "write_count tr = length (filter write_event tr)"

lemma write_count_simps [simp]:
  "write_count [] = 0"
  "write_count (ev # tr) = (if write_event ev then Suc (write_count tr) else write_count tr)"
  "write_count (tr @ tr') = write_count tr + write_count tr'"
  by (simp_all add: write_count_def)

lemma write_count_take: "write_count (take k tr) \<le> write_count tr"
proof -
  have "write_count tr = write_count (take k tr) + write_count (drop k tr)"
    by (metis append_take_drop_id write_count_simps(3))
  then show ?thesis by simp
qed

lemma login_events_write_count: "\<forall>ev\<in>set tr. login_event ev \<Longrightarrow> write_count tr = 0"
proof (induction tr)
  case (Cons ev tr)
  then show ?case by (cases ev) auto
qed simp

text \<open>\<open>extends n w w'\<close>: the trace has grown, by at most \<open>n\<close> writes.\<close>

definition extends :: "nat \<Rightarrow> ('e, 'w) net_scheme \<Rightarrow> ('e, 'w) net_scheme \<Rightarrow> bool" where
  "extends n w w' \<longleftrightarrow> (\<exists>tr. trace w' = trace w @ tr \<and> write_count tr \<le> n)"

lemma extends_refl [simp, intro]: "extends n w w"
  unfolding extends_def by (intro exI [of _ "[]"]) simp

lemma extends_trans:
  assumes "extends n w w'" and "extends m w' w''"
  shows "extends (n + m) w w''"
proof -
  from assms obtain tr tr' where "trace w' = trace w @ tr" "write_count tr \<le> n"
    "trace w'' = trace w' @ tr'" "write_count tr' \<le> m"
    by (auto simp: extends_def)
  then show ?thesis unfolding extends_def by (intro exI [of _ "tr @ tr'"]) simp
qed

lemma extends_mono: "extends n w w' \<Longrightarrow> n \<le> m \<Longrightarrow> extends m w w'"
  unfolding extends_def by (meson order_trans)

definition writes_within :: "nat \<Rightarrow> ('e tool_state \<Rightarrow> 'r \<times> 'e tool_state) \<Rightarrow> bool" where
  "writes_within n m \<longleftrightarrow> (\<forall>s. extends n (snd s) (snd (snd (m s))))"

lemma writes_withinI: "(\<And>s. extends n (snd s) (snd (snd (m s)))) \<Longrightarrow> writes_within n m"
  by (simp add: writes_within_def)

lemma writes_withinD: "writes_within n m \<Longrightarrow> extends n (snd s) (snd (snd (m s)))"
  unfolding writes_within_def by blast

lemma writes_within_run: "writes_within n m \<Longrightarrow> m s = (r, s') \<Longrightarrow> extends n (snd s) (snd s')"
  using writes_withinD [of n m s] by simp

lemma writes_within_mono: "writes_within n m \<Longrightarrow> n \<le> k \<Longrightarrow> writes_within k m"
  unfolding writes_within_def using extends_mono by blast

lemma writes_within_bind:
  assumes "writes_within a m" and "\<And>x. writes_within b (f x)"
  shows "writes_within (a + b) (bind_io m f)"
proof (rule writes_withinI)
  fix s
  obtain r s' where m: "m s = (r, s')" by (metis surj_pair)
  with assms(1) have 1: "extends a (snd s) (snd s')" by (rule writes_within_run)
  show "extends (a + b) (snd s) (snd (snd (bind_io m f s)))"
  proof (cases r)
    case (Inl e)
    with m extends_mono [OF 1, of "a + b"] show ?thesis by (simp add: bind_io_def)
  next
    case (Inr x)
    have "extends b (snd s') (snd (snd (f x s')))" by (rule writes_withinD [OF assms(2)])
    with m Inr extends_trans [OF 1] show ?thesis by (simp add: bind_io_def)
  qed
qed

lemma writes_within_map: "writes_within n m \<Longrightarrow> writes_within n (map_io f m)"
  by (simp add: writes_within_def)

lemma writes_within_map_err: "writes_within n m \<Longrightarrow> writes_within n (map_err_io f m)"
  by (simp add: writes_within_def)

lemma writes_within_on_world:
  assumes "\<And>w. extends n w (snd (m w))"
  shows "writes_within n (on_world m)"
proof (rule writes_withinI)
  fix s show "extends n (snd s) (snd (snd (on_world m s)))"
    using assms [of "snd s"] by (auto simp: on_world_def split: prod.split)
qed

lemma writes_within_upstream: "(\<And>w. extends n w (snd (m w))) \<Longrightarrow> writes_within n (upstream m)"
  unfolding upstream_def by (intro writes_within_map_err writes_within_on_world)

lemma writes_within_cases:
  assumes "writes_within a m" and "\<And>r. writes_within b (k r)"
  shows "writes_within (a + b) (\<lambda>s. case m s of (r, s') \<Rightarrow> k r s')"
proof (rule writes_withinI)
  fix s
  obtain r s' where m: "m s = (r, s')" by (metis surj_pair)
  with assms(1) have 1: "extends a (snd s) (snd s')" by (rule writes_within_run)
  have "extends b (snd s') (snd (snd (k r s')))" by (rule writes_withinD [OF assms(2)])
  with m extends_trans [OF 1] show "extends (a + b) (snd s) (snd (snd (case m s of (r, s') \<Rightarrow> k r s')))"
    by simp
qed

lemma extends_cut:
  assumes "extends n w w'"
  shows "extends n w (w'\<lparr>env := e, session := sess, trace := take (length (trace w) + k) (trace w')\<rparr>)"
proof -
  from assms obtain tr where "trace w' = trace w @ tr" "write_count tr \<le> n"
    by (auto simp: extends_def)
  moreover then have "write_count (take k tr) \<le> n" using write_count_take order_trans by blast
  ultimately show ?thesis unfolding extends_def by (intro exI [of _ "take k tr"]) simp
qed

lemma writes_within_timeout:
  assumes "writes_within n m"
  shows "writes_within n (tokio_timeout rt budget m)"
proof (rule writes_withinI)
  fix s
  have "extends n (snd s) (snd (snd (m s)))" by (rule writes_withinD [OF assms])
  then show "extends n (snd s) (snd (snd (tokio_timeout rt budget m s)))"
    by (auto simp: tokio_timeout_def extends_cut split: prod.split option.split)
qed

lemma writes_within_readback:
  assumes "writes_within n m"
  shows "writes_within n (timed_readback rt started m)"
proof (rule writes_withinI)
  fix s
  show "extends n (snd s) (snd (snd (timed_readback rt started m s)))"
    by (auto simp: timed_readback_def Let_def split: prod.split option.split
        dest!: writes_within_run [OF writes_within_timeout [OF assms]])
qed

lemma writes_within_timed_tail:
  assumes "writes_within n m"
  shows "writes_within n (\<lambda>s. case timed_readback rt started m s of (outcome, s') \<Rightarrow> (k outcome, s'))"
proof (rule writes_withinI)
  fix s
  show "extends n (snd s) (snd (snd (case timed_readback rt started m s of (outcome, s') \<Rightarrow> (k outcome, s'))))"
    by (auto split: prod.split dest: writes_within_run [OF writes_within_readback [OF assms]])
qed

text \<open>
  The rules by which a bound of a whole handler is assembled: checks and reads cost nothing, and
  a handler that goes on after its one write only reads.
\<close>

lemma writes_within_pure_bind:
  assumes "\<And>x. r = Inr x \<Longrightarrow> writes_within n (f x)"
  shows "writes_within n (bind_io (return_io r) f)"
proof (rule writes_withinI)
  fix s show "extends n (snd s) (snd (snd (bind_io (return_io r) f s)))"
    by (cases r) (auto simp: bind_io_def intro!: writes_withinD assms)
qed

lemma writes_within_read_bind:
  "writes_within 0 m \<Longrightarrow> (\<And>x. writes_within n (f x)) \<Longrightarrow> writes_within n (bind_io m f)"
  using writes_within_bind [of 0 m n f] by simp

lemma writes_within_write_bind:
  "writes_within 1 m \<Longrightarrow> (\<And>x. writes_within 0 (f x)) \<Longrightarrow> writes_within 1 (bind_io m f)"
  using writes_within_bind [of 1 m 0 f] by simp

lemma writes_within_return_any [intro]: "writes_within n (return_io r)"
  by (simp add: writes_within_def)

lemma writes_within_prod:
  "(\<And>a b. x = (a, b) \<Longrightarrow> writes_within n (f a b)) \<Longrightarrow> writes_within n (case x of (a, b) \<Rightarrow> f a b)"
  by (cases x) simp

lemma writes_within_option:
  "(x = None \<Longrightarrow> writes_within n m) \<Longrightarrow> (\<And>a. x = Some a \<Longrightarrow> writes_within n (f a))
     \<Longrightarrow> writes_within n (case x of None \<Rightarrow> m | Some a \<Rightarrow> f a)"
  by (cases x) simp_all

lemma writes_within_let: "writes_within n (f x) \<Longrightarrow> writes_within n (let y = x in f y)"
  by simp

lemma writes_within_if:
  "(c \<Longrightarrow> writes_within n m) \<Longrightarrow> (\<not> c \<Longrightarrow> writes_within n m') \<Longrightarrow> writes_within n (if c then m else m')"
  by simp

lemmas handler_rules =
  writes_within_pure_bind writes_within_return_any writes_within_let writes_within_if writes_within_prod
  writes_within_option

section \<open>What the clients contribute\<close>

lemma read_trace_extends:
  "\<exists>tr. trace w' = trace w @ tr \<and> read_trace ic tr \<Longrightarrow> extends 0 w w'"
  unfolding extends_def by (elim ex_forward) (auto simp: read_trace_def)

lemma write_trace_extends:
  "\<exists>tr. trace w' = trace w @ tr \<and> write_trace ic tr \<Longrightarrow> extends 1 w w'"
  unfolding extends_def by (elim ex_forward) (auto simp: write_trace_def)

lemma login_extends:
  "\<exists>tr. trace w' = trace w @ tr \<and> (\<forall>ev\<in>set tr. login_event ev) \<and> P tr \<Longrightarrow> extends 0 w w'"
  unfolding extends_def by (elim ex_forward) (simp add: login_events_write_count)

lemma ensure_session_extends: "extends 0 w (snd (ensure_session cl w))"
  by (rule login_extends [OF ensure_session_trace])

lemma refresh_session_extends: "extends 0 w (snd (refresh_session cl g w))"
proof -
  let ?w = "modify_session (\<lambda>s. s\<lparr>authenticated := False\<rparr>) w"
  have "extends 0 ?w (snd (login_recording cl ?w))" by (rule login_extends [OF login_recording_trace])
  then show ?thesis by (auto simp: refresh_session_def extends_def split: option.split)
qed

text \<open>
  The contract of one attempt of a legacy request that writes at most \<open>n\<close> times; a read, which
  the client may send again, stays within no writes at all.
\<close>

locale writing_attempt =
  fixes n :: nat and attempt :: "'e world \<Rightarrow> (api_error + 'a) \<times> 'e world"
  assumes attempt_extends: "extends n w (snd (attempt w))"
begin

lemma attempt_after: "extends 0 w w' \<Longrightarrow> extends n w (snd (attempt w'))"
  using extends_trans [OF _ attempt_extends, of 0] by simp

end

locale reading_attempt = writing_attempt 0 attempt
  for attempt :: "'e world \<Rightarrow> (api_error + 'a) \<times> 'e world"
begin

lemma second_try_extends: "extends 0 w (snd (second_try attempt retry_limits cl observed err w))"
proof -
  have sleeping: "extends 0 w (sleep cl d w)" for d
    unfolding extends_def by (intro exI [of _ "[Slept d]"]) simp
  show ?thesis
    by (auto simp: second_try_def snd_bind_io attempt_after refresh_session_extends sleeping
        split: sum.split option.split)
qed

lemma read_with_reauth_extends: "extends 0 w (snd (read_with_reauth retry_limits cl attempt w))"
proof -
  obtain r w1 where ensure: "ensure_session cl w = (r, w1)" by (metis surj_pair)
  with ensure_session_extends [of w cl] have 1: "extends 0 w w1" by simp
  obtain a w2 where att: "attempt w1 = (a, w2)" by (metis surj_pair)
  with attempt_after [OF 1] have 2: "extends 0 w w2" by simp
  have 3: "extends 0 w (snd (second_try attempt retry_limits cl g err w2))" for g err
    using extends_trans [OF 2 second_try_extends] by simp
  show ?thesis
    using ensure att 1 2 3 by (auto simp: read_with_reauth_eq bind_io_def split: sum.split)
qed

end

lemma execute_bytes_extends:
  "extends (if verb = GET then 0 else 1) w (snd (execute_bytes cl cls verb site tail body w))"
  by (auto simp: execute_bytes_def extends_def split: option.split sum.split)

interpretation get_attempt: reading_attempt "execute_with_status_bytes dec cl cls GET site tail body"
  for dec :: "'a legacy_envelope decoder" and cl :: "('e, 'x) legacy_client_scheme" and cls site tail body
  by unfold_locales (use execute_bytes_extends [of GET] in simp)

interpretation mutation_attempt: writing_attempt 1 "execute_with_status_bytes dec cl Mutation verb site tail body"
  for dec :: "'a legacy_envelope decoder" and cl :: "('e, 'x) legacy_client_scheme" and verb site tail body
  by unfold_locales (auto intro!: extends_mono [OF execute_bytes_extends])

lemma legacy_get_extends:
  "extends 0 w (snd (request_with_reauth_with_bytes dec cl IdempotentRead GET site tail body w))"
  unfolding request_with_reauth_with_bytes_def snd_map_io request_idempotent_eq
  by (rule get_attempt.read_with_reauth_extends)

lemma legacy_write_extends:
  "extends 1 w (snd (request_with_reauth_with_status_bytes dec cl Mutation verb site tail body w))"
proof -
  obtain r w1 where ensure: "ensure_session cl w = (r, w1)" by (metis surj_pair)
  with ensure_session_extends [of w cl] have 1: "extends 0 w w1" by simp
  obtain a w2 where att: "execute_with_status_bytes dec cl Mutation verb site tail body w1 = (a, w2)"
    by (metis surj_pair)
  with mutation_attempt.attempt_after [OF 1] have 2: "extends 1 w w2" by (metis snd_conv)
  have 3: "extends 1 w (snd (refresh_session cl g w2))" for g
    using extends_trans [OF 2 refresh_session_extends] by simp
  show ?thesis
    using ensure att extends_mono [OF 1, of 1] 2 3
    by (auto simp: request_mutation_eq bind_io_def split: sum.split)
qed

text \<open>The reads and writes of the two clients that the tools call.\<close>

lemma get_json_extends: "extends 0 w (snd (get_json dec ic segments query w))"
  by (rule read_trace_extends [OF get_json_trace])

lemma get_with_message_extends: "extends 0 w (snd (get_with_message dec ic segments query w))"
  by (rule read_trace_extends [OF get_with_message_trace])

lemma integration_reads_extend [io_bounds]:
  "extends 0 w (snd (info idec ic w))"
  "extends 0 w (snd (sites pdec ic pg w))"
  "extends 0 w (snd (firewall_zones pdec ic site pg w))"
  "extends 0 w (snd (clients pdec ic site pg w))"
  "extends 0 w (snd (device_detail dec ic site rid w))"
  "extends 0 w (snd (device_detail_raw ic site rid w))"
  "extends 0 w (snd (client_detail_with_response dec ic site rid w))"
  "extends 0 w (snd (network_policy_detail ic site coll rid w))"
  "extends 0 w (snd (acl_rule_ordering ic site w))"
  "extends 0 w (snd (firewall_policy_ordering ic site w))"
  "extends 0 w (snd (vouchers_with_response pdec ic site pg w))"
  "extends 0 w (snd (voucher_records pdec ic site pg flt w))"
  "extends 0 w (snd (voucher_with_response dec ic site rid w))"
  by (simp_all only: info_def sites_def firewall_zones_def clients_def device_detail_def
      device_detail_raw_def client_detail_with_response_def network_policy_detail_def
      acl_rule_ordering_def firewall_policy_ordering_def vouchers_with_response_def
      voucher_records_def voucher_with_response_def get_json_extends get_with_message_extends)

lemma policy_snapshot_extends [io_bounds]:
  "extends 0 w (snd (firewall_policy_snapshot_with_response dec ic site rid w))"
  by (rule read_trace_extends [OF snapshot_trace])

lemma accepted_json_extends:
  "verb \<noteq> GET \<Longrightarrow> extends 1 w (snd (accepted ic (with_json (request_plain ic verb segments) body) w))"
  by (rule write_trace_extends [OF write_json_trace])

lemma accepted_delete_extends:
  "extends 1 w (snd (accepted ic (request_with_query ic DELETE segments query) w))"
  by (rule write_trace_extends [OF delete_io.writes])

lemma post_action_extends: "extends 1 w (snd (post_action ic segments action w))"
  by (rule write_trace_extends [OF post_io.writes])

lemma integration_writes_extend [io_bounds]:
  "extends 1 w (snd (adopt_device ic site mac ignore_limit w))"
  "extends 1 w (snd (remove_device ic site rid w))"
  "extends 1 w (snd (integration_restart_device ic site rid w))"
  "extends 1 w (snd (power_cycle_port ic site rid port_index w))"
  "extends 1 w (snd (authorize_guest gdec ic site rid limits w))"
  "extends 1 w (snd (unauthorize_guest gdec ic site rid w))"
  "extends 1 w (snd (delete_matching_vouchers ic site flt w))"
  "extends 1 w (snd (create_vouchers_with_response dec ic site v w))"
  "extends 1 w (snd (delete_voucher ic site rid w))"
  "extends 1 w (snd (patch_firewall_policy_logging ic site rid logging_enabled w))"
  "extends 1 w (snd (replace_firewall_policy raw ic site rid r w))"
  "extends 1 w (snd (delete_firewall_policy ic site rid w))"
  "extends 1 w (snd (network_policy_create ic site coll body w))"
  "extends 1 w (snd (network_policy_update ic site coll rid body w))"
  "extends 1 w (snd (network_policy_delete ic site coll rid w))"
  "extends 1 w (snd (replace_acl_rule_ordering ic site ids w))"
  "extends 1 w (snd (replace_firewall_policy_ordering ic site bef aft w))"
  by (simp_all only: adopt_device_def remove_device_def integration_restart_device_def power_cycle_port_def
      delete_matching_vouchers_def create_vouchers_snd delete_voucher_def patch_firewall_policy_logging_def
      replace_firewall_policy_def delete_firewall_policy_def network_policy_create_def
      network_policy_update_def network_policy_delete_def network_policy_record_write_def
      replace_acl_rule_ordering_def replace_firewall_policy_ordering_def request_plain_def [of _ DELETE]
      snd_map_io post_action_result_snd accepted_record_snd post_action_extends accepted_delete_extends
      accepted_json_extends write_trace_extends [OF authorize_guest_trace]
      write_trace_extends [OF unauthorize_guest_trace] http_method.distinct not_False_eq_True)

lemma legacy_reads_extend [io_bounds]:
  "extends 0 w (snd (wlan_snapshot rdec wdec cl site rid w))"
  "extends 0 w (snd (port_forward_snapshot rdec fdec cl site rid w))"
  "extends 0 w (snd (active_clients adec cl site w))"
  unfolding wlan_snapshot_def port_forward_snapshot_def active_clients_def request_with_reauth_def snd_map_io
  by (subst snd_bind_io_pure; simp add: legacy_get_extends split: prod.split)+ (rule legacy_get_extends)

lemma legacy_writes_extend [io_bounds]:
  "extends 1 w (snd (update_wlan edec cl site rid wpatch w))"
  "extends 1 w (snd (update_port_forward edec cl site rid ppatch w))"
  "extends 1 w (snd (kick_client edec cl site mac w))"
  "extends 1 w (snd (block_client edec cl site mac w))"
  "extends 1 w (snd (unblock_client edec cl site mac w))"
  "extends 1 w (snd (locate_device edec cl site mac on w))"
  by (simp_all add: write_defs write_with_status_def legacy_write_extends [unfolded One_nat_def] extends_refl)

lemma site_scan_extends: "extends 0 w (snd (site_scan dec ic configured offset sole w))"
proof (induction dec ic configured offset sole w rule: site_scan.induct)
  case (1 dec ic configured offset sole w)
  let ?pg = "\<lparr>req_offset = of_nat offset, req_limit = SITES_PAGE_LIMIT\<rparr>"
  obtain res w1 where read: "sites dec ic ?pg w = (res, w1)" by (metis surj_pair)
  with integration_reads_extend(2) [of w dec ic ?pg] have here: "extends 0 w w1" by simp
  show ?case
  proof (cases res)
    case (Inl err)
    with here show ?thesis by (simp add: site_scan.simps [of dec ic configured offset] read)
  next
    case (Inr page)
    show ?thesis
      using here extends_trans [OF here "1.IH" [OF read [symmetric] Inr _ refl refl]]
      by (auto simp: site_scan.simps [of dec ic configured offset] read Inr Let_def split: option.split)
  qed
qed

lemma resolve_site_reads: "writes_within 0 (resolve_site rt)"
proof (rule writes_withinI)
  fix s show "extends 0 (snd s) (snd (snd (resolve_site rt s)))"
    using site_scan_extends [of "snd s" "dec_sites rt" "integration rt" "legacy_site rt" 0 None]
    by (auto simp: resolve_site_def site_id_def split: option.split prod.split sum.split)
qed

lemmas client_reads =
  resolve_site_reads integration_reads_extend [THEN writes_within_upstream]
  policy_snapshot_extends [THEN writes_within_upstream] legacy_reads_extend [THEN writes_within_upstream]

lemmas world_reads =
  integration_reads_extend [THEN writes_within_on_world] policy_snapshot_extends [THEN writes_within_on_world]

lemmas client_read_steps = client_reads [THEN writes_within_read_bind]

lemmas client_write_steps =
  integration_writes_extend [THEN writes_within_upstream, THEN writes_within_write_bind]
  legacy_writes_extend [THEN writes_within_upstream, THEN writes_within_write_bind]

end
