(* ===== verification/Tool_Updates.thy ===== *)
theory Tool_Updates
  imports Tool_Runtime
begin

text \<open>
  The partial updates of \<open>crates/unifi-mcp/src/tools.rs\<close> over the legacy client: a wireless
  network (\<open>wlans_update\<close>) and a port forward (\<open>port_forwards_update\<close>). Each reads the record,
  previews the change unless the call is confirmed, writes the named fields once, reads the
  record again within the time left, and reports field by field what the controller kept and
  which other properties moved.
\<close>

section \<open>Requests and reports\<close>

text \<open>\<open>[&str]::join\<close> with a separator.\<close>

fun join_with :: "string \<Rightarrow> string list \<Rightarrow> string" where
  "join_with sep [] = []"
| "join_with sep [x] = x"
| "join_with sep (x # y # xs) = x @ sep @ join_with sep (y # xs)"

definition change_keys :: "params \<Rightarrow> string list option" where
  "change_keys ps =
     (case Option.bind (arguments ps) (get ''changes'') of
        Some (JObj changes) \<Rightarrow> Some (map fst changes)
      | _ \<Rightarrow> None)"

definition reject_unknown_change_fields :: "params \<Rightarrow> string list \<Rightarrow> mcp_error + unit" where
  "reject_unknown_change_fields ps accepted_fields =
     (case change_keys ps of
        None \<Rightarrow> Inr ()
      | Some keys \<Rightarrow>
          (let unknown = filter (\<lambda>f. f \<notin> set accepted_fields) keys
           in if unknown = [] then Inr ()
              else Inl (InvalidParams (''changes does not accept '' @ join_with '', '' unknown
                     @ ''; the accepted fields are '' @ join_with '', '' accepted_fields))))"

definition no_field_error :: mcp_error where
  "no_field_error = InvalidParams ''changes names no field to change''"

text \<open>The controller's name for a field of the read surface.\<close>

definition wire_name :: "(string \<times> string) list \<Rightarrow> string \<Rightarrow> string option" where
  "wire_name wire_names f = map_option snd (List.find (\<lambda>(accepted_field, _). accepted_field = f) wire_names)"

definition unrequested_changes ::
  "record_fingerprint \<Rightarrow> record_fingerprint \<Rightarrow> (string \<times> json) list \<Rightarrow> (string \<times> string) list
     \<Rightarrow> string list" where
  "unrequested_changes before after requested wire_names =
     (let asked_for = List.map_filter (\<lambda>(f, _). wire_name wire_names f) requested
      in filter (\<lambda>p. p \<notin> set asked_for) (changed_properties before after))"

text \<open>
  The fields the outputs of both tools share. The \<open>...InContent\<close> markers are absent from every
  output the handlers build; the shaping of the result adds them.
\<close>

record update_report =
  rp_applied :: bool
  rp_response_status :: "nat option"
  rp_response_body :: "string option"
  rp_changes :: "planned_change list option"
  rp_fields :: "field_outcome list option"
  rp_unexpected_changes :: "string list option"
  rp_verified :: "bool option"
  rp_readback_error :: "string option"
  rp_warnings :: "string list"

definition planned_change_json :: "planned_change \<Rightarrow> json" where
  "planned_change_json c =
     JObj (set_fields [(''field'', Some (JStr (pc_field c))), (''from'', pc_from c), (''to'', pc_to c)])"

fun field_status_json :: "field_status \<Rightarrow> json" where
  "field_status_json Persisted = JStr ''persisted''"
| "field_status_json FieldDropped = JStr ''dropped''"
| "field_status_json Coerced = JStr ''coerced''"

definition field_outcome_json :: "field_outcome \<Rightarrow> json" where
  "field_outcome_json c =
     JObj (set_fields [(''field'', Some (JStr (oc_field c))), (''status'', Some (field_status_json (oc_status c))),
       (''previous'', oc_previous c), (''requested'', oc_requested c), (''observed'', oc_observed c)])"

definition jnat :: "nat \<Rightarrow> json" where
  "jnat n = JNum (show_nat n)"

definition nullable :: "('a \<Rightarrow> json) \<Rightarrow> 'a option \<Rightarrow> json" where
  "nullable f v = (case v of None \<Rightarrow> JNull | Some x \<Rightarrow> f x)"

text \<open>\<open>skip_serializing_if = "Vec::is_empty"\<close>.\<close>

definition warnings_field :: "string list \<Rightarrow> json option" where
  "warnings_field warnings = (if warnings = [] then None else Some (JArr (map JStr warnings)))"

definition report_fields :: "'x update_report_scheme \<Rightarrow> (string \<times> json option) list" where
  "report_fields o1 =
     [(''applied'', Some (JBool (rp_applied o1))),
      (''responseStatus'', map_option jnat (rp_response_status o1)),
      (''responseBody'', map_option JStr (rp_response_body o1)),
      (''changes'', map_option (\<lambda>cs. JArr (map planned_change_json cs)) (rp_changes o1)),
      (''fields'', map_option (\<lambda>cs. JArr (map field_outcome_json cs)) (rp_fields o1)),
      (''unexpectedChanges'', map_option (\<lambda>cs. JArr (map JStr cs)) (rp_unexpected_changes o1)),
      (''verified'', map_option JBool (rp_verified o1)),
      (''readbackError'', map_option JStr (rp_readback_error o1)),
      (''warnings'', warnings_field (rp_warnings o1))]"

definition all_persisted :: "field_outcome list \<Rightarrow> bool" where
  "all_persisted outcomes \<longleftrightarrow> list_all (\<lambda>oc. oc_status oc = Persisted) outcomes"

text \<open>
  What both handlers write into the report after a successful read-back, from the two projections
  and the two fingerprints.
\<close>

definition verified_report ::
  "(string \<times> string) list \<Rightarrow> (string \<times> json) list \<Rightarrow> json \<Rightarrow> record_fingerprint
     \<Rightarrow> json \<Rightarrow> record_fingerprint \<Rightarrow> 'x update_report_scheme \<Rightarrow> 'x update_report_scheme" where
  "verified_report wire_names requested before before_digest after after_digest output =
     (let outcomes = verify_fields requested before after;
          unexpected = unrequested_changes before_digest after_digest requested wire_names
      in output\<lparr>rp_verified := Some (unexpected = [] \<and> all_persisted outcomes),
                rp_fields := Some outcomes, rp_unexpected_changes := Some unexpected\<rparr>)"

section \<open>Wireless networks\<close>

datatype wlan_security_mode = Open | Wpapsk | Wpaeap

fun security_wire :: "wlan_security_mode \<Rightarrow> string" where
  "security_wire Open = ''open''"
| "security_wire Wpapsk = ''wpapsk''"
| "security_wire Wpaeap = ''wpaeap''"

record wlan_changes =
  wc_ssid :: "string option"
  wc_enabled :: "bool option"
  wc_security :: "wlan_security_mode option"
  wc_hidden :: "bool option"
  wc_passphrase :: "string option"
  wc_radius_profile_id :: "string option"

record wlans_update_input =
  wu_wlan :: string
  wu_changes :: wlan_changes
  wu_confirm :: "bool option"

record wlans_update_output = update_report +
  wo_wlan :: string
  wo_ssid :: "string option"

definition wlans_update_json :: "wlans_update_output \<Rightarrow> json" where
  "wlans_update_json o1 =
     JObj (set_fields ([(''wlan'', Some (JStr (wo_wlan o1))), (''ssid'', Some (nullable JStr (wo_ssid o1)))]
       @ report_fields o1))"

definition WLAN_CHANGE_FIELDS :: "string list" where
  "WLAN_CHANGE_FIELDS =
     [''ssid'', ''enabled'', ''security'', ''hidden'', ''passphrase'', ''radiusProfileId'']"

definition WLAN_WIRE_NAMES :: "(string \<times> string) list" where
  "WLAN_WIRE_NAMES =
     [(''ssid'', ''name''), (''enabled'', ''enabled''), (''security'', ''security''),
      (''hidden'', ''hide_ssid''), (''passphrase'', ''x_passphrase''),
      (''radiusProfileId'', ''radius_profile_id'')]"

definition wlan_projection :: "wlan_conf \<Rightarrow> json" where
  "wlan_projection c =
     JObj (set_fields
       [(''ssid'', Some (nullable JStr (wlan_name c))), (''enabled'', Some (nullable JBool (wlan_enabled c))),
        (''security'', Some (nullable JStr (wlan_security c))),
        (''hidden'', Some (nullable JBool (wlan_hide_ssid c))),
        (''passphrase'', Some (nullable JStr (wlan_x_passphrase c))),
        (''networkId'', Some (nullable JStr (wlan_networkconf_id c))),
        (''radiusProfileId'', Some (nullable JStr (wlan_radius_profile_id c)))])"

definition requested_fields :: "wlan_changes \<Rightarrow> (string \<times> json) list" where
  "requested_fields c =
     set_fields
       [(''ssid'', map_option JStr (wc_ssid c)), (''enabled'', map_option JBool (wc_enabled c)),
        (''security'', map_option (JStr \<circ> security_wire) (wc_security c)),
        (''hidden'', map_option JBool (wc_hidden c)), (''passphrase'', map_option JStr (wc_passphrase c)),
        (''radiusProfileId'', map_option JStr (wc_radius_profile_id c))]"

definition changing :: "(string \<times> json) list \<Rightarrow> json \<Rightarrow> string \<Rightarrow> bool" where
  "changing requested current_value f \<longleftrightarrow>
     (case get f requested of None \<Rightarrow> False | Some wanted \<Rightarrow> jget f current_value \<noteq> Some wanted)"

definition wlan_warnings :: "(string \<times> json) list \<Rightarrow> json \<Rightarrow> string list" where
  "wlan_warnings requested current_value =
     (if get ''enabled'' requested = Some (JBool False) \<and> changing requested current_value ''enabled''
      then [''disabling the network drops every client on it''] else [])
     @ (if get ''security'' requested = Some (JStr ''open'') \<and> changing requested current_value ''security''
        then [''switching to open removes encryption from this network''] else [])
     @ (if changing requested current_value ''ssid'' \<or> changing requested current_value ''passphrase''
          \<or> changing requested current_value ''security'' \<or> changing requested current_value ''radiusProfileId''
        then [''every client must reconnect after this change''] else [])"

definition wlan_patch_of :: "wlan_changes \<Rightarrow> wlan_patch" where
  "wlan_patch_of c =
     \<lparr>wp_name = wc_ssid c, wp_enabled = wc_enabled c, wp_security = map_option security_wire (wc_security c),
      wp_x_passphrase = wc_passphrase c, wp_hide_ssid = wc_hidden c,
      wp_radius_profile_id = wc_radius_profile_id c\<rparr>"

definition tool_wlan_snapshot ::
  "(json \<Rightarrow> string + wlan_conf) \<Rightarrow> ('e, 'x) tool_runtime_scheme \<Rightarrow> string
     \<Rightarrow> ('e, wlan_conf \<times> record_fingerprint) tool" where
  "tool_wlan_snapshot dec rt rid = upstream (wlan_snapshot (dec_rows rt) dec (legacy rt) (legacy_site rt) rid)"

definition wlan_read_back ::
  "('e, 'x) tool_runtime_scheme \<Rightarrow> (string \<times> json) list \<Rightarrow> json \<Rightarrow> record_fingerprint
     \<Rightarrow> (mcp_error + wlan_conf \<times> record_fingerprint) timed \<Rightarrow> wlans_update_output \<Rightarrow> wlans_update_output" where
  "wlan_read_back rt requested before before_digest outcome output =
     (case outcome of
        Skipped \<Rightarrow> output\<lparr>rp_readback_error := Some ''wireless readback skipped near request deadline''\<rparr>
      | TimedOut \<Rightarrow> output\<lparr>rp_readback_error := Some ''wireless readback timed out''\<rparr>
      | Finished (Inl err) \<Rightarrow> output\<lparr>rp_readback_error := Some (show_mcp_error rt err)\<rparr>
      | Finished (Inr (after_record, after_digest)) \<Rightarrow>
          (verified_report WLAN_WIRE_NAMES requested before before_digest (wlan_projection after_record)
             after_digest output)\<lparr>wo_ssid := wlan_name after_record\<rparr>)"

text \<open>
  The handler up to the output it renders. \<open>from_value\<close> is the decoder serde derives for the
  input, \<open>dec\<close> the one for the record.
\<close>

definition wlans_update_outcome ::
  "(json \<Rightarrow> string + wlans_update_input) \<Rightarrow> (json \<Rightarrow> string + wlan_conf)
     \<Rightarrow> ('e, 'x) tool_runtime_scheme \<Rightarrow> params \<Rightarrow> ('e, wlans_update_output) tool" where
  "wlans_update_outcome from_value dec rt ps s0 =
     bind_io (return_io (reject_unknown_change_fields ps WLAN_CHANGE_FIELDS)) (\<lambda>_.
     bind_io (return_io (parse from_value ps)) (\<lambda>input.
       let started = instant_now rt s0;
           requested = requested_fields (wu_changes input);
           patch = wlan_patch_of (wu_changes input)
       in if requested = [] then return_io (Inl no_field_error)
          else
            bind_io (tool_wlan_snapshot dec rt (wu_wlan input)) (\<lambda>(current_record, before_digest).
              let before = wlan_projection current_record;
                  warnings = wlan_warnings requested before;
                  output =
                    \<lparr>rp_applied = False, rp_response_status = None, rp_response_body = None,
                     rp_changes = None, rp_fields = None, rp_unexpected_changes = None,
                     rp_verified = None, rp_readback_error = None, rp_warnings = warnings,
                     wo_wlan = wu_wlan input, wo_ssid = wlan_name current_record\<rparr>
              in if wu_confirm input \<noteq> Some True
                 then return_io (Inr (output\<lparr>rp_changes := Some (plan requested before)\<rparr>))
                 else
                   bind_io (upstream (update_wlan (dec_envelope rt) (legacy rt) (legacy_site rt)
                              (wu_wlan input) patch)) (\<lambda>(status, body) s.
                     case timed_readback rt started (tool_wlan_snapshot dec rt (wu_wlan input)) s of
                       (outcome, s') \<Rightarrow>
                         (Inr (wlan_read_back rt requested before before_digest outcome
                            (output\<lparr>rp_applied := True, rp_response_status := Some status,
                               rp_response_body := Some (as_str (from_controller_bytes (ext_b64 (legacy rt)) body))\<rparr>)),
                          s'))))) s0"

text \<open>A preview is rendered as it is, an applied change with its long texts moved to content.\<close>

definition render_update ::
  "('e, 'x) tool_runtime_scheme \<Rightarrow> ('z update_report_scheme \<Rightarrow> json) \<Rightarrow> 'z update_report_scheme \<Rightarrow> call_result" where
  "render_update rt ser output =
     (if rp_applied output then structured_with_accepted_response rt (ser output)
      else structured (ser output))"

definition wlans_update ::
  "(json \<Rightarrow> string + wlans_update_input) \<Rightarrow> (json \<Rightarrow> string + wlan_conf)
     \<Rightarrow> ('e, 'x) tool_runtime_scheme \<Rightarrow> params \<Rightarrow> ('e, call_result) tool" where
  "wlans_update from_value dec rt ps =
     map_io (render_update rt wlans_update_json) (wlans_update_outcome from_value dec rt ps)"

section \<open>Port forwards\<close>

record port_forward_changes =
  fc_name :: "string option"
  fc_enabled :: "bool option"
  fc_source :: "string option"
  fc_forward_to :: "string option"
  fc_forward_port :: "string option"
  fc_destination_port :: "string option"
  fc_protocol :: "string option"

record port_forwards_update_input =
  pu_port_forward :: string
  pu_changes :: port_forward_changes
  pu_confirm :: "bool option"

record port_forward_view =
  fv_id :: string
  fv_name :: "string option"
  fv_enabled :: "bool option"
  fv_source :: "string option"
  fv_forward_to :: "string option"
  fv_forward_port :: "string option"
  fv_destination_port :: "string option"
  fv_protocol :: "string option"

record port_forwards_update_output = update_report +
  fo_forward :: port_forward_view

definition port_forward_view_of :: "port_forward \<Rightarrow> port_forward_view" where
  "port_forward_view_of f =
     \<lparr>fv_id = pf_id f, fv_name = pf_name f, fv_enabled = pf_enabled f, fv_source = pf_src f,
      fv_forward_to = pf_fwd f, fv_forward_port = pf_fwd_port f, fv_destination_port = pf_dst_port f,
      fv_protocol = pf_proto f\<rparr>"

definition port_forward_view_json :: "port_forward_view \<Rightarrow> json" where
  "port_forward_view_json v =
     JObj (set_fields
       [(''id'', Some (JStr (fv_id v))), (''name'', Some (nullable JStr (fv_name v))),
        (''enabled'', Some (nullable JBool (fv_enabled v))), (''source'', Some (nullable JStr (fv_source v))),
        (''forwardTo'', Some (nullable JStr (fv_forward_to v))),
        (''forwardPort'', Some (nullable JStr (fv_forward_port v))),
        (''destinationPort'', Some (nullable JStr (fv_destination_port v))),
        (''protocol'', Some (nullable JStr (fv_protocol v)))])"

definition port_forwards_update_json :: "port_forwards_update_output \<Rightarrow> json" where
  "port_forwards_update_json o1 =
     JObj (set_fields ((''forward'', Some (port_forward_view_json (fo_forward o1))) # report_fields o1))"

definition PORT_FORWARD_CHANGE_FIELDS :: "string list" where
  "PORT_FORWARD_CHANGE_FIELDS =
     [''name'', ''enabled'', ''source'', ''forwardTo'', ''forwardPort'', ''destinationPort'', ''protocol'']"

definition PORT_FORWARD_WIRE_NAMES :: "(string \<times> string) list" where
  "PORT_FORWARD_WIRE_NAMES =
     [(''name'', ''name''), (''enabled'', ''enabled''), (''source'', ''src''), (''forwardTo'', ''fwd''),
      (''forwardPort'', ''fwd_port''), (''destinationPort'', ''dst_port''), (''protocol'', ''proto'')]"

definition port_forward_projection :: "port_forward \<Rightarrow> json" where
  "port_forward_projection f =
     JObj (set_fields
       [(''name'', Some (nullable JStr (pf_name f))), (''enabled'', Some (nullable JBool (pf_enabled f))),
        (''source'', Some (nullable JStr (pf_src f))), (''forwardTo'', Some (nullable JStr (pf_fwd f))),
        (''forwardPort'', Some (nullable JStr (pf_fwd_port f))),
        (''destinationPort'', Some (nullable JStr (pf_dst_port f))),
        (''protocol'', Some (nullable JStr (pf_proto f)))])"

definition requested_port_forward_fields :: "port_forward_changes \<Rightarrow> (string \<times> json) list" where
  "requested_port_forward_fields c =
     set_fields
       [(''name'', map_option JStr (fc_name c)), (''enabled'', map_option JBool (fc_enabled c)),
        (''source'', map_option JStr (fc_source c)), (''forwardTo'', map_option JStr (fc_forward_to c)),
        (''forwardPort'', map_option JStr (fc_forward_port c)),
        (''destinationPort'', map_option JStr (fc_destination_port c)),
        (''protocol'', map_option JStr (fc_protocol c))]"

definition port_forward_patch_of :: "port_forward_changes \<Rightarrow> port_forward_patch" where
  "port_forward_patch_of c =
     \<lparr>pp_name = fc_name c, pp_enabled = fc_enabled c, pp_src = fc_source c, pp_fwd = fc_forward_to c,
      pp_fwd_port = fc_forward_port c, pp_dst_port = fc_destination_port c, pp_proto = fc_protocol c\<rparr>"

definition port_forward_warnings :: "(string \<times> json) list \<Rightarrow> json \<Rightarrow> string list" where
  "port_forward_warnings requested current_value =
     (let target =
            (if list_ex (changing requested current_value)
                  [''source'', ''forwardTo'', ''forwardPort'', ''destinationPort'', ''protocol'']
             then [''changing the rule match or target changes which traffic is forwarded''] else []);
          wanted = get ''enabled'' requested
      in if wanted = None \<or> jget ''enabled'' current_value = wanted then target
         else if wanted = Some (JBool False)
         then target @ [''disabling the rule stops forwarding traffic to the internal host, so whatever '' @
                ''reaches it through this rule stops working'']
         else target @ [''enabling the rule exposes the internal host'' @ [CHR 0x27] @ ''s port to the source this rule '' @
                ''allows, which is the whole internet unless source is narrowed''])"

definition tool_port_forward_snapshot ::
  "(json \<Rightarrow> string + port_forward) \<Rightarrow> ('e, 'x) tool_runtime_scheme \<Rightarrow> string
     \<Rightarrow> ('e, port_forward \<times> record_fingerprint) tool" where
  "tool_port_forward_snapshot dec rt rid =
     upstream (port_forward_snapshot (dec_rows rt) dec (legacy rt) (legacy_site rt) rid)"

definition port_forward_read_back ::
  "('e, 'x) tool_runtime_scheme \<Rightarrow> (string \<times> json) list \<Rightarrow> json \<Rightarrow> record_fingerprint
     \<Rightarrow> (mcp_error + port_forward \<times> record_fingerprint) timed
     \<Rightarrow> port_forwards_update_output \<Rightarrow> port_forwards_update_output" where
  "port_forward_read_back rt requested before before_digest outcome output =
     (case outcome of
        Skipped \<Rightarrow> output\<lparr>rp_readback_error := Some ''port-forward readback skipped near request deadline''\<rparr>
      | TimedOut \<Rightarrow> output\<lparr>rp_readback_error := Some ''port-forward readback timed out''\<rparr>
      | Finished (Inl err) \<Rightarrow> output\<lparr>rp_readback_error := Some (show_mcp_error rt err)\<rparr>
      | Finished (Inr (after_record, after_digest)) \<Rightarrow>
          (verified_report PORT_FORWARD_WIRE_NAMES requested before before_digest
             (port_forward_projection after_record) after_digest output)
          \<lparr>fo_forward := port_forward_view_of after_record\<rparr>)"

definition port_forwards_update_outcome ::
  "(json \<Rightarrow> string + port_forwards_update_input) \<Rightarrow> (json \<Rightarrow> string + port_forward)
     \<Rightarrow> ('e, 'x) tool_runtime_scheme \<Rightarrow> params \<Rightarrow> ('e, port_forwards_update_output) tool" where
  "port_forwards_update_outcome from_value dec rt ps s0 =
     bind_io (return_io (reject_unknown_change_fields ps PORT_FORWARD_CHANGE_FIELDS)) (\<lambda>_.
     bind_io (return_io (parse from_value ps)) (\<lambda>input.
       let started = instant_now rt s0;
           requested = requested_port_forward_fields (pu_changes input);
           patch = port_forward_patch_of (pu_changes input)
       in if requested = [] then return_io (Inl no_field_error)
          else
            bind_io (tool_port_forward_snapshot dec rt (pu_port_forward input)) (\<lambda>(current_record, before_digest).
              let before = port_forward_projection current_record;
                  warnings = port_forward_warnings requested before;
                  output =
                    \<lparr>rp_applied = False, rp_response_status = None, rp_response_body = None,
                     rp_changes = None, rp_fields = None, rp_unexpected_changes = None,
                     rp_verified = None, rp_readback_error = None, rp_warnings = warnings,
                     fo_forward = port_forward_view_of current_record\<rparr>
              in if pu_confirm input \<noteq> Some True
                 then return_io (Inr (output\<lparr>rp_changes := Some (plan requested before)\<rparr>))
                 else
                   bind_io (upstream (update_port_forward (dec_envelope rt) (legacy rt) (legacy_site rt)
                              (pu_port_forward input) patch)) (\<lambda>(status, body) s.
                     case timed_readback rt started (tool_port_forward_snapshot dec rt (pu_port_forward input)) s of
                       (outcome, s') \<Rightarrow>
                         (Inr (port_forward_read_back rt requested before before_digest outcome
                            (output\<lparr>rp_applied := True, rp_response_status := Some status,
                               rp_response_body := Some (as_str (from_controller_bytes (ext_b64 (legacy rt)) body))\<rparr>)),
                          s'))))) s0"

definition port_forwards_update ::
  "(json \<Rightarrow> string + port_forwards_update_input) \<Rightarrow> (json \<Rightarrow> string + port_forward)
     \<Rightarrow> ('e, 'x) tool_runtime_scheme \<Rightarrow> params \<Rightarrow> ('e, call_result) tool" where
  "port_forwards_update from_value dec rt ps =
     map_io (render_update rt port_forwards_update_json) (port_forwards_update_outcome from_value dec rt ps)"

section \<open>Requested fields and what is sent\<close>

lemma wire_name_find: "distinct (map fst names) \<Longrightarrow> wire_name names f = get f names"
  by (induction names) (auto simp: wire_name_def)

lemma map_of_zip_Some:
  assumes "distinct ks" and "length vs = length ks"
  shows "map_of (zip ks vs) k = Some v \<longleftrightarrow> (\<exists>i<length ks. ks ! i = k \<and> vs ! i = v)"
proof -
  have "map_of (zip ks vs) k = Some v \<longleftrightarrow> (k, v) \<in> set (zip ks vs)"
    using assms by (intro map_of_eq_Some_iff) simp
  then show ?thesis using assms(2) by (auto simp: in_set_zip)
qed

text \<open>The same values under two lists of names: the table translates one into the other.\<close>

lemma renamed_fields:
  assumes "distinct fs" "distinct ks" "length ks = length fs" "length vs = length fs"
  shows "Option.bind (map_of (zip ks vs) k) id = Some v \<longleftrightarrow>
     (\<exists>f. map_of (zip fs ks) f = Some k \<and> Option.bind (map_of (zip fs vs) f) id = Some v)"
proof -
  have bind: "Option.bind x id = Some v \<longleftrightarrow> x = Some (Some v)" for x
    by (cases x) auto
  have "distinct ks" "length vs = length ks" using assms by simp_all
  note kv = map_of_zip_Some [OF this]
    and fk = map_of_zip_Some [OF assms(1,3)] and fv = map_of_zip_Some [OF assms(1,4)]
  show ?thesis
    unfolding bind kv fk fv using assms(1,3,4) by (metis nth_eq_iff_index_eq)
qed

text \<open>
  The fields a caller names and the fields of the patch are the same ones under the two names:
  the property \<open>k\<close> of the body holds \<open>v\<close> exactly when some requested field with that wire name
  has that value.
\<close>

lemma wlan_requested_is_sent:
  "get k (set_fields (wlan_patch_fields (wlan_patch_of c))) = Some v \<longleftrightarrow>
     (\<exists>f. wire_name WLAN_WIRE_NAMES f = Some k \<and> get f (requested_fields c) = Some v)"
proof -
  let ?fs = "[''ssid'', ''enabled'', ''security'', ''hidden'', ''passphrase'', ''radiusProfileId'']"
  let ?ks = "[''name'', ''enabled'', ''security'', ''hide_ssid'', ''x_passphrase'', ''radius_profile_id'']"
  let ?vs = "[map_option JStr (wc_ssid c), map_option JBool (wc_enabled c),
    map_option (JStr \<circ> security_wire) (wc_security c), map_option JBool (wc_hidden c),
    map_option JStr (wc_passphrase c), map_option JStr (wc_radius_profile_id c)]"
  have 1: "get k (set_fields (wlan_patch_fields (wlan_patch_of c))) = Option.bind (map_of (zip ?ks ?vs) k) id"
    by (subst get_set_fields)
      (simp_all add: wlan_patch_fields_def wlan_patch_of_def option.map_comp)
  have 2: "get f (requested_fields c) = Option.bind (map_of (zip ?fs ?vs) f) id" for f
    unfolding requested_fields_def by (subst get_set_fields) simp_all
  have 3: "wire_name WLAN_WIRE_NAMES f = map_of (zip ?fs ?ks) f" for f
    by (subst wire_name_find) (simp_all add: WLAN_WIRE_NAMES_def get_def)
  show ?thesis
    unfolding 1 2 3 by (rule renamed_fields) simp_all
qed

lemma port_forward_requested_is_sent:
  "get k (set_fields (port_forward_patch_fields (port_forward_patch_of c))) = Some v \<longleftrightarrow>
     (\<exists>f. wire_name PORT_FORWARD_WIRE_NAMES f = Some k \<and> get f (requested_port_forward_fields c) = Some v)"
proof -
  let ?fs = "[''name'', ''enabled'', ''source'', ''forwardTo'', ''forwardPort'', ''destinationPort'', ''protocol'']"
  let ?ks = "[''name'', ''enabled'', ''src'', ''fwd'', ''fwd_port'', ''dst_port'', ''proto'']"
  let ?vs = "[map_option JStr (fc_name c), map_option JBool (fc_enabled c), map_option JStr (fc_source c),
    map_option JStr (fc_forward_to c), map_option JStr (fc_forward_port c),
    map_option JStr (fc_destination_port c), map_option JStr (fc_protocol c)]"
  have 1: "get k (set_fields (port_forward_patch_fields (port_forward_patch_of c))) =
      Option.bind (map_of (zip ?ks ?vs) k) id"
    by (subst get_set_fields) (simp_all add: port_forward_patch_fields_def port_forward_patch_of_def)
  have 2: "get f (requested_port_forward_fields c) = Option.bind (map_of (zip ?fs ?vs) f) id" for f
    unfolding requested_port_forward_fields_def by (subst get_set_fields) simp_all
  have 3: "wire_name PORT_FORWARD_WIRE_NAMES f = map_of (zip ?fs ?ks) f" for f
    by (subst wire_name_find) (simp_all add: PORT_FORWARD_WIRE_NAMES_def get_def)
  show ?thesis
    unfolding 1 2 3 by (rule renamed_fields) simp_all
qed

section \<open>Writes\<close>

lemma tool_snapshots_read:
  "writes_within 0 (tool_wlan_snapshot wdec rt rid)"
  "writes_within 0 (tool_port_forward_snapshot fdec rt rid)"
  unfolding tool_wlan_snapshot_def tool_port_forward_snapshot_def
  by (intro writes_within_upstream io_bounds)+

lemma wlans_update_writes:
  "writes_within 1 (wlans_update_outcome from_value dec rt ps)"
proof (rule writes_withinI)
  fix s0
  show "extends 1 (snd s0) (snd (snd (wlans_update_outcome from_value dec rt ps s0)))"
    unfolding wlans_update_outcome_def
    by (rule writes_withinD)
      (intro handler_rules client_write_steps tool_snapshots_read [THEN writes_within_read_bind]
        tool_snapshots_read writes_within_timed_tail)
qed

lemma port_forwards_update_writes:
  "writes_within 1 (port_forwards_update_outcome from_value dec rt ps)"
proof (rule writes_withinI)
  fix s0
  show "extends 1 (snd s0) (snd (snd (port_forwards_update_outcome from_value dec rt ps s0)))"
    unfolding port_forwards_update_outcome_def
    by (rule writes_withinD)
      (intro handler_rules client_write_steps tool_snapshots_read [THEN writes_within_read_bind]
        tool_snapshots_read writes_within_timed_tail)
qed

lemma wlans_preview_reads:
  assumes "parse from_value ps = Inr input" and "wu_confirm input \<noteq> Some True"
  shows "writes_within 0 (wlans_update_outcome from_value dec rt ps)"
proof (rule writes_withinI)
  fix s0
  show "extends 0 (snd s0) (snd (snd (wlans_update_outcome from_value dec rt ps s0)))"
    unfolding wlans_update_outcome_def
    by (rule writes_withinD)
      (intro handler_rules tool_snapshots_read [THEN writes_within_read_bind]; use assms in simp)
qed

lemma port_forwards_preview_reads:
  assumes "parse from_value ps = Inr input" and "pu_confirm input \<noteq> Some True"
  shows "writes_within 0 (port_forwards_update_outcome from_value dec rt ps)"
proof (rule writes_withinI)
  fix s0
  show "extends 0 (snd s0) (snd (snd (port_forwards_update_outcome from_value dec rt ps s0)))"
    unfolding port_forwards_update_outcome_def
    by (rule writes_withinD)
      (intro handler_rules tool_snapshots_read [THEN writes_within_read_bind]; use assms in simp)
qed

section \<open>What a verified update means\<close>

lemma verified_report_True:
  assumes "rp_verified (verified_report names requested before fp after fp' output) = Some True"
    and "JNull \<notin> snd ` set requested"
  shows "list_all (\<lambda>(f, v). jget f after = Some v) requested"
    and "set (changed_properties fp fp') \<subseteq> {k. \<exists>(f, v)\<in>set requested. wire_name names f = Some k}"
proof -
  from assms(1) have un: "unrequested_changes fp fp' requested names = []"
    and "list_all (\<lambda>oc. oc_status oc = Persisted) (verify_fields requested before after)"
    by (simp_all add: verified_report_def all_persisted_def Let_def)
  then have "\<forall>(f, v)\<in>set requested. get_or_null f after = v"
    by (auto simp: verify_fields_def list_all_iff field_verdict_def split: if_splits)
  with assms(2) show "list_all (\<lambda>(f, v). jget f after = Some v) requested"
    by (fastforce simp: list_all_iff get_or_null_def image_iff split: option.splits)
  from un show "set (changed_properties fp fp') \<subseteq> {k. \<exists>(f, v)\<in>set requested. wire_name names f = Some k}"
    by (fastforce simp: unrequested_changes_def Let_def filter_empty_conv map_filter_def)
qed

lemma map_insert_values: "snd ` set (map_insert k v m) \<subseteq> insert v (snd ` set m)"
  by (induction k v m rule: map_insert.induct) auto

lemma put_field_values: "v \<in> snd ` set (put_field f m) \<Longrightarrow> snd f = Some v \<or> v \<in> snd ` set m"
proof (cases f)
  case (Pair name x)
  then show "v \<in> snd ` set (put_field f m) \<Longrightarrow> snd f = Some v \<or> v \<in> snd ` set m"
    using map_insert_values [of name "the x" m] by (cases x) auto
qed

lemma fold_put_values: "v \<in> snd ` set (fold put_field fs m) \<Longrightarrow> Some v \<in> snd ` set fs \<or> v \<in> snd ` set m"
proof (induction fs arbitrary: m)
  case (Cons f fs)
  from Cons.prems have "Some v \<in> snd ` set fs \<or> v \<in> snd ` set (put_field f m)"
    by (intro Cons.IH) simp
  with put_field_values [of v f m] show ?case by (metis image_insert insertCI list.set(2))
qed simp

lemma set_fields_values: "v \<in> snd ` set (set_fields fs) \<Longrightarrow> Some v \<in> snd ` set fs"
  unfolding set_fields_def by (drule fold_put_values) simp

lemma requested_fields_not_null:
  "JNull \<notin> snd ` set (requested_fields c)" "JNull \<notin> snd ` set (requested_port_forward_fields d)"
  unfolding requested_fields_def requested_port_forward_fields_def
  by (rule notI, drule set_fields_values, fastforce simp: eq_commute [of "Some JNull"])+

lemma wlan_read_back_verified:
  assumes "rp_verified (wlan_read_back rt requested before fp outcome output) = Some True"
    and "rp_verified output = None"
  obtains conf' fp' where "outcome = Finished (Inr (conf', fp'))"
    and "rp_verified (verified_report WLAN_WIRE_NAMES requested before fp (wlan_projection conf') fp' output) = Some True"
  using assms by (auto simp: wlan_read_back_def split: timed.splits sum.splits prod.splits)

text \<open>
  A wireless update is reported as verified only when it really took effect and touched
  nothing else: the record was read, the write carrying exactly the requested fields was
  accepted, and the record read after it holds every requested value, while every stored
  property that no requested field names has the value it had before the write.
\<close>

theorem verified_wlan_update:
  assumes "parse from_value ps = Inr input"
    and "fst (wlans_update_outcome from_value dec rt ps s) = Inr output"
    and "rp_verified output = Some True"
  shows "\<exists>conf fp s1 answer s2 conf' fp'.
      tool_wlan_snapshot dec rt (wu_wlan input) s = (Inr (conf, fp), s1)
      \<and> upstream (update_wlan (dec_envelope rt) (legacy rt) (legacy_site rt) (wu_wlan input)
            (wlan_patch_of (wu_changes input))) s1 = (Inr answer, s2)
      \<and> fst (tool_wlan_snapshot dec rt (wu_wlan input) s2) = Inr (conf', fp')
      \<and> list_all (\<lambda>(f, v). jget f (wlan_projection conf') = Some v) (requested_fields (wu_changes input))
      \<and> {k. get k (properties fp) \<noteq> get k (properties fp')}
          \<subseteq> {k. get k (set_fields (wlan_patch_fields (wlan_patch_of (wu_changes input)))) \<noteq> None}"
proof -
  let ?req = "requested_fields (wu_changes input)"
  let ?snap = "tool_wlan_snapshot dec rt (wu_wlan input)"
  let ?put = "upstream (update_wlan (dec_envelope rt) (legacy rt) (legacy_site rt) (wu_wlan input)
            (wlan_patch_of (wu_changes input)))"
  obtain conf fp s1 where first: "?snap s = (Inr (conf, fp), s1)"
    using assms by (auto simp: wlans_update_outcome_def bind_io_def Let_def split: sum.splits prod.splits if_splits)
  obtain status body s2 where put: "?put s1 = (Inr (status, body), s2)"
    using assms first
    by (auto simp: wlans_update_outcome_def bind_io_def Let_def split: sum.splits prod.splits if_splits)
  obtain outcome s3 where tr: "timed_readback rt (instant_now rt s) ?snap s2 = (outcome, s3)"
    by (metis surj_pair)
  from assms first put tr obtain o0 where out: "output = wlan_read_back rt ?req (wlan_projection conf) fp outcome o0"
      "rp_verified o0 = None"
    by (auto simp: wlans_update_outcome_def bind_io_def Let_def split: sum.splits prod.splits if_splits)
  from assms(3) [unfolded out(1)] out(2) obtain conf' fp' where fin: "outcome = Finished (Inr (conf', fp'))"
    and v: "rp_verified (verified_report WLAN_WIRE_NAMES ?req (wlan_projection conf) fp
              (wlan_projection conf') fp' o0) = Some True"
    by (rule wlan_read_back_verified)
  have "fst (?snap s2) = Inr (conf', fp')" using timed_readback_Finished [OF tr [unfolded fin]] .
  moreover have "{k. get k (properties fp) \<noteq> get k (properties fp')}
          \<subseteq> {k. get k (set_fields (wlan_patch_fields (wlan_patch_of (wu_changes input)))) \<noteq> None}"
  proof
    fix k assume "k \<in> {k. get k (properties fp) \<noteq> get k (properties fp')}"
    with verified_report_True(2) [OF v requested_fields_not_null(1)] obtain f v where
      "(f, v) \<in> set ?req" "wire_name WLAN_WIRE_NAMES f = Some k"
      by (auto simp: set_changed_properties)
    moreover have "distinct (map fst ?req)"
      using ordered_set_fields ordered_map_distinct unfolding requested_fields_def by blast
    ultimately have "get k (set_fields (wlan_patch_fields (wlan_patch_of (wu_changes input)))) = Some v"
      unfolding wlan_requested_is_sent using get_in_set by fastforce
    then show "k \<in> {k. get k (set_fields (wlan_patch_fields (wlan_patch_of (wu_changes input)))) \<noteq> None}"
      by (metis mem_Collect_eq option.discI)
  qed
  ultimately show ?thesis
    using first put verified_report_True(1) [OF v requested_fields_not_null(1)] by blast
qed

text \<open>A server whose console always gives the same answer, for concrete instances.\<close>

definition sample_runtime :: "(string + response) \<Rightarrow> json_object \<Rightarrow> unit tool_runtime" where
  "sample_runtime answer row =
     \<lparr>integration = canned_integration answer, legacy = canned_client answer, legacy_site = ''default'',
      request_timeout = from_secs 30, rt_cut = (\<lambda>_ _ _. None), show_json = (\<lambda>_. []),
      show_mcp_error = (\<lambda>_. []),
      dec_sites = (\<lambda>_. Inr \<lparr>page_offset = 0, page_limit = 100, page_count = 0, total_count = 0, page_data = []\<rparr>),
      dec_envelope = (\<lambda>_. Inr \<lparr>meta_rc = ''ok'', meta_msg = None, envelope_data = []\<rparr>),
      dec_rows = (\<lambda>_. Inr \<lparr>meta_rc = ''ok'', meta_msg = None, envelope_data = [row]\<rparr>)\<rparr>"

definition sample_state :: "unit tool_state" where
  "sample_state = (Some ''site'', canned_world (session_default\<lparr>kind := Some Standalone, authenticated := True\<rparr>))"

definition empty_ok :: "string + response" where
  "empty_ok = Inr \<lparr>rs_status = 200, rs_header = (\<lambda>_. None), rs_chunks = []\<rparr>"

definition sample_wlan_input :: wlans_update_input where
  "sample_wlan_input =
     \<lparr>wu_wlan = ''w1'', wu_changes = \<lparr>wc_ssid = None, wc_enabled = Some True, wc_security = None,
        wc_hidden = None, wc_passphrase = None, wc_radius_profile_id = None\<rparr>, wu_confirm = Some True\<rparr>"

lemmas sample_run_defs =
  sample_runtime_def sample_state_def empty_ok_def upstream_def on_world_def map_err_io_def bind_io_def
  map_io_def request_with_reauth_with_bytes_def request_with_reauth_with_status_bytes_def
  ensure_session_def canned_world_def session_default_def execute_with_status_bytes_def
  execute_bytes_def execute_request_bytes_def build_url_def invalid_segment_def canned_client_def
  send_request_def read_bounded_body_def is_success_def capture_csrf_def Let_def
  legacy_detail_row_def validate_legacy_detail_id_def timed_readback_def tokio_timeout_def
  readback_budget_def instant_now_def canned_integration_def READBACK_BUDGET_def
  RESPONSE_RESERVE_def from_secs_def

theorem verified_wlan_update_witness:
  "\<exists>conf fp s1 s2 conf' fp'.
      tool_wlan_snapshot (\<lambda>_. Inr sample_wlan) (sample_runtime empty_ok [(''_id'', JStr ''w1'')]) ''w1'' sample_state =
        (Inr (conf, fp), s1)
      \<and> fst (tool_wlan_snapshot (\<lambda>_. Inr sample_wlan) (sample_runtime empty_ok [(''_id'', JStr ''w1'')]) ''w1'' s2) =
          Inr (conf', fp')
      \<and> list_all (\<lambda>(f, v). jget f (wlan_projection conf') = Some v)
           (requested_fields (wu_changes sample_wlan_input))"
proof -
  let ?rt = "sample_runtime empty_ok [(''_id'', JStr ''w1'')]"
  have parsed: "parse (\<lambda>_. Inr sample_wlan_input) \<lparr>arguments = None\<rparr> = Inr sample_wlan_input"
    by (simp add: parse_def)
  have "map_ok rp_verified (fst (wlans_update_outcome (\<lambda>_. Inr sample_wlan_input) (\<lambda>_. Inr sample_wlan) ?rt
      \<lparr>arguments = None\<rparr> sample_state)) = Inr (Some True)"
    by (simp add: wlans_update_outcome_def parse_def reject_unknown_change_fields_def change_keys_def
        tool_wlan_snapshot_def wlan_snapshot_def sample_run_defs sample_wlan_input_def sample_wlan_def
        requested_fields_def set_fields_def wlan_projection_def update_wlan_def wlan_patch_is_empty_def
        wlan_patch_of_def write_with_status_def wlan_read_back_def verified_report_def all_persisted_def
        verify_fields_def field_verdict_def get_or_null_def nullable_def unrequested_changes_def
        changed_properties_def)
  then obtain out where run: "fst (wlans_update_outcome (\<lambda>_. Inr sample_wlan_input) (\<lambda>_. Inr sample_wlan) ?rt
      \<lparr>arguments = None\<rparr> sample_state) = Inr out" "rp_verified out = Some True"
    by (auto simp: map_ok_def split: sum.splits)
  from verified_wlan_update [OF parsed run] show ?thesis by (simp add: sample_wlan_input_def) blast
qed

end
