(* ===== verification/Tool_Actions.thy ===== *)
theory Tool_Actions
  imports Tool_Updates Traffic
begin

text \<open>
  The tools of \<open>crates/unifi-mcp/src/tools.rs\<close> that act on a device or a client: adopting and
  removing a device, controlling a device (restart, locate, power-cycle a port) and controlling a
  client (block, unblock, reconnect). Each describes the action unless it is confirmed, sends it
  once, and reports what it reads afterwards. The result functions move long texts to content.
\<close>

section \<open>Results that spill into content\<close>

text \<open>
  The contract of the shaping: each step takes one field, the fields are independent, and a field
  that was taken is gone. \<open>kept\<close> says that nothing is lost, \<open>moved\<close> that a result which is still
  too large has nothing left to move.
\<close>

locale spill_steps =
  fixes steps :: "(string \<times> ('o \<Rightarrow> (string \<times> 'o) option)) list"
  assumes independent:
      "(l, f) \<in> set steps \<Longrightarrow> (l', f') \<in> set steps \<Longrightarrow> l \<noteq> l' \<Longrightarrow> f x = Some (t, y)
         \<Longrightarrow> map_option fst (f' y) = map_option fst (f' x)"
    and taken: "(l, f) \<in> set steps \<Longrightarrow> f x = Some (t, y) \<Longrightarrow> f y = None"
    and labels: "distinct (map fst steps)"
begin

lemma step_content:
  assumes "spill_field rt ser (l, f) (x, content) = (y, content')"
  shows "set content \<subseteq> set content'"
  using assms by (auto simp: spill_field_def split: if_splits option.splits prod.splits)

lemma fold_content: "set content \<subseteq> set (snd (fold (spill_field rt ser) ss (x, content)))"
proof (induction ss arbitrary: x content)
  case (Cons s ss)
  obtain y content' where "spill_field rt ser s (x, content) = (y, content')" by (metis surj_pair)
  with Cons [of content' y] step_content [of rt ser "fst s" "snd s" x content y content'] show ?case by auto
qed simp

lemma step_keeps:
  assumes "(l, f) \<in> set steps" and "(l', f') \<in> set steps"
    and "map_option fst (f x) = Some t"
    and "spill_field rt ser (l', f') (x, content) = (y, content')"
  shows "map_option fst (f y) = Some t \<or> text_block l t \<in> set content'"
proof (cases "l = l'")
  case True
  with assms(1,2) labels have "f = f'"
    by (metis (no_types, lifting) eq_key_imp_eq_value)
  with True assms(3,4) show ?thesis
    by (auto simp: spill_field_def split: if_splits option.splits prod.splits)
next
  case False
  with assms show ?thesis
    using independent [OF assms(2,1), of x]
    by (auto simp: spill_field_def split: if_splits option.splits prod.splits)
qed

lemma kept:
  assumes "set ss \<subseteq> set steps" and "(l, f) \<in> set steps" and "map_option fst (f x) = Some t"
    and "fold (spill_field rt ser) ss (x, content) = (y, content')"
  shows "map_option fst (f y) = Some t \<or> text_block l t \<in> set content'"
  using assms(1,3,4)
proof (induction ss arbitrary: x content)
  case (Cons s ss)
  obtain x1 c1 where s: "spill_field rt ser s (x, content) = (x1, c1)" by (metis surj_pair)
  from Cons.prems s have fold: "fold (spill_field rt ser) ss (x1, c1) = (y, content')" by simp
  from Cons.prems(1) have "(fst s, snd s) \<in> set steps" by simp
  from step_keeps [OF assms(2) this Cons.prems(2), of rt ser content x1 c1] s
  have "map_option fst (f x1) = Some t \<or> text_block l t \<in> set c1" by simp
  then show ?case
  proof
    assume "map_option fst (f x1) = Some t"
    from Cons.IH [OF _ this fold] Cons.prems(1) show ?thesis by simp
  next
    assume "text_block l t \<in> set c1"
    with fold_content [of c1 rt ser ss x1] fold show ?thesis by auto
  qed
qed simp

lemma result_keeps:
  assumes "(l, f) \<in> set steps" and "map_option fst (f x) = Some t"
  shows "\<exists>y. structured_content (spilled_result rt ser steps x) = ser y
           \<and> (map_option fst (f y) = Some t \<or> text_block l t \<in> set (extra_content (spilled_result rt ser steps x)))"
proof -
  obtain y content where fold: "fold (spill_field rt ser) steps (x, []) = (y, content)" by (metis surj_pair)
  with kept [OF subset_refl assms fold] show ?thesis
    by (auto simp: spilled_result_def structured_def)
qed

end

text \<open>\<open>if let Some(v) = output.field.take()\<close> with its marker.\<close>

definition take_text :: "('o \<Rightarrow> 'v option) \<Rightarrow> ('v \<Rightarrow> string) \<Rightarrow> ('o \<Rightarrow> 'o) \<Rightarrow> 'o \<Rightarrow> (string \<times> 'o) option" where
  "take_text field show_value mark output = map_option (\<lambda>v. (show_value v, mark output)) (field output)"

lemma take_text_simps [simp]:
  "map_option fst (take_text field show_value mark x) = map_option show_value (field x)"
  "take_text field show_value mark x = None \<longleftrightarrow> field x = None"
  "take_text field show_value mark x = Some (t, y) \<longleftrightarrow> (\<exists>v. field x = Some v \<and> t = show_value v \<and> y = mark x)"
  by (auto simp: take_text_def option.map_comp comp_def)

section \<open>Adopting a device\<close>

record devices_adopt_input =
  ai_mac_address :: string
  ai_ignore_device_limit :: bool
  ai_confirm :: bool

record devices_adopt_output =
  ao_mac_address :: string
  ao_ignore_device_limit :: bool
  ao_submitted :: bool
  ao_accepted :: "json option"
  ao_accepted_in_content :: "bool option"
  ao_after :: "json option"
  ao_after_in_content :: "bool option"
  ao_verified :: "bool option"
  ao_readback_error :: "string option"
  ao_readback_error_in_content :: "bool option"

definition devices_adopt_json :: "devices_adopt_output \<Rightarrow> json" where
  "devices_adopt_json o1 =
     JObj (set_fields
       [(''macAddress'', Some (JStr (ao_mac_address o1))),
        (''ignoreDeviceLimit'', Some (JBool (ao_ignore_device_limit o1))),
        (''submitted'', Some (JBool (ao_submitted o1))),
        (''accepted'', ao_accepted o1), (''acceptedInContent'', map_option JBool (ao_accepted_in_content o1)),
        (''after'', ao_after o1), (''afterInContent'', map_option JBool (ao_after_in_content o1)),
        (''verified'', map_option JBool (ao_verified o1)),
        (''readbackError'', map_option JStr (ao_readback_error o1)),
        (''readbackErrorInContent'', map_option JBool (ao_readback_error_in_content o1))])"

definition adopt_steps ::
  "('e, 'x) tool_runtime_scheme \<Rightarrow> (string \<times> (devices_adopt_output \<Rightarrow> (string \<times> devices_adopt_output) option)) list" where
  "adopt_steps rt =
     [(''accepted'', take_text ao_accepted (show_json rt) (\<lambda>o1. o1\<lparr>ao_accepted := None, ao_accepted_in_content := Some True\<rparr>)),
      (''after'', take_text ao_after (show_json rt) (\<lambda>o1. o1\<lparr>ao_after := None, ao_after_in_content := Some True\<rparr>)),
      (''readbackError'', take_text ao_readback_error id
         (\<lambda>o1. o1\<lparr>ao_readback_error := None, ao_readback_error_in_content := Some True\<rparr>))]"

definition devices_adopt_result :: "('e, 'x) tool_runtime_scheme \<Rightarrow> devices_adopt_output \<Rightarrow> call_result" where
  "devices_adopt_result rt output = spilled_result rt devices_adopt_json (adopt_steps rt) output"

interpretation adopt: spill_steps "adopt_steps rt" for rt :: "('e, 'x) tool_runtime_scheme"
  by unfold_locales (auto simp: adopt_steps_def)

text \<open>\<open>after.get("id").and_then(Value::as_str)\<close>.\<close>

definition record_id :: "json \<Rightarrow> string option" where
  "record_id v = Option.bind (jget ''id'' v) jstr"

definition adopt_read_back ::
  "string \<Rightarrow> (api_error + json) timed \<Rightarrow> devices_adopt_output \<Rightarrow> devices_adopt_output" where
  "adopt_read_back rid outcome output =
     (case outcome of
        Skipped \<Rightarrow> output\<lparr>ao_readback_error := Some ''device readback skipped near request deadline''\<rparr>
      | TimedOut \<Rightarrow> output\<lparr>ao_readback_error := Some ''device readback timed out''\<rparr>
      | Finished (Inl err) \<Rightarrow> output\<lparr>ao_readback_error := Some (render err)\<rparr>
      | Finished (Inr after) \<Rightarrow>
          output\<lparr>ao_verified := Some (record_id after = Some rid), ao_after := Some after\<rparr>)"

definition blank :: "string \<Rightarrow> bool" where
  "blank v \<longleftrightarrow> trim v = []"

definition devices_adopt_outcome ::
  "(json \<Rightarrow> string + devices_adopt_input) \<Rightarrow> ('e, 'x) tool_runtime_scheme \<Rightarrow> params
     \<Rightarrow> ('e, devices_adopt_output) tool" where
  "devices_adopt_outcome from_value rt ps s0 =
     bind_io (return_io (parse from_value ps)) (\<lambda>input.
       let started = instant_now rt s0;
           output =
             \<lparr>ao_mac_address = ai_mac_address input, ao_ignore_device_limit = ai_ignore_device_limit input,
              ao_submitted = False, ao_accepted = None, ao_accepted_in_content = None, ao_after = None,
              ao_after_in_content = None, ao_verified = None, ao_readback_error = None,
              ao_readback_error_in_content = None\<rparr>
       in if blank (ai_mac_address input) \<or> length (ai_mac_address input) > 64
             \<or> list_ex is_control (chars (ai_mac_address input))
          then return_io (Inl (InvalidParams ''macAddress must be a nonempty address of at most 64 bytes''))
          else if \<not> ai_confirm input then return_io (Inr output)
          else
            bind_io (resolve_site rt) (\<lambda>site.
            bind_io (upstream (adopt_device (integration rt) site (ao_mac_address output)
                       (ao_ignore_device_limit output))) (\<lambda>accepted_value.
              let output = output\<lparr>ao_submitted := True, ao_accepted := Some accepted_value\<rparr>
              in case record_id accepted_value of
                   Some rid \<Rightarrow>
                     (\<lambda>s. case timed_readback rt started
                              (on_world (device_detail_raw (integration rt) site rid)) s of
                            (outcome, s') \<Rightarrow> (Inr (adopt_read_back rid outcome output), s'))
                 | None \<Rightarrow>
                     return_io (Inr (output\<lparr>ao_readback_error :=
                       Some ''accepted device record had no id for readback''\<rparr>))))) s0"

definition devices_adopt ::
  "(json \<Rightarrow> string + devices_adopt_input) \<Rightarrow> ('e, 'x) tool_runtime_scheme \<Rightarrow> params
     \<Rightarrow> ('e, call_result) tool" where
  "devices_adopt from_value rt ps =
     map_io (\<lambda>output. if ao_submitted output then devices_adopt_result rt output
                       else structured (devices_adopt_json output))
       (devices_adopt_outcome from_value rt ps)"

section \<open>Removing a device\<close>

record devices_remove_input =
  ri_device_id :: string
  ri_confirm :: bool

record devices_remove_output =
  ro_device_id :: string
  ro_submitted :: bool
  ro_response_status :: "nat option"
  ro_response_body :: "string option"
  ro_response_body_in_content :: "bool option"
  ro_after :: "json option"
  ro_after_in_content :: "bool option"
  ro_verified_absent :: "bool option"
  ro_readback_error :: "string option"
  ro_readback_error_in_content :: "bool option"

definition devices_remove_json :: "devices_remove_output \<Rightarrow> json" where
  "devices_remove_json o1 =
     JObj (set_fields
       [(''deviceId'', Some (JStr (ro_device_id o1))),
        (''warning'', Some (JStr ''removing an online device resets it to factory defaults'')),
        (''submitted'', Some (JBool (ro_submitted o1))),
        (''responseStatus'', map_option jnat (ro_response_status o1)),
        (''responseBody'', map_option JStr (ro_response_body o1)),
        (''responseBodyInContent'', map_option JBool (ro_response_body_in_content o1)),
        (''after'', ro_after o1), (''afterInContent'', map_option JBool (ro_after_in_content o1)),
        (''verifiedAbsent'', map_option JBool (ro_verified_absent o1)),
        (''readbackError'', map_option JStr (ro_readback_error o1)),
        (''readbackErrorInContent'', map_option JBool (ro_readback_error_in_content o1))])"

definition remove_steps ::
  "('e, 'x) tool_runtime_scheme \<Rightarrow> (string \<times> (devices_remove_output \<Rightarrow> (string \<times> devices_remove_output) option)) list" where
  "remove_steps rt =
     [(''responseBody'', take_text ro_response_body id
         (\<lambda>o1. o1\<lparr>ro_response_body := None, ro_response_body_in_content := Some True\<rparr>)),
      (''after'', take_text ro_after (show_json rt) (\<lambda>o1. o1\<lparr>ro_after := None, ro_after_in_content := Some True\<rparr>)),
      (''readbackError'', take_text ro_readback_error id
         (\<lambda>o1. o1\<lparr>ro_readback_error := None, ro_readback_error_in_content := Some True\<rparr>))]"

definition devices_remove_result :: "('e, 'x) tool_runtime_scheme \<Rightarrow> devices_remove_output \<Rightarrow> call_result" where
  "devices_remove_result rt output = spilled_result rt devices_remove_json (remove_steps rt) output"

interpretation remove: spill_steps "remove_steps rt" for rt :: "('e, 'x) tool_runtime_scheme"
  by unfold_locales (auto simp: remove_steps_def)

fun is_not_found :: "api_error \<Rightarrow> bool" where
  "is_not_found (Status status _) \<longleftrightarrow> status = 404"
| "is_not_found _ \<longleftrightarrow> False"

definition remove_read_back ::
  "(api_error + json) timed \<Rightarrow> devices_remove_output \<Rightarrow> devices_remove_output" where
  "remove_read_back outcome output =
     (case outcome of
        Skipped \<Rightarrow> output\<lparr>ro_readback_error := Some ''device readback skipped near request deadline''\<rparr>
      | TimedOut \<Rightarrow> output\<lparr>ro_readback_error := Some ''device readback timed out''\<rparr>
      | Finished (Inr after) \<Rightarrow> output\<lparr>ro_after := Some after, ro_verified_absent := Some False\<rparr>
      | Finished (Inl err) \<Rightarrow>
          (if is_not_found err
           then output\<lparr>ro_verified_absent := Some True, ro_readback_error := Some (render err)\<rparr>
           else output\<lparr>ro_readback_error := Some (render err)\<rparr>))"

definition devices_remove_outcome ::
  "(json \<Rightarrow> string + devices_remove_input) \<Rightarrow> ('e, 'x) tool_runtime_scheme \<Rightarrow> params
     \<Rightarrow> ('e, devices_remove_output) tool" where
  "devices_remove_outcome from_value rt ps s0 =
     bind_io (return_io (parse from_value ps)) (\<lambda>input.
       let started = instant_now rt s0;
           output =
             \<lparr>ro_device_id = ri_device_id input, ro_submitted = False, ro_response_status = None,
              ro_response_body = None, ro_response_body_in_content = None, ro_after = None,
              ro_after_in_content = None, ro_verified_absent = None, ro_readback_error = None,
              ro_readback_error_in_content = None\<rparr>
       in if blank (ri_device_id input) \<or> length (ri_device_id input) > 256
             \<or> ri_device_id input \<in> {''.'', ''..''}
          then return_io (Inl (InvalidParams ''deviceId must be a nonempty id of at most 256 bytes''))
          else if \<not> ri_confirm input then return_io (Inr output)
          else
            bind_io (resolve_site rt) (\<lambda>site.
            bind_io (upstream (remove_device (integration rt) site (ro_device_id output))) (\<lambda>(status, body) s.
              case timed_readback rt started
                     (on_world (device_detail_raw (integration rt) site (ro_device_id output))) s of
                (outcome, s') \<Rightarrow>
                  (Inr (remove_read_back outcome
                     (output\<lparr>ro_submitted := True, ro_response_status := Some status,
                        ro_response_body := Some (as_str (from_controller_bytes (ext_b64 (integration rt)) body))\<rparr>)),
                   s')))) s0"

definition devices_remove ::
  "(json \<Rightarrow> string + devices_remove_input) \<Rightarrow> ('e, 'x) tool_runtime_scheme \<Rightarrow> params
     \<Rightarrow> ('e, call_result) tool" where
  "devices_remove from_value rt ps =
     map_io (\<lambda>output. if ro_submitted output then devices_remove_result rt output
                       else structured (devices_remove_json output))
       (devices_remove_outcome from_value rt ps)"

section \<open>Controlling a device\<close>

datatype device_control = Restart | Locate | EndLocate | PortCycle

fun device_control_word :: "device_control \<Rightarrow> string" where
  "device_control_word Restart = ''restart''"
| "device_control_word Locate = ''locate''"
| "device_control_word EndLocate = ''endLocate''"
| "device_control_word PortCycle = ''portCycle''"

record devices_control_input =
  ci_device :: string
  ci_action :: device_control
  ci_port :: "u32 option"
  ci_confirm :: "bool option"

text \<open>The fields of a device record the tool reads.\<close>

record device_record =
  dr_name :: "string option"
  dr_mac_address :: "string option"
  dr_state :: "string option"

record devices_control_output =
  co_device :: string
  co_name :: "string option"
  co_action :: string
  co_port :: "u32 option"
  co_applied :: bool
  co_response_status :: "nat option"
  co_response_body :: "string option"
  co_response_body_in_content :: "bool option"
  co_state_before :: "string option"
  co_state_after :: "string option"
  co_readback_error :: "string option"
  co_readback_error_in_content :: "bool option"
  co_warnings :: "string list"

definition devices_control_json :: "devices_control_output \<Rightarrow> json" where
  "devices_control_json o1 =
     JObj (set_fields
       [(''device'', Some (JStr (co_device o1))), (''name'', map_option JStr (co_name o1)),
        (''action'', Some (JStr (co_action o1))), (''port'', map_option jword (co_port o1)),
        (''applied'', Some (JBool (co_applied o1))),
        (''responseStatus'', map_option jnat (co_response_status o1)),
        (''responseBody'', map_option JStr (co_response_body o1)),
        (''responseBodyInContent'', map_option JBool (co_response_body_in_content o1)),
        (''stateBefore'', map_option JStr (co_state_before o1)),
        (''stateAfter'', map_option JStr (co_state_after o1)),
        (''readbackError'', map_option JStr (co_readback_error o1)),
        (''readbackErrorInContent'', map_option JBool (co_readback_error_in_content o1)),
        (''warnings'', warnings_field (co_warnings o1))])"

definition control_steps ::
  "(string \<times> (devices_control_output \<Rightarrow> (string \<times> devices_control_output) option)) list" where
  "control_steps =
     [(''responseBody'', take_text co_response_body id
         (\<lambda>o1. o1\<lparr>co_response_body := None, co_response_body_in_content := Some True\<rparr>)),
      (''readbackError'', take_text co_readback_error id
         (\<lambda>o1. o1\<lparr>co_readback_error := None, co_readback_error_in_content := Some True\<rparr>))]"

definition devices_control_result :: "('e, 'x) tool_runtime_scheme \<Rightarrow> devices_control_output \<Rightarrow> call_result" where
  "devices_control_result rt output = spilled_result rt devices_control_json control_steps output"

interpretation control: spill_steps control_steps
  by unfold_locales (auto simp: control_steps_def)

fun validated_port :: "device_control \<Rightarrow> u32 option \<Rightarrow> mcp_error + u32 option" where
  "validated_port PortCycle (Some port) = Inr (Some port)"
| "validated_port PortCycle None =
     Inl (InvalidParams (''portCycle requires the port to cycle; devices.status lists a device'' @ [CHR 0x27] @ ''s ports''))"
| "validated_port action (Some port) =
     Inl (InvalidParams ''port applies only to portCycle; omit it or choose portCycle'')"
| "validated_port action None = Inr None"

fun device_control_warnings :: "device_control \<Rightarrow> string list" where
  "device_control_warnings Restart =
     [''restarting takes the device offline for a minute or more, with everything it serves'']"
| "device_control_warnings PortCycle =
     [''power-cycling a port reboots whatever it powers, and drops any device connected to it'']"
| "device_control_warnings Locate = [''the device flashes its locate LED until locating is ended'']"
| "device_control_warnings EndLocate = [''the device stops flashing its locate LED'']"

text \<open>The \<open>match input.action\<close> that sends the action.\<close>

definition send_device_action ::
  "('e, 'x) tool_runtime_scheme \<Rightarrow> string \<Rightarrow> string \<Rightarrow> u32 option \<Rightarrow> string option \<Rightarrow> device_control
     \<Rightarrow> ('e, nat \<times> bytes) tool" where
  "send_device_action rt site device port mac action =
     (case action of
        Restart \<Rightarrow> upstream (integration_restart_device (integration rt) site device)
      | PortCycle \<Rightarrow>
          (case port of
             None \<Rightarrow> return_io (Inl (InvalidParams ''portCycle requires a port''))
           | Some p \<Rightarrow> upstream (power_cycle_port (integration rt) site device p))
      | _ \<Rightarrow>
          (case mac of
             None \<Rightarrow> return_io (Inl (InvalidParams (''the controller reports no hardware address for this device, '' @
                       ''so its locate LED cannot be addressed'')))
           | Some m \<Rightarrow> upstream (locate_device (dec_envelope rt) (legacy rt) (legacy_site rt) m (action = Locate))))"

definition control_read_back ::
  "(api_error + device_record) timed \<Rightarrow> devices_control_output \<Rightarrow> devices_control_output" where
  "control_read_back outcome output =
     (case outcome of
        Skipped \<Rightarrow> output\<lparr>co_readback_error := Some ''device readback skipped near request deadline''\<rparr>
      | TimedOut \<Rightarrow> output\<lparr>co_readback_error := Some ''device readback timed out''\<rparr>
      | Finished (Inl err) \<Rightarrow> output\<lparr>co_readback_error := Some (render err)\<rparr>
      | Finished (Inr after) \<Rightarrow> output\<lparr>co_name := dr_name after, co_state_after := dr_state after\<rparr>)"

definition devices_control_outcome ::
  "(json \<Rightarrow> string + devices_control_input) \<Rightarrow> device_record decoder \<Rightarrow> ('e, 'x) tool_runtime_scheme
     \<Rightarrow> params \<Rightarrow> ('e, devices_control_output) tool" where
  "devices_control_outcome from_value dec rt ps s0 =
     bind_io (return_io (parse from_value ps)) (\<lambda>input.
     bind_io (return_io (validated_port (ci_action input) (ci_port input))) (\<lambda>port.
     bind_io (resolve_site rt) (\<lambda>site.
     bind_io (upstream (device_detail dec (integration rt) site (ci_device input))) (\<lambda>detail.
       let started = instant_now rt s0;
           output =
             \<lparr>co_device = ci_device input, co_name = dr_name detail, co_action = device_control_word (ci_action input),
              co_port = port, co_applied = False, co_response_status = None, co_response_body = None,
              co_response_body_in_content = None, co_state_before = dr_state detail, co_state_after = None,
              co_readback_error = None, co_readback_error_in_content = None,
              co_warnings = device_control_warnings (ci_action input)\<rparr>
       in if ci_confirm input \<noteq> Some True then return_io (Inr output)
          else
            bind_io (send_device_action rt site (co_device output) port (dr_mac_address detail) (ci_action input))
              (\<lambda>(status, body) s.
                 case timed_readback rt started
                        (on_world (device_detail dec (integration rt) site (co_device output))) s of
                   (outcome, s') \<Rightarrow>
                     (Inr (control_read_back outcome
                        (output\<lparr>co_applied := True, co_response_status := Some status,
                           co_response_body := Some (as_str (from_controller_bytes (ext_b64 (integration rt)) body))\<rparr>)),
                      s')))))) s0"

definition devices_control ::
  "(json \<Rightarrow> string + devices_control_input) \<Rightarrow> device_record decoder \<Rightarrow> ('e, 'x) tool_runtime_scheme
     \<Rightarrow> params \<Rightarrow> ('e, call_result) tool" where
  "devices_control from_value dec rt ps =
     map_io (devices_control_result rt) (devices_control_outcome from_value dec rt ps)"

section \<open>Controlling a client\<close>

datatype client_control = Block | Unblock | Reconnect

fun client_control_word :: "client_control \<Rightarrow> string" where
  "client_control_word Block = ''block''"
| "client_control_word Unblock = ''unblock''"
| "client_control_word Reconnect = ''reconnect''"

record clients_control_input =
  ki_client :: string
  ki_action :: client_control
  ki_confirm :: "bool option"

record active_client =
  ac_mac :: "string option"

record clients_control_output =
  ko_client :: string
  ko_action :: string
  ko_applied :: bool
  ko_response_status :: "nat option"
  ko_response_body :: "string option"
  ko_connected_before :: bool
  ko_connected_after :: "bool option"
  ko_readback_error :: "string option"
  ko_warnings :: "string list"

definition clients_control_json :: "clients_control_output \<Rightarrow> json" where
  "clients_control_json o1 =
     JObj (set_fields
       [(''client'', Some (JStr (ko_client o1))), (''action'', Some (JStr (ko_action o1))),
        (''applied'', Some (JBool (ko_applied o1))),
        (''responseStatus'', map_option jnat (ko_response_status o1)),
        (''responseBody'', map_option JStr (ko_response_body o1)),
        (''connectedBefore'', Some (JBool (ko_connected_before o1))),
        (''connectedAfter'', map_option JBool (ko_connected_after o1)),
        (''readbackError'', map_option JStr (ko_readback_error o1)),
        (''warnings'', warnings_field (ko_warnings o1))])"

definition normalize_mac :: "string \<Rightarrow> string" where
  "normalize_mac mac = to_ascii_lowercase (trim mac)"

text \<open>This crate's copy of the address check, with the loop of the other copy.\<close>

definition is_client_address :: "string \<Rightarrow> bool" where
  "is_client_address value \<longleftrightarrow>
     length value = 17
     \<and> (case mac_loop 6 None True (split_on CHR '':'' value) of
           None \<Rightarrow> False
         | Some (first_byte, all_zero, rest) \<Rightarrow>
             rest = [] \<and> (case first_byte of Some b \<Rightarrow> even b | None \<Rightarrow> False) \<and> \<not> all_zero)"

definition client_is_connected ::
  "active_client legacy_envelope decoder \<Rightarrow> ('e, 'x) tool_runtime_scheme \<Rightarrow> string \<Rightarrow> ('e, bool) tool" where
  "client_is_connected dec rt mac =
     map_io (list_ex (\<lambda>client. map_option normalize_mac (ac_mac client) = Some mac))
       (upstream (active_clients dec (legacy rt) (legacy_site rt)))"

definition client_control_warnings :: "client_control \<Rightarrow> bool \<Rightarrow> string list" where
  "client_control_warnings action connected =
     (case action of
        Block \<Rightarrow> [''blocking denies this client network access until it is unblocked'']
      | Unblock \<Rightarrow> [''unblocking lifts a block on this client, if one is in place'']
      | Reconnect \<Rightarrow> [''reconnecting disconnects the client; most rejoin on their own within seconds''])
     @ (if \<not> connected \<and> action = Reconnect
        then [''this client is not connected, so there is nothing to disconnect''] else [])"

fun send_client_action ::
  "('e, 'x) tool_runtime_scheme \<Rightarrow> string \<Rightarrow> client_control \<Rightarrow> ('e, nat \<times> bytes) tool" where
  "send_client_action rt mac Block = upstream (block_client (dec_envelope rt) (legacy rt) (legacy_site rt) mac)"
| "send_client_action rt mac Unblock = upstream (unblock_client (dec_envelope rt) (legacy rt) (legacy_site rt) mac)"
| "send_client_action rt mac Reconnect = upstream (kick_client (dec_envelope rt) (legacy rt) (legacy_site rt) mac)"

definition client_read_back ::
  "('e, 'x) tool_runtime_scheme \<Rightarrow> (mcp_error + bool) timed \<Rightarrow> clients_control_output \<Rightarrow> clients_control_output" where
  "client_read_back rt outcome output =
     (case outcome of
        Skipped \<Rightarrow> output\<lparr>ko_readback_error := Some ''client readback skipped near request deadline''\<rparr>
      | TimedOut \<Rightarrow> output\<lparr>ko_readback_error := Some ''client readback timed out''\<rparr>
      | Finished (Inl err) \<Rightarrow> output\<lparr>ko_readback_error := Some (show_mcp_error rt err)\<rparr>
      | Finished (Inr connected) \<Rightarrow> output\<lparr>ko_connected_after := Some connected\<rparr>)"

definition clients_control_outcome ::
  "(json \<Rightarrow> string + clients_control_input) \<Rightarrow> active_client legacy_envelope decoder
     \<Rightarrow> ('e, 'x) tool_runtime_scheme \<Rightarrow> params \<Rightarrow> ('e, clients_control_output) tool" where
  "clients_control_outcome from_value dec rt ps s0 =
     bind_io (return_io (parse from_value ps)) (\<lambda>input.
       let started = instant_now rt s0; client = normalize_mac (ki_client input)
       in if \<not> is_client_address client
          then return_io (Inl (InvalidParams (''client must be the unicast MAC address of one client, such '' @
                 ''as aa:bb:cc:dd:ee:ff, as clients.search reports it; a group '' @
                 ''or broadcast address names no client'')))
          else
            bind_io (client_is_connected dec rt client) (\<lambda>connected_before.
              let output =
                    \<lparr>ko_client = client, ko_action = client_control_word (ki_action input), ko_applied = False,
                     ko_response_status = None, ko_response_body = None, ko_connected_before = connected_before,
                     ko_connected_after = None, ko_readback_error = None,
                     ko_warnings = client_control_warnings (ki_action input) connected_before\<rparr>
              in if ki_confirm input \<noteq> Some True then return_io (Inr output)
                 else
                   bind_io (send_client_action rt client (ki_action input)) (\<lambda>(status, body) s.
                     case timed_readback rt started (client_is_connected dec rt client) s of
                       (outcome, s') \<Rightarrow>
                         (Inr (client_read_back rt outcome
                            (output\<lparr>ko_applied := True, ko_response_status := Some status,
                               ko_response_body := Some (as_str (from_controller_bytes (ext_b64 (legacy rt)) body))\<rparr>)),
                          s')))) s0"

definition clients_control ::
  "(json \<Rightarrow> string + clients_control_input) \<Rightarrow> active_client legacy_envelope decoder
     \<Rightarrow> ('e, 'x) tool_runtime_scheme \<Rightarrow> params \<Rightarrow> ('e, call_result) tool" where
  "clients_control from_value dec rt ps =
     map_io (\<lambda>output. structured_with_accepted_response rt (clients_control_json output))
       (clients_control_outcome from_value dec rt ps)"

section \<open>Writes\<close>

lemma send_device_action_writes: "writes_within 1 (send_device_action rt site device port mac action)"
  by (cases action)
    (auto simp: send_device_action_def simp del: One_nat_def
      intro!: writes_within_upstream io_bounds writes_within_option)

lemma send_client_action_writes: "writes_within 1 (send_client_action rt mac action)"
  by (cases action) (simp_all add: writes_within_upstream io_bounds del: One_nat_def)

lemma client_is_connected_reads: "writes_within 0 (client_is_connected dec rt mac)"
  unfolding client_is_connected_def by (intro writes_within_map writes_within_upstream io_bounds)

lemmas action_steps =
  handler_rules client_read_steps client_write_steps writes_within_timed_tail world_reads
  client_is_connected_reads client_is_connected_reads [THEN writes_within_read_bind]
  send_device_action_writes [THEN writes_within_write_bind]
  send_client_action_writes [THEN writes_within_write_bind]

lemma devices_adopt_writes: "writes_within 1 (devices_adopt_outcome from_value rt ps)"
  by (rule writes_withinI, unfold devices_adopt_outcome_def, rule writes_withinD) (intro action_steps)

lemma devices_remove_writes: "writes_within 1 (devices_remove_outcome from_value rt ps)"
  by (rule writes_withinI, unfold devices_remove_outcome_def, rule writes_withinD) (intro action_steps)

lemma devices_control_writes: "writes_within 1 (devices_control_outcome from_value dec rt ps)"
  by (rule writes_withinI, unfold devices_control_outcome_def, rule writes_withinD) (intro action_steps)

lemma clients_control_writes: "writes_within 1 (clients_control_outcome from_value dec rt ps)"
  by (rule writes_withinI, unfold clients_control_outcome_def, rule writes_withinD) (intro action_steps)

lemmas preview_steps =
  handler_rules client_read_steps client_is_connected_reads [THEN writes_within_read_bind]

lemma devices_adopt_preview:
  assumes "parse from_value ps = Inr input" and "\<not> ai_confirm input"
  shows "writes_within 0 (devices_adopt_outcome from_value rt ps)"
  by (rule writes_withinI, unfold devices_adopt_outcome_def, rule writes_withinD)
    (intro preview_steps; use assms in simp)

lemma devices_remove_preview:
  assumes "parse from_value ps = Inr input" and "\<not> ri_confirm input"
  shows "writes_within 0 (devices_remove_outcome from_value rt ps)"
  by (rule writes_withinI, unfold devices_remove_outcome_def, rule writes_withinD)
    (intro preview_steps; use assms in simp)

lemma devices_control_preview:
  assumes "parse from_value ps = Inr input" and "ci_confirm input \<noteq> Some True"
  shows "writes_within 0 (devices_control_outcome from_value dec rt ps)"
  by (rule writes_withinI, unfold devices_control_outcome_def, rule writes_withinD)
    (intro preview_steps; use assms in simp)

lemma clients_control_preview:
  assumes "parse from_value ps = Inr input" and "ki_confirm input \<noteq> Some True"
  shows "writes_within 0 (clients_control_outcome from_value dec rt ps)"
  by (rule writes_withinI, unfold clients_control_outcome_def, rule writes_withinD)
    (intro preview_steps; use assms in simp)

end
