(* ===== verification/Tool_Firewall.thy ===== *)
theory Tool_Firewall
  imports Tool_Actions
begin

text \<open>
  The firewall policy tools of \<open>crates/unifi-mcp/src/tools.rs\<close>: changing the evaluation and
  logging flags of a policy and deleting a policy, with the zone-firewall check, the compact
  policy view, the coverage of the deletion preview and the shaping of the results. A record is
  kept as the texts the controller sent; a full write sends those texts back.
\<close>

section \<open>Reading a policy record\<close>

fun jbool :: "json \<Rightarrow> bool option" where
  "jbool (JBool b) = Some b"
| "jbool _ = None"

text \<open>\<open>str::parse::<i64>\<close> on a number text, and \<open>Value::as_i64\<close>.\<close>

definition parse_i64 :: "string \<Rightarrow> int option" where
  "parse_i64 t =
     (case t of
        c # digits \<Rightarrow>
          (if c = CHR ''-'' then map_option (\<lambda>n. - int n) (if digits = [] then None else parse_digits (2 ^ 63) 0 digits)
           else map_option int (parse_unsigned (2 ^ 63 - 1) t))
      | [] \<Rightarrow> None)"

fun ji64 :: "json \<Rightarrow> int option" where
  "ji64 (JNum t) = parse_i64 t"
| "ji64 _ = None"

definition as_i32 :: "int \<Rightarrow> int option" where
  "as_i32 n = (if - (2 ^ 31) \<le> n \<and> n < 2 ^ 31 then Some n else None)"

definition EVENT_MESSAGE_CEILING :: nat where
  "EVENT_MESSAGE_CEILING = 256"

definition ellipsis :: string where
  "ellipsis = [CHR 0xE2, CHR 0x80, CHR 0xA6]"

definition bounded_text :: "string \<Rightarrow> string" where
  "bounded_text text =
     (if length (chars text) \<le> EVENT_MESSAGE_CEILING then text
      else concat (take (EVENT_MESSAGE_CEILING - 1) (chars text)) @ ellipsis)"

definition parsed_record :: "('e, 'x) tool_runtime_scheme \<Rightarrow> raw_record \<Rightarrow> (string \<times> json) list" where
  "parsed_record rt raw =
     List.map_filter (\<lambda>(name, text). map_option (Pair name) (ok (ext_value (integration rt) text))) raw"

definition firewall_attribute_name :: "string \<Rightarrow> json \<Rightarrow> string option" where
  "firewall_attribute_name discriminator v =
     (case jstr v of Some s \<Rightarrow> Some s | None \<Rightarrow> Option.bind (jget discriminator v) jstr)"

record policy_view =
  pv_id :: string
  pv_name :: "string option"
  pv_enabled :: "bool option"
  pv_logging_enabled :: "bool option"
  pv_action :: "string option"
  pv_index :: "int option"
  pv_ip_protocol_scope :: "string option"
  pv_source_zone_id :: "string option"
  pv_source_port :: "string option"
  pv_destination_zone_id :: "string option"
  pv_destination_port :: "string option"

definition record_text :: "(string \<times> json) list \<Rightarrow> string \<Rightarrow> string option" where
  "record_text r key = Option.bind (get key r) jstr"

definition record_flag :: "(string \<times> json) list \<Rightarrow> string \<Rightarrow> bool option" where
  "record_flag r key = Option.bind (get key r) jbool"

definition record_endpoint :: "(string \<times> json) list \<Rightarrow> string \<Rightarrow> string \<Rightarrow> string option" where
  "record_endpoint r side key =
     Option.bind (Option.bind (get side r) jobj) (\<lambda>m. Option.bind (get key m) jstr)"

definition policy_view_from_record :: "string \<Rightarrow> (string \<times> json) list \<Rightarrow> policy_view" where
  "policy_view_from_record rid r =
     \<lparr>pv_id = (case record_text r ''id'' of Some i \<Rightarrow> i | None \<Rightarrow> rid), pv_name = record_text r ''name'',
      pv_enabled = record_flag r ''enabled'', pv_logging_enabled = record_flag r ''loggingEnabled'',
      pv_action = Option.bind (get ''action'' r) (firewall_attribute_name ''type''),
      pv_index = Option.bind (Option.bind (get ''index'' r) ji64) as_i32,
      pv_ip_protocol_scope = Option.bind (get ''ipProtocolScope'' r) (firewall_attribute_name ''ipVersion''),
      pv_source_zone_id = record_endpoint r ''source'' ''zoneId'',
      pv_source_port = record_endpoint r ''source'' ''port'',
      pv_destination_zone_id = record_endpoint r ''destination'' ''zoneId'',
      pv_destination_port = record_endpoint r ''destination'' ''port''\<rparr>"

definition bounded_policy_view :: "policy_view \<Rightarrow> policy_view" where
  "bounded_policy_view p =
     p\<lparr>pv_name := map_option bounded_text (pv_name p), pv_action := map_option bounded_text (pv_action p),
       pv_ip_protocol_scope := map_option bounded_text (pv_ip_protocol_scope p),
       pv_source_zone_id := map_option bounded_text (pv_source_zone_id p),
       pv_source_port := map_option bounded_text (pv_source_port p),
       pv_destination_zone_id := map_option bounded_text (pv_destination_zone_id p),
       pv_destination_port := map_option bounded_text (pv_destination_port p)\<rparr>"

definition jint :: "int \<Rightarrow> json" where
  "jint n = JNum (if n < 0 then CHR ''-'' # show_nat (nat (- n)) else show_nat (nat n))"

definition policy_view_json :: "policy_view \<Rightarrow> json" where
  "policy_view_json p =
     JObj (set_fields
       [(''id'', Some (JStr (pv_id p))), (''name'', Some (nullable JStr (pv_name p))),
        (''enabled'', Some (nullable JBool (pv_enabled p))),
        (''loggingEnabled'', map_option JBool (pv_logging_enabled p)),
        (''action'', Some (nullable JStr (pv_action p))), (''index'', map_option jint (pv_index p)),
        (''ipProtocolScope'', map_option JStr (pv_ip_protocol_scope p)),
        (''sourceZoneId'', map_option JStr (pv_source_zone_id p)),
        (''sourcePort'', map_option JStr (pv_source_port p)),
        (''destinationZoneId'', map_option JStr (pv_destination_zone_id p)),
        (''destinationPort'', map_option JStr (pv_destination_port p))])"

section \<open>Coverage of the deletion preview\<close>

record policy_preview_coverage =
  cv_details :: "(string \<times> json) list"
  cv_complete :: bool
  cv_omitted_fields :: "string list"
  cv_omitted_fields_truncated :: bool

definition DETAIL_FIELDS :: "string list" where
  "DETAIL_FIELDS =
     [''source'', ''destination'', ''ipProtocolScope'', ''connectionStateFilter'', ''ipsecFilter'',
      ''schedule'', ''loggingEnabled'', ''description'', ''metadata'']"

definition SUMMARY_FIELDS :: "string list" where
  "SUMMARY_FIELDS = [''id'', ''name'', ''enabled'', ''action'', ''index'']"

definition FIELD_LIMIT :: nat where
  "FIELD_LIMIT = 16"

definition DETAIL_BUDGET :: nat where
  "DETAIL_BUDGET = 16 * 1024"

text \<open>The first loop: details within the budget, in the order of the list.\<close>

fun cover_details ::
  "(json \<Rightarrow> string) \<Rightarrow> (string \<times> json) list \<Rightarrow> string list \<Rightarrow> (string \<times> json) list \<times> nat \<times> string list
     \<Rightarrow> (string \<times> json) list \<times> nat \<times> string list" where
  "cover_details show_value r [] acc = acc"
| "cover_details show_value r (name # names) (details, used, omitted) =
     (case get name r of
        None \<Rightarrow> cover_details show_value r names (details, used, omitted)
      | Some v \<Rightarrow>
          (let bytes = length name + length (show_value v)
           in if used + bytes \<le> DETAIL_BUDGET
              then cover_details show_value r names (map_insert name v details, used + bytes, omitted)
              else cover_details show_value r names (details, used, omitted @ [name])))"

definition add_omitted :: "string \<Rightarrow> string list \<times> bool \<Rightarrow> string list \<times> bool" where
  "add_omitted name = (\<lambda>(fields_seen, truncated).
     if length fields_seen < FIELD_LIMIT then (fields_seen @ [bounded_text name], truncated)
     else (fields_seen, True))"

text \<open>The condition under which the second loop reports a property.\<close>

definition summary_omits :: "string \<Rightarrow> json \<Rightarrow> bool" where
  "summary_omits name v \<longleftrightarrow>
     (name \<in> {''name'', ''action''}
        \<and> (case jstr v of Some t \<Rightarrow> length (chars t) > EVENT_MESSAGE_CEILING | None \<Rightarrow> False))
     \<or> name \<notin> set SUMMARY_FIELDS
     \<or> (\<not> jnull v
        \<and> (if name = ''enabled'' then jbool v = None
           else if name = ''index'' then Option.bind (ji64 v) as_i32 = None
           else jstr v = None))"

definition policy_preview_coverage_of ::
  "(json \<Rightarrow> string) \<Rightarrow> (string \<times> json) list \<Rightarrow> policy_preview_coverage" where
  "policy_preview_coverage_of show_value r =
     (case cover_details show_value r DETAIL_FIELDS ([], 0, []) of
        (details, _, omitted_details) \<Rightarrow>
          (let names = omitted_details
                 @ map fst (filter (\<lambda>(name, v). name \<notin> set DETAIL_FIELDS \<and> summary_omits name v) r)
           in case fold add_omitted names ([], False) of
                (omitted_fields, truncated) \<Rightarrow>
                  \<lparr>cv_details = details, cv_complete = (omitted_fields = [] \<and> \<not> truncated),
                   cv_omitted_fields = omitted_fields, cv_omitted_fields_truncated = truncated\<rparr>))"

definition coverage_json :: "policy_preview_coverage \<Rightarrow> json" where
  "coverage_json c =
     JObj (set_fields
       [(''details'', Some (JObj (cv_details c))), (''complete'', Some (JBool (cv_complete c))),
        (''omittedFields'', Some (JArr (map JStr (cv_omitted_fields c)))),
        (''omittedFieldsTruncated'', Some (JBool (cv_omitted_fields_truncated c)))])"

section \<open>Changing the flags of a policy\<close>

record firewall_policy_changes =
  lc_enabled :: "bool option"
  lc_logging_enabled :: "bool option"

record firewall_policies_update_input =
  lu_policy :: string
  lu_changes :: firewall_policy_changes
  lu_confirm :: "bool option"

record firewall_policies_update_output =
  uo_policy :: policy_view
  uo_before_response :: "string option"
  uo_before_response_in_content :: "bool option"
  uo_response_status :: "nat option"
  uo_response_body :: "string option"
  uo_response_body_in_content :: "bool option"
  uo_after_response :: "string option"
  uo_after_response_in_content :: "bool option"
  uo_applied :: bool
  uo_changes :: "planned_change list option"
  uo_fields :: "field_outcome list option"
  uo_unexpected_changes :: "string list option"
  uo_verified :: "bool option"
  uo_readback_error :: "string option"
  uo_readback_error_in_content :: "bool option"
  uo_warnings :: "string list"

definition firewall_update_json :: "firewall_policies_update_output \<Rightarrow> json" where
  "firewall_update_json o1 =
     JObj (set_fields
       [(''policy'', Some (policy_view_json (uo_policy o1))),
        (''beforeResponse'', map_option JStr (uo_before_response o1)),
        (''beforeResponseInContent'', map_option JBool (uo_before_response_in_content o1)),
        (''responseStatus'', map_option jnat (uo_response_status o1)),
        (''responseBody'', map_option JStr (uo_response_body o1)),
        (''responseBodyInContent'', map_option JBool (uo_response_body_in_content o1)),
        (''afterResponse'', map_option JStr (uo_after_response o1)),
        (''afterResponseInContent'', map_option JBool (uo_after_response_in_content o1)),
        (''applied'', Some (JBool (uo_applied o1))),
        (''changes'', map_option (\<lambda>cs. JArr (map planned_change_json cs)) (uo_changes o1)),
        (''fields'', map_option (\<lambda>cs. JArr (map field_outcome_json cs)) (uo_fields o1)),
        (''unexpectedChanges'', map_option (\<lambda>cs. JArr (map JStr cs)) (uo_unexpected_changes o1)),
        (''verified'', map_option JBool (uo_verified o1)),
        (''readbackError'', map_option JStr (uo_readback_error o1)),
        (''readbackErrorInContent'', map_option JBool (uo_readback_error_in_content o1)),
        (''warnings'', warnings_field (uo_warnings o1))])"

definition firewall_update_steps ::
  "(string \<times> (firewall_policies_update_output \<Rightarrow> (string \<times> firewall_policies_update_output) option)) list" where
  "firewall_update_steps =
     [(''beforeResponse'', take_text uo_before_response id
         (\<lambda>o1. o1\<lparr>uo_before_response := None, uo_before_response_in_content := Some True\<rparr>)),
      (''responseBody'', take_text uo_response_body id
         (\<lambda>o1. o1\<lparr>uo_response_body := None, uo_response_body_in_content := Some True\<rparr>)),
      (''afterResponse'', take_text uo_after_response id
         (\<lambda>o1. o1\<lparr>uo_after_response := None, uo_after_response_in_content := Some True\<rparr>)),
      (''readbackError'', take_text uo_readback_error id
         (\<lambda>o1. o1\<lparr>uo_readback_error := None, uo_readback_error_in_content := Some True\<rparr>))]"

definition firewall_update_result ::
  "('e, 'x) tool_runtime_scheme \<Rightarrow> firewall_policies_update_output \<Rightarrow> call_result" where
  "firewall_update_result rt output = spilled_result rt firewall_update_json firewall_update_steps output"

interpretation firewall_update: spill_steps firewall_update_steps
  by unfold_locales (auto simp: firewall_update_steps_def)

definition FIREWALL_POLICY_CHANGE_FIELDS :: "string list" where
  "FIREWALL_POLICY_CHANGE_FIELDS = [''enabled'', ''loggingEnabled'']"

definition POLICY_WIRE_NAMES :: "(string \<times> string) list" where
  "POLICY_WIRE_NAMES = [(''enabled'', ''enabled''), (''loggingEnabled'', ''loggingEnabled'')]"

definition requested_flags :: "firewall_policy_changes \<Rightarrow> (string \<times> json) list" where
  "requested_flags c =
     set_fields [(''enabled'', map_option JBool (lc_enabled c)),
                 (''loggingEnabled'', map_option JBool (lc_logging_enabled c))]"

definition policy_projection :: "(string \<times> json) list \<Rightarrow> json" where
  "policy_projection r =
     JObj (set_fields
       [(''enabled'', Some (nullable JBool (record_flag r ''enabled''))),
        (''loggingEnabled'', Some (nullable JBool (record_flag r ''loggingEnabled'')))])"

definition action_warning :: "string option \<Rightarrow> bool \<Rightarrow> string" where
  "action_warning action wanted =
     (case action of
        Some a \<Rightarrow>
          (if a \<in> {''block'', ''reject'', ''drop''}
           then (if wanted
                 then ''this policy blocks traffic; enabling it blocks whatever reaches it and '' @
                      ''matches, unless an earlier policy allows that traffic first''
                 else ''this policy blocks traffic; disabling it stops this policy from blocking, '' @
                      ''and whether that traffic is then allowed depends on the policies after it'')
           else if a \<in> {''allow'', ''accept''}
           then (if wanted
                 then ''this policy allows traffic; enabling it allows whatever reaches it and '' @
                      ''matches, unless an earlier policy blocks that traffic first''
                 else ''this policy allows traffic; disabling it withdraws this policy'' @ [CHR 0x27] @ ''s allowance, '' @
                      ''and the policies after it decide'')
           else ''the controller reports no action this server recognizes for this policy, '' @
                ''so whether the change permits or blocks traffic could not be stated'')
      | None \<Rightarrow> ''the controller reports no action this server recognizes for this policy, '' @
                ''so whether the change permits or blocks traffic could not be stated'')"

definition firewall_policy_warnings :: "bool \<Rightarrow> (string \<times> json) list \<Rightarrow> string list" where
  "firewall_policy_warnings wanted r =
     (if record_flag r ''enabled'' = Some wanted then []
      else
        [action_warning (map_option to_ascii_lowercase
           (Option.bind (get ''action'' r) (firewall_attribute_name ''type''))) wanted,
         ''this change resends the whole policy as it was just read, so an edit made '' @
         ''elsewhere between that read and this write is overwritten''])"

text \<open>The derived page decoders the check needs are parameters of the detection.\<close>

definition require_zone_based_firewall ::
  "string decoder \<Rightarrow> 'z page decoder \<Rightarrow> ('e, 'x) tool_runtime_scheme \<Rightarrow> ('e, unit) tool" where
  "require_zone_based_firewall idec zdec rt =
     bind_io (resolve_site rt) (\<lambda>site.
     bind_io (upstream (detect idec zdec (integration rt) site)) (\<lambda>caps.
       return_io (case firewall_rejection caps of
          Some refused \<Rightarrow> Inl (mcp_api_error refused)
        | None \<Rightarrow> Inr ())))"

definition different_policy :: "string \<Rightarrow> bounded_message \<Rightarrow> api_error" where
  "different_policy diagnostic response = DecodeResponse response (bounded_new diagnostic)"

text \<open>
  A policy read for a change: the texts, the digest, the response and the parsed properties, only
  if the record is the one asked for.
\<close>

definition policy_snapshot ::
  "raw_record decoder \<Rightarrow> ('e, 'x) tool_runtime_scheme \<Rightarrow> string \<Rightarrow> string
     \<Rightarrow> ('e, raw_record \<times> record_fingerprint \<times> bounded_message) tool" where
  "policy_snapshot dec rt site rid =
     bind_io (upstream (firewall_policy_snapshot_with_response dec (integration rt) site rid))
       (\<lambda>(raw, digest, response).
          return_io
            (if record_text (parsed_record rt raw) ''id'' \<noteq> Some rid
             then Inl (mcp_api_error (different_policy ''controller returned a different firewall policy'' response))
             else Inr (raw, digest, response)))"

definition holds_all :: "(string \<times> json) list \<Rightarrow> (string \<times> json) list \<Rightarrow> bool" where
  "holds_all requested r \<longleftrightarrow> list_all (\<lambda>(f, v). get f r = Some v) requested"

definition enabled_change :: "firewall_policy_changes \<Rightarrow> (string \<times> json) list \<Rightarrow> bool" where
  "enabled_change c r \<longleftrightarrow>
     (case lc_enabled c of None \<Rightarrow> False | Some wanted \<Rightarrow> record_flag r ''enabled'' \<noteq> Some wanted)"

text \<open>\<open>RawValue::from_string(value.to_string())\<close> of a flag, inserted over the texts read.\<close>

fun flag_text :: "json \<Rightarrow> string" where
  "flag_text (JBool True) = ''true''"
| "flag_text (JBool False) = ''false''"
| "flag_text _ = []"

definition overlay :: "(string \<times> json) list \<Rightarrow> raw_record \<Rightarrow> raw_record" where
  "overlay requested raw = fold (\<lambda>(f, v) m. map_insert f (flag_text v) m) requested raw"

text \<open>
  The write: the whole record with the flags replaced, or the logging flag alone. The last case
  is the \<open>expect\<close> of the source; \<open>logging_change_present\<close> below shows it is never reached.
\<close>

definition write_policy ::
  "(string \<Rightarrow> json) \<Rightarrow> ('e, 'x) tool_runtime_scheme \<Rightarrow> string \<Rightarrow> string \<Rightarrow> firewall_policy_changes
     \<Rightarrow> (string \<times> json) list \<Rightarrow> raw_record \<Rightarrow> ('e, nat \<times> bytes) tool" where
  "write_policy raw_value rt site rid c r raw =
     (if enabled_change c r
      then upstream (replace_firewall_policy raw_value (integration rt) site rid (overlay (requested_flags c) raw))
      else (case lc_logging_enabled c of
              Some flag \<Rightarrow> upstream (patch_firewall_policy_logging (integration rt) site rid flag)
            | None \<Rightarrow> return_io (Inl (InternalError ''panicked: validated logging change''))))"

definition update_read_back ::
  "('e, 'x) tool_runtime_scheme \<Rightarrow> string \<Rightarrow> (string \<times> json) list \<Rightarrow> json \<Rightarrow> record_fingerprint
     \<Rightarrow> (api_error + raw_record \<times> record_fingerprint \<times> bounded_message) timed
     \<Rightarrow> firewall_policies_update_output \<Rightarrow> firewall_policies_update_output" where
  "update_read_back rt rid requested before before_digest outcome output =
     (case outcome of
        Skipped \<Rightarrow> output\<lparr>uo_readback_error := Some ''policy readback skipped near request deadline''\<rparr>
      | TimedOut \<Rightarrow> output\<lparr>uo_readback_error := Some ''policy readback timed out''\<rparr>
      | Finished (Inl err) \<Rightarrow> output\<lparr>uo_readback_error := Some (render err)\<rparr>
      | Finished (Inr (after_raw, after_digest, after_response)) \<Rightarrow>
          (let after_record = parsed_record rt after_raw
           in if record_text after_record ''id'' \<noteq> Some rid
              then output\<lparr>uo_after_response := Some (as_str after_response),
                     uo_readback_error := Some (render
                       (different_policy ''controller policy readback returned a different id'' after_response))\<rparr>
              else
                (let outcomes = verify_fields requested before (policy_projection after_record);
                     unexpected = unrequested_changes before_digest after_digest requested POLICY_WIRE_NAMES
                 in output\<lparr>uo_policy := bounded_policy_view (policy_view_from_record rid after_record),
                      uo_after_response := Some (as_str after_response), uo_fields := Some outcomes,
                      uo_unexpected_changes := Some unexpected,
                      uo_verified := Some (unexpected = [] \<and> all_persisted outcomes)\<rparr>)))"

definition firewall_policies_update_outcome ::
  "(json \<Rightarrow> string + firewall_policies_update_input) \<Rightarrow> string decoder \<Rightarrow> 'z page decoder \<Rightarrow> raw_record decoder
     \<Rightarrow> (string \<Rightarrow> json) \<Rightarrow> ('e, 'x) tool_runtime_scheme \<Rightarrow> params
     \<Rightarrow> ('e, firewall_policies_update_output) tool" where
  "firewall_policies_update_outcome from_value idec zdec rdec raw_value rt ps s0 =
     bind_io (return_io (reject_unknown_change_fields ps FIREWALL_POLICY_CHANGE_FIELDS)) (\<lambda>_.
     bind_io (return_io (parse from_value ps)) (\<lambda>input.
       let started = instant_now rt s0;
           requested = requested_flags (lu_changes input)
       in if requested = [] then return_io (Inl no_field_error)
          else
            bind_io (require_zone_based_firewall idec zdec rt) (\<lambda>_.
            bind_io (resolve_site rt) (\<lambda>site.
            bind_io (policy_snapshot rdec rt site (lu_policy input)) (\<lambda>(raw, before_digest, before_response).
              let r = parsed_record rt raw;
                  before = policy_projection r;
                  output =
                    \<lparr>uo_policy = bounded_policy_view (policy_view_from_record (lu_policy input) r),
                     uo_before_response = Some (as_str before_response), uo_before_response_in_content = None,
                     uo_response_status = None, uo_response_body = None, uo_response_body_in_content = None,
                     uo_after_response = None, uo_after_response_in_content = None, uo_applied = False,
                     uo_changes = None, uo_fields = None, uo_unexpected_changes = None, uo_verified = None,
                     uo_readback_error = None, uo_readback_error_in_content = None,
                     uo_warnings = (case lc_enabled (lu_changes input) of
                                      None \<Rightarrow> [] | Some wanted \<Rightarrow> firewall_policy_warnings wanted r)\<rparr>
              in if lu_confirm input \<noteq> Some True
                 then return_io (Inr (output\<lparr>uo_changes := Some (plan requested before)\<rparr>))
                 else if holds_all requested r
                 then return_io (Inr (output\<lparr>uo_changes := Some [],
                        uo_warnings := [''the policy already holds that value, so nothing was sent'']\<rparr>))
                 else
                   bind_io (write_policy raw_value rt site (lu_policy input) (lu_changes input) r raw)
                     (\<lambda>(status, body) s.
                        case timed_readback rt started (on_world
                               (firewall_policy_snapshot_with_response rdec (integration rt) site (lu_policy input))) s of
                          (outcome, s') \<Rightarrow>
                            (Inr (update_read_back rt (lu_policy input) requested before before_digest outcome
                               (output\<lparr>uo_applied := True, uo_response_status := Some status,
                                  uo_response_body := Some (as_str (from_controller_bytes (ext_b64 (integration rt)) body))\<rparr>)),
                             s'))))))) s0"

definition firewall_policies_update ::
  "(json \<Rightarrow> string + firewall_policies_update_input) \<Rightarrow> string decoder \<Rightarrow> 'z page decoder \<Rightarrow> raw_record decoder
     \<Rightarrow> (string \<Rightarrow> json) \<Rightarrow> ('e, 'x) tool_runtime_scheme \<Rightarrow> params \<Rightarrow> ('e, call_result) tool" where
  "firewall_policies_update from_value idec zdec rdec raw_value rt ps =
     map_io (firewall_update_result rt)
       (firewall_policies_update_outcome from_value idec zdec rdec raw_value rt ps)"

section \<open>Deleting a policy\<close>

record firewall_policies_delete_input =
  li_policy :: string
  li_confirm :: bool

record firewall_policies_delete_output =
  lo_policy :: policy_view
  lo_preview :: policy_preview_coverage
  lo_before_response :: "string option"
  lo_before_response_in_content :: "bool option"
  lo_response_status :: "nat option"
  lo_response_body :: "string option"
  lo_response_body_in_content :: "bool option"
  lo_applied :: bool
  lo_verified_absent :: "bool option"
  lo_readback_error :: "string option"
  lo_readback_error_in_content :: "bool option"
  lo_warnings :: "string list"

definition firewall_delete_json :: "firewall_policies_delete_output \<Rightarrow> json" where
  "firewall_delete_json o1 =
     JObj (set_fields
       [(''policy'', Some (policy_view_json (lo_policy o1))), (''preview'', Some (coverage_json (lo_preview o1))),
        (''beforeResponse'', map_option JStr (lo_before_response o1)),
        (''beforeResponseInContent'', map_option JBool (lo_before_response_in_content o1)),
        (''responseStatus'', map_option jnat (lo_response_status o1)),
        (''responseBody'', map_option JStr (lo_response_body o1)),
        (''responseBodyInContent'', map_option JBool (lo_response_body_in_content o1)),
        (''applied'', Some (JBool (lo_applied o1))),
        (''verifiedAbsent'', map_option JBool (lo_verified_absent o1)),
        (''readbackError'', map_option JStr (lo_readback_error o1)),
        (''readbackErrorInContent'', map_option JBool (lo_readback_error_in_content o1)),
        (''warnings'', warnings_field (lo_warnings o1))])"

definition firewall_delete_steps ::
  "(string \<times> (firewall_policies_delete_output \<Rightarrow> (string \<times> firewall_policies_delete_output) option)) list" where
  "firewall_delete_steps =
     [(''beforeResponse'', take_text lo_before_response id
         (\<lambda>o1. o1\<lparr>lo_before_response := None, lo_before_response_in_content := Some True\<rparr>)),
      (''responseBody'', take_text lo_response_body id
         (\<lambda>o1. o1\<lparr>lo_response_body := None, lo_response_body_in_content := Some True\<rparr>)),
      (''readbackError'', take_text lo_readback_error id
         (\<lambda>o1. o1\<lparr>lo_readback_error := None, lo_readback_error_in_content := Some True\<rparr>))]"

definition firewall_delete_result ::
  "('e, 'x) tool_runtime_scheme \<Rightarrow> firewall_policies_delete_output \<Rightarrow> call_result" where
  "firewall_delete_result rt output = spilled_result rt firewall_delete_json firewall_delete_steps output"

interpretation firewall_delete: spill_steps firewall_delete_steps
  by unfold_locales (auto simp: firewall_delete_steps_def)

text \<open>
  The verdict on the read-back: \<open>verified_absent\<close>, the error kept as text, and the warning of the
  two cases in which nothing was read.
\<close>

definition delete_verdict ::
  "('e, 'x) tool_runtime_scheme \<Rightarrow> string
     \<Rightarrow> (api_error + raw_record \<times> record_fingerprint \<times> bounded_message) timed
     \<Rightarrow> bool option \<times> api_error option \<times> string list" where
  "delete_verdict rt rid outcome =
     (case outcome of
        Finished (Inl err) \<Rightarrow> (if is_not_found err then Some True else None, Some err, [])
      | Finished (Inr (raw, _, response)) \<Rightarrow>
          (let same = (record_text (parsed_record rt raw) ''id'' = Some rid)
           in (if same then Some False else None,
               Some (different_policy
                 (if same then ''controller acknowledged deletion but the policy still exists''
                  else ''controller policy readback returned a different id'') response), []))
      | TimedOut \<Rightarrow> (None, None, [''policy readback timed out''])
      | Skipped \<Rightarrow> (None, None, [''policy readback skipped because the request deadline was near'']))"

definition delete_read_back ::
  "('e, 'x) tool_runtime_scheme \<Rightarrow> string
     \<Rightarrow> (api_error + raw_record \<times> record_fingerprint \<times> bounded_message) timed
     \<Rightarrow> firewall_policies_delete_output \<Rightarrow> firewall_policies_delete_output" where
  "delete_read_back rt rid outcome output =
     (case delete_verdict rt rid outcome of
        (absent, upstream_error, warnings) \<Rightarrow>
          output\<lparr>lo_verified_absent := absent,
            lo_readback_error := (case upstream_error of None \<Rightarrow> lo_readback_error output | Some err \<Rightarrow> Some (render err)),
            lo_warnings := lo_warnings output @ warnings
              @ (if absent \<noteq> Some True \<and> upstream_error = None
                 then [''the delete request was accepted, but policy absence was not verified''] else [])\<rparr>)"

text \<open>The confirmed part of the handler: the deletion, and what is read after it.\<close>

definition delete_confirmed ::
  "raw_record decoder \<Rightarrow> ('e, 'x) tool_runtime_scheme \<Rightarrow> instant \<Rightarrow> string \<Rightarrow> string
     \<Rightarrow> firewall_policies_delete_output \<Rightarrow> ('e, firewall_policies_delete_output) tool" where
  "delete_confirmed rdec rt started site rid output =
     bind_io (upstream (delete_firewall_policy (integration rt) site rid)) (\<lambda>(status, body) s.
       case timed_readback rt started (on_world
              (firewall_policy_snapshot_with_response rdec (integration rt) site rid)) s of
         (outcome, s') \<Rightarrow>
           (Inr (delete_read_back rt rid outcome
              (output\<lparr>lo_applied := True, lo_response_status := Some status,
                 lo_response_body := Some (as_str (from_controller_bytes (ext_b64 (integration rt)) body))\<rparr>)),
            s'))"

definition firewall_policies_delete_outcome ::
  "(json \<Rightarrow> string + firewall_policies_delete_input) \<Rightarrow> string decoder \<Rightarrow> 'z page decoder \<Rightarrow> raw_record decoder
     \<Rightarrow> ('e, 'x) tool_runtime_scheme \<Rightarrow> params \<Rightarrow> ('e, firewall_policies_delete_output) tool" where
  "firewall_policies_delete_outcome from_value idec zdec rdec rt ps s0 =
     bind_io (return_io (parse from_value ps)) (\<lambda>input.
       let started = instant_now rt s0
       in if blank (li_policy input) \<or> length (li_policy input) > 256 \<or> li_policy input \<in> {''.'', ''..''}
          then return_io (Inl (InvalidParams ''policy must be a nonempty, non-dot id of at most 256 bytes''))
          else
            bind_io (require_zone_based_firewall idec zdec rt) (\<lambda>_.
            bind_io (resolve_site rt) (\<lambda>site.
            bind_io (policy_snapshot rdec rt site (li_policy input)) (\<lambda>(raw, _, response).
              let r = parsed_record rt raw;
                  preview = policy_preview_coverage_of (show_json rt) r;
                  output =
                    \<lparr>lo_policy = bounded_policy_view (policy_view_from_record (li_policy input) r),
                     lo_preview = preview, lo_before_response = Some (as_str response),
                     lo_before_response_in_content = None, lo_response_status = None, lo_response_body = None,
                     lo_response_body_in_content = None, lo_applied = False, lo_verified_absent = None,
                     lo_readback_error = None, lo_readback_error_in_content = None,
                     lo_warnings =
                       [''deleting this policy changes how later firewall policies handle matching traffic'']
                       @ (if cv_complete preview then []
                          else [''the compact match description omits fields; '' @
                            ''inspect beforeResponse for the complete controller record''])\<rparr>
              in if \<not> li_confirm input then return_io (Inr output)
                 else
                   delete_confirmed rdec rt started site (li_policy input) output)))) s0"

definition firewall_policies_delete ::
  "(json \<Rightarrow> string + firewall_policies_delete_input) \<Rightarrow> string decoder \<Rightarrow> 'z page decoder \<Rightarrow> raw_record decoder
     \<Rightarrow> ('e, 'x) tool_runtime_scheme \<Rightarrow> params \<Rightarrow> ('e, call_result) tool" where
  "firewall_policies_delete from_value idec zdec rdec rt ps =
     map_io (firewall_delete_result rt) (firewall_policies_delete_outcome from_value idec zdec rdec rt ps)"

section \<open>Writes\<close>

lemma detect_extends: "extends 0 w (snd (detect idec zdec ic site w))"
proof -
  obtain r w1 where i: "info idec ic w = (r, w1)" by (metis surj_pair)
  with integration_reads_extend(1) [of w idec ic] have 1: "extends 0 w w1" by simp
  obtain z w2 where f: "firewall_zones zdec ic site \<lparr>req_offset = 0, req_limit = 1\<rparr> w1 = (z, w2)"
    by (metis surj_pair)
  with integration_reads_extend(3) [of w1 zdec ic site "\<lparr>req_offset = 0, req_limit = 1\<rparr>"]
  have "extends 0 w w2" using extends_trans [OF 1, of 0 w2] by simp
  with 1 i f show ?thesis by (cases r; cases z) (simp_all add: detect_def bind_io_def)
qed

lemma require_zone_reads: "writes_within 0 (require_zone_based_firewall idec zdec rt)"
  unfolding require_zone_based_firewall_def
  by (intro writes_within_read_bind resolve_site_reads writes_within_upstream detect_extends writes_within_return_any)

lemma policy_snapshot_reads: "writes_within 0 (policy_snapshot dec rt site rid)"
  unfolding policy_snapshot_def by (intro client_read_steps handler_rules)

lemma write_policy_writes: "writes_within 1 (write_policy raw_value rt site rid c r raw)"
  unfolding write_policy_def
  by (intro handler_rules writes_within_upstream io_bounds)

lemmas firewall_steps =
  handler_rules writes_within_timed_tail world_reads resolve_site_reads [THEN writes_within_read_bind]
  require_zone_reads [THEN writes_within_read_bind] policy_snapshot_reads [THEN writes_within_read_bind]

lemma firewall_update_writes:
  "writes_within 1 (firewall_policies_update_outcome from_value idec zdec rdec raw_value rt ps)"
  by (rule writes_withinI, unfold firewall_policies_update_outcome_def, rule writes_withinD)
    (intro firewall_steps write_policy_writes [THEN writes_within_write_bind])

lemma delete_confirmed_writes: "writes_within 1 (delete_confirmed rdec rt started site rid output)"
  unfolding delete_confirmed_def
  by (intro handler_rules client_write_steps writes_within_timed_tail world_reads)

lemma firewall_delete_writes:
  "writes_within 1 (firewall_policies_delete_outcome from_value idec zdec rdec rt ps)"
  by (rule writes_withinI, unfold firewall_policies_delete_outcome_def, rule writes_withinD)
    (intro firewall_steps delete_confirmed_writes)

lemma firewall_update_preview:
  assumes "parse from_value ps = Inr input" and "lu_confirm input \<noteq> Some True"
  shows "writes_within 0 (firewall_policies_update_outcome from_value idec zdec rdec raw_value rt ps)"
  by (rule writes_withinI, unfold firewall_policies_update_outcome_def, rule writes_withinD)
    (intro firewall_steps; use assms in simp)

lemma firewall_delete_preview:
  assumes "parse from_value ps = Inr input" and "\<not> li_confirm input"
  shows "writes_within 0 (firewall_policies_delete_outcome from_value idec zdec rdec rt ps)"
  by (rule writes_withinI, unfold firewall_policies_delete_outcome_def, rule writes_withinD)
    (intro firewall_steps; use assms in simp)

section \<open>What is sent\<close>

lemma get_requested_flags:
  "get k (requested_flags c) =
     (if k = ''enabled'' then map_option JBool (lc_enabled c)
      else if k = ''loggingEnabled'' then map_option JBool (lc_logging_enabled c) else None)"
  unfolding requested_flags_def by (subst get_set_fields) simp_all

lemma requested_flags_Nil: "requested_flags c = [] \<longleftrightarrow> lc_enabled c = None \<and> lc_logging_enabled c = None"
proof -
  have "requested_flags c = []" if "lc_enabled c = None" "lc_logging_enabled c = None"
    using that by (simp add: requested_flags_def set_fields_def)
  moreover have "lc_enabled c = None" "lc_logging_enabled c = None" if "requested_flags c = []"
    using that get_requested_flags [of "''enabled''" c] get_requested_flags [of "''loggingEnabled''" c] by simp_all
  ultimately show ?thesis by blast
qed

lemma ordered_requested_flags: "ordered_map (requested_flags c)"
  unfolding requested_flags_def by (rule ordered_set_fields)

lemma holds_all_flags:
  "holds_all (requested_flags c) r \<longleftrightarrow>
     (case lc_enabled c of None \<Rightarrow> True | Some b \<Rightarrow> record_flag r ''enabled'' = Some b)
     \<and> (case lc_logging_enabled c of None \<Rightarrow> True | Some b \<Rightarrow> record_flag r ''loggingEnabled'' = Some b)"
proof -
  have flag: "get k r = Some (JBool b) \<longleftrightarrow> record_flag r k = Some b" for k b
  proof (cases "get k r")
    case (Some v)
    then show ?thesis by (cases v) (auto simp: record_flag_def)
  next
    case None
    then show ?thesis unfolding record_flag_def None by simp
  qed
  have "holds_all (requested_flags c) r \<longleftrightarrow> (\<forall>k v. get k (requested_flags c) = Some v \<longrightarrow> get k r = Some v)"
    unfolding holds_all_def list_all_iff get_eq_Some_iff [OF ordered_map_distinct [OF ordered_requested_flags]]
    by blast
  also have "\<dots> \<longleftrightarrow> (\<forall>b. lc_enabled c = Some b \<longrightarrow> get ''enabled'' r = Some (JBool b))
      \<and> (\<forall>b. lc_logging_enabled c = Some b \<longrightarrow> get ''loggingEnabled'' r = Some (JBool b))"
    unfolding get_requested_flags by force
  finally show ?thesis by (simp add: flag split: option.split)
qed

text \<open>The \<open>expect\<close> of the logging write cannot fail.\<close>

lemma logging_change_present:
  assumes "requested_flags c \<noteq> []" and "\<not> holds_all (requested_flags c) r" and "\<not> enabled_change c r"
  shows "lc_logging_enabled c \<noteq> None"
  using assms by (auto simp: requested_flags_Nil holds_all_flags enabled_change_def split: option.splits)

lemma ordered_overlay: "ordered_map raw \<Longrightarrow> ordered_map (overlay requested raw)"
  unfolding overlay_def by (induction requested arbitrary: raw) (auto intro: ordered_map_insert)

lemma get_overlay:
  assumes "ordered_map raw" and "distinct (map fst requested)"
  shows "get k (overlay requested raw) =
           (case get k requested of Some v \<Rightarrow> Some (flag_text v) | None \<Rightarrow> get k raw)"
  using assms
proof (induction requested arbitrary: raw)
  case (Cons fv requested)
  obtain f v where fv: "fv = (f, v)" by (cases fv)
  have "get k (overlay requested (map_insert f (flag_text v) raw)) =
      (case get k requested of Some v \<Rightarrow> Some (flag_text v) | None \<Rightarrow> get k (map_insert f (flag_text v) raw))"
    using Cons.prems by (intro Cons.IH) (auto intro: ordered_map_insert)
  moreover have "get f requested = None" using Cons.prems(2) fv by (intro get_notin) simp
  moreover have "overlay (fv # requested) raw = overlay requested (map_insert f (flag_text v) raw)"
    by (simp add: overlay_def fv)
  ultimately show ?case
    unfolding get_map_insert [OF Cons.prems(1)] fv get_simps by (cases "k = f") simp_all
qed (simp add: overlay_def)

text \<open>
  The two ways a policy is written. A change of the evaluation flag sends the record back
  with the requested flags replaced and the text of every other property exactly as the
  controller sent it; otherwise only the logging flag is sent. The write that the source guards
  by an \<open>expect\<close> always has its flag.
\<close>

theorem policy_write_keeps_texts:
  assumes "ordered_map raw" and "requested_flags c \<noteq> []" and "\<not> holds_all (requested_flags c) r"
  shows "(enabled_change c r \<longrightarrow>
            (\<exists>sent. write_policy raw_value rt site rid c r raw =
                 upstream (replace_firewall_policy raw_value (integration rt) site rid sent)
               \<and> ordered_map sent
               \<and> (\<forall>k. get k sent = (case get k (requested_flags c) of
                                     Some v \<Rightarrow> Some (flag_text v) | None \<Rightarrow> get k raw))))
         \<and> (\<not> enabled_change c r \<longrightarrow>
            (\<exists>flag. lc_logging_enabled c = Some flag
               \<and> record_flag r ''loggingEnabled'' \<noteq> Some flag
               \<and> write_policy raw_value rt site rid c r raw =
                   upstream (patch_firewall_policy_logging (integration rt) site rid flag)))"
proof (intro conjI impI)
  assume e: "enabled_change c r"
  then show "\<exists>sent. write_policy raw_value rt site rid c r raw =
                 upstream (replace_firewall_policy raw_value (integration rt) site rid sent)
               \<and> ordered_map sent
               \<and> (\<forall>k. get k sent = (case get k (requested_flags c) of
                                     Some v \<Rightarrow> Some (flag_text v) | None \<Rightarrow> get k raw))"
    using ordered_overlay [OF assms(1)]
      get_overlay [OF assms(1) ordered_map_distinct [OF ordered_requested_flags]]
    by (intro exI [of _ "overlay (requested_flags c) raw"]) (simp add: write_policy_def)
next
  assume e: "\<not> enabled_change c r"
  with logging_change_present [OF assms(2,3)] obtain flag where l: "lc_logging_enabled c = Some flag" by blast
  with e assms(3) have "record_flag r ''loggingEnabled'' \<noteq> Some flag"
    by (auto simp: holds_all_flags enabled_change_def split: option.splits)
  with l e show "\<exists>flag. lc_logging_enabled c = Some flag \<and> record_flag r ''loggingEnabled'' \<noteq> Some flag
               \<and> write_policy raw_value rt site rid c r raw =
                   upstream (patch_firewall_policy_logging (integration rt) site rid flag)"
    by (simp add: write_policy_def)
qed

theorem policy_write_keeps_texts_witness:
  "\<exists>sent. get ''name'' sent = Some ''x''
     \<and> write_policy JStr (sample_runtime empty_ok []) ''s'' ''p'' \<lparr>lc_enabled = Some True, lc_logging_enabled = None\<rparr> []
         [(''enabled'', ''false''), (''name'', ''x'')] =
       upstream (replace_firewall_policy JStr (integration (sample_runtime empty_ok [])) ''s'' ''p'' sent)"
proof -
  let ?c = "\<lparr>lc_enabled = Some True, lc_logging_enabled = None\<rparr>"
  let ?raw = "[(''enabled'', ''false''), (''name'', ''x'')]"
  have 1: "ordered_map ?raw" by (simp add: ordered_map_def less_list_code)
  have 2: "requested_flags ?c \<noteq> []" "\<not> holds_all (requested_flags ?c) []" "enabled_change ?c []"
    by (simp_all add: requested_flags_Nil holds_all_flags record_flag_def enabled_change_def)
  from policy_write_keeps_texts [OF 1 2(1,2), of JStr "sample_runtime empty_ok []" "''s''" "''p''",
      THEN conjunct1, rule_format, OF 2(3)]
  obtain sent where w: "write_policy JStr (sample_runtime empty_ok []) ''s'' ''p'' ?c [] ?raw =
       upstream (replace_firewall_policy JStr (integration (sample_runtime empty_ok [])) ''s'' ''p'' sent)"
    and g: "get ''name'' sent = (case get ''name'' (requested_flags ?c) of
        Some v \<Rightarrow> Some (flag_text v) | None \<Rightarrow> get ''name'' ?raw)" by blast
  from g have "get ''name'' sent = Some ''x''" unfolding get_requested_flags by simp
  with w show ?thesis by blast
qed

section \<open>What the preview covers\<close>

text \<open>The bytes of the detail properties a record has.\<close>

fun detail_bytes :: "(json \<Rightarrow> string) \<Rightarrow> (string \<times> json) list \<Rightarrow> string list \<Rightarrow> nat" where
  "detail_bytes show_value r [] = 0"
| "detail_bytes show_value r (name # names) =
     (case get name r of None \<Rightarrow> 0 | Some v \<Rightarrow> length name + length (show_value v))
     + detail_bytes show_value r names"

lemma cover_details_omitted:
  "\<exists>more. snd (snd (cover_details show_value r names (details, used, omitted))) = omitted @ more"
  by (induction names arbitrary: details used omitted)
    (auto simp: Let_def split: option.split, (metis append.assoc)+)

lemma cover_details_all_iff:
  assumes "used \<le> DETAIL_BUDGET"
  shows "snd (snd (cover_details show_value r names (details, used, omitted))) = omitted \<longleftrightarrow>
           used + detail_bytes show_value r names \<le> DETAIL_BUDGET"
  using assms
proof (induction names arbitrary: details used omitted)
  case (Cons name names)
  show ?case
  proof (cases "get name r")
    case None
    with Cons.IH [OF Cons.prems] show ?thesis by (simp del: get_eq_None)
  next
    case (Some v)
    let ?bytes = "length name + length (show_value v)"
    show ?thesis
    proof (cases "used + ?bytes \<le> DETAIL_BUDGET")
      case True
      with Cons.IH [OF True, of "map_insert name v details" omitted] Some show ?thesis
        by (simp add: add.assoc)
    next
      case False
      from cover_details_omitted [of show_value r names details used "omitted @ [name]"]
      have "snd (snd (cover_details show_value r names (details, used, omitted @ [name]))) \<noteq> omitted"
        by (metis append.assoc append_Cons append_eq_conv_conj append_self_conv list.discI)
      with False Some show ?thesis by simp
    qed
  qed
qed simp

lemma cover_details_get:
  assumes "snd (snd (cover_details show_value r names (details, used, omitted))) = omitted"
    and "used \<le> DETAIL_BUDGET" and "ordered_map details"
  shows "get k (fst (cover_details show_value r names (details, used, omitted))) =
           (if k \<in> set names \<and> get k r \<noteq> None then get k r else get k details)"
  using assms
proof (induction names arbitrary: details used)
  case (Cons name names)
  show ?case
  proof (cases "get name r")
    case None
    from Cons.prems(1) None have "snd (snd (cover_details show_value r names (details, used, omitted))) = omitted"
      by (simp del: get_eq_None)
    from Cons.IH [OF this Cons.prems(2,3)] None show ?thesis by (auto simp del: get_eq_None)
  next
    case (Some v)
    let ?bytes = "length name + length (show_value v)"
    from Cons.prems(1,2) have "used + detail_bytes show_value r (name # names) \<le> DETAIL_BUDGET"
      by (simp only: cover_details_all_iff)
    with Some have fits: "used + ?bytes \<le> DETAIL_BUDGET" by simp
    with Some Cons.prems(1) have "snd (snd (cover_details show_value r names
        (map_insert name v details, used + ?bytes, omitted))) = omitted" by simp
    from Cons.IH [OF this fits ordered_map_insert [OF Cons.prems(3)]] fits Some
    show ?thesis by (auto simp: get_map_insert [OF Cons.prems(3)] simp del: get_eq_None)
  qed
qed simp

lemma fold_add_omitted_Nil:
  "(fst (fold add_omitted names (seen, tr)) = [] \<and> \<not> snd (fold add_omitted names (seen, tr))) \<longleftrightarrow>
     names = [] \<and> seen = [] \<and> \<not> tr"
proof (induction names arbitrary: seen tr)
  case (Cons name names)
  obtain seen' tr' where add: "add_omitted name (seen, tr) = (seen', tr')" by (metis surj_pair)
  then have "seen' \<noteq> [] \<or> tr'" by (auto simp: add_omitted_def split: if_splits)
  with Cons [of seen' tr'] add show ?case by auto
qed auto

lemma coverage_complete_iff:
  assumes c: "cover_details show_value r DETAIL_FIELDS ([], 0, []) = (details, used, omitted)"
  shows "cv_complete (policy_preview_coverage_of show_value r) \<longleftrightarrow>
           omitted = [] \<and> list_all (\<lambda>(name, v). name \<in> set DETAIL_FIELDS \<or> \<not> summary_omits name v) r"
    and "cv_details (policy_preview_coverage_of show_value r) = details"
proof -
  let ?summary = "map fst (filter (\<lambda>(name, v). name \<notin> set DETAIL_FIELDS \<and> summary_omits name v) r)"
  obtain names_seen cut where fold: "fold add_omitted (omitted @ ?summary) ([], False) = (names_seen, cut)"
    by (rule that [OF prod.collapse [symmetric]])
  have eq: "policy_preview_coverage_of show_value r =
      \<lparr>cv_details = details, cv_complete = (names_seen = [] \<and> \<not> cut),
       cv_omitted_fields = names_seen, cv_omitted_fields_truncated = cut\<rparr>"
    unfolding policy_preview_coverage_of_def c Let_def prod.case fold by (rule refl)
  show "cv_details (policy_preview_coverage_of show_value r) = details" by (simp add: eq)
  have "names_seen = [] \<and> \<not> cut \<longleftrightarrow> omitted @ ?summary = []"
    using fold_add_omitted_Nil [of "omitted @ ?summary" "[]" False] unfolding fold by simp
  moreover have "?summary = [] \<longleftrightarrow> list_all (\<lambda>(name, v). name \<in> set DETAIL_FIELDS \<or> \<not> summary_omits name v) r"
    by (auto simp: filter_empty_conv list_all_iff)
  ultimately show "cv_complete (policy_preview_coverage_of show_value r) \<longleftrightarrow>
           omitted = [] \<and> list_all (\<lambda>(name, v). name \<in> set DETAIL_FIELDS \<or> \<not> summary_omits name v) r"
    unfolding eq by simp
qed

text \<open>
  A deletion preview that calls itself complete hides nothing: it is complete exactly when
  the detail properties together fit their budget and every other property of the record is one
  of the summary fields with a value the summary can show whole, and then the details hold every
  detail property of the record with its value.
\<close>

theorem complete_preview_covers_record:
  "(cv_complete (policy_preview_coverage_of show_value r) \<longleftrightarrow>
      detail_bytes show_value r DETAIL_FIELDS \<le> DETAIL_BUDGET
      \<and> list_all (\<lambda>(name, v). name \<in> set DETAIL_FIELDS \<or> \<not> summary_omits name v) r)
   \<and> (cv_complete (policy_preview_coverage_of show_value r) \<longrightarrow>
      (\<forall>k. get k (cv_details (policy_preview_coverage_of show_value r)) =
             (if k \<in> set DETAIL_FIELDS then get k r else None)))"
proof -
  obtain details used omitted where c: "cover_details show_value r DETAIL_FIELDS ([], 0, []) = (details, used, omitted)"
    by (metis surj_pair)
  have fits: "omitted = [] \<longleftrightarrow> detail_bytes show_value r DETAIL_FIELDS \<le> DETAIL_BUDGET"
    using cover_details_all_iff [of 0 show_value r DETAIL_FIELDS "[]" "[]"] unfolding c by simp
  have got: "get k details = (if k \<in> set DETAIL_FIELDS then get k r else None)" if "omitted = []" for k
    using cover_details_get [of show_value r DETAIL_FIELDS "[]" 0 "[]" k] that unfolding c
    by (cases "get k r") (simp_all add: ordered_map_def del: get_eq_None)
  show ?thesis
    unfolding coverage_complete_iff [OF c] fits using got fits by simp
qed

theorem complete_preview_covers_record_witness:
  "cv_complete (policy_preview_coverage_of (\<lambda>_. []) [(''source'', JNull)])
   \<and> get ''source'' (cv_details (policy_preview_coverage_of (\<lambda>_. []) [(''source'', JNull)])) = Some JNull"
proof -
  let ?r = "[(''source'', JNull)]"
  have "detail_bytes (\<lambda>_. []) ?r DETAIL_FIELDS \<le> DETAIL_BUDGET
      \<and> list_all (\<lambda>(name, v). name \<in> set DETAIL_FIELDS \<or> \<not> summary_omits name v) ?r"
    by (simp add: DETAIL_FIELDS_def DETAIL_BUDGET_def)
  with complete_preview_covers_record [of "\<lambda>_. []" ?r] have c: "cv_complete (policy_preview_coverage_of (\<lambda>_. []) ?r)"
    by blast
  with complete_preview_covers_record [of "\<lambda>_. []" ?r, THEN conjunct2, rule_format, OF c, of "''source''"]
  show ?thesis by (simp add: DETAIL_FIELDS_def)
qed

section \<open>What a verified deletion means\<close>

lemma is_not_found_iff: "is_not_found err \<longleftrightarrow> (\<exists>message. err = Status 404 message)"
  by (cases err) auto

lemma delete_verdict_absent:
  "fst (delete_verdict rt rid outcome) = Some absent \<longleftrightarrow>
     (absent \<and> (\<exists>message. outcome = Finished (Inl (Status 404 message))))
     \<or> (\<not> absent \<and> (\<exists>raw digest response. outcome = Finished (Inr (raw, digest, response))
            \<and> record_text (parsed_record rt raw) ''id'' = Some rid))"
  by (cases absent)
    (auto simp: delete_verdict_def Let_def is_not_found_iff split: timed.splits sum.splits)

lemma delete_read_back_absent:
  "lo_verified_absent (delete_read_back rt rid outcome output) = fst (delete_verdict rt rid outcome)"
  by (simp add: delete_read_back_def split: prod.split)

lemma delete_confirmed_absent:
  assumes "fst (delete_confirmed rdec rt started site rid o0 s) = Inr output"
    and "lo_verified_absent output = Some absent"
  shows "lo_applied output
     \<and> (\<exists>answer s'. upstream (delete_firewall_policy (integration rt) site rid) s = (Inr answer, s')
          \<and> (case fst (on_world (firewall_policy_snapshot_with_response rdec (integration rt) site rid) s') of
               Inl err \<Rightarrow> absent \<and> (\<exists>message. err = Status 404 message)
             | Inr (raw, _, _) \<Rightarrow> \<not> absent \<and> record_text (parsed_record rt raw) ''id'' = Some rid))"
proof -
  from assms(1) obtain status body s' where put:
    "upstream (delete_firewall_policy (integration rt) site rid) s = (Inr (status, body), s')"
    unfolding delete_confirmed_def fst_bind_io_Inr by auto
  obtain outcome s'' where tr: "timed_readback rt started (on_world
      (firewall_policy_snapshot_with_response rdec (integration rt) site rid)) s' = (outcome, s'')"
    by (rule that [OF prod.collapse [symmetric]])
  from assms(1) obtain o1 where out: "output = delete_read_back rt rid outcome o1" "lo_applied o1"
    by (auto simp: delete_confirmed_def bind_io_def put tr)
  from assms(2) have "fst (delete_verdict rt rid outcome) = Some absent"
    by (simp add: out delete_read_back_absent)
  then obtain res where fin: "outcome = Finished res"
    and verdict: "case res of Inl err \<Rightarrow> absent \<and> (\<exists>message. err = Status 404 message)
             | Inr (raw, _, _) \<Rightarrow> \<not> absent \<and> record_text (parsed_record rt raw) ''id'' = Some rid"
    unfolding delete_verdict_absent by auto
  have "lo_applied output" using out by (simp add: delete_read_back_def split: prod.split)
  with put verdict timed_readback_Finished [OF tr [unfolded fin]] show ?thesis by auto
qed

text \<open>
  C16. A policy is reported as gone only when it was deleted and is gone: the call was confirmed,
  the record read first had the requested identity, the console accepted the deletion, and asked
  again for that policy it answered 404. It is reported as still there only when the console
  served it again under the same identity.
\<close>

theorem deleted_policy_is_absent:
  assumes "parse from_value ps = Inr input"
    and "fst (firewall_policies_delete_outcome from_value idec zdec rdec rt ps s) = Inr output"
    and "lo_verified_absent output = Some absent"
  shows "li_confirm input \<and> lo_applied output
     \<and> (\<exists>site s1 raw s2 answer s3.
          policy_snapshot rdec rt site (li_policy input) s1 = (Inr raw, s2)
          \<and> upstream (delete_firewall_policy (integration rt) site (li_policy input)) s2 = (Inr answer, s3)
          \<and> (case fst (on_world (firewall_policy_snapshot_with_response rdec (integration rt) site (li_policy input)) s3) of
               Inl err \<Rightarrow> absent \<and> (\<exists>message. err = Status 404 message)
             | Inr (raw', _, _) \<Rightarrow> \<not> absent \<and> record_text (parsed_record rt raw') ''id'' = Some (li_policy input)))"
proof -
  have confirmed: "li_confirm input"
    using assms by (auto simp: firewall_policies_delete_outcome_def fst_bind_io_Inr Let_def split: if_splits)
  from assms(1,2) confirmed obtain site s1 raw s2 o0 where
    run: "policy_snapshot rdec rt site (li_policy input) s1 = (Inr raw, s2)"
      "fst (delete_confirmed rdec rt (instant_now rt s) site (li_policy input) o0 s2) = Inr output"
    by (auto simp: firewall_policies_delete_outcome_def fst_bind_io_Inr Let_def split: if_splits)
  from delete_confirmed_absent [OF run(2) assms(3)] run(1) confirmed show ?thesis by blast
qed

definition echo_runtime :: "unit tool_runtime" where
  "echo_runtime = (sample_runtime empty_ok [])\<lparr>integration := (canned_integration empty_ok)\<lparr>ext_value := (\<lambda>t. Inr (JStr t))\<rparr>\<rparr>"

lemmas echo_defs =
  echo_runtime_def sample_run_defs resolve_site_def site_id_def detect_def info_def firewall_zones_def
  get_json_def get_json_with_response_def get_attempt_def request_with_query_def request_plain_def endpoint_def
  integration_prefix_def send_def decode_body_def accepted_def

theorem deleted_policy_is_absent_witness:
  "\<exists>site s2 answer s3.
     upstream (delete_firewall_policy (integration echo_runtime) site ''p1'') s2 = (Inr answer, s3)
     \<and> (case fst (on_world (firewall_policy_snapshot_with_response (\<lambda>_. Inr [(''id'', ''p1'')])
                  (integration echo_runtime) site ''p1'') s3) of
          Inl err \<Rightarrow> False
        | Inr (raw', _, _) \<Rightarrow> record_text (parsed_record echo_runtime raw') ''id'' = Some ''p1'')"
proof -
  let ?in = "\<lparr>li_policy = ''p1'', li_confirm = True\<rparr>"
  let ?page = "\<lparr>page_offset = 0, page_limit = 1, page_count = 0, total_count = 0, page_data = [] :: unit list\<rparr>"
  let ?run = "firewall_policies_delete_outcome (\<lambda>_. Inr ?in) (\<lambda>_. Inr ''9'') (\<lambda>_. Inr ?page)
      (\<lambda>_. Inr [(''id'', ''p1'')]) echo_runtime \<lparr>arguments = None\<rparr> sample_state"
  have parsed: "parse (\<lambda>_. Inr ?in) \<lparr>arguments = None\<rparr> = Inr ?in" by (simp add: parse_def)
  have "trim ''p1'' = ''p1''"
    by (simp add: trim_def is_continuation_def is_whitespace_def)
  then have "map_ok lo_verified_absent (fst ?run) = Inr (Some False)"
    by (simp add: firewall_policies_delete_outcome_def parse_def blank_def require_zone_based_firewall_def
        policy_snapshot_def firewall_policy_snapshot_with_response_def delete_confirmed_def
        delete_firewall_policy_def delete_read_back_def delete_verdict_def echo_defs
        parsed_record_def map_filter_def record_text_def)
  then obtain out where "fst ?run = Inr out" "lo_verified_absent out = Some False"
    by (auto simp: map_ok_def split: sum.splits)
  from deleted_policy_is_absent [OF parsed this] show ?thesis by (simp split: sum.splits) blast
qed

end
