(* ===== verification/Json_Match.thy ===== *)
theory Json_Match
  imports Complex_Main Json
begin

text \<open>
  Comparing a requested value with the one read back (\<open>requested_json_matches\<close> and the number
  comparison of \<open>crates/unifi-mcp/src/tools.rs\<close>, and \<open>matches\<close> of
  \<open>tools/firewall_policy_request.rs\<close>). Numbers are kept as text, so two texts of one number are
  compared by sign, significant digits and decimal exponent, without rounding. The theorems say
  that this comparison is exactly equality of the numbers denoted, and that matching is a
  preorder which holds along every path of the request.
\<close>

section \<open>Decimal texts\<close>

text \<open>\<open>str::split_once\<close> with a set of separators; trimming of one character at either end.\<close>

definition split_once :: "(char \<Rightarrow> bool) \<Rightarrow> string \<Rightarrow> (string \<times> string) option" where
  "split_once p s =
     (case dropWhile (\<lambda>c. \<not> p c) s of [] \<Rightarrow> None | _ # rest \<Rightarrow> Some (takeWhile (\<lambda>c. \<not> p c) s, rest))"

definition trim_start_matches :: "char \<Rightarrow> string \<Rightarrow> string" where
  "trim_start_matches c s = dropWhile (\<lambda>x. x = c) s"

definition trim_end_matches :: "char \<Rightarrow> string \<Rightarrow> string" where
  "trim_end_matches c s = rev (dropWhile (\<lambda>x. x = c) (rev s))"

definition i128_min :: int where
  "i128_min = - (2 ^ 127)"

definition i128_max :: int where
  "i128_max = 2 ^ 127 - 1"

definition checked_i128 :: "int \<Rightarrow> int option" where
  "checked_i128 n = (if i128_min \<le> n \<and> n \<le> i128_max then Some n else None)"

text \<open>\<open>str::parse::<i128>\<close>: an optional sign and at least one digit.\<close>

definition parse_i128 :: "string \<Rightarrow> int option" where
  "parse_i128 t =
     (case t of
        [] \<Rightarrow> None
      | c # digits \<Rightarrow>
          (if c = CHR ''-''
           then (if digits = [] then None else map_option (\<lambda>n. - int n) (parse_digits (2 ^ 127) 0 digits))
           else map_option int (parse_unsigned (2 ^ 127 - 1) t)))"

definition decimal_parts :: "string \<Rightarrow> (bool \<times> string \<times> int) option" where
  "decimal_parts text =
     (let negative = is_prefix_of ''-'' text;
          unsigned_text = (case strip_prefix ''-'' text of Some rest \<Rightarrow> rest | None \<Rightarrow> text);
          (mantissa, exponent) =
            (case split_once (\<lambda>c. c = CHR ''e'' \<or> c = CHR ''E'') unsigned_text of
               Some parts \<Rightarrow> parts | None \<Rightarrow> (unsigned_text, ''0''));
          fractional_digits =
            (case split_once (\<lambda>c. c = CHR ''.'') mantissa of None \<Rightarrow> 0 | Some (_, fraction) \<Rightarrow> length fraction);
          digits = filter (\<lambda>c. c \<noteq> CHR ''.'') mantissa;
          significant = trim_end_matches CHR ''0'' (trim_start_matches CHR ''0'' digits)
      in if significant = [] then Some (False, [], 0)
         else
           (let trailing_zeros = length digits - length (trim_end_matches CHR ''0'' digits)
            in Option.bind (parse_i128 exponent) (\<lambda>e.
               Option.bind (checked_i128 (e - int fractional_digits)) (\<lambda>e.
               Option.bind (checked_i128 (e + int trailing_zeros)) (\<lambda>e.
                 Some (negative, significant, e))))))"

definition numbers_equivalent :: "string \<Rightarrow> string \<Rightarrow> bool" where
  "numbers_equivalent wanted actual \<longleftrightarrow>
     wanted = actual
     \<or> (case (decimal_parts wanted, decimal_parts actual) of
          (Some w, Some a) \<Rightarrow> w = a
        | _ \<Rightarrow> False)"

section \<open>Matching values\<close>

text \<open>The loops over arrays and objects are functions of their own.\<close>

fun requested_json_matches :: "json \<Rightarrow> json \<Rightarrow> bool"
  and elements_match :: "json list \<Rightarrow> json list \<Rightarrow> bool"
  and fields_match :: "(string \<times> json) list \<Rightarrow> (string \<times> json) list \<Rightarrow> bool" where
  "requested_json_matches (JNum wanted) observed =
     (case observed of JNum actual \<Rightarrow> numbers_equivalent wanted actual | _ \<Rightarrow> False)"
| "requested_json_matches (JArr wanted) observed =
     (case observed of JArr actual \<Rightarrow> length wanted = length actual \<and> elements_match wanted actual | _ \<Rightarrow> False)"
| "requested_json_matches (JObj wanted) observed =
     (case observed of JObj actual \<Rightarrow> fields_match wanted actual | _ \<Rightarrow> False)"
| "requested_json_matches JNull observed = (observed = JNull)"
| "requested_json_matches (JBool b) observed = (observed = JBool b)"
| "requested_json_matches (JStr s) observed = (observed = JStr s)"
| "elements_match [] ys = True"
| "elements_match (x # xs) ys =
     (case ys of [] \<Rightarrow> True | y # ys \<Rightarrow> requested_json_matches x y \<and> elements_match xs ys)"
| "fields_match [] actual = True"
| "fields_match ((name, v) # wanted) actual =
     ((case get name actual of None \<Rightarrow> False | Some observed \<Rightarrow> requested_json_matches v observed)
      \<and> fields_match wanted actual)"

text \<open>
  \<open>Value::pointer\<close> on a path of tokens. Every path used here names object members only, so the
  step into an array, by an index token, is the only other case.
\<close>

fun json_pointer :: "string list \<Rightarrow> json \<Rightarrow> json option" where
  "json_pointer [] v = Some v"
| "json_pointer (token # path) (JObj m) = Option.bind (get token m) (json_pointer path)"
| "json_pointer (token # path) (JArr xs) =
     (if is_prefix_of ''+'' token \<or> (is_prefix_of ''0'' token \<and> length token \<noteq> 1) then None
      else case parse_unsigned u64_max token of
             None \<Rightarrow> None
           | Some i \<Rightarrow> (if i < length xs then json_pointer path (xs ! i) else None))"
| "json_pointer (token # path) _ = None"

definition OPTIONAL_POLICY_PATHS :: "string list list" where
  "OPTIONAL_POLICY_PATHS =
     [[''connectionStateFilter''], [''description''], [''ipsecFilter''], [''schedule''],
      [''schedule'', ''timeFilter''], [''source'', ''trafficFilter''],
      [''source'', ''trafficFilter'', ''portFilter''], [''source'', ''trafficFilter'', ''macAddressFilter''],
      [''destination'', ''trafficFilter''], [''destination'', ''trafficFilter'', ''portFilter''],
      [''ipProtocolScope'', ''protocolFilter''],
      [''ipProtocolScope'', ''protocolFilter'', ''protocol'', ''typenameFilter'']]"

definition firewall_policy_matches :: "json \<Rightarrow> json \<Rightarrow> bool" where
  "firewall_policy_matches requested observed \<longleftrightarrow>
     requested_json_matches requested observed
     \<and> list_all (\<lambda>path. json_pointer path requested \<noteq> None
          \<or> (case json_pointer path observed of None \<Rightarrow> True | Some v \<Rightarrow> jnull v)) OPTIONAL_POLICY_PATHS"

section \<open>What a number text denotes\<close>

text \<open>
  The JSON number grammar as data: sign, integer digits, optional fraction, optional exponent
  (with its letter and sign). \<open>number_text\<close> prints it and \<open>number_value\<close> is the rational it
  denotes; this is the reference the comparison is judged by.
\<close>

datatype exponent_sign = Unsigned | Plus | Minus

record number_syntax =
  ns_negative :: bool
  ns_integer :: string
  ns_fraction :: "string option"
  ns_exponent :: "(bool \<times> exponent_sign \<times> string) option"

definition digits_only :: "string \<Rightarrow> bool" where
  "digits_only s \<longleftrightarrow> s \<noteq> [] \<and> list_all is_ascii_digit s"

definition number_ok :: "number_syntax \<Rightarrow> bool" where
  "number_ok n \<longleftrightarrow>
     digits_only (ns_integer n)
     \<and> (case ns_fraction n of None \<Rightarrow> True | Some f \<Rightarrow> digits_only f)
     \<and> (case ns_exponent n of None \<Rightarrow> True | Some (_, _, e) \<Rightarrow> digits_only e)"

definition fraction_digits :: "number_syntax \<Rightarrow> string" where
  "fraction_digits n = (case ns_fraction n of None \<Rightarrow> [] | Some f \<Rightarrow> f)"

definition mantissa_text :: "number_syntax \<Rightarrow> string" where
  "mantissa_text n = ns_integer n @ (case ns_fraction n of None \<Rightarrow> [] | Some f \<Rightarrow> CHR ''.'' # f)"

definition sign_text :: "exponent_sign \<Rightarrow> string" where
  "sign_text s = (case s of Unsigned \<Rightarrow> [] | Plus \<Rightarrow> ''+'' | Minus \<Rightarrow> ''-'')"

definition number_text :: "number_syntax \<Rightarrow> string" where
  "number_text n =
     (if ns_negative n then ''-'' else []) @ mantissa_text n
     @ (case ns_exponent n of
          None \<Rightarrow> []
        | Some (upper, s, e) \<Rightarrow> (if upper then CHR ''E'' else CHR ''e'') # sign_text s @ e)"

definition digit :: "char \<Rightarrow> nat" where
  "digit c = of_char c - 48"

definition dval :: "string \<Rightarrow> nat" where
  "dval s = foldl (\<lambda>acc c. 10 * acc + digit c) 0 s"

definition exponent_value :: "number_syntax \<Rightarrow> int" where
  "exponent_value n =
     (case ns_exponent n of
        None \<Rightarrow> 0
      | Some (_, s, e) \<Rightarrow> (if s = Minus then - int (dval e) else int (dval e)))"

definition number_value :: "number_syntax \<Rightarrow> rat" where
  "number_value n =
     (if ns_negative n then - 1 else 1) * of_nat (dval (ns_integer n @ fraction_digits n))
     * 10 powi (exponent_value n - int (length (fraction_digits n)))"

subsection \<open>Digits\<close>

lemma foldl_digits: "foldl (\<lambda>acc c. 10 * acc + digit c) a s = a * 10 ^ length s + dval s"
proof (induction s arbitrary: a)
  case (Cons c s)
  have "dval (c # s) = digit c * 10 ^ length s + dval s"
    using Cons [of "digit c"] by (simp add: dval_def)
  with Cons [of "10 * a + digit c"] show ?case by (simp add: algebra_simps)
qed (simp add: dval_def)

lemma dval_Nil [simp]: "dval [] = 0"
  by (simp add: dval_def)

lemma dval_Cons: "dval (c # s) = digit c * 10 ^ length s + dval s"
  using foldl_digits [of "digit c" s] by (simp add: dval_def)

lemma dval_append: "dval (s @ u) = dval s * 10 ^ length u + dval u"
  using foldl_digits [of "dval s" u] by (simp add: dval_def)

lemma digit_value_eq: "is_ascii_digit c \<Longrightarrow> digit_value c = Some (digit c)"
  by (simp add: digit_value_def digit_def)

lemma digit_less: "is_ascii_digit c \<Longrightarrow> digit c < 10"
  by (auto simp: is_ascii_digit_def digit_def)

lemma digit_inject: "is_ascii_digit c \<Longrightarrow> is_ascii_digit d \<Longrightarrow> digit c = digit d \<Longrightarrow> c = d"
  unfolding is_ascii_digit_def digit_def
  by (metis diff_diff_cancel diff_is_0_eq' eq_diff_iff of_char_eq_iff)

lemma parse_digits_dval:
  "list_all is_ascii_digit s \<Longrightarrow> a \<le> mx \<Longrightarrow>
     parse_digits mx a s = (if a * 10 ^ length s + dval s \<le> mx then Some (a * 10 ^ length s + dval s) else None)"
proof (induction s arbitrary: a)
  case (Cons c s)
  have le: "10 * a + digit c \<le> a * 10 ^ length (c # s) + dval (c # s)"
  proof -
    have "(10 * a + digit c) * 1 \<le> (10 * a + digit c) * 10 ^ length s" by (intro mult_left_mono) simp_all
    then show ?thesis by (simp add: dval_Cons algebra_simps)
  qed
  show ?case
  proof (cases "10 * a + digit c \<le> mx")
    case True
    with Cons show ?thesis by (simp add: digit_value_eq dval_Cons algebra_simps)
  next
    case False
    with le Cons.prems show ?thesis by (simp add: digit_value_eq)
  qed
qed simp

lemma dval_zeros: "list_all (\<lambda>c. c = CHR ''0'') z \<Longrightarrow> dval z = 0"
  by (induction z) (auto simp: dval_Cons digit_def)

lemma dval_pos: "is_ascii_digit c \<Longrightarrow> c \<noteq> CHR ''0'' \<Longrightarrow> dval (c # s) > 0"
proof -
  assume "is_ascii_digit c" "c \<noteq> CHR ''0''"
  then have "digit c \<noteq> 0" using digit_inject [of c "CHR ''0''"] by (auto simp: digit_def is_ascii_digit_def)
  then show ?thesis by (simp add: dval_Cons)
qed

text \<open>Digit strings without leading zeros are determined by their value.\<close>

lemma dval_inject:
  assumes "list_all is_ascii_digit s" "list_all is_ascii_digit u"
    and "s = [] \<or> hd s \<noteq> CHR ''0''" "u = [] \<or> hd u \<noteq> CHR ''0''" and "dval s = dval u"
  shows "s = u"
  using assms
proof (induction s arbitrary: u rule: rev_induct)
  case Nil
  then show ?case using dval_pos [of "hd u" "tl u"] by (cases u) auto
next
  case (snoc c s)
  have "dval (s @ [c]) > 0"
    using snoc.prems(1,3) dval_pos [of "hd (s @ [c])" "tl (s @ [c])"] by (cases s) auto
  with snoc.prems(5) have "u \<noteq> []" by auto
  then obtain u' d where u: "u = u' @ [d]" by (metis rev_exhaust)
  from snoc.prems(1,2) u have digits: "is_ascii_digit c" "is_ascii_digit d" by simp_all
  from snoc.prems(5) u have eq: "10 * dval s + digit c = 10 * dval u' + digit d"
    by (simp add: dval_append dval_Cons)
  with digit_less [OF digits(1)] digit_less [OF digits(2)] have "digit c = digit d" "dval s = dval u'" by presburger+
  moreover have "s = [] \<or> hd s \<noteq> CHR ''0''" using snoc.prems(3) by (cases s) auto
  moreover have "u' = [] \<or> hd u' \<noteq> CHR ''0''" using snoc.prems(4) u by (cases u') auto
  ultimately show ?case using snoc.IH [of u'] snoc.prems(1,2) u digit_inject [OF digits] by simp
qed

definition normal_digits :: "string \<Rightarrow> bool" where
  "normal_digits s \<longleftrightarrow> s \<noteq> [] \<and> list_all is_ascii_digit s \<and> hd s \<noteq> CHR ''0'' \<and> last s \<noteq> CHR ''0''"

lemma normal_digits_not_ten:
  assumes "normal_digits s"
  shows "\<not> 10 dvd dval s"
proof -
  from assms obtain s' c where "s = s' @ [c]" by (metis normal_digits_def rev_exhaust)
  with assms have s: "s = s' @ [c]" "is_ascii_digit c" "c \<noteq> CHR ''0''" by (simp_all add: normal_digits_def)
  then have "digit c \<noteq> 0" using digit_inject [of c "CHR ''0''"] by (auto simp: digit_def is_ascii_digit_def)
  moreover have "dval s = 10 * dval s' + digit c" by (simp add: s dval_append dval_Cons)
  ultimately show ?thesis using digit_less [OF s(2)] by presburger
qed

text \<open>Trimming zeros splits a digit string into zeros, the significant digits, and zeros.\<close>

lemma dropWhile_split: "\<exists>z. s = z @ dropWhile p s \<and> list_all p z"
  using takeWhile_dropWhile_id [of p s] set_takeWhileD [of _ p s] by (metis list_all_iff)

lemma trim_split:
  fixes d :: string
  defines "sig \<equiv> trim_end_matches CHR ''0'' (trim_start_matches CHR ''0'' d)"
  assumes "list_all is_ascii_digit d" and "sig \<noteq> []"
  shows "normal_digits sig
         \<and> dval d = dval sig * 10 ^ (length d - length (trim_end_matches CHR ''0'' d))"
proof -
  let ?p = "\<lambda>x. x = CHR ''0''"
  obtain z1 where z1: "d = z1 @ dropWhile ?p d" "list_all ?p z1" using dropWhile_split [of d ?p] by blast
  let ?s = "dropWhile ?p d"
  obtain z2 where z2: "rev ?s = z2 @ dropWhile ?p (rev ?s)" "list_all ?p z2"
    using dropWhile_split [of "rev ?s" ?p] by blast
  have sig: "sig = rev (dropWhile ?p (rev ?s))"
    by (simp add: sig_def trim_end_matches_def trim_start_matches_def)
  with z2(1) have s: "?s = sig @ rev z2" by (metis rev_append rev_rev_ident)
  with z1(1) have d: "d = z1 @ sig @ rev z2" by simp
  have last: "last sig \<noteq> CHR ''0''"
    using assms(3) sig hd_dropWhile [of ?p "rev ?s"] by (simp add: last_rev)
  have hd: "hd sig \<noteq> CHR ''0''"
    using assms(3) s hd_dropWhile [of ?p d] by (metis (mono_tags, lifting) append_is_Nil_conv hd_append2)
  have "rev d = z2 @ rev sig @ rev z1" using d by simp
  moreover have "dropWhile ?p (z2 @ rev sig @ rev z1) = rev sig @ rev z1"
  proof -
    have "dropWhile ?p (z2 @ rev sig @ rev z1) = dropWhile ?p (rev sig @ rev z1)"
      using z2(2) by (simp add: dropWhile_append2 list_all_iff)
    moreover obtain c r where "rev sig = c # r" "c \<noteq> CHR ''0''"
      using assms(3) last by (cases "rev sig") (auto simp: last_rev dest: arg_cong [where f = rev])
    ultimately show ?thesis by simp
  qed
  ultimately have "trim_end_matches CHR ''0'' d = z1 @ sig"
    by (simp add: trim_end_matches_def)
  then have "length d - length (trim_end_matches CHR ''0'' d) = length z2" using d by simp
  moreover have "dval (rev z2) = 0" using z2(2) by (intro dval_zeros) (simp add: list_all_iff)
  then have "dval d = dval sig * 10 ^ length z2"
    using dval_zeros [OF z1(2)] by (subst d) (simp add: dval_append)
  moreover have "list_all is_ascii_digit sig" using assms(2) d by (metis list_all_append)
  ultimately show ?thesis using assms(3) hd last by (simp add: normal_digits_def)
qed

lemma trim_empty:
  assumes "trim_end_matches CHR ''0'' (trim_start_matches CHR ''0'' d) = []"
  shows "dval d = 0"
proof -
  let ?p = "\<lambda>x. x = CHR ''0''"
  from assms have "dropWhile ?p (rev (dropWhile ?p d)) = []"
    by (simp only: trim_end_matches_def trim_start_matches_def rev_is_Nil_conv)
  then have "\<forall>c\<in>set (dropWhile ?p d). ?p c" unfolding dropWhile_eq_Nil_conv set_rev .
  moreover have "\<forall>c\<in>set (takeWhile ?p d). ?p c" by (blast dest: set_takeWhileD)
  moreover have "set d = set (takeWhile ?p d) \<union> set (dropWhile ?p d)"
    by (metis set_append takeWhile_dropWhile_id)
  ultimately have "\<forall>c\<in>set d. ?p c" by blast
  then show ?thesis by (intro dval_zeros) (simp only: list_all_iff)
qed

subsection \<open>The parts of a number\<close>

lemma parse_i128_text:
  assumes "digits_only e"
  shows "parse_i128 (sign_text s @ e) = checked_i128 (if s = Minus then - int (dval e) else int (dval e))"
proof -
  from assms obtain c r where e: "e = c # r" "is_ascii_digit c" by (cases e) (auto simp: digits_only_def)
  then have c: "c \<noteq> CHR ''-''" "c \<noteq> CHR ''+''" by (auto simp: is_ascii_digit_def)
  from assms have d: "list_all is_ascii_digit e" by (simp add: digits_only_def)
  have p: "parse_digits mx 0 e = (if dval e \<le> mx then Some (dval e) else None)" for mx
    using parse_digits_dval [OF d, of 0 mx] by simp
  have "int (dval e) \<le> 2 ^ 127 - 1 \<longleftrightarrow> dval e \<le> 2 ^ 127 - 1"
    by (simp add: of_nat_le_iff [symmetric] del: of_nat_le_iff)
  moreover have "- (2 ^ 127) \<le> - int (dval e) \<longleftrightarrow> dval e \<le> 2 ^ 127"
    by (simp add: of_nat_le_iff [symmetric] del: of_nat_le_iff)
  ultimately show ?thesis
    using e c p [of "2 ^ 127"] p [of "2 ^ 127 - 1"]
    by (cases s)
      (simp_all add: sign_text_def parse_i128_def parse_unsigned_def checked_i128_def i128_min_def i128_max_def
        del: parse_digits.simps)
qed

lemma split_once_None: "\<forall>c\<in>set s. \<not> p c \<Longrightarrow> split_once p s = None"
  unfolding split_once_def by (metis dropWhile_eq_Nil_conv list.simps(4))

lemma split_once_Some: "\<forall>c\<in>set s. \<not> p c \<Longrightarrow> p x \<Longrightarrow> split_once p (s @ x # r) = Some (s, r)"
  by (simp add: split_once_def)

lemma digit_not_special:
  "list_all is_ascii_digit s \<Longrightarrow> c \<in> set s \<Longrightarrow> c \<noteq> CHR ''.'' \<and> c \<noteq> CHR ''e'' \<and> c \<noteq> CHR ''E'' \<and> c \<noteq> CHR ''-''"
  by (auto simp: list_all_iff is_ascii_digit_def)

lemma decimal_parts_text:
  fixes n :: number_syntax
  defines "d \<equiv> ns_integer n @ fraction_digits n"
  defines "sig \<equiv> trim_end_matches CHR ''0'' (trim_start_matches CHR ''0'' d)"
  assumes ok: "number_ok n"
  shows "decimal_parts (number_text n) =
     (if sig = [] then Some (False, [], 0)
      else Option.bind (checked_i128 (exponent_value n)) (\<lambda>e.
           Option.bind (checked_i128 (e - int (length (fraction_digits n)))) (\<lambda>e.
           Option.bind (checked_i128 (e + int (length d - length (trim_end_matches CHR ''0'' d)))) (\<lambda>e.
             Some (ns_negative n, sig, e)))))"
proof -
  let ?m = "mantissa_text n"
  let ?exp = "case ns_exponent n of None \<Rightarrow> []
        | Some (upper, s, e) \<Rightarrow> (if upper then CHR ''E'' else CHR ''e'') # sign_text s @ e"
  have int: "list_all is_ascii_digit (ns_integer n)" "ns_integer n \<noteq> []"
    using ok by (auto simp: number_ok_def digits_only_def)
  have frac: "list_all is_ascii_digit (fraction_digits n)"
    using ok by (auto simp: number_ok_def digits_only_def fraction_digits_def split: option.splits)
  have m: "\<forall>c\<in>set ?m. \<not> (c = CHR ''e'' \<or> c = CHR ''E'')"
    using digit_not_special [OF int(1)] digit_not_special [OF frac]
    by (auto simp: mantissa_text_def fraction_digits_def split: option.splits)
  obtain c r where head: "ns_integer n = c # r" "c \<noteq> CHR ''-''"
    using int digit_not_special [OF int(1)] by (cases "ns_integer n") auto
  have neg: "is_prefix_of ''-'' (number_text n) = ns_negative n"
    and rest: "(case strip_prefix ''-'' (number_text n) of Some u \<Rightarrow> u | None \<Rightarrow> number_text n) = ?m @ ?exp"
    using head by (auto simp: number_text_def mantissa_text_def)
  obtain ex where exp: "(case split_once (\<lambda>c. c = CHR ''e'' \<or> c = CHR ''E'') (?m @ ?exp) of
       Some parts \<Rightarrow> parts | None \<Rightarrow> (?m @ ?exp, ''0'')) = (?m, ex)"
    and val: "parse_i128 ex = checked_i128 (exponent_value n)"
  proof (cases "ns_exponent n")
    case None
    have zero: "parse_i128 ''0'' = checked_i128 0"
      using parse_i128_text [of "''0''" Unsigned]
      by (simp add: digits_only_def is_ascii_digit_def sign_text_def dval_Cons digit_def)
    show ?thesis
      by (rule that [of "''0''"]) (use None split_once_None [OF m] zero in \<open>simp_all add: exponent_value_def\<close>)
  next
    case (Some x)
    obtain upper s e where x: "x = (upper, s, e)" by (cases x)
    with ok Some have "digits_only e" by (simp add: number_ok_def)
    from parse_i128_text [OF this, of s] Some x split_once_Some [OF m, of _ "sign_text s @ e"]
    show ?thesis by (intro that [of "sign_text s @ e"]) (auto simp: exponent_value_def)
  qed
  have digits: "filter (\<lambda>c. c \<noteq> CHR ''.'') ?m = d"
    using digit_not_special [OF int(1)] digit_not_special [OF frac]
    by (auto simp: mantissa_text_def d_def fraction_digits_def filter_id_conv split: option.splits)
  have "\<forall>c\<in>set (ns_integer n). \<not> c = CHR ''.''" using digit_not_special [OF int(1)] by blast
  then have dot: "(case split_once (\<lambda>c. c = CHR ''.'') ?m of None \<Rightarrow> 0 | Some (_, f) \<Rightarrow> length f) =
      length (fraction_digits n)"
    using split_once_None [of "ns_integer n" "\<lambda>c. c = CHR ''.''"]
      split_once_Some [of "ns_integer n" "\<lambda>c. c = CHR ''.''" "CHR ''.''"]
    by (simp add: mantissa_text_def fraction_digits_def split: option.split)
  show ?thesis
    unfolding decimal_parts_def neg rest Let_def exp prod.case dot digits val sig_def by simp
qed

lemma decimal_parts_value:
  assumes "number_ok n" and "decimal_parts (number_text n) = Some (neg, sig, e)"
  shows "(sig = [] \<and> e = 0 \<and> \<not> neg \<and> number_value n = 0)
         \<or> (normal_digits sig
             \<and> number_value n = (if neg then - 1 else 1) * of_nat (dval sig) * 10 powi e)"
proof -
  let ?d = "ns_integer n @ fraction_digits n"
  let ?sig = "trim_end_matches CHR ''0'' (trim_start_matches CHR ''0'' ?d)"
  let ?z = "length ?d - length (trim_end_matches CHR ''0'' ?d)"
  let ?e = "exponent_value n - int (length (fraction_digits n))"
  have digits: "list_all is_ascii_digit ?d"
    using assms(1) by (auto simp: number_ok_def digits_only_def fraction_digits_def split: option.splits)
  show ?thesis
  proof (cases "?sig = []")
    case True
    with assms trim_empty [OF True] show ?thesis
      by (simp add: decimal_parts_text number_value_def)
  next
    case False
    with assms have parts: "neg = ns_negative n" "sig = ?sig" "e = ?e + int ?z"
      by (auto simp: decimal_parts_text checked_i128_def bind_eq_Some_conv split: if_splits)
    from trim_split [OF digits False] parts(2) have sig: "normal_digits sig" "dval ?d = dval sig * 10 ^ ?z" by simp_all
    have "(10 :: rat) powi e = 10 powi ?e * 10 ^ ?z" by (simp add: parts(3) power_int_add)
    with sig parts(1) show ?thesis by (simp add: number_value_def)
  qed
qed

text \<open>A product of significant digits and a power of ten has only one such form.\<close>

lemma normal_form_unique_le:
  assumes "normal_digits a" "normal_digits b" and "e \<le> f"
    and "of_nat (dval a) * 10 powi e = of_nat (dval b) * (10 powi f :: rat)"
  shows "a = b \<and> e = f"
proof -
  obtain k where f: "f = e + int k" using assms(3) by (metis zle_iff_zadd)
  then have "of_nat (dval a) * (10 powi e :: rat) = of_nat (dval b) * (10 ^ k) * 10 powi e"
    using assms(4) by (simp add: power_int_add mult.commute mult.left_commute)
  then have "(of_nat (dval a) :: rat) = of_nat (dval b * 10 ^ k)" by simp
  then have eq: "dval a = dval b * 10 ^ k" by (simp only: of_nat_eq_iff)
  have "k = 0"
  proof (rule ccontr)
    assume "k \<noteq> 0"
    then have "10 dvd dval a" using eq by (simp add: dvd_mult)
    with normal_digits_not_ten [OF assms(1)] show False by blast
  qed
  with eq f have "dval a = dval b" "e = f" by simp_all
  with assms(1,2) dval_inject [of a b] show ?thesis by (simp add: normal_digits_def)
qed

lemma normal_form_unique:
  assumes "normal_digits a" "normal_digits b"
    and "of_nat (dval a) * 10 powi e = of_nat (dval b) * (10 powi f :: rat)"
  shows "a = b \<and> e = f"
proof (cases "e \<le> f")
  case False
  then have "b = a \<and> f = e" using normal_form_unique_le [OF assms(2,1), of f e] assms(3) by simp
  then show ?thesis by simp
qed (use normal_form_unique_le [OF assms(1,2)] assms(3) in simp)

lemma normal_digits_positive: "normal_digits a \<Longrightarrow> (0 :: rat) < of_nat (dval a) * 10 powi e"
  using normal_digits_not_ten [of a] by (cases "dval a = 0") simp_all

lemma signed_normal_form_unique:
  assumes "normal_digits a" "normal_digits b"
    and "(if s then - 1 else 1) * of_nat (dval a) * 10 powi e = (if u then - 1 else 1) * of_nat (dval b) * (10 powi f :: rat)"
  shows "s = u \<and> a = b \<and> e = f"
proof -
  from normal_digits_positive [OF assms(1), of e] normal_digits_positive [OF assms(2), of f] assms(3)
  have "s = u" by (cases s; cases u) auto
  with assms(3) have "of_nat (dval a) * 10 powi e = of_nat (dval b) * (10 powi f :: rat)" by (cases u) auto
  with normal_form_unique [OF assms(1,2)] \<open>s = u\<close> show ?thesis by blast
qed

text \<open>Numbers far inside the range of the exponent arithmetic: all that occur in practice.\<close>

definition exponent_fits :: "number_syntax \<Rightarrow> bool" where
  "exponent_fits n \<longleftrightarrow>
     \<bar>exponent_value n\<bar> < 2 ^ 125 \<and> length (ns_integer n @ fraction_digits n) < 2 ^ 125"

lemma exponent_fits_parts:
  assumes "number_ok n" and "exponent_fits n"
  obtains neg sig e where "decimal_parts (number_text n) = Some (neg, sig, e)"
proof -
  let ?d = "ns_integer n @ fraction_digits n"
  let ?z = "length ?d - length (trim_end_matches CHR ''0'' ?d)"
  have "length (fraction_digits n) < 2 ^ 125" "?z < 2 ^ 125"
    using assms(2) less_imp_diff_less [of "length ?d" "2 ^ 125"] by (simp_all add: exponent_fits_def)
  then have "int (length (fraction_digits n)) < 2 ^ 125" "int ?z < 2 ^ 125"
    by (simp_all only: of_nat_less_iff [symmetric, where ?'a = int] of_nat_power of_nat_numeral)
  then have "checked_i128 (exponent_value n) \<noteq> None"
    "checked_i128 (exponent_value n - int (length (fraction_digits n))) \<noteq> None"
    "checked_i128 (exponent_value n - int (length (fraction_digits n)) + int ?z) \<noteq> None"
    using assms(2) by (auto simp: checked_i128_def exponent_fits_def i128_min_def i128_max_def)
  then have "decimal_parts (number_text n) \<noteq> None"
    unfolding decimal_parts_text [OF assms(1)] by (auto simp: checked_i128_def split: if_splits)
  then show ?thesis using that by (metis option.exhaust prod.exhaust)
qed

text \<open>
  Comparing two number texts is comparing the numbers: for any two texts of the JSON grammar
  whose exponents are within range, whatever their signs, leading and trailing zeros, fractions
  and exponent forms, the comparison by sign, significant digits and exponent says yes exactly
  when they denote the same rational number. Nothing is rounded, and minus zero is zero.
\<close>

theorem numbers_equivalent_iff:
  assumes "number_ok n" "number_ok m" and "exponent_fits n" "exponent_fits m"
  shows "numbers_equivalent (number_text n) (number_text m) \<longleftrightarrow> number_value n = number_value m"
proof -
  obtain s a e where n: "decimal_parts (number_text n) = Some (s, a, e)"
    using exponent_fits_parts [OF assms(1,3)] .
  obtain u b f where m: "decimal_parts (number_text m) = Some (u, b, f)"
    using exponent_fits_parts [OF assms(2,4)] .
  have "numbers_equivalent (number_text n) (number_text m) \<longleftrightarrow> (s, a, e) = (u, b, f)"
    using n m by (auto simp: numbers_equivalent_def)
  also have "\<dots> \<longleftrightarrow> number_value n = number_value m"
    using decimal_parts_value [OF assms(1) n] decimal_parts_value [OF assms(2) m]
      normal_digits_positive [of a e] normal_digits_positive [of b f]
      signed_normal_form_unique [of a b s e u f]
    by (auto simp: normal_digits_def split: if_splits)
  finally show ?thesis .
qed

theorem numbers_equivalent_iff_witness:
  "numbers_equivalent ''1.50'' ''15e-1''"
proof -
  let ?n = "\<lparr>ns_negative = False, ns_integer = ''1'', ns_fraction = Some ''50'', ns_exponent = None\<rparr>"
  let ?m = "\<lparr>ns_negative = False, ns_integer = ''15'', ns_fraction = None, ns_exponent = Some (False, Minus, ''1'')\<rparr>"
  have ok: "number_ok ?n" "number_ok ?m" "exponent_fits ?n" "exponent_fits ?m"
    by (simp_all add: number_ok_def digits_only_def is_ascii_digit_def exponent_fits_def exponent_value_def
        fraction_digits_def dval_Cons digit_def)
  have printed: "number_text ?n = ''1.50''" "number_text ?m = ''15e-1''"
    by (simp_all add: number_text_def mantissa_text_def sign_text_def)
  have "number_value ?n = number_value ?m"
    by (simp add: number_value_def exponent_value_def fraction_digits_def dval_Cons digit_def power_int_minus)
  with numbers_equivalent_iff [OF ok] printed show ?thesis by simp
qed

section \<open>Matching is a preorder, along every path\<close>

lemma numbers_equivalent_refl [simp]: "numbers_equivalent a a"
  by (simp add: numbers_equivalent_def)

lemma numbers_equivalent_trans:
  "numbers_equivalent a b \<Longrightarrow> numbers_equivalent b c \<Longrightarrow> numbers_equivalent a c"
  by (auto simp: numbers_equivalent_def split: option.splits)

text \<open>A parsed value: every object in it is an ordered map.\<close>

fun json_ok :: "json \<Rightarrow> bool" where
  "json_ok (JArr xs) \<longleftrightarrow> (\<forall>x\<in>set xs. json_ok x)"
| "json_ok (JObj m) \<longleftrightarrow> ordered_map m \<and> (\<forall>(k, v)\<in>set m. json_ok v)"
| "json_ok _ \<longleftrightarrow> True"

lemma elements_match_iff:
  "length xs = length ys \<Longrightarrow> elements_match xs ys \<longleftrightarrow> (\<forall>i<length xs. requested_json_matches (xs ! i) (ys ! i))"
proof (induction xs arbitrary: ys)
  case (Cons x xs)
  then obtain y ys' where "ys = y # ys'" by (cases ys) auto
  with Cons show ?case by (simp add: All_less_Suc2)
qed simp

lemma fields_match_iff:
  "fields_match m n \<longleftrightarrow>
     (\<forall>(k, v)\<in>set m. \<exists>u. get k n = Some u \<and> requested_json_matches v u)"
  by (induction m) (auto split: option.splits)

lemma requested_json_matches_refl: "json_ok v \<Longrightarrow> requested_json_matches v v"
proof (induction v rule: json_ok.induct)
  case (1 xs)
  then show ?case by (simp add: elements_match_iff)
next
  case (2 m)
  from 2(2) have m: "ordered_map m" "\<forall>(k, v)\<in>set m. json_ok v" by simp_all
  have "\<exists>u. get k m = Some u \<and> requested_json_matches v u" if kv: "(k, v) \<in> set m" for k v
  proof (intro exI conjI)
    show "get k m = Some v" using kv by (rule get_in_set [OF ordered_map_distinct [OF m(1)]])
    show "requested_json_matches v v" using "2.IH" [OF kv refl] kv m(2) by blast
  qed
  then show ?case by (auto simp: fields_match_iff)
qed simp_all

lemma requested_json_matches_trans:
  "requested_json_matches a b \<Longrightarrow> requested_json_matches b c \<Longrightarrow> requested_json_matches a c"
proof (induction a arbitrary: b c rule: json_ok.induct)
  case (1 xs)
  then obtain ys where b: "b = JArr ys" "length xs = length ys" "elements_match xs ys"
    by (auto split: json.splits)
  with 1(3) obtain zs where c: "c = JArr zs" "length ys = length zs" "elements_match ys zs"
    by (auto split: json.splits)
  have "requested_json_matches (xs ! i) (zs ! i)" if "i < length xs" for i
    using "1.IH" [of "xs ! i" "ys ! i" "zs ! i"] that b c by (simp add: elements_match_iff)
  with b c show ?case by (simp add: elements_match_iff)
next
  case (2 m)
  then obtain n where b: "b = JObj n" "fields_match m n" by (auto split: json.splits)
  with 2(3) obtain p where c: "c = JObj p" "fields_match n p" by (auto split: json.splits)
  have "\<exists>w. get k p = Some w \<and> requested_json_matches v w" if kv: "(k, v) \<in> set m" for k v
  proof -
    from b(2) kv obtain u where u: "get k n = Some u" "requested_json_matches v u"
      by (auto simp: fields_match_iff)
    from c(2) get_SomeD [OF u(1)] obtain w where "get k p = Some w" "requested_json_matches u w"
      by (auto simp: fields_match_iff)
    with "2.IH" [OF kv refl u(2)] show ?thesis by blast
  qed
  with c show ?case by (auto simp: fields_match_iff)
qed (auto split: json.splits intro: numbers_equivalent_trans)

text \<open>Down any path of object members and array positions.\<close>

lemma requested_json_matches_pointer:
  "requested_json_matches requested observed \<Longrightarrow> json_pointer path requested = Some v \<Longrightarrow>
     \<exists>u. json_pointer path observed = Some u \<and> requested_json_matches v u"
proof (induction path requested arbitrary: observed rule: json_pointer.induct)
  case (2 token path m)
  from 2(3) obtain x where x: "get token m = Some x" "json_pointer path x = Some v"
    by (auto simp: bind_eq_Some_conv)
  from 2(2) obtain n where n: "observed = JObj n" "fields_match m n" by (auto split: json.splits)
  with get_SomeD [OF x(1)] obtain y where y: "get token n = Some y" "requested_json_matches x y"
    by (auto simp: fields_match_iff)
  with "2.IH" [OF x(1) y(2) x(2)] n show ?case by simp
next
  case (3 token path xs)
  from 3(3) obtain i where i: "parse_unsigned u64_max token = Some i" "i < length xs"
    "json_pointer path (xs ! i) = Some v"
    "\<not> (is_prefix_of ''+'' token \<or> (is_prefix_of ''0'' token \<and> length token \<noteq> 1))"
    by (auto split: if_splits option.splits simp del: is_prefix_of.simps)
  from 3(2) obtain ys where ys: "observed = JArr ys" "length xs = length ys" "elements_match xs ys"
    by (auto split: json.splits)
  then have "requested_json_matches (xs ! i) (ys ! i)" using i(2) by (simp add: elements_match_iff)
  from "3.IH" [OF i(4) i(1) i(2) this i(3)] show ?case using i ys by (simp del: is_prefix_of.simps)
qed auto

text \<open>
  C19. A policy is called as requested only when it is, everywhere: at every path of the request
  the record read back has a value that matches the requested one, and each of the twelve
  optional settings that the request left out is absent from the record, or null. Matching keeps
  this meaning when it is chained, and every parsed value matches itself.
\<close>

theorem policy_match_is_faithful:
  assumes "firewall_policy_matches requested observed"
  shows "(\<forall>path v. json_pointer path requested = Some v \<longrightarrow>
            (\<exists>u. json_pointer path observed = Some u \<and> requested_json_matches v u))
         \<and> (\<forall>path\<in>set OPTIONAL_POLICY_PATHS. json_pointer path requested = None \<longrightarrow>
              json_pointer path observed \<in> {None, Some JNull})
         \<and> (\<forall>later. requested_json_matches observed later \<longrightarrow> requested_json_matches requested later)
         \<and> (json_ok observed \<longrightarrow> requested_json_matches observed observed)"
proof -
  from assms have m: "requested_json_matches requested observed"
    and opt: "\<forall>path\<in>set OPTIONAL_POLICY_PATHS. json_pointer path requested \<noteq> None
        \<or> (case json_pointer path observed of None \<Rightarrow> True | Some v \<Rightarrow> jnull v)"
    by (simp_all add: firewall_policy_matches_def list_all_iff)
  have null: "jnull v \<longleftrightarrow> v = JNull" for v by (cases v) simp_all
  have "json_pointer path observed \<in> {None, Some JNull}"
    if "path \<in> set OPTIONAL_POLICY_PATHS" "json_pointer path requested = None" for path
    using bspec [OF opt that(1)] that(2) by (cases "json_pointer path observed") (simp_all add: null)
  with m requested_json_matches_pointer requested_json_matches_trans requested_json_matches_refl
  show ?thesis by blast
qed

theorem policy_match_is_faithful_witness:
  "json_pointer [''name''] (JObj [(''description'', JNull), (''name'', JStr ''a'')]) = Some (JStr ''a'')"
proof -
  let ?r = "JObj [(''name'', JStr ''a'')]"
  let ?o = "JObj [(''description'', JNull), (''name'', JStr ''a'')]"
  have "firewall_policy_matches ?r ?o"
    by (simp add: firewall_policy_matches_def OPTIONAL_POLICY_PATHS_def)
  from policy_match_is_faithful [OF this, THEN conjunct1, rule_format, of "[''name'']" "JStr ''a''"]
  obtain u where "json_pointer [''name''] ?o = Some u" "requested_json_matches (JStr ''a'') u" by auto
  then show ?thesis by simp
qed

end
