(* ===== verification/Wire.thy ===== *)
theory Wire
  imports Tool_Firewall Json_Match
begin

text \<open>
  What reading back a typed request means. serde serializes the request types of the write tools
  to JSON objects (internally tagged enums, omitted optional fields); the record read back is
  compared with that JSON and may carry more properties. A \<open>wire\<close> type is one whose values can be
  read off any value that matches them: the reader ignores what it does not know, treats null as
  absent, and reads numbers by their value. The lemmas of the locales carry this through required
  and optional members and lists, so each request type adds its own properties only.
\<close>

named_theorems wire_reads "how members of a matching value are read back"

section \<open>Numbers\<close>

type_synonym i32 = "32 word"

definition read_int :: "string \<Rightarrow> int option" where
  "read_int t =
     Option.bind (decimal_parts t) (\<lambda>(neg, ds, e).
       if e < 0 then None else Some ((if neg then - 1 else 1) * int (dval ds * 10 ^ nat e)))"

definition json_int :: "json \<Rightarrow> int option" where
  "json_int v = (case v of JNum t \<Rightarrow> read_int t | _ \<Rightarrow> None)"

lemma is_ascii_digit_char_of: "(n :: nat) < 10 \<Longrightarrow> is_ascii_digit (char_of (48 + n))"
  by (simp add: is_ascii_digit_def)

lemma digit_char_of: "(n :: nat) < 10 \<Longrightarrow> digit (char_of (48 + n)) = n"
  by (simp add: digit_def)

lemma show_nat_digits: "list_all is_ascii_digit (show_nat n)"
proof (induction n rule: show_nat.induct)
  case (1 n)
  then show ?case by (subst show_nat.simps) (simp add: is_ascii_digit_char_of)
qed

lemma dval_show_nat: "dval (show_nat n) = n"
proof (induction n rule: show_nat.induct)
  case (1 n)
  then show ?case by (subst show_nat.simps) (auto simp: dval_append dval_Cons digit_char_of)
qed

lemma length_show_nat: "length (show_nat n) \<le> Suc n"
proof (induction n rule: show_nat.induct)
  case (1 n)
  show ?case
  proof (cases "n < 10")
    case False
    with 1 have "length (show_nat (n div 10)) \<le> Suc (n div 10)" by simp
    moreover have "Suc (Suc (n div 10)) \<le> Suc n" using False by linarith
    ultimately show ?thesis using False by (subst show_nat.simps) simp
  qed (subst show_nat.simps, simp)
qed

lemma read_int_show_nat:
  assumes "n < 2 ^ 120"
  shows "read_int (show_nat n) = Some (int n)" and "0 < n \<Longrightarrow> read_int (CHR ''-'' # show_nat n) = Some (- int n)"
proof -
  have gen: "read_int (number_text x) = Some (if s \<and> 0 < n then - int n else int n)"
    if x: "x = \<lparr>ns_negative = s, ns_integer = show_nat n, ns_fraction = None, ns_exponent = None\<rparr>" for x s
  proof -
    have ok: "number_ok x" using show_nat_digits [of n] by (simp add: x number_ok_def digits_only_def)
    have "length (show_nat n) < 2 ^ 125" using length_show_nat [of n] assms by simp
    then have fits: "exponent_fits x" by (simp add: x exponent_fits_def exponent_value_def fraction_digits_def)
    obtain neg sig e where parts: "decimal_parts (number_text x) = Some (neg, sig, e)"
      using exponent_fits_parts [OF ok fits] .
    let ?d = "show_nat n"
    let ?sig = "trim_end_matches CHR ''0'' (trim_start_matches CHR ''0'' ?d)"
    show ?thesis
    proof (cases "?sig = []")
      case True
      with trim_empty [OF True] have "n = 0" by (simp add: dval_show_nat)
      moreover have "decimal_parts (number_text x) = Some (False, [], 0)"
        using True decimal_parts_text [OF ok] by (simp add: x fraction_digits_def)
      ultimately show ?thesis by (simp add: read_int_def)
    next
      case False
      obtain ds k where d: "ds = ?sig" "k = length ?d - length (trim_end_matches CHR ''0'' ?d)" by blast
      from trim_split [OF show_nat_digits False] have nz: "normal_digits ds" and val: "n = dval ds * 10 ^ k"
        by (simp_all add: dval_show_nat d)
      from normal_digits_not_ten [OF nz] val have pos: "0 < n" by (cases "dval ds = 0") auto
      have "neg = s \<and> sig = ds \<and> e = int k"
        using parts False unfolding decimal_parts_text [OF ok]
        by (auto simp: x d fraction_digits_def exponent_value_def checked_i128_def bind_eq_Some_conv
            split: if_splits)
      with parts pos val show ?thesis by (simp add: read_int_def)
    qed
  qed
  from gen [OF refl, of False] show "read_int (show_nat n) = Some (int n)"
    by (simp add: number_text_def mantissa_text_def)
  from gen [OF refl, of True] show "0 < n \<Longrightarrow> read_int (CHR ''-'' # show_nat n) = Some (- int n)"
    by (simp add: number_text_def mantissa_text_def)
qed

lemma json_int_matches:
  assumes "\<bar>n\<bar> < 2 ^ 120" and "requested_json_matches (jint n) v"
  shows "json_int v = Some n"
proof -
  from assms(2) obtain t where v: "v = JNum t"
    and eq: "numbers_equivalent (if n < 0 then CHR ''-'' # show_nat (nat (- n)) else show_nat (nat n)) t"
    by (auto simp: jint_def split: json.splits)
  have self: "read_int (if n < 0 then CHR ''-'' # show_nat (nat (- n)) else show_nat (nat n)) = Some n"
    using assms(1) read_int_show_nat [of "nat n"] read_int_show_nat [of "nat (- n)"] by auto
  have "read_int t = read_int (if n < 0 then CHR ''-'' # show_nat (nat (- n)) else show_nat (nat n))"
    using eq by (auto simp: numbers_equivalent_def read_int_def split: option.splits)
  with self v show ?thesis by (simp add: json_int_def)
qed

section \<open>Objects\<close>

lemma in_set_fields:
  assumes "distinct (map fst fs)"
  shows "(k, v) \<in> set (set_fields fs) \<longleftrightarrow> (k, Some v) \<in> set fs"
proof -
  have "(k, v) \<in> set (set_fields fs) \<longleftrightarrow> get k (set_fields fs) = Some v"
    using get_in_set [OF ordered_map_distinct [OF ordered_set_fields]] get_SomeD by metis
  also have "\<dots> \<longleftrightarrow> (k, Some v) \<in> set fs"
    using assms by (auto simp: get_set_fields bind_eq_Some_conv dest: map_of_SomeD)
  finally show ?thesis .
qed

text \<open>A member that is set is there and matches.\<close>

definition member_matches :: "json \<Rightarrow> string \<times> json option \<Rightarrow> bool" where
  "member_matches v = (\<lambda>(k, x). case x of
     None \<Rightarrow> True | Some w \<Rightarrow> (case jget k v of None \<Rightarrow> False | Some u \<Rightarrow> requested_json_matches w u))"

lemma object_matches:
  assumes "distinct (map fst fs)"
  shows "requested_json_matches (JObj (set_fields fs)) v \<longleftrightarrow>
           jobj v \<noteq> None \<and> list_all (member_matches v) fs"
proof (cases v)
  case (JObj m)
  have member: "member_matches v (k, x) \<longleftrightarrow>
      (\<forall>w. x = Some w \<longrightarrow> (\<exists>u. get k m = Some u \<and> requested_json_matches w u))" for k x
    by (auto simp: member_matches_def JObj simp del: get_eq_None split: option.split)
  have "requested_json_matches (JObj (set_fields fs)) v \<longleftrightarrow>
      (\<forall>k w. (k, Some w) \<in> set fs \<longrightarrow> (\<exists>u. get k m = Some u \<and> requested_json_matches w u))"
    using in_set_fields [OF assms] unfolding JObj by (fastforce simp: fields_match_iff)
  also have "\<dots> \<longleftrightarrow> list_all (member_matches v) fs"
    by (auto simp: list_all_iff member)
  finally show ?thesis by (simp add: JObj)
qed simp_all

lemma matches_null [simp]: "requested_json_matches x JNull \<longleftrightarrow> x = JNull"
  by (cases x) simp_all

text \<open>Members of an object, read as required, optional or listed.\<close>

definition required :: "string \<Rightarrow> (json \<Rightarrow> 'a option) \<Rightarrow> json \<Rightarrow> 'a option" where
  "required k dec v = Option.bind (jget k v) dec"

definition absent :: "string \<Rightarrow> json \<Rightarrow> bool" where
  "absent k v \<longleftrightarrow> (case jget k v of None \<Rightarrow> True | Some u \<Rightarrow> jnull u)"

definition optional :: "string \<Rightarrow> (json \<Rightarrow> 'a option) \<Rightarrow> json \<Rightarrow> 'a option option" where
  "optional k dec v =
     (if absent k v then Some None else map_option Some (required k dec v))"

lemma optional_absent [simp]: "absent k v \<Longrightarrow> optional k dec v = Some None"
  by (simp add: optional_def)

definition listed :: "(json \<Rightarrow> 'a option) \<Rightarrow> json \<Rightarrow> 'a list option" where
  "listed dec v = (case v of JArr xs \<Rightarrow> those (map dec xs) | _ \<Rightarrow> None)"

definition json_list :: "('a \<Rightarrow> json) \<Rightarrow> 'a list \<Rightarrow> json" where
  "json_list enc xs = JArr (map enc xs)"

text \<open>
  The contract: a value that matches the serialized form, and in which the optional members it
  omits are absent, is read back as the original.
\<close>

locale omitting_wire =
  fixes enc :: "'a \<Rightarrow> json" and dec :: "json \<Rightarrow> 'a option" and omits :: "'a \<Rightarrow> json \<Rightarrow> bool"
  assumes reads: "requested_json_matches (enc x) v \<Longrightarrow> omits x v \<Longrightarrow> dec v = Some x"
    and not_null: "enc x \<noteq> JNull"
begin

lemma required_reads:
  "member_matches v (k, Some (enc x)) \<Longrightarrow> (\<And>u. jget k v = Some u \<Longrightarrow> omits x u) \<Longrightarrow>
     required k dec v = Some x"
  by (auto simp: member_matches_def required_def reads split: option.splits)

lemma optional_reads:
  assumes "member_matches v (k, map_option enc o1)"
    and "o1 = None \<Longrightarrow> absent k v"
    and "\<And>x u. o1 = Some x \<Longrightarrow> jget k v = Some u \<Longrightarrow> omits x u"
  shows "optional k dec v = Some o1"
proof (cases o1)
  case None
  with assms(2) show ?thesis by (simp add: optional_def)
next
  case (Some x)
  with assms(1) obtain u where u: "jget k v = Some u" "requested_json_matches (enc x) u"
    by (auto simp: member_matches_def split: option.splits)
  with not_null [of x] have "\<not> absent k v" by (cases u) (auto simp: absent_def)
  with u assms(3) Some show ?thesis by (simp add: optional_def required_def reads)
qed

lemma absent_None: "member_matches v (k, map_option enc o1) \<Longrightarrow> absent k v \<Longrightarrow> o1 = None"
  using not_null by (cases o1) (auto simp: member_matches_def absent_def split: option.splits elim!: jnull.elims)

end

locale wire =
  fixes enc :: "'a \<Rightarrow> json" and dec :: "json \<Rightarrow> 'a option"
  assumes exact: "requested_json_matches (enc x) v \<Longrightarrow> dec v = Some x"
    and never_null: "enc x \<noteq> JNull"
begin

lemma listed_exact:
  assumes "requested_json_matches (json_list enc xs) v"
  shows "listed dec v = Some xs"
proof -
  from assms obtain ys where v: "v = JArr ys" "length xs = length ys" "elements_match (map enc xs) ys"
    by (auto simp: json_list_def split: json.splits)
  from v(2,3) have "those (map dec ys) = Some xs"
  proof (induction xs ys rule: list_induct2)
    case (Cons x xs y ys)
    then show ?case using exact [of x y] by simp
  qed simp
  with v show ?thesis by (simp add: listed_def)
qed

end

sublocale wire \<subseteq> omitting_wire enc dec "\<lambda>_ _. True"
  by unfold_locales (use exact never_null in auto)

context wire
begin

lemma exact_required: "member_matches v (k, Some (enc x)) \<Longrightarrow> required k dec v = Some x"
  by (rule required_reads) simp_all

lemma exact_optional:
  "member_matches v (k, map_option enc o1) \<Longrightarrow> o1 = None \<longrightarrow> absent k v \<Longrightarrow> optional k dec v = Some o1"
  by (rule optional_reads) simp_all

lemma exact_member:
  "member_matches v (k, Some (enc x)) \<Longrightarrow> required k dec v = Some x \<and> optional k dec v = Some (Some x)"
  using exact_required exact_optional [of v k "Some x"] by simp

lemma list_wire: "wire (json_list enc) (listed dec)"
  by unfold_locales (rule listed_exact, simp_all add: json_list_def)

end

text \<open>Internally tagged enums: \<open>#[serde(tag = "...")]\<close>.\<close>

definition tagged :: "string \<Rightarrow> string \<Rightarrow> (string \<times> json option) list \<Rightarrow> json" where
  "tagged tag name fs = JObj (set_fields ((tag, Some (JStr name)) # fs))"

definition tag_of :: "string \<Rightarrow> json \<Rightarrow> string option" where
  "tag_of tag v = Option.bind (jget tag v) jstr"

lemma tagged_matches:
  assumes "distinct (tag # map fst fs)"
  shows "requested_json_matches (tagged tag name fs) v \<longleftrightarrow>
           tag_of tag v = Some name \<and> list_all (member_matches v) fs"
proof -
  have "distinct (map fst ((tag, Some (JStr name)) # fs))" using assms by simp
  note this [THEN object_matches, of v]
  moreover have "jobj v \<noteq> None \<and> member_matches v (tag, Some (JStr name)) \<longleftrightarrow> tag_of tag v = Some name"
    by (cases v) (auto simp: member_matches_def tag_of_def bind_eq_Some_conv simp del: get_eq_None
        split: option.splits elim: jstr.elims)
  ultimately show ?thesis by (auto simp: tagged_def simp del: requested_json_matches.simps)
qed

lemma tagged_not_null [simp]: "tagged tag name fs \<noteq> JNull"
  by (simp add: tagged_def)

text \<open>Enums without data: their names, looked up in the table of the variants.\<close>

definition variant_of :: "(string \<times> 'a) list \<Rightarrow> json \<Rightarrow> 'a option" where
  "variant_of variants v = Option.bind (jstr v) (\<lambda>name. get name variants)"

lemma variants_wire:
  assumes "\<And>x. get (name x) variants = Some x"
  shows "wire (\<lambda>x. JStr (name x)) (variant_of variants)"
  by unfold_locales (simp_all add: variant_of_def assms)

definition app2 :: "('a \<Rightarrow> 'b \<Rightarrow> 'c) \<Rightarrow> 'a option \<Rightarrow> 'b option \<Rightarrow> 'c option" where
  "app2 f a b = Option.bind a (\<lambda>x. map_option (f x) b)"

definition app3 :: "('a \<Rightarrow> 'b \<Rightarrow> 'c \<Rightarrow> 'd) \<Rightarrow> 'a option \<Rightarrow> 'b option \<Rightarrow> 'c option \<Rightarrow> 'd option" where
  "app3 f a b c = Option.bind a (\<lambda>x. app2 (f x) b c)"

definition app4 ::
  "('a \<Rightarrow> 'b \<Rightarrow> 'c \<Rightarrow> 'd \<Rightarrow> 'e) \<Rightarrow> 'a option \<Rightarrow> 'b option \<Rightarrow> 'c option \<Rightarrow> 'd option \<Rightarrow> 'e option" where
  "app4 f a b c d = Option.bind a (\<lambda>x. app3 (f x) b c d)"

lemma app_Some [simp]:
  "app2 f (Some x) (Some y) = Some (f x y)" "app3 g (Some x) (Some y) (Some z) = Some (g x y z)"
  "app4 h (Some x) (Some y) (Some z) (Some u) = Some (h x y z u)"
  by (simp_all add: app2_def app3_def app4_def)

text \<open>The scalars.\<close>

definition json_i32 :: "json \<Rightarrow> i32 option" where
  "json_i32 v =
     Option.bind (json_int v) (\<lambda>n. if - (2 ^ 31) \<le> n \<and> n < 2 ^ 31 then Some (word_of_int n) else None)"

definition i32_json :: "i32 \<Rightarrow> json" where
  "i32_json w = jint (sint w)"

definition word_json :: "'l::len word \<Rightarrow> json" where
  "word_json w = jint (uint w)"

definition json_word :: "json \<Rightarrow> 'l::len word option" where
  "json_word v =
     Option.bind (json_int v) (\<lambda>n. if 0 \<le> n \<and> n < 2 ^ LENGTH('l) then Some (word_of_int n) else None)"

interpretation string_wire: wire JStr jstr
  by unfold_locales auto

interpretation bool_wire: wire JBool jbool
  by unfold_locales auto

interpretation i32_wire: wire i32_json json_i32
proof
  fix w :: i32 and v
  have r: "- (2 ^ 31) \<le> sint w" "sint w < 2 ^ 31"
    using sint_ge [of w] sint_lt [of w] by simp_all
  assume "requested_json_matches (i32_json w) v"
  with json_int_matches [of "sint w" v] r have "json_int v = Some (sint w)" by (simp add: i32_json_def)
  with r show "json_i32 v = Some w" by (simp add: json_i32_def)
next
  show "i32_json w \<noteq> JNull" for w by (simp add: i32_json_def jint_def)
qed

lemma small_word_reads:
  fixes w :: "'l::len word"
  assumes "LENGTH('l) \<le> 64" and "requested_json_matches (word_json w) v"
  shows "json_word v = Some w"
proof -
  have r: "0 \<le> uint w" "uint w < 2 ^ LENGTH('l)" by simp_all
  moreover have "(2 :: int) ^ LENGTH('l) \<le> 2 ^ 64" using assms(1) by (intro power_increasing) simp_all
  ultimately have "uint w < 2 ^ 64" by linarith
  then have "\<bar>uint w\<bar> < 2 ^ 120" by simp
  from json_int_matches [OF this] assms(2) r show ?thesis by (simp add: word_json_def json_word_def)
qed

interpretation u8_wire: wire "word_json :: u8 \<Rightarrow> json" json_word
  by unfold_locales (auto simp: small_word_reads, simp add: word_json_def jint_def)

interpretation u16_wire: wire "word_json :: u16 \<Rightarrow> json" json_word
  by unfold_locales (auto simp: small_word_reads, simp add: word_json_def jint_def)

interpretation u32_wire: wire "word_json :: u32 \<Rightarrow> json" json_word
  by unfold_locales (auto simp: small_word_reads, simp add: word_json_def jint_def)

interpretation strings_wire: wire "json_list JStr" "listed jstr"
  by (rule string_wire.list_wire)

interpretation i32s_wire: wire "json_list i32_json" "listed json_i32"
  by (rule i32_wire.list_wire)

interpretation u16s_wire: wire "json_list (word_json :: u16 \<Rightarrow> json)" "listed json_word"
  by (rule u16_wire.list_wire)

lemmas scalar_reads [wire_reads] =
  string_wire.exact_member bool_wire.exact_member i32_wire.exact_member u8_wire.exact_member
  u16_wire.exact_member u32_wire.exact_member strings_wire.exact_member i32s_wire.exact_member
  u16s_wire.exact_member

end
