(* ===== verification/Firewall_Request.thy ===== *)
theory Firewall_Request
  imports Wire
begin

text \<open>
  The typed firewall policy request (\<open>crates/unifi-mcp/src/tools/firewall_policy_request.rs\<close>): its
  enums and structs, the JSON that serde serializes them to, and for each type a reader of the
  record the controller returns. The theorem at the end says that a record which passes \<open>matches\<close>
  reads back as the request, in every branch of the request type; the twelve optional paths of
  \<open>matches\<close> are exactly what the omitted members need.
\<close>

section \<open>Leaves\<close>

datatype connection_state =
    StateNew | StateInvalid | StateEstablished | StateRelated

primrec connection_state_name :: "connection_state \<Rightarrow> string" where
  "connection_state_name StateNew = ''NEW''"
| "connection_state_name StateInvalid = ''INVALID''"
| "connection_state_name StateEstablished = ''ESTABLISHED''"
| "connection_state_name StateRelated = ''RELATED''"

definition connection_state_variants :: "(string \<times> connection_state) list" where
  "connection_state_variants =
     [(''NEW'', StateNew), (''INVALID'', StateInvalid), (''ESTABLISHED'', StateEstablished),
      (''RELATED'', StateRelated)]"

lemma get_connection_state_variants: "get (connection_state_name x) connection_state_variants = Some x"
  by (cases x) (simp_all add: connection_state_variants_def)

interpretation connection_state: wire "\<lambda>x. JStr (connection_state_name x)" "variant_of connection_state_variants"
  by (rule variants_wire) (rule get_connection_state_variants)

datatype day =
    Monday | Tuesday | Wednesday | Thursday | Friday | Saturday | Sunday

primrec day_name :: "day \<Rightarrow> string" where
  "day_name Monday = ''MONDAY''"
| "day_name Tuesday = ''TUESDAY''"
| "day_name Wednesday = ''WEDNESDAY''"
| "day_name Thursday = ''THURSDAY''"
| "day_name Friday = ''FRIDAY''"
| "day_name Saturday = ''SATURDAY''"
| "day_name Sunday = ''SUNDAY''"

definition day_variants :: "(string \<times> day) list" where
  "day_variants =
     [(''MONDAY'', Monday), (''TUESDAY'', Tuesday), (''WEDNESDAY'', Wednesday),
      (''THURSDAY'', Thursday), (''FRIDAY'', Friday), (''SATURDAY'', Saturday), (''SUNDAY'', Sunday)]"

lemma get_day_variants: "get (day_name x) day_variants = Some x"
  by (cases x) (simp_all add: day_variants_def)

interpretation day: wire "\<lambda>x. JStr (day_name x)" "variant_of day_variants"
  by (rule variants_wire) (rule get_day_variants)

datatype ipsec_filter =
    MatchEncrypted | MatchNotEncrypted

primrec ipsec_filter_name :: "ipsec_filter \<Rightarrow> string" where
  "ipsec_filter_name MatchEncrypted = ''MATCH_ENCRYPTED''"
| "ipsec_filter_name MatchNotEncrypted = ''MATCH_NOT_ENCRYPTED''"

definition ipsec_filter_variants :: "(string \<times> ipsec_filter) list" where
  "ipsec_filter_variants =
     [(''MATCH_ENCRYPTED'', MatchEncrypted), (''MATCH_NOT_ENCRYPTED'', MatchNotEncrypted)]"

lemma get_ipsec_filter_variants: "get (ipsec_filter_name x) ipsec_filter_variants = Some x"
  by (cases x) (simp_all add: ipsec_filter_variants_def)

interpretation ipsec_filter: wire "\<lambda>x. JStr (ipsec_filter_name x)" "variant_of ipsec_filter_variants"
  by (rule variants_wire) (rule get_ipsec_filter_variants)

datatype (plugins only: size) icmp_type_name =
    IcmpAddressMaskReply | IcmpAddressMaskRequest | IcmpCommunicationProhibited |
    IcmpDestinationUnreachable | IcmpEchoReply | IcmpEchoRequest | IcmpFragmentationNeeded |
    IcmpHostPrecedenceViolation | IcmpHostProhibited | IcmpHostRedirect | IcmpHostUnknown |
    IcmpHostUnreachable | IcmpIpHeaderBad | IcmpNetworkProhibited | IcmpNetworkRedirect |
    IcmpNetworkUnknown | IcmpNetworkUnreachable | IcmpParameterProblem | IcmpPortUnreachable |
    IcmpPrecedenceCutoff | IcmpProtocolUnreachable | IcmpRedirect | IcmpRequiredOptionMissing |
    IcmpRouterAdvertisement | IcmpRouterSolicitation | IcmpSourceQuench | IcmpSourceRouteFailed |
    IcmpTimeExceeded | IcmpTimestampReply | IcmpTimestampRequest | IcmpTosHostRedirect |
    IcmpTosHostUnreachable | IcmpTosNetworkRedirect | IcmpTosNetworkUnreachable |
    IcmpTtlZeroDuringReassembly | IcmpTtlZeroDuringTransit

primrec icmp_type_name_name :: "icmp_type_name \<Rightarrow> string" where
  "icmp_type_name_name IcmpAddressMaskReply = ''ADDRESS_MASK_REPLY''"
| "icmp_type_name_name IcmpAddressMaskRequest = ''ADDRESS_MASK_REQUEST''"
| "icmp_type_name_name IcmpCommunicationProhibited = ''COMMUNICATION_PROHIBITED''"
| "icmp_type_name_name IcmpDestinationUnreachable = ''DESTINATION_UNREACHABLE''"
| "icmp_type_name_name IcmpEchoReply = ''ECHO_REPLY''"
| "icmp_type_name_name IcmpEchoRequest = ''ECHO_REQUEST''"
| "icmp_type_name_name IcmpFragmentationNeeded = ''FRAGMENTATION_NEEDED''"
| "icmp_type_name_name IcmpHostPrecedenceViolation = ''HOST_PRECEDENCE_VIOLATION''"
| "icmp_type_name_name IcmpHostProhibited = ''HOST_PROHIBITED''"
| "icmp_type_name_name IcmpHostRedirect = ''HOST_REDIRECT''"
| "icmp_type_name_name IcmpHostUnknown = ''HOST_UNKNOWN''"
| "icmp_type_name_name IcmpHostUnreachable = ''HOST_UNREACHABLE''"
| "icmp_type_name_name IcmpIpHeaderBad = ''IP_HEADER_BAD''"
| "icmp_type_name_name IcmpNetworkProhibited = ''NETWORK_PROHIBITED''"
| "icmp_type_name_name IcmpNetworkRedirect = ''NETWORK_REDIRECT''"
| "icmp_type_name_name IcmpNetworkUnknown = ''NETWORK_UNKNOWN''"
| "icmp_type_name_name IcmpNetworkUnreachable = ''NETWORK_UNREACHABLE''"
| "icmp_type_name_name IcmpParameterProblem = ''PARAMETER_PROBLEM''"
| "icmp_type_name_name IcmpPortUnreachable = ''PORT_UNREACHABLE''"
| "icmp_type_name_name IcmpPrecedenceCutoff = ''PRECEDENCE_CUTOFF''"
| "icmp_type_name_name IcmpProtocolUnreachable = ''PROTOCOL_UNREACHABLE''"
| "icmp_type_name_name IcmpRedirect = ''REDIRECT''"
| "icmp_type_name_name IcmpRequiredOptionMissing = ''REQUIRED_OPTION_MISSING''"
| "icmp_type_name_name IcmpRouterAdvertisement = ''ROUTER_ADVERTISEMENT''"
| "icmp_type_name_name IcmpRouterSolicitation = ''ROUTER_SOLICITATION''"
| "icmp_type_name_name IcmpSourceQuench = ''SOURCE_QUENCH''"
| "icmp_type_name_name IcmpSourceRouteFailed = ''SOURCE_ROUTE_FAILED''"
| "icmp_type_name_name IcmpTimeExceeded = ''TIME_EXCEEDED''"
| "icmp_type_name_name IcmpTimestampReply = ''TIMESTAMP_REPLY''"
| "icmp_type_name_name IcmpTimestampRequest = ''TIMESTAMP_REQUEST''"
| "icmp_type_name_name IcmpTosHostRedirect = ''TOS_HOST_REDIRECT''"
| "icmp_type_name_name IcmpTosHostUnreachable = ''TOS_HOST_UNREACHABLE''"
| "icmp_type_name_name IcmpTosNetworkRedirect = ''TOS_NETWORK_REDIRECT''"
| "icmp_type_name_name IcmpTosNetworkUnreachable = ''TOS_NETWORK_UNREACHABLE''"
| "icmp_type_name_name IcmpTtlZeroDuringReassembly = ''TTL_ZERO_DURING_REASSEMBLY''"
| "icmp_type_name_name IcmpTtlZeroDuringTransit = ''TTL_ZERO_DURING_TRANSIT''"

definition icmp_type_name_variants :: "(string \<times> icmp_type_name) list" where
  "icmp_type_name_variants =
     [(''ADDRESS_MASK_REPLY'', IcmpAddressMaskReply),
      (''ADDRESS_MASK_REQUEST'', IcmpAddressMaskRequest),
      (''COMMUNICATION_PROHIBITED'', IcmpCommunicationProhibited),
      (''DESTINATION_UNREACHABLE'', IcmpDestinationUnreachable), (''ECHO_REPLY'', IcmpEchoReply),
      (''ECHO_REQUEST'', IcmpEchoRequest), (''FRAGMENTATION_NEEDED'', IcmpFragmentationNeeded),
      (''HOST_PRECEDENCE_VIOLATION'', IcmpHostPrecedenceViolation),
      (''HOST_PROHIBITED'', IcmpHostProhibited), (''HOST_REDIRECT'', IcmpHostRedirect),
      (''HOST_UNKNOWN'', IcmpHostUnknown), (''HOST_UNREACHABLE'', IcmpHostUnreachable),
      (''IP_HEADER_BAD'', IcmpIpHeaderBad), (''NETWORK_PROHIBITED'', IcmpNetworkProhibited),
      (''NETWORK_REDIRECT'', IcmpNetworkRedirect), (''NETWORK_UNKNOWN'', IcmpNetworkUnknown),
      (''NETWORK_UNREACHABLE'', IcmpNetworkUnreachable),
      (''PARAMETER_PROBLEM'', IcmpParameterProblem), (''PORT_UNREACHABLE'', IcmpPortUnreachable),
      (''PRECEDENCE_CUTOFF'', IcmpPrecedenceCutoff),
      (''PROTOCOL_UNREACHABLE'', IcmpProtocolUnreachable), (''REDIRECT'', IcmpRedirect),
      (''REQUIRED_OPTION_MISSING'', IcmpRequiredOptionMissing),
      (''ROUTER_ADVERTISEMENT'', IcmpRouterAdvertisement),
      (''ROUTER_SOLICITATION'', IcmpRouterSolicitation), (''SOURCE_QUENCH'', IcmpSourceQuench),
      (''SOURCE_ROUTE_FAILED'', IcmpSourceRouteFailed), (''TIME_EXCEEDED'', IcmpTimeExceeded),
      (''TIMESTAMP_REPLY'', IcmpTimestampReply), (''TIMESTAMP_REQUEST'', IcmpTimestampRequest),
      (''TOS_HOST_REDIRECT'', IcmpTosHostRedirect),
      (''TOS_HOST_UNREACHABLE'', IcmpTosHostUnreachable),
      (''TOS_NETWORK_REDIRECT'', IcmpTosNetworkRedirect),
      (''TOS_NETWORK_UNREACHABLE'', IcmpTosNetworkUnreachable),
      (''TTL_ZERO_DURING_REASSEMBLY'', IcmpTtlZeroDuringReassembly),
      (''TTL_ZERO_DURING_TRANSIT'', IcmpTtlZeroDuringTransit)]"

lemma get_icmp_type_name_variants: "get (icmp_type_name_name x) icmp_type_name_variants = Some x"
  by (cases x) (simp_all add: icmp_type_name_variants_def)

interpretation icmp_type_name: wire "\<lambda>x. JStr (icmp_type_name_name x)" "variant_of icmp_type_name_variants"
  by (rule variants_wire) (rule get_icmp_type_name_variants)

datatype (plugins only: size) icmpv6_type_name =
    Icmpv6AddressUnreachable | Icmpv6BadHeader | Icmpv6BeyondScope | Icmpv6CommunicationProhibited |
    Icmpv6DestinationUnreachable | Icmpv6EchoReply | Icmpv6EchoRequest | Icmpv6FailedPolicy |
    Icmpv6NeighborAdvertisement | Icmpv6NeighborSolicitation | Icmpv6NoRoute | Icmpv6PacketTooBig |
    Icmpv6ParameterProblem | Icmpv6PortUnreachable | Icmpv6Redirect | Icmpv6RejectRoute |
    Icmpv6RouterAdvertisement | Icmpv6RouterSolicitation | Icmpv6TimeExceeded |
    Icmpv6TtlZeroDuringReassembly | Icmpv6TtlZeroDuringTransit | Icmpv6UnknownHeaderType |
    Icmpv6UnknownOption

primrec icmpv6_type_name_name :: "icmpv6_type_name \<Rightarrow> string" where
  "icmpv6_type_name_name Icmpv6AddressUnreachable = ''ADDRESS_UNREACHABLE''"
| "icmpv6_type_name_name Icmpv6BadHeader = ''BAD_HEADER''"
| "icmpv6_type_name_name Icmpv6BeyondScope = ''BEYOND_SCOPE''"
| "icmpv6_type_name_name Icmpv6CommunicationProhibited = ''COMMUNICATION_PROHIBITED''"
| "icmpv6_type_name_name Icmpv6DestinationUnreachable = ''DESTINATION_UNREACHABLE''"
| "icmpv6_type_name_name Icmpv6EchoReply = ''ECHO_REPLY''"
| "icmpv6_type_name_name Icmpv6EchoRequest = ''ECHO_REQUEST''"
| "icmpv6_type_name_name Icmpv6FailedPolicy = ''FAILED_POLICY''"
| "icmpv6_type_name_name Icmpv6NeighborAdvertisement = ''NEIGHBOR_ADVERTISEMENT''"
| "icmpv6_type_name_name Icmpv6NeighborSolicitation = ''NEIGHBOR_SOLICITATION''"
| "icmpv6_type_name_name Icmpv6NoRoute = ''NO_ROUTE''"
| "icmpv6_type_name_name Icmpv6PacketTooBig = ''PACKET_TOO_BIG''"
| "icmpv6_type_name_name Icmpv6ParameterProblem = ''PARAMETER_PROBLEM''"
| "icmpv6_type_name_name Icmpv6PortUnreachable = ''PORT_UNREACHABLE''"
| "icmpv6_type_name_name Icmpv6Redirect = ''REDIRECT''"
| "icmpv6_type_name_name Icmpv6RejectRoute = ''REJECT_ROUTE''"
| "icmpv6_type_name_name Icmpv6RouterAdvertisement = ''ROUTER_ADVERTISEMENT''"
| "icmpv6_type_name_name Icmpv6RouterSolicitation = ''ROUTER_SOLICITATION''"
| "icmpv6_type_name_name Icmpv6TimeExceeded = ''TIME_EXCEEDED''"
| "icmpv6_type_name_name Icmpv6TtlZeroDuringReassembly = ''TTL_ZERO_DURING_REASSEMBLY''"
| "icmpv6_type_name_name Icmpv6TtlZeroDuringTransit = ''TTL_ZERO_DURING_TRANSIT''"
| "icmpv6_type_name_name Icmpv6UnknownHeaderType = ''UNKNOWN_HEADER_TYPE''"
| "icmpv6_type_name_name Icmpv6UnknownOption = ''UNKNOWN_OPTION''"

definition icmpv6_type_name_variants :: "(string \<times> icmpv6_type_name) list" where
  "icmpv6_type_name_variants =
     [(''ADDRESS_UNREACHABLE'', Icmpv6AddressUnreachable), (''BAD_HEADER'', Icmpv6BadHeader),
      (''BEYOND_SCOPE'', Icmpv6BeyondScope),
      (''COMMUNICATION_PROHIBITED'', Icmpv6CommunicationProhibited),
      (''DESTINATION_UNREACHABLE'', Icmpv6DestinationUnreachable),
      (''ECHO_REPLY'', Icmpv6EchoReply), (''ECHO_REQUEST'', Icmpv6EchoRequest),
      (''FAILED_POLICY'', Icmpv6FailedPolicy),
      (''NEIGHBOR_ADVERTISEMENT'', Icmpv6NeighborAdvertisement),
      (''NEIGHBOR_SOLICITATION'', Icmpv6NeighborSolicitation), (''NO_ROUTE'', Icmpv6NoRoute),
      (''PACKET_TOO_BIG'', Icmpv6PacketTooBig), (''PARAMETER_PROBLEM'', Icmpv6ParameterProblem),
      (''PORT_UNREACHABLE'', Icmpv6PortUnreachable), (''REDIRECT'', Icmpv6Redirect),
      (''REJECT_ROUTE'', Icmpv6RejectRoute), (''ROUTER_ADVERTISEMENT'', Icmpv6RouterAdvertisement),
      (''ROUTER_SOLICITATION'', Icmpv6RouterSolicitation), (''TIME_EXCEEDED'', Icmpv6TimeExceeded),
      (''TTL_ZERO_DURING_REASSEMBLY'', Icmpv6TtlZeroDuringReassembly),
      (''TTL_ZERO_DURING_TRANSIT'', Icmpv6TtlZeroDuringTransit),
      (''UNKNOWN_HEADER_TYPE'', Icmpv6UnknownHeaderType), (''UNKNOWN_OPTION'', Icmpv6UnknownOption)]"

lemma get_icmpv6_type_name_variants: "get (icmpv6_type_name_name x) icmpv6_type_name_variants = Some x"
  by (cases x) (simp_all add: icmpv6_type_name_variants_def)

interpretation icmpv6_type_name: wire "\<lambda>x. JStr (icmpv6_type_name_name x)" "variant_of icmpv6_type_name_variants"
  by (rule variants_wire) (rule get_icmpv6_type_name_variants)


datatype firewall_action = ActionAllow bool | ActionBlock | ActionReject

primrec firewall_action_json :: "firewall_action \<Rightarrow> json" where
  "firewall_action_json (ActionAllow allow_return_traffic) =
     tagged ''type'' ''ALLOW'' [(''allowReturnTraffic'', Some (JBool allow_return_traffic))]"
| "firewall_action_json ActionBlock = tagged ''type'' ''BLOCK'' []"
| "firewall_action_json ActionReject = tagged ''type'' ''REJECT'' []"

definition firewall_action_of :: "json \<Rightarrow> firewall_action option" where
  "firewall_action_of v =
     (if tag_of ''type'' v = Some ''ALLOW''
      then map_option ActionAllow (required ''allowReturnTraffic'' jbool v)
      else if tag_of ''type'' v = Some ''BLOCK'' then Some ActionBlock
      else if tag_of ''type'' v = Some ''REJECT'' then Some ActionReject else None)"

interpretation firewall_action: wire firewall_action_json firewall_action_of
proof
  show "requested_json_matches (firewall_action_json x) v \<Longrightarrow> firewall_action_of v = Some x" for x v
    by (cases x) (auto simp: tagged_matches firewall_action_of_def dest!: wire_reads)
  show "firewall_action_json x \<noteq> JNull" for x by (cases x) simp_all
qed

datatype port_matching = PortNumber i32 | PortNumberRange i32 i32

primrec port_matching_json :: "port_matching \<Rightarrow> json" where
  "port_matching_json (PortNumber n) = tagged ''type'' ''PORT_NUMBER'' [(''value'', Some (i32_json n))]"
| "port_matching_json (PortNumberRange start stop) =
     tagged ''type'' ''PORT_NUMBER_RANGE'' [(''start'', Some (i32_json start)), (''stop'', Some (i32_json stop))]"

definition port_matching_of :: "json \<Rightarrow> port_matching option" where
  "port_matching_of v =
     (if tag_of ''type'' v = Some ''PORT_NUMBER'' then map_option PortNumber (required ''value'' json_i32 v)
      else if tag_of ''type'' v = Some ''PORT_NUMBER_RANGE''
      then app2 PortNumberRange (required ''start'' json_i32 v) (required ''stop'' json_i32 v)
      else None)"

interpretation port_matching: wire port_matching_json port_matching_of
proof
  show "requested_json_matches (port_matching_json x) v \<Longrightarrow> port_matching_of v = Some x" for x v
    by (cases x) (auto simp: tagged_matches port_matching_of_def dest!: wire_reads)
  show "port_matching_json x \<noteq> JNull" for x by (cases x) simp_all
qed

interpretation port_matchings: wire "json_list port_matching_json" "listed port_matching_of"
  by (rule port_matching.list_wire)

datatype port_filter = Ports bool "port_matching list" | PortMatchingList bool string

primrec port_filter_json :: "port_filter \<Rightarrow> json" where
  "port_filter_json (Ports match_opposite items) =
     tagged ''type'' ''PORTS''
       [(''matchOpposite'', Some (JBool match_opposite)), (''items'', Some (json_list port_matching_json items))]"
| "port_filter_json (PortMatchingList match_opposite list_id) =
     tagged ''type'' ''TRAFFIC_MATCHING_LIST''
       [(''matchOpposite'', Some (JBool match_opposite)), (''trafficMatchingListId'', Some (JStr list_id))]"

definition port_filter_of :: "json \<Rightarrow> port_filter option" where
  "port_filter_of v =
     (if tag_of ''type'' v = Some ''PORTS''
      then app2 Ports (required ''matchOpposite'' jbool v) (required ''items'' (listed port_matching_of) v)
      else if tag_of ''type'' v = Some ''TRAFFIC_MATCHING_LIST''
      then app2 PortMatchingList (required ''matchOpposite'' jbool v) (required ''trafficMatchingListId'' jstr v)
      else None)"

declare port_matchings.exact_required [wire_reads]

interpretation port_filter: wire port_filter_json port_filter_of
proof
  show "requested_json_matches (port_filter_json x) v \<Longrightarrow> port_filter_of v = Some x" for x v
    by (cases x) (auto simp: tagged_matches port_filter_of_def dest!: wire_reads)
  show "port_filter_json x \<noteq> JNull" for x by (cases x) simp_all
qed

datatype ip_matching = IpAddress string | IpAddressRange string string | Subnet string

primrec ip_matching_json :: "ip_matching \<Rightarrow> json" where
  "ip_matching_json (IpAddress a) = tagged ''type'' ''IP_ADDRESS'' [(''value'', Some (JStr a))]"
| "ip_matching_json (IpAddressRange start stop) =
     tagged ''type'' ''IP_ADDRESS_RANGE'' [(''start'', Some (JStr start)), (''stop'', Some (JStr stop))]"
| "ip_matching_json (Subnet a) = tagged ''type'' ''SUBNET'' [(''value'', Some (JStr a))]"

definition ip_matching_of :: "json \<Rightarrow> ip_matching option" where
  "ip_matching_of v =
     (if tag_of ''type'' v = Some ''IP_ADDRESS'' then map_option IpAddress (required ''value'' jstr v)
      else if tag_of ''type'' v = Some ''IP_ADDRESS_RANGE''
      then app2 IpAddressRange (required ''start'' jstr v) (required ''stop'' jstr v)
      else if tag_of ''type'' v = Some ''SUBNET'' then map_option Subnet (required ''value'' jstr v)
      else None)"

interpretation ip_matching: wire ip_matching_json ip_matching_of
proof
  show "requested_json_matches (ip_matching_json x) v \<Longrightarrow> ip_matching_of v = Some x" for x v
    by (cases x) (auto simp: tagged_matches ip_matching_of_def dest!: wire_reads)
  show "ip_matching_json x \<noteq> JNull" for x by (cases x) simp_all
qed

interpretation ip_matchings: wire "json_list ip_matching_json" "listed ip_matching_of"
  by (rule ip_matching.list_wire)

datatype ip_address_filter = IpAddresses bool "ip_matching list" | IpMatchingList bool string

primrec ip_address_filter_json :: "ip_address_filter \<Rightarrow> json" where
  "ip_address_filter_json (IpAddresses match_opposite items) =
     tagged ''type'' ''IP_ADDRESSES''
       [(''matchOpposite'', Some (JBool match_opposite)), (''items'', Some (json_list ip_matching_json items))]"
| "ip_address_filter_json (IpMatchingList match_opposite list_id) =
     tagged ''type'' ''TRAFFIC_MATCHING_LIST''
       [(''matchOpposite'', Some (JBool match_opposite)), (''trafficMatchingListId'', Some (JStr list_id))]"

definition ip_address_filter_of :: "json \<Rightarrow> ip_address_filter option" where
  "ip_address_filter_of v =
     (if tag_of ''type'' v = Some ''IP_ADDRESSES''
      then app2 IpAddresses (required ''matchOpposite'' jbool v) (required ''items'' (listed ip_matching_of) v)
      else if tag_of ''type'' v = Some ''TRAFFIC_MATCHING_LIST''
      then app2 IpMatchingList (required ''matchOpposite'' jbool v) (required ''trafficMatchingListId'' jstr v)
      else None)"

declare ip_matchings.exact_required [wire_reads]

interpretation ip_address_filter: wire ip_address_filter_json ip_address_filter_of
proof
  show "requested_json_matches (ip_address_filter_json x) v \<Longrightarrow> ip_address_filter_of v = Some x" for x v
    by (cases x) (auto simp: tagged_matches ip_address_filter_of_def dest!: wire_reads)
  show "ip_address_filter_json x \<noteq> JNull" for x by (cases x) simp_all
qed

record application_filter =
  application_ids :: "i32 list"

definition application_filter_json :: "application_filter \<Rightarrow> json" where
  "application_filter_json x =
     JObj (set_fields [(''applicationIds'', Some ((json_list i32_json) (application_ids x)))])"

definition application_filter_of :: "json \<Rightarrow> application_filter option" where
  "application_filter_of v = map_option (\<lambda>a. \<lparr>application_ids = a\<rparr>) (required ''applicationIds'' (listed json_i32) v)"

interpretation application_filter: wire application_filter_json application_filter_of
  by unfold_locales
    (auto simp: application_filter_json_def application_filter_of_def object_matches simp del: requested_json_matches.simps dest!: wire_reads)

record application_category_filter =
  application_category_ids :: "i32 list"

definition application_category_filter_json :: "application_category_filter \<Rightarrow> json" where
  "application_category_filter_json x =
     JObj (set_fields [(''applicationCategoryIds'', Some ((json_list i32_json) (application_category_ids x)))])"

definition application_category_filter_of :: "json \<Rightarrow> application_category_filter option" where
  "application_category_filter_of v = map_option (\<lambda>a. \<lparr>application_category_ids = a\<rparr>) (required ''applicationCategoryIds'' (listed json_i32) v)"

interpretation application_category_filter: wire application_category_filter_json application_category_filter_of
  by unfold_locales
    (auto simp: application_category_filter_json_def application_category_filter_of_def object_matches simp del: requested_json_matches.simps dest!: wire_reads)

record domain_filter =
  domains :: "string list"

definition domain_filter_json :: "domain_filter \<Rightarrow> json" where
  "domain_filter_json x =
     tagged ''type'' ''DOMAINS'' [(''domains'', Some ((json_list JStr) (domains x)))]"

definition domain_filter_of :: "json \<Rightarrow> domain_filter option" where
  "domain_filter_of v =
     (if tag_of ''type'' v \<noteq> Some ''DOMAINS'' then None else map_option (\<lambda>a. \<lparr>domains = a\<rparr>) (required ''domains'' (listed jstr) v))"

interpretation domain_filter: wire domain_filter_json domain_filter_of
  by unfold_locales
    (auto simp: domain_filter_json_def domain_filter_of_def tagged_matches simp del: requested_json_matches.simps dest!: wire_reads)

record ipv6_iid_filter =
  ipv6_iid :: string
  iid_match_opposite :: bool

definition ipv6_iid_filter_json :: "ipv6_iid_filter \<Rightarrow> json" where
  "ipv6_iid_filter_json x =
     JObj (set_fields [(''ipv6Iid'', Some (JStr (ipv6_iid x))), (''matchOpposite'', Some (JBool (iid_match_opposite x)))])"

definition ipv6_iid_filter_of :: "json \<Rightarrow> ipv6_iid_filter option" where
  "ipv6_iid_filter_of v = app2 (\<lambda>a b. \<lparr>ipv6_iid = a, iid_match_opposite = b\<rparr>) (required ''ipv6Iid'' jstr v) (required ''matchOpposite'' jbool v)"

interpretation ipv6_iid_filter: wire ipv6_iid_filter_json ipv6_iid_filter_of
  by unfold_locales
    (auto simp: ipv6_iid_filter_json_def ipv6_iid_filter_of_def object_matches simp del: requested_json_matches.simps dest!: wire_reads)

record network_filter =
  nf_match_opposite :: bool
  nf_network_ids :: "string list"

definition network_filter_json :: "network_filter \<Rightarrow> json" where
  "network_filter_json x =
     JObj (set_fields [(''matchOpposite'', Some (JBool (nf_match_opposite x))), (''networkIds'', Some ((json_list JStr) (nf_network_ids x)))])"

definition network_filter_of :: "json \<Rightarrow> network_filter option" where
  "network_filter_of v = app2 (\<lambda>a b. \<lparr>nf_match_opposite = a, nf_network_ids = b\<rparr>) (required ''matchOpposite'' jbool v) (required ''networkIds'' (listed jstr) v)"

interpretation network_filter: wire network_filter_json network_filter_of
  by unfold_locales
    (auto simp: network_filter_json_def network_filter_of_def object_matches simp del: requested_json_matches.simps dest!: wire_reads)

record region_filter =
  regions :: "string list"

definition region_filter_json :: "region_filter \<Rightarrow> json" where
  "region_filter_json x =
     JObj (set_fields [(''regions'', Some ((json_list JStr) (regions x)))])"

definition region_filter_of :: "json \<Rightarrow> region_filter option" where
  "region_filter_of v = map_option (\<lambda>a. \<lparr>regions = a\<rparr>) (required ''regions'' (listed jstr) v)"

interpretation region_filter: wire region_filter_json region_filter_of
  by unfold_locales
    (auto simp: region_filter_json_def region_filter_of_def object_matches simp del: requested_json_matches.simps dest!: wire_reads)

record tunnel_filter =
  site_to_site_vpn_tunnel_id :: string

definition tunnel_filter_json :: "tunnel_filter \<Rightarrow> json" where
  "tunnel_filter_json x =
     JObj (set_fields [(''siteToSiteVpnTunnelId'', Some (JStr (site_to_site_vpn_tunnel_id x)))])"

definition tunnel_filter_of :: "json \<Rightarrow> tunnel_filter option" where
  "tunnel_filter_of v = map_option (\<lambda>a. \<lparr>site_to_site_vpn_tunnel_id = a\<rparr>) (required ''siteToSiteVpnTunnelId'' jstr v)"

interpretation tunnel_filter: wire tunnel_filter_json tunnel_filter_of
  by unfold_locales
    (auto simp: tunnel_filter_json_def tunnel_filter_of_def object_matches simp del: requested_json_matches.simps dest!: wire_reads)

record vpn_server_filter =
  vf_match_opposite :: bool
  vpn_server_ids :: "string list"

definition vpn_server_filter_json :: "vpn_server_filter \<Rightarrow> json" where
  "vpn_server_filter_json x =
     JObj (set_fields [(''matchOpposite'', Some (JBool (vf_match_opposite x))), (''vpnServerIds'', Some ((json_list JStr) (vpn_server_ids x)))])"

definition vpn_server_filter_of :: "json \<Rightarrow> vpn_server_filter option" where
  "vpn_server_filter_of v = app2 (\<lambda>a b. \<lparr>vf_match_opposite = a, vpn_server_ids = b\<rparr>) (required ''matchOpposite'' jbool v) (required ''vpnServerIds'' (listed jstr) v)"

interpretation vpn_server_filter: wire vpn_server_filter_json vpn_server_filter_of
  by unfold_locales
    (auto simp: vpn_server_filter_json_def vpn_server_filter_of_def object_matches simp del: requested_json_matches.simps dest!: wire_reads)

record mac_address_filter =
  mac_addresses :: "string list"

definition mac_address_filter_json :: "mac_address_filter \<Rightarrow> json" where
  "mac_address_filter_json x =
     JObj (set_fields [(''macAddresses'', Some ((json_list JStr) (mac_addresses x)))])"

definition mac_address_filter_of :: "json \<Rightarrow> mac_address_filter option" where
  "mac_address_filter_of v = map_option (\<lambda>a. \<lparr>mac_addresses = a\<rparr>) (required ''macAddresses'' (listed jstr) v)"

interpretation mac_address_filter: wire mac_address_filter_json mac_address_filter_of
  by unfold_locales
    (auto simp: mac_address_filter_json_def mac_address_filter_of_def object_matches simp del: requested_json_matches.simps dest!: wire_reads)

record schedule_time =
  start_time :: string
  stop_time :: string

definition schedule_time_json :: "schedule_time \<Rightarrow> json" where
  "schedule_time_json x =
     JObj (set_fields [(''startTime'', Some (JStr (start_time x))), (''stopTime'', Some (JStr (stop_time x)))])"

definition schedule_time_of :: "json \<Rightarrow> schedule_time option" where
  "schedule_time_of v = app2 (\<lambda>a b. \<lparr>start_time = a, stop_time = b\<rparr>) (required ''startTime'' jstr v) (required ''stopTime'' jstr v)"

interpretation schedule_time: wire schedule_time_json schedule_time_of
  by unfold_locales
    (auto simp: schedule_time_json_def schedule_time_of_def object_matches simp del: requested_json_matches.simps dest!: wire_reads)

lemmas leaf_reads [wire_reads] =
  firewall_action.exact_member port_filter.exact_member ip_address_filter.exact_member
  application_filter.exact_member application_category_filter.exact_member
  domain_filter.exact_member ipv6_iid_filter.exact_member network_filter.exact_member
  region_filter.exact_member tunnel_filter.exact_member vpn_server_filter.exact_member
  mac_address_filter.exact_member schedule_time.exact_member

section \<open>Protocols\<close>

datatype (plugins only: size) named_protocol =
    ProtoAh | ProtoAx25 | ProtoDccp | ProtoDdp | ProtoEgp | ProtoEigrp | ProtoEncap | ProtoEsp |
    ProtoEtherip | ProtoFc | ProtoGgp | ProtoGre | ProtoHip | ProtoHmp |
    ProtoIcmp "icmp_type_name option" | ProtoIcmpv6 "icmpv6_type_name option" | ProtoIdprCmtp |
    ProtoIdrp | ProtoIgmp | ProtoIgp | ProtoIp | ProtoIpcomp | ProtoIpencap | ProtoIpip |
    ProtoIpv6 | ProtoIpv6Frag | ProtoIpv6Nonxt | ProtoIpv6Opts | ProtoIpv6Route | ProtoIsis |
    ProtoIsoTp4 | ProtoL2tp | ProtoManet | ProtoMobilityHeader | ProtoMplsInIp | ProtoOspf |
    ProtoPim | ProtoPup | ProtoRdp | ProtoRohc | ProtoRspf | ProtoRsvp | ProtoSctp | ProtoShim6 |
    ProtoSkip | ProtoSt | ProtoTcp | ProtoTcpUdp | ProtoUdp | ProtoUdplite | ProtoVmtp | ProtoVrrp |
    ProtoWesp | ProtoXnsIdp | ProtoXtp

definition named_protocol_plain :: "(string \<times> named_protocol) list" where
  "named_protocol_plain =
     [(''ah'', ProtoAh), (''ax.25'', ProtoAx25), (''dccp'', ProtoDccp), (''ddp'', ProtoDdp),
      (''egp'', ProtoEgp), (''eigrp'', ProtoEigrp), (''encap'', ProtoEncap), (''esp'', ProtoEsp),
      (''etherip'', ProtoEtherip), (''fc'', ProtoFc), (''ggp'', ProtoGgp), (''gre'', ProtoGre),
      (''hip'', ProtoHip), (''hmp'', ProtoHmp), (''idpr-cmtp'', ProtoIdprCmtp),
      (''idrp'', ProtoIdrp), (''igmp'', ProtoIgmp), (''igp'', ProtoIgp), (''ip'', ProtoIp),
      (''ipcomp'', ProtoIpcomp), (''ipencap'', ProtoIpencap), (''ipip'', ProtoIpip),
      (''ipv6'', ProtoIpv6), (''ipv6-frag'', ProtoIpv6Frag), (''ipv6-nonxt'', ProtoIpv6Nonxt),
      (''ipv6-opts'', ProtoIpv6Opts), (''ipv6-route'', ProtoIpv6Route), (''isis'', ProtoIsis),
      (''iso-tp4'', ProtoIsoTp4), (''l2tp'', ProtoL2tp), (''manet'', ProtoManet),
      (''mobility-header'', ProtoMobilityHeader), (''mpls-in-ip'', ProtoMplsInIp),
      (''ospf'', ProtoOspf), (''pim'', ProtoPim), (''pup'', ProtoPup), (''rdp'', ProtoRdp),
      (''rohc'', ProtoRohc), (''rspf'', ProtoRspf), (''rsvp'', ProtoRsvp), (''sctp'', ProtoSctp),
      (''shim6'', ProtoShim6), (''skip'', ProtoSkip), (''st'', ProtoSt), (''tcp'', ProtoTcp),
      (''tcp_udp'', ProtoTcpUdp), (''udp'', ProtoUdp), (''udplite'', ProtoUdplite),
      (''vmtp'', ProtoVmtp), (''vrrp'', ProtoVrrp), (''wesp'', ProtoWesp),
      (''xns-idp'', ProtoXnsIdp), (''xtp'', ProtoXtp)]"

primrec named_protocol_json :: "named_protocol \<Rightarrow> json" where
  "named_protocol_json ProtoAh = tagged ''name'' ''ah'' []"
| "named_protocol_json ProtoAx25 = tagged ''name'' ''ax.25'' []"
| "named_protocol_json ProtoDccp = tagged ''name'' ''dccp'' []"
| "named_protocol_json ProtoDdp = tagged ''name'' ''ddp'' []"
| "named_protocol_json ProtoEgp = tagged ''name'' ''egp'' []"
| "named_protocol_json ProtoEigrp = tagged ''name'' ''eigrp'' []"
| "named_protocol_json ProtoEncap = tagged ''name'' ''encap'' []"
| "named_protocol_json ProtoEsp = tagged ''name'' ''esp'' []"
| "named_protocol_json ProtoEtherip = tagged ''name'' ''etherip'' []"
| "named_protocol_json ProtoFc = tagged ''name'' ''fc'' []"
| "named_protocol_json ProtoGgp = tagged ''name'' ''ggp'' []"
| "named_protocol_json ProtoGre = tagged ''name'' ''gre'' []"
| "named_protocol_json ProtoHip = tagged ''name'' ''hip'' []"
| "named_protocol_json ProtoHmp = tagged ''name'' ''hmp'' []"
| "named_protocol_json (ProtoIcmp typename_filter) = tagged ''name'' ''icmp''
       [(''typenameFilter'', map_option (\<lambda>t. JStr (icmp_type_name_name t)) typename_filter)]"
| "named_protocol_json (ProtoIcmpv6 typename_filter) = tagged ''name'' ''icmpv6''
       [(''typenameFilter'', map_option (\<lambda>t. JStr (icmpv6_type_name_name t)) typename_filter)]"
| "named_protocol_json ProtoIdprCmtp = tagged ''name'' ''idpr-cmtp'' []"
| "named_protocol_json ProtoIdrp = tagged ''name'' ''idrp'' []"
| "named_protocol_json ProtoIgmp = tagged ''name'' ''igmp'' []"
| "named_protocol_json ProtoIgp = tagged ''name'' ''igp'' []"
| "named_protocol_json ProtoIp = tagged ''name'' ''ip'' []"
| "named_protocol_json ProtoIpcomp = tagged ''name'' ''ipcomp'' []"
| "named_protocol_json ProtoIpencap = tagged ''name'' ''ipencap'' []"
| "named_protocol_json ProtoIpip = tagged ''name'' ''ipip'' []"
| "named_protocol_json ProtoIpv6 = tagged ''name'' ''ipv6'' []"
| "named_protocol_json ProtoIpv6Frag = tagged ''name'' ''ipv6-frag'' []"
| "named_protocol_json ProtoIpv6Nonxt = tagged ''name'' ''ipv6-nonxt'' []"
| "named_protocol_json ProtoIpv6Opts = tagged ''name'' ''ipv6-opts'' []"
| "named_protocol_json ProtoIpv6Route = tagged ''name'' ''ipv6-route'' []"
| "named_protocol_json ProtoIsis = tagged ''name'' ''isis'' []"
| "named_protocol_json ProtoIsoTp4 = tagged ''name'' ''iso-tp4'' []"
| "named_protocol_json ProtoL2tp = tagged ''name'' ''l2tp'' []"
| "named_protocol_json ProtoManet = tagged ''name'' ''manet'' []"
| "named_protocol_json ProtoMobilityHeader = tagged ''name'' ''mobility-header'' []"
| "named_protocol_json ProtoMplsInIp = tagged ''name'' ''mpls-in-ip'' []"
| "named_protocol_json ProtoOspf = tagged ''name'' ''ospf'' []"
| "named_protocol_json ProtoPim = tagged ''name'' ''pim'' []"
| "named_protocol_json ProtoPup = tagged ''name'' ''pup'' []"
| "named_protocol_json ProtoRdp = tagged ''name'' ''rdp'' []"
| "named_protocol_json ProtoRohc = tagged ''name'' ''rohc'' []"
| "named_protocol_json ProtoRspf = tagged ''name'' ''rspf'' []"
| "named_protocol_json ProtoRsvp = tagged ''name'' ''rsvp'' []"
| "named_protocol_json ProtoSctp = tagged ''name'' ''sctp'' []"
| "named_protocol_json ProtoShim6 = tagged ''name'' ''shim6'' []"
| "named_protocol_json ProtoSkip = tagged ''name'' ''skip'' []"
| "named_protocol_json ProtoSt = tagged ''name'' ''st'' []"
| "named_protocol_json ProtoTcp = tagged ''name'' ''tcp'' []"
| "named_protocol_json ProtoTcpUdp = tagged ''name'' ''tcp_udp'' []"
| "named_protocol_json ProtoUdp = tagged ''name'' ''udp'' []"
| "named_protocol_json ProtoUdplite = tagged ''name'' ''udplite'' []"
| "named_protocol_json ProtoVmtp = tagged ''name'' ''vmtp'' []"
| "named_protocol_json ProtoVrrp = tagged ''name'' ''vrrp'' []"
| "named_protocol_json ProtoWesp = tagged ''name'' ''wesp'' []"
| "named_protocol_json ProtoXnsIdp = tagged ''name'' ''xns-idp'' []"
| "named_protocol_json ProtoXtp = tagged ''name'' ''xtp'' []"

definition named_protocol_of :: "json \<Rightarrow> named_protocol option" where
  "named_protocol_of v =
     (if tag_of ''name'' v = Some ''icmp''
      then map_option ProtoIcmp (optional ''typenameFilter'' (variant_of icmp_type_name_variants) v)
      else if tag_of ''name'' v = Some ''icmpv6''
      then map_option ProtoIcmpv6 (optional ''typenameFilter'' (variant_of icmpv6_type_name_variants) v)
      else Option.bind (tag_of ''name'' v) (\<lambda>name. get name named_protocol_plain))"

text \<open>Which optional member a named protocol leaves out.\<close>

definition named_protocol_omits :: "named_protocol \<Rightarrow> json \<Rightarrow> bool" where
  "named_protocol_omits x v \<longleftrightarrow>
     x \<in> {ProtoIcmp None, ProtoIcmpv6 None} \<longrightarrow> absent ''typenameFilter'' v"

interpretation named_protocol: omitting_wire named_protocol_json named_protocol_of named_protocol_omits
proof
  fix x v
  assume m: "requested_json_matches (named_protocol_json x) v" and o: "named_protocol_omits x v"
  show "named_protocol_of v = Some x"
  proof (cases x)
    case (ProtoIcmp t)
    with o have "t = None \<longrightarrow> absent ''typenameFilter'' v" by (simp add: named_protocol_omits_def)
    with ProtoIcmp m show ?thesis
      by (simp add: tagged_matches named_protocol_of_def icmp_type_name.exact_optional)
  next
    case (ProtoIcmpv6 t)
    with o have "t = None \<longrightarrow> absent ''typenameFilter'' v" by (simp add: named_protocol_omits_def)
    with ProtoIcmpv6 m show ?thesis
      by (simp add: tagged_matches named_protocol_of_def icmpv6_type_name.exact_optional)
  qed (use m in \<open>simp_all add: tagged_matches named_protocol_of_def named_protocol_plain_def\<close>)
next
  show "named_protocol_json x \<noteq> JNull" for x by (cases x) simp_all
qed

datatype protocol_preset = PresetTcpUdp

primrec protocol_preset_json :: "protocol_preset \<Rightarrow> json" where
  "protocol_preset_json PresetTcpUdp = tagged ''name'' ''TCP_UDP'' []"

definition protocol_preset_of :: "json \<Rightarrow> protocol_preset option" where
  "protocol_preset_of v = (if tag_of ''name'' v = Some ''TCP_UDP'' then Some PresetTcpUdp else None)"

interpretation protocol_preset: wire protocol_preset_json protocol_preset_of
proof
  show "requested_json_matches (protocol_preset_json x) v \<Longrightarrow> protocol_preset_of v = Some x" for x v
    by (cases x) (auto simp: tagged_matches protocol_preset_of_def)
  show "protocol_preset_json x \<noteq> JNull" for x by (cases x) simp_all
qed

datatype protocol_filter =
    FilterNamedProtocol bool named_protocol
  | FilterPreset protocol_preset
  | FilterProtocolNumber bool i32

primrec protocol_filter_json :: "protocol_filter \<Rightarrow> json" where
  "protocol_filter_json (FilterNamedProtocol match_opposite protocol) =
     tagged ''type'' ''NAMED_PROTOCOL''
       [(''matchOpposite'', Some (JBool match_opposite)), (''protocol'', Some (named_protocol_json protocol))]"
| "protocol_filter_json (FilterPreset preset) =
     tagged ''type'' ''PRESET'' [(''preset'', Some (protocol_preset_json preset))]"
| "protocol_filter_json (FilterProtocolNumber match_opposite protocol_number) =
     tagged ''type'' ''PROTOCOL_NUMBER''
       [(''matchOpposite'', Some (JBool match_opposite)), (''protocolNumber'', Some (i32_json protocol_number))]"

definition protocol_filter_of :: "json \<Rightarrow> protocol_filter option" where
  "protocol_filter_of v =
     (if tag_of ''type'' v = Some ''NAMED_PROTOCOL''
      then app2 FilterNamedProtocol (required ''matchOpposite'' jbool v) (required ''protocol'' named_protocol_of v)
      else if tag_of ''type'' v = Some ''PRESET''
      then map_option FilterPreset (required ''preset'' protocol_preset_of v)
      else if tag_of ''type'' v = Some ''PROTOCOL_NUMBER''
      then app2 FilterProtocolNumber (required ''matchOpposite'' jbool v) (required ''protocolNumber'' json_i32 v)
      else None)"

definition protocol_filter_omits :: "protocol_filter \<Rightarrow> json \<Rightarrow> bool" where
  "protocol_filter_omits x v \<longleftrightarrow>
     (case x of
        FilterNamedProtocol _ p \<Rightarrow>
          (case jget ''protocol'' v of None \<Rightarrow> True | Some u \<Rightarrow> named_protocol_omits p u)
      | _ \<Rightarrow> True)"

declare protocol_preset.exact_required [wire_reads]

interpretation protocol_filter: omitting_wire protocol_filter_json protocol_filter_of protocol_filter_omits
proof
  show "requested_json_matches (protocol_filter_json x) v \<Longrightarrow> protocol_filter_omits x v \<Longrightarrow> protocol_filter_of v = Some x" for x v
    by (cases x)
      (auto simp: tagged_matches protocol_filter_of_def protocol_filter_omits_def
        dest!: wire_reads named_protocol.required_reads)
  show "protocol_filter_json x \<noteq> JNull" for x by (cases x) simp_all
qed

text \<open>The version of the scope with its protocol filter.\<close>

datatype ip_protocol_scope =
    ScopeIpv4 "protocol_filter option"
  | ScopeIpv6 "protocol_filter option"
  | ScopeIpv4AndIpv6 "protocol_filter option"

primrec ip_protocol_scope_json :: "ip_protocol_scope \<Rightarrow> json" where
  "ip_protocol_scope_json (ScopeIpv4 f) =
     tagged ''ipVersion'' ''IPV4'' [(''protocolFilter'', map_option protocol_filter_json f)]"
| "ip_protocol_scope_json (ScopeIpv6 f) =
     tagged ''ipVersion'' ''IPV6'' [(''protocolFilter'', map_option protocol_filter_json f)]"
| "ip_protocol_scope_json (ScopeIpv4AndIpv6 f) =
     tagged ''ipVersion'' ''IPV4_AND_IPV6'' [(''protocolFilter'', map_option protocol_filter_json f)]"

definition ip_protocol_scope_of :: "json \<Rightarrow> ip_protocol_scope option" where
  "ip_protocol_scope_of v =
     (let f = optional ''protocolFilter'' protocol_filter_of v
      in if tag_of ''ipVersion'' v = Some ''IPV4'' then map_option ScopeIpv4 f
         else if tag_of ''ipVersion'' v = Some ''IPV6'' then map_option ScopeIpv6 f
         else if tag_of ''ipVersion'' v = Some ''IPV4_AND_IPV6'' then map_option ScopeIpv4AndIpv6 f
         else None)"

primrec scope_protocol_filter :: "ip_protocol_scope \<Rightarrow> protocol_filter option" where
  "scope_protocol_filter (ScopeIpv4 f) = f"
| "scope_protocol_filter (ScopeIpv6 f) = f"
| "scope_protocol_filter (ScopeIpv4AndIpv6 f) = f"

text \<open>An optional member that holds a type with omitted members of its own.\<close>

definition omits_in :: "('a \<Rightarrow> json \<Rightarrow> bool) \<Rightarrow> string \<Rightarrow> 'a option \<Rightarrow> json \<Rightarrow> bool" where
  "omits_in omits k o1 v \<longleftrightarrow>
     (case o1 of None \<Rightarrow> absent k v
      | Some x \<Rightarrow> (case jget k v of None \<Rightarrow> True | Some u \<Rightarrow> omits x u))"

context omitting_wire
begin

lemma optional_omitting:
  "member_matches v (k, map_option enc o1) \<Longrightarrow> omits_in omits k o1 v \<Longrightarrow> optional k dec v = Some o1"
  by (rule optional_reads) (auto simp: omits_in_def)

end

interpretation ip_protocol_scope: omitting_wire ip_protocol_scope_json ip_protocol_scope_of
  "\<lambda>x. omits_in protocol_filter_omits ''protocolFilter'' (scope_protocol_filter x)"
proof
  show "requested_json_matches (ip_protocol_scope_json x) v \<Longrightarrow>
      omits_in protocol_filter_omits ''protocolFilter'' (scope_protocol_filter x) v \<Longrightarrow>
      ip_protocol_scope_of v = Some x" for x v
    by (cases x) (simp_all add: tagged_matches ip_protocol_scope_of_def protocol_filter.optional_omitting)
  show "ip_protocol_scope_json x \<noteq> JNull" for x by (cases x) simp_all
qed

section \<open>Schedules\<close>

datatype schedule =
    Custom "day list" string string "schedule_time option"
  | EveryDay schedule_time
  | EveryWeek "day list" "schedule_time option"
  | OneTimeOnly string schedule_time

definition days_json :: "day list \<Rightarrow> json" where
  "days_json = json_list (\<lambda>d. JStr (day_name d))"

primrec schedule_json :: "schedule \<Rightarrow> json" where
  "schedule_json (Custom repeat_on_days start_date stop_date time_filter) =
     tagged ''mode'' ''CUSTOM''
       [(''repeatOnDays'', Some (days_json repeat_on_days)), (''startDate'', Some (JStr start_date)),
        (''stopDate'', Some (JStr stop_date)), (''timeFilter'', map_option schedule_time_json time_filter)]"
| "schedule_json (EveryDay time_filter) =
     tagged ''mode'' ''EVERY_DAY'' [(''timeFilter'', Some (schedule_time_json time_filter))]"
| "schedule_json (EveryWeek repeat_on_days time_filter) =
     tagged ''mode'' ''EVERY_WEEK''
       [(''repeatOnDays'', Some (days_json repeat_on_days)),
        (''timeFilter'', map_option schedule_time_json time_filter)]"
| "schedule_json (OneTimeOnly date time_filter) =
     tagged ''mode'' ''ONE_TIME_ONLY''
       [(''date'', Some (JStr date)), (''timeFilter'', Some (schedule_time_json time_filter))]"

definition schedule_of :: "json \<Rightarrow> schedule option" where
  "schedule_of v =
     (let days = required ''repeatOnDays'' (listed (variant_of day_variants)) v;
          time = required ''timeFilter'' schedule_time_of v;
          time_option = optional ''timeFilter'' schedule_time_of v
      in if tag_of ''mode'' v = Some ''CUSTOM''
         then app4 Custom days (required ''startDate'' jstr v) (required ''stopDate'' jstr v) time_option
         else if tag_of ''mode'' v = Some ''EVERY_DAY'' then map_option EveryDay time
         else if tag_of ''mode'' v = Some ''EVERY_WEEK'' then app2 EveryWeek days time_option
         else if tag_of ''mode'' v = Some ''ONE_TIME_ONLY'' then app2 OneTimeOnly (required ''date'' jstr v) time
         else None)"

primrec schedule_time_filter :: "schedule \<Rightarrow> schedule_time option" where
  "schedule_time_filter (Custom _ _ _ t) = t"
| "schedule_time_filter (EveryDay t) = Some t"
| "schedule_time_filter (EveryWeek _ t) = t"
| "schedule_time_filter (OneTimeOnly _ t) = Some t"

definition schedule_omits :: "schedule \<Rightarrow> json \<Rightarrow> bool" where
  "schedule_omits x v \<longleftrightarrow> (schedule_time_filter x = None \<longrightarrow> absent ''timeFilter'' v)"

interpretation days: wire days_json "listed (variant_of day_variants)"
  unfolding days_json_def by (rule day.list_wire)

declare days.exact_required [wire_reads]

interpretation schedule: omitting_wire schedule_json schedule_of schedule_omits
proof
  show "requested_json_matches (schedule_json x) v \<Longrightarrow> schedule_omits x v \<Longrightarrow> schedule_of v = Some x" for x v
    by (cases x)
      (auto simp: tagged_matches schedule_of_def schedule_omits_def schedule_time.exact_optional
        dest!: wire_reads dest: schedule_time.absent_None)
  show "schedule_json x \<noteq> JNull" for x by (cases x) simp_all
qed

section \<open>Traffic filters\<close>

datatype destination_traffic_filter =
    DstApplication application_filter "port_filter option"
  | DstApplicationCategory application_category_filter "port_filter option"
  | DstDomain domain_filter "port_filter option"
  | DstIpv6Iid ipv6_iid_filter "port_filter option"
  | DstIpAddress ip_address_filter "port_filter option"
  | DstNetwork network_filter "port_filter option"
  | DstPort port_filter
  | DstRegion "port_filter option" region_filter
  | DstSiteToSiteVpnTunnel "port_filter option" tunnel_filter
  | DstVpnServer "port_filter option" vpn_server_filter

primrec destination_traffic_filter_json :: "destination_traffic_filter \<Rightarrow> json" where
  "destination_traffic_filter_json (DstApplication flt port) =
     tagged ''type'' ''APPLICATION''
       [(''applicationFilter'', Some (application_filter_json flt)), (''portFilter'', map_option port_filter_json port)]"
| "destination_traffic_filter_json (DstApplicationCategory flt port) =
     tagged ''type'' ''APPLICATION_CATEGORY''
       [(''applicationCategoryFilter'', Some (application_category_filter_json flt)), (''portFilter'', map_option port_filter_json port)]"
| "destination_traffic_filter_json (DstDomain flt port) =
     tagged ''type'' ''DOMAIN''
       [(''domainFilter'', Some (domain_filter_json flt)), (''portFilter'', map_option port_filter_json port)]"
| "destination_traffic_filter_json (DstIpv6Iid flt port) =
     tagged ''type'' ''IPV6_IID''
       [(''ipv6IidFilter'', Some (ipv6_iid_filter_json flt)), (''portFilter'', map_option port_filter_json port)]"
| "destination_traffic_filter_json (DstIpAddress flt port) =
     tagged ''type'' ''IP_ADDRESS''
       [(''ipAddressFilter'', Some (ip_address_filter_json flt)), (''portFilter'', map_option port_filter_json port)]"
| "destination_traffic_filter_json (DstNetwork flt port) =
     tagged ''type'' ''NETWORK''
       [(''networkFilter'', Some (network_filter_json flt)), (''portFilter'', map_option port_filter_json port)]"
| "destination_traffic_filter_json (DstPort port) =
     tagged ''type'' ''PORT''
       [(''portFilter'', Some (port_filter_json port))]"
| "destination_traffic_filter_json (DstRegion port flt) =
     tagged ''type'' ''REGION''
       [(''portFilter'', map_option port_filter_json port), (''regionFilter'', Some (region_filter_json flt))]"
| "destination_traffic_filter_json (DstSiteToSiteVpnTunnel port flt) =
     tagged ''type'' ''SITE_TO_SITE_VPN_TUNNEL''
       [(''portFilter'', map_option port_filter_json port), (''siteToSiteVpnTunnelFilter'', Some (tunnel_filter_json flt))]"
| "destination_traffic_filter_json (DstVpnServer port flt) =
     tagged ''type'' ''VPN_SERVER''
       [(''portFilter'', map_option port_filter_json port), (''vpnServerFilter'', Some (vpn_server_filter_json flt))]"

definition destination_traffic_filter_of :: "json \<Rightarrow> destination_traffic_filter option" where
  "destination_traffic_filter_of v =
     (if tag_of ''type'' v = Some ''APPLICATION''
      then app2 DstApplication (required ''applicationFilter'' application_filter_of v) (optional ''portFilter'' port_filter_of v)
      else if tag_of ''type'' v = Some ''APPLICATION_CATEGORY''
      then app2 DstApplicationCategory (required ''applicationCategoryFilter'' application_category_filter_of v) (optional ''portFilter'' port_filter_of v)
      else if tag_of ''type'' v = Some ''DOMAIN''
      then app2 DstDomain (required ''domainFilter'' domain_filter_of v) (optional ''portFilter'' port_filter_of v)
      else if tag_of ''type'' v = Some ''IPV6_IID''
      then app2 DstIpv6Iid (required ''ipv6IidFilter'' ipv6_iid_filter_of v) (optional ''portFilter'' port_filter_of v)
      else if tag_of ''type'' v = Some ''IP_ADDRESS''
      then app2 DstIpAddress (required ''ipAddressFilter'' ip_address_filter_of v) (optional ''portFilter'' port_filter_of v)
      else if tag_of ''type'' v = Some ''NETWORK''
      then app2 DstNetwork (required ''networkFilter'' network_filter_of v) (optional ''portFilter'' port_filter_of v)
      else if tag_of ''type'' v = Some ''PORT''
      then map_option DstPort (required ''portFilter'' port_filter_of v)
      else if tag_of ''type'' v = Some ''REGION''
      then app2 DstRegion (optional ''portFilter'' port_filter_of v) (required ''regionFilter'' region_filter_of v)
      else if tag_of ''type'' v = Some ''SITE_TO_SITE_VPN_TUNNEL''
      then app2 DstSiteToSiteVpnTunnel (optional ''portFilter'' port_filter_of v) (required ''siteToSiteVpnTunnelFilter'' tunnel_filter_of v)
      else if tag_of ''type'' v = Some ''VPN_SERVER''
      then app2 DstVpnServer (optional ''portFilter'' port_filter_of v) (required ''vpnServerFilter'' vpn_server_filter_of v)
      else None)"

primrec destination_port :: "destination_traffic_filter \<Rightarrow> port_filter option" where
  "destination_port (DstApplication _ p) = p"
| "destination_port (DstApplicationCategory _ p) = p"
| "destination_port (DstDomain _ p) = p"
| "destination_port (DstIpv6Iid _ p) = p"
| "destination_port (DstIpAddress _ p) = p"
| "destination_port (DstNetwork _ p) = p"
| "destination_port (DstPort p) = Some p"
| "destination_port (DstRegion p _) = p"
| "destination_port (DstSiteToSiteVpnTunnel p _) = p"
| "destination_port (DstVpnServer p _) = p"

definition destination_omits :: "destination_traffic_filter \<Rightarrow> json \<Rightarrow> bool" where
  "destination_omits x v \<longleftrightarrow> (destination_port x = None \<longrightarrow> absent ''portFilter'' v)"

lemmas traffic_reads =
  tagged_matches port_filter.exact_optional string_wire.exact_optional

interpretation destination_traffic_filter:
  omitting_wire destination_traffic_filter_json destination_traffic_filter_of destination_omits
proof
  show "requested_json_matches (destination_traffic_filter_json x) v \<Longrightarrow> destination_omits x v \<Longrightarrow>
      destination_traffic_filter_of v = Some x" for x v
    by (cases x)
      (auto simp: traffic_reads destination_traffic_filter_of_def destination_omits_def
        dest!: wire_reads dest: port_filter.absent_None)
  show "destination_traffic_filter_json x \<noteq> JNull" for x by (cases x) simp_all
qed

datatype source_traffic_filter =
    SrcIpv6Iid ipv6_iid_filter "string option" "port_filter option"
  | SrcIpAddress ip_address_filter "string option" "port_filter option"
  | SrcMacAddress mac_address_filter "port_filter option"
  | SrcNetwork "string option" network_filter "port_filter option"
  | SrcPort port_filter
  | SrcRegion "port_filter option" region_filter
  | SrcSiteToSiteVpnTunnel "port_filter option" tunnel_filter
  | SrcVpnServer "port_filter option" vpn_server_filter

primrec source_traffic_filter_json :: "source_traffic_filter \<Rightarrow> json" where
  "source_traffic_filter_json (SrcIpv6Iid flt mac port) =
     tagged ''type'' ''IPV6_IID''
       [(''ipv6IidFilter'', Some (ipv6_iid_filter_json flt)), (''macAddressFilter'', map_option JStr mac), (''portFilter'', map_option port_filter_json port)]"
| "source_traffic_filter_json (SrcIpAddress flt mac port) =
     tagged ''type'' ''IP_ADDRESS''
       [(''ipAddressFilter'', Some (ip_address_filter_json flt)), (''macAddressFilter'', map_option JStr mac), (''portFilter'', map_option port_filter_json port)]"
| "source_traffic_filter_json (SrcMacAddress mac port) =
     tagged ''type'' ''MAC_ADDRESS''
       [(''macAddressFilter'', Some (mac_address_filter_json mac)), (''portFilter'', map_option port_filter_json port)]"
| "source_traffic_filter_json (SrcNetwork mac flt port) =
     tagged ''type'' ''NETWORK''
       [(''macAddressFilter'', map_option JStr mac), (''networkFilter'', Some (network_filter_json flt)), (''portFilter'', map_option port_filter_json port)]"
| "source_traffic_filter_json (SrcPort port) =
     tagged ''type'' ''PORT''
       [(''portFilter'', Some (port_filter_json port))]"
| "source_traffic_filter_json (SrcRegion port flt) =
     tagged ''type'' ''REGION''
       [(''portFilter'', map_option port_filter_json port), (''regionFilter'', Some (region_filter_json flt))]"
| "source_traffic_filter_json (SrcSiteToSiteVpnTunnel port flt) =
     tagged ''type'' ''SITE_TO_SITE_VPN_TUNNEL''
       [(''portFilter'', map_option port_filter_json port), (''siteToSiteVpnTunnelFilter'', Some (tunnel_filter_json flt))]"
| "source_traffic_filter_json (SrcVpnServer port flt) =
     tagged ''type'' ''VPN_SERVER''
       [(''portFilter'', map_option port_filter_json port), (''vpnServerFilter'', Some (vpn_server_filter_json flt))]"

definition source_traffic_filter_of :: "json \<Rightarrow> source_traffic_filter option" where
  "source_traffic_filter_of v =
     (if tag_of ''type'' v = Some ''IPV6_IID''
      then app3 SrcIpv6Iid (required ''ipv6IidFilter'' ipv6_iid_filter_of v) (optional ''macAddressFilter'' jstr v) (optional ''portFilter'' port_filter_of v)
      else if tag_of ''type'' v = Some ''IP_ADDRESS''
      then app3 SrcIpAddress (required ''ipAddressFilter'' ip_address_filter_of v) (optional ''macAddressFilter'' jstr v) (optional ''portFilter'' port_filter_of v)
      else if tag_of ''type'' v = Some ''MAC_ADDRESS''
      then app2 SrcMacAddress (required ''macAddressFilter'' mac_address_filter_of v) (optional ''portFilter'' port_filter_of v)
      else if tag_of ''type'' v = Some ''NETWORK''
      then app3 SrcNetwork (optional ''macAddressFilter'' jstr v) (required ''networkFilter'' network_filter_of v) (optional ''portFilter'' port_filter_of v)
      else if tag_of ''type'' v = Some ''PORT''
      then map_option SrcPort (required ''portFilter'' port_filter_of v)
      else if tag_of ''type'' v = Some ''REGION''
      then app2 SrcRegion (optional ''portFilter'' port_filter_of v) (required ''regionFilter'' region_filter_of v)
      else if tag_of ''type'' v = Some ''SITE_TO_SITE_VPN_TUNNEL''
      then app2 SrcSiteToSiteVpnTunnel (optional ''portFilter'' port_filter_of v) (required ''siteToSiteVpnTunnelFilter'' tunnel_filter_of v)
      else if tag_of ''type'' v = Some ''VPN_SERVER''
      then app2 SrcVpnServer (optional ''portFilter'' port_filter_of v) (required ''vpnServerFilter'' vpn_server_filter_of v)
      else None)"

primrec source_port :: "source_traffic_filter \<Rightarrow> port_filter option" where
  "source_port (SrcIpv6Iid _ _ p) = p"
| "source_port (SrcIpAddress _ _ p) = p"
| "source_port (SrcMacAddress _ p) = p"
| "source_port (SrcNetwork _ _ p) = p"
| "source_port (SrcPort p) = Some p"
| "source_port (SrcRegion p _) = p"
| "source_port (SrcSiteToSiteVpnTunnel p _) = p"
| "source_port (SrcVpnServer p _) = p"

text \<open>Whether the filter sets the member \<open>macAddressFilter\<close>, as an address or as a filter of its own.\<close>

primrec sets_mac_filter :: "source_traffic_filter \<Rightarrow> bool" where
  "sets_mac_filter (SrcIpv6Iid _ mac _) \<longleftrightarrow> mac \<noteq> None"
| "sets_mac_filter (SrcIpAddress _ mac _) \<longleftrightarrow> mac \<noteq> None"
| "sets_mac_filter (SrcMacAddress _ _) \<longleftrightarrow> True"
| "sets_mac_filter (SrcNetwork mac _ _) \<longleftrightarrow> mac \<noteq> None"
| "sets_mac_filter (SrcPort _) \<longleftrightarrow> False"
| "sets_mac_filter (SrcRegion _ _) \<longleftrightarrow> False"
| "sets_mac_filter (SrcSiteToSiteVpnTunnel _ _) \<longleftrightarrow> False"
| "sets_mac_filter (SrcVpnServer _ _) \<longleftrightarrow> False"

definition source_omits :: "source_traffic_filter \<Rightarrow> json \<Rightarrow> bool" where
  "source_omits x v \<longleftrightarrow>
     (source_port x = None \<longrightarrow> absent ''portFilter'' v)
     \<and> (\<not> sets_mac_filter x \<longrightarrow> absent ''macAddressFilter'' v)"

interpretation source_traffic_filter:
  omitting_wire source_traffic_filter_json source_traffic_filter_of source_omits
proof
  show "requested_json_matches (source_traffic_filter_json x) v \<Longrightarrow> source_omits x v \<Longrightarrow>
      source_traffic_filter_of v = Some x" for x v
    by (cases x;
        auto simp: traffic_reads source_traffic_filter_of_def source_omits_def dest!: wire_reads)
      (metis port_filter.absent_None string_wire.absent_None)+
  show "source_traffic_filter_json x \<noteq> JNull" for x by (cases x) simp_all
qed

text \<open>The two ends of a policy.\<close>

record policy_destination =
  dst_traffic_filter :: "destination_traffic_filter option"
  dst_zone_id :: string

record policy_source =
  src_traffic_filter :: "source_traffic_filter option"
  src_zone_id :: string

definition policy_destination_json :: "policy_destination \<Rightarrow> json" where
  "policy_destination_json d =
     JObj (set_fields
       [(''trafficFilter'', map_option destination_traffic_filter_json (dst_traffic_filter d)),
        (''zoneId'', Some (JStr (dst_zone_id d)))])"

definition policy_source_json :: "policy_source \<Rightarrow> json" where
  "policy_source_json s =
     JObj (set_fields
       [(''trafficFilter'', map_option source_traffic_filter_json (src_traffic_filter s)),
        (''zoneId'', Some (JStr (src_zone_id s)))])"

definition policy_destination_of :: "json \<Rightarrow> policy_destination option" where
  "policy_destination_of v =
     app2 (\<lambda>f z. \<lparr>dst_traffic_filter = f, dst_zone_id = z\<rparr>)
       (optional ''trafficFilter'' destination_traffic_filter_of v) (required ''zoneId'' jstr v)"

definition policy_source_of :: "json \<Rightarrow> policy_source option" where
  "policy_source_of v =
     app2 (\<lambda>f z. \<lparr>src_traffic_filter = f, src_zone_id = z\<rparr>)
       (optional ''trafficFilter'' source_traffic_filter_of v) (required ''zoneId'' jstr v)"

interpretation policy_destination: omitting_wire policy_destination_json policy_destination_of
  "\<lambda>d. omits_in destination_omits ''trafficFilter'' (dst_traffic_filter d)"
  by unfold_locales
    (auto simp: policy_destination_json_def policy_destination_of_def object_matches
      destination_traffic_filter.optional_omitting simp del: requested_json_matches.simps
      dest!: string_wire.exact_required)

interpretation policy_source: omitting_wire policy_source_json policy_source_of
  "\<lambda>s. omits_in source_omits ''trafficFilter'' (src_traffic_filter s)"
  by unfold_locales
    (auto simp: policy_source_json_def policy_source_of_def object_matches
      source_traffic_filter.optional_omitting simp del: requested_json_matches.simps
      dest!: string_wire.exact_required)

section \<open>The request\<close>

record firewall_policy_request =
  fr_action :: firewall_action
  fr_connection_state_filter :: "connection_state list option"
  fr_description :: "string option"
  fr_destination :: policy_destination
  fr_enabled :: bool
  fr_ip_protocol_scope :: ip_protocol_scope
  fr_ipsec_filter :: "ipsec_filter option"
  fr_logging_enabled :: bool
  fr_name :: string
  fr_schedule :: "schedule option"
  fr_source :: policy_source

definition connection_states_json :: "connection_state list \<Rightarrow> json" where
  "connection_states_json = json_list (\<lambda>s. JStr (connection_state_name s))"

definition ipsec_filter_json :: "ipsec_filter \<Rightarrow> json" where
  "ipsec_filter_json f = JStr (ipsec_filter_name f)"

definition firewall_policy_request_fields :: "firewall_policy_request \<Rightarrow> (string \<times> json option) list" where
  "firewall_policy_request_fields r =
     [(''action'', Some (firewall_action_json (fr_action r))),
      (''connectionStateFilter'', map_option connection_states_json (fr_connection_state_filter r)),
      (''description'', map_option JStr (fr_description r)),
      (''destination'', Some (policy_destination_json (fr_destination r))),
      (''enabled'', Some (JBool (fr_enabled r))),
      (''ipProtocolScope'', Some (ip_protocol_scope_json (fr_ip_protocol_scope r))),
      (''ipsecFilter'', map_option ipsec_filter_json (fr_ipsec_filter r)),
      (''loggingEnabled'', Some (JBool (fr_logging_enabled r))),
      (''name'', Some (JStr (fr_name r))),
      (''schedule'', map_option schedule_json (fr_schedule r)),
      (''source'', Some (policy_source_json (fr_source r)))]"

definition firewall_policy_request_json :: "firewall_policy_request \<Rightarrow> json" where
  "firewall_policy_request_json r = JObj (set_fields (firewall_policy_request_fields r))"

text \<open>The configuration a record of the controller holds, whatever else is in it.\<close>

definition firewall_policy_request_of :: "json \<Rightarrow> firewall_policy_request option" where
  "firewall_policy_request_of v =
     Option.bind (required ''action'' firewall_action_of v) (\<lambda>action.
     Option.bind (optional ''connectionStateFilter'' (listed (variant_of connection_state_variants)) v) (\<lambda>states.
     Option.bind (optional ''description'' jstr v) (\<lambda>description.
     Option.bind (required ''destination'' policy_destination_of v) (\<lambda>destination.
     Option.bind (required ''enabled'' jbool v) (\<lambda>enabled.
     Option.bind (required ''ipProtocolScope'' ip_protocol_scope_of v) (\<lambda>scope.
     Option.bind (optional ''ipsecFilter'' (variant_of ipsec_filter_variants) v) (\<lambda>ipsec.
     Option.bind (required ''loggingEnabled'' jbool v) (\<lambda>logging.
     Option.bind (required ''name'' jstr v) (\<lambda>name.
     Option.bind (optional ''schedule'' schedule_of v) (\<lambda>schedule.
     Option.bind (required ''source'' policy_source_of v) (\<lambda>source.
       Some \<lparr>fr_action = action, fr_connection_state_filter = states, fr_description = description,
             fr_destination = destination, fr_enabled = enabled, fr_ip_protocol_scope = scope,
             fr_ipsec_filter = ipsec, fr_logging_enabled = logging, fr_name = name,
             fr_schedule = schedule, fr_source = source\<rparr>)))))))))))"

interpretation connection_states: wire connection_states_json "listed (variant_of connection_state_variants)"
  unfolding connection_states_json_def by (rule connection_state.list_wire)

interpretation ipsec: wire ipsec_filter_json "variant_of ipsec_filter_variants"
  unfolding ipsec_filter_json_def by unfold_locales

text \<open>What an omitted optional member of the request needs, path by path.\<close>

definition path_absent :: "string list \<Rightarrow> json \<Rightarrow> bool" where
  "path_absent path v \<longleftrightarrow> (case json_pointer path v of None \<Rightarrow> True | Some u \<Rightarrow> jnull u)"

lemma path_absent_one [simp]: "path_absent [k] v \<Longrightarrow> absent k v"
  by (cases v) (auto simp: path_absent_def absent_def split: option.splits)

lemma path_absent_step: "path_absent (k # path) v \<Longrightarrow> jget k v = Some u \<Longrightarrow> path_absent path u"
  by (cases v) (auto simp: path_absent_def)

lemma bind_pointer_Nil [simp]: "Option.bind x (json_pointer []) = x"
  by (cases x) simp_all

lemma pointer_set_fields:
  "distinct (map fst fs) \<Longrightarrow>
     json_pointer (k # path) (JObj (set_fields fs)) = Option.bind (Option.bind (map_of fs k) id) (json_pointer path)"
  by (simp add: get_set_fields)

lemma pointer_tagged:
  "distinct (tag # map fst fs) \<Longrightarrow> k \<noteq> tag \<Longrightarrow>
     json_pointer (k # path) (tagged tag name fs) = Option.bind (Option.bind (map_of fs k) id) (json_pointer path)"
  by (simp add: tagged_def get_set_fields)

lemma pointer_request:
  "json_pointer (k # path) (firewall_policy_request_json r) =
     Option.bind (Option.bind (map_of (firewall_policy_request_fields r) k) id) (json_pointer path)"
  unfolding firewall_policy_request_json_def
  by (rule pointer_set_fields) (simp add: firewall_policy_request_fields_def)

lemma destination_pointer_port:
  "json_pointer [''portFilter''] (destination_traffic_filter_json x) = map_option port_filter_json (destination_port x)"
  by (cases x) (auto simp: pointer_tagged simp del: json_pointer.simps(2,3) split: option.split)

lemma source_pointer_port:
  "json_pointer [''portFilter''] (source_traffic_filter_json x) = map_option port_filter_json (source_port x)"
  by (cases x) (auto simp: pointer_tagged simp del: json_pointer.simps(2,3) split: option.split)

lemma source_pointer_mac:
  "json_pointer [''macAddressFilter''] (source_traffic_filter_json x) = None \<longleftrightarrow> \<not> sets_mac_filter x"
  by (cases x) (auto simp: pointer_tagged simp del: json_pointer.simps(2,3) split: option.split)

lemma schedule_pointer_time:
  "json_pointer [''timeFilter''] (schedule_json x) = map_option schedule_time_json (schedule_time_filter x)"
  by (cases x) (auto simp: pointer_tagged simp del: json_pointer.simps(2,3) split: option.split)

lemma named_protocol_pointer:
  "x \<in> {ProtoIcmp None, ProtoIcmpv6 None} \<Longrightarrow> json_pointer [''typenameFilter''] (named_protocol_json x) = None"
  by (auto simp: pointer_tagged simp del: json_pointer.simps(2,3))

lemma scope_pointer_protocol:
  "json_pointer (''protocolFilter'' # path) (ip_protocol_scope_json x) =
     Option.bind (map_option protocol_filter_json (scope_protocol_filter x)) (json_pointer path)"
  by (cases x) (auto simp: pointer_tagged simp del: json_pointer.simps(2,3))

lemma matches_path:
  assumes "firewall_policy_matches requested observed" and "path \<in> set OPTIONAL_POLICY_PATHS"
    and "json_pointer path requested = None"
  shows "path_absent path observed"
  using assms by (auto simp: firewall_policy_matches_def path_absent_def list_all_iff)

lemma destination_omitted:
  assumes m: "firewall_policy_matches (firewall_policy_request_json r) v" and u: "jget ''destination'' v = Some u"
  shows "omits_in destination_omits ''trafficFilter'' (dst_traffic_filter (fr_destination r)) u"
proof (cases "dst_traffic_filter (fr_destination r)")
  case None
  then have "json_pointer [''destination'', ''trafficFilter''] (firewall_policy_request_json r) = None"
    by (simp add: pointer_request firewall_policy_request_fields_def policy_destination_json_def get_set_fields)
  from matches_path [OF m _ this] have "path_absent [''trafficFilter''] u"
    by (intro path_absent_step [OF _ u]) (simp add: OPTIONAL_POLICY_PATHS_def)
  with None show ?thesis by (simp add: omits_in_def)
next
  case (Some x)
  have "absent ''portFilter'' w" if "jget ''trafficFilter'' u = Some w" "destination_port x = None" for w
  proof -
    have "json_pointer [''destination'', ''trafficFilter'', ''portFilter''] (firewall_policy_request_json r) = None"
      using Some that(2) destination_pointer_port [of x]
      by (simp add: pointer_request firewall_policy_request_fields_def policy_destination_json_def get_set_fields)
    from matches_path [OF m _ this] have "path_absent [''portFilter''] w"
      by (intro path_absent_step [OF path_absent_step [OF _ u] that(1)]) (simp add: OPTIONAL_POLICY_PATHS_def)
    then show ?thesis by simp
  qed
  with Some show ?thesis by (simp add: omits_in_def destination_omits_def split: option.split)
qed

lemma source_omitted:
  assumes m: "firewall_policy_matches (firewall_policy_request_json r) v" and u: "jget ''source'' v = Some u"
  shows "omits_in source_omits ''trafficFilter'' (src_traffic_filter (fr_source r)) u"
proof (cases "src_traffic_filter (fr_source r)")
  case None
  then have "json_pointer [''source'', ''trafficFilter''] (firewall_policy_request_json r) = None"
    by (simp add: pointer_request firewall_policy_request_fields_def policy_source_json_def get_set_fields)
  from matches_path [OF m _ this] have "path_absent [''trafficFilter''] u"
    by (intro path_absent_step [OF _ u]) (simp add: OPTIONAL_POLICY_PATHS_def)
  with None show ?thesis by (simp add: omits_in_def)
next
  case (Some x)
  have member: "absent k w"
    if w: "jget ''trafficFilter'' u = Some w" and k: "k \<in> {''portFilter'', ''macAddressFilter''}"
      and none: "json_pointer [k] (source_traffic_filter_json x) = None" for k w
  proof -
    have "json_pointer [''source'', ''trafficFilter'', k] (firewall_policy_request_json r) = None"
      using Some none
      by (simp add: pointer_request firewall_policy_request_fields_def policy_source_json_def get_set_fields)
    from matches_path [OF m _ this] k have "path_absent [k] w"
      by (intro path_absent_step [OF path_absent_step [OF _ u] w]) (auto simp: OPTIONAL_POLICY_PATHS_def)
    then show ?thesis by simp
  qed
  with Some show ?thesis
    by (auto simp: omits_in_def source_omits_def source_pointer_port source_pointer_mac split: option.split)
qed

lemma schedule_omitted:
  assumes m: "firewall_policy_matches (firewall_policy_request_json r) v"
  shows "omits_in schedule_omits ''schedule'' (fr_schedule r) v"
proof (cases "fr_schedule r")
  case None
  then have "json_pointer [''schedule''] (firewall_policy_request_json r) = None"
    by (simp add: pointer_request firewall_policy_request_fields_def)
  from matches_path [OF m _ this] have "path_absent [''schedule''] v" by (simp add: OPTIONAL_POLICY_PATHS_def)
  with None show ?thesis by (simp add: omits_in_def)
next
  case (Some x)
  have "absent ''timeFilter'' w" if "jget ''schedule'' v = Some w" "schedule_time_filter x = None" for w
  proof -
    have "json_pointer [''schedule'', ''timeFilter''] (firewall_policy_request_json r) = None"
      using Some that(2) schedule_pointer_time [of x]
      by (simp add: pointer_request firewall_policy_request_fields_def)
    from matches_path [OF m _ this] have "path_absent [''timeFilter''] w"
      by (intro path_absent_step [OF _ that(1)]) (simp add: OPTIONAL_POLICY_PATHS_def)
    then show ?thesis by simp
  qed
  with Some show ?thesis by (simp add: omits_in_def schedule_omits_def split: option.split)
qed

lemma scope_omitted:
  assumes m: "firewall_policy_matches (firewall_policy_request_json r) v" and u: "jget ''ipProtocolScope'' v = Some u"
  shows "omits_in protocol_filter_omits ''protocolFilter'' (scope_protocol_filter (fr_ip_protocol_scope r)) u"
proof (cases "scope_protocol_filter (fr_ip_protocol_scope r)")
  case None
  then have "json_pointer [''ipProtocolScope'', ''protocolFilter''] (firewall_policy_request_json r) = None"
    by (simp add: pointer_request firewall_policy_request_fields_def scope_pointer_protocol)
  from matches_path [OF m _ this] have "path_absent [''protocolFilter''] u"
    by (intro path_absent_step [OF _ u]) (simp add: OPTIONAL_POLICY_PATHS_def)
  with None show ?thesis by (simp add: omits_in_def)
next
  case (Some f)
  have "protocol_filter_omits f w" if w: "jget ''protocolFilter'' u = Some w" for w
  proof (cases f)
    case (FilterNamedProtocol b p)
    have "named_protocol_omits p z" if z: "jget ''protocol'' w = Some z" for z
      unfolding named_protocol_omits_def
    proof
      assume "p \<in> {ProtoIcmp None, ProtoIcmpv6 None}"
      from named_protocol_pointer [OF this] Some FilterNamedProtocol
      have "json_pointer [''ipProtocolScope'', ''protocolFilter'', ''protocol'', ''typenameFilter'']
          (firewall_policy_request_json r) = None"
        by (simp add: pointer_request firewall_policy_request_fields_def scope_pointer_protocol pointer_tagged
            del: json_pointer.simps(2,3))
      from matches_path [OF m _ this] have "path_absent [''typenameFilter''] z"
        by (intro path_absent_step [OF path_absent_step [OF path_absent_step [OF _ u] w] z])
          (simp add: OPTIONAL_POLICY_PATHS_def)
      then show "absent ''typenameFilter'' z" by simp
    qed
    with FilterNamedProtocol show ?thesis by (simp add: protocol_filter_omits_def split: option.split)
  qed (simp_all add: protocol_filter_omits_def)
  with Some show ?thesis by (simp add: omits_in_def split: option.split)
qed

lemma top_level_omitted:
  assumes m: "firewall_policy_matches (firewall_policy_request_json r) v"
    and k: "k \<in> {''connectionStateFilter'', ''description'', ''ipsecFilter''}"
    and none: "Option.bind (map_of (firewall_policy_request_fields r) k) id = None"
  shows "absent k v"
proof -
  have "json_pointer [k] (firewall_policy_request_json r) = None" by (simp add: pointer_request none)
  from matches_path [OF m _ this] k show ?thesis by (auto simp: OPTIONAL_POLICY_PATHS_def)
qed

lemma matching_policy_reads_back:
  assumes m: "firewall_policy_matches (firewall_policy_request_json r) observed"
  shows "firewall_policy_request_of observed = Some r"
proof -
  from m have "requested_json_matches (firewall_policy_request_json r) observed"
    by (simp add: firewall_policy_matches_def)
  moreover have "distinct (map fst (firewall_policy_request_fields r))"
    by (simp add: firewall_policy_request_fields_def)
  ultimately have "list_all (member_matches observed) (firewall_policy_request_fields r)"
    unfolding firewall_policy_request_json_def using object_matches by blast
  then have members:
    "member_matches observed (''action'', Some (firewall_action_json (fr_action r)))"
    "member_matches observed (''connectionStateFilter'', map_option connection_states_json (fr_connection_state_filter r))"
    "member_matches observed (''description'', map_option JStr (fr_description r))"
    "member_matches observed (''destination'', Some (policy_destination_json (fr_destination r)))"
    "member_matches observed (''enabled'', Some (JBool (fr_enabled r)))"
    "member_matches observed (''ipProtocolScope'', Some (ip_protocol_scope_json (fr_ip_protocol_scope r)))"
    "member_matches observed (''ipsecFilter'', map_option ipsec_filter_json (fr_ipsec_filter r))"
    "member_matches observed (''loggingEnabled'', Some (JBool (fr_logging_enabled r)))"
    "member_matches observed (''name'', Some (JStr (fr_name r)))"
    "member_matches observed (''schedule'', map_option schedule_json (fr_schedule r))"
    "member_matches observed (''source'', Some (policy_source_json (fr_source r)))"
    by (simp_all add: firewall_policy_request_fields_def)
  have omitted:
    "fr_connection_state_filter r = None \<longrightarrow> absent ''connectionStateFilter'' observed"
    "fr_description r = None \<longrightarrow> absent ''description'' observed"
    "fr_ipsec_filter r = None \<longrightarrow> absent ''ipsecFilter'' observed"
    by (auto intro!: top_level_omitted [OF m] simp: firewall_policy_request_fields_def)
  show ?thesis
    unfolding firewall_policy_request_of_def
    by (simp add: firewall_action.exact_required [OF members(1)]
        connection_states.exact_optional [OF members(2) omitted(1)]
        string_wire.exact_optional [OF members(3) omitted(2)]
        policy_destination.required_reads [OF members(4) destination_omitted [OF m]]
        bool_wire.exact_required [OF members(5)]
        ip_protocol_scope.required_reads [OF members(6) scope_omitted [OF m]]
        ipsec.exact_optional [OF members(7) omitted(3)] bool_wire.exact_required [OF members(8)]
        string_wire.exact_required [OF members(9)]
        schedule.optional_omitting [OF members(10) schedule_omitted [OF m]]
        policy_source.required_reads [OF members(11) source_omitted [OF m]])
qed

text \<open>
  C18. A firewall policy that is reported as verified holds the requested configuration: from the
  record read back, whatever other properties the controller added to it, exactly the request is
  read, through every variant of its actions, protocols, schedules and traffic filters, and with
  every optional setting that was left out of the request unset. The paths that \<open>matches\<close> checks
  are therefore complete for the request type, and no other request matches the same record.
\<close>

theorem matched_policy_reads_back:
  assumes "firewall_policy_matches (firewall_policy_request_json r) observed"
  shows "firewall_policy_request_of observed = Some r
         \<and> (\<forall>other. firewall_policy_matches (firewall_policy_request_json other) observed \<longrightarrow> other = r)"
  using matching_policy_reads_back [OF assms] matching_policy_reads_back by auto

definition sample_policy_request :: firewall_policy_request where
  "sample_policy_request =
     \<lparr>fr_action = ActionAllow True, fr_connection_state_filter = None, fr_description = None,
      fr_destination = \<lparr>dst_traffic_filter = Some (DstPort (Ports False [PortNumber 443])), dst_zone_id = ''w''\<rparr>,
      fr_enabled = True, fr_ip_protocol_scope = ScopeIpv4 (Some (FilterNamedProtocol False ProtoTcp)),
      fr_ipsec_filter = None, fr_logging_enabled = False, fr_name = ''https'', fr_schedule = None,
      fr_source = \<lparr>src_traffic_filter = None, src_zone_id = ''l''\<rparr>\<rparr>"

lemmas sample_policy_defs =
  sample_policy_request_def firewall_policy_request_json_def firewall_policy_request_fields_def
  policy_destination_json_def policy_source_json_def set_fields_def tagged_def json_list_def i32_json_def
  jint_def

theorem matched_policy_reads_back_witness:
  "firewall_policy_request_of (firewall_policy_request_json sample_policy_request) = Some sample_policy_request"
proof -
  have "firewall_policy_matches (firewall_policy_request_json sample_policy_request)
      (firewall_policy_request_json sample_policy_request)"
    by (simp add: firewall_policy_matches_def OPTIONAL_POLICY_PATHS_def sample_policy_defs)
  from matched_policy_reads_back [OF this] show ?thesis by (rule conjunct1)
qed

end
