(* ===== verification/Policy_Request.thy ===== *)
theory Policy_Request
  imports Firewall_Request
begin

text \<open>
  The other typed policy requests of \<open>crates/unifi-mcp/src/tools.rs\<close>: firewall zones, ACL rules, DNS
  policies and traffic matching lists, with their JSON and the validation that runs before a write.
  DNS policies and traffic lists have no optional members, so a matching record reads back as the
  request without further conditions.
\<close>

section \<open>Firewall zones\<close>

record firewall_zone_request =
  fz_name :: string
  fz_network_ids :: "string list"

definition firewall_zone_request_json :: "firewall_zone_request \<Rightarrow> json" where
  "firewall_zone_request_json z =
     JObj (set_fields [(''name'', Some (JStr (fz_name z))), (''networkIds'', Some (json_list JStr (fz_network_ids z)))])"

section \<open>ACL rules\<close>

datatype acl_rule_action = AclAllow | AclBlock

primrec acl_rule_action_name :: "acl_rule_action \<Rightarrow> string" where
  "acl_rule_action_name AclAllow = ''ALLOW''"
| "acl_rule_action_name AclBlock = ''BLOCK''"

datatype acl_rule_protocol = AclTcp | AclUdp

primrec acl_rule_protocol_name :: "acl_rule_protocol \<Rightarrow> string" where
  "acl_rule_protocol_name AclTcp = ''TCP''"
| "acl_rule_protocol_name AclUdp = ''UDP''"

datatype acl_rule_device_filter = Devices "string list"

primrec acl_rule_device_filter_json :: "acl_rule_device_filter \<Rightarrow> json" where
  "acl_rule_device_filter_json (Devices device_ids) =
     tagged ''type'' ''DEVICES'' [(''deviceIds'', Some (json_list JStr device_ids))]"

definition u16s_json :: "u16 list \<Rightarrow> json" where
  "u16s_json ports = json_list word_json ports"

datatype ip_acl_rule_endpoint =
    AclIpAddressesOrSubnets "string list" "u16 list option"
  | AclNetworks "string list" "u16 list option"
  | AclPorts "u16 list"

primrec ip_acl_rule_endpoint_json :: "ip_acl_rule_endpoint \<Rightarrow> json" where
  "ip_acl_rule_endpoint_json (AclIpAddressesOrSubnets addresses port_filter) =
     tagged ''type'' ''IP_ADDRESSES_OR_SUBNETS''
       [(''ipAddressesOrSubnets'', Some (json_list JStr addresses)),
        (''portFilter'', map_option u16s_json port_filter)]"
| "ip_acl_rule_endpoint_json (AclNetworks network_ids port_filter) =
     tagged ''type'' ''NETWORKS''
       [(''networkIds'', Some (json_list JStr network_ids)), (''portFilter'', map_option u16s_json port_filter)]"
| "ip_acl_rule_endpoint_json (AclPorts port_filter) =
     tagged ''type'' ''PORTS'' [(''portFilter'', Some (u16s_json port_filter))]"

datatype mac_acl_rule_endpoint = AclMacAddresses "string list" "u8 option"

primrec mac_acl_rule_endpoint_json :: "mac_acl_rule_endpoint \<Rightarrow> json" where
  "mac_acl_rule_endpoint_json (AclMacAddresses addresses prefix_length) =
     tagged ''type'' ''MAC_ADDRESSES''
       [(''macAddresses'', Some (json_list JStr addresses)), (''prefixLength'', map_option word_json prefix_length)]"

text \<open>The two variants share some of their members; each is a record of its own.\<close>

record ipv4_acl_rule =
  ia_action :: acl_rule_action
  ia_enabled :: bool
  ia_name :: string
  ia_description :: "string option"
  ia_source_filter :: "ip_acl_rule_endpoint option"
  ia_destination_filter :: "ip_acl_rule_endpoint option"
  ia_protocol_filter :: "acl_rule_protocol list option"
  ia_enforcing_device_filter :: "acl_rule_device_filter option"

record mac_acl_rule =
  ma_action :: acl_rule_action
  ma_enabled :: bool
  ma_name :: string
  ma_network_id_filter :: string
  ma_description :: "string option"
  ma_source_filter :: "mac_acl_rule_endpoint option"
  ma_destination_filter :: "mac_acl_rule_endpoint option"
  ma_enforcing_device_filter :: "acl_rule_device_filter option"

datatype acl_rule_request = AclIpv4 ipv4_acl_rule | AclMac mac_acl_rule

primrec acl_rule_request_json :: "acl_rule_request \<Rightarrow> json" where
  "acl_rule_request_json (AclIpv4 r) =
     tagged ''type'' ''IPV4''
       [(''action'', Some (JStr (acl_rule_action_name (ia_action r)))), (''enabled'', Some (JBool (ia_enabled r))),
        (''name'', Some (JStr (ia_name r))), (''description'', map_option JStr (ia_description r)),
        (''sourceFilter'', map_option ip_acl_rule_endpoint_json (ia_source_filter r)),
        (''destinationFilter'', map_option ip_acl_rule_endpoint_json (ia_destination_filter r)),
        (''protocolFilter'',
          map_option (json_list (\<lambda>p. JStr (acl_rule_protocol_name p))) (ia_protocol_filter r)),
        (''enforcingDeviceFilter'', map_option acl_rule_device_filter_json (ia_enforcing_device_filter r))]"
| "acl_rule_request_json (AclMac r) =
     tagged ''type'' ''MAC''
       [(''action'', Some (JStr (acl_rule_action_name (ma_action r)))), (''enabled'', Some (JBool (ma_enabled r))),
        (''name'', Some (JStr (ma_name r))), (''networkIdFilter'', Some (JStr (ma_network_id_filter r))),
        (''description'', map_option JStr (ma_description r)),
        (''sourceFilter'', map_option mac_acl_rule_endpoint_json (ma_source_filter r)),
        (''destinationFilter'', map_option mac_acl_rule_endpoint_json (ma_destination_filter r)),
        (''enforcingDeviceFilter'', map_option acl_rule_device_filter_json (ma_enforcing_device_filter r))]"

subsection \<open>Validation\<close>

definition validate_acl_nonempty :: "string list \<Rightarrow> string \<Rightarrow> mcp_error + unit" where
  "validate_acl_nonempty values field =
     (if values = [] \<or> list_ex (\<lambda>v. v = []) values
      then Inl (InvalidParams (field @ '' requires at least one nonempty value'')) else Inr ())"

definition validate_acl_ports :: "u16 list \<Rightarrow> mcp_error + unit" where
  "validate_acl_ports values =
     (if values = [] \<or> 0 \<in> set values then Inl (InvalidParams ''portFilter requires ports in 1-65535'')
      else Inr ())"

text \<open>\<open>if let Some(x) = option { check(x)?; }\<close>.\<close>

definition check_some :: "('a \<Rightarrow> mcp_error + unit) \<Rightarrow> 'a option \<Rightarrow> mcp_error + unit" where
  "check_some check o1 = (case o1 of None \<Rightarrow> Inr () | Some x \<Rightarrow> check x)"

primrec validate_ip_acl_endpoint :: "ip_acl_rule_endpoint \<Rightarrow> mcp_error + unit" where
  "validate_ip_acl_endpoint (AclIpAddressesOrSubnets addresses port_filter) =
     bind_res (validate_acl_nonempty addresses ''ipAddressesOrSubnets'') (\<lambda>_.
       check_some validate_acl_ports port_filter)"
| "validate_ip_acl_endpoint (AclNetworks network_ids port_filter) =
     bind_res (validate_acl_nonempty network_ids ''networkIds'') (\<lambda>_.
       check_some validate_acl_ports port_filter)"
| "validate_ip_acl_endpoint (AclPorts port_filter) = validate_acl_ports port_filter"

primrec validate_mac_acl_endpoint :: "mac_acl_rule_endpoint \<Rightarrow> mcp_error + unit" where
  "validate_mac_acl_endpoint (AclMacAddresses addresses prefix_length) =
     bind_res (validate_acl_nonempty addresses ''macAddresses'') (\<lambda>_.
       case prefix_length of
         None \<Rightarrow> Inr ()
       | Some p \<Rightarrow> (if 1 \<le> p \<and> p \<le> 48 then Inr () else Inl (InvalidParams ''prefixLength must be 1-48'')))"

definition validate_acl_name_and_devices ::
  "string \<Rightarrow> acl_rule_device_filter option \<Rightarrow> mcp_error + unit" where
  "validate_acl_name_and_devices name device_filter =
     (if name = [] then Inl (InvalidParams ''name must be nonempty'')
      else check_some (\<lambda>f. case f of Devices device_ids \<Rightarrow> validate_acl_nonempty device_ids ''deviceIds'')
             device_filter)"

primrec validate_acl_rule_request :: "acl_rule_request \<Rightarrow> mcp_error + unit" where
  "validate_acl_rule_request (AclIpv4 r) =
     bind_res (check_some validate_ip_acl_endpoint (ia_source_filter r)) (\<lambda>_.
     bind_res (check_some validate_ip_acl_endpoint (ia_destination_filter r)) (\<lambda>_.
       if ia_protocol_filter r = Some [] then Inl (InvalidParams ''protocolFilter requires at least one protocol'')
       else validate_acl_name_and_devices (ia_name r) (ia_enforcing_device_filter r)))"
| "validate_acl_rule_request (AclMac r) =
     (if ma_network_id_filter r = [] then Inl (InvalidParams ''networkIdFilter must be nonempty'')
      else
        bind_res (check_some validate_mac_acl_endpoint (ma_source_filter r)) (\<lambda>_.
        bind_res (check_some validate_mac_acl_endpoint (ma_destination_filter r)) (\<lambda>_.
          validate_acl_name_and_devices (ma_name r) (ma_enforcing_device_filter r))))"

section \<open>DNS policies\<close>

datatype dns_policy_request =
    ARecord bool string string u32
  | AaaaRecord bool string string u32
  | CnameRecord bool string string u32
  | ForwardDomain bool string string
  | MxRecord bool string string u16
  | SrvRecord bool string u16 u16 string string string u16
  | TxtRecord bool string string

primrec dns_policy_request_json :: "dns_policy_request \<Rightarrow> json" where
  "dns_policy_request_json (ARecord enabled domain ipv4_address ttl_seconds) =
     tagged ''type'' ''A_RECORD''
       [(''enabled'', Some (JBool enabled)), (''domain'', Some (JStr domain)),
        (''ipv4Address'', Some (JStr ipv4_address)), (''ttlSeconds'', Some (word_json ttl_seconds))]"
| "dns_policy_request_json (AaaaRecord enabled domain ipv6_address ttl_seconds) =
     tagged ''type'' ''AAAA_RECORD''
       [(''enabled'', Some (JBool enabled)), (''domain'', Some (JStr domain)),
        (''ipv6Address'', Some (JStr ipv6_address)), (''ttlSeconds'', Some (word_json ttl_seconds))]"
| "dns_policy_request_json (CnameRecord enabled domain target_domain ttl_seconds) =
     tagged ''type'' ''CNAME_RECORD''
       [(''enabled'', Some (JBool enabled)), (''domain'', Some (JStr domain)),
        (''targetDomain'', Some (JStr target_domain)), (''ttlSeconds'', Some (word_json ttl_seconds))]"
| "dns_policy_request_json (ForwardDomain enabled domain ip_address) =
     tagged ''type'' ''FORWARD_DOMAIN''
       [(''enabled'', Some (JBool enabled)), (''domain'', Some (JStr domain)),
        (''ipAddress'', Some (JStr ip_address))]"
| "dns_policy_request_json (MxRecord enabled domain mail_server_domain priority) =
     tagged ''type'' ''MX_RECORD''
       [(''enabled'', Some (JBool enabled)), (''domain'', Some (JStr domain)),
        (''mailServerDomain'', Some (JStr mail_server_domain)), (''priority'', Some (word_json priority))]"
| "dns_policy_request_json (SrvRecord enabled domain port priority protocol server_domain service weight) =
     tagged ''type'' ''SRV_RECORD''
       [(''enabled'', Some (JBool enabled)), (''domain'', Some (JStr domain)), (''port'', Some (word_json port)),
        (''priority'', Some (word_json priority)), (''protocol'', Some (JStr protocol)),
        (''serverDomain'', Some (JStr server_domain)), (''service'', Some (JStr service)),
        (''weight'', Some (word_json weight))]"
| "dns_policy_request_json (TxtRecord enabled domain txt) =
     tagged ''type'' ''TXT_RECORD''
       [(''enabled'', Some (JBool enabled)), (''domain'', Some (JStr domain)), (''text'', Some (JStr txt))]"

primrec dns_domain :: "dns_policy_request \<Rightarrow> string" where
  "dns_domain (ARecord _ domain _ _) = domain"
| "dns_domain (AaaaRecord _ domain _ _) = domain"
| "dns_domain (CnameRecord _ domain _ _) = domain"
| "dns_domain (ForwardDomain _ domain _) = domain"
| "dns_domain (MxRecord _ domain _ _) = domain"
| "dns_domain (SrvRecord _ domain _ _ _ _ _ _) = domain"
| "dns_domain (TxtRecord _ domain _) = domain"

definition outside_bytes :: "nat \<Rightarrow> string \<Rightarrow> bool" where
  "outside_bytes most s \<longleftrightarrow> s = [] \<or> most < length s"

definition validate_dns_policy_request :: "dns_policy_request \<Rightarrow> mcp_error + unit" where
  "validate_dns_policy_request policy =
     (if outside_bytes 127 (dns_domain policy) then Inl (InvalidParams ''domain must contain 1-127 bytes'')
      else
        (case policy of
           ARecord _ _ _ ttl_seconds \<Rightarrow>
             (if 86400 < ttl_seconds then Inl (InvalidParams ''A and AAAA record ttlSeconds must be 0-86400'')
              else Inr ())
         | AaaaRecord _ _ _ ttl_seconds \<Rightarrow>
             (if 86400 < ttl_seconds then Inl (InvalidParams ''A and AAAA record ttlSeconds must be 0-86400'')
              else Inr ())
         | CnameRecord _ _ target_domain ttl_seconds \<Rightarrow>
             (if outside_bytes 127 target_domain \<or> 604800 < ttl_seconds
              then Inl (InvalidParams
                ''CNAME targetDomain must contain 1-127 bytes and ttlSeconds must be 0-604800'')
              else Inr ())
         | MxRecord _ _ mail_server_domain _ \<Rightarrow>
             (if outside_bytes 127 mail_server_domain
              then Inl (InvalidParams ''MX mailServerDomain must contain 1-127 bytes'') else Inr ())
         | SrvRecord _ _ _ _ _ server_domain _ _ \<Rightarrow>
             (if outside_bytes 127 server_domain
              then Inl (InvalidParams ''SRV serverDomain must contain 1-127 bytes'') else Inr ())
         | TxtRecord _ _ txt \<Rightarrow>
             (if outside_bytes 1024 txt then Inl (InvalidParams ''TXT text must contain 1-1024 bytes'')
              else Inr ())
         | ForwardDomain _ _ _ \<Rightarrow> Inr ()))"

section \<open>Traffic matching lists\<close>

datatype ipv4_list_item = Ipv4Address string | Ipv4AddressRange string string | Ipv4Subnet string

primrec ipv4_list_item_json :: "ipv4_list_item \<Rightarrow> json" where
  "ipv4_list_item_json (Ipv4Address a) = tagged ''type'' ''IP_ADDRESS'' [(''value'', Some (JStr a))]"
| "ipv4_list_item_json (Ipv4AddressRange start stop) =
     tagged ''type'' ''IP_ADDRESS_RANGE'' [(''start'', Some (JStr start)), (''stop'', Some (JStr stop))]"
| "ipv4_list_item_json (Ipv4Subnet a) = tagged ''type'' ''SUBNET'' [(''value'', Some (JStr a))]"

datatype ipv6_list_item = Ipv6Address string | Ipv6Subnet string

primrec ipv6_list_item_json :: "ipv6_list_item \<Rightarrow> json" where
  "ipv6_list_item_json (Ipv6Address a) = tagged ''type'' ''IP_ADDRESS'' [(''value'', Some (JStr a))]"
| "ipv6_list_item_json (Ipv6Subnet a) = tagged ''type'' ''SUBNET'' [(''value'', Some (JStr a))]"

datatype port_list_item = ItemPortNumber u16 | ItemPortNumberRange u16 u16

primrec port_list_item_json :: "port_list_item \<Rightarrow> json" where
  "port_list_item_json (ItemPortNumber n) = tagged ''type'' ''PORT_NUMBER'' [(''value'', Some (word_json n))]"
| "port_list_item_json (ItemPortNumberRange start stop) =
     tagged ''type'' ''PORT_NUMBER_RANGE'' [(''start'', Some (word_json start)), (''stop'', Some (word_json stop))]"

datatype traffic_list_request =
    Ipv4Addresses string "ipv4_list_item list"
  | Ipv6Addresses string "ipv6_list_item list"
  | PortList string "port_list_item list"

primrec traffic_list_request_json :: "traffic_list_request \<Rightarrow> json" where
  "traffic_list_request_json (Ipv4Addresses name items) =
     tagged ''type'' ''IPV4_ADDRESSES''
       [(''name'', Some (JStr name)), (''items'', Some (json_list ipv4_list_item_json items))]"
| "traffic_list_request_json (Ipv6Addresses name items) =
     tagged ''type'' ''IPV6_ADDRESSES''
       [(''name'', Some (JStr name)), (''items'', Some (json_list ipv6_list_item_json items))]"
| "traffic_list_request_json (PortList name items) =
     tagged ''type'' ''PORTS''
       [(''name'', Some (JStr name)), (''items'', Some (json_list port_list_item_json items))]"

primrec valid_port_item :: "port_list_item \<Rightarrow> bool" where
  "valid_port_item (ItemPortNumber n) \<longleftrightarrow> 0 < n"
| "valid_port_item (ItemPortNumberRange start stop) \<longleftrightarrow> 0 < start \<and> 0 < stop"

primrec list_name_and_count :: "traffic_list_request \<Rightarrow> string \<times> nat" where
  "list_name_and_count (Ipv4Addresses name items) = (name, length items)"
| "list_name_and_count (Ipv6Addresses name items) = (name, length items)"
| "list_name_and_count (PortList name items) = (name, length items)"

definition validate_traffic_list_request :: "traffic_list_request \<Rightarrow> mcp_error + unit" where
  "validate_traffic_list_request lst =
     (case list_name_and_count lst of (name, item_count) \<Rightarrow>
        if name = [] \<or> item_count = 0 then Inl (InvalidParams ''name and at least one item are required'')
        else (case lst of
                PortList _ items \<Rightarrow>
                  (if list_all valid_port_item items then Inr ()
                   else Inl (InvalidParams ''port item values must be 1-65535''))
              | _ \<Rightarrow> Inr ()))"

section \<open>Reading back\<close>

definition firewall_zone_request_of :: "json \<Rightarrow> firewall_zone_request option" where
  "firewall_zone_request_of v =
     app2 (\<lambda>n ids. \<lparr>fz_name = n, fz_network_ids = ids\<rparr>)
       (required ''name'' jstr v) (required ''networkIds'' (listed jstr) v)"

interpretation firewall_zone_request: wire firewall_zone_request_json firewall_zone_request_of
  by unfold_locales
    (auto simp: firewall_zone_request_json_def firewall_zone_request_of_def object_matches
      simp del: requested_json_matches.simps dest!: wire_reads)

definition dns_policy_request_of :: "json \<Rightarrow> dns_policy_request option" where
  "dns_policy_request_of v =
     (let enabled = required ''enabled'' jbool v; domain = required ''domain'' jstr v;
          ttl = required ''ttlSeconds'' json_word v; priority = required ''priority'' json_word v
      in if tag_of ''type'' v = Some ''A_RECORD''
         then app4 ARecord enabled domain (required ''ipv4Address'' jstr v) ttl
         else if tag_of ''type'' v = Some ''AAAA_RECORD''
         then app4 AaaaRecord enabled domain (required ''ipv6Address'' jstr v) ttl
         else if tag_of ''type'' v = Some ''CNAME_RECORD''
         then app4 CnameRecord enabled domain (required ''targetDomain'' jstr v) ttl
         else if tag_of ''type'' v = Some ''FORWARD_DOMAIN''
         then app3 ForwardDomain enabled domain (required ''ipAddress'' jstr v)
         else if tag_of ''type'' v = Some ''MX_RECORD''
         then app4 MxRecord enabled domain (required ''mailServerDomain'' jstr v) priority
         else if tag_of ''type'' v = Some ''SRV_RECORD''
         then Option.bind (app4 SrvRecord enabled domain (required ''port'' json_word v) priority) (\<lambda>record.
                  app4 record (required ''protocol'' jstr v) (required ''serverDomain'' jstr v)
                    (required ''service'' jstr v) (required ''weight'' json_word v))
         else if tag_of ''type'' v = Some ''TXT_RECORD''
         then app3 TxtRecord enabled domain (required ''text'' jstr v)
         else None)"

interpretation dns_policy_request: wire dns_policy_request_json dns_policy_request_of
proof
  show "requested_json_matches (dns_policy_request_json x) v \<Longrightarrow> dns_policy_request_of v = Some x" for x v
    by (cases x) (auto simp: tagged_matches dns_policy_request_of_def Let_def dest!: wire_reads)
  show "dns_policy_request_json x \<noteq> JNull" for x by (cases x) simp_all
qed

definition ipv4_list_item_of :: "json \<Rightarrow> ipv4_list_item option" where
  "ipv4_list_item_of v =
     (if tag_of ''type'' v = Some ''IP_ADDRESS'' then map_option Ipv4Address (required ''value'' jstr v)
      else if tag_of ''type'' v = Some ''IP_ADDRESS_RANGE''
      then app2 Ipv4AddressRange (required ''start'' jstr v) (required ''stop'' jstr v)
      else if tag_of ''type'' v = Some ''SUBNET'' then map_option Ipv4Subnet (required ''value'' jstr v)
      else None)"

definition ipv6_list_item_of :: "json \<Rightarrow> ipv6_list_item option" where
  "ipv6_list_item_of v =
     (if tag_of ''type'' v = Some ''IP_ADDRESS'' then map_option Ipv6Address (required ''value'' jstr v)
      else if tag_of ''type'' v = Some ''SUBNET'' then map_option Ipv6Subnet (required ''value'' jstr v)
      else None)"

definition port_list_item_of :: "json \<Rightarrow> port_list_item option" where
  "port_list_item_of v =
     (if tag_of ''type'' v = Some ''PORT_NUMBER'' then map_option ItemPortNumber (required ''value'' json_word v)
      else if tag_of ''type'' v = Some ''PORT_NUMBER_RANGE''
      then app2 ItemPortNumberRange (required ''start'' json_word v) (required ''stop'' json_word v)
      else None)"

interpretation ipv4_list_item: wire ipv4_list_item_json ipv4_list_item_of
proof
  show "requested_json_matches (ipv4_list_item_json x) v \<Longrightarrow> ipv4_list_item_of v = Some x" for x v
    by (cases x) (auto simp: tagged_matches ipv4_list_item_of_def dest!: wire_reads)
  show "ipv4_list_item_json x \<noteq> JNull" for x by (cases x) simp_all
qed

interpretation ipv6_list_item: wire ipv6_list_item_json ipv6_list_item_of
proof
  show "requested_json_matches (ipv6_list_item_json x) v \<Longrightarrow> ipv6_list_item_of v = Some x" for x v
    by (cases x) (auto simp: tagged_matches ipv6_list_item_of_def dest!: wire_reads)
  show "ipv6_list_item_json x \<noteq> JNull" for x by (cases x) simp_all
qed

interpretation port_list_item: wire port_list_item_json port_list_item_of
proof
  show "requested_json_matches (port_list_item_json x) v \<Longrightarrow> port_list_item_of v = Some x" for x v
    by (cases x) (auto simp: tagged_matches port_list_item_of_def dest!: wire_reads)
  show "port_list_item_json x \<noteq> JNull" for x by (cases x) simp_all
qed

interpretation ipv4_list_items: wire "json_list ipv4_list_item_json" "listed ipv4_list_item_of"
  by (rule ipv4_list_item.list_wire)

interpretation ipv6_list_items: wire "json_list ipv6_list_item_json" "listed ipv6_list_item_of"
  by (rule ipv6_list_item.list_wire)

interpretation port_list_items: wire "json_list port_list_item_json" "listed port_list_item_of"
  by (rule port_list_item.list_wire)

lemmas list_item_reads [wire_reads] =
  ipv4_list_items.exact_member ipv6_list_items.exact_member port_list_items.exact_member

definition traffic_list_request_of :: "json \<Rightarrow> traffic_list_request option" where
  "traffic_list_request_of v =
     (let name = required ''name'' jstr v
      in if tag_of ''type'' v = Some ''IPV4_ADDRESSES''
         then app2 Ipv4Addresses name (required ''items'' (listed ipv4_list_item_of) v)
         else if tag_of ''type'' v = Some ''IPV6_ADDRESSES''
         then app2 Ipv6Addresses name (required ''items'' (listed ipv6_list_item_of) v)
         else if tag_of ''type'' v = Some ''PORTS''
         then app2 PortList name (required ''items'' (listed port_list_item_of) v)
         else None)"

interpretation traffic_list_request: wire traffic_list_request_json traffic_list_request_of
proof
  show "requested_json_matches (traffic_list_request_json x) v \<Longrightarrow> traffic_list_request_of v = Some x" for x v
    by (cases x) (auto simp: tagged_matches traffic_list_request_of_def dest!: wire_reads)
  show "traffic_list_request_json x \<noteq> JNull" for x by (cases x) simp_all
qed

end
