(* ===== verification/Tool_Policies.thy ===== *)
theory Tool_Policies
  imports Policy_Request
begin

text \<open>
  The tools of \<open>crates/unifi-mcp/src/tools.rs\<close> that write typed network policies: firewall zones and
  policies, ACL rules, DNS policies and traffic matching lists, and the two policy orderings. A
  request is validated and turned into a plan; without confirmation the plan is shown; confirmed it
  is sent once, and what the controller accepted is compared with what it returns afterwards.
\<close>

section \<open>Plans and outputs\<close>

datatype network_policy_kind =
  KindAclRules | KindFirewallZones | KindFirewallPolicies | KindDnsPolicies | KindTrafficMatchingLists

primrec policy_collection :: "network_policy_kind \<Rightarrow> network_policy_collection" where
  "policy_collection KindAclRules = AclRules"
| "policy_collection KindFirewallZones = FirewallZones"
| "policy_collection KindFirewallPolicies = FirewallPolicies"
| "policy_collection KindDnsPolicies = DnsPolicies"
| "policy_collection KindTrafficMatchingLists = TrafficMatchingLists"

primrec policy_kind_word :: "network_policy_kind \<Rightarrow> string" where
  "policy_kind_word KindAclRules = ''aclRules''"
| "policy_kind_word KindFirewallZones = ''firewallZones''"
| "policy_kind_word KindFirewallPolicies = ''firewallPolicies''"
| "policy_kind_word KindDnsPolicies = ''dnsPolicies''"
| "policy_kind_word KindTrafficMatchingLists = ''trafficMatchingLists''"

datatype policy_write_operation = Create | Update | Delete

primrec operation_word :: "policy_write_operation \<Rightarrow> string" where
  "operation_word Create = ''create''"
| "operation_word Update = ''update''"
| "operation_word Delete = ''delete''"

record policy_write_plan_record =
  np_kind :: network_policy_kind
  np_operation :: policy_write_operation
  np_id :: "string option"
  np_requested :: "json option"
  np_confirm :: bool

text \<open>The kind is kept as its word: the ordering of firewall policies gives it as a literal.\<close>

record network_policy_write_output =
  wo_kind :: string
  wo_operation :: policy_write_operation
  wo_consequence :: string
  wo_id :: "string option"
  wo_requested :: "json option"
  wo_requested_in_content :: "bool option"
  wo_submitted :: bool
  wo_response_status :: "nat option"
  wo_response_body :: "string option"
  wo_response_body_in_content :: "bool option"
  wo_accepted :: "json option"
  wo_accepted_in_content :: "bool option"
  wo_after :: "json option"
  wo_after_in_content :: "bool option"
  wo_verified :: "bool option"
  wo_verified_absent :: "bool option"
  wo_readback_error :: "string option"
  wo_readback_error_in_content :: "bool option"

definition network_policy_write_json :: "network_policy_write_output \<Rightarrow> json" where
  "network_policy_write_json o1 =
     JObj (set_fields
       [(''kind'', Some (JStr (wo_kind o1))), (''operation'', Some (JStr (operation_word (wo_operation o1)))),
        (''consequence'', Some (JStr (wo_consequence o1))), (''id'', map_option JStr (wo_id o1)),
        (''requested'', wo_requested o1), (''requestedInContent'', map_option JBool (wo_requested_in_content o1)),
        (''submitted'', Some (JBool (wo_submitted o1))),
        (''responseStatus'', map_option jnat (wo_response_status o1)),
        (''responseBody'', map_option JStr (wo_response_body o1)),
        (''responseBodyInContent'', map_option JBool (wo_response_body_in_content o1)),
        (''accepted'', wo_accepted o1), (''acceptedInContent'', map_option JBool (wo_accepted_in_content o1)),
        (''after'', wo_after o1), (''afterInContent'', map_option JBool (wo_after_in_content o1)),
        (''verified'', map_option JBool (wo_verified o1)),
        (''verifiedAbsent'', map_option JBool (wo_verified_absent o1)),
        (''readbackError'', map_option JStr (wo_readback_error o1)),
        (''readbackErrorInContent'', map_option JBool (wo_readback_error_in_content o1))])"

definition policy_write_steps ::
  "('e, 'x) tool_runtime_scheme
     \<Rightarrow> (string \<times> (network_policy_write_output \<Rightarrow> (string \<times> network_policy_write_output) option)) list" where
  "policy_write_steps rt =
     [(''requested'', take_text wo_requested (show_json rt)
         (\<lambda>o1. o1\<lparr>wo_requested := None, wo_requested_in_content := Some True\<rparr>)),
      (''accepted'', take_text wo_accepted (show_json rt)
         (\<lambda>o1. o1\<lparr>wo_accepted := None, wo_accepted_in_content := Some True\<rparr>)),
      (''after'', take_text wo_after (show_json rt)
         (\<lambda>o1. o1\<lparr>wo_after := None, wo_after_in_content := Some True\<rparr>)),
      (''responseBody'', take_text wo_response_body id
         (\<lambda>o1. o1\<lparr>wo_response_body := None, wo_response_body_in_content := Some True\<rparr>)),
      (''readbackError'', take_text wo_readback_error id
         (\<lambda>o1. o1\<lparr>wo_readback_error := None, wo_readback_error_in_content := Some True\<rparr>))]"

definition network_policy_write_result ::
  "('e, 'x) tool_runtime_scheme \<Rightarrow> network_policy_write_output \<Rightarrow> call_result" where
  "network_policy_write_result rt output = spilled_result rt network_policy_write_json (policy_write_steps rt) output"

interpretation policy_write: spill_steps "policy_write_steps rt" for rt :: "('e, 'x) tool_runtime_scheme"
  by unfold_locales (auto simp: policy_write_steps_def)

section \<open>Planning a write\<close>

definition MAXIMUM_POLICY_REQUEST_BYTES :: nat where
  "MAXIMUM_POLICY_REQUEST_BYTES = 1024 * 1024"

primrec valid_shape :: "policy_write_operation \<Rightarrow> string option \<Rightarrow> json option \<Rightarrow> bool" where
  "valid_shape Create rid requested \<longleftrightarrow> rid = None \<and> requested \<noteq> None"
| "valid_shape Update rid requested \<longleftrightarrow> rid \<noteq> None \<and> requested \<noteq> None"
| "valid_shape Delete rid requested \<longleftrightarrow> rid \<noteq> None \<and> requested = None"

definition bad_id :: "string \<Rightarrow> bool" where
  "bad_id rid \<longleftrightarrow> blank rid \<or> 256 < length rid \<or> rid \<in> {''.'', ''..''}"

definition oversized :: "('e, 'x) tool_runtime_scheme \<Rightarrow> json \<Rightarrow> bool" where
  "oversized rt body \<longleftrightarrow> MAXIMUM_POLICY_REQUEST_BYTES < length (show_json rt body)"

definition policy_write_plan ::
  "('e, 'x) tool_runtime_scheme \<Rightarrow> network_policy_kind \<Rightarrow> policy_write_operation \<Rightarrow> string option
     \<Rightarrow> json option \<Rightarrow> bool \<Rightarrow> mcp_error + policy_write_plan_record" where
  "policy_write_plan rt pkind operation rid requested confirm =
     (if \<not> valid_shape operation rid requested
      then Inl (InvalidParams
        ''create requires a request body and no id; update requires both; delete requires an id and no request body'')
      else if (case rid of None \<Rightarrow> False | Some i \<Rightarrow> bad_id i)
      then Inl (InvalidParams ''id must be a nonempty id of at most 256 bytes'')
      else if (case requested of None \<Rightarrow> False | Some body \<Rightarrow> oversized rt body)
      then Inl (InvalidParams ''policy request exceeds the 1 MiB request bound'')
      else Inr \<lparr>np_kind = pkind, np_operation = operation, np_id = rid, np_requested = requested,
                np_confirm = confirm\<rparr>)"

section \<open>Writing a policy\<close>

primrec operation_consequence :: "policy_write_operation \<Rightarrow> string" where
  "operation_consequence Create = ''create another policy, zone, or list''"
| "operation_consequence Update = ''replace the named policy, zone, or list''"
| "operation_consequence Delete = ''delete the named policy, zone, or list and change rules that depend on it''"

definition planned_output :: "string \<Rightarrow> policy_write_operation \<Rightarrow> string \<Rightarrow> string option \<Rightarrow> json option
     \<Rightarrow> network_policy_write_output" where
  "planned_output pkind operation consequence rid requested =
     \<lparr>wo_kind = pkind, wo_operation = operation, wo_consequence = consequence, wo_id = rid,
      wo_requested = requested, wo_requested_in_content = None, wo_submitted = False,
      wo_response_status = None, wo_response_body = None, wo_response_body_in_content = None,
      wo_accepted = None, wo_accepted_in_content = None, wo_after = None, wo_after_in_content = None,
      wo_verified = None, wo_verified_absent = None, wo_readback_error = None,
      wo_readback_error_in_content = None\<rparr>"

text \<open>The \<open>expect\<close>s of the source; \<open>plans_never_panic\<close> below shows that no plan reaches them.\<close>

definition expect :: "string \<Rightarrow> 'a option \<Rightarrow> ('e, 'a) tool" where
  "expect message o1 =
     (case o1 of Some x \<Rightarrow> return_io (Inr x) | None \<Rightarrow> return_io (Inl (InternalError (''panicked: '' @ message))))"

definition submit_record ::
  "('e, 'x) tool_runtime_scheme \<Rightarrow> string \<Rightarrow> policy_write_plan_record \<Rightarrow> json \<Rightarrow> ('e, nat \<times> json) tool" where
  "submit_record rt site p requested =
     (if np_operation p = Create
      then upstream (network_policy_create (integration rt) site (policy_collection (np_kind p)) requested)
      else bind_io (expect ''validated policy id'' (np_id p)) (\<lambda>rid.
             upstream (network_policy_update (integration rt) site (policy_collection (np_kind p)) rid requested)))"

definition record_matches :: "network_policy_kind \<Rightarrow> json \<Rightarrow> json \<Rightarrow> bool" where
  "record_matches pkind requested after \<longleftrightarrow>
     (if pkind = KindFirewallPolicies then firewall_policy_matches requested after
      else requested_json_matches requested after)"

definition policy_read_back ::
  "network_policy_kind \<Rightarrow> string \<Rightarrow> string option \<Rightarrow> json \<Rightarrow> (api_error + json) timed
     \<Rightarrow> network_policy_write_output \<Rightarrow> network_policy_write_output" where
  "policy_read_back pkind rid accepted_id requested outcome output =
     (case outcome of
        Skipped \<Rightarrow> output\<lparr>wo_readback_error := Some ''policy readback skipped near request deadline''\<rparr>
      | TimedOut \<Rightarrow> output\<lparr>wo_readback_error := Some ''policy readback timed out''\<rparr>
      | Finished (Inl err) \<Rightarrow> output\<lparr>wo_readback_error := Some (render err)\<rparr>
      | Finished (Inr after) \<Rightarrow>
          output\<lparr>wo_verified := Some (record_id after = Some rid \<and> accepted_id = Some rid
                                 \<and> record_matches pkind requested after),
                 wo_after := Some after\<rparr>)"

definition absence_read_back ::
  "(api_error + json) timed \<Rightarrow> network_policy_write_output \<Rightarrow> network_policy_write_output" where
  "absence_read_back outcome output =
     (case outcome of
        Skipped \<Rightarrow> output\<lparr>wo_readback_error := Some ''policy readback skipped near request deadline''\<rparr>
      | TimedOut \<Rightarrow> output\<lparr>wo_readback_error := Some ''policy readback timed out''\<rparr>
      | Finished (Inr after) \<Rightarrow> output\<lparr>wo_after := Some after, wo_verified_absent := Some False\<rparr>
      | Finished (Inl err) \<Rightarrow>
          (if is_not_found err
           then output\<lparr>wo_verified_absent := Some True, wo_readback_error := Some (render err)\<rparr>
           else output\<lparr>wo_readback_error := Some (render err)\<rparr>))"

definition write_record ::
  "('e, 'x) tool_runtime_scheme \<Rightarrow> instant \<Rightarrow> string \<Rightarrow> policy_write_plan_record
     \<Rightarrow> network_policy_write_output \<Rightarrow> ('e, network_policy_write_output) tool" where
  "write_record rt started site p output =
     bind_io (expect ''validated policy body'' (np_requested p)) (\<lambda>requested.
     bind_io (submit_record rt site p requested) (\<lambda>(status, accepted_value).
       let accepted_id = record_id accepted_value;
           rid = (case np_id p of Some i \<Rightarrow> Some i | None \<Rightarrow> accepted_id);
           output = output\<lparr>wo_submitted := True, wo_response_status := Some status,
                      wo_accepted := Some accepted_value, wo_id := rid\<rparr>
       in case rid of
            None \<Rightarrow> return_io (Inr (output\<lparr>wo_readback_error :=
                      Some ''accepted policy record had no id for readback''\<rparr>))
          | Some i \<Rightarrow>
              (\<lambda>s. case timed_readback rt started (on_world
                       (network_policy_detail (integration rt) site (policy_collection (np_kind p)) i)) s of
                     (outcome, s') \<Rightarrow>
                       (Inr (policy_read_back (np_kind p) i accepted_id requested outcome output), s'))))"

definition delete_record ::
  "('e, 'x) tool_runtime_scheme \<Rightarrow> instant \<Rightarrow> string \<Rightarrow> policy_write_plan_record
     \<Rightarrow> network_policy_write_output \<Rightarrow> ('e, network_policy_write_output) tool" where
  "delete_record rt started site p output =
     bind_io (expect ''validated policy id'' (np_id p)) (\<lambda>rid.
     bind_io (upstream (network_policy_delete (integration rt) site (policy_collection (np_kind p)) rid))
       (\<lambda>(status, body) s.
          case timed_readback rt started (on_world
                 (network_policy_detail (integration rt) site (policy_collection (np_kind p)) rid)) s of
            (outcome, s') \<Rightarrow>
              (Inr (absence_read_back outcome
                 (output\<lparr>wo_submitted := True, wo_response_status := Some status,
                    wo_response_body := Some (as_str (from_controller_bytes (ext_b64 (integration rt)) body))\<rparr>)),
               s')))"

definition network_policy_write ::
  "('e, 'x) tool_runtime_scheme \<Rightarrow> policy_write_plan_record \<Rightarrow> ('e, network_policy_write_output) tool" where
  "network_policy_write rt p s0 =
     (let started = instant_now rt s0;
          output = planned_output (policy_kind_word (np_kind p)) (np_operation p)
                     (operation_consequence (np_operation p)) (np_id p) (np_requested p)
      in if \<not> np_confirm p then return_io (Inr output)
         else bind_io (resolve_site rt) (\<lambda>site.
                if np_operation p = Delete then delete_record rt started site p output
                else write_record rt started site p output)) s0"

section \<open>The five tools\<close>

record 'r policy_configure_input =
  pc_operation :: policy_write_operation
  pc_id :: "string option"
  pc_body :: "'r option"
  pc_confirm :: bool

text \<open>\<open>input.body.map(|b| { validate(&b)?; to_value(b) }).transpose()?\<close>.\<close>

definition validated_body ::
  "('r \<Rightarrow> mcp_error + unit) \<Rightarrow> ('r \<Rightarrow> json) \<Rightarrow> 'r option \<Rightarrow> mcp_error + json option" where
  "validated_body validate ser body =
     (case body of None \<Rightarrow> Inr None | Some r \<Rightarrow> map_ok (\<lambda>_. Some (ser r)) (validate r))"

definition configure_outcome ::
  "network_policy_kind \<Rightarrow> ('r \<Rightarrow> mcp_error + unit) \<Rightarrow> ('r \<Rightarrow> json)
     \<Rightarrow> (json \<Rightarrow> string + 'r policy_configure_input) \<Rightarrow> ('e, 'x) tool_runtime_scheme \<Rightarrow> params
     \<Rightarrow> ('e, network_policy_write_output) tool" where
  "configure_outcome pkind validate ser from_value rt ps =
     bind_io (return_io (parse from_value ps)) (\<lambda>input.
     bind_io (return_io (validated_body validate ser (pc_body input))) (\<lambda>requested.
     bind_io (return_io (policy_write_plan rt pkind (pc_operation input) (pc_id input) requested (pc_confirm input)))
       (\<lambda>p. network_policy_write rt p)))"

definition firewall_zones_configure ::
  "(json \<Rightarrow> string + firewall_zone_request policy_configure_input) \<Rightarrow> ('e, 'x) tool_runtime_scheme \<Rightarrow> params
     \<Rightarrow> ('e, call_result) tool" where
  "firewall_zones_configure from_value rt ps =
     map_io (network_policy_write_result rt)
       (configure_outcome KindFirewallZones (\<lambda>_. Inr ()) firewall_zone_request_json from_value rt ps)"

definition firewall_policies_configure ::
  "(json \<Rightarrow> string + firewall_policy_request policy_configure_input) \<Rightarrow> ('e, 'x) tool_runtime_scheme \<Rightarrow> params
     \<Rightarrow> ('e, call_result) tool" where
  "firewall_policies_configure from_value rt ps =
     map_io (network_policy_write_result rt)
       (configure_outcome KindFirewallPolicies (\<lambda>_. Inr ()) firewall_policy_request_json from_value rt ps)"

definition dns_policies_configure ::
  "(json \<Rightarrow> string + dns_policy_request policy_configure_input) \<Rightarrow> ('e, 'x) tool_runtime_scheme \<Rightarrow> params
     \<Rightarrow> ('e, call_result) tool" where
  "dns_policies_configure from_value rt ps =
     map_io (network_policy_write_result rt)
       (configure_outcome KindDnsPolicies validate_dns_policy_request dns_policy_request_json from_value rt ps)"

definition acl_rules_configure ::
  "(json \<Rightarrow> string + acl_rule_request policy_configure_input) \<Rightarrow> ('e, 'x) tool_runtime_scheme \<Rightarrow> params
     \<Rightarrow> ('e, call_result) tool" where
  "acl_rules_configure from_value rt ps =
     map_io (network_policy_write_result rt)
       (configure_outcome KindAclRules validate_acl_rule_request acl_rule_request_json from_value rt ps)"

definition traffic_lists_configure ::
  "(json \<Rightarrow> string + traffic_list_request policy_configure_input) \<Rightarrow> ('e, 'x) tool_runtime_scheme \<Rightarrow> params
     \<Rightarrow> ('e, call_result) tool" where
  "traffic_lists_configure from_value rt ps =
     map_io (network_policy_write_result rt)
       (configure_outcome KindTrafficMatchingLists validate_traffic_list_request traffic_list_request_json
          from_value rt ps)"

section \<open>Orderings\<close>

definition ordering_read_back ::
  "string \<Rightarrow> string \<Rightarrow> (api_error + json) timed \<Rightarrow> network_policy_write_output \<Rightarrow> network_policy_write_output" where
  "ordering_read_back what member outcome output =
     (case outcome of
        Skipped \<Rightarrow> output\<lparr>wo_readback_error := Some (what @ '' ordering readback skipped near request deadline'')\<rparr>
      | TimedOut \<Rightarrow> output\<lparr>wo_readback_error := Some (what @ '' ordering readback timed out'')\<rparr>
      | Finished (Inl err) \<Rightarrow> output\<lparr>wo_readback_error := Some (render err)\<rparr>
      | Finished (Inr after) \<Rightarrow>
          (let requested_ids = Option.bind (wo_requested output) (jget member)
           in output\<lparr>wo_verified := Some (jget member after = requested_ids
                                     \<and> Option.bind (wo_accepted output) (jget member) = requested_ids),
                     wo_after := Some after\<rparr>))"

text \<open>What the two ordering tools share, in the order of their code.\<close>

definition ordering_outcome ::
  "string \<Rightarrow> string \<Rightarrow> string \<Rightarrow> string \<Rightarrow> json
     \<Rightarrow> (string \<Rightarrow> 'e world \<Rightarrow> (api_error + nat \<times> json) \<times> 'e world)
     \<Rightarrow> (string \<Rightarrow> 'e world \<Rightarrow> (api_error + json) \<times> 'e world)
     \<Rightarrow> ('e, 'x) tool_runtime_scheme \<Rightarrow> bool \<Rightarrow> ('e, network_policy_write_output) tool" where
  "ordering_outcome pkind what consequence member requested replace_ordering read_ordering rt confirm s0 =
     (let started = instant_now rt s0;
          output = planned_output pkind Update consequence None (Some requested)
      in if oversized rt requested
         then return_io (Inl (InvalidParams (what @ '' ordering request exceeds the 1 MiB request bound'')))
         else if \<not> confirm then return_io (Inr output)
         else
           bind_io (resolve_site rt) (\<lambda>site.
           bind_io (upstream (replace_ordering site)) (\<lambda>(status, accepted_value) s.
             case timed_readback rt started (on_world (read_ordering site)) s of
               (outcome, s') \<Rightarrow>
                 (Inr (ordering_read_back what member outcome
                    (output\<lparr>wo_submitted := True, wo_response_status := Some status,
                       wo_accepted := Some accepted_value\<rparr>)), s')))) s0"

record acl_rules_ordering_input =
  ordered_acl_rule_ids :: "string list"
  ao_ordering_confirm :: bool

record firewall_policy_ordering_input =
  before_system_defined :: "string list"
  after_system_defined :: "string list"
  fo_ordering_confirm :: bool

definition acl_rules_ordering_configure ::
  "(json \<Rightarrow> string + acl_rules_ordering_input) \<Rightarrow> ('e, 'x) tool_runtime_scheme \<Rightarrow> params
     \<Rightarrow> ('e, call_result) tool" where
  "acl_rules_ordering_configure from_value rt ps =
     map_io (network_policy_write_result rt)
       (bind_io (return_io (parse from_value ps)) (\<lambda>input.
          ordering_outcome ''aclRules'' ''ACL'' ''replace the priority order of the site's ACL rules''
            ''orderedAclRuleIds'' (JObj [(''orderedAclRuleIds'', json_list JStr (ordered_acl_rule_ids input))])
            (\<lambda>site. replace_acl_rule_ordering (integration rt) site (ordered_acl_rule_ids input))
            (\<lambda>site. acl_rule_ordering (integration rt) site) rt (ao_ordering_confirm input)))"

definition firewall_policies_ordering_configure ::
  "(json \<Rightarrow> string + firewall_policy_ordering_input) \<Rightarrow> ('e, 'x) tool_runtime_scheme \<Rightarrow> params
     \<Rightarrow> ('e, call_result) tool" where
  "firewall_policies_ordering_configure from_value rt ps =
     map_io (network_policy_write_result rt)
       (bind_io (return_io (parse from_value ps)) (\<lambda>input.
          ordering_outcome ''firewallPolicies'' ''firewall policy''
            ''replace the priority order of the site's user-defined firewall policies''
            ''orderedFirewallPolicyIds''
            (JObj [(''orderedFirewallPolicyIds'',
               JObj [(''afterSystemDefined'', json_list JStr (after_system_defined input)),
                     (''beforeSystemDefined'', json_list JStr (before_system_defined input))])])
            (\<lambda>site. replace_firewall_policy_ordering (integration rt) site
               (before_system_defined input) (after_system_defined input))
            (\<lambda>site. firewall_policy_ordering (integration rt) site) rt (fo_ordering_confirm input)))"

section \<open>Writes of these tools\<close>

lemma expect_reads: "writes_within n (expect message o1)"
  by (cases o1) (simp_all add: expect_def writes_within_return_any)

lemma submit_record_writes: "writes_within 1 (submit_record rt site p requested)"
  unfolding submit_record_def
  by (intro handler_rules writes_within_upstream io_bounds expect_reads writes_within_read_bind)

lemmas policy_steps =
  handler_rules client_read_steps client_write_steps writes_within_timed_tail world_reads
  expect_reads [THEN writes_within_read_bind] submit_record_writes [THEN writes_within_write_bind]

lemma write_record_writes: "writes_within 1 (write_record rt started site p output)"
  unfolding write_record_def by (intro policy_steps)

lemma delete_record_writes: "writes_within 1 (delete_record rt started site p output)"
  unfolding delete_record_def by (intro policy_steps)

lemma network_policy_write_writes: "writes_within 1 (network_policy_write rt p)"
  by (rule writes_withinI, unfold network_policy_write_def, rule writes_withinD)
    (intro policy_steps write_record_writes delete_record_writes)

lemma configure_writes: "writes_within 1 (configure_outcome pkind validate ser from_value rt ps)"
  unfolding configure_outcome_def by (intro policy_steps network_policy_write_writes)

lemma ordering_writes:
  assumes "\<And>site w. extends 1 w (snd (replace_ordering site w))" "\<And>site w. extends 0 w (snd (read_ordering site w))"
  shows "writes_within 1 (ordering_outcome pkind what consequence member requested replace_ordering read_ordering rt confirm)"
  by (rule writes_withinI, unfold ordering_outcome_def, rule writes_withinD)
    (intro policy_steps writes_within_upstream [THEN writes_within_write_bind] writes_within_on_world assms)

text \<open>A plan that is not confirmed is shown without any request at all.\<close>

lemma network_policy_preview:
  "\<not> np_confirm p \<Longrightarrow> network_policy_write rt p s =
     (Inr (planned_output (policy_kind_word (np_kind p)) (np_operation p)
        (operation_consequence (np_operation p)) (np_id p) (np_requested p)), s)"
  by (simp add: network_policy_write_def)

lemma ordering_preview:
  "\<not> confirm \<Longrightarrow> snd (ordering_outcome pkind what consequence member requested put read_ordering rt confirm s) = s"
  by (simp add: ordering_outcome_def Let_def)

section \<open>Refused requests\<close>

text \<open>The conditions of a plan, and that no plan can reach an \<open>expect\<close> that fails.\<close>

definition plan_ok ::
  "('e, 'x) tool_runtime_scheme \<Rightarrow> policy_write_operation \<Rightarrow> string option \<Rightarrow> json option \<Rightarrow> bool" where
  "plan_ok rt operation rid requested \<longleftrightarrow>
     valid_shape operation rid requested \<and> (\<forall>i. rid = Some i \<longrightarrow> \<not> bad_id i)
     \<and> (\<forall>body. requested = Some body \<longrightarrow> length (show_json rt body) \<le> 2 ^ 20)"

lemma policy_write_plan_iff:
  "policy_write_plan rt pkind operation rid requested confirm = Inr p \<longleftrightarrow>
     plan_ok rt operation rid requested
     \<and> p = \<lparr>np_kind = pkind, np_operation = operation, np_id = rid, np_requested = requested, np_confirm = confirm\<rparr>"
  by (auto simp: policy_write_plan_def plan_ok_def oversized_def MAXIMUM_POLICY_REQUEST_BYTES_def
      split: option.splits)

lemma plans_never_panic:
  assumes "plan_ok rt (np_operation p) (np_id p) (np_requested p)"
  shows "np_operation p \<noteq> Delete \<Longrightarrow> np_requested p \<noteq> None"
    and "np_operation p \<noteq> Create \<Longrightarrow> np_id p \<noteq> None"
  using assms by (cases "np_operation p"; simp add: plan_ok_def)+

text \<open>
  The reference for the checks: what is wrong with a request, in the order in which it is reported.
  The body is judged first, then whether the operation has exactly the id and body it needs, then
  the id, then the size of the printed body.
\<close>

definition refusals ::
  "('r \<Rightarrow> mcp_error + unit) \<Rightarrow> ('r \<Rightarrow> json) \<Rightarrow> ('e, 'x) tool_runtime_scheme \<Rightarrow> 'r policy_configure_input
     \<Rightarrow> mcp_error list" where
  "refusals validate ser rt input =
     (case pc_body input of None \<Rightarrow> [] | Some r \<Rightarrow> (case validate r of Inl e \<Rightarrow> [e] | Inr _ \<Rightarrow> []))
     @ (if (pc_id input = None \<longleftrightarrow> pc_operation input = Create) \<and> (pc_body input = None \<longleftrightarrow> pc_operation input = Delete)
        then []
        else [InvalidParams
          ''create requires a request body and no id; update requires both; delete requires an id and no request body''])
     @ (case pc_id input of None \<Rightarrow> []
        | Some i \<Rightarrow> (if trim i = [] \<or> 256 < length i \<or> i = ''.'' \<or> i = ''..''
                   then [InvalidParams ''id must be a nonempty id of at most 256 bytes''] else []))
     @ (case pc_body input of None \<Rightarrow> []
        | Some r \<Rightarrow> (if 2 ^ 20 < length (show_json rt (ser r))
                   then [InvalidParams ''policy request exceeds the 1 MiB request bound''] else []))"

lemma valid_shape_iff:
  "valid_shape operation rid requested \<longleftrightarrow>
     (rid = None \<longleftrightarrow> operation = Create) \<and> (requested = None \<longleftrightarrow> operation = Delete)"
  by (cases operation) auto

lemma policy_write_plan_refusals:
  "policy_write_plan rt pkind (pc_operation input) (pc_id input) (map_option ser (pc_body input)) confirm =
     (case refusals (\<lambda>_. Inr ()) ser rt input of
        e # _ \<Rightarrow> Inl e
      | [] \<Rightarrow> Inr \<lparr>np_kind = pkind, np_operation = pc_operation input, np_id = pc_id input,
                np_requested = map_option ser (pc_body input), np_confirm = confirm\<rparr>)"
  unfolding policy_write_plan_def refusals_def valid_shape_iff bad_id_def blank_def oversized_def
    MAXIMUM_POLICY_REQUEST_BYTES_def
  by (auto split: option.split)

lemma refusals_split:
  "refusals validate ser rt input =
     (case pc_body input of None \<Rightarrow> [] | Some r \<Rightarrow> (case validate r of Inl e \<Rightarrow> [e] | Inr _ \<Rightarrow> []))
     @ refusals (\<lambda>_. Inr ()) ser rt input"
  by (simp add: refusals_def split: option.split)

text \<open>
  C17. A policy request is checked before anything is sent, and refused for the first thing that is
  wrong with it. For each of the policy tools: arguments that cannot be read are refused with that
  error; else a body that fails its validation with the validation's error; else an operation that
  does not have exactly the id and body it needs, an id that is blank, longer than 256 bytes or a
  dot segment, and a body that prints to more than 1 MiB, in this order, each with its own
  invalid-parameters message. A request that passes and is not confirmed is answered with the
  request as it would be sent. In all these cases no request is made and no state changes.
\<close>

theorem policy_request_is_checked_first:
  "case parse from_value ps of
     Inl err \<Rightarrow> configure_outcome pkind validate ser from_value rt ps s = (Inl err, s)
   | Inr input \<Rightarrow>
       (case refusals validate ser rt input of
          err # _ \<Rightarrow> configure_outcome pkind validate ser from_value rt ps s = (Inl err, s)
        | [] \<Rightarrow> \<not> pc_confirm input \<longrightarrow>
            configure_outcome pkind validate ser from_value rt ps s =
              (Inr (planned_output (policy_kind_word pkind) (pc_operation input)
                 (operation_consequence (pc_operation input)) (pc_id input) (map_option ser (pc_body input))), s))"
proof (cases "parse from_value ps")
  case (Inl err)
  then show ?thesis by (simp add: configure_outcome_def bind_io_def)
next
  case input: (Inr input)
  show ?thesis
  proof (cases "validated_body validate ser (pc_body input)")
    case (Inl err)
    then have "\<exists>rest. refusals validate ser rt input = err # rest"
      by (auto simp: refusals_split [of validate] validated_body_def map_ok_def split: option.splits sum.splits)
    with Inl input show ?thesis by (auto simp: configure_outcome_def bind_io_def)
  next
    case (Inr requested)
    then have valid: "requested = map_option ser (pc_body input)"
      "refusals validate ser rt input = refusals (\<lambda>_. Inr ()) ser rt input"
      by (auto simp: refusals_split [of validate] validated_body_def map_ok_def split: option.splits sum.splits)
    with Inr input show ?thesis
      by (cases "refusals (\<lambda>_. Inr ()) ser rt input")
        (simp_all add: configure_outcome_def bind_io_def policy_write_plan_refusals network_policy_preview)
  qed
qed

theorem policy_request_is_checked_first_witness:
  "configure_outcome KindDnsPolicies validate_dns_policy_request dns_policy_request_json
     (\<lambda>_. Inr \<lparr>pc_operation = Create, pc_id = None, pc_body = Some (TxtRecord True ''a'' ''b''), pc_confirm = False\<rparr>)
     (sample_runtime empty_ok []) \<lparr>arguments = None\<rparr> sample_state =
   (Inr (planned_output ''dnsPolicies'' Create ''create another policy, zone, or list'' None
      (Some (dns_policy_request_json (TxtRecord True ''a'' ''b'')))), sample_state)"
  using policy_request_is_checked_first [of KindDnsPolicies validate_dns_policy_request dns_policy_request_json
      "\<lambda>_. Inr \<lparr>pc_operation = Create, pc_id = None, pc_body = Some (TxtRecord True ''a'' ''b''), pc_confirm = False\<rparr>"
      "sample_runtime empty_ok []" "\<lparr>arguments = None\<rparr>" sample_state]
  by (simp add: parse_def refusals_def validate_dns_policy_request_def outside_bytes_def sample_runtime_def)

section \<open>What a verified write means\<close>

lemma policy_read_back_verified:
  assumes "wo_verified (policy_read_back pkind rid accepted_id requested outcome output) = Some True"
    and "wo_verified output = None"
  obtains after where "outcome = Finished (Inr after)" "record_id after = Some rid" "accepted_id = Some rid"
    "record_matches pkind requested after"
    "policy_read_back pkind rid accepted_id requested outcome output =
       output\<lparr>wo_verified := Some True, wo_after := Some after\<rparr>"
  using assms by (auto simp: policy_read_back_def split: timed.splits sum.splits)

lemma write_record_verified:
  assumes "fst (write_record rt started site p o0 s) = Inr output"
    and "wo_verified output = Some True" and "wo_verified o0 = None"
  obtains requested status accepted_value rid after s1 where
    "np_requested p = Some requested"
    "submit_record rt site p requested s = (Inr (status, accepted_value), s1)"
    "wo_submitted output" "wo_id output = Some rid" "record_id accepted_value = Some rid"
    "fst (on_world (network_policy_detail (integration rt) site (policy_collection (np_kind p)) rid) s1) = Inr after"
    "wo_after output = Some after" "record_id after = Some rid" "record_matches (np_kind p) requested after"
    "np_id p = None \<or> np_id p = Some rid"
proof -
  from assms(1) obtain requested where req: "np_requested p = Some requested"
    by (auto simp: write_record_def fst_bind_io_Inr expect_def split: option.splits)
  from assms(1) req obtain status accepted_value s1 where
    sub: "submit_record rt site p requested s = (Inr (status, accepted_value), s1)"
    by (auto simp: write_record_def fst_bind_io_Inr expect_def)
  let ?rid = "case np_id p of Some i \<Rightarrow> Some i | None \<Rightarrow> record_id accepted_value"
  let ?o1 = "o0\<lparr>wo_submitted := True, wo_response_status := Some status, wo_accepted := Some accepted_value, wo_id := ?rid\<rparr>"
  have run: "fst (write_record rt started site p o0 s) =
      fst ((case ?rid of
            None \<Rightarrow> return_io (Inr (?o1\<lparr>wo_readback_error := Some ''accepted policy record had no id for readback''\<rparr>))
          | Some i \<Rightarrow> (\<lambda>s. case timed_readback rt started (on_world
                (network_policy_detail (integration rt) site (policy_collection (np_kind p)) i)) s of
              (outcome, s') \<Rightarrow>
                (Inr (policy_read_back (np_kind p) i (record_id accepted_value) requested outcome ?o1), s'))) s1)"
    by (simp add: write_record_def bind_io_def expect_def req sub Let_def)
  with assms obtain rid where rid: "?rid = Some rid" by (cases ?rid) auto
  obtain outcome s2 where tr: "timed_readback rt started (on_world
      (network_policy_detail (integration rt) site (policy_collection (np_kind p)) rid)) s1 = (outcome, s2)"
    by (rule that [OF prod.collapse [symmetric]])
  from run rid tr assms(1) have out:
    "output = policy_read_back (np_kind p) rid (record_id accepted_value) requested outcome ?o1" by simp
  have fresh: "wo_verified ?o1 = None" using assms(3) by simp
  obtain after where fin: "outcome = Finished (Inr after)" "record_id after = Some rid"
    "record_id accepted_value = Some rid" "record_matches (np_kind p) requested after"
    "output = ?o1\<lparr>wo_verified := Some True, wo_after := Some after\<rparr>"
    using policy_read_back_verified [OF assms(2) [unfolded out] fresh] unfolding out by metis
  have "np_id p = None \<or> np_id p = Some rid" using rid by (cases "np_id p") simp_all
  with that [OF req sub, of rid after] fin rid timed_readback_Finished [OF tr [unfolded fin(1)]]
  show ?thesis by simp
qed

text \<open>
  What a verdict of \<open>verified\<close> promises about a request \<open>r\<close>: it was confirmed and its JSON was
  submitted, the console accepted it under an identity, and the next thing the console was asked
  for is the record of that identity; it served one of that identity that holds \<open>r\<close>. What
  \<open>holds\<close> says is a parameter: for four of the kinds exactly \<open>r\<close> is read from the record, for ACL
  rules every value of \<open>r\<close>'s JSON is found in the record at the place where \<open>r\<close> has it.
\<close>

definition planned_write ::
  "network_policy_kind \<Rightarrow> ('r \<Rightarrow> json) \<Rightarrow> 'r policy_configure_input \<Rightarrow> policy_write_plan_record" where
  "planned_write pkind ser input =
     \<lparr>np_kind = pkind, np_operation = pc_operation input, np_id = pc_id input,
      np_requested = map_option ser (pc_body input), np_confirm = pc_confirm input\<rparr>"

definition verified_as ::
  "('e, 'x) tool_runtime_scheme \<Rightarrow> network_policy_kind \<Rightarrow> ('r \<Rightarrow> json) \<Rightarrow> ('r \<Rightarrow> json \<Rightarrow> bool)
     \<Rightarrow> 'r policy_configure_input \<Rightarrow> network_policy_write_output \<Rightarrow> bool" where
  "verified_as rt pkind ser holds input output \<longleftrightarrow>
     pc_confirm input \<and> wo_submitted output
     \<and> (\<exists>r rid status accepted after site s1 s2.
          pc_body input = Some r
          \<and> submit_record rt site (planned_write pkind ser input) (ser r) s1 = (Inr (status, accepted), s2)
          \<and> record_id accepted = Some rid \<and> wo_id output = Some rid
          \<and> (pc_id input = None \<or> pc_id input = Some rid)
          \<and> fst (on_world (network_policy_detail (integration rt) site (policy_collection pkind) rid) s2) = Inr after
          \<and> wo_after output = Some after \<and> record_id after = Some rid \<and> holds r after)"

definition reads_as :: "(json \<Rightarrow> 'r option) \<Rightarrow> 'r \<Rightarrow> json \<Rightarrow> bool" where
  "reads_as reader r v \<longleftrightarrow> reader v = Some r"

text \<open>Equal up to what stands below: the members of an object, the elements of an array.\<close>

fun same_node :: "json \<Rightarrow> json \<Rightarrow> bool" where
  "same_node (JObj m) (JObj n) = True"
| "same_node (JArr xs) (JArr ys) = (length xs = length ys)"
| "same_node (JNum a) (JNum b) = numbers_equivalent a b"
| "same_node v u = (v = u)"

definition carries :: "json \<Rightarrow> json \<Rightarrow> bool" where
  "carries requested observed \<longleftrightarrow>
     (\<forall>path v. json_pointer path requested = Some v
        \<longrightarrow> (\<exists>u. json_pointer path observed = Some u \<and> same_node v u))"

lemma matching_carries: "requested_json_matches requested observed \<Longrightarrow> carries requested observed"
proof -
  have "requested_json_matches v u \<Longrightarrow> same_node v u" for v u
    by (cases v; cases u) simp_all
  then show "requested_json_matches requested observed \<Longrightarrow> carries requested observed"
    unfolding carries_def by (meson requested_json_matches_pointer)
qed

locale matched_policy =
  fixes pkind :: network_policy_kind and ser :: "'r \<Rightarrow> json" and holds :: "'r \<Rightarrow> json \<Rightarrow> bool"
  assumes matching_holds: "record_matches pkind (ser r) v \<Longrightarrow> holds r v"
begin

lemma verified_write:
  assumes "parse from_value ps = Inr input"
    and "fst (configure_outcome pkind validate ser from_value rt ps s) = Inr output"
    and "wo_verified output = Some True"
  shows "verified_as rt pkind ser holds input output"
proof -
  let ?body = "map_option ser (pc_body input)"
  let ?p = "planned_write pkind ser input"
  from assms(1,2) obtain requested p where
    body: "validated_body validate ser (pc_body input) = Inr requested"
    and planned: "policy_write_plan rt pkind (pc_operation input) (pc_id input) requested (pc_confirm input) = Inr p"
    and run: "fst (network_policy_write rt p s) = Inr output"
    by (auto simp: configure_outcome_def fst_bind_io_Inr)
  from body have "requested = ?body"
    by (auto simp: validated_body_def map_ok_def split: option.splits sum.splits)
  with planned have p: "p = ?p" "plan_ok rt (pc_operation input) (pc_id input) ?body"
    by (simp_all add: policy_write_plan_iff planned_write_def)
  let ?o = "planned_output (policy_kind_word pkind) (pc_operation input)
      (operation_consequence (pc_operation input)) (pc_id input) ?body"
  have fresh: "wo_verified ?o = None" by (simp add: planned_output_def)
  have fields_of_p: "np_confirm ?p = pc_confirm input" "np_operation ?p = pc_operation input" "np_id ?p = pc_id input"
    "np_requested ?p = ?body" "np_kind ?p = pkind"
    by (simp_all add: planned_write_def)
  with run assms(3) have confirmed: "pc_confirm input"
    by (cases "pc_confirm input") (auto simp: network_policy_preview p(1) planned_output_def)
  have "pc_operation input \<noteq> Delete"
  proof
    assume del: "pc_operation input = Delete"
    have "wo_verified (absence_read_back outcome o1) = wo_verified o1" for outcome o1
      by (simp add: absence_read_back_def split: timed.split sum.split)
    with run assms(3) del confirmed show False
      by (auto simp: network_policy_write_def p(1) fields_of_p planned_output_def delete_record_def expect_def
          fst_bind_io_Inr Let_def split_beta split: option.splits)
  qed
  with run confirmed obtain site s1 where
    "fst (write_record rt (instant_now rt s) site ?p ?o s1) = Inr output"
    by (auto simp: network_policy_write_def p(1) fields_of_p fst_bind_io_Inr Let_def)
  from write_record_verified [OF this assms(3) fresh] obtain requested status accepted rid after s2 where
    w: "np_requested ?p = Some requested" "submit_record rt site ?p requested s1 = (Inr (status, accepted), s2)"
    "wo_submitted output" "wo_id output = Some rid" "record_id accepted = Some rid"
    "fst (on_world (network_policy_detail (integration rt) site (policy_collection (np_kind ?p)) rid) s2) = Inr after"
    "wo_after output = Some after" "record_id after = Some rid" "record_matches (np_kind ?p) requested after"
    "np_id ?p = None \<or> np_id ?p = Some rid"
    by metis
  then obtain r where r: "pc_body input = Some r" "requested = ser r" by (auto simp: fields_of_p)
  with w(9) matching_holds have "holds r after" by (simp add: fields_of_p)
  with w r confirmed show ?thesis
    unfolding verified_as_def fields_of_p by (simp del: split_paired_Ex) blast
qed

end

text \<open>An ACL record may also give optional settings that the request left out, so it is compared by what it carries.\<close>

definition acl_holds :: "acl_rule_request \<Rightarrow> json \<Rightarrow> bool" where
  "acl_holds r v \<longleftrightarrow> carries (acl_rule_request_json r) v"

interpretation matched_zones: matched_policy KindFirewallZones firewall_zone_request_json "reads_as firewall_zone_request_of"
  by unfold_locales (simp add: record_matches_def reads_as_def firewall_zone_request.exact)

interpretation matched_policies: matched_policy KindFirewallPolicies firewall_policy_request_json "reads_as firewall_policy_request_of"
  by unfold_locales (simp add: record_matches_def reads_as_def matching_policy_reads_back)

interpretation matched_dns: matched_policy KindDnsPolicies dns_policy_request_json "reads_as dns_policy_request_of"
  by unfold_locales (simp add: record_matches_def reads_as_def dns_policy_request.exact)

interpretation matched_lists: matched_policy KindTrafficMatchingLists traffic_list_request_json "reads_as traffic_list_request_of"
  by unfold_locales (simp add: record_matches_def reads_as_def traffic_list_request.exact)

interpretation matched_acls: matched_policy KindAclRules acl_rule_request_json acl_holds
  by unfold_locales (simp add: record_matches_def acl_holds_def matching_carries)

text \<open>
  C11. A policy write that is reported as verified was sent once, accepted, and left the console
  holding the request. Each of the five policy tools sends at most one write. When its answer says
  \<open>verified\<close>, whether a record was created or replaced: the call was confirmed, exactly the JSON of
  the request was submitted and accepted under an identity (the requested one, when the request
  named one), the console was then asked for the record of that identity, and it answered with a
  record of that identity that holds the request. For firewall zones, firewall policies, DNS
  policies and traffic lists, exactly the requested configuration is read from the record; for ACL
  rules, whose records may also give settings that the request left open, every value of the
  request is in the record at its place.
\<close>

theorem verified_policies_hold_the_request:
  shows "writes_within 1 (configure_outcome pkind validate ser from_value rt ps)
       \<and> (parse f_zone ps = Inr i_zone
            \<and> fst (configure_outcome KindFirewallZones v_zone firewall_zone_request_json f_zone rt ps s) = Inr output
            \<and> wo_verified output = Some True
          \<longrightarrow> verified_as rt KindFirewallZones firewall_zone_request_json (reads_as firewall_zone_request_of) i_zone output)
       \<and> (parse f_policy ps = Inr i_policy
            \<and> fst (configure_outcome KindFirewallPolicies v_policy firewall_policy_request_json f_policy rt ps s) = Inr output
            \<and> wo_verified output = Some True
          \<longrightarrow> verified_as rt KindFirewallPolicies firewall_policy_request_json (reads_as firewall_policy_request_of) i_policy output)
       \<and> (parse f_dns ps = Inr i_dns
            \<and> fst (configure_outcome KindDnsPolicies v_dns dns_policy_request_json f_dns rt ps s) = Inr output
            \<and> wo_verified output = Some True
          \<longrightarrow> verified_as rt KindDnsPolicies dns_policy_request_json (reads_as dns_policy_request_of) i_dns output)
       \<and> (parse f_list ps = Inr i_list
            \<and> fst (configure_outcome KindTrafficMatchingLists v_list traffic_list_request_json f_list rt ps s) = Inr output
            \<and> wo_verified output = Some True
          \<longrightarrow> verified_as rt KindTrafficMatchingLists traffic_list_request_json (reads_as traffic_list_request_of) i_list output)
       \<and> (parse f_acl ps = Inr i_acl
            \<and> fst (configure_outcome KindAclRules v_acl acl_rule_request_json f_acl rt ps s) = Inr output
            \<and> wo_verified output = Some True
          \<longrightarrow> verified_as rt KindAclRules acl_rule_request_json acl_holds i_acl output)"
  by (rule conjI [OF configure_writes]) (auto intro!: matched_zones.verified_write
      matched_policies.verified_write matched_dns.verified_write matched_lists.verified_write matched_acls.verified_write)

text \<open>A console that answers every request with one JSON record.\<close>

definition record_runtime :: "json \<Rightarrow> unit tool_runtime" where
  "record_runtime v =
     (sample_runtime empty_ok [])\<lparr>integration := (canned_integration empty_ok)\<lparr>ext_value := (\<lambda>_. Inr v)\<rparr>\<rparr>"

definition sample_dns_record :: json where
  "sample_dns_record =
     JObj [(''domain'', JStr ''a''), (''enabled'', JBool True), (''id'', JStr ''d1''), (''text'', JStr ''b''),
           (''type'', JStr ''TXT_RECORD'')]"

theorem verified_policies_hold_the_request_witness:
  "\<exists>output. verified_as (record_runtime sample_dns_record) KindDnsPolicies dns_policy_request_json
     (reads_as dns_policy_request_of)
     \<lparr>pc_operation = Create, pc_id = None, pc_body = Some (TxtRecord True ''a'' ''b''), pc_confirm = True\<rparr> output"
proof -
  let ?in = "\<lparr>pc_operation = Create, pc_id = None, pc_body = Some (TxtRecord True ''a'' ''b''), pc_confirm = True\<rparr>"
  let ?rt = "record_runtime sample_dns_record"
  let ?run = "configure_outcome KindDnsPolicies validate_dns_policy_request dns_policy_request_json (\<lambda>_. Inr ?in) ?rt
      \<lparr>arguments = None\<rparr> sample_state"
  have parsed: "parse (\<lambda>_. Inr ?in) \<lparr>arguments = None\<rparr> = Inr ?in" by (simp add: parse_def)
  have matches: "requested_json_matches (tagged ''type'' ''TXT_RECORD''
      [(''enabled'', Some (JBool True)), (''domain'', Some (JStr ''a'')), (''text'', Some (JStr ''b''))]) sample_dns_record"
    by (simp add: sample_dns_record_def tagged_def set_fields_def)
  have rid: "record_id sample_dns_record = Some ''d1''" by (simp add: sample_dns_record_def record_id_def)
  have "map_ok wo_verified (fst ?run) = Inr (Some True)"
    by (simp add: configure_outcome_def parse_def validated_body_def validate_dns_policy_request_def
        outside_bytes_def policy_write_plan_def oversized_def network_policy_write_def write_record_def
        expect_def submit_record_def network_policy_create_def network_policy_record_write_def
        accepted_record_def network_policy_detail_def policy_read_back_def record_matches_def record_runtime_def
        matches rid with_json_def policy_segments_def echo_defs)
  then obtain out where out: "fst ?run = Inr out" "wo_verified out = Some True"
    by (auto simp: map_ok_def split: sum.splits)
  note verified_policies_hold_the_request [THEN conjunct2, THEN conjunct2, THEN conjunct2, THEN conjunct1,
      rule_format, OF conjI [OF parsed conjI [OF out]]]
  then show ?thesis by blast
qed

end
