(* ===== verification/Tool_Lists.thy ===== *)
theory Tool_Lists
  imports Tool_Policies
begin

text \<open>
  The listing and detail tools of \<open>crates/unifi-mcp/src/tools.rs\<close> over the Integration API: pending
  devices, network inventory, network policies, RADIUS profiles and Wi-Fi broadcasts, with the
  details of single records and the orderings. A page is checked against the request before it is
  passed on, and carries the offset at which the listing continues; the theorem says that pages
  which pass the checks cut the collection without gap or overlap.
\<close>

section \<open>Limits, pages and results\<close>

definition MAXIMUM_INTEGRATION_LIMIT :: nat where
  "MAXIMUM_INTEGRATION_LIMIT = 200"

definition integration_limit :: "nat \<Rightarrow> u32" where
  "integration_limit requested = of_nat (min requested MAXIMUM_INTEGRATION_LIMIT)"

record list_input =
  ls_offset :: u64
  ls_limit :: nat
  ls_filter :: "string option"

definition requested_page :: "list_input \<Rightarrow> page_request" where
  "requested_page input = \<lparr>req_offset = ls_offset input, req_limit = integration_limit (ls_limit input)\<rparr>"

text \<open>
  The five outputs have the same members but for the name of the rows and a leading \<open>kind\<close>; the
  name is an argument of the serializer.
\<close>

record list_output =
  lx_requested_limit :: nat
  lx_effective_limit :: u64
  lx_returned :: nat
  lx_rows :: "json list option"
  lx_rows_in_content :: "bool option"
  lx_metadata :: "(string \<times> json) list option"
  lx_metadata_in_content :: "bool option"
  lx_offset :: u64
  lx_limit :: u64
  lx_count :: u64
  lx_total :: u64
  lx_next :: "u64 option"

definition page_counts_json :: "list_output \<Rightarrow> json" where
  "page_counts_json o1 =
     JObj (set_fields
       [(''requestedLimit'', Some (jnat (lx_requested_limit o1))),
        (''effectiveLimit'', Some (word_json (lx_effective_limit o1))),
        (''returned'', Some (jnat (lx_returned o1)))])"

definition list_output_json :: "string \<Rightarrow> (string \<times> json option) list \<Rightarrow> list_output \<Rightarrow> json" where
  "list_output_json rows extra o1 =
     JObj (set_fields
       (extra @
        [(''pageCounts'', Some (page_counts_json o1)), (rows, map_option JArr (lx_rows o1)),
         (rows @ ''InContent'', map_option JBool (lx_rows_in_content o1)),
         (''pageMetadata'', map_option JObj (lx_metadata o1)),
         (''pageMetadataInContent'', map_option JBool (lx_metadata_in_content o1)),
         (''offset'', Some (word_json (lx_offset o1))), (''limit'', Some (word_json (lx_limit o1))),
         (''count'', Some (word_json (lx_count o1))), (''totalCount'', Some (word_json (lx_total o1))),
         (''nextOffset'', map_option word_json (lx_next o1))]))"

definition list_steps ::
  "string \<Rightarrow> ('e, 'x) tool_runtime_scheme \<Rightarrow> (string \<times> (list_output \<Rightarrow> (string \<times> list_output) option)) list" where
  "list_steps rows rt =
     [(rows, take_text lx_rows (\<lambda>v. show_json rt (JArr v))
         (\<lambda>o1. o1\<lparr>lx_rows := None, lx_rows_in_content := Some True\<rparr>)),
      (''pageMetadata'', take_text lx_metadata (\<lambda>v. show_json rt (JObj v))
         (\<lambda>o1. o1\<lparr>lx_metadata := None, lx_metadata_in_content := Some True\<rparr>))]"

definition list_result ::
  "string \<Rightarrow> (string \<times> json option) list \<Rightarrow> ('e, 'x) tool_runtime_scheme \<Rightarrow> list_output \<Rightarrow> call_result" where
  "list_result rows extra rt output = spilled_result rt (list_output_json rows extra) (list_steps rows rt) output"

interpretation device_rows: spill_steps "list_steps ''devices'' rt" for rt :: "('e, 'x) tool_runtime_scheme"
  by unfold_locales (auto simp: list_steps_def)

interpretation record_rows: spill_steps "list_steps ''records'' rt" for rt :: "('e, 'x) tool_runtime_scheme"
  by unfold_locales (auto simp: list_steps_def)

interpretation profile_rows: spill_steps "list_steps ''profiles'' rt" for rt :: "('e, 'x) tool_runtime_scheme"
  by unfold_locales (auto simp: list_steps_def)

interpretation broadcast_rows: spill_steps "list_steps ''broadcasts'' rt" for rt :: "('e, 'x) tool_runtime_scheme"
  by unfold_locales (auto simp: list_steps_def)

section \<open>Checking a page\<close>

definition page_validation_error :: "bounded_message \<Rightarrow> string \<Rightarrow> mcp_error" where
  "page_validation_error response diagnostic = mcp_api_error (DecodeResponse response (bounded_new diagnostic))"

definition controller_page_metadata ::
  "(string \<Rightarrow> string + (string \<times> json) list) \<Rightarrow> bounded_message \<Rightarrow> mcp_error + (string \<times> json) list" where
  "controller_page_metadata from_str response =
     map_ok (map_remove ''data'') (map_err (page_validation_error response) (from_str (as_str response)))"

definition show_u :: "'l::len word \<Rightarrow> string" where
  "show_u w = show_nat (unat w)"

definition row_count :: "'a page \<Rightarrow> u64" where
  "row_count pg = of_nat (length (page_data pg))"

definition page_conforms :: "list_input \<Rightarrow> 'a page \<Rightarrow> bool" where
  "page_conforms input pg \<longleftrightarrow>
     \<not> (page_offset pg \<noteq> ls_offset input \<or> page_limit pg = 0
        \<or> page_limit pg > ucast (integration_limit (ls_limit input))
        \<or> row_count pg > page_limit pg \<or> page_count pg \<noteq> row_count pg)"

definition nonconforming_text :: "string \<Rightarrow> list_input \<Rightarrow> 'a page \<Rightarrow> string" where
  "nonconforming_text what input pg =
     what @ '' page reported offset '' @ show_u (page_offset pg) @ '', limit '' @ show_u (page_limit pg)
     @ '', count '' @ show_u (page_count pg) @ '', and '' @ show_u (row_count pg)
     @ '' rows for requested offset '' @ show_u (ls_offset input) @ '' and limit '' @ show_nat (ls_limit input)"

text \<open>The offset after the page, when the page conforms and the sum fits.\<close>

definition page_end :: "string \<Rightarrow> list_input \<Rightarrow> 'a page \<Rightarrow> bounded_message \<Rightarrow> mcp_error + u64" where
  "page_end what input pg response =
     (if \<not> page_conforms input pg
      then Inl (page_validation_error response (nonconforming_text what input pg))
      else ok_or (page_validation_error response (what @ '' offset overflow''))
             (checked_add (ls_offset input) (row_count pg)))"

text \<open>Pending devices, policies and RADIUS profiles check the total at once.\<close>

definition total_conflict :: "string \<Rightarrow> u64 \<Rightarrow> 'a page \<Rightarrow> bounded_message \<Rightarrow> mcp_error + unit" where
  "total_conflict what next_row pg response =
     (if (row_count pg > 0 \<and> next_row > total_count pg) \<or> (next_row < total_count pg \<and> page_data pg = [])
      then Inl (page_validation_error response
             (what @ '' page through offset '' @ show_u next_row @ '' conflicts with reported total ''
              @ show_u (total_count pg)))
      else Inr ())"

text \<open>The inventory and the Wi-Fi broadcasts check it in two steps.\<close>

definition beyond_total :: "string \<Rightarrow> u64 \<Rightarrow> 'a page \<Rightarrow> bounded_message \<Rightarrow> mcp_error + unit" where
  "beyond_total what next_row pg response =
     (if row_count pg > 0 \<and> next_row > total_count pg
      then Inl (page_validation_error response
             (what @ '' page through offset '' @ show_u next_row @ '' exceeds reported total ''
              @ show_u (total_count pg)))
      else Inr ())"

definition empty_before_total ::
  "string \<Rightarrow> list_input \<Rightarrow> u64 \<Rightarrow> 'a page \<Rightarrow> bounded_message \<Rightarrow> mcp_error + unit" where
  "empty_before_total what input next_row pg response =
     (if next_row < total_count pg \<and> page_data pg = []
      then Inl (page_validation_error response
             (what @ '' page at offset '' @ show_u (ls_offset input) @ '' returned no rows before reported total ''
              @ show_u (total_count pg)))
      else Inr ())"

definition then_some :: "bool \<Rightarrow> 'a \<Rightarrow> 'a option" where
  "then_some b x = (if b then Some x else None)"

definition page_output ::
  "list_input \<Rightarrow> json page \<Rightarrow> (string \<times> json) list option \<Rightarrow> u64 option \<Rightarrow> list_output" where
  "page_output input pg metadata continue =
     \<lparr>lx_requested_limit = ls_limit input, lx_effective_limit = page_limit pg,
      lx_returned = length (page_data pg), lx_rows = Some (page_data pg), lx_rows_in_content = None,
      lx_metadata = metadata, lx_metadata_in_content = None, lx_offset = page_offset pg,
      lx_limit = page_limit pg, lx_count = page_count pg, lx_total = total_count pg, lx_next = continue\<rparr>"

text \<open>One page of pending devices, policies or RADIUS profiles.\<close>

definition listed_page ::
  "(string \<Rightarrow> string + (string \<times> json) list) \<Rightarrow> string \<Rightarrow> list_input \<Rightarrow> json page \<times> bounded_message
     \<Rightarrow> mcp_error + list_output" where
  "listed_page from_str what input = (\<lambda>(pg, response).
     bind_res (page_end what input pg response) (\<lambda>next_row.
     bind_res (total_conflict what next_row pg response) (\<lambda>_.
     bind_res (controller_page_metadata from_str response) (\<lambda>metadata.
       Inr (page_output input pg (Some metadata) (then_some (next_row < total_count pg) next_row))))))"

definition check_list_input :: "list_input \<Rightarrow> mcp_error + unit" where
  "check_list_input input =
     (if ls_limit input = 0 then Inl (InvalidParams ''limit must be positive'')
      else (case ls_filter input of
              Some flt \<Rightarrow> (if 2048 < length flt then Inl (InvalidParams ''filter must be at most 2048 bytes'')
                           else Inr ())
            | None \<Rightarrow> Inr ()))"

section \<open>Pending devices, RADIUS profiles and policies\<close>

definition pending_devices_list_outcome ::
  "(json \<Rightarrow> string + list_input) \<Rightarrow> (string \<Rightarrow> string + (string \<times> json) list) \<Rightarrow> json page decoder
     \<Rightarrow> ('e, 'x) tool_runtime_scheme \<Rightarrow> params \<Rightarrow> ('e, list_output) tool" where
  "pending_devices_list_outcome from_value from_str dec rt ps =
     bind_io (return_io (parse from_value ps)) (\<lambda>input.
     bind_io (return_io (check_list_input input)) (\<lambda>_.
     bind_io (upstream (pending_devices dec (integration rt) (requested_page input) (ls_filter input))) (\<lambda>served.
       return_io (listed_page from_str ''pending device'' input served))))"

definition pending_devices_list where
  "pending_devices_list from_value from_str dec rt ps =
     map_io (list_result ''devices'' [] rt) (pending_devices_list_outcome from_value from_str dec rt ps)"

definition radius_profiles_list_outcome ::
  "(json \<Rightarrow> string + list_input) \<Rightarrow> (string \<Rightarrow> string + (string \<times> json) list) \<Rightarrow> json page decoder
     \<Rightarrow> ('e, 'x) tool_runtime_scheme \<Rightarrow> params \<Rightarrow> ('e, list_output) tool" where
  "radius_profiles_list_outcome from_value from_str dec rt ps =
     bind_io (return_io (parse from_value ps)) (\<lambda>input.
     bind_io (return_io (check_list_input input)) (\<lambda>_.
     bind_io (resolve_site rt) (\<lambda>site.
     bind_io (upstream (radius_profile_records dec (integration rt) site (requested_page input) (ls_filter input)))
       (\<lambda>served. return_io (listed_page from_str ''RADIUS profile'' input served)))))"

definition radius_profiles_list where
  "radius_profiles_list from_value from_str dec rt ps =
     map_io (list_result ''profiles'' [] rt) (radius_profiles_list_outcome from_value from_str dec rt ps)"

record policy_list_input = list_input +
  pl_kind :: network_policy_kind

definition network_policy_list ::
  "(json \<Rightarrow> string + policy_list_input) \<Rightarrow> (string \<Rightarrow> string + (string \<times> json) list) \<Rightarrow> json page decoder
     \<Rightarrow> ('e, 'x) tool_runtime_scheme \<Rightarrow> params \<Rightarrow> ('e, call_result) tool" where
  "network_policy_list from_value from_str dec rt ps =
     bind_io (return_io (parse from_value ps)) (\<lambda>input.
     let base = list_input.truncate input
     in bind_io (return_io (check_list_input base)) (\<lambda>_.
        bind_io (resolve_site rt) (\<lambda>site.
        bind_io (upstream (network_policy_page dec (integration rt) site (policy_collection (pl_kind input))
                   (requested_page base) (ls_filter base))) (\<lambda>served.
          map_io (list_result ''records'' [(''kind'', Some (JStr (policy_kind_word (pl_kind input))))] rt)
            (return_io (listed_page from_str ''policy'' base served))))))"

section \<open>Inventory\<close>

datatype network_inventory_kind =
    ListCountries | ListSites | ListDpiApplications | ListDpiCategories | ListClients | ListDevices
  | ListDeviceTags | ListLags | ListMcLagDomains | ListSwitchStacks | ListWanInterfaces | ListVpnServers
  | ListSiteToSiteVpnTunnels

primrec inventory_kind_word :: "network_inventory_kind \<Rightarrow> string" where
  "inventory_kind_word ListCountries = ''countries''"
| "inventory_kind_word ListSites = ''sites''"
| "inventory_kind_word ListDpiApplications = ''dpiApplications''"
| "inventory_kind_word ListDpiCategories = ''dpiCategories''"
| "inventory_kind_word ListClients = ''clients''"
| "inventory_kind_word ListDevices = ''devices''"
| "inventory_kind_word ListDeviceTags = ''deviceTags''"
| "inventory_kind_word ListLags = ''lags''"
| "inventory_kind_word ListMcLagDomains = ''mcLagDomains''"
| "inventory_kind_word ListSwitchStacks = ''switchStacks''"
| "inventory_kind_word ListWanInterfaces = ''wanInterfaces''"
| "inventory_kind_word ListVpnServers = ''vpnServers''"
| "inventory_kind_word ListSiteToSiteVpnTunnels = ''siteToSiteVpnTunnels''"

primrec site_kind :: "network_inventory_kind \<Rightarrow> site_inventory_kind option" where
  "site_kind ListCountries = None"
| "site_kind ListSites = None"
| "site_kind ListDpiApplications = None"
| "site_kind ListDpiCategories = None"
| "site_kind ListClients = Some InvClients"
| "site_kind ListDevices = Some InvDevices"
| "site_kind ListDeviceTags = Some InvDeviceTags"
| "site_kind ListLags = Some InvLags"
| "site_kind ListMcLagDomains = Some InvMcLagDomains"
| "site_kind ListSwitchStacks = Some InvSwitchStacks"
| "site_kind ListWanInterfaces = Some InvWanInterfaces"
| "site_kind ListVpnServers = Some InvVpnServers"
| "site_kind ListSiteToSiteVpnTunnels = Some InvSiteToSiteVpnTunnels"

record inventory_list_input = list_input +
  il_kind :: network_inventory_kind

definition inventory_fetch ::
  "json page decoder \<Rightarrow> ('e, 'x) tool_runtime_scheme \<Rightarrow> network_inventory_kind \<Rightarrow> list_input
     \<Rightarrow> ('e, json page \<times> bounded_message) tool" where
  "inventory_fetch dec rt k input =
     (case site_kind k of
        Some sk \<Rightarrow>
          bind_io (resolve_site rt) (\<lambda>site.
            upstream (site_inventory dec (integration rt) site sk (requested_page input) (ls_filter input)))
      | None \<Rightarrow>
          (if k = ListSites then upstream (site_records dec (integration rt) (requested_page input) (ls_filter input))
           else if k \<in> {ListDpiApplications, ListDpiCategories}
           then upstream (dpi_catalog dec (integration rt)
                  (if k = ListDpiCategories then Categories else Applications) (requested_page input) (ls_filter input))
           else upstream (countries dec (integration rt) (requested_page input) (ls_filter input))))"

text \<open>A filtered DPI dictionary reports the unfiltered total, so it continues by full pages.\<close>

definition row_based_paging :: "network_inventory_kind \<Rightarrow> list_input \<Rightarrow> bool" where
  "row_based_paging k input \<longleftrightarrow> k \<in> {ListDpiApplications, ListDpiCategories} \<and> ls_filter input \<noteq> None"

definition inventory_page ::
  "(string \<Rightarrow> string + (string \<times> json) list) \<Rightarrow> network_inventory_kind \<Rightarrow> list_input
     \<Rightarrow> json page \<times> bounded_message \<Rightarrow> mcp_error + list_output" where
  "inventory_page from_str k input = (\<lambda>(pg, response).
     bind_res (page_end ''inventory'' input pg response) (\<lambda>next_row.
     bind_res (beyond_total ''inventory'' next_row pg response) (\<lambda>_.
     bind_res (if row_based_paging k input then Inr ()
               else empty_before_total ''inventory'' input next_row pg response) (\<lambda>_.
     bind_res (controller_page_metadata from_str response) (\<lambda>metadata.
       Inr (page_output input pg (Some metadata)
              (if row_based_paging k input then then_some (row_count pg = page_limit pg) next_row
               else then_some (next_row < total_count pg) next_row)))))))"

definition check_inventory_input :: "network_inventory_kind \<Rightarrow> list_input \<Rightarrow> mcp_error + unit" where
  "check_inventory_input k input =
     bind_res (check_list_input input) (\<lambda>_.
       if k = ListWanInterfaces \<and> ls_filter input \<noteq> None
       then Inl (InvalidParams ''the WAN inventory endpoint has no filter parameter'') else Inr ())"

definition network_inventory_list ::
  "(json \<Rightarrow> string + inventory_list_input) \<Rightarrow> (string \<Rightarrow> string + (string \<times> json) list) \<Rightarrow> json page decoder
     \<Rightarrow> ('e, 'x) tool_runtime_scheme \<Rightarrow> params \<Rightarrow> ('e, call_result) tool" where
  "network_inventory_list from_value from_str dec rt ps =
     bind_io (return_io (parse from_value ps)) (\<lambda>input.
     let base = list_input.truncate input; k = il_kind input
     in bind_io (return_io (check_inventory_input k base)) (\<lambda>_.
        bind_io (inventory_fetch dec rt k base) (\<lambda>served.
          map_io (list_result ''records''
                    [(''kind'', Some (JStr (inventory_kind_word k))),
                     (''paginationBasis'', then_some (row_based_paging k base) (JStr ''returnedRows''))] rt)
            (return_io (inventory_page from_str k base served)))))"

section \<open>Wi-Fi broadcasts\<close>

text \<open>The page is read as a value first; its other members are the metadata.\<close>

definition broadcast_page ::
  "(json \<Rightarrow> string + json page) \<Rightarrow> list_input \<Rightarrow> json \<times> bounded_message \<Rightarrow> mcp_error + list_output" where
  "broadcast_page page_of input = (\<lambda>(original, response).
     bind_res (map_err (page_validation_error response) (page_of original)) (\<lambda>pg.
     bind_res (ok_or (page_validation_error response ''Wi-Fi broadcast page must be a JSON object'') (jobj original))
       (\<lambda>members.
     let metadata = fold map_remove [''offset'', ''limit'', ''count'', ''totalCount'', ''data''] members
     in bind_res (page_end ''Wi-Fi broadcast'' input pg response) (\<lambda>next_row.
        bind_res (beyond_total ''Wi-Fi broadcast'' next_row pg response) (\<lambda>_.
        bind_res (empty_before_total ''Wi-Fi broadcast'' input next_row pg response) (\<lambda>_.
          Inr (page_output input pg (then_some (metadata \<noteq> []) metadata)
                 (then_some (next_row < total_count pg) next_row))))))))"

definition check_broadcast_input :: "list_input \<Rightarrow> mcp_error + unit" where
  "check_broadcast_input input =
     (if 2147483647 < ls_offset input \<or> ls_limit input = 0
      then Inl (InvalidParams ''offset must be 0-2147483647 and limit must be positive'')
      else check_list_input input)"

definition wifi_broadcasts_list ::
  "(json \<Rightarrow> string + list_input) \<Rightarrow> (json \<Rightarrow> string + json page) \<Rightarrow> ('e, 'x) tool_runtime_scheme \<Rightarrow> params
     \<Rightarrow> ('e, call_result) tool" where
  "wifi_broadcasts_list from_value page_of rt ps =
     bind_io (return_io (parse from_value ps)) (\<lambda>input.
     bind_io (return_io (check_broadcast_input input)) (\<lambda>_.
     bind_io (resolve_site rt) (\<lambda>site.
     bind_io (upstream (wifi_broadcast_records (integration rt) site (requested_page input) (ls_filter input)))
       (\<lambda>served. map_io (list_result ''broadcasts'' [] rt) (return_io (broadcast_page page_of input served))))))"

section \<open>Single records\<close>

record record_output =
  rec_record :: "json option"
  rec_in_content :: "bool option"

definition record_output_json :: "record_output \<Rightarrow> json" where
  "record_output_json o1 =
     JObj (set_fields [(''record'', rec_record o1), (''recordInContent'', map_option JBool (rec_in_content o1))])"

definition record_steps ::
  "('e, 'x) tool_runtime_scheme \<Rightarrow> (string \<times> (record_output \<Rightarrow> (string \<times> record_output) option)) list" where
  "record_steps rt =
     [(''record'', take_text rec_record (show_json rt) (\<lambda>o1. o1\<lparr>rec_record := None, rec_in_content := Some True\<rparr>))]"

interpretation single_record: spill_steps "record_steps rt" for rt :: "('e, 'x) tool_runtime_scheme"
  by unfold_locales (auto simp: record_steps_def)

text \<open>\<open>record_result\<close> and \<open>network_policy_detail_result\<close> are the same function on two output types.\<close>

definition record_result :: "('e, 'x) tool_runtime_scheme \<Rightarrow> json \<Rightarrow> call_result" where
  "record_result rt v =
     spilled_result rt record_output_json (record_steps rt) \<lparr>rec_record = Some v, rec_in_content = None\<rparr>"

definition network_policy_detail_result :: "('e, 'x) tool_runtime_scheme \<Rightarrow> json \<Rightarrow> call_result" where
  "network_policy_detail_result rt v =
     spilled_result rt record_output_json (record_steps rt) \<lparr>rec_record = Some v, rec_in_content = None\<rparr>"

definition check_detail_id :: "string \<Rightarrow> string \<Rightarrow> mcp_error + unit" where
  "check_detail_id what rid =
     (if bad_id rid then Inl (InvalidParams (what @ '' must be a nonempty id of at most 256 bytes'')) else Inr ())"

definition network_policy_detail_tool ::
  "(json \<Rightarrow> string + network_policy_kind \<times> string) \<Rightarrow> ('e, 'x) tool_runtime_scheme \<Rightarrow> params
     \<Rightarrow> ('e, call_result) tool" where
  "network_policy_detail_tool from_value rt ps =
     bind_io (return_io (parse from_value ps)) (\<lambda>(k, rid).
     bind_io (return_io (check_detail_id ''id'' rid)) (\<lambda>_.
     bind_io (resolve_site rt) (\<lambda>site.
       map_io (network_policy_detail_result rt)
         (upstream (network_policy_detail (integration rt) site (policy_collection k) rid)))))"

definition firewall_policies_ordering_read ::
  "(json \<Rightarrow> string + unit) \<Rightarrow> ('e, 'x) tool_runtime_scheme \<Rightarrow> params \<Rightarrow> ('e, call_result) tool" where
  "firewall_policies_ordering_read from_value rt ps =
     bind_io (return_io (parse from_value ps)) (\<lambda>_.
     bind_io (resolve_site rt) (\<lambda>site.
       map_io (network_policy_detail_result rt) (upstream (firewall_policy_ordering (integration rt) site))))"

definition acl_rules_ordering_read ::
  "(json \<Rightarrow> string + unit) \<Rightarrow> ('e, 'x) tool_runtime_scheme \<Rightarrow> params \<Rightarrow> ('e, call_result) tool" where
  "acl_rules_ordering_read from_value rt ps =
     bind_io (return_io (parse from_value ps)) (\<lambda>_.
     bind_io (resolve_site rt) (\<lambda>site.
       map_io (network_policy_detail_result rt) (upstream (acl_rule_ordering (integration rt) site))))"

definition network_switching_detail ::
  "(json \<Rightarrow> string + switching_detail_kind \<times> string) \<Rightarrow> ('e, 'x) tool_runtime_scheme \<Rightarrow> params
     \<Rightarrow> ('e, call_result) tool" where
  "network_switching_detail from_value rt ps =
     bind_io (return_io (parse from_value ps)) (\<lambda>(k, rid).
     bind_io (return_io (check_detail_id ''id'' rid)) (\<lambda>_.
     bind_io (resolve_site rt) (\<lambda>site.
       map_io (record_result rt) (upstream (switching_detail (integration rt) site k rid)))))"

text \<open>\<open>None\<close> stands for \<open>ApplicationInfo\<close>, the kind that has no record id.\<close>

record inventory_detail_input =
  id_kind :: "inventory_detail_kind option"
  id_id :: "string option"

definition network_inventory_detail ::
  "(json \<Rightarrow> string + inventory_detail_input) \<Rightarrow> ('e, 'x) tool_runtime_scheme \<Rightarrow> params
     \<Rightarrow> ('e, call_result) tool" where
  "network_inventory_detail from_value rt ps =
     bind_io (return_io (parse from_value ps)) (\<lambda>input.
       case id_kind input of
         None \<Rightarrow>
           (if id_id input \<noteq> None then return_io (Inl (InvalidParams ''applicationInfo has no id parameter''))
            else map_io (record_result rt) (upstream (info_record (integration rt))))
       | Some k \<Rightarrow>
           (case id_id input of
              None \<Rightarrow> return_io (Inl (InvalidParams ''id is required for client, device or deviceStatistics''))
            | Some rid \<Rightarrow>
                (if rid = [] \<or> 256 < length rid \<or> rid \<in> {''.'', ''..''}
                 then return_io (Inl (InvalidParams ''id must be a nonempty id of at most 256 bytes''))
                 else bind_io (resolve_site rt) (\<lambda>site.
                        map_io (record_result rt) (upstream (inventory_detail (integration rt) site k rid))))))"

definition wifi_broadcasts_status ::
  "(json \<Rightarrow> string + string) \<Rightarrow> (string \<times> json) list decoder \<Rightarrow> ('e, 'x) tool_runtime_scheme \<Rightarrow> params
     \<Rightarrow> ('e, call_result) tool" where
  "wifi_broadcasts_status from_value dec rt ps =
     bind_io (return_io (parse from_value ps)) (\<lambda>rid.
     bind_io (return_io (check_detail_id ''broadcastId'' rid)) (\<lambda>_.
     bind_io (resolve_site rt) (\<lambda>site.
       map_io (\<lambda>members. if exceeds rt (JObj members) then network_policy_detail_result rt (JObj members)
                          else structured (JObj members))
         (upstream (wifi_broadcast dec (integration rt) site rid)))))"

section \<open>Pages that pass cut the collection\<close>

lemma unat_u64_of_nat: "n < 2 ^ 64 \<Longrightarrow> unat (of_nat n :: u64) = n"
  by (simp add: unat_of_nat)

lemma unat_row_count: "length (page_data pg) < 2 ^ 64 \<Longrightarrow> unat (row_count pg) = length (page_data pg)"
  by (simp add: row_count_def unat_u64_of_nat)

lemma unat_integration_limit: "unat (integration_limit n) = min n 200"
  by (simp add: integration_limit_def MAXIMUM_INTEGRATION_LIMIT_def unat_of_nat)

lemma page_conforms_iff:
  assumes "length (page_data pg) < 2 ^ 64"
  shows "page_conforms input pg \<longleftrightarrow>
     page_offset pg = ls_offset input \<and> 0 < page_limit pg \<and> unat (page_limit pg) \<le> min (ls_limit input) 200
     \<and> length (page_data pg) \<le> unat (page_limit pg) \<and> page_count pg = row_count pg"
proof -
  have "unat (ucast (integration_limit (ls_limit input)) :: u64) = min (ls_limit input) 200"
    by (simp add: unsigned_ucast_eq unat_integration_limit take_bit_nat_eq_self)
  then have "page_limit pg > ucast (integration_limit (ls_limit input)) \<longleftrightarrow> min (ls_limit input) 200 < unat (page_limit pg)"
    by (simp add: word_less_nat_alt)
  moreover have "row_count pg > page_limit pg \<longleftrightarrow> unat (page_limit pg) < length (page_data pg)"
    by (simp add: word_less_nat_alt unat_row_count [OF assms])
  ultimately show ?thesis
    unfolding page_conforms_def by (auto simp: word_neq_0_conv)
qed

text \<open>What an accepted page says about the collection.\<close>

definition page_sound :: "list_input \<Rightarrow> json page \<Rightarrow> list_output \<Rightarrow> bool" where
  "page_sound input pg out \<longleftrightarrow>
     lx_rows out = Some (page_data pg) \<and> lx_offset out = ls_offset input \<and> lx_total out = total_count pg
     \<and> length (page_data pg) \<le> min (ls_limit input) 200
     \<and> (case lx_next out of
          Some n \<Rightarrow> page_data pg \<noteq> [] \<and> n < total_count pg
            \<and> unat n = unat (ls_offset input) + length (page_data pg)
        | None \<Rightarrow> unat (total_count pg) \<le> unat (ls_offset input) + length (page_data pg)
            \<and> (page_data pg \<noteq> [] \<longrightarrow> unat (total_count pg) = unat (ls_offset input) + length (page_data pg)))"

definition honest_page :: "list_input \<Rightarrow> json list \<Rightarrow> json page \<Rightarrow> bool" where
  "honest_page input rows pg \<longleftrightarrow>
     page_offset pg = ls_offset input \<and> 0 < page_limit pg \<and> unat (page_limit pg) \<le> min (ls_limit input) 200
     \<and> page_data pg = take (unat (page_limit pg)) (drop (unat (ls_offset input)) rows)
     \<and> page_count pg = row_count pg \<and> total_count pg = of_nat (length rows)"

lemma page_end_Inr:
  assumes "length (page_data pg) < 2 ^ 64"
  shows "page_end what input pg response = Inr n \<longleftrightarrow>
     page_conforms input pg \<and> unat n = unat (ls_offset input) + length (page_data pg)"
proof -
  have "ok_or e x = Inr n \<longleftrightarrow> x = Some n" for e :: mcp_error and x by (cases x) simp_all
  then show ?thesis by (simp add: page_end_def checked_add_Some_iff unat_row_count [OF assms])
qed

lemma total_checks:
  assumes "length (page_data pg) < 2 ^ 64" and "unat n = unat (ls_offset input) + length (page_data pg)"
  shows "total_conflict what n pg response = Inr () \<longleftrightarrow>
      beyond_total what n pg response = Inr () \<and> empty_before_total what input n pg response = Inr ()"
    and "beyond_total what n pg response = Inr () \<longleftrightarrow> page_data pg = [] \<or> n \<le> total_count pg"
    and "empty_before_total what input n pg response = Inr () \<longleftrightarrow> page_data pg \<noteq> [] \<or> total_count pg \<le> n"
  using unat_row_count [OF assms(1)]
  by (auto simp: total_conflict_def beyond_total_def empty_before_total_def word_less_nat_alt word_le_nat_alt)

lemma page_output_sound:
  assumes "length (page_data pg) < 2 ^ 64" and "page_conforms input pg"
    and "unat n = unat (ls_offset input) + length (page_data pg)"
    and "page_data pg = [] \<or> n \<le> total_count pg" and "page_data pg \<noteq> [] \<or> total_count pg \<le> n"
  shows "page_sound input pg (page_output input pg metadata (then_some (n < total_count pg) n))"
  using assms(2-5) unfolding page_conforms_iff [OF assms(1)]
  by (auto simp: page_sound_def page_output_def then_some_def word_less_nat_alt word_le_nat_alt)

lemma honest_page_passes:
  assumes "honest_page input rows pg" and "length rows < 2 ^ 64" and "unat (ls_offset input) \<le> length rows"
  obtains n where "length (page_data pg) < 2 ^ 64" "page_conforms input pg"
    "unat n = unat (ls_offset input) + length (page_data pg)" "n \<le> total_count pg"
    "page_data pg \<noteq> [] \<or> total_count pg \<le> n"
proof -
  let ?off = "unat (ls_offset input)"
  have data: "page_data pg = take (unat (page_limit pg)) (drop ?off rows)"
    and total: "unat (total_count pg) = length rows"
    using assms(1,2) by (simp_all add: honest_page_def unat_u64_of_nat)
  then have len: "?off + length (page_data pg) \<le> length rows" using assms(3) by simp
  with assms(2) have small: "length (page_data pg) < 2 ^ 64" by simp
  let ?n = "of_nat (?off + length (page_data pg)) :: u64"
  have n: "unat ?n = ?off + length (page_data pg)" using len assms(2) by (intro unat_u64_of_nat) simp
  have "length (page_data pg) \<le> unat (page_limit pg)" by (simp add: data)
  with assms(1) have "page_conforms input pg" by (simp add: page_conforms_iff [OF small] honest_page_def)
  moreover have "page_data pg \<noteq> [] \<or> total_count pg \<le> ?n"
  proof (cases "?off < length rows")
    case True
    moreover have "0 < unat (page_limit pg)" using assms(1) by (simp add: honest_page_def word_less_nat_alt)
    ultimately show ?thesis by (simp add: data)
  next
    case False
    with n total show ?thesis by (simp add: word_le_nat_alt)
  qed
  moreover have "?n \<le> total_count pg" using n total len by (simp add: word_le_nat_alt)
  ultimately show ?thesis using that small n by blast
qed

text \<open>Following the continuation offsets of a listing.\<close>

inductive listing ::
  "(list_input \<Rightarrow> mcp_error + list_output) \<Rightarrow> list_input \<Rightarrow> list_output list \<Rightarrow> bool" for page where
  last: "page input = Inr out \<Longrightarrow> lx_next out = None \<Longrightarrow> listing page input [out]"
| more: "page input = Inr out \<Longrightarrow> lx_next out = Some n \<Longrightarrow>
          listing page (input\<lparr>ls_offset := n\<rparr>) outs \<Longrightarrow> listing page input (out # outs)"

definition rows_of :: "list_output \<Rightarrow> json list" where
  "rows_of out = (case lx_rows out of None \<Rightarrow> [] | Some rows \<Rightarrow> rows)"

text \<open>
  The contract of a page check: what it accepts is sound, and it accepts every page of a console
  that serves slices of one collection.
\<close>

locale paged_listing =
  fixes check :: "list_input \<Rightarrow> json page \<times> bounded_message \<Rightarrow> mcp_error + list_output"
    and readable :: "bounded_message \<Rightarrow> bool"
  assumes sound: "length (page_data pg) < 2 ^ 64 \<Longrightarrow> check input (pg, response) = Inr out \<Longrightarrow> page_sound input pg out"
    and complete: "honest_page input rows pg \<Longrightarrow> length rows < 2 ^ 64 \<Longrightarrow> unat (ls_offset input) \<le> length rows \<Longrightarrow>
        readable response \<Longrightarrow> \<exists>out. check input (pg, response) = Inr out"
begin

lemma enumerates:
  assumes serve: "\<And>i. ls_limit i = most \<Longrightarrow> honest_page i rows (fst (serve i)) \<and> readable (snd (serve i))"
    and small: "length rows < 2 ^ 64" and start: "ls_limit input = most" "unat (ls_offset input) \<le> length rows"
  shows "\<exists>outs. listing (\<lambda>i. check i (serve i)) input outs
           \<and> concat (map rows_of outs) = drop (unat (ls_offset input)) rows
           \<and> length outs \<le> Suc (length rows - unat (ls_offset input))"
  using start
proof (induction "length rows - unat (ls_offset input)" arbitrary: input rule: less_induct)
  case less
  obtain pg response where s: "serve input = (pg, response)" by (cases "serve input")
  with serve [of input] less.prems(1) have h: "honest_page input rows pg" "readable response" by simp_all
  from complete [OF h(1) small less.prems(2) h(2)] obtain out where out: "check input (pg, response) = Inr out" by blast
  from honest_page_passes [OF h(1) small less.prems(2)] have len: "length (page_data pg) < 2 ^ 64" by metis
  note ps = sound [OF len out]
  let ?off = "unat (ls_offset input)"
  have data: "page_data pg = take (unat (page_limit pg)) (drop ?off rows)"
    and total: "unat (total_count pg) = length rows"
    using h(1) small by (simp_all add: honest_page_def unat_u64_of_nat)
  from ps have rows: "rows_of out = page_data pg" by (simp add: page_sound_def rows_of_def)
  show ?case
  proof (cases "lx_next out")
    case None
    with ps total have "length rows \<le> ?off + length (page_data pg)" by (simp add: page_sound_def)
    then have "page_data pg = drop ?off rows" by (simp add: data)
    with rows None out s show ?thesis by (intro exI [of _ "[out]"]) (simp add: listing.last)
  next
    case (Some n)
    with ps have n: "page_data pg \<noteq> []" "unat n = ?off + length (page_data pg)" "n < total_count pg"
      by (simp_all add: page_sound_def)
    let ?next = "input\<lparr>ls_offset := n\<rparr>"
    have "unat n < length rows" using n(3) total by (simp add: word_less_nat_alt)
    with n(1,2) have dec: "length rows - unat (ls_offset ?next) < length rows - ?off" by (cases "page_data pg") simp_all
    moreover have "unat (ls_offset ?next) \<le> length rows" using \<open>unat n < length rows\<close> by simp
    ultimately obtain outs where outs: "listing (\<lambda>i. check i (serve i)) ?next outs"
      "concat (map rows_of outs) = drop (unat n) rows" "length outs \<le> Suc (length rows - unat n)"
      using less.hyps [of ?next] less.prems(1) by auto
    have "drop ?off rows = page_data pg @ drop (unat n) rows"
      using append_take_drop_id [of "unat (page_limit pg)" "drop ?off rows"] data n(2)
      by (metis append_eq_conv_conj drop_drop add.commute)
    with outs rows n(1,2) \<open>unat n < length rows\<close> dec show ?thesis
      by (intro exI [of _ "out # outs"]) (auto intro: listing.more [OF _ Some] simp: out s)
  qed
qed

end

definition metadata_readable :: "(string \<Rightarrow> string + (string \<times> json) list) \<Rightarrow> bounded_message \<Rightarrow> bool" where
  "metadata_readable from_str response \<longleftrightarrow> (\<exists>m. from_str (as_str response) = Inr m)"

lemma controller_page_metadata_Inr:
  "metadata_readable from_str response \<longleftrightarrow> (\<exists>m. controller_page_metadata from_str response = Inr m)"
  by (auto simp: metadata_readable_def controller_page_metadata_def map_ok_def map_err_def split: sum.splits)

interpretation pages: paged_listing "listed_page from_str what" "metadata_readable from_str" for from_str what
proof
  fix pg :: "json page" and input response out
  assume len: "length (page_data pg) < 2 ^ 64" and ok: "listed_page from_str what input (pg, response) = Inr out"
  from ok obtain n m where n: "page_end what input pg response = Inr n" "total_conflict what n pg response = Inr ()"
    "out = page_output input pg (Some m) (then_some (n < total_count pg) n)"
    by (auto simp: listed_page_def bind_res_eq_Inr)
  with page_output_sound [OF len, of input n] show "page_sound input pg out"
    using total_checks [OF len, of n input] by (simp add: page_end_Inr [OF len])
next
  fix input rows response and pg :: "json page"
  assume h: "honest_page input rows pg" "length rows < 2 ^ 64" "unat (ls_offset input) \<le> length rows"
    and r: "metadata_readable from_str response"
  from h obtain n where n: "length (page_data pg) < 2 ^ 64" "page_conforms input pg"
    "unat n = unat (ls_offset input) + length (page_data pg)" "n \<le> total_count pg"
    "page_data pg \<noteq> [] \<or> total_count pg \<le> n"
    by (rule honest_page_passes)
  then have "page_end what input pg response = Inr n" "total_conflict what n pg response = Inr ()"
    using total_checks [OF n(1,3)] by (simp_all add: page_end_Inr)
  with r show "\<exists>out. listed_page from_str what input (pg, response) = Inr out"
    by (auto simp: listed_page_def controller_page_metadata_Inr bind_res_eq_Inr)
qed

text \<open>The inventory accepts the same pages, unless it pages by rows.\<close>

lemma inventory_page_accepts:
  assumes "\<not> row_based_paging k input" and "length (page_data pg) < 2 ^ 64"
  shows "inventory_page from_str k input (pg, response) = Inr out \<longleftrightarrow>
           listed_page from_str ''inventory'' input (pg, response) = Inr out"
  using assms(1) total_checks(1) [OF assms(2)]
  by (auto simp: inventory_page_def listed_page_def bind_res_eq_Inr page_end_Inr [OF assms(2)])

lemma listing_mono:
  assumes "listing p input outs"
    and "\<And>i out. ls_limit i = ls_limit input \<Longrightarrow> ls_filter i = ls_filter input \<Longrightarrow> p i = Inr out \<Longrightarrow> q i = Inr out"
  shows "listing q input outs"
  using assms by (induction rule: listing.induct) (auto intro: listing.intros)

text \<open>
  C40. Following the continuation offsets of a listing returns the whole collection, each row once
  and in order, in a bounded number of calls. This holds for pending devices, policies and RADIUS
  profiles, and for every inventory except a filtered DPI dictionary, against any console that
  serves slices of one collection with whatever page size between one row and the limit asked for.
\<close>

theorem listings_enumerate_the_collection:
  assumes "\<And>i. ls_limit i = ls_limit input \<Longrightarrow>
             honest_page i rows (fst (serve i)) \<and> metadata_readable from_str (snd (serve i))"
    and "length rows < 2 ^ 64" and "unat (ls_offset input) \<le> length rows"
    and "\<not> row_based_paging k input"
    and "page \<in> {\<lambda>i. listed_page from_str what i (serve i), \<lambda>i. inventory_page from_str k i (serve i)}"
  shows "\<exists>outs. listing page input outs
           \<and> concat (map rows_of outs) = drop (unat (ls_offset input)) rows
           \<and> length outs \<le> Suc (length rows - unat (ls_offset input))"
proof -
  note all = pages.enumerates [OF assms(1,2) refl assms(3)]
  show ?thesis
  proof (cases "page = (\<lambda>i. listed_page from_str what i (serve i))")
    case True
    with all show ?thesis by blast
  next
    case False
    with assms(5) have page: "page = (\<lambda>i. inventory_page from_str k i (serve i))" by blast
    have same: "inventory_page from_str k i (serve i) = Inr out"
      if i: "ls_limit i = ls_limit input" "ls_filter i = ls_filter input"
        "listed_page from_str ''inventory'' i (serve i) = Inr out" for i out
    proof -
      obtain pg response where s: "serve i = (pg, response)" by (cases "serve i")
      from assms(1) [OF i(1)] s have "length (page_data pg) \<le> unat (page_limit pg)"
        by (simp add: honest_page_def)
      moreover have "unat (page_limit pg) < 2 ^ LENGTH(64)" by (rule unsigned_less)
      ultimately have "length (page_data pg) < 2 ^ 64" by simp
      with i assms(4) s show ?thesis by (simp add: inventory_page_accepts row_based_paging_def)
    qed
    obtain outs where outs: "listing (\<lambda>i. listed_page from_str ''inventory'' i (serve i)) input outs"
      "concat (map rows_of outs) = drop (unat (ls_offset input)) rows"
      "length outs \<le> Suc (length rows - unat (ls_offset input))"
      using all [of "''inventory''"] by blast
    have "listing (\<lambda>i. inventory_page from_str k i (serve i)) input outs"
      by (rule listing_mono [OF outs(1)]) (rule same)
    with outs(2,3) show ?thesis unfolding page by blast
  qed
qed

definition sample_serve :: "list_input \<Rightarrow> json page \<times> bounded_message" where
  "sample_serve i =
     (let rows = [JStr ''a'', JStr ''b'', JStr ''c''];
          part = take (min (ls_limit i) 2) (drop (unat (ls_offset i)) rows)
      in (\<lparr>page_offset = ls_offset i, page_limit = of_nat (min (ls_limit i) 2), page_count = of_nat (length part),
           total_count = 3, page_data = part\<rparr>, BoundedMessage []))"

theorem listings_enumerate_the_collection_witness:
  "\<exists>outs. listing (\<lambda>i. listed_page (\<lambda>_. Inr []) ''policy'' i (sample_serve i))
       \<lparr>ls_offset = 0, ls_limit = 50, ls_filter = None\<rparr> outs
     \<and> concat (map rows_of outs) = [JStr ''a'', JStr ''b'', JStr ''c'']"
proof -
  let ?rows = "[JStr ''a'', JStr ''b'', JStr ''c'']"
  let ?in = "\<lparr>ls_offset = 0, ls_limit = 50, ls_filter = None\<rparr>"
  have honest: "honest_page i ?rows (fst (sample_serve i)) \<and> metadata_readable (\<lambda>_. Inr []) (snd (sample_serve i))"
    if "ls_limit i = ls_limit ?in" for i
    using that by (simp add: sample_serve_def honest_page_def Let_def metadata_readable_def row_count_def)
  have "\<not> row_based_paging ListClients ?in" by (simp add: row_based_paging_def)
  from listings_enumerate_the_collection [OF honest _ _ this,
      of "\<lambda>i. listed_page (\<lambda>_. Inr []) ''policy'' i (sample_serve i)" "''policy''"]
  show ?thesis by auto
qed

end
