(* ===== verification/Tool_Guests.thy ===== *)
theory Tool_Guests
  imports Tool_Lists
begin

text \<open>
  The guest tools of \<open>crates/unifi-mcp/src/tools.rs\<close>: authorizing and unauthorizing a guest and
  reading its state, with the bounded scan (\<open>paged_gather\<close>) that finds the client's id. The
  theorems say what the scan returns, and that an authorization reported as verified is the one the
  controller granted.
\<close>

section \<open>Gathering pages\<close>

definition saturating_add64 :: "u64 \<Rightarrow> u64 \<Rightarrow> u64" where
  "saturating_add64 a b = (case checked_add a b of Some c \<Rightarrow> c | None \<Rightarrow> - 1)"

definition page_at :: "u64 \<Rightarrow> page_request" where
  "page_at offset = \<lparr>req_offset = offset, req_limit = 200\<rparr>"

lemma saturating_add64_grows:
  assumes "b \<noteq> 0" and "saturating_add64 a b < c"
  shows "a < saturating_add64 a b" and "unat (saturating_add64 a b) = unat a + unat b"
proof -
  have "checked_add a b \<noteq> None"
  proof
    assume "checked_add a b = None"
    with assms(2) have "- 1 < c" by (simp add: saturating_add64_def)
    then show False by simp
  qed
  then obtain d where d: "checked_add a b = Some d" by blast
  then have "saturating_add64 a b = d" by (simp add: saturating_add64_def)
  moreover from d have "unat d = unat a + unat b" by (simp only: checked_add_Some_iff)
  moreover have "0 < unat b" using assms(1) by (simp add: unat_gt_0)
  ultimately show "a < saturating_add64 a b" and "unat (saturating_add64 a b) = unat a + unat b"
    by (simp_all add: word_less_nat_alt)
qed

lemma offset_moves:
  assumes "b \<noteq> 0" and "saturating_add64 a b < c"
  shows "18446744073709551616 - unat (saturating_add64 a b) < 18446744073709551616 - unat a"
proof -
  have "unat (saturating_add64 a b) < 2 ^ LENGTH(64)" by (rule unsigned_less)
  with saturating_add64_grows(1) [OF assms] show ?thesis by (simp add: word_less_nat_alt)
qed

text \<open>
  The loop of \<open>paged_gather\<close>: \<open>offset\<close> and \<open>items\<close> are its locals. It goes on only after a page
  that moved the offset, so it ends against every controller.
\<close>

function gather_loop ::
  "(u64 \<Rightarrow> 'e world \<Rightarrow> (api_error + 'a page) \<times> 'e world) \<Rightarrow> u64 \<Rightarrow> u64 \<Rightarrow> u64 \<Rightarrow> 'a list
     \<Rightarrow> ('e, 'a list \<times> bool) tool" where
  "gather_loop fetch start cap offset items s =
     (case upstream (fetch offset) s of
        (Inl err, s) \<Rightarrow> (Inl err, s)
      | (Inr pg, s) \<Rightarrow>
          (let fetched = row_count pg;
               items = items @ page_data pg;
               moved = saturating_add64 offset fetched
           in if fetched = 0 \<or> total_count pg \<le> moved then (Inr (items, False), s)
              else if cap \<le> moved - start then (Inr (items, True), s)
              else gather_loop fetch start cap moved items s))"
  by pat_completeness auto

termination
  by (relation "measure (\<lambda>(_, _, _, offset, _, _). 2 ^ 64 - unat offset)")
    (auto simp: not_le intro!: offset_moves)

declare gather_loop.simps [simp del]

definition paged_gather ::
  "u64 \<Rightarrow> u64 \<Rightarrow> (u64 \<Rightarrow> 'e world \<Rightarrow> (api_error + 'a page) \<times> 'e world) \<Rightarrow> ('e, 'a list \<times> bool) tool" where
  "paged_gather start cap fetch = gather_loop fetch start cap start []"

lemma paged_gather_reads:
  assumes "\<And>offset w. extends 0 w (snd (fetch offset w))"
  shows "writes_within 0 (paged_gather start cap fetch)"
proof (rule writes_withinI)
  fix s
  have "extends 0 (snd s) (snd (snd (gather_loop fetch start cap offset items s)))" for offset items
    using assms
  proof (induction fetch start cap offset items s rule: gather_loop.induct)
    case (1 fetch start cap offset items s)
    obtain r s1 where read: "upstream (fetch offset) s = (r, s1)" by (metis surj_pair)
    have here: "extends 0 (snd s) (snd s1)"
      using writes_within_run [OF writes_within_upstream read] "1.prems" by blast
    show ?case
    proof (cases r)
      case (Inl err)
      with here show ?thesis by (simp add: gather_loop.simps [of fetch start cap offset] read)
    next
      case (Inr pg)
      show ?thesis
        using here extends_trans [OF here "1.IH" [OF read [symmetric] Inr refl refl refl _ _ "1.prems"]]
        by (auto simp: gather_loop.simps [of fetch start cap offset] read Inr Let_def)
    qed
  qed
  then show "extends 0 (snd s) (snd (snd (paged_gather start cap fetch s)))"
    by (simp add: paged_gather_def)
qed

text \<open>A controller that serves slices of one collection, of any positive size up to the limit.\<close>

definition serves_rows :: "(u64 \<Rightarrow> 'e world \<Rightarrow> (api_error + 'a page) \<times> 'e world) \<Rightarrow> 'a list \<Rightarrow> bool" where
  "serves_rows fetch rows \<longleftrightarrow>
     (\<forall>offset w. \<exists>pg w' n. fetch offset w = (Inr pg, w') \<and> 0 < n \<and> n \<le> 200
        \<and> page_data pg = take n (drop (unat offset) rows) \<and> total_count pg = of_nat (length rows))"

definition gathered :: "nat \<Rightarrow> nat \<Rightarrow> 'a list \<Rightarrow> 'a list \<times> bool \<Rightarrow> bool" where
  "gathered start cap rows = (\<lambda>(items, truncated).
     items = take (length items) (drop start rows)
     \<and> (truncated \<longleftrightarrow> start + length items < length rows)
     \<and> (truncated \<longrightarrow> cap \<le> length items) \<and> length items \<le> cap + 200)"

lemma gather_loop_serves:
  assumes "serves_rows fetch rows" and "length rows < 2 ^ 64"
    and "unat start \<le> unat offset" "unat offset \<le> length rows" "unat offset \<le> unat start + unat cap"
    and "items = take (unat offset - unat start) (drop (unat start) rows)"
  shows "\<exists>out s'. gather_loop fetch start cap offset items s = (Inr out, s')
           \<and> gathered (unat start) (unat cap) rows out"
  using assms
proof (induction fetch start cap offset items s rule: gather_loop.induct)
  case (1 fetch start cap offset items s)
  obtain pg w' n where pg: "fetch offset (snd s) = (Inr pg, w')" "0 < n" "n \<le> 200"
    "page_data pg = take n (drop (unat offset) rows)" "total_count pg = of_nat (length rows)"
    using "1.prems"(1) unfolding serves_rows_def by blast
  obtain s1 where read: "upstream (fetch offset) s = (Inr pg, s1)"
    using pg(1) by (cases s) (simp add: upstream_def on_world_def map_err_io_def)
  let ?moved = "saturating_add64 offset (row_count pg)"
  have total: "unat (total_count pg) = length rows" using pg(5) "1.prems"(2) by (simp add: unat_u64_of_nat)
  have count: "length (page_data pg) \<le> length rows - unat offset" "length (page_data pg) \<le> 200"
    using pg(3,4) by simp_all
  have rows: "unat (row_count pg) = length (page_data pg)"
    by (rule unat_row_count) (use count(1) "1.prems"(2) in simp)
  let ?stop = "of_nat (unat offset + length (page_data pg)) :: u64"
  have stop: "unat ?stop = unat offset + length (page_data pg)"
    by (rule unat_u64_of_nat) (use count "1.prems"(2,4) in simp)
  then have "checked_add offset (row_count pg) = Some ?stop" by (simp only: checked_add_Some_iff rows)
  then have moved: "unat ?moved = unat offset + length (page_data pg)"
    using stop by (simp add: saturating_add64_def)
  let ?items = "items @ page_data pg"
  have items: "?items = take (unat ?moved - unat start) (drop (unat start) rows)"
  proof -
    have "page_data pg = take (length (page_data pg)) (drop (unat offset) rows)"
      by (auto simp: pg(4) min_def)
    then have "page_data pg = take (length (page_data pg))
        (drop (unat offset - unat start) (drop (unat start) rows))"
      using "1.prems"(3) by simp
    then have "?items = take (unat offset - unat start + length (page_data pg)) (drop (unat start) rows)"
      unfolding take_add using "1.prems"(6) by simp
    then show ?thesis using "1.prems"(3) moved by simp
  qed
  have len: "length ?items = unat ?moved - unat start"
    using items moved count "1.prems"(3,4) by simp
  have unfolded: "gather_loop fetch start cap offset items s =
     (if row_count pg = 0 \<or> total_count pg \<le> ?moved then (Inr (?items, False), s1)
      else if cap \<le> ?moved - start then (Inr (?items, True), s1)
      else gather_loop fetch start cap ?moved ?items s1)"
    by (simp add: gather_loop.simps [of fetch start cap offset] read)
  show ?case
  proof (cases "row_count pg = 0 \<or> total_count pg \<le> ?moved")
    case True
    have "length rows \<le> unat ?moved"
    proof (cases "row_count pg = 0")
      case True
      then have "page_data pg = []" using rows by simp
      with pg(2,4) moved "1.prems"(4) show ?thesis by simp
    next
      case False
      with True total show ?thesis by (simp add: word_le_nat_alt)
    qed
    then have "gathered (unat start) (unat cap) rows (?items, False)"
      unfolding gathered_def using items len moved count "1.prems"(3,5) by (simp del: length_append)
    with True show ?thesis by (simp add: unfolded)
  next
    case go: False
    then have less: "unat ?moved < length rows" using total by (simp add: word_le_nat_alt)
    have ge: "unat start \<le> unat ?moved" using moved "1.prems"(3) by simp
    then have diff: "unat (?moved - start) = unat ?moved - unat start"
      by (simp add: unat_sub word_le_nat_alt)
    show ?thesis
    proof (cases "cap \<le> ?moved - start")
      case True
      then have "gathered (unat start) (unat cap) rows (?items, True)"
        unfolding gathered_def using items len moved count less diff ge "1.prems"(3,5)
        by (simp add: word_le_nat_alt del: length_append)
      with True go show ?thesis by (simp add: unfolded)
    next
      case False
      then have "unat ?moved \<le> unat start + unat cap" using diff by (simp add: word_le_nat_alt)
      then show ?thesis
        using "1.IH" [OF read [symmetric] refl refl refl refl go False "1.prems"(1,2) ge _ _ items] less go False
        by (simp add: unfolded)
    qed
  qed
qed

lemma paged_gather_serves:
  assumes "serves_rows fetch rows" and "length rows < 2 ^ 64" and "unat start \<le> length rows"
  shows "\<exists>out s'. paged_gather start cap fetch s = (Inr out, s') \<and> gathered (unat start) (unat cap) rows out"
  unfolding paged_gather_def using assms by (intro gather_loop_serves) simp_all


section \<open>Types\<close>

text \<open>The fields of a client summary the tools read.\<close>

record client_summary =
  cs_id :: string
  cs_mac_address :: "string option"

record guest_usage =
  gu_bytes :: u64
  gu_duration_sec :: u64
  gu_rx_bytes :: u64
  gu_tx_bytes :: u64

record guest_authorization =
  ga_authorization_method :: string
  ga_authorized_at :: string
  ga_expires_at :: string
  ga_data_usage_limit_m_bytes :: "u64 option"
  ga_rx_rate_limit_kbps :: "u64 option"
  ga_tx_rate_limit_kbps :: "u64 option"
  ga_usage :: "guest_usage option"

record client_access =
  ca_kind :: string
  ca_authorized :: "bool option"
  ca_authorization :: "guest_authorization option"

record client_detail_record =
  cd_id :: string
  cd_mac_address :: "string option"
  cd_access :: "client_access option"

record guests_authorize_input =
  gi_client :: string
  gi_limits :: guest_authorization_limits
  gi_confirm :: "bool option"

record guests_unauthorize_input =
  gx_client :: string
  gx_confirm :: "bool option"

text \<open>\<open>GuestAuthorizationView\<close> has the fields of \<open>GuestAuthorization\<close>; only its serialization differs.\<close>

definition guest_usage_json :: "guest_usage \<Rightarrow> json" where
  "guest_usage_json u =
     JObj (set_fields
       [(''bytes'', Some (word_json (gu_bytes u))), (''durationSec'', Some (word_json (gu_duration_sec u))),
        (''rxBytes'', Some (word_json (gu_rx_bytes u))), (''txBytes'', Some (word_json (gu_tx_bytes u)))])"

definition guest_authorization_json :: "guest_authorization \<Rightarrow> json" where
  "guest_authorization_json a =
     JObj (set_fields
       [(''authorizationMethod'', Some (JStr (ga_authorization_method a))),
        (''authorizedAt'', Some (JStr (ga_authorized_at a))), (''expiresAt'', Some (JStr (ga_expires_at a))),
        (''dataUsageLimitMBytes'', map_option word_json (ga_data_usage_limit_m_bytes a)),
        (''rxRateLimitKbps'', map_option word_json (ga_rx_rate_limit_kbps a)),
        (''txRateLimitKbps'', map_option word_json (ga_tx_rate_limit_kbps a)),
        (''usage'', map_option guest_usage_json (ga_usage a))])"

definition guest_limits_json :: "guest_authorization_limits \<Rightarrow> json" where
  "guest_limits_json l =
     JObj (set_fields
       [(''timeLimitMinutes'', map_option word_json (time_limit_minutes l)),
        (''dataUsageLimitMBytes'', map_option word_json (data_usage_limit_m_bytes l)),
        (''rxRateLimitKbps'', map_option word_json (rx_rate_limit_kbps l)),
        (''txRateLimitKbps'', map_option word_json (tx_rate_limit_kbps l))])"

record guests_output =
  go_client :: string
  go_action :: string
  go_applied :: bool
  go_response_status :: "nat option"
  go_response_body :: "string option"
  go_response_body_in_content :: "bool option"
  go_requested_limits :: "guest_authorization_limits option"
  go_authorized_before :: "bool option"
  go_authorized_after :: "bool option"
  go_verified :: "bool option"
  go_readback_error :: "string option"
  go_readback_error_in_content :: "bool option"
  go_granted :: "guest_authorization option"
  go_revoked :: "guest_authorization option"
  go_observed :: "guest_authorization option"
  go_warnings :: "string list"

definition guests_output_json :: "guests_output \<Rightarrow> json" where
  "guests_output_json o1 =
     JObj (set_fields
       [(''client'', Some (JStr (go_client o1))), (''action'', Some (JStr (go_action o1))),
        (''applied'', Some (JBool (go_applied o1))),
        (''responseStatus'', map_option jnat (go_response_status o1)),
        (''responseBody'', map_option JStr (go_response_body o1)),
        (''responseBodyInContent'', map_option JBool (go_response_body_in_content o1)),
        (''requestedLimits'', map_option guest_limits_json (go_requested_limits o1)),
        (''authorizedBefore'', map_option JBool (go_authorized_before o1)),
        (''authorizedAfter'', map_option JBool (go_authorized_after o1)),
        (''verified'', map_option JBool (go_verified o1)),
        (''readbackError'', map_option JStr (go_readback_error o1)),
        (''readbackErrorInContent'', map_option JBool (go_readback_error_in_content o1)),
        (''grantedAuthorization'', map_option guest_authorization_json (go_granted o1)),
        (''revokedAuthorization'', map_option guest_authorization_json (go_revoked o1)),
        (''observedAuthorization'', map_option guest_authorization_json (go_observed o1)),
        (''warnings'', warnings_field (go_warnings o1))])"

definition planned_guest_output ::
  "string \<Rightarrow> string \<Rightarrow> guest_authorization_limits option \<Rightarrow> string \<Rightarrow> guests_output" where
  "planned_guest_output address action limits warning =
     \<lparr>go_client = address, go_action = action, go_applied = False, go_response_status = None,
      go_response_body = None, go_response_body_in_content = None, go_requested_limits = limits,
      go_authorized_before = None, go_authorized_after = None, go_verified = None,
      go_readback_error = None, go_readback_error_in_content = None, go_granted = None,
      go_revoked = None, go_observed = None, go_warnings = [warning]\<rparr>"

text \<open>
  \<open>structured_with_mutation_readback_error\<close>: the body moves first, then the error of the read-back,
  whose text is taken from the error itself.
\<close>

definition structured_with_mutation_readback_error ::
  "('e, 'x) tool_runtime_scheme \<Rightarrow> api_error option \<Rightarrow> json \<Rightarrow> call_result" where
  "structured_with_mutation_readback_error rt upstream_error v0 =
     (let (v, content) = spill_text rt (''responseBody'', ''responseBodyInContent'') (v0, [])
      in case (upstream_error, v) of
           (Some err, JObj m) \<Rightarrow>
             (if exceeds rt v \<and> get ''readbackError'' m \<noteq> None
              then \<lparr>structured_content =
                      JObj (map_insert ''readbackErrorInContent'' (JBool True) (map_remove ''readbackError'' m)),
                    extra_content = content @ [text_block ''readbackError'' (render err)]\<rparr>
              else \<lparr>structured_content = v, extra_content = content\<rparr>)
         | _ \<Rightarrow> \<lparr>structured_content = v, extra_content = content\<rparr>)"

section \<open>The tools\<close>

definition CLIENT_SCAN_CEILING :: u64 where
  "CLIENT_SCAN_CEILING = 1000"

definition guest_client_address :: "string \<Rightarrow> mcp_error + string" where
  "guest_client_address raw =
     (let client = normalize_mac raw
      in if is_client_address client then Inr client
         else Inl (InvalidParams (''client must be the unicast MAC address of one client, such as '' @
                ''aa:bb:cc:dd:ee:ff, as clients.search reports it'')))"

definition guest_limits :: "guest_authorization_limits \<Rightarrow> mcp_error + guest_authorization_limits" where
  "guest_limits limits =
     (if outside 1 1000000 (time_limit_minutes limits) \<or> outside 1 1048576 (data_usage_limit_m_bytes limits)
         \<or> outside 2 100000 (rx_rate_limit_kbps limits) \<or> outside 2 100000 (tx_rate_limit_kbps limits)
      then Inl (InvalidParams (''timeLimitMinutes must be 1-1000000, dataUsageLimitMBytes 1-1048576, '' @
             ''and rate limits 2-100000 Kbps''))
      else Inr limits)"

definition has_address :: "string \<Rightarrow> string option \<Rightarrow> bool" where
  "has_address mac reported \<longleftrightarrow> map_option normalize_mac reported = Some mac"

definition integration_client_id ::
  "client_summary page decoder \<Rightarrow> ('e, 'x) tool_runtime_scheme \<Rightarrow> string \<Rightarrow> string \<Rightarrow> ('e, string) tool" where
  "integration_client_id dec rt site mac =
     bind_io (paged_gather 0 CLIENT_SCAN_CEILING (\<lambda>offset. clients dec (integration rt) site (page_at offset)))
       (\<lambda>(found, truncated).
         return_io
           (case List.find (\<lambda>client. has_address mac (cs_mac_address client)) found of
              Some summary \<Rightarrow> Inr (cs_id summary)
            | None \<Rightarrow>
                Inl (InvalidParams
                  (if truncated
                   then ''no client with that address was found, and the client '' @
                        ''scan stopped at its ceiling, so the address may exist '' @
                        ''beyond it; nothing was authorized''
                   else ''no client with that address is known to the '' @
                        ''controller; clients.search lists them''))))"

definition guest_validation_error :: "bounded_message \<Rightarrow> string \<Rightarrow> api_error" where
  "guest_validation_error response diagnostic = DecodeResponse response (bounded_new diagnostic)"

definition same_client :: "string \<Rightarrow> string \<Rightarrow> client_detail_record \<Rightarrow> bool" where
  "same_client client_id mac detail \<longleftrightarrow> cd_id detail = client_id \<and> has_address mac (cd_mac_address detail)"

definition checked_guest ::
  "string \<Rightarrow> string \<Rightarrow> client_detail_record \<times> bounded_message \<Rightarrow> mcp_error + client_detail_record" where
  "checked_guest client_id mac = (\<lambda>(detail, response).
     if \<not> same_client client_id mac detail
     then Inl (mcp_api_error (guest_validation_error response ''controller returned a different connected client''))
     else
       (case cd_access detail of
          Some access \<Rightarrow>
            (if ca_kind access = ''GUEST'' \<and> ca_authorized access \<noteq> None then Inr detail
             else if ca_kind access \<noteq> ''GUEST''
             then Inl (InvalidParams (''controller response: '' @ as_str response @
                    ''; validation error: the selected client is not on guest access''))
             else Inl (mcp_api_error (guest_validation_error response
                    ''controller did not report guest authorization state'')))
        | None \<Rightarrow>
            Inl (mcp_api_error (guest_validation_error response
              ''controller did not report guest authorization state''))))"

definition guest_detail ::
  "client_detail_record decoder \<Rightarrow> ('e, 'x) tool_runtime_scheme \<Rightarrow> string \<Rightarrow> string \<Rightarrow> string
     \<Rightarrow> ('e, client_detail_record) tool" where
  "guest_detail dec rt site client_id mac =
     bind_io (upstream (client_detail_with_response dec (integration rt) site client_id))
       (\<lambda>served. return_io (checked_guest client_id mac served))"

text \<open>The six members of a grant that the read-back compares.\<close>

definition same_grant :: "guest_authorization \<Rightarrow> guest_authorization \<Rightarrow> bool" where
  "same_grant observed grant \<longleftrightarrow>
     ga_authorized_at observed = ga_authorized_at grant \<and> ga_expires_at observed = ga_expires_at grant
     \<and> ga_authorization_method observed = ga_authorization_method grant
     \<and> ga_data_usage_limit_m_bytes observed = ga_data_usage_limit_m_bytes grant
     \<and> ga_rx_rate_limit_kbps observed = ga_rx_rate_limit_kbps grant
     \<and> ga_tx_rate_limit_kbps observed = ga_tx_rate_limit_kbps grant"

definition confirms :: "guest_authorization option \<Rightarrow> client_access \<Rightarrow> bool \<Rightarrow> bool" where
  "confirms grant access authorized =
     (case grant of
        None \<Rightarrow> \<not> authorized
      | Some g \<Rightarrow>
          authorized \<and> (case ca_authorization access of None \<Rightarrow> False | Some observed \<Rightarrow> same_grant observed g))"

definition observe_access ::
  "guest_authorization option \<Rightarrow> client_detail_record \<Rightarrow> guests_output \<Rightarrow> guests_output" where
  "observe_access grant detail output =
     (case cd_access detail of
        None \<Rightarrow> output
      | Some access \<Rightarrow>
          (if ca_kind access = ''GUEST''
           then output\<lparr>go_authorized_after := ca_authorized access, go_observed := ca_authorization access,
                  go_verified := map_option (confirms grant access) (ca_authorized access)\<rparr>
           else output))"

definition unverified_guest :: string where
  "unverified_guest = ''the action response was returned, but the current guest state was not verified''"

definition warn_guest :: "string \<Rightarrow> guests_output \<Rightarrow> guests_output" where
  "warn_guest warning output = output\<lparr>go_warnings := go_warnings output @ [warning]\<rparr>"

definition failed_guest :: "api_error \<Rightarrow> guests_output \<Rightarrow> guests_output \<times> api_error option" where
  "failed_guest err output = (output\<lparr>go_readback_error := Some (render err)\<rparr>, Some err)"

text \<open>The match of \<open>guest_readback\<close> on what the timed read gave, and the warning after it.\<close>

definition guest_observation ::
  "string \<Rightarrow> string \<Rightarrow> guest_authorization option \<Rightarrow> (api_error + client_detail_record \<times> bounded_message) timed
     \<Rightarrow> guests_output \<Rightarrow> guests_output \<times> api_error option" where
  "guest_observation client_id mac grant outcome output =
     (case outcome of
        Finished (Inr (detail, response)) \<Rightarrow>
          (if same_client client_id mac detail
           then (let output = observe_access grant detail output
                 in if go_verified output \<noteq> Some True
                    then map_prod (warn_guest unverified_guest) id
                           (failed_guest (guest_validation_error response
                              ''controller guest readback did not confirm the action'') output)
                    else (output, None))
           else failed_guest (guest_validation_error response
                  ''controller guest readback returned a different connected client'') output)
      | Finished (Inl err) \<Rightarrow> failed_guest err output
      | TimedOut \<Rightarrow> (warn_guest ''guest readback timed out'' output, None)
      | Skipped \<Rightarrow> (warn_guest ''guest readback skipped because the request deadline was near'' output, None))"

definition guest_verdict ::
  "string \<Rightarrow> string \<Rightarrow> guest_authorization option \<Rightarrow> (api_error + client_detail_record \<times> bounded_message) timed
     \<Rightarrow> guests_output \<Rightarrow> guests_output \<times> api_error option" where
  "guest_verdict client_id mac grant outcome output =
     (case guest_observation client_id mac grant outcome output of
        (output, err) \<Rightarrow>
          (if go_verified output \<noteq> Some True \<and> err = None then warn_guest unverified_guest output else output, err))"

definition guest_readback ::
  "client_detail_record decoder \<Rightarrow> ('e, 'x) tool_runtime_scheme \<Rightarrow> string \<Rightarrow> string \<Rightarrow> string \<Rightarrow> instant
     \<Rightarrow> guest_authorization option \<Rightarrow> guests_output \<Rightarrow> ('e, guests_output \<times> api_error option) tool" where
  "guest_readback dec rt site client_id mac started grant output s =
     (case timed_readback rt started
             (on_world (client_detail_with_response dec (integration rt) site client_id)) s of
        (outcome, s') \<Rightarrow> (Inr (guest_verdict client_id mac grant outcome output), s'))"

definition accepted_guest ::
  "('e, 'x) tool_runtime_scheme \<Rightarrow> client_detail_record \<Rightarrow> guest_authorization guest_action_response \<Rightarrow> nat \<Rightarrow> bytes
     \<Rightarrow> guests_output \<Rightarrow> guests_output" where
  "accepted_guest rt before result status body output =
     output\<lparr>go_authorized_before := Option.bind (cd_access before) ca_authorized, go_applied := True,
       go_response_status := Some status,
       go_response_body := Some (as_str (from_controller_bytes (ext_b64 (integration rt)) body)),
       go_revoked := revoked_authorization result\<rparr>"

record guest_decoders =
  gd_clients :: "client_summary page decoder"
  gd_detail :: "client_detail_record decoder"
  gd_action :: "guest_authorization guest_action_response decoder"

definition guests_authorize_outcome ::
  "(json \<Rightarrow> string + guests_authorize_input) \<Rightarrow> guest_decoders \<Rightarrow> ('e, 'x) tool_runtime_scheme \<Rightarrow> params
     \<Rightarrow> ('e, guests_output \<times> api_error option) tool" where
  "guests_authorize_outcome from_value dec rt ps s0 =
     bind_io (return_io (parse from_value ps)) (\<lambda>input.
     bind_io (return_io (guest_client_address (gi_client input))) (\<lambda>client.
     bind_io (return_io (guest_limits (gi_limits input))) (\<lambda>limits.
       let started = instant_now rt s0;
           output = planned_guest_output client ''authorize'' (Some (gi_limits input))
             ''authorization replaces any active guest grant and resets guest traffic counters''
       in if gi_confirm input \<noteq> Some True then return_io (Inr (output, None))
          else
            bind_io (resolve_site rt) (\<lambda>site.
            bind_io (integration_client_id (gd_clients dec) rt site client) (\<lambda>client_id.
            bind_io (guest_detail (gd_detail dec) rt site client_id client) (\<lambda>before.
            bind_io (upstream (authorize_guest (gd_action dec) (integration rt) site client_id limits))
              (\<lambda>(result, status, body).
            bind_io (expect ''validated action response'' (granted_authorization result)) (\<lambda>grant.
              guest_readback (gd_detail dec) rt site client_id client started (Some grant)
                ((accepted_guest rt before result status body output)\<lparr>go_granted := Some grant\<rparr>))))))))) s0"

definition guests_unauthorize_outcome ::
  "(json \<Rightarrow> string + guests_unauthorize_input) \<Rightarrow> guest_decoders \<Rightarrow> ('e, 'x) tool_runtime_scheme \<Rightarrow> params
     \<Rightarrow> ('e, guests_output \<times> api_error option) tool" where
  "guests_unauthorize_outcome from_value dec rt ps s0 =
     bind_io (return_io (parse from_value ps)) (\<lambda>input.
     bind_io (return_io (guest_client_address (gx_client input))) (\<lambda>client.
       let started = instant_now rt s0;
           output = planned_guest_output client ''unauthorize'' None
             ''unauthorizing a guest also disconnects the client''
       in if gx_confirm input \<noteq> Some True then return_io (Inr (output, None))
          else
            bind_io (resolve_site rt) (\<lambda>site.
            bind_io (integration_client_id (gd_clients dec) rt site client) (\<lambda>client_id.
            bind_io (guest_detail (gd_detail dec) rt site client_id client) (\<lambda>before.
            bind_io (upstream (unauthorize_guest (gd_action dec) (integration rt) site client_id))
              (\<lambda>(result, status, body).
                guest_readback (gd_detail dec) rt site client_id client started None
                  (accepted_guest rt before result status body output))))))) s0"

definition guest_result :: "('e, 'x) tool_runtime_scheme \<Rightarrow> guests_output \<times> api_error option \<Rightarrow> call_result" where
  "guest_result rt = (\<lambda>(output, err).
     if go_applied output then structured_with_mutation_readback_error rt err (guests_output_json output)
     else structured (guests_output_json output))"

definition guests_authorize where
  "guests_authorize from_value dec rt ps =
     map_io (guest_result rt) (guests_authorize_outcome from_value dec rt ps)"

definition guests_unauthorize where
  "guests_unauthorize from_value dec rt ps =
     map_io (guest_result rt) (guests_unauthorize_outcome from_value dec rt ps)"

definition guest_status_json :: "string \<Rightarrow> bool \<Rightarrow> guest_authorization option \<Rightarrow> json" where
  "guest_status_json address authorized a =
     JObj (set_fields
       [(''client'', Some (JStr address)), (''authorized'', Some (JBool authorized)),
        (''authorization'', map_option guest_authorization_json a)])"

definition guests_status ::
  "(json \<Rightarrow> string + string) \<Rightarrow> guest_decoders \<Rightarrow> ('e, 'x) tool_runtime_scheme \<Rightarrow> params \<Rightarrow> ('e, call_result) tool" where
  "guests_status from_value dec rt ps =
     bind_io (return_io (parse from_value ps)) (\<lambda>raw.
     bind_io (return_io (guest_client_address raw)) (\<lambda>client.
     bind_io (resolve_site rt) (\<lambda>site.
     bind_io (integration_client_id (gd_clients dec) rt site client) (\<lambda>client_id.
     bind_io (guest_detail (gd_detail dec) rt site client_id client) (\<lambda>detail.
     bind_io (expect ''validated guest detail'' (cd_access detail)) (\<lambda>access.
     bind_io (expect ''validated guest authorization state'' (ca_authorized access)) (\<lambda>authorized.
       return_io (Inr (structured (guest_status_json client authorized (ca_authorization access)))))))))))"

section \<open>Writes and panics\<close>

lemma integration_client_id_reads: "writes_within 0 (integration_client_id dec rt site mac)"
  unfolding integration_client_id_def
  by (intro writes_within_read_bind paged_gather_reads io_bounds writes_within_prod writes_within_return_any)

lemma guest_detail_reads: "writes_within 0 (guest_detail dec rt site client_id mac)"
  unfolding guest_detail_def by (intro client_read_steps writes_within_return_any)

lemma guest_readback_reads: "writes_within 0 (guest_readback dec rt site client_id mac started grant output)"
  by (rule writes_withinI, unfold guest_readback_def, rule writes_withinD)
    (intro writes_within_timed_tail world_reads)

lemmas guest_steps =
  handler_rules client_read_steps client_write_steps expect_reads [THEN writes_within_read_bind]
  integration_client_id_reads [THEN writes_within_read_bind] guest_detail_reads [THEN writes_within_read_bind]
  guest_readback_reads

lemma guests_authorize_writes: "writes_within 1 (guests_authorize_outcome from_value dec rt ps)"
  by (rule writes_withinI, unfold guests_authorize_outcome_def, rule writes_withinD) (intro guest_steps)

lemma guests_unauthorize_writes: "writes_within 1 (guests_unauthorize_outcome from_value dec rt ps)"
  by (rule writes_withinI, unfold guests_unauthorize_outcome_def, rule writes_withinD) (intro guest_steps)

lemma guests_authorize_preview:
  assumes "parse from_value ps = Inr input" and "gi_confirm input \<noteq> Some True"
  shows "writes_within 0 (guests_authorize_outcome from_value dec rt ps)"
  by (rule writes_withinI, unfold guests_authorize_outcome_def, rule writes_withinD)
    (intro handler_rules; use assms in simp)

lemma guests_unauthorize_preview:
  assumes "parse from_value ps = Inr input" and "gx_confirm input \<noteq> Some True"
  shows "writes_within 0 (guests_unauthorize_outcome from_value dec rt ps)"
  by (rule writes_withinI, unfold guests_unauthorize_outcome_def, rule writes_withinD)
    (intro handler_rules; use assms in simp)

text \<open>The \<open>expect\<close>s are never reached with nothing: the clients have checked what they unwrap.\<close>

lemma checked_guest_Inr:
  "checked_guest client_id mac (detail, response) = Inr d \<longleftrightarrow>
     d = detail \<and> same_client client_id mac detail
     \<and> (\<exists>access b. cd_access detail = Some access \<and> ca_kind access = ''GUEST'' \<and> ca_authorized access = Some b)"
  by (auto simp: checked_guest_def split: option.splits if_splits)

lemma guest_detail_never_panics:
  assumes "fst (guest_detail dec rt site client_id mac s) = Inr d"
  shows "same_client client_id mac d"
    and "\<exists>access b. cd_access d = Some access \<and> ca_kind access = ''GUEST'' \<and> ca_authorized access = Some b"
  using assms by (auto simp: guest_detail_def fst_bind_io checked_guest_Inr split: sum.splits)

lemma authorize_guest_never_panics:
  assumes "fst (authorize_guest dec ic site client_id limits w) = Inr (result, status, body)"
  shows "granted_authorization result \<noteq> None"
  using assms by (auto simp: authorize_guest_def fst_bind_io split: sum.splits prod.splits if_splits)

section \<open>What the tools report\<close>

lemma guest_client_address_Inr:
  "guest_client_address raw = Inr a \<longleftrightarrow> a = normalize_mac raw \<and> is_client_address (normalize_mac raw)"
  by (auto simp: guest_client_address_def Let_def)

lemma guest_limits_Inr: "guest_limits l = Inr l' \<longleftrightarrow> l' = l \<and> limits_in_range l"
  by (auto simp: guest_limits_def outside_iff limits_in_range_def)

lemma same_grant_iff: "same_grant observed grant \<longleftrightarrow> observed\<lparr>ga_usage := ga_usage grant\<rparr> = grant"
  by (cases observed; cases grant) (auto simp: same_grant_def)

lemma guest_verdict_verified:
  assumes "guest_verdict client_id mac grant outcome output = (out, err)"
    and "go_verified output = None" and "go_verified out = Some True"
  obtains detail response access b where
    "outcome = Finished (Inr (detail, response))" "same_client client_id mac detail"
    "cd_access detail = Some access" "ca_kind access = ''GUEST''" "ca_authorized access = Some b"
    "confirms grant access b" "err = None"
    "out = output\<lparr>go_authorized_after := Some b, go_observed := ca_authorization access, go_verified := Some True\<rparr>"
proof (cases "\<exists>detail response. outcome = Finished (Inr (detail, response)) \<and> same_client client_id mac detail")
  case False
  then have "go_verified (fst (guest_observation client_id mac grant outcome output)) = None"
    using assms(2)
    by (auto simp: guest_observation_def failed_guest_def warn_guest_def split: timed.splits sum.splits)
  with assms(1,3) show ?thesis by (auto simp: guest_verdict_def warn_guest_def split: prod.splits if_splits)
next
  case True
  then obtain detail response where
    served: "outcome = Finished (Inr (detail, response))" "same_client client_id mac detail" by blast
  let ?seen = "observe_access grant detail output"
  from served assms(1,3) have verified: "go_verified ?seen = Some True" and out: "out = ?seen" "err = None"
    by (auto simp: guest_verdict_def guest_observation_def failed_guest_def warn_guest_def Let_def split: if_splits)
  from verified assms(2) obtain access b where
    "cd_access detail = Some access" "ca_kind access = ''GUEST''" "ca_authorized access = Some b" "confirms grant access b"
    by (auto simp: observe_access_def split: option.splits if_splits)
  with served out that show ?thesis by (simp add: observe_access_def)
qed

text \<open>What a read-back says that is reported as verified, in the state \<open>s\<close> the action left.\<close>

definition shown_guest ::
  "client_detail_record decoder \<Rightarrow> ('e, 'x) tool_runtime_scheme \<Rightarrow> string \<Rightarrow> string \<Rightarrow> string \<Rightarrow> 'e tool_state
     \<Rightarrow> client_access \<Rightarrow> bool" where
  "shown_guest dec rt site client_id mac s access \<longleftrightarrow>
     (\<exists>detail response.
        fst (on_world (client_detail_with_response dec (integration rt) site client_id) s) = Inr (detail, response)
        \<and> cd_id detail = client_id \<and> map_option normalize_mac (cd_mac_address detail) = Some mac
        \<and> cd_access detail = Some access \<and> ca_kind access = ''GUEST'')"

lemma guest_readback_verified:
  assumes "fst (guest_readback dec rt site client_id mac started grant output s) = Inr (out, err)"
    and "go_verified output = None" and "go_verified out = Some True"
  obtains access b where "shown_guest dec rt site client_id mac s access" "ca_authorized access = Some b"
    "confirms grant access b" "err = None"
    "out = output\<lparr>go_authorized_after := Some b, go_observed := ca_authorization access, go_verified := Some True\<rparr>"
proof -
  obtain outcome s' where tr: "timed_readback rt started
      (on_world (client_detail_with_response dec (integration rt) site client_id)) s = (outcome, s')"
    by (rule that [OF prod.collapse [symmetric]])
  with assms(1) have "guest_verdict client_id mac grant outcome output = (out, err)"
    by (simp add: guest_readback_def)
  from this assms(2,3) obtain detail response access b where
    fin: "outcome = Finished (Inr (detail, response))" and same: "same_client client_id mac detail"
    and access: "cd_access detail = Some access" "ca_kind access = ''GUEST''"
    and rest: "ca_authorized access = Some b" "confirms grant access b" "err = None"
      "out = output\<lparr>go_authorized_after := Some b, go_observed := ca_authorization access, go_verified := Some True\<rparr>"
    by (rule guest_verdict_verified)
  from same access timed_readback_Finished [OF tr [unfolded fin]]
  have "shown_guest dec rt site client_id mac s access"
    by (auto simp: shown_guest_def same_client_def has_address_def)
  with rest that show ?thesis by blast
qed

lemma planned_guest_unverified [simp]:
  "go_verified (planned_guest_output a b c d) = None"
  "go_verified (accepted_guest rt before result status body out) = go_verified out"
  by (simp_all add: planned_guest_output_def accepted_guest_def)

lemma expect_Inr: "fst (expect message o1 s) = Inr x \<longleftrightarrow> o1 = Some x"
  by (simp add: expect_def split: option.split)

text \<open>
  Against a site of at most the ceiling of clients, the id comes from the whole collection, and a
  missing address is reported as missing rather than as beyond the scan.
\<close>

lemma client_scan_is_complete:
  assumes "serves_rows (\<lambda>offset. clients dec (integration rt) site (page_at offset)) rows" and "length rows \<le> 1000"
  shows "fst (integration_client_id dec rt site mac s) =
     (case List.find (\<lambda>summary. has_address mac (cs_mac_address summary)) rows of
        Some summary \<Rightarrow> Inr (cs_id summary)
      | None \<Rightarrow> Inl (InvalidParams (''no client with that address is known to the '' @
                   ''controller; clients.search lists them'')))"
proof -
  obtain found truncated s' where
    run: "paged_gather 0 CLIENT_SCAN_CEILING (\<lambda>offset. clients dec (integration rt) site (page_at offset)) s
            = (Inr (found, truncated), s')"
    and out: "gathered 0 1000 rows (found, truncated)"
    using paged_gather_serves [OF assms(1), of 0 CLIENT_SCAN_CEILING s] assms(2)
    by (auto simp: CLIENT_SCAN_CEILING_def)
  from out assms(2) have "\<not> truncated" "found = rows" by (auto simp: gathered_def)
  with run show ?thesis by (simp add: integration_client_id_def bind_io_def split: option.split)
qed

lemma guests_authorize_verified:
  assumes "fst (guests_authorize_outcome from_value dec rt ps s) = Inr (out, err)" and "go_verified out = Some True"
  obtains input site s0 client_id s1 result status body s2 grant before where
    "parse from_value ps = Inr input" "gi_confirm input = Some True"
    "is_client_address (normalize_mac (gi_client input))" "limits_in_range (gi_limits input)"
    "fst (integration_client_id (gd_clients dec) rt site (normalize_mac (gi_client input)) s0) = Inr client_id"
    "upstream (authorize_guest (gd_action dec) (integration rt) site client_id (gi_limits input)) s1
       = (Inr (result, status, body), s2)"
    "granted_authorization result = Some grant"
    "fst (guest_readback (gd_detail dec) rt site client_id (normalize_mac (gi_client input)) (instant_now rt s)
       (Some grant) ((accepted_guest rt before result status body
          (planned_guest_output (normalize_mac (gi_client input)) ''authorize'' (Some (gi_limits input))
             ''authorization replaces any active guest grant and resets guest traffic counters''))
          \<lparr>go_granted := Some grant\<rparr>) s2) = Inr (out, err)"
proof -
  from assms(1) obtain input where input: "parse from_value ps = Inr input"
    and address: "is_client_address (normalize_mac (gi_client input))" and limits: "limits_in_range (gi_limits input)"
    by (auto simp: guests_authorize_outcome_def fst_bind_io_Inr guest_client_address_Inr guest_limits_Inr)
  then have checked: "guest_client_address (gi_client input) = Inr (normalize_mac (gi_client input))"
    "guest_limits (gi_limits input) = Inr (gi_limits input)"
    by (simp_all add: guest_client_address_Inr guest_limits_Inr)
  have confirmed: "gi_confirm input = Some True"
    using assms by (cases "gi_confirm input = Some True")
      (auto simp: guests_authorize_outcome_def fst_bind_io_Inr input checked Let_def)
  with assms(1) obtain site s0 client_id s0' before s1 result status body s2 grant s3 where
    found: "integration_client_id (gd_clients dec) rt site (normalize_mac (gi_client input)) s0 = (Inr client_id, s0')"
    and sent: "upstream (authorize_guest (gd_action dec) (integration rt) site client_id (gi_limits input)) s1
       = (Inr (result, status, body), s2)"
    and granted: "expect ''validated action response'' (granted_authorization result) s2 = (Inr grant, s3)"
    and reread: "fst (guest_readback (gd_detail dec) rt site client_id (normalize_mac (gi_client input)) (instant_now rt s)
       (Some grant) ((accepted_guest rt before result status body
          (planned_guest_output (normalize_mac (gi_client input)) ''authorize'' (Some (gi_limits input))
             ''authorization replaces any active guest grant and resets guest traffic counters''))
          \<lparr>go_granted := Some grant\<rparr>) s3) = Inr (out, err)"
    by (auto simp: guests_authorize_outcome_def fst_bind_io_Inr input checked Let_def)
  from granted have g: "granted_authorization result = Some grant" "s3 = s2"
    by (simp_all add: expect_def split: option.splits)
  from that [OF input confirmed address limits arg_cong [OF found, of fst, unfolded fst_conv] sent g(1)
      reread [unfolded g(2)]] show ?thesis .
qed

lemma guests_unauthorize_verified:
  assumes "fst (guests_unauthorize_outcome from_value dec rt ps s) = Inr (out, err)" and "go_verified out = Some True"
  obtains input site s0 client_id s1 result status body s2 before where
    "parse from_value ps = Inr input" "gx_confirm input = Some True"
    "is_client_address (normalize_mac (gx_client input))"
    "fst (integration_client_id (gd_clients dec) rt site (normalize_mac (gx_client input)) s0) = Inr client_id"
    "upstream (unauthorize_guest (gd_action dec) (integration rt) site client_id) s1 = (Inr (result, status, body), s2)"
    "fst (guest_readback (gd_detail dec) rt site client_id (normalize_mac (gx_client input)) (instant_now rt s)
       None (accepted_guest rt before result status body
          (planned_guest_output (normalize_mac (gx_client input)) ''unauthorize'' None
             ''unauthorizing a guest also disconnects the client'')) s2) = Inr (out, err)"
proof -
  from assms(1) obtain input where input: "parse from_value ps = Inr input"
    and address: "is_client_address (normalize_mac (gx_client input))"
    by (auto simp: guests_unauthorize_outcome_def fst_bind_io_Inr guest_client_address_Inr)
  then have checked: "guest_client_address (gx_client input) = Inr (normalize_mac (gx_client input))"
    by (simp add: guest_client_address_Inr)
  have confirmed: "gx_confirm input = Some True"
    using assms by (cases "gx_confirm input = Some True")
      (auto simp: guests_unauthorize_outcome_def fst_bind_io_Inr input checked Let_def)
  with assms(1) obtain site s0 client_id s0' before s1 result status body s2 where
    found: "integration_client_id (gd_clients dec) rt site (normalize_mac (gx_client input)) s0 = (Inr client_id, s0')"
    and sent: "upstream (unauthorize_guest (gd_action dec) (integration rt) site client_id) s1
       = (Inr (result, status, body), s2)"
    and reread: "fst (guest_readback (gd_detail dec) rt site client_id (normalize_mac (gx_client input)) (instant_now rt s)
       None (accepted_guest rt before result status body
          (planned_guest_output (normalize_mac (gx_client input)) ''unauthorize'' None
             ''unauthorizing a guest also disconnects the client'')) s2) = Inr (out, err)"
    by (auto simp: guests_unauthorize_outcome_def fst_bind_io_Inr input checked Let_def)
  from that [OF input confirmed address arg_cong [OF found, of fst, unfolded fst_conv] sent reread] show ?thesis .
qed

text \<open>
  C12. A guest tool reports its action as verified only when the controller was asked for it,
  answered, and a later read of the same client shows the outcome. The call was confirmed and names
  a unicast client address; the controller's client list gave the id of the client with that
  address; the action was sent for this id and accepted; and the next read, of this id, gave a
  record of this id and address on guest access. After an authorization, whose limits were inside
  the documented ranges, the grant reported is the one the controller issued in its answer to the
  action, and the record shows the client authorized under exactly this grant (usage counters
  apart). After an unauthorization, the record shows the client as not authorized. What the output
  reports as observed is what this record says.
\<close>

theorem verified_guest_action:
  "(fst (guests_authorize_outcome fva dec rt ps s) = Inr (out, err) \<and> go_verified out = Some True \<longrightarrow>
      (\<exists>input site s0 client_id s1 result status body s2 access grant observed.
         parse fva ps = Inr input \<and> gi_confirm input = Some True
         \<and> go_client out = normalize_mac (gi_client input) \<and> is_client_address (go_client out)
         \<and> limits_in_range (gi_limits input) \<and> go_requested_limits out = Some (gi_limits input)
         \<and> fst (integration_client_id (gd_clients dec) rt site (go_client out) s0) = Inr client_id
         \<and> upstream (authorize_guest (gd_action dec) (integration rt) site client_id (gi_limits input)) s1
             = (Inr (result, status, body), s2)
         \<and> granted_authorization result = Some grant \<and> go_granted out = Some grant
         \<and> shown_guest (gd_detail dec) rt site client_id (go_client out) s2 access
         \<and> ca_authorized access = Some True \<and> go_authorized_after out = Some True
         \<and> ca_authorization access = Some observed \<and> go_observed out = Some observed
         \<and> observed\<lparr>ga_usage := ga_usage grant\<rparr> = grant
         \<and> go_action out = ''authorize'' \<and> go_applied out \<and> err = None))
   \<and> (fst (guests_unauthorize_outcome fvu dec rt ps s) = Inr (out, err) \<and> go_verified out = Some True \<longrightarrow>
      (\<exists>input site s0 client_id s1 result status body s2 access.
         parse fvu ps = Inr input \<and> gx_confirm input = Some True
         \<and> go_client out = normalize_mac (gx_client input) \<and> is_client_address (go_client out)
         \<and> fst (integration_client_id (gd_clients dec) rt site (go_client out) s0) = Inr client_id
         \<and> upstream (unauthorize_guest (gd_action dec) (integration rt) site client_id) s1
             = (Inr (result, status, body), s2)
         \<and> shown_guest (gd_detail dec) rt site client_id (go_client out) s2 access
         \<and> ca_authorized access = Some False \<and> go_authorized_after out = Some False
         \<and> go_observed out = ca_authorization access
         \<and> go_action out = ''unauthorize'' \<and> go_applied out \<and> err = None))"
proof (intro conjI impI; elim conjE)
  assume run: "fst (guests_authorize_outcome fva dec rt ps s) = Inr (out, err)" and ok: "go_verified out = Some True"
  from guests_authorize_verified [OF run ok] obtain input site s0 client_id s1 result status body s2 grant before where
    w: "parse fva ps = Inr input" "gi_confirm input = Some True"
    "is_client_address (normalize_mac (gi_client input))" "limits_in_range (gi_limits input)"
    "fst (integration_client_id (gd_clients dec) rt site (normalize_mac (gi_client input)) s0) = Inr client_id"
    "upstream (authorize_guest (gd_action dec) (integration rt) site client_id (gi_limits input)) s1
       = (Inr (result, status, body), s2)"
    "granted_authorization result = Some grant"
    and reread: "fst (guest_readback (gd_detail dec) rt site client_id (normalize_mac (gi_client input)) (instant_now rt s)
       (Some grant) ((accepted_guest rt before result status body
          (planned_guest_output (normalize_mac (gi_client input)) ''authorize'' (Some (gi_limits input))
             ''authorization replaces any active guest grant and resets guest traffic counters''))
          \<lparr>go_granted := Some grant\<rparr>) s2) = Inr (out, err)"
    by metis
  from guest_readback_verified [OF reread _ ok] obtain access b where
    shown: "shown_guest (gd_detail dec) rt site client_id (normalize_mac (gi_client input)) s2 access"
    and b: "ca_authorized access = Some b" "confirms (Some grant) access b" "err = None"
    and out: "out = (accepted_guest rt before result status body
        (planned_guest_output (normalize_mac (gi_client input)) ''authorize'' (Some (gi_limits input))
          ''authorization replaces any active guest grant and resets guest traffic counters''))
        \<lparr>go_granted := Some grant, go_authorized_after := Some b, go_observed := ca_authorization access,
         go_verified := Some True\<rparr>"
    by auto
  from b obtain observed where seen: "b" "ca_authorization access = Some observed"
    "observed\<lparr>ga_usage := ga_usage grant\<rparr> = grant"
    by (auto simp: confirms_def same_grant_iff split: option.splits)
  have fields_of_out: "go_client out = normalize_mac (gi_client input)" "go_requested_limits out = Some (gi_limits input)"
    "go_granted out = Some grant" "go_authorized_after out = Some True" "go_observed out = Some observed"
    "go_action out = ''authorize''" "go_applied out"
    using seen unfolding out by (simp_all add: planned_guest_output_def accepted_guest_def)
  show "\<exists>input site s0 client_id s1 result status body s2 access grant observed.
         parse fva ps = Inr input \<and> gi_confirm input = Some True
         \<and> go_client out = normalize_mac (gi_client input) \<and> is_client_address (go_client out)
         \<and> limits_in_range (gi_limits input) \<and> go_requested_limits out = Some (gi_limits input)
         \<and> fst (integration_client_id (gd_clients dec) rt site (go_client out) s0) = Inr client_id
         \<and> upstream (authorize_guest (gd_action dec) (integration rt) site client_id (gi_limits input)) s1
             = (Inr (result, status, body), s2)
         \<and> granted_authorization result = Some grant \<and> go_granted out = Some grant
         \<and> shown_guest (gd_detail dec) rt site client_id (go_client out) s2 access
         \<and> ca_authorized access = Some True \<and> go_authorized_after out = Some True
         \<and> ca_authorization access = Some observed \<and> go_observed out = Some observed
         \<and> observed\<lparr>ga_usage := ga_usage grant\<rparr> = grant
         \<and> go_action out = ''authorize'' \<and> go_applied out \<and> err = None"
    using w shown b(1,3) seen by (simp add: fields_of_out del: split_paired_Ex) blast
next
  assume run: "fst (guests_unauthorize_outcome fvu dec rt ps s) = Inr (out, err)" and ok: "go_verified out = Some True"
  from guests_unauthorize_verified [OF run ok] obtain input site s0 client_id s1 result status body s2 before where
    w: "parse fvu ps = Inr input" "gx_confirm input = Some True"
    "is_client_address (normalize_mac (gx_client input))"
    "fst (integration_client_id (gd_clients dec) rt site (normalize_mac (gx_client input)) s0) = Inr client_id"
    "upstream (unauthorize_guest (gd_action dec) (integration rt) site client_id) s1 = (Inr (result, status, body), s2)"
    and reread: "fst (guest_readback (gd_detail dec) rt site client_id (normalize_mac (gx_client input))
       (instant_now rt s) None (accepted_guest rt before result status body
          (planned_guest_output (normalize_mac (gx_client input)) ''unauthorize'' None
             ''unauthorizing a guest also disconnects the client'')) s2) = Inr (out, err)"
    by metis
  from guest_readback_verified [OF reread _ ok] obtain access b where
    shown: "shown_guest (gd_detail dec) rt site client_id (normalize_mac (gx_client input)) s2 access"
    and b: "ca_authorized access = Some b" "confirms None access b" "err = None"
    and out: "out = (accepted_guest rt before result status body
        (planned_guest_output (normalize_mac (gx_client input)) ''unauthorize'' None
          ''unauthorizing a guest also disconnects the client''))
        \<lparr>go_authorized_after := Some b, go_observed := ca_authorization access, go_verified := Some True\<rparr>"
    by auto
  from b(2) have "\<not> b" by (simp add: confirms_def)
  have fields_of_out: "go_client out = normalize_mac (gx_client input)" "go_authorized_after out = Some False"
    "go_observed out = ca_authorization access" "go_action out = ''unauthorize''" "go_applied out"
    using \<open>\<not> b\<close> unfolding out by (simp_all add: planned_guest_output_def accepted_guest_def)
  show "\<exists>input site s0 client_id s1 result status body s2 access.
         parse fvu ps = Inr input \<and> gx_confirm input = Some True
         \<and> go_client out = normalize_mac (gx_client input) \<and> is_client_address (go_client out)
         \<and> fst (integration_client_id (gd_clients dec) rt site (go_client out) s0) = Inr client_id
         \<and> upstream (unauthorize_guest (gd_action dec) (integration rt) site client_id) s1
             = (Inr (result, status, body), s2)
         \<and> shown_guest (gd_detail dec) rt site client_id (go_client out) s2 access
         \<and> ca_authorized access = Some False \<and> go_authorized_after out = Some False
         \<and> go_observed out = ca_authorization access
         \<and> go_action out = ''unauthorize'' \<and> go_applied out \<and> err = None"
    using w shown b(1,3) \<open>\<not> b\<close> by (simp add: fields_of_out del: split_paired_Ex) blast
qed

text \<open>A console with one guest, which it authorizes with the grant it then reports.\<close>

definition sample_guest_grant :: guest_authorization where
  "sample_guest_grant =
     \<lparr>ga_authorization_method = ''API'', ga_authorized_at = ''t1'', ga_expires_at = ''t2'',
      ga_data_usage_limit_m_bytes = None, ga_rx_rate_limit_kbps = None, ga_tx_rate_limit_kbps = None, ga_usage = None\<rparr>"

definition sample_mac :: string where
  "sample_mac = ''aa:bb:cc:dd:ee:ff''"

definition guest_console :: guest_decoders where
  "guest_console =
     \<lparr>gd_clients = (\<lambda>_. Inr \<lparr>page_offset = 0, page_limit = 200, page_count = 1, total_count = 1,
          page_data = [\<lparr>cs_id = ''c1'', cs_mac_address = Some sample_mac\<rparr>]\<rparr>),
      gd_detail = (\<lambda>_. Inr \<lparr>cd_id = ''c1'', cd_mac_address = Some sample_mac,
          cd_access = Some \<lparr>ca_kind = ''GUEST'', ca_authorized = Some True, ca_authorization = Some sample_guest_grant\<rparr>\<rparr>),
      gd_action = (\<lambda>_. Inr \<lparr>guest_action = ''AUTHORIZE_GUEST_ACCESS'', granted_authorization = Some sample_guest_grant,
          revoked_authorization = None\<rparr>)\<rparr>"

lemma sample_mac_is_client: "is_client_address sample_mac" "normalize_mac sample_mac = sample_mac"
  by code_simp+

theorem verified_guest_action_witness:
  "\<exists>out err. fst (guests_authorize_outcome
       (\<lambda>_. Inr \<lparr>gi_client = sample_mac, gi_limits = sample_limits, gi_confirm = Some True\<rparr>) guest_console
       (sample_runtime empty_ok []) \<lparr>arguments = None\<rparr> sample_state) = Inr (out, err)
     \<and> go_applied out \<and> err = None \<and> (\<exists>g. go_granted out = Some g \<and> go_authorized_after out = Some True)"
proof -
  let ?run = "guests_authorize_outcome
       (\<lambda>_. Inr \<lparr>gi_client = sample_mac, gi_limits = sample_limits, gi_confirm = Some True\<rparr>) guest_console
       (sample_runtime empty_ok []) \<lparr>arguments = None\<rparr> sample_state"
  have "map_ok (go_verified \<circ> fst) (fst ?run) = Inr (Some True)"
    by (simp add: guests_authorize_outcome_def parse_def guest_client_address_def sample_mac_is_client guest_limits_def
        outside_def sample_limits_def guest_console_def integration_client_id_def paged_gather_def gather_loop.simps
        clients_def row_count_def saturating_add64_def checked_add_def has_address_def guest_detail_def client_detail_with_response_def
        get_with_message_def checked_guest_def same_client_def authorize_guest_def validate_guest_limits_def
        post_action_result_def accepted_record_def with_json_def expect_def guest_readback_def guest_verdict_def
        guest_observation_def observe_access_def confirms_def same_grant_def echo_defs)
  then obtain out err where run: "fst ?run = Inr (out, err)" and ok: "go_verified out = Some True"
    by (auto simp: map_ok_def split: sum.splits)
  note verified_guest_action [THEN conjunct1, rule_format, OF conjI [OF run ok]]
  with run show ?thesis by blast
qed

end
