(* ===== verification/Tool_Vouchers.thy ===== *)
theory Tool_Vouchers
  imports Tool_Guests
begin

text \<open>
  The hotspot voucher tools of \<open>crates/unifi-mcp/src/tools.rs\<close>: searching and reading vouchers,
  revoking one or all that match a filter, and creating a batch whose codes are read back one by one
  before a deadline. The theorems say what a verified batch guarantees and what the checks of the
  creation response decide.
\<close>

section \<open>Types\<close>

definition MAXIMUM_VOUCHER_LIMIT :: nat where
  "MAXIMUM_VOUCHER_LIMIT = 1000"

definition voucher_limit :: "nat \<Rightarrow> u32" where
  "voucher_limit requested = of_nat (min requested MAXIMUM_VOUCHER_LIMIT)"

definition MAXIMUM_QUERY_LENGTH :: nat where
  "MAXIMUM_QUERY_LENGTH = 128"

record voucher_row =
  vo_id :: "string option"
  vo_code :: "string option"

record voucher_details =
  vd_id :: string
  vd_code :: string
  vd_name :: string
  vd_created_at :: string
  vd_expired :: bool
  vd_authorized_guest_count :: u64
  vd_time_limit_minutes :: u32
  vd_activated_at :: "string option"
  vd_expires_at :: "string option"
  vd_authorized_guest_limit :: "u64 option"
  vd_data_usage_limit_m_bytes :: "u64 option"
  vd_rx_rate_limit_kbps :: "u64 option"
  vd_tx_rate_limit_kbps :: "u64 option"

definition voucher_read_view_json :: "voucher_details \<Rightarrow> json" where
  "voucher_read_view_json v =
     JObj (set_fields
       [(''id'', Some (JStr (vd_id v))), (''code'', Some (JStr (vd_code v))), (''name'', Some (JStr (vd_name v))),
        (''createdAt'', Some (JStr (vd_created_at v))), (''expired'', Some (JBool (vd_expired v))),
        (''authorizedGuestCount'', Some (word_json (vd_authorized_guest_count v))),
        (''timeLimitMinutes'', Some (word_json (vd_time_limit_minutes v))),
        (''activatedAt'', map_option JStr (vd_activated_at v)),
        (''expiresAt'', map_option JStr (vd_expires_at v)),
        (''authorizedGuestLimit'', map_option word_json (vd_authorized_guest_limit v)),
        (''dataUsageLimitMBytes'', map_option word_json (vd_data_usage_limit_m_bytes v)),
        (''rxRateLimitKbps'', map_option word_json (vd_rx_rate_limit_kbps v)),
        (''txRateLimitKbps'', map_option word_json (vd_tx_rate_limit_kbps v))])"

definition voucher_row_json :: "voucher_row \<Rightarrow> json" where
  "voucher_row_json v =
     JObj (set_fields [(''id'', map_option JStr (vo_id v)), (''code'', map_option JStr (vo_code v))])"

definition voucher_id :: "string \<Rightarrow> mcp_error + string" where
  "voucher_id raw =
     (let rid = trim raw
      in if rid = [] \<or> MAXIMUM_QUERY_LENGTH < length rid
         then Inl (InvalidParams ''voucherId must be a bounded voucher id from vouchers.search'')
         else Inr rid)"

section \<open>Searching and reading\<close>

record vouchers_search_input =
  vs_offset :: u32
  vs_limit :: nat

definition i32_max :: u32 where
  "i32_max = 2147483647"

text \<open>The page is refused when inconsistent, then when it ends before the total without a row.\<close>

definition voucher_page_next ::
  "vouchers_search_input \<Rightarrow> 'a page \<Rightarrow> bounded_message \<Rightarrow> mcp_error + u64 option" where
  "voucher_page_next input pg response =
     (if page_offset pg \<noteq> ucast (vs_offset input) \<or> page_limit pg = 0
         \<or> page_limit pg > ucast (voucher_limit (vs_limit input)) \<or> page_count pg \<noteq> row_count pg
         \<or> page_count pg > page_limit pg
         \<or> saturating_add64 (page_offset pg) (page_count pg) > total_count pg
      then Inl (page_validation_error response ''controller returned an inconsistent voucher page'')
      else
        (let continue = (case checked_add (page_offset pg) (page_count pg) of
                           Some n \<Rightarrow> then_some (n < total_count pg) n
                         | None \<Rightarrow> None)
         in if continue \<noteq> None \<and> page_data pg = []
            then Inl (page_validation_error response ''controller returned an empty incomplete voucher page'')
            else Inr continue))"

definition vouchers_search_json :: "vouchers_search_input \<Rightarrow> voucher_details page \<Rightarrow> u64 option \<Rightarrow> json" where
  "vouchers_search_json input pg continue =
     JObj (set_fields
       [(''pageCounts'',
           Some (JObj (set_fields
             [(''requestedLimit'', Some (jnat (vs_limit input))),
              (''effectiveLimit'', Some (word_json (page_limit pg))),
              (''returned'', Some (jnat (length (page_data pg))))]))),
        (''vouchers'', Some (JArr (map voucher_read_view_json (page_data pg)))),
        (''offset'', Some (word_json (page_offset pg))), (''limit'', Some (word_json (page_limit pg))),
        (''totalCount'', Some (word_json (total_count pg))), (''nextOffset'', map_option word_json continue)])"

definition vouchers_search ::
  "(json \<Rightarrow> string + vouchers_search_input) \<Rightarrow> voucher_details page decoder \<Rightarrow> ('e, 'x) tool_runtime_scheme
     \<Rightarrow> params \<Rightarrow> ('e, call_result) tool" where
  "vouchers_search from_value dec rt ps =
     bind_io (return_io (parse from_value ps)) (\<lambda>input.
       if i32_max < vs_offset input \<or> vs_limit input = 0
       then return_io (Inl (InvalidParams (''offset must fit a nonnegative 32-bit integer and '' @
              ''limit must be positive'')))
       else
         bind_io (resolve_site rt) (\<lambda>site.
         bind_io (upstream (vouchers_with_response dec (integration rt) site
                    \<lparr>req_offset = ucast (vs_offset input), req_limit = voucher_limit (vs_limit input)\<rparr>))
           (\<lambda>(pg, response).
             map_io (\<lambda>continue. structured (vouchers_search_json input pg continue))
               (return_io (voucher_page_next input pg response)))))"

text \<open>Reading one voucher, as \<open>vouchers.status\<close> and the preview of a revocation do.\<close>

definition read_voucher ::
  "voucher_details decoder \<Rightarrow> ('e, 'x) tool_runtime_scheme \<Rightarrow> string \<Rightarrow> string \<Rightarrow> ('e, voucher_details) tool" where
  "read_voucher dec rt site rid =
     bind_io (upstream (voucher_with_response dec (integration rt) site rid)) (\<lambda>(voucher, response).
       return_io (if vd_id voucher \<noteq> rid
                  then Inl (page_validation_error response ''controller returned a different voucher id'')
                  else Inr voucher))"

definition vouchers_status ::
  "(json \<Rightarrow> string + string) \<Rightarrow> voucher_details decoder \<Rightarrow> ('e, 'x) tool_runtime_scheme \<Rightarrow> params
     \<Rightarrow> ('e, call_result) tool" where
  "vouchers_status from_value dec rt ps =
     bind_io (return_io (parse from_value ps)) (\<lambda>raw.
     bind_io (return_io (voucher_id raw)) (\<lambda>rid.
     bind_io (resolve_site rt) (\<lambda>site.
       map_io (\<lambda>voucher. structured (voucher_read_view_json voucher)) (read_voucher dec rt site rid))))"

section \<open>Revoking one voucher\<close>

record voucher_revoke_input =
  vr_voucher_id :: string
  vr_confirm :: bool

record voucher_revoke_output =
  vro_voucher_id :: string
  vro_name :: string
  vro_expired :: bool
  vro_authorized_guest_count :: u64
  vro_applied :: bool
  vro_response_status :: "nat option"
  vro_response_body :: "string option"
  vro_response_body_in_content :: "bool option"
  vro_verified :: "bool option"
  vro_readback_error :: "string option"
  vro_readback_error_in_content :: "bool option"
  vro_warnings :: "string list"

definition voucher_revoke_json :: "voucher_revoke_output \<Rightarrow> json" where
  "voucher_revoke_json o1 =
     JObj (set_fields
       [(''voucherId'', Some (JStr (vro_voucher_id o1))), (''name'', Some (JStr (vro_name o1))),
        (''expired'', Some (JBool (vro_expired o1))),
        (''authorizedGuestCount'', Some (word_json (vro_authorized_guest_count o1))),
        (''applied'', Some (JBool (vro_applied o1))),
        (''responseStatus'', map_option jnat (vro_response_status o1)),
        (''responseBody'', map_option JStr (vro_response_body o1)),
        (''responseBodyInContent'', map_option JBool (vro_response_body_in_content o1)),
        (''verified'', map_option JBool (vro_verified o1)),
        (''readbackError'', map_option JStr (vro_readback_error o1)),
        (''readbackErrorInContent'', map_option JBool (vro_readback_error_in_content o1)),
        (''warnings'', warnings_field (vro_warnings o1))])"

definition voucher_revoke_steps :: "(string \<times> (voucher_revoke_output \<Rightarrow> (string \<times> voucher_revoke_output) option)) list" where
  "voucher_revoke_steps =
     [(''responseBody'', take_text vro_response_body id
         (\<lambda>o1. o1\<lparr>vro_response_body := None, vro_response_body_in_content := Some True\<rparr>)),
      (''readbackError'', take_text vro_readback_error id
         (\<lambda>o1. o1\<lparr>vro_readback_error := None, vro_readback_error_in_content := Some True\<rparr>))]"

definition voucher_revoke_result :: "('e, 'x) tool_runtime_scheme \<Rightarrow> voucher_revoke_output \<Rightarrow> call_result" where
  "voucher_revoke_result rt output = spilled_result rt voucher_revoke_json voucher_revoke_steps output"

interpretation revoke: spill_steps voucher_revoke_steps
  by unfold_locales (auto simp: voucher_revoke_steps_def)

definition voucher_error :: "bounded_message \<Rightarrow> string \<Rightarrow> string" where
  "voucher_error response diagnostic = render (DecodeResponse response (bounded_new diagnostic))"

definition revoke_read_back ::
  "string \<Rightarrow> (api_error + voucher_details \<times> bounded_message) timed \<Rightarrow> voucher_revoke_output \<Rightarrow> voucher_revoke_output" where
  "revoke_read_back rid outcome result =
     (case outcome of
        Skipped \<Rightarrow> result\<lparr>vro_readback_error := Some ''voucher readback skipped near request deadline''\<rparr>
      | TimedOut \<Rightarrow> result\<lparr>vro_readback_error := Some ''voucher readback timed out''\<rparr>
      | Finished (Inl err) \<Rightarrow>
          (if is_not_found err
           then result\<lparr>vro_readback_error := Some (render err), vro_verified := Some True\<rparr>
           else result\<lparr>vro_readback_error := Some (render err)\<rparr>)
      | Finished (Inr (seen, response)) \<Rightarrow>
          (if vd_id seen \<noteq> rid
           then result\<lparr>vro_readback_error :=
                  Some (voucher_error response ''controller voucher readback returned a different id'')\<rparr>
           else result\<lparr>vro_readback_error :=
                  Some (voucher_error response ''controller acknowledged deletion but the voucher still exists''),
                  vro_verified := Some False,
                  vro_warnings := vro_warnings result @ [''controller acknowledged deletion but the voucher still exists'']\<rparr>))"

definition vouchers_revoke_outcome ::
  "(json \<Rightarrow> string + voucher_revoke_input) \<Rightarrow> voucher_details decoder \<Rightarrow> ('e, 'x) tool_runtime_scheme \<Rightarrow> params
     \<Rightarrow> ('e, voucher_revoke_output) tool" where
  "vouchers_revoke_outcome from_value dec rt ps s0 =
     bind_io (return_io (parse from_value ps)) (\<lambda>input.
     bind_io (return_io (voucher_id (vr_voucher_id input))) (\<lambda>rid.
     bind_io (resolve_site rt) (\<lambda>site.
     bind_io (read_voucher dec rt site rid) (\<lambda>voucher.
       let started = instant_now rt s0;
           result =
             \<lparr>vro_voucher_id = vd_id voucher, vro_name = vd_name voucher, vro_expired = vd_expired voucher,
              vro_authorized_guest_count = vd_authorized_guest_count voucher, vro_applied = False,
              vro_response_status = None, vro_response_body = None, vro_response_body_in_content = None,
              vro_verified = None, vro_readback_error = None, vro_readback_error_in_content = None,
              vro_warnings = []\<rparr>
       in if \<not> vr_confirm input then return_io (Inr result)
          else
            bind_io (upstream (delete_voucher (integration rt) site rid)) (\<lambda>(status, body) s.
              case timed_readback rt started
                     (on_world (voucher_with_response dec (integration rt) site rid)) s of
                (outcome, s') \<Rightarrow>
                  (Inr (revoke_read_back rid outcome
                     (result\<lparr>vro_applied := True, vro_response_status := Some status,
                        vro_response_body := Some (as_str (from_controller_bytes (ext_b64 (integration rt)) body))\<rparr>)),
                   s')))))) s0"

definition vouchers_revoke where
  "vouchers_revoke from_value dec rt ps =
     map_io (voucher_revoke_result rt) (vouchers_revoke_outcome from_value dec rt ps)"

section \<open>Revoking by filter\<close>

record revoke_matching_input =
  rm_filter :: string
  rm_preview_offset :: u32
  rm_preview_limit :: nat
  rm_confirm :: bool

record revoke_matching_output =
  rmo_requested_limit :: nat
  rmo_effective_limit :: u64
  rmo_returned :: nat
  rmo_filter :: string
  rmo_matches_before :: u64
  rmo_preview_complete :: bool
  rmo_applied :: bool
  rmo_before_response :: "string option"
  rmo_before_response_in_content :: "bool option"
  rmo_response_status :: "nat option"
  rmo_response_body :: "string option"
  rmo_response_body_in_content :: "bool option"
  rmo_vouchers_deleted :: "nat option"
  rmo_matches_after :: "u64 option"
  rmo_verified_absent :: "bool option"
  rmo_after_response :: "string option"
  rmo_after_response_in_content :: "bool option"
  rmo_readback_error :: "string option"
  rmo_readback_error_in_content :: "bool option"

definition revoke_matching_json :: "revoke_matching_output \<Rightarrow> json" where
  "revoke_matching_json o1 =
     JObj (set_fields
       [(''pageCounts'',
           Some (JObj (set_fields
             [(''requestedLimit'', Some (jnat (rmo_requested_limit o1))),
              (''effectiveLimit'', Some (word_json (rmo_effective_limit o1))),
              (''returned'', Some (jnat (rmo_returned o1)))]))),
        (''filter'', Some (JStr (rmo_filter o1))), (''matchesBefore'', Some (word_json (rmo_matches_before o1))),
        (''previewComplete'', Some (JBool (rmo_preview_complete o1))), (''applied'', Some (JBool (rmo_applied o1))),
        (''beforeResponse'', map_option JStr (rmo_before_response o1)),
        (''beforeResponseInContent'', map_option JBool (rmo_before_response_in_content o1)),
        (''responseStatus'', map_option jnat (rmo_response_status o1)),
        (''responseBody'', map_option JStr (rmo_response_body o1)),
        (''responseBodyInContent'', map_option JBool (rmo_response_body_in_content o1)),
        (''vouchersDeleted'', map_option jnat (rmo_vouchers_deleted o1)),
        (''matchesAfter'', map_option word_json (rmo_matches_after o1)),
        (''verifiedAbsent'', map_option JBool (rmo_verified_absent o1)),
        (''afterResponse'', map_option JStr (rmo_after_response o1)),
        (''afterResponseInContent'', map_option JBool (rmo_after_response_in_content o1)),
        (''readbackError'', map_option JStr (rmo_readback_error o1)),
        (''readbackErrorInContent'', map_option JBool (rmo_readback_error_in_content o1))])"

definition revoke_matching_steps ::
  "(string \<times> (revoke_matching_output \<Rightarrow> (string \<times> revoke_matching_output) option)) list" where
  "revoke_matching_steps =
     [(''beforeResponse'', take_text rmo_before_response id
         (\<lambda>o1. o1\<lparr>rmo_before_response := None, rmo_before_response_in_content := Some True\<rparr>)),
      (''responseBody'', take_text rmo_response_body id
         (\<lambda>o1. o1\<lparr>rmo_response_body := None, rmo_response_body_in_content := Some True\<rparr>)),
      (''afterResponse'', take_text rmo_after_response id
         (\<lambda>o1. o1\<lparr>rmo_after_response := None, rmo_after_response_in_content := Some True\<rparr>)),
      (''readbackError'', take_text rmo_readback_error id
         (\<lambda>o1. o1\<lparr>rmo_readback_error := None, rmo_readback_error_in_content := Some True\<rparr>))]"

text \<open>Unlike the other results, all four texts move once the whole is too large.\<close>

definition move_field ::
  "string \<times> ('o \<Rightarrow> (string \<times> 'o) option) \<Rightarrow> 'o \<times> string list \<Rightarrow> 'o \<times> string list" where
  "move_field = (\<lambda>(label, take_field) (output, content).
     case take_field output of
       None \<Rightarrow> (output, content)
     | Some (text, output) \<Rightarrow> (output, content @ [text_block label text]))"

definition vouchers_revoke_matching_result ::
  "('e, 'x) tool_runtime_scheme \<Rightarrow> revoke_matching_output \<Rightarrow> call_result" where
  "vouchers_revoke_matching_result rt output =
     (if \<not> exceeds rt (revoke_matching_json output) then structured (revoke_matching_json output)
      else case fold move_field revoke_matching_steps (output, []) of
             (output, content) \<Rightarrow> (structured (revoke_matching_json output))\<lparr>extra_content := content\<rparr>)"

definition validate_voucher_records_page ::
  "'a page \<Rightarrow> bounded_message \<Rightarrow> u64 \<Rightarrow> nat \<Rightarrow> mcp_error + unit" where
  "validate_voucher_records_page pg response offset limit =
     (if page_offset pg \<noteq> offset \<or> page_limit pg = 0 \<or> page_limit pg > ucast (voucher_limit limit)
         \<or> page_count pg \<noteq> row_count pg \<or> page_count pg > page_limit pg
         \<or> (page_count pg \<noteq> 0 \<and> saturating_add64 (page_offset pg) (page_count pg) > total_count pg)
         \<or> (page_count pg = 0 \<and> page_offset pg < total_count pg)
      then Inl (page_validation_error response ''controller returned an inconsistent voucher page'')
      else Inr ())"

primrec mcp_message :: "mcp_error \<Rightarrow> string" where
  "mcp_message (InternalError m) = m"
| "mcp_message (InvalidParams m) = m"
| "mcp_message (InvalidRequest m) = m"

definition matching_read_back ::
  "(api_error + json page \<times> bounded_message) timed \<Rightarrow> revoke_matching_output \<Rightarrow> revoke_matching_output" where
  "matching_read_back outcome output =
     (case outcome of
        Skipped \<Rightarrow> output\<lparr>rmo_readback_error := Some ''voucher filter readback skipped near request deadline''\<rparr>
      | TimedOut \<Rightarrow> output\<lparr>rmo_readback_error := Some ''voucher filter readback timed out''\<rparr>
      | Finished (Inl err) \<Rightarrow> output\<lparr>rmo_readback_error := Some (render err)\<rparr>
      | Finished (Inr (after, response)) \<Rightarrow>
          (let output = output\<lparr>rmo_after_response := Some (as_str response)\<rparr>
           in case validate_voucher_records_page after response 0 1 of
                Inr _ \<Rightarrow> output\<lparr>rmo_matches_after := Some (total_count after),
                           rmo_verified_absent := Some (total_count after = 0)\<rparr>
              | Inl err \<Rightarrow> output\<lparr>rmo_readback_error := Some (mcp_message err)\<rparr>))"

definition deleted_count :: "(bytes \<Rightarrow> string + json) \<Rightarrow> bytes \<Rightarrow> nat option" where
  "deleted_count from_slice body =
     (case from_slice body of Inl _ \<Rightarrow> None | Inr v \<Rightarrow> Option.bind (jget ''vouchersDeleted'' v) ju64)"

definition check_revoke_matching :: "revoke_matching_input \<Rightarrow> mcp_error + unit" where
  "check_revoke_matching input =
     (if blank (rm_filter input) \<or> 2048 < length (rm_filter input) \<or> i32_max < rm_preview_offset input
         \<or> rm_preview_limit input = 0
      then Inl (InvalidParams (''filter must be nonempty and at most 2048 bytes; previewOffset must fit a '' @
             ''nonnegative 32-bit integer; previewLimit must be positive''))
      else Inr ())"

definition vouchers_revoke_matching_outcome ::
  "(json \<Rightarrow> string + revoke_matching_input) \<Rightarrow> json page decoder \<Rightarrow> ('e, 'x) tool_runtime_scheme \<Rightarrow> params
     \<Rightarrow> ('e, revoke_matching_output) tool" where
  "vouchers_revoke_matching_outcome from_value dec rt ps s0 =
     bind_io (return_io (parse from_value ps)) (\<lambda>input.
     bind_io (return_io (check_revoke_matching input)) (\<lambda>_.
     bind_io (resolve_site rt) (\<lambda>site.
     bind_io (upstream (voucher_records dec (integration rt) site
                \<lparr>req_offset = ucast (rm_preview_offset input), req_limit = voucher_limit (rm_preview_limit input)\<rparr>
                (Some (rm_filter input)))) (\<lambda>(before, response).
     bind_io (return_io (validate_voucher_records_page before response (ucast (rm_preview_offset input))
                (rm_preview_limit input))) (\<lambda>_.
       let started = instant_now rt s0;
           output =
             \<lparr>rmo_requested_limit = rm_preview_limit input, rmo_effective_limit = page_limit before,
              rmo_returned = length (page_data before), rmo_filter = rm_filter input,
              rmo_matches_before = total_count before,
              rmo_preview_complete = (page_offset before = 0 \<and> page_count before = total_count before),
              rmo_applied = False, rmo_before_response = Some (as_str response),
              rmo_before_response_in_content = None, rmo_response_status = None, rmo_response_body = None,
              rmo_response_body_in_content = None, rmo_vouchers_deleted = None, rmo_matches_after = None,
              rmo_verified_absent = None, rmo_after_response = None, rmo_after_response_in_content = None,
              rmo_readback_error = None, rmo_readback_error_in_content = None\<rparr>
       in if \<not> rm_confirm input then return_io (Inr output)
          else
            bind_io (upstream (delete_matching_vouchers (integration rt) site (rmo_filter output))) (\<lambda>(status, body) s.
              case timed_readback rt started
                     (on_world (voucher_records dec (integration rt) site \<lparr>req_offset = 0, req_limit = 1\<rparr>
                        (Some (rmo_filter output)))) s of
                (outcome, s') \<Rightarrow>
                  (Inr (matching_read_back outcome
                     (output\<lparr>rmo_applied := True, rmo_response_status := Some status,
                        rmo_vouchers_deleted := deleted_count (ext_value (integration rt)) body,
                        rmo_response_body := Some (as_str (from_controller_bytes (ext_b64 (integration rt)) body))\<rparr>)),
                   s'))))))) s0"

definition vouchers_revoke_matching where
  "vouchers_revoke_matching from_value dec rt ps =
     map_io (vouchers_revoke_matching_result rt) (vouchers_revoke_matching_outcome from_value dec rt ps)"

section \<open>Creating vouchers\<close>

definition VOUCHER_BATCH_CEILING :: u32 where
  "VOUCHER_BATCH_CEILING = 1000"

definition VOUCHER_MINUTES_CEILING :: u32 where
  "VOUCHER_MINUTES_CEILING = 1000000"

definition MAXIMUM_VOUCHER_REQUEST_BYTES :: nat where
  "MAXIMUM_VOUCHER_REQUEST_BYTES = 1024 * 1024"

text \<open>\<open>VoucherBatch\<close> has the fields of the input but for \<open>confirm\<close>.\<close>

record voucher_batch_record =
  vb_name :: string
  vb_count :: u32
  vb_time_limit_minutes :: u32
  vb_guest_limit :: "u64 option"
  vb_data_limit_megabytes :: "u64 option"
  vb_download_rate_limit_kbps :: "u64 option"
  vb_upload_rate_limit_kbps :: "u64 option"

record vouchers_create_input = voucher_batch_record +
  vi_confirm :: "bool option"

definition voucher_batch_json :: "voucher_batch_record \<Rightarrow> json" where
  "voucher_batch_json b =
     JObj (set_fields
       [(''name'', Some (JStr (vb_name b))), (''count'', Some (word_json (vb_count b))),
        (''timeLimitMinutes'', Some (word_json (vb_time_limit_minutes b))),
        (''guestLimit'', map_option word_json (vb_guest_limit b)),
        (''dataLimitMegabytes'', map_option word_json (vb_data_limit_megabytes b)),
        (''downloadRateLimitKbps'', map_option word_json (vb_download_rate_limit_kbps b)),
        (''uploadRateLimitKbps'', map_option word_json (vb_upload_rate_limit_kbps b))])"

definition i64_max :: u64 where
  "i64_max = 9223372036854775807"

definition between_text :: "string \<Rightarrow> string \<Rightarrow> string \<Rightarrow> string" where
  "between_text field low high = field @ '' must be between '' @ low @ '' and '' @ high"

text \<open>The loop over the four optional limits: the first one outside its range is reported.\<close>

fun check_limits :: "(string \<times> u64 option \<times> u64 \<times> u64) list \<Rightarrow> mcp_error + unit" where
  "check_limits [] = Inr ()"
| "check_limits ((field, v, low, high) # rest) =
     (if outside low high v then Inl (InvalidParams (between_text field (show_u low) (show_u high)))
      else check_limits rest)"

definition voucher_batch :: "vouchers_create_input \<Rightarrow> mcp_error + voucher_batch_record" where
  "voucher_batch input =
     (if \<not> (1 \<le> vb_count input \<and> vb_count input \<le> VOUCHER_BATCH_CEILING)
      then Inl (InvalidParams (between_text ''count'' ''1'' (show_u VOUCHER_BATCH_CEILING)))
      else if \<not> (1 \<le> vb_time_limit_minutes input \<and> vb_time_limit_minutes input \<le> VOUCHER_MINUTES_CEILING)
      then Inl (InvalidParams (between_text ''timeLimitMinutes'' ''1'' (show_u VOUCHER_MINUTES_CEILING)))
      else if vb_name input = [] then Inl (InvalidParams ''name must be nonempty'')
      else bind_res (check_limits
             [(''guestLimit'', vb_guest_limit input, 1, i64_max),
              (''dataLimitMegabytes'', vb_data_limit_megabytes input, 1, 1048576),
              (''downloadRateLimitKbps'', vb_download_rate_limit_kbps input, 2, 100000),
              (''uploadRateLimitKbps'', vb_upload_rate_limit_kbps input, 2, 100000)]) (\<lambda>_.
           Inr (voucher_batch_record.truncate input)))"

definition batch_request :: "voucher_batch_record \<Rightarrow> voucher_create" where
  "batch_request b =
     \<lparr>vc_name = vb_name b, vc_count = vb_count b, vc_time_limit_minutes = vb_time_limit_minutes b,
      vc_authorized_guest_limit = vb_guest_limit b, vc_data_usage_limit_m_bytes = vb_data_limit_megabytes b,
      vc_rx_rate_limit_kbps = vb_download_rate_limit_kbps b, vc_tx_rate_limit_kbps = vb_upload_rate_limit_kbps b\<rparr>"

record voucher_checks_record =
  ch_count_matches :: bool
  ch_all_identified :: bool
  ch_all_distinct :: bool
  ch_code_lengths :: "nat list"

definition voucher_checks_json :: "voucher_checks_record \<Rightarrow> json" where
  "voucher_checks_json c =
     JObj (set_fields
       [(''countMatches'', Some (JBool (ch_count_matches c))), (''allIdentified'', Some (JBool (ch_all_identified c))),
        (''allDistinct'', Some (JBool (ch_all_distinct c))),
        (''codeLengths'', Some (JArr (map jnat (ch_code_lengths c))))])"

definition nonempty :: "string option \<Rightarrow> bool" where
  "nonempty v \<longleftrightarrow> (case v of None \<Rightarrow> False | Some t \<Rightarrow> t \<noteq> [])"

definition codes_of :: "voucher_row list \<Rightarrow> string list" where
  "codes_of vs = List.map_filter vo_code vs"

definition voucher_checks :: "u32 \<Rightarrow> voucher_row list \<Rightarrow> voucher_checks_record" where
  "voucher_checks requested vs =
     (let lengths = remdups_adj (sort (map (length \<circ> chars) (codes_of vs)));
          codes = sort (codes_of vs)
      in \<lparr>ch_count_matches = (unat requested = length vs),
          ch_all_identified = list_all (\<lambda>v. nonempty (vo_id v) \<and> nonempty (vo_code v)) vs,
          ch_all_distinct = (length (remdups_adj codes) = length codes),
          ch_code_lengths = lengths\<rparr>)"

record voucher_verification =
  vv_verified :: bool
  vv_errors :: "(string \<times> string) list"
  vv_complete :: bool
  vv_stop_reason :: "string option"

definition verification_stopped :: "voucher_verification \<Rightarrow> voucher_verification" where
  "verification_stopped r = r\<lparr>vv_verified := False, vv_complete := False, vv_stop_reason := Some ''deadline''\<rparr>"

definition verification_failed :: "string \<Rightarrow> string \<Rightarrow> voucher_verification \<Rightarrow> voucher_verification" where
  "verification_failed rid message r = r\<lparr>vv_verified := False, vv_errors := vv_errors r @ [(rid, message)]\<rparr>"

definition voucher_verdict ::
  "string \<Rightarrow> string \<Rightarrow> api_error + voucher_details \<times> bounded_message \<Rightarrow> voucher_verification \<Rightarrow> voucher_verification" where
  "voucher_verdict rid code answer r =
     (case answer of
        Inr (persisted, response) \<Rightarrow>
          (if vd_id persisted = rid \<and> vd_code persisted = code then r
           else verification_failed rid
                  (voucher_error response ''created voucher readback disagrees with the creation response'') r)
      | Inl err \<Rightarrow> verification_failed rid (render err) r)"

text \<open>The loop over the created vouchers; \<open>seen\<close> is the set of ids inserted so far.\<close>

fun verify_loop ::
  "voucher_details decoder \<Rightarrow> ('e, 'x) tool_runtime_scheme \<Rightarrow> string \<Rightarrow> instant \<Rightarrow> voucher_row list \<Rightarrow> string list
     \<Rightarrow> voucher_verification \<Rightarrow> 'e tool_state \<Rightarrow> voucher_verification \<times> 'e tool_state" where
  "verify_loop dec rt site deadline [] seen r s = (r, s)"
| "verify_loop dec rt site deadline (v # vs) seen r s =
     (case (vo_id v, vo_code v) of
        (Some rid, Some code) \<Rightarrow>
          (let r = (if rid \<in> set seen then r\<lparr>vv_verified := False\<rparr> else r)
           in if deadline \<le> instant_now rt s then (verification_stopped r, s)
              else
                (case tokio_timeout rt (deadline - instant_now rt s)
                        (on_world (voucher_with_response dec (integration rt) site rid)) s of
                   (Some answer, s) \<Rightarrow>
                     verify_loop dec rt site deadline vs (rid # seen) (voucher_verdict rid code answer r) s
                 | (None, s) \<Rightarrow> (verification_stopped r, s)))
      | _ \<Rightarrow> verify_loop dec rt site deadline vs seen (r\<lparr>vv_verified := False\<rparr>) s)"

definition verify_created_vouchers_before_deadline ::
  "voucher_details decoder \<Rightarrow> ('e, 'x) tool_runtime_scheme \<Rightarrow> string \<Rightarrow> u32 \<Rightarrow> voucher_row list \<Rightarrow> instant
     \<Rightarrow> 'e tool_state \<Rightarrow> voucher_verification \<times> 'e tool_state" where
  "verify_created_vouchers_before_deadline dec rt site requested vs started s =
     (let budget = readback_budget (request_timeout rt) started (instant_now rt s);
          deadline = instant_now rt s + budget
      in verify_loop dec rt site deadline vs []
           \<lparr>vv_verified = (unat requested = length vs), vv_errors = [], vv_complete = True, vv_stop_reason = None\<rparr> s)"

record vouchers_create_output =
  vx_applied :: bool
  vx_batch :: voucher_batch_record
  vx_requested :: u32
  vx_response_status :: "nat option"
  vx_response_body :: "string option"
  vx_vouchers :: "voucher_row list option"
  vx_checks :: "voucher_checks_record option"
  vx_verified :: "bool option"
  vx_readback_errors :: "(string \<times> string) list"
  vx_readback_complete :: "bool option"
  vx_readback_stop_reason :: "string option"
  vx_warnings :: "string list"

definition readback_failure_json :: "string \<times> string \<Rightarrow> json" where
  "readback_failure_json = (\<lambda>(rid, message).
     JObj (set_fields [(''voucherId'', Some (JStr rid)), (''error'', Some (JStr message))]))"

text \<open>The three markers are \<open>None\<close> in every output the tool builds; the shaping sets them.\<close>

definition vouchers_create_json :: "vouchers_create_output \<Rightarrow> json" where
  "vouchers_create_json o1 =
     JObj (set_fields
       [(''applied'', Some (JBool (vx_applied o1))), (''batch'', Some (voucher_batch_json (vx_batch o1))),
        (''requested'', Some (word_json (vx_requested o1))),
        (''responseStatus'', map_option jnat (vx_response_status o1)),
        (''responseBody'', map_option JStr (vx_response_body o1)),
        (''vouchers'', map_option (\<lambda>vs. JArr (map voucher_row_json vs)) (vx_vouchers o1)),
        (''checks'', map_option voucher_checks_json (vx_checks o1)),
        (''verified'', map_option JBool (vx_verified o1)),
        (''readbackErrors'',
           then_some (vx_readback_errors o1 \<noteq> []) (JArr (map readback_failure_json (vx_readback_errors o1)))),
        (''readbackComplete'', map_option JBool (vx_readback_complete o1)),
        (''readbackStopReason'', map_option JStr (vx_readback_stop_reason o1)),
        (''warnings'', warnings_field (vx_warnings o1))])"

text \<open>A field of any shape moves to content as its JSON text.\<close>

definition spill_value ::
  "('e, 'x) tool_runtime_scheme \<Rightarrow> string \<times> string \<Rightarrow> json \<times> string list \<Rightarrow> json \<times> string list" where
  "spill_value rt = (\<lambda>(field, marker) (v, content).
     if exceeds rt v
     then (case v of
             JObj m \<Rightarrow>
               (case get field m of
                  None \<Rightarrow> (v, content)
                | Some x \<Rightarrow>
                    (JObj (map_insert marker (JBool True) (map_remove field m)),
                     content @ [text_block field (show_json rt x)]))
           | _ \<Rightarrow> (v, content))
     else (v, content))"

definition structured_with_mutation_readback_errors ::
  "('e, 'x) tool_runtime_scheme \<Rightarrow> json \<Rightarrow> call_result" where
  "structured_with_mutation_readback_errors rt output =
     (case spill_value rt (''vouchers'', ''vouchersInContent'')
             (spill_value rt (''readbackErrors'', ''readbackErrorsInContent'')
               (spill_text rt (''responseBody'', ''responseBodyInContent'') (output, []))) of
        (v, content) \<Rightarrow> \<lparr>structured_content = v, extra_content = content\<rparr>)"

definition code_warning :: string where
  "code_warning = ''each voucher code is a guest network credential; codes can also be read through '' @
     ''vouchers.search and vouchers.status''"

definition unverified_vouchers :: string where
  "unverified_vouchers = ''not every created voucher could be read back with the same id and code; '' @
     ''inspect vouchers.status or vouchers.search''"

definition created_output ::
  "('e, 'x) tool_runtime_scheme \<Rightarrow> voucher_batch_record \<Rightarrow> voucher_row list \<Rightarrow> nat \<Rightarrow> bytes \<Rightarrow> voucher_verification
     \<Rightarrow> vouchers_create_output" where
  "created_output rt batch vs status body verification =
     \<lparr>vx_applied = True, vx_batch = batch, vx_requested = vb_count batch, vx_response_status = Some status,
      vx_response_body = Some (as_str (from_controller_bytes (ext_b64 (integration rt)) body)),
      vx_vouchers = Some vs, vx_checks = Some (voucher_checks (vb_count batch) vs),
      vx_verified = Some (vv_verified verification), vx_readback_errors = vv_errors verification,
      vx_readback_complete = Some (vv_complete verification),
      vx_readback_stop_reason = vv_stop_reason verification,
      vx_warnings = [code_warning] @ (if \<not> vv_verified verification \<and> vv_errors verification = []
                                      then [unverified_vouchers] else [])\<rparr>"

definition vouchers_create_outcome ::
  "(json \<Rightarrow> string + vouchers_create_input) \<Rightarrow> voucher_row list decoder \<Rightarrow> voucher_details decoder
     \<Rightarrow> ('e, 'x) tool_runtime_scheme \<Rightarrow> params \<Rightarrow> ('e, vouchers_create_output) tool" where
  "vouchers_create_outcome from_value cdec dec rt ps s0 =
     bind_io (return_io (parse from_value ps)) (\<lambda>input.
     bind_io (return_io (voucher_batch input)) (\<lambda>batch.
       let started = instant_now rt s0
       in if MAXIMUM_VOUCHER_REQUEST_BYTES < length (show_json rt (voucher_create_json (batch_request batch)))
          then return_io (Inl (InvalidParams ''serialized voucher request exceeds the 1 MiB transport bound''))
          else if vi_confirm input \<noteq> Some True
          then return_io (Inr
                 \<lparr>vx_applied = False, vx_batch = batch, vx_requested = vb_count input, vx_response_status = None,
                  vx_response_body = None, vx_vouchers = None, vx_checks = None, vx_verified = None,
                  vx_readback_errors = [], vx_readback_complete = None, vx_readback_stop_reason = None,
                  vx_warnings = [code_warning]\<rparr>)
          else
            bind_io (resolve_site rt) (\<lambda>site.
            bind_io (upstream (create_vouchers_with_response cdec (integration rt) site (batch_request batch)))
              (\<lambda>(created, status, body) s.
                case verify_created_vouchers_before_deadline dec rt site (vb_count input) created started s of
                  (verification, s') \<Rightarrow> (Inr (created_output rt batch created status body verification), s'))))) s0"

definition vouchers_create where
  "vouchers_create from_value cdec dec rt ps =
     map_io (\<lambda>output. if vx_applied output
                       then structured_with_mutation_readback_errors rt (vouchers_create_json output)
                       else structured (vouchers_create_json output))
       (vouchers_create_outcome from_value cdec dec rt ps)"

section \<open>Writes\<close>

lemma read_voucher_reads: "writes_within 0 (read_voucher dec rt site rid)"
  unfolding read_voucher_def by (intro client_read_steps handler_rules)

lemma verify_loop_reads: "extends 0 (snd s) (snd (snd (verify_loop dec rt site deadline vs seen r s)))"
proof (induction vs arbitrary: seen r s)
  case (Cons v vs)
  note read = writes_within_timeout [OF writes_within_on_world [OF integration_reads_extend(13)]]
  show ?case
    by (auto simp: Cons Let_def split: option.split prod.split
        dest!: writes_within_run [OF read] intro: extends_trans [where n = 0 and m = 0, simplified, OF _ Cons])
qed simp

lemma verify_created_reads:
  "writes_within 0 (\<lambda>s. case verify_created_vouchers_before_deadline dec rt site n vs started s of (v, s') \<Rightarrow> (k v, s'))"
proof (rule writes_withinI)
  fix s show "extends 0 (snd s) (snd (snd (case verify_created_vouchers_before_deadline dec rt site n vs started s of
      (v, s') \<Rightarrow> (k v, s'))))"
    unfolding verify_created_vouchers_before_deadline_def Let_def
    by (simp add: split_beta verify_loop_reads)
qed

lemmas voucher_steps =
  handler_rules client_read_steps client_write_steps writes_within_timed_tail world_reads
  read_voucher_reads [THEN writes_within_read_bind] verify_created_reads

lemma vouchers_revoke_writes: "writes_within 1 (vouchers_revoke_outcome from_value dec rt ps)"
  by (rule writes_withinI, unfold vouchers_revoke_outcome_def, rule writes_withinD) (intro voucher_steps)

lemma vouchers_revoke_matching_writes: "writes_within 1 (vouchers_revoke_matching_outcome from_value dec rt ps)"
  by (rule writes_withinI, unfold vouchers_revoke_matching_outcome_def, rule writes_withinD) (intro voucher_steps)

lemma vouchers_create_writes: "writes_within 1 (vouchers_create_outcome from_value cdec dec rt ps)"
  by (rule writes_withinI, unfold vouchers_create_outcome_def, rule writes_withinD) (intro voucher_steps)

lemmas voucher_preview_steps =
  handler_rules client_read_steps read_voucher_reads [THEN writes_within_read_bind]

lemma vouchers_revoke_preview:
  assumes "parse from_value ps = Inr input" and "\<not> vr_confirm input"
  shows "writes_within 0 (vouchers_revoke_outcome from_value dec rt ps)"
  by (rule writes_withinI, unfold vouchers_revoke_outcome_def, rule writes_withinD)
    (intro voucher_preview_steps; use assms in simp)

lemma vouchers_revoke_matching_preview:
  assumes "parse from_value ps = Inr input" and "\<not> rm_confirm input"
  shows "writes_within 0 (vouchers_revoke_matching_outcome from_value dec rt ps)"
  by (rule writes_withinI, unfold vouchers_revoke_matching_outcome_def, rule writes_withinD)
    (intro voucher_preview_steps; use assms in simp)

lemma vouchers_create_preview:
  assumes "parse from_value ps = Inr input" and "vi_confirm input \<noteq> Some True"
  shows "writes_within 0 (vouchers_create_outcome from_value cdec dec rt ps)"
  by (rule writes_withinI, unfold vouchers_create_outcome_def, rule writes_withinD)
    (intro voucher_preview_steps; use assms in simp)

section \<open>What a verified batch guarantees\<close>

text \<open>A read after \<open>w0\<close> in which the controller returned this voucher with this code.\<close>

definition voucher_confirmed ::
  "voucher_details decoder \<Rightarrow> ('e, 'x) tool_runtime_scheme \<Rightarrow> string \<Rightarrow> 'e world \<Rightarrow> voucher_row \<Rightarrow> bool" where
  "voucher_confirmed dec rt site w0 v \<longleftrightarrow>
     (\<exists>w persisted response. extends 0 w0 w
        \<and> fst (voucher_with_response dec (integration rt) site (vd_id persisted) w) = Inr (persisted, response)
        \<and> vo_id v = Some (vd_id persisted) \<and> vo_code v = Some (vd_code persisted))"

lemma voucher_confirmed_mono:
  assumes "extends 0 w0 w1" and "voucher_confirmed dec rt site w1 v"
  shows "voucher_confirmed dec rt site w0 v"
proof -
  have "extends 0 w0 w" if "extends 0 w1 w" for w using extends_trans [OF assms(1) that] by simp
  with assms(2) show ?thesis unfolding voucher_confirmed_def by blast
qed

lemma voucher_verdict_verified:
  "vv_verified (voucher_verdict rid code answer r) \<Longrightarrow>
     vv_verified r \<and> voucher_verdict rid code answer r = r
     \<and> (\<exists>persisted response. answer = Inr (persisted, response) \<and> vd_id persisted = rid \<and> vd_code persisted = code)"
  by (auto simp: voucher_verdict_def verification_failed_def split: sum.splits if_splits)

lemma tokio_timeout_Some:
  "tokio_timeout rt budget m s = (Some r, s') \<Longrightarrow> m s = (r, s')"
  by (auto simp: tokio_timeout_def split: prod.splits option.splits)

lemma verify_loop_verified:
  assumes "verify_loop dec rt site deadline vs seen r s = (r', s')" and "vv_verified r'"
  shows "r' = r" and "distinct (map vo_id vs)" and "\<And>v. v \<in> set vs \<Longrightarrow> vo_id v \<notin> Some ` set seen"
    and "\<And>v. v \<in> set vs \<Longrightarrow> voucher_confirmed dec rt site (snd s) v"
proof -
  have "r' = r \<and> distinct (map vo_id vs) \<and> (\<forall>v\<in>set vs. vo_id v \<notin> Some ` set seen
          \<and> voucher_confirmed dec rt site (snd s) v)"
    using assms(1)
  proof (induction vs arbitrary: seen r s)
    case (Cons v vs)
    show ?case
    proof (cases "vo_id v = None \<or> vo_code v = None")
      case True
      then have "verify_loop dec rt site deadline vs seen (r\<lparr>vv_verified := False\<rparr>) s = (r', s')"
        using Cons.prems by (auto split: option.splits)
      from Cons.IH [OF this] assms(2) show ?thesis by simp
    next
      case False
      then obtain rid code where v: "vo_id v = Some rid" "vo_code v = Some code" by auto
      let ?r = "if rid \<in> set seen then r\<lparr>vv_verified := False\<rparr> else r"
      let ?read = "on_world (voucher_with_response dec (integration rt) site rid)"
      from Cons.prems v assms(2) obtain answer s1 where
        read: "tokio_timeout rt (deadline - instant_now rt s) ?read s = (Some answer, s1)"
        and rest: "verify_loop dec rt site deadline vs (rid # seen) (voucher_verdict rid code answer ?r) s1 = (r', s')"
        by (auto simp: Let_def verification_stopped_def split: if_splits prod.splits option.splits)
      note ih = Cons.IH [OF rest]
      from ih assms(2) have "vv_verified (voucher_verdict rid code answer ?r)" by simp
      from voucher_verdict_verified [OF this] obtain persisted response where
        r: "rid \<notin> set seen" "voucher_verdict rid code answer ?r = r"
        and answer: "answer = Inr (persisted, response)" "vd_id persisted = rid" "vd_code persisted = code"
        by (auto split: if_splits)
      from tokio_timeout_Some [OF read] answer(1)
      have fst_read: "fst (voucher_with_response dec (integration rt) site rid (snd s)) = Inr (persisted, response)"
        by (auto simp: on_world_def split: prod.splits)
      have here: "voucher_confirmed dec rt site (snd s) v"
        unfolding voucher_confirmed_def
        using v answer(2,3) fst_read by (intro exI [of _ "snd s"] exI [of _ persisted] exI [of _ response]) auto
      have "extends 0 (snd s) (snd s1)"
        by (rule writes_within_run [OF writes_within_timeout [OF writes_within_on_world [OF integration_reads_extend(13)]] read])
      with ih r v here voucher_confirmed_mono show ?thesis by fastforce
    qed
  qed simp
  then show "r' = r" "distinct (map vo_id vs)" "\<And>v. v \<in> set vs \<Longrightarrow> vo_id v \<notin> Some ` set seen"
    "\<And>v. v \<in> set vs \<Longrightarrow> voucher_confirmed dec rt site (snd s) v"
    by blast+
qed

text \<open>The documented ranges of a batch, and the request that carries exactly what the input asks for.\<close>

definition batch_in_range :: "vouchers_create_input \<Rightarrow> bool" where
  "batch_in_range input \<longleftrightarrow>
     1 \<le> vb_count input \<and> vb_count input \<le> 1000
     \<and> 1 \<le> vb_time_limit_minutes input \<and> vb_time_limit_minutes input \<le> 1000000 \<and> vb_name input \<noteq> []
     \<and> (\<forall>n. vb_guest_limit input = Some n \<longrightarrow> 1 \<le> n \<and> unat n < 2 ^ 63)
     \<and> (\<forall>n. vb_data_limit_megabytes input = Some n \<longrightarrow> 1 \<le> n \<and> n \<le> 1048576)
     \<and> (\<forall>n. vb_download_rate_limit_kbps input = Some n \<longrightarrow> 2 \<le> n \<and> n \<le> 100000)
     \<and> (\<forall>n. vb_upload_rate_limit_kbps input = Some n \<longrightarrow> 2 \<le> n \<and> n \<le> 100000)"

definition requested_vouchers :: "vouchers_create_input \<Rightarrow> voucher_create" where
  "requested_vouchers input =
     \<lparr>vc_name = vb_name input, vc_count = vb_count input, vc_time_limit_minutes = vb_time_limit_minutes input,
      vc_authorized_guest_limit = vb_guest_limit input, vc_data_usage_limit_m_bytes = vb_data_limit_megabytes input,
      vc_rx_rate_limit_kbps = vb_download_rate_limit_kbps input,
      vc_tx_rate_limit_kbps = vb_upload_rate_limit_kbps input\<rparr>"

lemma voucher_batch_Inr:
  assumes "voucher_batch input = Inr batch"
  shows "batch_request batch = requested_vouchers input" and "vb_count batch = vb_count input" and "batch_in_range input"
proof -
  from assms have batch: "batch = voucher_batch_record.truncate input"
    by (auto simp: voucher_batch_def bind_res_eq_Inr split: if_splits)
  then show "batch_request batch = requested_vouchers input" "vb_count batch = vb_count input"
    by (simp_all add: batch_request_def requested_vouchers_def voucher_batch_record.defs)
  from assms show "batch_in_range input"
    by (auto simp: voucher_batch_def bind_res_eq_Inr batch_in_range_def outside_def VOUCHER_BATCH_CEILING_def
        VOUCHER_MINUTES_CEILING_def i64_max_def word_le_nat_alt split: if_splits)
qed

text \<open>
  C15. A batch of vouchers is reported as verified only when exactly the requested batch was created
  and read back. A call makes at most one write. When its answer says \<open>verified\<close>: the call was
  confirmed and its settings were inside the documented ranges; the controller was asked to create
  vouchers with exactly the requested name, count and limits, and answered with as many vouchers as
  were requested, all with distinct ids, which are the ones reported; and after that every one of them was
  read by its id, and the record had the same id and code as in the creation response (the name and
  the limits in the record are not compared). Then no error or early stop is reported.
\<close>

theorem verified_voucher_batch:
  "writes_within 1 (vouchers_create_outcome from_value cdec dec rt ps)
   \<and> (fst (vouchers_create_outcome from_value cdec dec rt ps s) = Inr out \<and> vx_verified out = Some True \<longrightarrow>
        (\<exists>input site s1 s2 vs status body.
           parse from_value ps = Inr input \<and> vi_confirm input = Some True \<and> batch_in_range input
           \<and> upstream (create_vouchers_with_response cdec (integration rt) site (requested_vouchers input)) s1
               = (Inr (vs, status, body), s2)
           \<and> vx_vouchers out = Some vs \<and> vx_requested out = vb_count input
           \<and> length vs = unat (vb_count input) \<and> distinct (map vo_id vs)
           \<and> (\<forall>v\<in>set vs. voucher_confirmed dec rt site (snd s2) v)
           \<and> vx_readback_errors out = [] \<and> vx_readback_complete out = Some True \<and> vx_readback_stop_reason out = None))"
proof (intro conjI impI; (elim conjE)?)
  show "writes_within 1 (vouchers_create_outcome from_value cdec dec rt ps)" by (rule vouchers_create_writes)
next
  assume run: "fst (vouchers_create_outcome from_value cdec dec rt ps s) = Inr out" and seen: "vx_verified out = Some True"
  have tail: "fst (case x of (v, s') \<Rightarrow> (k v, s')) = k (fst x)" for k and x :: "voucher_verification \<times> 'a tool_state"
    by (simp add: split_beta)
  from run seen obtain input batch site s1 vs status body s2 where
    input: "parse from_value ps = Inr input" "vi_confirm input = Some True" and batch: "voucher_batch input = Inr batch"
    and created: "upstream (create_vouchers_with_response cdec (integration rt) site (batch_request batch)) s1
                    = (Inr (vs, status, body), s2)"
    and out: "out = created_output rt batch vs status body
                (fst (verify_created_vouchers_before_deadline dec rt site (vb_count input) vs (instant_now rt s) s2))"
    by (auto simp: vouchers_create_outcome_def fst_bind_io_Inr Let_def tail split: if_splits)
  obtain verification s3 where
    verified: "verify_created_vouchers_before_deadline dec rt site (vb_count input) vs (instant_now rt s) s2
                     = (verification, s3)"
    by (metis surj_pair)
  with out have out: "out = created_output rt batch vs status body verification" by simp
  note asked = voucher_batch_Inr [OF batch]
  from seen out have ok: "vv_verified verification" by (simp add: created_output_def)
  note loop = verify_loop_verified [OF verified [unfolded verify_created_vouchers_before_deadline_def Let_def] ok]
  from loop(1) ok have same: "verification = \<lparr>vv_verified = True, vv_errors = [], vv_complete = True, vv_stop_reason = None\<rparr>"
    and len: "unat (vb_count input) = length vs"
    by simp_all
  from created loop(2,4) len input asked show "\<exists>input site s1 s2 vs status body.
      parse from_value ps = Inr input \<and> vi_confirm input = Some True \<and> batch_in_range input
      \<and> upstream (create_vouchers_with_response cdec (integration rt) site (requested_vouchers input)) s1
          = (Inr (vs, status, body), s2)
      \<and> vx_vouchers out = Some vs \<and> vx_requested out = vb_count input
      \<and> length vs = unat (vb_count input) \<and> distinct (map vo_id vs)
      \<and> (\<forall>v\<in>set vs. voucher_confirmed dec rt site (snd s2) v)
      \<and> vx_readback_errors out = [] \<and> vx_readback_complete out = Some True \<and> vx_readback_stop_reason out = None"
    by (intro exI [of _ input] exI [of _ site] exI [of _ s1] exI [of _ s2] exI [of _ vs] exI [of _ status]
        exI [of _ body]) (simp add: out created_output_def same)
qed

definition sample_voucher :: voucher_details where
  "sample_voucher =
     \<lparr>vd_id = ''v1'', vd_code = ''1234'', vd_name = ''guests'', vd_created_at = ''t'', vd_expired = False,
      vd_authorized_guest_count = 0, vd_time_limit_minutes = 60, vd_activated_at = None, vd_expires_at = None,
      vd_authorized_guest_limit = None, vd_data_usage_limit_m_bytes = None, vd_rx_rate_limit_kbps = None,
      vd_tx_rate_limit_kbps = None\<rparr>"

definition sample_batch :: vouchers_create_input where
  "sample_batch =
     \<lparr>vb_name = ''guests'', vb_count = 1, vb_time_limit_minutes = 60, vb_guest_limit = None,
      vb_data_limit_megabytes = None, vb_download_rate_limit_kbps = None, vb_upload_rate_limit_kbps = None,
      vi_confirm = Some True\<rparr>"

theorem verified_voucher_batch_witness:
  "\<exists>out vs. fst (vouchers_create_outcome (\<lambda>_. Inr sample_batch) (\<lambda>_. Inr [\<lparr>vo_id = Some ''v1'', vo_code = Some ''1234''\<rparr>])
       (\<lambda>_. Inr sample_voucher) (sample_runtime empty_ok []) \<lparr>arguments = None\<rparr> sample_state) = Inr out
     \<and> vx_vouchers out = Some vs \<and> length vs = unat (vx_requested out) \<and> vx_readback_errors out = []"
proof -
  let ?run = "vouchers_create_outcome (\<lambda>_. Inr sample_batch) (\<lambda>_. Inr [\<lparr>vo_id = Some ''v1'', vo_code = Some ''1234''\<rparr>])
       (\<lambda>_. Inr sample_voucher) (sample_runtime empty_ok []) \<lparr>arguments = None\<rparr> sample_state"
  have "map_ok vx_verified (fst ?run) = Inr (Some True)"
    by (simp add: vouchers_create_outcome_def parse_def voucher_batch_def sample_batch_def VOUCHER_BATCH_CEILING_def
        VOUCHER_MINUTES_CEILING_def outside_def voucher_batch_record.defs batch_request_def voucher_create_json_def
        create_vouchers_with_response_def post_action_def with_json_def verify_created_vouchers_before_deadline_def
        voucher_with_response_def get_with_message_def voucher_verdict_def sample_voucher_def created_output_def
        tokio_timeout_def instant_now_def echo_defs)
  then obtain out where run: "fst ?run = Inr out" and ok: "vx_verified out = Some True"
    by (auto simp: map_ok_def split: sum.splits)
  from verified_voucher_batch [THEN conjunct2, rule_format, OF conjI [OF run ok]] run show ?thesis by force
qed

lemma length_remdups_adj_sort: "length (remdups_adj (sort xs)) = length xs \<longleftrightarrow> distinct (xs :: string list)"
proof -
  have "distinct (remdups_adj (sort xs))"
    using sorted_remdups_adj_strict [OF sorted_sort, of xs] by (simp only: strict_sorted_iff)
  then have "length (remdups_adj (sort xs)) = card (set xs)" by (metis distinct_card remdups_adj_set set_sort)
  then show ?thesis by (metis card_distinct distinct_card)
qed

lemma voucher_checks_sound:
  "ch_count_matches (voucher_checks n vs) \<longleftrightarrow> unat n = length vs"
  "ch_all_distinct (voucher_checks n vs) \<longleftrightarrow> distinct (codes_of vs)"
  "set (ch_code_lengths (voucher_checks n vs)) = (length \<circ> chars) ` set (codes_of vs)"
  "sorted_wrt (<) (ch_code_lengths (voucher_checks n vs))"
  by (simp_all add: voucher_checks_def Let_def length_remdups_adj_sort sorted_remdups_adj_strict)

lemma vouchers_revoke_absent:
  assumes "revoke_read_back rid outcome result = out" and "vro_verified result = None" and "vro_verified out = Some True"
  shows "\<exists>body. outcome = Finished (Inl (Status 404 body))"
  using assms by (auto simp: revoke_read_back_def split: timed.splits sum.splits if_splits elim: is_not_found.elims)

end
