(* ===== verification/Tool_Configuration.thy ===== *)
theory Tool_Configuration
  imports Tool_Vouchers
begin

text \<open>
  The configuration workflows of \<open>crates/unifi-mcp/src/tools/network_configuration.rs\<close> (networks and
  Wi-Fi broadcasts of the Integration API) and \<open>tools/legacy_configuration.rs\<close> (port forwards and
  WLANs of the legacy API): listing, reading, and one create, update or delete with a read-back. The
  typed requests are serialized by an argument, so that the theorems hold for each of them.
\<close>

section \<open>Shared pieces\<close>

text \<open>
  A result whose fields move to content one by one while it is too large; a string moves as itself,
  any other value as its JSON text. The loops of the source stop at the first size that fits, which
  is the same as testing before each field.
\<close>

definition part_text :: "('e, 'x) tool_runtime_scheme \<Rightarrow> json \<Rightarrow> string" where
  "part_text rt part = (case jstr part of Some t \<Rightarrow> t | None \<Rightarrow> show_json rt part)"

definition spill_part ::
  "('e, 'x) tool_runtime_scheme \<Rightarrow> string \<Rightarrow> json \<times> string list \<Rightarrow> json \<times> string list" where
  "spill_part rt field = (\<lambda>(v, content).
     if exceeds rt v
     then (case v of
             JObj m \<Rightarrow>
               (case get field m of
                  None \<Rightarrow> (v, content)
                | Some part \<Rightarrow>
                    (JObj (map_insert (field @ ''InContent'') (JBool True) (map_remove field m)),
                     content @ [text_block field (part_text rt part)]))
           | _ \<Rightarrow> (v, content))
     else (v, content))"

text \<open>\<open>String::from_utf8_lossy\<close>: each maximal prefix of a well-formed sequence that breaks off becomes U+FFFD.\<close>

definition at_or_nul :: "bytes \<Rightarrow> nat \<Rightarrow> char" where
  "at_or_nul bs i = (if i < length bs then bs ! i else CHR 0x00)"

definition second_byte :: "char \<Rightarrow> char \<Rightarrow> bool" where
  "second_byte a b \<longleftrightarrow>
     in_range (if of_char a = (224 :: nat) then 160 else if of_char a = (240 :: nat) then 144 else 128)
              (if of_char a = (237 :: nat) then 159 else if of_char a = (244 :: nat) then 143 else 191) b"

definition continuation :: "bytes \<Rightarrow> nat \<Rightarrow> bool" where
  "continuation bs i \<longleftrightarrow> in_range 128 191 (at_or_nul bs i)"

text \<open>How many bytes after the first belong to the next chunk, and whether it is a whole character.\<close>

definition utf8_chunk :: "char \<Rightarrow> bytes \<Rightarrow> nat \<times> bool" where
  "utf8_chunk a bs =
     (if in_range 0 127 a then (0, True)
      else if in_range 194 223 a then (if continuation bs 0 then (1, True) else (0, False))
      else if in_range 224 239 a
      then (if \<not> second_byte a (at_or_nul bs 0) then (0, False)
            else if \<not> continuation bs 1 then (1, False) else (2, True))
      else if in_range 240 244 a
      then (if \<not> second_byte a (at_or_nul bs 0) then (0, False)
            else if \<not> continuation bs 1 then (1, False)
            else if \<not> continuation bs 2 then (2, False) else (3, True))
      else (0, False))"

function from_utf8_lossy :: "bytes \<Rightarrow> string" where
  "from_utf8_lossy [] = []"
| "from_utf8_lossy (a # bs) =
     (case utf8_chunk a bs of
        (n, whole) \<Rightarrow>
          (if whole then a # take n bs else [CHR 0xEF, CHR 0xBF, CHR 0xBD]) @ from_utf8_lossy (drop n bs))"
  by pat_completeness auto

termination by (relation "measure length") auto

lemma from_utf8_lossy_valid: "valid_utf8 body \<Longrightarrow> from_utf8_lossy body = body"
proof (induction body rule: valid_utf8.induct)
  case (2 a bs)
  note defs = utf8_chunk_def continuation_def at_or_nul_def second_byte_def in_range_def
  consider "in_range 0 127 a" | b cs where "bs = b # cs" "in_range 194 223 a"
    | b c ds where "bs = b # c # ds" "in_range 224 239 a" | b c d es where "bs = b # c # d # es" "in_range 240 244 a"
    using "2.prems" by (auto split: list.splits if_splits)
  then show ?case
  proof cases
    case 1
    with 2 show ?thesis by (simp add: utf8_chunk_def)
  next
    case 2
    with "2.prems" "2.IH" show ?thesis by (auto simp: defs split: if_splits)
  next
    case 3
    with "2.prems" "2.IH" show ?thesis by (auto simp: defs split: if_splits)
  next
    case 4
    with "2.prems" "2.IH" show ?thesis by (auto simp: defs split: if_splits)
  qed
qed simp

section \<open>Networks and Wi-Fi broadcasts\<close>

datatype configuration_family = Network | WifiBroadcast

primrec family_label :: "configuration_family \<Rightarrow> string" where
  "family_label Network = ''network''"
| "family_label WifiBroadcast = ''Wi-Fi broadcast''"

record configuration_result =
  cr_page_counts :: "json option"
  cr_response :: "json option"
  cr_next_offset :: "u64 option"
  cr_references :: "json option"
  cr_operation :: "policy_write_operation option"
  cr_id :: "string option"
  cr_requested :: "json option"
  cr_force :: "bool option"
  cr_submitted :: "bool option"
  cr_response_status :: "nat option"
  cr_response_body :: "string option"
  cr_after :: "json option"
  cr_verified :: "bool option"
  cr_verified_absent :: "bool option"
  cr_readback_error :: "string option"

definition no_configuration :: configuration_result where
  "no_configuration =
     \<lparr>cr_page_counts = None, cr_response = None, cr_next_offset = None, cr_references = None,
      cr_operation = None, cr_id = None, cr_requested = None, cr_force = None, cr_submitted = None,
      cr_response_status = None, cr_response_body = None, cr_after = None, cr_verified = None,
      cr_verified_absent = None, cr_readback_error = None\<rparr>"

definition configuration_result_json :: "configuration_result \<Rightarrow> json" where
  "configuration_result_json o1 =
     JObj (set_fields
       [(''pageCounts'', cr_page_counts o1), (''response'', cr_response o1),
        (''nextOffset'', map_option word_json (cr_next_offset o1)), (''references'', cr_references o1),
        (''operation'', map_option (JStr \<circ> operation_word) (cr_operation o1)),
        (''id'', map_option JStr (cr_id o1)), (''requested'', cr_requested o1),
        (''force'', map_option JBool (cr_force o1)), (''submitted'', map_option JBool (cr_submitted o1)),
        (''responseStatus'', map_option jnat (cr_response_status o1)),
        (''responseBody'', map_option JStr (cr_response_body o1)), (''after'', cr_after o1),
        (''verified'', map_option JBool (cr_verified o1)),
        (''verifiedAbsent'', map_option JBool (cr_verified_absent o1)),
        (''readbackError'', map_option JStr (cr_readback_error o1))])"

definition configuration_parts :: "string list" where
  "configuration_parts = [''response'', ''references'', ''requested'', ''responseBody'', ''after'', ''readbackError'']"

definition configuration_call_result :: "('e, 'x) tool_runtime_scheme \<Rightarrow> configuration_result \<Rightarrow> call_result" where
  "configuration_call_result rt output =
     (case fold (spill_part rt) configuration_parts (configuration_result_json output, []) of
        (v, content) \<Rightarrow> (structured v)\<lparr>extra_content := content\<rparr>)"

definition validate_network_id :: "string \<Rightarrow> mcp_error + unit" where
  "validate_network_id rid =
     (if bad_id rid then Inl (InvalidParams ''id must be nonempty and at most 256 bytes'') else Inr ())"

record networks_list_input =
  nl_offset :: u32
  nl_limit :: nat
  nl_filter :: "string option"

definition check_networks_list :: "networks_list_input \<Rightarrow> mcp_error + unit" where
  "check_networks_list input =
     (if i32_max < nl_offset input \<or> nl_limit input = 0
      then Inl (InvalidParams ''offset must be 0-2147483647 and limit must be positive'')
      else (case nl_filter input of
              Some flt \<Rightarrow> (if 2048 < length flt then Inl (InvalidParams ''filter must be at most 2048 bytes'')
                           else Inr ())
            | None \<Rightarrow> Inr ()))"

definition network_page ::
  "(json \<Rightarrow> string + json page) \<Rightarrow> networks_list_input \<Rightarrow> json \<times> bounded_message \<Rightarrow> mcp_error + configuration_result" where
  "network_page page_of input = (\<lambda>(response, source).
     bind_res (map_err (page_validation_error source) (page_of response)) (\<lambda>pg.
     bind_res (ok_or (page_validation_error source ''network page offset overflow'')
                (checked_add (page_offset pg) (row_count pg))) (\<lambda>next_row.
       if page_offset pg \<noteq> ucast (nl_offset input) \<or> page_limit pg = 0
          \<or> page_limit pg > ucast (integration_limit (nl_limit input)) \<or> row_count pg > page_limit pg
          \<or> page_count pg \<noteq> row_count pg \<or> (row_count pg > 0 \<and> next_row > total_count pg)
          \<or> (row_count pg = 0 \<and> page_offset pg < total_count pg)
       then Inl (page_validation_error source
              ''network page metadata contradicts the requested page or returned rows'')
       else Inr (no_configuration
              \<lparr>cr_page_counts := Some (JObj (set_fields
                  [(''requestedLimit'', Some (jnat (nl_limit input))),
                   (''effectiveLimit'', Some (word_json (page_limit pg))),
                   (''returned'', Some (jnat (length (page_data pg))))])),
                cr_response := Some response,
                cr_next_offset := then_some (next_row < total_count pg) next_row\<rparr>))))"

definition networks_list ::
  "(json \<Rightarrow> string + networks_list_input) \<Rightarrow> (json \<Rightarrow> string + json page) \<Rightarrow> ('e, 'x) tool_runtime_scheme \<Rightarrow> params
     \<Rightarrow> ('e, call_result) tool" where
  "networks_list from_value page_of rt ps =
     bind_io (return_io (parse from_value ps)) (\<lambda>input.
     bind_io (return_io (check_networks_list input)) (\<lambda>_.
     bind_io (resolve_site rt) (\<lambda>site.
     bind_io (upstream (network_records (integration rt) site
                \<lparr>req_offset = ucast (nl_offset input), req_limit = integration_limit (nl_limit input)\<rparr>
                (nl_filter input))) (\<lambda>served.
       map_io (configuration_call_result rt) (return_io (network_page page_of input served))))))"

definition reference_read_back :: "(api_error + json) timed \<Rightarrow> configuration_result \<Rightarrow> configuration_result" where
  "reference_read_back outcome output =
     (case outcome of
        Skipped \<Rightarrow> output\<lparr>cr_readback_error := Some ''network reference lookup skipped near request deadline''\<rparr>
      | TimedOut \<Rightarrow> output\<lparr>cr_readback_error := Some ''network reference lookup timed out''\<rparr>
      | Finished (Inl err) \<Rightarrow> output\<lparr>cr_readback_error := Some (render err)\<rparr>
      | Finished (Inr refs) \<Rightarrow> output\<lparr>cr_references := Some refs\<rparr>)"

definition networks_status ::
  "(json \<Rightarrow> string + string \<times> bool) \<Rightarrow> ('e, 'x) tool_runtime_scheme \<Rightarrow> params \<Rightarrow> ('e, call_result) tool" where
  "networks_status from_value rt ps s0 =
     bind_io (return_io (parse from_value ps)) (\<lambda>(rid, include_references).
     bind_io (return_io (validate_network_id rid)) (\<lambda>_.
     bind_io (resolve_site rt) (\<lambda>site.
     bind_io (upstream (network_record (integration rt) site rid)) (\<lambda>response.
       let output = no_configuration\<lparr>cr_response := Some response\<rparr>
       in if \<not> include_references then return_io (Inr (configuration_call_result rt output))
          else (\<lambda>s. case timed_readback rt (instant_now rt s0)
                           (on_world (network_references (integration rt) site rid)) s of
                      (outcome, s') \<Rightarrow>
                        (Inr (configuration_call_result rt (reference_read_back outcome output)), s')))))) s0"

definition check_configuration ::
  "('e, 'x) tool_runtime_scheme \<Rightarrow> policy_write_operation \<Rightarrow> string option \<Rightarrow> json option \<Rightarrow> bool \<Rightarrow> mcp_error + unit" where
  "check_configuration rt operation rid requested force =
     (if \<not> valid_shape operation rid requested \<or> force \<and> operation \<noteq> Delete
      then Inl (InvalidParams (''create requires configuration without id; update requires configuration and id; '' @
             ''delete requires id without configuration; force applies only to delete''))
      else bind_res (case rid of None \<Rightarrow> Inr () | Some i \<Rightarrow> validate_network_id i) (\<lambda>_.
             if (case requested of None \<Rightarrow> False | Some body \<Rightarrow> oversized rt body)
             then Inl (InvalidParams ''configuration request exceeds the 1 MiB request bound'') else Inr ()))"

definition requested_label :: "configuration_family \<Rightarrow> string" where
  "requested_label family = (case family of Network \<Rightarrow> ''validated network'' | WifiBroadcast \<Rightarrow> ''validated configuration'')"

definition submit_configuration ::
  "('e, 'x) tool_runtime_scheme \<Rightarrow> configuration_family \<Rightarrow> policy_write_operation \<Rightarrow> string option \<Rightarrow> json option
     \<Rightarrow> bool \<Rightarrow> string \<Rightarrow> ('e, nat \<times> bytes) tool" where
  "submit_configuration rt family operation rid requested force site =
     (case operation of
        Create \<Rightarrow>
          bind_io (expect (requested_label family) requested) (\<lambda>body.
            case family of
              Network \<Rightarrow> upstream (create_network (integration rt) site body)
            | WifiBroadcast \<Rightarrow> upstream (create_wifi_broadcast (integration rt) site body))
      | Update \<Rightarrow>
          bind_io (expect ''validated id'' rid) (\<lambda>i.
          bind_io (expect (requested_label family) requested) (\<lambda>body.
            case family of
              Network \<Rightarrow> upstream (replace_network (integration rt) site i body)
            | WifiBroadcast \<Rightarrow> upstream (replace_wifi_broadcast (integration rt) site i body)))
      | Delete \<Rightarrow>
          bind_io (expect ''validated id'' rid) (\<lambda>i.
            case family of
              Network \<Rightarrow> upstream (delete_network (integration rt) site i force)
            | WifiBroadcast \<Rightarrow> upstream (delete_wifi_broadcast (integration rt) site i force)))"

definition accepted_configuration_id :: "(bytes \<Rightarrow> string + json) \<Rightarrow> bytes \<Rightarrow> string option" where
  "accepted_configuration_id from_slice body =
     (case from_slice body of Inl _ \<Rightarrow> None | Inr v \<Rightarrow> record_id v)"

definition configuration_observation ::
  "(string \<times> json) list decoder \<Rightarrow> ('e, 'x) tool_runtime_scheme \<Rightarrow> configuration_family \<Rightarrow> string \<Rightarrow> string
     \<Rightarrow> 'e world \<Rightarrow> (api_error + json) \<times> 'e world" where
  "configuration_observation dec rt family site rid =
     (case family of
        Network \<Rightarrow> network_record (integration rt) site rid
      | WifiBroadcast \<Rightarrow> map_io JObj (wifi_broadcast dec (integration rt) site rid))"

definition configuration_read_back ::
  "configuration_family \<Rightarrow> policy_write_operation \<Rightarrow> string option \<Rightarrow> string \<Rightarrow> (api_error + json) timed
     \<Rightarrow> configuration_result \<Rightarrow> configuration_result" where
  "configuration_read_back family operation accepted_id rid outcome output =
     (case outcome of
        Skipped \<Rightarrow> output\<lparr>cr_readback_error := Some (family_label family @ '' readback skipped near request deadline'')\<rparr>
      | TimedOut \<Rightarrow> output\<lparr>cr_readback_error := Some (family_label family @ '' readback timed out'')\<rparr>
      | Finished (Inr after) \<Rightarrow>
          (if operation = Delete then output\<lparr>cr_verified_absent := Some False, cr_after := Some after\<rparr>
           else output\<lparr>cr_verified :=
                  Some (accepted_id = Some rid \<and> record_id after = Some rid
                        \<and> (case cr_requested output of
                             Some requested \<Rightarrow> requested_json_matches requested after
                           | None \<Rightarrow> False)),
                  cr_after := Some after\<rparr>)
      | Finished (Inl err) \<Rightarrow>
          (if is_not_found err \<and> operation = Delete
           then output\<lparr>cr_verified_absent := Some True, cr_readback_error := Some (render err)\<rparr>
           else output\<lparr>cr_readback_error := Some (render err)\<rparr>))"

definition planned_configuration ::
  "policy_write_operation \<Rightarrow> string option \<Rightarrow> json option \<Rightarrow> bool \<Rightarrow> configuration_result" where
  "planned_configuration operation rid requested force =
     no_configuration\<lparr>cr_operation := Some operation, cr_id := rid, cr_requested := requested,
       cr_force := then_some (operation = Delete) force, cr_submitted := Some False\<rparr>"

definition submitted_configuration ::
  "('e, 'x) tool_runtime_scheme \<Rightarrow> string option \<Rightarrow> nat \<Rightarrow> bytes \<Rightarrow> configuration_result \<Rightarrow> configuration_result" where
  "submitted_configuration rt accepted_id status body output =
     output\<lparr>cr_submitted := Some True, cr_response_status := Some status,
       cr_response_body := Some (as_str (from_controller_bytes (ext_b64 (integration rt)) body)),
       cr_id := (case cr_id output of None \<Rightarrow> accepted_id | Some i \<Rightarrow> Some i)\<rparr>"

text \<open>The read-back after an accepted request, when there is an id to read.\<close>

definition observe_configuration ::
  "(string \<times> json) list decoder \<Rightarrow> ('e, 'x) tool_runtime_scheme \<Rightarrow> configuration_family \<Rightarrow> policy_write_operation
     \<Rightarrow> instant \<Rightarrow> string \<Rightarrow> string option \<Rightarrow> configuration_result \<Rightarrow> ('e, configuration_result) tool" where
  "observe_configuration dec rt family operation started site accepted_id output =
     (case cr_id output of
        None \<Rightarrow>
          return_io (Inr (output\<lparr>cr_readback_error :=
            Some (''accepted '' @ family_label family @ '' response had no id for readback'')\<rparr>))
      | Some i \<Rightarrow>
          (case validate_network_id i of
             Inl err \<Rightarrow> return_io (Inr (output\<lparr>cr_readback_error := Some (show_mcp_error rt err)\<rparr>))
           | Inr _ \<Rightarrow>
               (\<lambda>s. case timed_readback rt started
                        (on_world (configuration_observation dec rt family site i)) s of
                      (outcome, s') \<Rightarrow>
                        (Inr (configuration_read_back family operation accepted_id i outcome output), s'))))"

definition configuration_write ::
  "(string \<times> json) list decoder \<Rightarrow> ('e, 'x) tool_runtime_scheme \<Rightarrow> configuration_family \<Rightarrow> policy_write_operation
     \<Rightarrow> string option \<Rightarrow> json option \<Rightarrow> bool \<Rightarrow> bool \<Rightarrow> ('e, configuration_result) tool" where
  "configuration_write dec rt family operation rid requested force confirm s0 =
     bind_io (return_io (check_configuration rt operation rid requested force)) (\<lambda>_.
       let started = instant_now rt s0;
           output = planned_configuration operation rid requested force
       in if \<not> confirm then return_io (Inr output)
          else
            bind_io (resolve_site rt) (\<lambda>site.
            bind_io (submit_configuration rt family operation rid requested force site) (\<lambda>(status, body).
              let accepted_id = accepted_configuration_id (ext_value (integration rt)) body
              in observe_configuration dec rt family operation started site accepted_id
                   (submitted_configuration rt accepted_id status body output)))) s0"

text \<open>The inputs of the two tools differ in the names of their members and the type of the request.\<close>

record 'r configure_input =
  cf_operation :: policy_write_operation
  cf_id :: "string option"
  cf_body :: "'r option"
  cf_force :: bool
  cf_confirm :: bool

definition configuration_outcome ::
  "configuration_family \<Rightarrow> ('r \<Rightarrow> json) \<Rightarrow> (json \<Rightarrow> string + 'r configure_input) \<Rightarrow> (string \<times> json) list decoder
     \<Rightarrow> ('e, 'x) tool_runtime_scheme \<Rightarrow> params \<Rightarrow> ('e, configuration_result) tool" where
  "configuration_outcome family ser from_value dec rt ps =
     bind_io (return_io (parse from_value ps)) (\<lambda>input.
       configuration_write dec rt family (cf_operation input) (cf_id input) (map_option ser (cf_body input))
         (cf_force input) (cf_confirm input))"

definition networks_configure where
  "networks_configure ser from_value dec rt ps =
     map_io (configuration_call_result rt) (configuration_outcome Network ser from_value dec rt ps)"

definition wifi_broadcasts_configure where
  "wifi_broadcasts_configure ser from_value dec rt ps =
     map_io (configuration_call_result rt) (configuration_outcome WifiBroadcast ser from_value dec rt ps)"

section \<open>Port forwards and WLANs of the legacy API\<close>

datatype legacy_family = PortForwardFamily | WlanFamily

primrec legacy_label :: "legacy_family \<Rightarrow> string" where
  "legacy_label PortForwardFamily = ''port-forward''"
| "legacy_label WlanFamily = ''WLAN''"

record port_forward_configuration =
  pfc_id :: "string option"
  pfc_attr_hidden :: "bool option"
  pfc_attr_hidden_id :: "string option"
  pfc_attr_no_delete :: "bool option"
  pfc_attr_no_edit :: "bool option"
  pfc_site_id :: "string option"
  pfc_name :: "string option"
  pfc_enabled :: "bool option"
  pfc_src :: "string option"
  pfc_fwd :: "string option"
  pfc_fwd_port :: "string option"
  pfc_dst_port :: "string option"
  pfc_proto :: "string option"
  pfc_destination_ip :: "string option"
  pfc_log :: "bool option"
  pfc_pfwd_interface :: "string option"

definition port_forward_configuration_json :: "port_forward_configuration \<Rightarrow> json" where
  "port_forward_configuration_json c =
     JObj (set_fields
       [(''_id'', map_option JStr (pfc_id c)), (''attr_hidden'', map_option JBool (pfc_attr_hidden c)),
        (''attr_hidden_id'', map_option JStr (pfc_attr_hidden_id c)),
        (''attr_no_delete'', map_option JBool (pfc_attr_no_delete c)),
        (''attr_no_edit'', map_option JBool (pfc_attr_no_edit c)), (''site_id'', map_option JStr (pfc_site_id c)),
        (''name'', map_option JStr (pfc_name c)), (''enabled'', map_option JBool (pfc_enabled c)),
        (''src'', map_option JStr (pfc_src c)), (''fwd'', map_option JStr (pfc_fwd c)),
        (''fwd_port'', map_option JStr (pfc_fwd_port c)), (''dst_port'', map_option JStr (pfc_dst_port c)),
        (''proto'', map_option JStr (pfc_proto c)), (''destination_ip'', map_option JStr (pfc_destination_ip c)),
        (''log'', map_option JBool (pfc_log c)), (''pfwd_interface'', map_option JStr (pfc_pfwd_interface c))])"

text \<open>
  The result is built as a JSON object, shaped, and passed through \<open>LegacyConfigurationResult\<close>, which
  keeps its own members and drops the null ones.
\<close>

definition legacy_parts :: "string list" where
  "legacy_parts = [''response'', ''requested'', ''responseBody'', ''after'', ''readbackError'']"

definition legacy_members :: "string list" where
  "legacy_members =
     [''response'', ''responseInContent'', ''offset'', ''limit'', ''totalCount'', ''nextOffset'', ''operation'', ''id'',
      ''requested'', ''requestedInContent'', ''submitted'', ''responseStatus'', ''responseBody'',
      ''responseBodyInContent'', ''after'', ''afterInContent'', ''verified'', ''verifiedAbsent'', ''readbackError'',
      ''readbackErrorInContent'']"

definition legacy_result :: "('e, 'x) tool_runtime_scheme \<Rightarrow> (string \<times> json) list \<Rightarrow> call_result" where
  "legacy_result rt output =
     (case fold (spill_part rt) legacy_parts (JObj output, []) of
        (v, content) \<Rightarrow>
          (structured (JObj (filter (\<lambda>(k, x). k \<in> set legacy_members \<and> \<not> jnull x)
             (case v of JObj m \<Rightarrow> m | _ \<Rightarrow> []))))\<lparr>extra_content := content\<rparr>)"

definition null_or :: "('a \<Rightarrow> json) \<Rightarrow> 'a option \<Rightarrow> json" where
  "null_or f v = (case v of None \<Rightarrow> JNull | Some x \<Rightarrow> f x)"

definition validate_legacy_id :: "string \<Rightarrow> mcp_error + unit" where
  "validate_legacy_id rid =
     (if rid = [] \<or> 256 < length rid \<or> rid \<in> {''.'', ''..''}
      then Inl (InvalidParams ''id must be nonempty, non-dot, and at most 256 bytes'') else Inr ())"

definition validate_page :: "nat \<Rightarrow> mcp_error + unit" where
  "validate_page limit = (if limit = 0 then Inl (InvalidParams ''limit must be positive'') else Inr ())"

text \<open>The rows of an envelope or of a bare array, and the same response with other rows.\<close>

fun response_rows :: "json \<Rightarrow> json list option" where
  "response_rows (JArr rows) = Some rows"
| "response_rows v = Option.bind (jget ''data'' v) jarr"

fun with_rows :: "json \<Rightarrow> json list \<Rightarrow> json" where
  "with_rows (JArr _) rows = JArr rows"
| "with_rows (JObj m) rows = JObj (map_insert ''data'' (JArr rows) m)"
| "with_rows v rows = v"

definition legacy_page_output :: "json \<Rightarrow> json list \<Rightarrow> u32 \<Rightarrow> nat \<Rightarrow> (string \<times> json) list" where
  "legacy_page_output response rows requested_offset limit =
     (let available = length rows; offset = min (unat requested_offset) available;
          stop = min (saturating_add offset limit) available
      in set_fields
           [(''response'', Some (with_rows response (take (stop - offset) (drop offset rows)))),
            (''offset'', Some (word_json requested_offset)), (''limit'', Some (jnat limit)),
            (''totalCount'', Some (jnat available)),
            (''nextOffset'', Some (null_or jnat (then_some (stop < available) stop)))])"

definition legacy_page ::
  "('e, 'x) tool_runtime_scheme \<Rightarrow> json \<Rightarrow> u32 \<Rightarrow> nat \<Rightarrow> ('e, call_result) tool" where
  "legacy_page rt response requested_offset limit =
     bind_io (expect ''decoded legacy envelope'' (response_rows response)) (\<lambda>rows.
       return_io (Inr (legacy_result rt (legacy_page_output response rows requested_offset limit))))"

definition legacy_list ::
  "(json \<Rightarrow> string + u32 \<times> nat) \<Rightarrow> (('e, 'x) tool_runtime_scheme \<Rightarrow> 'e world \<Rightarrow> (api_error + json) \<times> 'e world)
     \<Rightarrow> ('e, 'x) tool_runtime_scheme \<Rightarrow> params \<Rightarrow> ('e, call_result) tool" where
  "legacy_list from_value records rt ps =
     bind_io (return_io (parse from_value ps)) (\<lambda>(offset, limit).
     bind_io (return_io (validate_page limit)) (\<lambda>_.
     bind_io (upstream (records rt)) (\<lambda>response. legacy_page rt response offset limit)))"

definition port_forward_list where
  "port_forward_list from_value =
     legacy_list from_value (\<lambda>rt. port_forward_records (dec_envelope rt) (legacy rt) (legacy_site rt))"

definition wlans_list where
  "wlans_list from_value = legacy_list from_value (\<lambda>rt. wlan_records (dec_envelope rt) (legacy rt) (legacy_site rt))"

definition legacy_status ::
  "(json \<Rightarrow> string + string) \<Rightarrow> (('e, 'x) tool_runtime_scheme \<Rightarrow> string \<Rightarrow> 'e world \<Rightarrow> (api_error + json) \<times> 'e world)
     \<Rightarrow> ('e, 'x) tool_runtime_scheme \<Rightarrow> params \<Rightarrow> ('e, call_result) tool" where
  "legacy_status from_value one rt ps =
     bind_io (return_io (parse from_value ps)) (\<lambda>rid.
     bind_io (return_io (validate_legacy_id rid)) (\<lambda>_.
       map_io (\<lambda>response. legacy_result rt [(''response'', response)]) (upstream (one rt rid))))"

definition port_forward_status where
  "port_forward_status from_value =
     legacy_status from_value (\<lambda>rt. port_forward_record (dec_envelope rt) (legacy rt) (legacy_site rt))"

definition wlans_status where
  "wlans_status from_value = legacy_status from_value (\<lambda>rt. wlan_record (dec_envelope rt) (legacy rt) (legacy_site rt))"

datatype wlan_group_kind = UserGroups | WlanGroups | ApGroups

definition group_records ::
  "json list decoder \<Rightarrow> ('e, 'x) tool_runtime_scheme \<Rightarrow> wlan_group_kind \<Rightarrow> 'e world \<Rightarrow> (api_error + json) \<times> 'e world" where
  "group_records dec rt k =
     (case k of
        UserGroups \<Rightarrow> user_groups (dec_envelope rt) (legacy rt) (legacy_site rt)
      | WlanGroups \<Rightarrow> wlan_groups (dec_envelope rt) (legacy rt) (legacy_site rt)
      | ApGroups \<Rightarrow> ap_groups dec (legacy rt) (legacy_site rt))"

definition wlan_groups_list ::
  "(json \<Rightarrow> string + wlan_group_kind \<times> u32 \<times> nat) \<Rightarrow> json list decoder \<Rightarrow> ('e, 'x) tool_runtime_scheme \<Rightarrow> params
     \<Rightarrow> ('e, call_result) tool" where
  "wlan_groups_list from_value dec rt ps =
     bind_io (return_io (parse from_value ps)) (\<lambda>(k, offset, limit).
     bind_io (return_io (validate_page limit)) (\<lambda>_.
     bind_io (upstream (group_records dec rt k)) (\<lambda>response. legacy_page rt response offset limit)))"

record legacy_request =
  lr_operation :: policy_write_operation
  lr_id :: "string option"
  lr_requested :: "json option"
  lr_confirm :: bool
  lr_family :: legacy_family

definition has_configuration :: "json option \<Rightarrow> bool" where
  "has_configuration requested \<longleftrightarrow>
     (case requested of None \<Rightarrow> False | Some v \<Rightarrow> (case jobj v of None \<Rightarrow> False | Some m \<Rightarrow> m \<noteq> []))"

definition legacy_shape :: "legacy_request \<Rightarrow> bool" where
  "legacy_shape req \<longleftrightarrow>
     (case lr_operation req of
        Create \<Rightarrow> lr_id req = None \<and> has_configuration (lr_requested req)
      | Update \<Rightarrow> lr_id req \<noteq> None \<and> has_configuration (lr_requested req)
      | Delete \<Rightarrow> lr_id req \<noteq> None \<and> lr_requested req = None)"

definition legacy_validate :: "('e, 'x) tool_runtime_scheme \<Rightarrow> legacy_request \<Rightarrow> mcp_error + unit" where
  "legacy_validate rt req =
     bind_res (case lr_id req of None \<Rightarrow> Inr () | Some i \<Rightarrow> validate_legacy_id i) (\<lambda>_.
       if \<not> legacy_shape req
       then Inl (InvalidParams (''create requires configuration without id; update requires id and configuration; '' @
              ''delete requires id without configuration''))
       else if (case lr_requested req of None \<Rightarrow> False | Some body \<Rightarrow> oversized rt body)
       then Inl (InvalidParams ''configuration exceeds the 1 MiB request bound'') else Inr ())"

definition legacy_submit :: "('e, 'x) tool_runtime_scheme \<Rightarrow> legacy_request \<Rightarrow> ('e, nat \<times> bytes) tool" where
  "legacy_submit rt req =
     (case lr_operation req of
        Create \<Rightarrow>
          bind_io (expect ''validated configuration'' (lr_requested req)) (\<lambda>body.
            case lr_family req of
              PortForwardFamily \<Rightarrow> upstream (create_port_forward (dec_envelope rt) (legacy rt) (legacy_site rt) body)
            | WlanFamily \<Rightarrow> upstream (create_wlan (dec_envelope rt) (legacy rt) (legacy_site rt) body))
      | Update \<Rightarrow>
          bind_io (expect ''validated id'' (lr_id req)) (\<lambda>i.
          bind_io (expect ''validated configuration'' (lr_requested req)) (\<lambda>body.
            case lr_family req of
              PortForwardFamily \<Rightarrow> upstream (configure_port_forward (dec_envelope rt) (legacy rt) (legacy_site rt) i body)
            | WlanFamily \<Rightarrow> upstream (configure_wlan (dec_envelope rt) (legacy rt) (legacy_site rt) i body)))
      | Delete \<Rightarrow>
          bind_io (expect ''validated id'' (lr_id req)) (\<lambda>i.
            case lr_family req of
              PortForwardFamily \<Rightarrow> upstream (delete_port_forward (dec_envelope rt) (legacy rt) (legacy_site rt) i)
            | WlanFamily \<Rightarrow> upstream (delete_wlan (dec_envelope rt) (legacy rt) (legacy_site rt) i)))"

definition configuration_record ::
  "('e, 'x) tool_runtime_scheme \<Rightarrow> legacy_family \<Rightarrow> string \<Rightarrow> 'e world \<Rightarrow> (api_error + json) \<times> 'e world" where
  "configuration_record rt family rid =
     (case family of
        PortForwardFamily \<Rightarrow> port_forward_record (dec_envelope rt) (legacy rt) (legacy_site rt) rid
      | WlanFamily \<Rightarrow> wlan_record (dec_envelope rt) (legacy rt) (legacy_site rt) rid)"

definition legacy_row_id :: "json \<Rightarrow> string option" where
  "legacy_row_id row = Option.bind (jget ''_id'' row) jstr"

definition legacy_accepted_id :: "json \<Rightarrow> string option" where
  "legacy_accepted_id answer =
     (case Option.bind (jget ''data'' answer) jarr of Some [row] \<Rightarrow> legacy_row_id row | _ \<Rightarrow> None)"

fun is_legacy_not_found :: "api_error \<Rightarrow> bool" where
  "is_legacy_not_found (Status status _) \<longleftrightarrow> status = 404"
| "is_legacy_not_found (Rejected status _ _) \<longleftrightarrow> status = Some 404"
| "is_legacy_not_found _ \<longleftrightarrow> False"

definition legacy_row_verified :: "string \<Rightarrow> string option \<Rightarrow> json option \<Rightarrow> json list \<Rightarrow> bool" where
  "legacy_row_verified rid accepted_id requested rows \<longleftrightarrow>
     (case rows of
        [row] \<Rightarrow>
          legacy_row_id row = Some rid \<and> (accepted_id = None \<or> accepted_id = Some rid)
          \<and> (case requested of Some body \<Rightarrow> requested_json_matches body row | None \<Rightarrow> False)
      | _ \<Rightarrow> False)"

text \<open>The rows of a record read are \<open>expect\<close>ed; \<open>legacy_record_envelope\<close> has checked them.\<close>

definition legacy_read_back ::
  "legacy_request \<Rightarrow> string option \<Rightarrow> string \<Rightarrow> (api_error + json) timed \<Rightarrow> (string \<times> json) list
     \<Rightarrow> mcp_error + (string \<times> json) list" where
  "legacy_read_back req accepted_id rid outcome output =
     (case outcome of
        Skipped \<Rightarrow>
          Inr (map_insert ''readbackError''
            (JStr (legacy_label (lr_family req) @ '' readback skipped near request deadline'')) output)
      | TimedOut \<Rightarrow>
          Inr (map_insert ''readbackError'' (JStr (legacy_label (lr_family req) @ '' readback timed out'')) output)
      | Finished (Inr after) \<Rightarrow>
          bind_res (ok_or (InternalError ''panicked: decoded legacy envelope'') (Option.bind (jget ''data'' after) jarr))
            (\<lambda>rows.
              Inr (map_insert ''after'' after
                (if lr_operation req = Delete then map_insert ''verifiedAbsent'' (JBool (rows = [])) output
                 else map_insert ''verified''
                        (JBool (legacy_row_verified rid accepted_id (lr_requested req) rows)) output)))
      | Finished (Inl err) \<Rightarrow>
          (if is_legacy_not_found err \<and> lr_operation req = Delete
           then Inr (map_insert ''readbackError'' (JStr (render err)) (map_insert ''verifiedAbsent'' (JBool True) output))
           else Inr (map_insert ''readbackError'' (JStr (render err)) output)))"

definition planned_legacy :: "legacy_request \<Rightarrow> (string \<times> json) list" where
  "planned_legacy req =
     set_fields
       [(''operation'', Some (JStr (operation_word (lr_operation req)))), (''id'', Some (null_or JStr (lr_id req))),
        (''requested'', Some (null_or id (lr_requested req))), (''submitted'', Some (JBool False))]"

definition observe_legacy ::
  "('e, 'x) tool_runtime_scheme \<Rightarrow> legacy_request \<Rightarrow> instant \<Rightarrow> string option \<Rightarrow> (string \<times> json) list
     \<Rightarrow> ('e, (string \<times> json) list) tool" where
  "observe_legacy rt req started accepted_id output =
     (case (case lr_id req of Some i \<Rightarrow> Some i | None \<Rightarrow> accepted_id) of
        None \<Rightarrow>
          return_io (Inr (map_insert ''readbackError''
            (JStr (''accepted response contains no single '' @ legacy_label (lr_family req) @ '' identifier''))
            output))
      | Some i \<Rightarrow>
          (let output = map_insert ''id'' (JStr i) output
           in case validate_legacy_id i of
                Inl err \<Rightarrow> return_io (Inr (map_insert ''readbackError'' (JStr (show_mcp_error rt err)) output))
              | Inr _ \<Rightarrow>
                  (\<lambda>s. case timed_readback rt started (on_world (configuration_record rt (lr_family req) i)) s of
                         (outcome, s') \<Rightarrow> (legacy_read_back req accepted_id i outcome output, s'))))"

definition legacy_configuration_write ::
  "('e, 'x) tool_runtime_scheme \<Rightarrow> legacy_request \<Rightarrow> ('e, (string \<times> json) list) tool" where
  "legacy_configuration_write rt req s0 =
     bind_io (return_io (legacy_validate rt req)) (\<lambda>_.
       let started = instant_now rt s0
       in if \<not> lr_confirm req then return_io (Inr (planned_legacy req))
          else
            bind_io (legacy_submit rt req) (\<lambda>(status, body).
            bind_io (expect ''validated legacy envelope''
                       (case ext_value (legacy rt) body of Inr v \<Rightarrow> Some v | Inl _ \<Rightarrow> None)) (\<lambda>answer.
              let output = fold (\<lambda>(k, v). map_insert k v)
                    [(''submitted'', JBool True), (''responseStatus'', jnat status),
                     (''responseBody'', JStr (from_utf8_lossy body))] (planned_legacy req);
                  accepted_id = legacy_accepted_id answer
              in observe_legacy rt req started accepted_id output))) s0"

record 'r legacy_configure_input =
  lci_operation :: policy_write_operation
  lci_id :: "string option"
  lci_configuration :: "'r option"
  lci_confirm :: bool

definition legacy_configuration_outcome ::
  "legacy_family \<Rightarrow> ('r \<Rightarrow> json) \<Rightarrow> (json \<Rightarrow> string + 'r legacy_configure_input) \<Rightarrow> ('e, 'x) tool_runtime_scheme
     \<Rightarrow> params \<Rightarrow> ('e, (string \<times> json) list) tool" where
  "legacy_configuration_outcome family ser from_value rt ps =
     bind_io (return_io (parse from_value ps)) (\<lambda>input.
       legacy_configuration_write rt
         \<lparr>lr_operation = lci_operation input, lr_id = lci_id input,
          lr_requested = map_option ser (lci_configuration input), lr_confirm = lci_confirm input, lr_family = family\<rparr>)"

definition port_forward_configure where
  "port_forward_configure from_value rt ps =
     map_io (legacy_result rt)
       (legacy_configuration_outcome PortForwardFamily port_forward_configuration_json from_value rt ps)"

definition wlans_configure where
  "wlans_configure ser from_value rt ps =
     map_io (legacy_result rt) (legacy_configuration_outcome WlanFamily ser from_value rt ps)"

section \<open>Writes\<close>

lemma execute_request_extends:
  "extends (if rq_method request = GET then 0 else 1) w (snd (execute_request_bytes cl cls request w))"
  using execute_request_bytes_snd [of cl cls request w] by (auto simp: extends_def)

interpretation ap_group_attempt: reading_attempt "execute_ap_groups dec cl site"
  for dec :: "json list decoder" and cl :: "('e, 'x) legacy_client_scheme" and site
proof unfold_locales
  fix w :: "'e world"
  have "extends 0 w (snd (execute_request_bytes cl IdempotentRead
          \<lparr>rq_method = GET, rq_url = u, rq_headers = accept_json, rq_body = None\<rparr> w))" for u
    using execute_request_extends [of "\<lparr>rq_method = GET, rq_url = u, rq_headers = accept_json, rq_body = None\<rparr>" w] by simp
  then show "extends 0 w (snd (execute_ap_groups dec cl site w))"
    by (simp add: execute_ap_groups_def snd_bind_io_pure split_beta split: option.split sum.split)
qed

lemma read_envelope_extends: "extends 0 w (snd (read_envelope dec cl GET site tail body w))"
  unfolding read_envelope_def by (subst snd_bind_io_pure) (simp_all add: legacy_get_extends split_beta)


lemma configuration_reads_extend [io_bounds]:
  "extends 0 w (snd (network_records ic site pg flt w))"
  "extends 0 w (snd (network_record ic site rid w))"
  "extends 0 w (snd (network_references ic site rid w))"
  "extends 0 w (snd (wifi_broadcast dec ic site rid w))"
  by (simp_all add: network_records_def network_record_def network_references_def wifi_broadcast_def
      get_json_extends get_with_message_extends)

lemma legacy_records_extend [io_bounds]:
  "extends 0 w (snd (port_forward_records dec cl site w))"
  "extends 0 w (snd (port_forward_record dec cl site rid w))"
  "extends 0 w (snd (wlan_records dec cl site w))"
  "extends 0 w (snd (wlan_record dec cl site rid w))"
  "extends 0 w (snd (wlan_groups dec cl site w))"
  "extends 0 w (snd (user_groups dec cl site w))"
  "extends 0 w (snd (ap_groups adec cl site w))"
  by (simp_all add: port_forward_records_def port_forward_record_def wlan_records_def wlan_record_def wlan_groups_def
      user_groups_def read_record_envelope_def read_envelope_extends ap_groups_def ap_group_attempt.read_with_reauth_extends)

lemma configuration_writes_extend [io_bounds]:
  "extends 1 w (snd (create_network ic site body w))"
  "extends 1 w (snd (replace_network ic site rid body w))"
  "extends 1 w (snd (delete_network ic site rid force w))"
  "extends 1 w (snd (create_wifi_broadcast ic site body w))"
  "extends 1 w (snd (replace_wifi_broadcast ic site rid body w))"
  "extends 1 w (snd (delete_wifi_broadcast ic site rid force w))"
  by (simp_all only: create_network_def replace_network_def delete_network_def create_wifi_broadcast_def
      replace_wifi_broadcast_def delete_wifi_broadcast_def accepted_json_extends accepted_delete_extends
      http_method.distinct not_False_eq_True)

lemma legacy_configuration_writes_extend [io_bounds]:
  "extends 1 w (snd (create_port_forward dec cl site body w))"
  "extends 1 w (snd (configure_port_forward dec cl site rid body w))"
  "extends 1 w (snd (delete_port_forward dec cl site rid w))"
  "extends 1 w (snd (create_wlan dec cl site body w))"
  "extends 1 w (snd (configure_wlan dec cl site rid body w))"
  "extends 1 w (snd (delete_wlan dec cl site rid w))"
  by (simp_all add: create_port_forward_def configure_port_forward_def delete_port_forward_def create_wlan_def
      configure_wlan_def delete_wlan_def write_with_status_def legacy_write_extends [unfolded One_nat_def])

lemma submit_configuration_writes: "writes_within 1 (submit_configuration rt family operation rid requested force site)"
  by (cases operation; cases family)
    (simp_all add: submit_configuration_def del: One_nat_def,
     (intro writes_within_read_bind expect_reads writes_within_upstream io_bounds)+)

lemma legacy_submit_writes: "writes_within 1 (legacy_submit rt req)"
  by (cases "lr_operation req"; cases "lr_family req")
    (simp_all add: legacy_submit_def del: One_nat_def,
     (intro writes_within_read_bind expect_reads writes_within_upstream io_bounds)+)

lemma configuration_observation_reads: "writes_within 0 (on_world (configuration_observation dec rt family site rid))"
  by (cases family) (simp_all add: configuration_observation_def writes_within_on_world io_bounds)

lemma configuration_record_reads: "writes_within 0 (on_world (configuration_record rt family rid))"
  by (cases family) (simp_all add: configuration_record_def writes_within_on_world io_bounds)

lemma writes_within_sum:
  "(\<And>e. x = Inl e \<Longrightarrow> writes_within n (f e)) \<Longrightarrow> (\<And>a. x = Inr a \<Longrightarrow> writes_within n (g a))
     \<Longrightarrow> writes_within n (case x of Inl e \<Rightarrow> f e | Inr a \<Rightarrow> g a)"
  by (cases x) simp_all

lemma observe_configuration_reads:
  "writes_within n (observe_configuration dec rt family operation started site accepted_id output)"
  unfolding observe_configuration_def
  by (intro handler_rules writes_within_sum writes_within_mono [OF writes_within_timed_tail [OF configuration_observation_reads]] le0)

lemma observe_legacy_reads: "writes_within n (observe_legacy rt req started accepted_id output)"
  unfolding observe_legacy_def
  by (intro handler_rules writes_within_sum writes_within_mono [OF writes_within_timed_tail [OF configuration_record_reads]] le0)

lemmas configuration_steps =
  handler_rules client_read_steps observe_configuration_reads observe_legacy_reads
  submit_configuration_writes [THEN writes_within_write_bind]
  legacy_submit_writes [THEN writes_within_write_bind] expect_reads [THEN writes_within_read_bind]

lemma configuration_write_writes:
  "writes_within 1 (configuration_write dec rt family operation rid requested force confirm)"
  by (rule writes_withinI, unfold configuration_write_def, rule writes_withinD) (intro configuration_steps)

lemma configuration_outcome_writes: "writes_within 1 (configuration_outcome family ser from_value dec rt ps)"
  unfolding configuration_outcome_def by (intro handler_rules configuration_write_writes)

lemma legacy_configuration_write_writes: "writes_within 1 (legacy_configuration_write rt req)"
  by (rule writes_withinI, unfold legacy_configuration_write_def, rule writes_withinD) (intro configuration_steps)

lemma legacy_configuration_outcome_writes: "writes_within 1 (legacy_configuration_outcome family ser from_value rt ps)"
  unfolding legacy_configuration_outcome_def by (intro handler_rules legacy_configuration_write_writes)

lemma configuration_outcome_preview:
  assumes "parse from_value ps = Inr input" and "\<not> cf_confirm input"
  shows "writes_within 0 (configuration_outcome family ser from_value dec rt ps)"
proof -
  have "writes_within 0 (configuration_write dec rt family operation rid requested force (cf_confirm input))"
    for operation rid requested force
    by (rule writes_withinI, unfold configuration_write_def, rule writes_withinD)
      (intro handler_rules; use assms(2) in simp)
  then show ?thesis unfolding configuration_outcome_def by (intro writes_within_pure_bind) (simp add: assms(1))
qed

lemma legacy_configuration_outcome_preview:
  assumes "parse from_value ps = Inr input" and "\<not> lci_confirm input"
  shows "writes_within 0 (legacy_configuration_outcome family ser from_value rt ps)"
proof -
  have "writes_within 0 (legacy_configuration_write rt req)" if "\<not> lr_confirm req" for req
    by (rule writes_withinI, unfold legacy_configuration_write_def, rule writes_withinD)
      (intro handler_rules; use that in simp)
  then show ?thesis
    unfolding legacy_configuration_outcome_def by (intro writes_within_pure_bind) (use assms in simp)
qed

section \<open>What a verified configuration guarantees\<close>


lemma configuration_read_back_kept [simp]:
  "cr_id (configuration_read_back family operation accepted_id rid outcome output) = cr_id output"
  "cr_requested (configuration_read_back family operation accepted_id rid outcome output) = cr_requested output"
  by (simp_all add: configuration_read_back_def split: timed.split sum.split)




text \<open>A legacy outcome is an ordered map throughout, and only the read-back writes its verdict.\<close>

lemma planned_legacy_plain [simp]:
  "ordered_map (planned_legacy req)" "get ''verified'' (planned_legacy req) = None"
  by (simp_all add: planned_legacy_def ordered_set_fields get_set_fields del: get_eq_None)

lemma legacy_row_verified_iff:
  "legacy_row_verified rid accepted_id requested rows \<longleftrightarrow>
     (\<exists>row body. rows = [row] \<and> legacy_row_id row = Some rid \<and> (accepted_id = None \<or> accepted_id = Some rid)
        \<and> requested = Some body \<and> requested_json_matches body row)"
  by (auto simp: legacy_row_verified_def split: list.splits option.splits)

lemma jarr_eq_Some [simp]: "jarr v = Some xs \<longleftrightarrow> v = JArr xs"
  by (cases v) auto

lemma legacy_read_back_verified:
  assumes "legacy_read_back req accepted_id rid outcome output = Inr out" and "ordered_map output"
    and "get ''verified'' out = Some (JBool True)" and "get ''verified'' output = None"
  shows "\<exists>after row body. get ''after'' out = Some after \<and> jget ''data'' after = Some (JArr [row])
     \<and> get ''id'' out = get ''id'' output \<and> legacy_row_id row = Some rid
     \<and> lr_requested req = Some body \<and> requested_json_matches body row"
  using assms
  by (auto simp: legacy_read_back_def legacy_row_verified_iff bind_res_eq_Inr ok_or_def get_map_insert
      ordered_map_insert bind_eq_Some_conv split: timed.splits sum.splits if_splits option.splits simp del: get_eq_None)

lemma observe_legacy_verified:
  assumes "fst (observe_legacy rt req started accepted_id output s) = Inr out" and "ordered_map output"
    and "get ''verified'' out = Some (JBool True)" and "get ''verified'' output = None"
  shows "\<exists>i after row body. get ''id'' out = Some (JStr i) \<and> (lr_id req = None \<or> lr_id req = Some i)
     \<and> get ''after'' out = Some after \<and> jget ''data'' after = Some (JArr [row]) \<and> legacy_row_id row = Some i
     \<and> lr_requested req = Some body \<and> requested_json_matches body row"
proof (cases "case lr_id req of Some i \<Rightarrow> Some i | None \<Rightarrow> accepted_id")
  case None
  with assms show ?thesis by (auto simp: observe_legacy_def get_map_insert simp del: get_eq_None)
next
  case (Some i)
  let ?o = "map_insert ''id'' (JStr i) output"
  from assms(2,4) have o: "ordered_map ?o" "get ''verified'' ?o = None" "get ''id'' ?o = Some (JStr i)"
    by (simp_all add: ordered_map_insert get_map_insert del: get_eq_None)
  have "validate_legacy_id i = Inr ()"
    using assms(1,3) Some o
    by (cases "validate_legacy_id i") (auto simp: observe_legacy_def get_map_insert Let_def simp del: get_eq_None)
  with assms(1) Some obtain outcome where "legacy_read_back req accepted_id i outcome ?o = Inr out"
    by (auto simp: observe_legacy_def split_beta Let_def)
  from legacy_read_back_verified [OF this o(1) assms(3) o(2)] o(3) Some show ?thesis
    by (fastforce split: option.splits)
qed

lemma legacy_configuration_write_verified:
  assumes "fst (legacy_configuration_write rt req s) = Inr out" and "get ''verified'' out = Some (JBool True)"
  shows "lr_confirm req \<and> (\<exists>i after row body. get ''id'' out = Some (JStr i) \<and> (lr_id req = None \<or> lr_id req = Some i)
     \<and> get ''after'' out = Some after \<and> jget ''data'' after = Some (JArr [row]) \<and> legacy_row_id row = Some i
     \<and> lr_requested req = Some body \<and> requested_json_matches body row)"
proof -
  from assms obtain accepted_id status answer s' where
    confirm: "lr_confirm req"
    and run: "fst (observe_legacy rt req (instant_now rt s) accepted_id
           (map_insert ''responseBody'' (JStr answer) (map_insert ''responseStatus'' (jnat status)
              (map_insert ''submitted'' (JBool True) (planned_legacy req)))) s') = Inr out"
    by (auto simp: legacy_configuration_write_def fst_bind_io_Inr Let_def simp del: get_eq_None split: if_splits)
  from observe_legacy_verified [OF run _ assms(2)] confirm show ?thesis
    by (simp add: ordered_map_insert get_map_insert del: get_eq_None)
qed





text \<open>
  The configuration tools of the legacy API report a write as verified only when it was
  confirmed and the record envelope read back afterwards holds exactly one row, under the reported
  id, which carries everything the request sent.
\<close>

theorem verified_legacy_configuration:
  assumes "fst (legacy_configuration_outcome family ser from_value rt ps s) = Inr out"
    and "get ''verified'' out = Some (JBool True)"
  shows "\<exists>input body i after row. parse from_value ps = Inr input \<and> lci_confirm input \<and> lci_configuration input = Some body
     \<and> get ''id'' out = Some (JStr i) \<and> (lci_id input = None \<or> lci_id input = Some i)
     \<and> get ''after'' out = Some after \<and> jget ''data'' after = Some (JArr [row])
     \<and> legacy_row_id row = Some i \<and> requested_json_matches (ser body) row"
proof -
  from assms(1) obtain input where input: "parse from_value ps = Inr input"
    and run: "fst (legacy_configuration_write rt
         \<lparr>lr_operation = lci_operation input, lr_id = lci_id input, lr_requested = map_option ser (lci_configuration input),
          lr_confirm = lci_confirm input, lr_family = family\<rparr> s) = Inr out"
    by (auto simp: legacy_configuration_outcome_def fst_bind_io_Inr)
  from legacy_configuration_write_verified [OF run assms(2)] input show ?thesis by auto
qed


text \<open>A legacy console that answers every request with one port forward.\<close>

definition sample_forward :: json where
  "sample_forward = JObj [(''data'', JArr [JObj [(''_id'', JStr ''p1''), (''name'', JStr ''a'')]])]"

definition forward_runtime :: "unit tool_runtime" where
  "forward_runtime =
     (sample_runtime empty_ok [])\<lparr>legacy := (canned_client empty_ok)\<lparr>ext_value := (\<lambda>_. Inr sample_forward)\<rparr>\<rparr>"

theorem verified_legacy_configuration_witness:
  "\<exists>out. fst (legacy_configuration_outcome PortForwardFamily id
       (\<lambda>_. Inr \<lparr>lci_operation = Create, lci_id = None, lci_configuration = Some (JObj [(''name'', JStr ''a'')]),
          lci_confirm = True\<rparr>) forward_runtime \<lparr>arguments = None\<rparr> sample_state) = Inr out
     \<and> (\<exists>after row. get ''after'' out = Some after \<and> jget ''data'' after = Some (JArr [row])
          \<and> requested_json_matches (JObj [(''name'', JStr ''a'')]) row)"
proof -
  let ?fv = "\<lambda>_. Inr \<lparr>lci_operation = Create, lci_id = None, lci_configuration = Some (JObj [(''name'', JStr ''a'')]),
    lci_confirm = True\<rparr>"
  let ?run = "legacy_configuration_outcome PortForwardFamily id ?fv forward_runtime \<lparr>arguments = None\<rparr> sample_state"
  have "\<not> bad_id ''p1''" by code_simp
  then have "map_ok (get ''verified'') (fst ?run) = Inr (Some (JBool True))"
    by (simp add: legacy_configuration_outcome_def parse_def legacy_configuration_write_def legacy_validate_def
        legacy_shape_def has_configuration_def validate_legacy_id_def oversized_def planned_legacy_def set_fields_def
        null_or_def legacy_submit_def expect_def create_port_forward_def write_with_status_def
        legacy_accepted_id_def legacy_row_id_def observe_legacy_def configuration_record_def
        port_forward_record_def read_envelope_def legacy_record_envelope_def legacy_read_back_def
        legacy_row_verified_def forward_runtime_def sample_forward_def jnat_def echo_defs sample_run_defs)
  then obtain out where run: "fst ?run = Inr out" and ok: "get ''verified'' out = Some (JBool True)"
    by (auto simp: map_ok_def simp del: get_eq_None split: sum.splits)
  from verified_legacy_configuration [OF run ok] run show ?thesis by (auto simp: parse_def simp del: get_eq_None)
qed

end
