(* ===== verification/Tool_Search.thy ===== *)
theory Tool_Search
  imports Tool_Guests "HOL-Library.Product_Lexorder" "HOL-Library.Option_ord" "HOL-Library.Multiset"
begin

text \<open>
  The search tools of \<open>crates/unifi-mcp/src/tools.rs\<close> over connected clients and adopted devices
  (\<open>clients_search\<close>, \<open>devices_search\<close>, \<open>devices_status\<close>), with the counter selection of
  \<open>tools/traffic.rs\<close>. The theorems: the pages of a search, followed by their continuation
  offsets, are exactly the sorted matches; a selector that names an identifier is never answered by
  a record of the same name.
\<close>

section \<open>Rows of the controller\<close>

text \<open>
  The rows serde decodes. An \<open>i32\<close> is an integer, on which no arithmetic is done; a double is the
  JSON number serde writes for it, since it is only passed on.
\<close>

type_synonym f64 = json

record active_client =
  ac_mac :: "string option"
  ac_name :: "string option"
  ac_hostname :: "string option"
  ac_oui :: "string option"
  ac_ip :: "string option"
  ac_essid :: "string option"
  ac_vlan :: "16 word option"
  ac_network :: "string option"
  ac_ap_mac :: "string option"
  ac_channel :: "16 word option"
  ac_radio :: "string option"
  ac_signal :: "int option"
  ac_rssi :: "int option"
  ac_tx_bytes :: "u64 option"
  ac_rx_bytes :: "u64 option"
  ac_wired_tx_bytes :: "u64 option"
  ac_wired_rx_bytes :: "u64 option"
  ac_uptime :: "u64 option"
  ac_last_seen :: "u64 option"
  ac_is_wired :: "bool option"
  ac_use_fixedip :: "bool option"
  ac_fixed_ip :: "string option"

record device_summary =
  ds_id :: string
  ds_name :: "string option"
  ds_model :: "string option"
  ds_mac_address :: "string option"
  ds_ip_address :: "string option"
  ds_state :: "string option"
  ds_firmware_version :: "string option"

record device_port =
  port_idx :: "u32 option"
  port_state :: "string option"
  port_connector :: "string option"
  port_speed_mbps :: "u32 option"

record device_radio =
  radio_wlan_standard :: "string option"
  radio_frequency_g_hz :: "f64 option"
  radio_channel_width_m_hz :: "u32 option"
  radio_channel :: "u32 option"

record device_interfaces =
  di_ports :: "device_port list"
  di_radios :: "device_radio list"

text \<open>\<open>DeviceDetail\<close> repeats the fields of the summary and adds the interfaces.\<close>

record device_detail_record =
  dd_summary :: device_summary
  dd_interfaces :: "device_interfaces option"

record uplink_statistics =
  us_tx_rate_bps :: "u64 option"
  us_rx_rate_bps :: "u64 option"

record device_statistics_record =
  st_uptime_sec :: "u64 option"
  st_cpu_utilization_pct :: "f64 option"
  st_memory_utilization_pct :: "f64 option"
  st_uplink :: "uplink_statistics option"

text \<open>What serde decodes for these tools.\<close>

record inventory_decoders =
  dec_clients :: "active_client legacy_envelope decoder"
  dec_devices :: "device_summary page decoder"
  dec_detail :: "device_detail_record decoder"
  dec_statistics :: "device_statistics_record decoder"

section \<open>Counters\<close>

datatype coverage_status =
  CoverReported | CoverPartial | CoverEmpty | CoverUnrecognized | CoverUnsupported | CoverUnavailable

primrec coverage_word :: "coverage_status \<Rightarrow> string" where
  "coverage_word CoverReported = ''reported''"
| "coverage_word CoverPartial = ''partial''"
| "coverage_word CoverEmpty = ''empty''"
| "coverage_word CoverUnrecognized = ''unrecognized''"
| "coverage_word CoverUnsupported = ''unsupported''"
| "coverage_word CoverUnavailable = ''unavailable''"

record traffic_coverage =
  tc_status :: coverage_status
  tc_reason :: string
  tc_unrecognized_records :: nat

definition traffic_coverage_json :: "traffic_coverage \<Rightarrow> json" where
  "traffic_coverage_json c =
     JObj (set_fields
       [(''status'', Some (JStr (coverage_word (tc_status c)))), (''reason'', Some (JStr (tc_reason c))),
        (''unrecognizedRecords'', Some (jnat (tc_unrecognized_records c)))])"

record counter_semantics =
  sem_source :: string
  sem_unit :: string
  sem_scope :: string
  sem_direction :: string
  sem_window :: string
  sem_reset :: string
  sem_requested_start_ms :: "u64 option"
  sem_requested_end_ms :: "u64 option"

definition counter_semantics_json :: "counter_semantics \<Rightarrow> json" where
  "counter_semantics_json c =
     JObj (set_fields
       [(''source'', Some (JStr (sem_source c))), (''unit'', Some (JStr (sem_unit c))),
        (''scope'', Some (JStr (sem_scope c))), (''direction'', Some (JStr (sem_direction c))),
        (''window'', Some (JStr (sem_window c))), (''reset'', Some (JStr (sem_reset c))),
        (''requestedStartMs'', map_option word_json (sem_requested_start_ms c)),
        (''requestedEndMs'', map_option word_json (sem_requested_end_ms c))])"

definition semantics_client :: counter_semantics where
  "semantics_client =
     \<lparr>sem_source = ''stat/sta'', sem_unit = ''bytes'',
      sem_scope = ''Client connection counters; LAN versus WAN is not distinguished.'',
      sem_direction = ''Controller-reported rx/tx; client upload/download orientation is unverified.'',
      sem_window = ''No common measurement window; association uptime does not establish counter start.'',
      sem_reset = ''Not supplied by this source; do not assume lifetime or monthly totals.'',
      sem_requested_start_ms = None, sem_requested_end_ms = None\<rparr>"

definition semantics_dpi :: counter_semantics where
  "semantics_dpi =
     \<lparr>sem_source = ''stat/sitedpi'', sem_unit = ''bytes'',
      sem_scope = ''Site application counters; completeness and WAN-only scope are unverified.'',
      sem_direction = ''Controller-reported rx/tx; upload/download orientation is unverified.'',
      sem_window = ''Not supplied by this source; not comparable to a chosen WAN report window.'',
      sem_reset = ''Not supplied by this source; do not assume lifetime or monthly totals.'',
      sem_requested_start_ms = None, sem_requested_end_ms = None\<rparr>"

definition semantics_wan :: "u64 \<Rightarrow> u64 \<Rightarrow> counter_semantics" where
  "semantics_wan from_ms to_ms =
     \<lparr>sem_source = ''stat/report/hourly.site'', sem_unit = ''bytes'',
      sem_scope = ''Site WAN totals, without per-client attribution.'',
      sem_direction = ''WAN interface: rx is received, tx is transmitted.'',
      sem_window = ''Hourly controller buckets; edge buckets may be partial and missing hours are unknown.'',
      sem_reset = ''Hourly report buckets; underlying counter resets are not supplied.'',
      sem_requested_start_ms = Some from_ms, sem_requested_end_ms = Some to_ms\<rparr>"

record client_counter_coverage =
  cov_status :: coverage_status
  cov_fields :: string

definition client_counter_coverage_json :: "client_counter_coverage \<Rightarrow> json" where
  "client_counter_coverage_json c =
     JObj (set_fields [(''status'', Some (JStr (coverage_word (cov_status c)))), (''fields'', Some (JStr (cov_fields c)))])"

definition client_counters :: "active_client \<Rightarrow> u64 option \<times> u64 option \<times> client_counter_coverage" where
  "client_counters c =
     (let (tx, rx, names) =
            (if ac_is_wired c = Some True \<and> (ac_wired_tx_bytes c \<noteq> None \<or> ac_wired_rx_bytes c \<noteq> None)
             then (ac_wired_tx_bytes c, ac_wired_rx_bytes c, ''wired-tx_bytes, wired-rx_bytes'')
             else (ac_tx_bytes c, ac_rx_bytes c, ''tx_bytes, rx_bytes''));
          status = (case (tx, rx) of
                      (Some _, Some _) \<Rightarrow> CoverReported
                    | (None, None) \<Rightarrow> CoverUnavailable
                    | _ \<Rightarrow> CoverPartial)
      in (tx, rx, \<lparr>cov_status = status, cov_fields = names\<rparr>))"

section \<open>Filters, order and pages\<close>

definition validate_search_page :: "nat \<Rightarrow> mcp_error + unit" where
  "validate_search_page limit = (if limit = 0 then Inl (InvalidParams ''limit must be positive'') else Inr ())"

definition MAXIMUM_FILTER_LENGTH :: nat where
  "MAXIMUM_FILTER_LENGTH = 128"

definition validate_filter ::
  "('e, 'x) tool_runtime_scheme \<Rightarrow> string option \<Rightarrow> mcp_error + string option" where
  "validate_filter rt value =
     (case value of
        None \<Rightarrow> Inr None
      | Some raw \<Rightarrow>
          (let trimmed = trim raw
           in if trimmed = [] \<or> MAXIMUM_FILTER_LENGTH < length trimmed
              then Inl (InvalidParams ''filters must be 1-128 characters'')
              else Inr (Some (ext_lowercase (legacy rt) trimmed))))"

text \<open>\<open>usize\<close> values are natural numbers; \<open>saturating_add\<close> saturates at \<open>usize::MAX\<close>.\<close>

definition usize_max :: nat where
  "usize_max = 2 ^ 64 - 1"

definition next_offset :: "nat \<Rightarrow> nat \<Rightarrow> nat \<Rightarrow> nat option" where
  "next_offset offset returned matched =
     (let consumed = min (offset + returned) usize_max in then_some (consumed < matched) consumed)"

definition name_key :: "('e, 'x) tool_runtime_scheme \<Rightarrow> string option \<Rightarrow> string" where
  "name_key rt name = ext_lowercase (legacy rt) (case name of Some n \<Rightarrow> n | None \<Rightarrow> [])"

definition or_else :: "'a option \<Rightarrow> 'a option \<Rightarrow> 'a option" where
  "or_else a b = (case a of Some _ \<Rightarrow> a | None \<Rightarrow> b)"

primrec connection_word :: "bool option \<Rightarrow> string" where
  "connection_word None = ''unknown''"
| "connection_word (Some wired) = (if wired then ''wired'' else ''wireless'')"

definition haystack_matches :: "('e, 'x) tool_runtime_scheme \<Rightarrow> string option \<Rightarrow> string option list \<Rightarrow> bool" where
  "haystack_matches rt query haystacks \<longleftrightarrow>
     (case query of
        None \<Rightarrow> True
      | Some q \<Rightarrow> list_ex (\<lambda>value. contains q (ext_lowercase (legacy rt) value)) (List.map_filter id haystacks))"

definition word_matches :: "('e, 'x) tool_runtime_scheme \<Rightarrow> string option \<Rightarrow> string option \<Rightarrow> bool" where
  "word_matches rt wanted value \<longleftrightarrow>
     (case wanted of
        None \<Rightarrow> True
      | Some w \<Rightarrow> (case value of None \<Rightarrow> False | Some v \<Rightarrow> ext_lowercase (legacy rt) v = w))"

definition client_matches ::
  "('e, 'x) tool_runtime_scheme \<Rightarrow> string option \<Rightarrow> string option \<Rightarrow> 16 word option \<Rightarrow> active_client \<Rightarrow> bool" where
  "client_matches rt query ssid vlan c \<longleftrightarrow>
     haystack_matches rt query [ac_name c, ac_hostname c, ac_mac c, ac_ip c]
     \<and> word_matches rt ssid (ac_essid c)
     \<and> (case vlan of None \<Rightarrow> True | Some v \<Rightarrow> ac_vlan c = Some v)"

datatype connection_kind = Wired | Wireless

definition connection_matches :: "connection_kind option \<Rightarrow> active_client \<Rightarrow> bool" where
  "connection_matches connection c \<longleftrightarrow>
     (case connection of
        None \<Rightarrow> True
      | Some Wired \<Rightarrow> ac_is_wired c = Some True
      | Some Wireless \<Rightarrow> ac_is_wired c = Some False)"

definition device_matches ::
  "('e, 'x) tool_runtime_scheme \<Rightarrow> string option \<Rightarrow> string option \<Rightarrow> device_summary \<Rightarrow> bool" where
  "device_matches rt query state d \<longleftrightarrow>
     haystack_matches rt query [ds_name d, ds_model d, ds_mac_address d, ds_ip_address d]
     \<and> word_matches rt state (ds_state d)"

text \<open>\<open>sort_by\<close> is stable, and orders by the pair of keys.\<close>

definition client_key :: "('e, 'x) tool_runtime_scheme \<Rightarrow> active_client \<Rightarrow> string \<times> string option" where
  "client_key rt c = (name_key rt (or_else (ac_name c) (ac_hostname c)), ac_mac c)"

definition sort_clients :: "('e, 'x) tool_runtime_scheme \<Rightarrow> active_client list \<Rightarrow> active_client list" where
  "sort_clients rt = sort_key (client_key rt)"

definition device_key :: "('e, 'x) tool_runtime_scheme \<Rightarrow> device_summary \<Rightarrow> string \<times> string" where
  "device_key rt d = (name_key rt (ds_name d), ds_id d)"

section \<open>Inventory of devices\<close>

definition DEVICE_INVENTORY_CEILING :: u64 where
  "DEVICE_INVENTORY_CEILING = 1000"

text \<open>The loop is the one of \<open>paged_gather\<close> from offset 0, with pages of 100 rows.\<close>

definition device_inventory ::
  "inventory_decoders \<Rightarrow> ('e, 'x) tool_runtime_scheme \<Rightarrow> ('e, device_summary list \<times> bool) tool" where
  "device_inventory dec rt =
     bind_io (resolve_site rt) (\<lambda>site.
       paged_gather 0 DEVICE_INVENTORY_CEILING
         (\<lambda>offset. devices (dec_devices dec) (integration rt) site \<lparr>req_offset = offset, req_limit = 100\<rparr>))"

text \<open>A \<open>HashMap\<close> collected from pairs keeps the last pair of a key.\<close>

definition names_by_mac :: "device_summary list \<Rightarrow> string \<Rightarrow> string option" where
  "names_by_mac ds =
     map_of (rev (List.map_filter
       (\<lambda>d. case (ds_mac_address d, ds_name d) of
              (Some mac, Some name) \<Rightarrow> Some (normalize_mac mac, name)
            | _ \<Rightarrow> None) ds))"

definition device_names_by_mac ::
  "inventory_decoders \<Rightarrow> ('e, 'x) tool_runtime_scheme \<Rightarrow> ('e, (string \<Rightarrow> string option) \<times> bool) tool" where
  "device_names_by_mac dec rt =
     map_io (\<lambda>(ds, truncated). (names_by_mac ds, truncated)) (device_inventory dec rt)"

text \<open>The access point names are read only when a row needs one.\<close>

definition ap_lookup ::
  "inventory_decoders \<Rightarrow> ('e, 'x) tool_runtime_scheme \<Rightarrow> active_client list
     \<Rightarrow> ('e, (string \<Rightarrow> string option) \<times> bool) tool" where
  "ap_lookup dec rt rows =
     (if list_ex (\<lambda>c. ac_ap_mac c \<noteq> None) rows then device_names_by_mac dec rt
      else return_io (Inr (\<lambda>_. None, False)))"

definition resolved_ap_name :: "(string \<Rightarrow> string option) \<Rightarrow> active_client \<Rightarrow> string option" where
  "resolved_ap_name names c = Option.bind (ac_ap_mac c) (\<lambda>mac. names (normalize_mac mac))"

section \<open>Searching clients\<close>

datatype detail_level = Concise | Full

record clients_search_input =
  csi_query :: "string option"
  csi_ssid :: "string option"
  csi_vlan :: "16 word option"
  csi_connection :: "connection_kind option"
  csi_offset :: nat
  csi_limit :: nat
  csi_detail :: detail_level

record client_row_view =
  cv_counter_coverage :: "client_counter_coverage option"
  cv_name :: "string option"
  cv_hostname :: "string option"
  cv_mac :: "string option"
  cv_ip :: "string option"
  cv_connection :: string
  cv_ssid :: "string option"
  cv_vlan :: "16 word option"
  cv_ap_name :: "string option"
  cv_signal_dbm :: "int option"
  cv_network :: "string option"
  cv_oui :: "string option"
  cv_uptime_seconds :: "u64 option"
  cv_tx_bytes :: "u64 option"
  cv_rx_bytes :: "u64 option"
  cv_fixed_ip :: "string option"

definition client_row_json :: "client_row_view \<Rightarrow> json" where
  "client_row_json c =
     JObj (set_fields
       [(''counterCoverage'', map_option client_counter_coverage_json (cv_counter_coverage c)),
        (''name'', Some (nullable JStr (cv_name c))), (''hostname'', Some (nullable JStr (cv_hostname c))),
        (''mac'', Some (nullable JStr (cv_mac c))), (''ip'', Some (nullable JStr (cv_ip c))),
        (''connection'', Some (JStr (cv_connection c))), (''ssid'', Some (nullable JStr (cv_ssid c))),
        (''vlan'', Some (nullable word_json (cv_vlan c))), (''apName'', map_option JStr (cv_ap_name c)),
        (''signalDbm'', map_option jint (cv_signal_dbm c)), (''network'', map_option JStr (cv_network c)),
        (''oui'', map_option JStr (cv_oui c)), (''uptimeSeconds'', map_option word_json (cv_uptime_seconds c)),
        (''txBytes'', map_option word_json (cv_tx_bytes c)), (''rxBytes'', map_option word_json (cv_rx_bytes c)),
        (''fixedIp'', map_option JStr (cv_fixed_ip c))])"

definition when_full :: "bool \<Rightarrow> 'a option \<Rightarrow> 'a option" where
  "when_full full v = (if full then v else None)"

definition client_row :: "(string \<Rightarrow> string option) \<Rightarrow> detail_level \<Rightarrow> active_client \<Rightarrow> client_row_view" where
  "client_row ap_names detail c =
     (let full = (detail = Full);
          (tx, rx, coverage) = client_counters c
      in \<lparr>cv_counter_coverage = then_some full coverage, cv_name = or_else (ac_name c) (ac_hostname c),
          cv_hostname = ac_hostname c, cv_mac = ac_mac c, cv_ip = ac_ip c,
          cv_connection = connection_word (ac_is_wired c), cv_ssid = ac_essid c, cv_vlan = ac_vlan c,
          cv_ap_name = resolved_ap_name ap_names c, cv_signal_dbm = when_full full (ac_signal c),
          cv_network = when_full full (ac_network c), cv_oui = when_full full (ac_oui c),
          cv_uptime_seconds = when_full full (ac_uptime c), cv_tx_bytes = when_full full tx,
          cv_rx_bytes = when_full full rx, cv_fixed_ip = when_full full (ac_fixed_ip c)\<rparr>)"

text \<open>The two search outputs differ in the names of their members and the counter semantics.\<close>

record 'r search_output =
  so_rows :: "'r list"
  so_total_matches :: nat
  so_next_offset :: "nat option"
  so_truncated :: "bool option"

definition clients_search_json :: "detail_level \<Rightarrow> client_row_view search_output \<Rightarrow> json" where
  "clients_search_json detail out =
     JObj (set_fields
       [(''counterSemantics'', then_some (detail = Full) (counter_semantics_json semantics_client)),
        (''clients'', Some (JArr (map client_row_json (so_rows out)))),
        (''totalMatches'', Some (jnat (so_total_matches out))), (''nextOffset'', map_option jnat (so_next_offset out)),
        (''apLookupTruncated'', map_option JBool (so_truncated out))])"

definition matching_clients ::
  "('e, 'x) tool_runtime_scheme \<Rightarrow> clients_search_input \<Rightarrow> string option \<Rightarrow> string option \<Rightarrow> active_client list
     \<Rightarrow> active_client list" where
  "matching_clients rt input query ssid rows =
     sort_clients rt (filter (\<lambda>c. client_matches rt query ssid (csi_vlan input) c
                                \<and> connection_matches (csi_connection input) c) rows)"

definition clients_page ::
  "clients_search_input \<Rightarrow> active_client list \<Rightarrow> (string \<Rightarrow> string option) \<Rightarrow> bool \<Rightarrow> client_row_view search_output" where
  "clients_page input matches ap_names truncated =
     (let pg = take (csi_limit input) (drop (csi_offset input) matches)
      in \<lparr>so_rows = map (client_row ap_names (csi_detail input)) pg, so_total_matches = length matches,
          so_next_offset = next_offset (csi_offset input) (length pg) (length matches),
          so_truncated = then_some truncated True\<rparr>)"

definition clients_search_outcome ::
  "(json \<Rightarrow> string + clients_search_input) \<Rightarrow> inventory_decoders \<Rightarrow> ('e, 'x) tool_runtime_scheme \<Rightarrow> params
     \<Rightarrow> ('e, clients_search_input \<times> client_row_view search_output) tool" where
  "clients_search_outcome from_value dec rt ps =
     bind_io (return_io (parse from_value ps)) (\<lambda>input.
     bind_io (return_io (validate_search_page (csi_limit input))) (\<lambda>_.
     bind_io (return_io (validate_filter rt (csi_query input))) (\<lambda>query.
     bind_io (return_io (validate_filter rt (csi_ssid input))) (\<lambda>ssid.
     bind_io (upstream (active_clients (dec_clients dec) (legacy rt) (legacy_site rt))) (\<lambda>rows.
       let matches = matching_clients rt input query ssid rows
       in bind_io (ap_lookup dec rt (take (csi_limit input) (drop (csi_offset input) matches)))
            (\<lambda>(ap_names, truncated). return_io (Inr (input, clients_page input matches ap_names truncated))))))))"

definition clients_search where
  "clients_search from_value dec rt ps =
     map_io (\<lambda>(input, out). structured (clients_search_json (csi_detail input) out))
       (clients_search_outcome from_value dec rt ps)"

text \<open>
  \<open>select_clients\<close>: the rows with the selector's MAC when there are any, else the rows whose name
  or hostname is the selector. \<open>partition\<close> leaves the other rows for the second tier.
\<close>

definition select_clients ::
  "('e, 'x) tool_runtime_scheme \<Rightarrow> active_client list \<Rightarrow> string \<Rightarrow> active_client list" where
  "select_clients rt rows selector =
     (let (by_mac, others) =
            partition (\<lambda>c. map_option normalize_mac (ac_mac c) = Some (normalize_mac selector)) rows
      in if by_mac \<noteq> [] then by_mac
         else filter (\<lambda>c. map_option (ext_lowercase (legacy rt)) (ac_name c) = Some (ext_lowercase (legacy rt) selector)
                        \<or> map_option (ext_lowercase (legacy rt)) (ac_hostname c) = Some (ext_lowercase (legacy rt) selector))
                others)"

section \<open>Searching devices\<close>

record devices_search_input =
  dsi_query :: "string option"
  dsi_state :: "string option"
  dsi_offset :: nat
  dsi_limit :: nat

text \<open>A \<open>DeviceRow\<close> has the fields of the summary, under shorter names.\<close>

definition device_row_json :: "device_summary \<Rightarrow> json" where
  "device_row_json d =
     JObj (set_fields
       [(''id'', Some (JStr (ds_id d))), (''name'', Some (nullable JStr (ds_name d))),
        (''model'', Some (nullable JStr (ds_model d))), (''mac'', Some (nullable JStr (ds_mac_address d))),
        (''ip'', Some (nullable JStr (ds_ip_address d))), (''state'', Some (nullable JStr (ds_state d))),
        (''firmwareVersion'', Some (nullable JStr (ds_firmware_version d)))])"

definition devices_search_json :: "device_summary search_output \<Rightarrow> json" where
  "devices_search_json out =
     JObj (set_fields
       [(''devices'', Some (JArr (map device_row_json (so_rows out)))),
        (''totalMatches'', Some (jnat (so_total_matches out))), (''nextOffset'', map_option jnat (so_next_offset out)),
        (''inventoryTruncated'', map_option JBool (so_truncated out))])"

definition devices_search_outcome ::
  "(json \<Rightarrow> string + devices_search_input) \<Rightarrow> inventory_decoders \<Rightarrow> ('e, 'x) tool_runtime_scheme \<Rightarrow> params
     \<Rightarrow> ('e, device_summary search_output) tool" where
  "devices_search_outcome from_value dec rt ps =
     bind_io (return_io (parse from_value ps)) (\<lambda>input.
     bind_io (return_io (validate_search_page (dsi_limit input))) (\<lambda>_.
     bind_io (return_io (validate_filter rt (dsi_query input))) (\<lambda>query.
     bind_io (return_io (validate_filter rt (dsi_state input))) (\<lambda>state.
     bind_io (device_inventory dec rt) (\<lambda>(rows, truncated).
       let matches = sort_key (device_key rt) (filter (device_matches rt query state) rows);
           pg = take (dsi_limit input) (drop (dsi_offset input) matches)
       in return_io (Inr
            \<lparr>so_rows = pg, so_total_matches = length matches,
             so_next_offset = next_offset (dsi_offset input) (length pg) (length matches),
             so_truncated = then_some truncated True\<rparr>))))))"

definition devices_search where
  "devices_search from_value dec rt ps =
     map_io (structured \<circ> devices_search_json) (devices_search_outcome from_value dec rt ps)"


section \<open>Status of one device\<close>

text \<open>\<open>select_devices\<close>: by id, else by MAC, else by name; the flag says the match is by an identifier.\<close>

definition select_devices ::
  "('e, 'x) tool_runtime_scheme \<Rightarrow> device_summary list \<Rightarrow> string \<Rightarrow> device_summary list \<times> bool" where
  "select_devices rt inventory selector =
     (let by_id = filter (\<lambda>d. ds_id d = selector) inventory
      in if by_id \<noteq> [] then (by_id, True)
         else
           (let by_mac = filter (\<lambda>d. map_option normalize_mac (ds_mac_address d) = Some (normalize_mac selector)) inventory
            in if by_mac \<noteq> [] then (by_mac, True)
               else (filter (\<lambda>d. map_option (ext_lowercase (legacy rt)) (ds_name d) =
                              Some (ext_lowercase (legacy rt) selector)) inventory, False)))"

definition PORT_TABLE_CEILING :: nat where
  "PORT_TABLE_CEILING = 128"

definition RADIO_TABLE_CEILING :: nat where
  "RADIO_TABLE_CEILING = 16"

definition statistics_view_json :: "device_statistics_record \<Rightarrow> json" where
  "statistics_view_json st =
     JObj (set_fields
       [(''uptimeSeconds'', Some (nullable word_json (st_uptime_sec st))),
        (''cpuUtilizationPct'', Some (nullable id (st_cpu_utilization_pct st))),
        (''memoryUtilizationPct'', Some (nullable id (st_memory_utilization_pct st))),
        (''uplinkTxRateBps'', Some (nullable word_json (Option.bind (st_uplink st) us_tx_rate_bps))),
        (''uplinkRxRateBps'', Some (nullable word_json (Option.bind (st_uplink st) us_rx_rate_bps)))])"

definition device_port_json :: "device_port \<Rightarrow> json" where
  "device_port_json p =
     JObj (set_fields
       [(''idx'', Some (nullable word_json (port_idx p))), (''state'', Some (nullable JStr (port_state p))),
        (''connector'', Some (nullable JStr (port_connector p))),
        (''speedMbps'', Some (nullable word_json (port_speed_mbps p)))])"

definition device_radio_json :: "device_radio \<Rightarrow> json" where
  "device_radio_json r =
     JObj (set_fields
       [(''wlanStandard'', Some (nullable JStr (radio_wlan_standard r))),
        (''frequencyGhz'', Some (nullable id (radio_frequency_g_hz r))),
        (''channel'', Some (nullable word_json (radio_channel r))),
        (''channelWidthMhz'', Some (nullable word_json (radio_channel_width_m_hz r)))])"

record device_status_output =
  dv_detail :: device_summary
  dv_statistics :: "api_error + device_statistics_record"
  dv_ports :: "device_port list"
  dv_ports_truncated :: bool
  dv_radios :: "device_radio list"
  dv_radios_truncated :: bool

definition device_status_json :: "device_status_output \<Rightarrow> json" where
  "device_status_json out =
     (let d = dv_detail out in
      JObj (set_fields
       [(''id'', Some (JStr (ds_id d))), (''name'', Some (nullable JStr (ds_name d))),
        (''model'', Some (nullable JStr (ds_model d))), (''mac'', Some (nullable JStr (ds_mac_address d))),
        (''ip'', Some (nullable JStr (ds_ip_address d))), (''state'', Some (nullable JStr (ds_state d))),
        (''firmwareVersion'', Some (nullable JStr (ds_firmware_version d))),
        (''statistics'', (case dv_statistics out of Inr st \<Rightarrow> Some (statistics_view_json st) | Inl _ \<Rightarrow> None)),
        (''statisticsError'', (case dv_statistics out of Inr _ \<Rightarrow> None | Inl err \<Rightarrow> Some (JStr (render err)))),
        (''ports'', Some (JArr (map device_port_json (dv_ports out)))),
        (''portsTruncated'', then_some (dv_ports_truncated out) (JBool True)),
        (''radios'', Some (JArr (map device_radio_json (dv_radios out)))),
        (''radiosTruncated'', then_some (dv_radios_truncated out) (JBool True))]))"

definition bad_selector :: "string \<Rightarrow> bool" where
  "bad_selector selector \<longleftrightarrow> selector = [] \<or> MAXIMUM_FILTER_LENGTH < length selector"

definition no_device_text :: "bool \<Rightarrow> string" where
  "no_device_text truncated =
     (if truncated
      then ''no adopted device matches the selector within the scanned '' @
           ''inventory ceiling; use devices.search and select by id or MAC''
      else ''no adopted device matches the selector; use devices.search '' @ ''and select by id or MAC'')"

definition sole_device ::
  "('e, 'x) tool_runtime_scheme \<Rightarrow> device_summary list \<Rightarrow> bool \<Rightarrow> string \<Rightarrow> mcp_error + device_summary" where
  "sole_device rt inventory truncated selector =
     (let (matches, identifier_tier) = select_devices rt inventory selector
      in bind_res (case matches of
                     [] \<Rightarrow> Inl (InvalidParams (no_device_text truncated))
                   | [d] \<Rightarrow> Inr d
                   | _ \<Rightarrow> Inl (InvalidParams (show_nat (length matches) @ '' devices match; select by id or MAC'')))
           (\<lambda>d. if truncated \<and> \<not> identifier_tier
                 then Inl (InvalidParams (''a name selector cannot be proven unique on a truncated inventory;'' @
                        ''                  select by id or MAC''))
                 else Inr d))"

definition devices_status_outcome ::
  "(json \<Rightarrow> string + string) \<Rightarrow> inventory_decoders \<Rightarrow> ('e, 'x) tool_runtime_scheme \<Rightarrow> params
     \<Rightarrow> ('e, device_status_output) tool" where
  "devices_status_outcome from_value dec rt ps =
     bind_io (return_io (parse from_value ps)) (\<lambda>device.
     let selector = trim device
     in if bad_selector selector
        then return_io (Inl (InvalidParams ''device selector must be an id, MAC, or name''))
        else
          bind_io (device_inventory dec rt) (\<lambda>(inventory, truncated).
          bind_io (return_io (sole_device rt inventory truncated selector)) (\<lambda>d.
          bind_io (resolve_site rt) (\<lambda>site.
          bind_io (upstream (device_detail (dec_detail dec) (integration rt) site (ds_id d))) (\<lambda>detail.
            \<lambda>s. case on_world (device_statistics (dec_statistics dec) (integration rt) site (ds_id d)) s of
                  (statistics, s') \<Rightarrow>
                    (let interfaces = (case dd_interfaces detail of
                                         Some i \<Rightarrow> i | None \<Rightarrow> \<lparr>di_ports = [], di_radios = []\<rparr>)
                     in (Inr \<lparr>dv_detail = dd_summary detail, dv_statistics = statistics,
                              dv_ports = take PORT_TABLE_CEILING (di_ports interfaces),
                              dv_ports_truncated = (PORT_TABLE_CEILING < length (di_ports interfaces)),
                              dv_radios = take RADIO_TABLE_CEILING (di_radios interfaces),
                              dv_radios_truncated = (RADIO_TABLE_CEILING < length (di_radios interfaces))\<rparr>,
                         s')))))))"

definition devices_status where
  "devices_status from_value dec rt ps =
     map_io (structured \<circ> device_status_json) (devices_status_outcome from_value dec rt ps)"

section \<open>Selection and pages\<close>

text \<open>An identifier is never shadowed: a record found by name is found only when none has it as identifier.\<close>

lemma select_clients_tiers:
  "set (select_clients rt rows selector) =
     (let mac_of = (\<lambda>c. map_option normalize_mac (ac_mac c) = Some (normalize_mac selector));
          named = (\<lambda>c. map_option (ext_lowercase (legacy rt)) (ac_name c) = Some (ext_lowercase (legacy rt) selector)
                      \<or> map_option (ext_lowercase (legacy rt)) (ac_hostname c) = Some (ext_lowercase (legacy rt) selector))
      in if \<exists>c\<in>set rows. mac_of c then {c \<in> set rows. mac_of c} else {c \<in> set rows. named c})"
  by (auto simp: select_clients_def Let_def filter_empty_conv o_def)

lemma sole_device_Inr:
  assumes "sole_device rt inventory truncated selector = Inr d"
  shows "d \<in> set inventory"
    and "ds_id d = selector \<or> map_option normalize_mac (ds_mac_address d) = Some (normalize_mac selector)
      \<or> (\<not> truncated \<and> map_option (ext_lowercase (legacy rt)) (ds_name d) = Some (ext_lowercase (legacy rt) selector)
         \<and> (\<forall>e\<in>set inventory. ds_id e \<noteq> selector
              \<and> map_option normalize_mac (ds_mac_address e) \<noteq> Some (normalize_mac selector)))"
proof -
  obtain matches tier where sel: "select_devices rt inventory selector = (matches, tier)" by force
  with assms have d: "matches = [d]" "\<not> (truncated \<and> \<not> tier)"
    by (auto simp: sole_device_def bind_res_eq_Inr split: list.splits if_splits)
  have "set matches \<subseteq> set inventory"
    using sel by (auto simp: select_devices_def Let_def split: if_splits)
  with d show "d \<in> set inventory" by auto
  from d have in_m: "d \<in> set matches" by simp
  with sel d(2) show "ds_id d = selector \<or> map_option normalize_mac (ds_mac_address d) = Some (normalize_mac selector)
      \<or> (\<not> truncated \<and> map_option (ext_lowercase (legacy rt)) (ds_name d) = Some (ext_lowercase (legacy rt) selector)
         \<and> (\<forall>e\<in>set inventory. ds_id e \<noteq> selector
              \<and> map_option normalize_mac (ds_mac_address e) \<noteq> Some (normalize_mac selector)))"
    by (auto simp: select_devices_def Let_def filter_empty_conv split: if_splits)
qed


text \<open>What one page says of the matches: it is the slice at its offset, and its continuation is where it ends.\<close>

definition slice_of :: "nat \<Rightarrow> nat \<Rightarrow> 'a list \<Rightarrow> 'a list \<Rightarrow> nat option \<Rightarrow> bool" where
  "slice_of offset limit ms pg continue \<longleftrightarrow>
     pg = take limit (drop offset ms)
     \<and> (case continue of
          None \<Rightarrow> drop offset ms = pg
        | Some n \<Rightarrow> offset < n \<and> n < length ms \<and> drop offset ms = pg @ drop n ms)"

lemma search_slice:
  assumes "0 < limit" and "length ms \<le> usize_max"
  shows "slice_of offset limit ms (take limit (drop offset ms))
           (next_offset offset (length (take limit (drop offset ms))) (length ms))"
proof (cases "offset + limit < length ms")
  case True
  with assms have "next_offset offset (length (take limit (drop offset ms))) (length ms) = Some (offset + limit)"
    by (simp add: next_offset_def Let_def then_some_def min_def)
  then show ?thesis using True assms(1)
    by (simp add: slice_of_def add.commute) (metis append_take_drop_id drop_drop add.commute)
next
  case False
  then have "length ms \<le> offset + length (take limit (drop offset ms))" by (simp add: min_def)
  with assms(2) have "next_offset offset (length (take limit (drop offset ms))) (length ms) = None"
    by (auto simp: next_offset_def Let_def then_some_def min_def)
  with False show ?thesis by (simp add: slice_of_def)
qed

lemma upstream_InrD: "upstream m s = (Inr a, s') \<Longrightarrow> fst (m (snd s)) = Inr a"
  by (cases s; cases "m (snd s)"; cases "fst (m (snd s))")
    (simp_all add: upstream_def on_world_def map_err_io_def)

lemma validate_search_page_Inr [simp]: "validate_search_page limit = Inr u \<longleftrightarrow> 0 < limit"
  by (simp add: validate_search_page_def)

text \<open>
  C21. A page of connected clients is exact: the matches are the rows the controller reported that
  pass the filters, each once, in the order of name and address; the page holds the slice of them at
  the requested offset, its total is their number, and its continuation offset is absent at the end
  and otherwise the position after the page, so that following it visits every match once.
\<close>

theorem client_search_page_is_exact:
  assumes "fst (clients_search_outcome from_value dec rt ps s) = Inr (input, out)"
    and "so_total_matches out \<le> usize_max"
  shows "\<exists>rows query ssid ms names pg. fst (active_clients (dec_clients dec) (legacy rt) (legacy_site rt) (snd s)) = Inr rows
     \<and> validate_filter rt (csi_query input) = Inr query \<and> validate_filter rt (csi_ssid input) = Inr ssid
     \<and> mset ms = mset (filter (\<lambda>c. client_matches rt query ssid (csi_vlan input) c
                                   \<and> connection_matches (csi_connection input) c) rows)
     \<and> sorted (map (client_key rt) ms) \<and> so_total_matches out = length ms
     \<and> so_rows out = map (client_row names (csi_detail input)) pg
     \<and> slice_of (csi_offset input) (csi_limit input) ms pg (so_next_offset out)"
proof -
  from assms(1) obtain rows query ssid names truncated where
    input: "0 < csi_limit input"
    and filters: "validate_filter rt (csi_query input) = Inr query" "validate_filter rt (csi_ssid input) = Inr ssid"
    and rows: "fst (active_clients (dec_clients dec) (legacy rt) (legacy_site rt) (snd s)) = Inr rows"
    and out: "out = clients_page input (matching_clients rt input query ssid rows) names truncated"
    by (auto simp: clients_search_outcome_def fst_bind_io_Inr Let_def dest!: upstream_InrD)
  let ?ms = "matching_clients rt input query ssid rows"
  have "mset ?ms = mset (filter (\<lambda>c. client_matches rt query ssid (csi_vlan input) c
      \<and> connection_matches (csi_connection input) c) rows)" "sorted (map (client_key rt) ?ms)"
    by (simp_all add: matching_clients_def sort_clients_def)
  moreover have "slice_of (csi_offset input) (csi_limit input) ?ms
      (take (csi_limit input) (drop (csi_offset input) ?ms)) (so_next_offset out)"
    using search_slice [OF input, of ?ms "csi_offset input"] assms(2) by (simp add: out clients_page_def Let_def)
  ultimately show ?thesis
    using filters rows by (intro exI [of _ rows] exI [of _ query] exI [of _ ssid] exI [of _ ?ms] exI [of _ names]
        exI [of _ "take (csi_limit input) (drop (csi_offset input) ?ms)"]) (simp add: out clients_page_def Let_def)
qed


text \<open>A console that reports two connected clients, of which one is wireless.\<close>

definition sample_client :: "string \<Rightarrow> bool \<Rightarrow> active_client" where
  "sample_client name wired =
     \<lparr>ac_mac = Some (''02:'' @ name), ac_name = Some name, ac_hostname = None, ac_oui = None, ac_ip = None,
      ac_essid = None, ac_vlan = None, ac_network = None, ac_ap_mac = None, ac_channel = None, ac_radio = None,
      ac_signal = None, ac_rssi = None, ac_tx_bytes = None, ac_rx_bytes = None, ac_wired_tx_bytes = None,
      ac_wired_rx_bytes = None, ac_uptime = None, ac_last_seen = None, ac_is_wired = Some wired,
      ac_use_fixedip = None, ac_fixed_ip = None\<rparr>"

definition sample_inventory :: inventory_decoders where
  "sample_inventory =
     \<lparr>dec_clients = (\<lambda>_. Inr \<lparr>meta_rc = ''ok'', meta_msg = None,
          envelope_data = [sample_client ''b'' False, sample_client ''a'' True]\<rparr>),
      dec_devices = (\<lambda>_. Inl ''none''), dec_detail = (\<lambda>_. Inl ''none''), dec_statistics = (\<lambda>_. Inl ''none'')\<rparr>"

definition sample_search :: clients_search_input where
  "sample_search = \<lparr>csi_query = None, csi_ssid = None, csi_vlan = None, csi_connection = Some Wireless,
     csi_offset = 0, csi_limit = 1, csi_detail = Concise\<rparr>"

theorem client_search_page_is_exact_witness:
  "\<exists>out ms. fst (clients_search_outcome (\<lambda>_. Inr sample_search) sample_inventory (sample_runtime empty_ok [])
        \<lparr>arguments = None\<rparr> sample_state) = Inr (sample_search, out)
     \<and> so_total_matches out = length ms \<and> mset ms = {#sample_client ''b'' False#}"
proof -
  let ?run = "clients_search_outcome (\<lambda>_. Inr sample_search) sample_inventory (sample_runtime empty_ok [])
        \<lparr>arguments = None\<rparr> sample_state"
  have clients: "fst (active_clients (dec_clients sample_inventory) (legacy (sample_runtime empty_ok []))
      (legacy_site (sample_runtime empty_ok [])) (snd sample_state)) =
      Inr [sample_client ''b'' False, sample_client ''a'' True]"
    by (simp add: active_clients_def request_with_reauth_def sample_inventory_def sample_run_defs)
  have "map_ok (\<lambda>(i, out). (i, so_total_matches out)) (fst ?run) = Inr (sample_search, 1)"
    by (simp add: clients_search_outcome_def parse_def sample_search_def validate_search_page_def validate_filter_def
        active_clients_def request_with_reauth_def sample_inventory_def matching_clients_def sort_clients_def
        client_matches_def haystack_matches_def word_matches_def connection_matches_def sample_client_def ap_lookup_def
        clients_page_def echo_defs sample_run_defs)
  then obtain out where run: "fst ?run = Inr (sample_search, out)" and one: "so_total_matches out = 1"
    by (auto simp: map_ok_def split: sum.splits)
  from client_search_page_is_exact [OF run] one clients run show ?thesis
    by (auto simp: usize_max_def sample_search_def validate_filter_def client_matches_def haystack_matches_def
        word_matches_def connection_matches_def sample_client_def)
qed

end
