(* ===== verification/Tool_Events.thy ===== *)
theory Tool_Events
  imports Tool_Search System_Log
begin

text \<open>
  The system log as the tools show it: the rows and their messages
  (\<open>crates/unifi-mcp/src/tools/system_log.rs\<close>), the raw page read, the event search and the context
  of one client (\<open>events_search\<close> and \<open>clients_context\<close> of \<open>tools.rs\<close>). The theorem on messages
  says that the loop which substitutes names under a ceiling shows exactly the bounded form of the
  whole substitution, in one pass.
\<close>

section \<open>Rows of the log\<close>

record log_entity =
  le_id :: "string option"
  le_name :: "string option"

record log_parameters =
  lp_client :: "log_entity option"
  lp_device :: "log_entity option"
  lp_device_from :: "log_entity option"
  lp_device_to :: "log_entity option"
  lp_wlan :: "log_entity option"
  lp_network :: "log_entity option"

record log_entry =
  en_key :: "string option"
  en_event :: "string option"
  en_timestamp :: u64
  en_category :: "string option"
  en_severity :: "string option"
  en_message_raw :: "string option"
  en_title_raw :: "string option"
  en_parameters :: log_parameters

record event_row_view =
  ev_time :: u64
  ev_key :: "string option"
  ev_message :: "string option"
  ev_category :: "string option"
  ev_severity :: "string option"
  ev_client_mac :: "string option"

definition event_row_json :: "event_row_view \<Rightarrow> json" where
  "event_row_json e =
     JObj (set_fields
       [(''time'', Some (word_json (ev_time e))), (''key'', Some (nullable JStr (ev_key e))),
        (''message'', Some (nullable JStr (ev_message e))), (''category'', map_option JStr (ev_category e)),
        (''severity'', map_option JStr (ev_severity e)), (''clientMac'', map_option JStr (ev_client_mac e))])"

text \<open>What the outside gives these tools: the decoders serde derives and the system clock, in
  milliseconds since the epoch, or none when it is set before it.\<close>

record 'e event_externals =
  ee_log :: "json system_log_page decoder"
  ee_entries :: "log_entry system_log_page decoder"
  ee_whole :: "(string \<times> json) list decoder"
  ee_clock :: "'e tool_state \<Rightarrow> nat option"

definition current_time_ms :: "('e, 'y) event_externals_scheme \<Rightarrow> ('e, u64) tool" where
  "current_time_ms X s =
     (case ee_clock X s of
        None \<Rightarrow> Inl (InternalError ''system clock before epoch'')
      | Some ms \<Rightarrow> (if ms < 2 ^ 64 then Inr (of_nat ms) else Inl (InternalError ''system clock out of range'')), s)"

text \<open>\<open>u64::from(hours) * 3_600_000\<close> cannot overflow, and the subtraction saturates.\<close>

definition saturating_sub64 :: "u64 \<Rightarrow> u64 \<Rightarrow> u64" where
  "saturating_sub64 a b = (if a < b then 0 else a - b)"

definition log_window :: "('e, 'y) event_externals_scheme \<Rightarrow> u32 \<Rightarrow> ('e, u64 \<times> u64) tool" where
  "log_window X hours = map_io (\<lambda>stop. (saturating_sub64 stop (ucast hours * 3600000), stop)) (current_time_ms X)"

section \<open>Messages\<close>

definition nonempty_text :: "string option \<Rightarrow> string option" where
  "nonempty_text v = (case v of Some t \<Rightarrow> (if t = [] then None else Some t) | None \<Rightarrow> None)"

definition message_source :: "log_entry \<Rightarrow> string option" where
  "message_source e = or_else (nonempty_text (en_message_raw e)) (en_title_raw e)"

definition log_entities :: "log_parameters \<Rightarrow> (string \<times> log_entity option) list" where
  "log_entities p =
     [(''CLIENT'', lp_client p), (''DEVICE'', lp_device p), (''DEVICE_FROM'', lp_device_from p),
      (''DEVICE_TO'', lp_device_to p), (''WLAN'', lp_wlan p), (''NETWORK'', lp_network p)]"

definition entity_text :: "log_entity \<Rightarrow> string option" where
  "entity_text e = or_else (nonempty_text (le_name e)) (nonempty_text (le_id e))"

definition replacement :: "(string \<times> log_entity option) list \<Rightarrow> string \<Rightarrow> string option" where
  "replacement entities name = Option.bind (Option.bind (map_of entities name) id) entity_text"

text \<open>
  One step of the loop: the next part of the output and what is left of the text. The brackets are
  ASCII, so the byte positions \<open>find\<close> gives are those of the list.
\<close>

fun next_part :: "(string \<times> log_entity option) list \<Rightarrow> string \<Rightarrow> string \<times> string" where
  "next_part entities [] = ([], [])"
| "next_part entities (b # token) =
     (if b = CHR ''{''
      then (if CHR ''}'' \<in> set token
            then (let name = takeWhile (\<lambda>c. c \<noteq> CHR ''}'') token
                  in ((case replacement entities name of Some t \<Rightarrow> t | None \<Rightarrow> CHR ''{'' # name @ ''}''),
                      drop (length name + 1) token))
            else (b # token, []))
      else (b # takeWhile (\<lambda>c. c \<noteq> CHR ''{'') token, dropWhile (\<lambda>c. c \<noteq> CHR ''{'') token))"

lemma next_part_shorter: "rest \<noteq> [] \<Longrightarrow> length (snd (next_part entities rest)) < length rest"
  by (cases rest) (auto simp: Let_def le_imp_less_Suc length_dropWhile_le)

function message_loop :: "(string \<times> log_entity option) list \<Rightarrow> string \<Rightarrow> string \<Rightarrow> string" where
  "message_loop entities rest shown =
     (if rest = [] \<or> EVENT_MESSAGE_CEILING < length (chars shown) then shown
      else (let (part, remaining) = next_part entities rest;
                room = EVENT_MESSAGE_CEILING + 1 - length (chars shown)
            in message_loop entities remaining (shown @ concat (take room (chars part)))))"
  by pat_completeness auto
termination
  by (relation "measure (\<lambda>(_, rest, _). length rest)") (auto dest: next_part_shorter [of _ entities for entities] simp: prod_eq_iff)

declare message_loop.simps [simp del]

definition log_message :: "log_entry \<Rightarrow> string option" where
  "log_message e =
     map_option (\<lambda>raw. bounded_text (message_loop (log_entities (en_parameters e)) raw [])) (message_source e)"

definition event_row :: "log_entry \<Rightarrow> event_row_view" where
  "event_row e =
     \<lparr>ev_time = en_timestamp e, ev_key = or_else (en_key e) (en_event e), ev_message = log_message e,
      ev_category = en_category e, ev_severity = en_severity e,
      ev_client_mac =
        (case Option.bind (lp_client (en_parameters e)) le_id of
           Some i \<Rightarrow> (if is_client_address i then Some i else None)
         | None \<Rightarrow> None)\<rparr>"

text \<open>
  The whole substitution, without a ceiling. In valid UTF-8 a continuation byte follows a byte that
  is not ASCII; \<open>text_ok True\<close> checks that of a string.
\<close>

function expand :: "(string \<times> log_entity option) list \<Rightarrow> string \<Rightarrow> string" where
  "expand entities rest =
     (if rest = [] then [] else (case next_part entities rest of (part, remaining) \<Rightarrow> part @ expand entities remaining))"
  by pat_completeness auto
termination
  by (relation "measure (\<lambda>(_, rest). length rest)") (auto dest: next_part_shorter [of _ entities for entities] simp: prod_eq_iff)

declare expand.simps [simp del]

fun text_ok :: "bool \<Rightarrow> string \<Rightarrow> bool" where
  "text_ok after_ascii [] \<longleftrightarrow> True"
| "text_ok after_ascii (b # bs) \<longleftrightarrow> (is_continuation b \<longrightarrow> \<not> after_ascii) \<and> text_ok ((of_char b :: nat) < 128) bs"

definition starts_clean :: "string \<Rightarrow> bool" where
  "starts_clean s \<longleftrightarrow> (case s of [] \<Rightarrow> True | b # _ \<Rightarrow> \<not> is_continuation b)"

lemma text_ok_clean: "text_ok True s \<Longrightarrow> starts_clean s"
  by (cases s) (auto simp: starts_clean_def)

lemma text_ok_append: "text_ok p (u @ v) \<Longrightarrow> text_ok p u"
  by (induction u arbitrary: p) auto

lemma text_ok_after: "text_ok p (u @ b # v) \<Longrightarrow> (of_char b :: nat) < 128 \<Longrightarrow> text_ok True v"
  by (induction u arbitrary: p) auto

lemma text_ok_from: "text_ok p (u @ b # v) \<Longrightarrow> (of_char b :: nat) < 128 \<Longrightarrow> text_ok True (b # v)"
  by (induction u arbitrary: p) (auto simp: is_continuation_def)

lemma chars_append:
  "starts_clean v \<Longrightarrow> chars (u @ v) = chars u @ chars v"
proof (induction u rule: chars.induct)
  case (2 b bs)
  show ?case
  proof (cases "\<forall>c\<in>set bs. is_continuation c")
    case True
    have "takeWhile is_continuation v = []" "dropWhile is_continuation v = v"
      using "2.prems" by (auto simp: starts_clean_def split: list.splits)
    moreover from True have all: "takeWhile is_continuation bs = bs" "dropWhile is_continuation bs = []" by simp_all
    ultimately have both: "takeWhile is_continuation (bs @ v) = bs" "dropWhile is_continuation (bs @ v) = v"
      by (simp_all only: takeWhile_append2 [OF True [THEN bspec]] dropWhile_append2 [OF True [THEN bspec]] append_Nil2)
    show ?thesis by (simp only: append_Cons append_Nil chars.simps both all)
  next
    case False
    then have "takeWhile is_continuation (bs @ v) = takeWhile is_continuation bs"
      "dropWhile is_continuation (bs @ v) = dropWhile is_continuation bs @ v"
      by (auto simp: takeWhile_append dropWhile_append)
    with "2.IH" "2.prems" show ?thesis by simp
  qed
qed simp

lemma starts_clean_concat_take: "starts_clean s \<Longrightarrow> starts_clean (concat (take n (chars s)))"
  by (cases s; cases n) (auto simp: starts_clean_def)

lemma chars_concat_take: "chars (concat (take n (chars s))) = take n (chars s)"
proof (induction s arbitrary: n rule: chars.induct)
  case (2 b bs)
  show ?case
  proof (cases n)
    case (Suc m)
    let ?rest = "concat (take m (chars (dropWhile is_continuation bs)))"
    have clean: "starts_clean ?rest"
    proof (rule starts_clean_concat_take)
      show "starts_clean (dropWhile is_continuation bs)"
        by (auto simp: starts_clean_def dest: dropWhile_eq_Cons_conv [THEN iffD1] split: list.splits)
    qed
    have "chars (b # takeWhile is_continuation bs) = [b # takeWhile is_continuation bs]"
      by (auto dest: set_takeWhileD)
    with chars_append [OF clean, of "b # takeWhile is_continuation bs"] "2.IH" Suc show ?thesis by simp
  qed simp
qed simp


definition clean_entities :: "(string \<times> log_entity option) list \<Rightarrow> bool" where
  "clean_entities entities \<longleftrightarrow>
     list_all (\<lambda>(_, e). case Option.bind e entity_text of None \<Rightarrow> True | Some t \<Rightarrow> text_ok True t) entities"

lemma clean_replacement: "clean_entities entities \<Longrightarrow> replacement entities name = Some t \<Longrightarrow> starts_clean t"
  by (auto simp: clean_entities_def replacement_def list_all_iff bind_eq_Some_conv
      dest!: map_of_SomeD intro!: text_ok_clean split: option.splits)

lemma take_until:
  assumes "x \<in> set xs"
  obtains u v where "xs = u @ x # v" "takeWhile (\<lambda>c. c \<noteq> x) xs = u" "dropWhile (\<lambda>c. c \<noteq> x) xs = x # v"
proof -
  from split_list_first [OF assms] obtain u v where xs: "xs = u @ x # v" and "x \<notin> set u" by blast
  then have "\<forall>c\<in>set u. c \<noteq> x" by auto
  then have "takeWhile (\<lambda>c. c \<noteq> x) xs = u" "dropWhile (\<lambda>c. c \<noteq> x) xs = x # v"
    unfolding xs by (simp_all add: takeWhile_append dropWhile_append)
  with xs show thesis by (rule that)
qed

lemma next_part_clean:
  assumes "text_ok True rest" and "clean_entities entities"
  shows "starts_clean (fst (next_part entities rest))" and "text_ok True (snd (next_part entities rest))"
proof -
  have bracket: "(of_char CHR ''{'' :: nat) < 128" "(of_char CHR ''}'' :: nat) < 128" by simp_all
  have literal: "starts_clean (CHR ''{'' # t)" for t by (simp add: starts_clean_def is_continuation_def)
  have "starts_clean (fst (next_part entities rest)) \<and> text_ok True (snd (next_part entities rest))"
  proof (cases rest)
    case Nil
    then show ?thesis by (simp add: starts_clean_def)
  next
    case (Cons b token)
    consider (name) "b = CHR ''{''" "CHR ''}'' \<in> set token" | (plain) "b = CHR ''{''" "CHR ''}'' \<notin> set token"
      | (run) "b \<noteq> CHR ''{''" by blast
    then show ?thesis
    proof cases
      case name
      from name(2) obtain u v where token: "token = u @ CHR ''}'' # v" "takeWhile (\<lambda>c. c \<noteq> CHR ''}'') token = u"
        by (rule take_until)
      have "text_ok True v"
        by (rule text_ok_after [of True "b # u" "CHR ''}''"]) (use assms(1) token(1) Cons in simp_all)
      with name token clean_replacement [OF assms(2)] literal show ?thesis
        by (simp add: Cons split: option.split)
    next
      case plain
      with literal show ?thesis by (simp add: Cons)
    next
      case run
      have "starts_clean (b # t)" for t using assms(1) Cons by (simp add: starts_clean_def)
      moreover have "text_ok True (dropWhile (\<lambda>c. c \<noteq> CHR ''{'') token)"
      proof (cases "CHR ''{'' \<in> set token")
        case True
        then obtain u v where token: "token = u @ CHR ''{'' # v" "dropWhile (\<lambda>c. c \<noteq> CHR ''{'') token = CHR ''{'' # v"
          by (rule take_until)
        have "text_ok True (CHR ''{'' # v)"
          by (rule text_ok_from [of True "b # u" "CHR ''{''"]) (use assms(1) token(1) Cons in simp_all)
        with token(2) show ?thesis by simp
      next
        case False
        then have "dropWhile (\<lambda>c. c \<noteq> CHR ''{'') token = []" by auto
        then show ?thesis by (simp only: text_ok.simps)
      qed
      ultimately show ?thesis using run by (simp add: Cons)
    qed
  qed
  then show "starts_clean (fst (next_part entities rest))" and "text_ok True (snd (next_part entities rest))" by auto
qed

lemma starts_clean_append: "starts_clean u \<Longrightarrow> starts_clean v \<Longrightarrow> starts_clean (u @ v)"
  by (cases u) (auto simp: starts_clean_def)

lemma expand_clean: "text_ok True rest \<Longrightarrow> clean_entities entities \<Longrightarrow> starts_clean (expand entities rest)"
proof (induction entities rest rule: expand.induct)
  case (1 entities rest)
  then show ?case
    using next_part_clean [OF "1.prems"]
    by (subst expand.simps) (auto simp: starts_clean_def [of "[]"] intro: starts_clean_append split: prod.splits)
qed

lemma take_chars_room:
  "n \<le> m \<Longrightarrow> length xs = n \<Longrightarrow> take m ((xs @ take (m - n) ys) @ zs) = take m (xs @ ys @ zs)"
  by (cases "length ys \<le> m - n") auto

lemma message_loop_chars:
  assumes "text_ok True rest" and "clean_entities entities" and "length (chars shown) \<le> EVENT_MESSAGE_CEILING + 1"
  shows "chars (message_loop entities rest shown) =
           take (EVENT_MESSAGE_CEILING + 1) (chars shown @ chars (expand entities rest))"
  using assms
proof (induction entities rest shown rule: message_loop.induct)
  case (1 entities rest shown)
  show ?case
  proof (cases "rest = [] \<or> EVENT_MESSAGE_CEILING < length (chars shown)")
    case True
    then show ?thesis
      using "1.prems"(3) by (subst message_loop.simps) (auto simp: expand.simps [of _ "[]"])
  next
    case False
    obtain part remaining where np: "next_part entities rest = (part, remaining)" by force
    let ?room = "EVENT_MESSAGE_CEILING + 1 - length (chars shown)"
    let ?shown = "shown @ concat (take ?room (chars part))"
    have clean: "starts_clean part" "text_ok True remaining" using next_part_clean [OF "1.prems"(1,2)] np by auto
    have shown: "chars ?shown = chars shown @ take ?room (chars part)"
      using chars_append [OF starts_clean_concat_take [OF clean(1)]] by (simp add: chars_concat_take)
    have "chars (message_loop entities rest shown) = chars (message_loop entities remaining ?shown)"
      using False by (subst message_loop.simps) (simp add: np Let_def)
    also have "\<dots> = take (EVENT_MESSAGE_CEILING + 1) (chars ?shown @ chars (expand entities remaining))"
      by (rule "1.IH" [OF False np [symmetric] refl refl clean(2) "1.prems"(2)], unfold shown, use "1.prems"(3) in simp)
    also have "\<dots> = take (EVENT_MESSAGE_CEILING + 1) (chars shown @ chars part @ chars (expand entities remaining))"
      unfolding shown by (rule take_chars_room) (use "1.prems"(3) in simp_all)
    also have "chars part @ chars (expand entities remaining) = chars (expand entities rest)"
      using False np chars_append [OF expand_clean [OF clean(2) "1.prems"(2)], of part]
      by (subst expand.simps [of entities rest]) simp
    finally show ?thesis .
  qed
qed


text \<open>
  C20. The message of a log row is the bounded form of its whole substitution: each known token of
  the raw text is replaced once by the entity's name or id, replaced text is not read again, and
  cutting the work off at the display ceiling changes nothing of what is shown.
\<close>

theorem message_is_the_bounded_expansion:
  assumes "\<forall>raw \<in> set_option (message_source e). text_ok True raw"
    and "clean_entities (log_entities (en_parameters e))"
  shows "log_message e =
           map_option (\<lambda>raw. bounded_text (expand (log_entities (en_parameters e)) raw)) (message_source e)"
proof (cases "message_source e")
  case (Some raw)
  let ?ents = "log_entities (en_parameters e)"
  have loop: "chars (message_loop ?ents raw []) = take (EVENT_MESSAGE_CEILING + 1) (chars (expand ?ents raw))"
    using message_loop_chars [of raw ?ents "[]"] assms Some by simp
  have "bounded_text (message_loop ?ents raw []) = bounded_text (expand ?ents raw)"
  proof (cases "length (chars (expand ?ents raw)) \<le> EVENT_MESSAGE_CEILING")
    case True
    then have "chars (message_loop ?ents raw []) = chars (expand ?ents raw)" by (simp add: loop)
    then have "message_loop ?ents raw [] = expand ?ents raw" by (metis concat_chars)
    then show ?thesis by simp
  qed (simp add: bounded_text_def loop min_def EVENT_MESSAGE_CEILING_def)
  then show ?thesis by (simp add: log_message_def Some)
qed (simp add: log_message_def)

definition sample_entry :: log_entry where
  "sample_entry =
     \<lparr>en_key = None, en_event = None, en_timestamp = 1, en_category = None, en_severity = None,
      en_message_raw = Some ''{CLIENT} left {WLAN}'', en_title_raw = None,
      en_parameters = \<lparr>lp_client = Some \<lparr>le_id = Some ''i'', le_name = Some ''{WLAN}''\<rparr>, lp_device = None,
        lp_device_from = None, lp_device_to = None, lp_wlan = None, lp_network = None\<rparr>\<rparr>"

theorem message_is_the_bounded_expansion_witness:
  "log_message sample_entry = Some ''{WLAN} left {WLAN}''"
proof -
  have "log_message sample_entry =
      map_option (\<lambda>raw. bounded_text (expand (log_entities (en_parameters sample_entry)) raw)) (message_source sample_entry)"
    by (rule message_is_the_bounded_expansion) code_simp+
  also have "\<dots> = Some ''{WLAN} left {WLAN}''"
    by code_simp
  finally show ?thesis .
qed


section \<open>Reading one page\<close>

record events_read_input =
  er_start_ms :: u64
  er_end_ms :: u64
  er_page :: u64
  er_page_size :: nat
  er_severity :: "system_log_severity option"

record events_read_output =
  eo_requested_limit :: nat
  eo_returned :: nat
  eo_response :: "(string \<times> json) list"
  eo_next_page :: "u64 option"
  eo_pagination_incomplete :: bool

definition with_severity :: "system_log_severity option \<Rightarrow> system_log_query \<Rightarrow> system_log_query" where
  "with_severity severity q = (case severity of None \<Rightarrow> q | Some s \<Rightarrow> query_severity s q)"

text \<open>
  \<open>response[k]\<close> is \<open>null\<close> for an absent key, and the numbers and the array are \<open>expect\<close>ed of a page
  the client has checked.
\<close>

definition page_field :: "string \<Rightarrow> (json \<Rightarrow> 'a option) \<Rightarrow> string \<Rightarrow> (string \<times> json) list \<Rightarrow> mcp_error + 'a" where
  "page_field key as label response =
     ok_or (InternalError (''panicked: '' @ label)) (as (case get key response of Some v \<Rightarrow> v | None \<Rightarrow> JNull))"

definition read_page ::
  "events_read_input \<Rightarrow> (string \<times> json) list \<Rightarrow> mcp_error + events_read_output" where
  "read_page input response =
     bind_res (page_field ''total_page_count'' ju64 ''validated page count'' response) (\<lambda>total_pages.
     let continue = (case checked_add (er_page input) 1 of
                       Some n \<Rightarrow> then_some (unat n < total_pages) n | None \<Rightarrow> None)
     in bind_res (if er_page input = 0 \<and> continue = None
                  then bind_res (page_field ''total_element_count'' ju64 ''validated element count'' response) (\<lambda>elements.
                       bind_res (page_field ''data'' jarr ''validated data'' response) (\<lambda>rows.
                         Inr (length rows < elements)))
                  else Inr False) (\<lambda>incomplete.
        bind_res (page_field ''data'' jarr ''validated data'' response) (\<lambda>rows.
          Inr \<lparr>eo_requested_limit = er_page_size input, eo_returned = length rows, eo_response = response,
               eo_next_page = continue, eo_pagination_incomplete = incomplete\<rparr>)))"

definition events_read_outcome ::
  "(json \<Rightarrow> string + events_read_input) \<Rightarrow> ('e, 'y) event_externals_scheme \<Rightarrow> ('e, 'x) tool_runtime_scheme
     \<Rightarrow> params \<Rightarrow> ('e, events_read_output) tool" where
  "events_read_outcome from_value X rt ps =
     bind_io (return_io (parse from_value ps)) (\<lambda>input.
       if er_page_size input = 0 then return_io (Inl (InvalidParams ''pageSize must be positive''))
       else
         bind_io (return_io (map_err mcp_api_error (query_new (er_start_ms input) (er_end_ms input) (er_page_size input))))
           (\<lambda>q.
         bind_io (upstream (system_log_records (ee_log X) (ee_whole X) (legacy rt) (legacy_site rt)
                    (with_severity (er_severity input) (query_page (er_page input) q)))) (\<lambda>response.
           return_io (read_page input response))))"

definition events_read_json :: "bool \<Rightarrow> events_read_output \<Rightarrow> json" where
  "events_read_json large out =
     JObj (set_fields
       [(''requestedLimit'', Some (jnat (eo_requested_limit out))), (''returned'', Some (jnat (eo_returned out))),
        (''response'', then_some (\<not> large) (JObj (eo_response out))), (''responseInContent'', then_some large (JBool True)),
        (''nextPage'', map_option word_json (eo_next_page out)),
        (''paginationIncomplete'', Some (JBool (eo_pagination_incomplete out)))])"

definition events_read where
  "events_read from_value X rt ps =
     map_io (\<lambda>out.
         let large = exceeds rt (JObj (eo_response out))
         in (structured (events_read_json large out))
              \<lparr>extra_content := (if large then [text_block ''response'' (show_json rt (JObj (eo_response out)))] else [])\<rparr>)
       (events_read_outcome from_value X rt ps)"

section \<open>Searching the log\<close>

definition EVENT_FETCH_LIMIT :: nat where
  "EVENT_FETCH_LIMIT = 1000"

definition DEFAULT_EVENT_WINDOW_HOURS :: u32 where
  "DEFAULT_EVENT_WINDOW_HOURS = 24"

record events_search_input =
  es_severity :: "system_log_severity option"
  es_last_hours :: "u32 option"
  es_category :: "string option"
  es_client :: "string option"
  es_offset :: nat
  es_limit :: nat

definition in_window :: "u64 \<times> u64 \<Rightarrow> event_row_view \<Rightarrow> bool" where
  "in_window = (\<lambda>(from_ms, to_ms) row. from_ms \<le> ev_time row \<and> ev_time row \<le> to_ms)"

definition event_matches ::
  "('e, 'x) tool_runtime_scheme \<Rightarrow> u64 \<times> u64 \<Rightarrow> string option \<Rightarrow> string option \<Rightarrow> event_row_view \<Rightarrow> bool" where
  "event_matches rt window wanted mac row \<longleftrightarrow>
     in_window window row
     \<and> haystack_matches rt wanted [ev_key row, ev_category row]
     \<and> (case mac of None \<Rightarrow> True | Some c \<Rightarrow> map_option normalize_mac (ev_client_mac row) = Some c)"

text \<open>\<open>sort_by_key\<close> with \<open>Reverse\<close> is stable and puts the newest first.\<close>

definition newest_first :: "event_row_view list \<Rightarrow> event_row_view list" where
  "newest_first = sort_key (\<lambda>row. - int (unat (ev_time row)))"

definition matching_events ::
  "('e, 'x) tool_runtime_scheme \<Rightarrow> u64 \<times> u64 \<Rightarrow> string option \<Rightarrow> string option \<Rightarrow> log_entry system_log_page
     \<Rightarrow> event_row_view list" where
  "matching_events rt window wanted mac pg =
     newest_first (filter (event_matches rt window wanted mac) (map event_row (log_data pg)))"

definition events_search_outcome ::
  "(json \<Rightarrow> string + events_search_input) \<Rightarrow> ('e, 'y) event_externals_scheme \<Rightarrow> ('e, 'x) tool_runtime_scheme
     \<Rightarrow> params \<Rightarrow> ('e, event_row_view search_output) tool" where
  "events_search_outcome from_value X rt ps =
     bind_io (return_io (parse from_value ps)) (\<lambda>input.
     bind_io (return_io (validate_search_page (es_limit input))) (\<lambda>_.
     bind_io (return_io (validate_filter rt (es_category input))) (\<lambda>category.
     bind_io (return_io (validate_filter rt (es_client input))) (\<lambda>mac.
     let hours = (case es_last_hours input of Some h \<Rightarrow> h | None \<Rightarrow> DEFAULT_EVENT_WINDOW_HOURS)
     in if hours = 0 then return_io (Inl (InvalidParams ''lastHours must be positive''))
        else
          bind_io (log_window X hours) (\<lambda>window.
          bind_io (return_io (map_err mcp_api_error (query_new (fst window) (snd window) EVENT_FETCH_LIMIT))) (\<lambda>q.
          bind_io (upstream (system_log (ee_log X) (ee_entries X) (legacy rt) (legacy_site rt)
                     (with_severity (es_severity input) q))) (\<lambda>pg.
            let rows = matching_events rt window category mac pg;
                shown = take (es_limit input) (drop (es_offset input) rows)
            in return_io (Inr
                 \<lparr>so_rows = shown, so_total_matches = length rows,
                  so_next_offset = next_offset (es_offset input) (length shown) (length rows),
                  so_truncated = then_some (has_more pg) True\<rparr>))))))))"

definition events_search where
  "events_search from_value X rt ps =
     map_io (\<lambda>out. structured (JObj (set_fields
         [(''rows'', Some (JArr (map event_row_json (so_rows out)))),
          (''totalMatches'', Some (jnat (so_total_matches out))),
          (''nextOffset'', map_option jnat (so_next_offset out)),
          (''fetchWindowTruncated'', map_option JBool (so_truncated out))])))
       (events_search_outcome from_value X rt ps)"


section \<open>Context of one client\<close>

definition EVENT_SCAN_LIMIT :: nat where
  "EVENT_SCAN_LIMIT = 200"

definition CONTEXT_EVENT_LIMIT :: nat where
  "CONTEXT_EVENT_LIMIT = 20"

record client_event =
  ce_time :: u64
  ce_key :: "string option"
  ce_message :: "string option"

record client_context_output =
  cx_client :: active_client
  cx_ap_name :: "string option"
  cx_recent_events :: "client_event list"
  cx_recent_events_truncated :: bool
  cx_ap_lookup_truncated :: bool

definition sole_client ::
  "('e, 'x) tool_runtime_scheme \<Rightarrow> active_client list \<Rightarrow> string \<Rightarrow> mcp_error + active_client" where
  "sole_client rt rows selector =
     (case select_clients rt rows selector of
        [] \<Rightarrow> Inl (InvalidParams (''no connected client matches the selector; use clients.search to '' @
               ''list connected clients and select by MAC''))
      | [c] \<Rightarrow> Inr c
      | cs \<Rightarrow> Inl (InvalidParams (show_nat (length cs) @ '' connected clients match; select by MAC'')))"

text \<open>The events of the client, newest first: the rows of its address within the window.\<close>

definition client_events ::
  "string option \<Rightarrow> u64 \<times> u64 \<Rightarrow> log_entry system_log_page \<Rightarrow> event_row_view list" where
  "client_events mac window pg =
     newest_first (filter (\<lambda>row. map_option normalize_mac (ev_client_mac row) = mac \<and> mac \<noteq> None
                              \<and> in_window window row) (map event_row (log_data pg)))"

definition clients_context_outcome ::
  "(json \<Rightarrow> string + string) \<Rightarrow> inventory_decoders \<Rightarrow> ('e, 'y) event_externals_scheme \<Rightarrow> ('e, 'x) tool_runtime_scheme
     \<Rightarrow> params \<Rightarrow> ('e, client_context_output) tool" where
  "clients_context_outcome from_value dec X rt ps =
     bind_io (return_io (parse from_value ps)) (\<lambda>client.
     let selector = trim client
     in if bad_selector selector
        then return_io (Inl (InvalidParams ''client selector must be a MAC, name, or hostname''))
        else
          bind_io (upstream (active_clients (dec_clients dec) (legacy rt) (legacy_site rt))) (\<lambda>rows.
          bind_io (return_io (sole_client rt rows selector)) (\<lambda>c.
          bind_io (ap_lookup dec rt [c]) (\<lambda>(ap_names, ap_truncated).
          bind_io (log_window X DEFAULT_EVENT_WINDOW_HOURS) (\<lambda>window.
          bind_io (return_io (map_err mcp_api_error (query_new (fst window) (snd window) EVENT_SCAN_LIMIT))) (\<lambda>q.
          bind_io (upstream (system_log (ee_log X) (ee_entries X) (legacy rt) (legacy_site rt) q)) (\<lambda>pg.
            let events = client_events (map_option normalize_mac (ac_mac c)) window pg
            in return_io (Inr
                 \<lparr>cx_client = c, cx_ap_name = resolved_ap_name ap_names c,
                  cx_recent_events =
                    map (\<lambda>row. \<lparr>ce_time = ev_time row, ce_key = ev_key row, ce_message = ev_message row\<rparr>)
                      (take CONTEXT_EVENT_LIMIT events),
                  cx_recent_events_truncated = (has_more pg \<or> CONTEXT_EVENT_LIMIT < length events),
                  cx_ap_lookup_truncated = ap_truncated\<rparr>))))))))"

definition client_event_json :: "client_event \<Rightarrow> json" where
  "client_event_json e =
     JObj (set_fields
       [(''time'', Some (word_json (ce_time e))), (''key'', Some (nullable JStr (ce_key e))),
        (''message'', Some (nullable JStr (ce_message e)))])"

definition client_context_json :: "client_context_output \<Rightarrow> json" where
  "client_context_json out =
     (let c = cx_client out; (tx, rx, coverage) = client_counters c in
      JObj (set_fields
       [(''counterCoverage'', Some (client_counter_coverage_json coverage)),
        (''counterSemantics'', Some (counter_semantics_json semantics_client)),
        (''name'', Some (nullable JStr (or_else (ac_name c) (ac_hostname c)))),
        (''hostname'', Some (nullable JStr (ac_hostname c))), (''mac'', Some (nullable JStr (ac_mac c))),
        (''oui'', Some (nullable JStr (ac_oui c))), (''connection'', Some (JStr (connection_word (ac_is_wired c)))),
        (''ssid'', Some (nullable JStr (ac_essid c))), (''vlan'', Some (nullable word_json (ac_vlan c))),
        (''network'', Some (nullable JStr (ac_network c))), (''apName'', Some (nullable JStr (cx_ap_name out))),
        (''apMac'', Some (nullable JStr (ac_ap_mac c))), (''channel'', Some (nullable word_json (ac_channel c))),
        (''radio'', Some (nullable JStr (ac_radio c))), (''signalDbm'', Some (nullable jint (ac_signal c))),
        (''rssi'', Some (nullable jint (ac_rssi c))), (''uptimeSeconds'', Some (nullable word_json (ac_uptime c))),
        (''lastSeen'', Some (nullable word_json (ac_last_seen c))), (''ip'', Some (nullable JStr (ac_ip c))),
        (''useFixedIp'', Some (nullable JBool (ac_use_fixedip c))), (''fixedIp'', Some (nullable JStr (ac_fixed_ip c))),
        (''txBytes'', Some (nullable word_json tx)), (''rxBytes'', Some (nullable word_json rx)),
        (''recentEvents'', Some (JArr (map client_event_json (cx_recent_events out)))),
        (''recentEventsTruncated'', then_some (cx_recent_events_truncated out) (JBool True)),
        (''apLookupTruncated'', then_some (cx_ap_lookup_truncated out) (JBool True))]))"

definition clients_context where
  "clients_context from_value dec X rt ps =
     map_io (structured \<circ> client_context_json) (clients_context_outcome from_value dec X rt ps)"

end
