(* ===== verification/Tool_Network.thy ===== *)
theory Tool_Network
  imports Tool_Events
begin

text \<open>
  The read tools over the configuration and the air of a Network console
  (\<open>crates/unifi-mcp/src/tools.rs\<close>: \<open>network_overview\<close>, \<open>firewall_read\<close>, \<open>networks_read\<close>,
  \<open>wifi_diagnose\<close>, and \<open>network_source_read\<close> of \<open>tools/network_source.rs\<close>). The theorems say what a
  narrowed firewall read returns and where it continues, and what the load of an access point
  counts.
\<close>

section \<open>Overview\<close>

record health_subsystem =
  hs_subsystem :: "string option"
  hs_status :: "string option"

text \<open>What serde decodes for these tools, with the Integration client's version string.\<close>

record network_decoders =
  nd_info :: "string decoder"
  nd_health :: "health_subsystem legacy_envelope decoder"
  nd_device_page :: "device_summary page decoder"
  nd_client_page :: "client_summary page decoder"

definition count_probe :: page_request where
  "count_probe = \<lparr>req_offset = 0, req_limit = 1\<rparr>"

definition subsystem_rows :: "health_subsystem list \<Rightarrow> (string \<times> string) list" where
  "subsystem_rows =
     List.map_filter (\<lambda>row. map_option
       (\<lambda>s. (s, case hs_status row of Some status \<Rightarrow> status | None \<Rightarrow> ''unknown'')) (hs_subsystem row))"

record overview_output =
  nv_application_version :: string
  nv_subsystems :: "(string \<times> string) list"
  nv_window :: "u64 \<times> u64"
  nv_total :: u64
  nv_high_severity :: u64
  nv_devices :: u64
  nv_clients :: u64

definition network_overview_json :: "string \<Rightarrow> overview_output \<Rightarrow> json" where
  "network_overview_json controller out =
     JObj (set_fields
       [(''controller'', Some (JStr controller)),
        (''applicationVersion'', Some (JStr (nv_application_version out))),
        (''subsystems'', Some (JArr (map (\<lambda>(subsystem, status).
            JObj (set_fields [(''subsystem'', Some (JStr subsystem)), (''status'', Some (JStr status))]))
          (nv_subsystems out)))),
        (''recentEvents'', Some (JObj (set_fields
           [(''windowStart'', Some (word_json (fst (nv_window out)))),
            (''windowEnd'', Some (word_json (snd (nv_window out)))),
            (''total'', Some (word_json (nv_total out))),
            (''highSeverity'', Some (word_json (nv_high_severity out)))]))),
        (''devices'', Some (word_json (nv_devices out))), (''clients'', Some (word_json (nv_clients out)))])"

definition network_overview_outcome ::
  "(json \<Rightarrow> string + unit) \<Rightarrow> network_decoders \<Rightarrow> ('e, 'y) event_externals_scheme \<Rightarrow> ('e, 'x) tool_runtime_scheme
     \<Rightarrow> params \<Rightarrow> ('e, overview_output) tool" where
  "network_overview_outcome from_value dec X rt ps =
     bind_io (return_io (parse from_value ps)) (\<lambda>_.
     bind_io (upstream (info (nd_info dec) (integration rt))) (\<lambda>version.
     bind_io (upstream (site_health (nd_health dec) (legacy rt) (legacy_site rt))) (\<lambda>health.
     bind_io (log_window X DEFAULT_EVENT_WINDOW_HOURS) (\<lambda>window.
     bind_io (return_io (map_err mcp_api_error (query_new (fst window) (snd window) 1))) (\<lambda>q.
     bind_io (upstream (system_log (ee_log X) (ee_entries X) (legacy rt) (legacy_site rt) q)) (\<lambda>all.
     bind_io (upstream (system_log (ee_log X) (ee_entries X) (legacy rt) (legacy_site rt) (high_severity q))) (\<lambda>high.
     bind_io (resolve_site rt) (\<lambda>site.
     bind_io (upstream (devices (nd_device_page dec) (integration rt) site count_probe)) (\<lambda>ds.
     bind_io (upstream (clients (nd_client_page dec) (integration rt) site count_probe)) (\<lambda>cs.
       return_io (Inr
         \<lparr>nv_application_version = version, nv_subsystems = subsystem_rows health, nv_window = window,
          nv_total = total_element_count all, nv_high_severity = total_element_count high,
          nv_devices = total_count ds, nv_clients = total_count cs\<rparr>)))))))))))"

definition network_overview where
  "network_overview from_value dec X controller rt ps =
     map_io (structured \<circ> network_overview_json controller) (network_overview_outcome from_value dec X rt ps)"

section \<open>Firewall\<close>

record firewall_zone =
  fz_id :: string
  fz_name :: "string option"

record policy_endpoint =
  pe_zone_id :: "string option"
  pe_port :: "string option"

record firewall_policy_row =
  fp_id :: string
  fp_name :: "string option"
  fp_enabled :: "bool option"
  fp_logging_enabled :: "bool option"
  fp_action :: "json option"
  fp_index :: "int option"
  fp_ip_protocol_scope :: "json option"
  fp_source :: "policy_endpoint option"
  fp_destination :: "policy_endpoint option"

record traffic_rule =
  tr_id :: string
  tr_description :: "string option"
  tr_enabled :: "bool option"
  tr_action :: "string option"
  tr_matching_target :: "string option"
  tr_network_id :: "string option"
  tr_domains :: "string list"

record traffic_route =
  tt_id :: string
  tt_description :: "string option"
  tt_enabled :: "bool option"
  tt_matching_target :: "string option"
  tt_network_id :: "string option"
  tt_interface :: "string option"
  tt_domains :: "string list"

record firewall_decoders =
  fd_info :: "string decoder"
  fd_zones :: "firewall_zone page decoder"
  fd_policies :: "firewall_policy_row page decoder"
  fd_port_forwards :: "port_forward legacy_envelope decoder"
  fd_traffic_rules :: "traffic_rule legacy_envelope decoder"
  fd_traffic_routes :: "traffic_route legacy_envelope decoder"

datatype firewall_section = Zones | Policies | PortForwards | TrafficRules | TrafficRoutes

record firewall_read_input =
  fri_section :: "firewall_section option"
  fri_section_offset :: "u64 option"

definition generation_specific :: "firewall_section \<Rightarrow> bool" where
  "generation_specific section \<longleftrightarrow> section \<in> {Zones, Policies}"

primrec section_word :: "firewall_section \<Rightarrow> string" where
  "section_word Zones = ''zones''"
| "section_word Policies = ''policies''"
| "section_word PortForwards = ''portForwards''"
| "section_word TrafficRules = ''trafficRules''"
| "section_word TrafficRoutes = ''trafficRoutes''"

definition validate_section_offset :: "firewall_read_input \<Rightarrow> mcp_error + u64" where
  "validate_section_offset input =
     (let start = (case fri_section_offset input of Some n \<Rightarrow> n | None \<Rightarrow> 0)
      in if fri_section_offset input \<noteq> None \<and> fri_section input \<noteq> Some Zones \<and> fri_section input \<noteq> Some Policies
         then Inl (InvalidParams ''sectionOffset requires section zones or policies'') else Inr start)"

definition ZONE_SCAN_CEILING :: u64 where
  "ZONE_SCAN_CEILING = 400"

definition POLICY_SCAN_CEILING :: u64 where
  "POLICY_SCAN_CEILING = 200"

text \<open>A \<open>ZoneView\<close> is the zone; a \<open>PolicyView\<close> takes the discriminators of two attributes.\<close>

definition policy_row_view :: "firewall_policy_row \<Rightarrow> policy_view" where
  "policy_row_view p =
     \<lparr>pv_id = fp_id p, pv_name = fp_name p, pv_enabled = fp_enabled p, pv_logging_enabled = fp_logging_enabled p,
      pv_action = Option.bind (fp_action p) (firewall_attribute_name ''type''), pv_index = fp_index p,
      pv_ip_protocol_scope = Option.bind (fp_ip_protocol_scope p) (firewall_attribute_name ''ipVersion''),
      pv_source_zone_id = Option.bind (fp_source p) pe_zone_id, pv_source_port = Option.bind (fp_source p) pe_port,
      pv_destination_zone_id = Option.bind (fp_destination p) pe_zone_id,
      pv_destination_port = Option.bind (fp_destination p) pe_port\<rparr>"

definition zones_section ::
  "firewall_decoders \<Rightarrow> ('e, 'x) tool_runtime_scheme \<Rightarrow> string \<Rightarrow> u64 \<Rightarrow> ('e, firewall_zone list \<times> bool) tool" where
  "zones_section dec rt site start =
     paged_gather start ZONE_SCAN_CEILING (\<lambda>offset. firewall_zones (fd_zones dec) (integration rt) site (page_at offset))"

definition policies_section ::
  "firewall_decoders \<Rightarrow> ('e, 'x) tool_runtime_scheme \<Rightarrow> string \<Rightarrow> u64 \<Rightarrow> ('e, policy_view list \<times> bool) tool" where
  "policies_section dec rt site start =
     map_io (\<lambda>(rows, truncated). (map policy_row_view rows, truncated))
       (paged_gather start POLICY_SCAN_CEILING
          (\<lambda>offset. firewall_policies (fd_policies dec) (integration rt) site (page_at offset)))"

record zone_scan =
  zs_zones :: "firewall_zone list"
  zs_policies :: "policy_view list"
  zs_truncated :: bool
  zs_next_offset :: "u64 option"
  zs_note :: "string option"

definition zone_scan_default :: zone_scan where
  "zone_scan_default = \<lparr>zs_zones = [], zs_policies = [], zs_truncated = False, zs_next_offset = None, zs_note = None\<rparr>"

text \<open>The closure \<open>record\<close> of \<open>zone_based_sections\<close>; \<open>cut\<close> collects the words of the sections cut.\<close>

definition note_truncation ::
  "firewall_section option \<Rightarrow> u64 \<Rightarrow> bool \<Rightarrow> firewall_section \<Rightarrow> nat \<Rightarrow> zone_scan \<times> string list
     \<Rightarrow> zone_scan \<times> string list" where
  "note_truncation section start truncated this returned = (\<lambda>(scan, cut).
     if \<not> truncated then (scan, cut)
     else if section \<noteq> Some this then (scan\<lparr>zs_truncated := True\<rparr>, cut @ [section_word this])
     else (scan\<lparr>zs_truncated := True, zs_next_offset := Some (saturating_add64 start (of_nat returned))\<rparr>, cut))"

definition scan_start :: "firewall_section option \<Rightarrow> u64 \<Rightarrow> firewall_section \<Rightarrow> u64" where
  "scan_start section start this = (if section = Some this then start else 0)"

fun join_and :: "string list \<Rightarrow> string" where
  "join_and [] = []"
| "join_and [w] = w"
| "join_and (w # ws) = w @ '' and '' @ join_and ws"

definition cut_note :: "string list \<Rightarrow> string option" where
  "cut_note names =
     then_some (names \<noteq> [])
       (join_and names @ '' reached the response bound for this read; narrow with '' @
        ''section and continue with sectionOffset to read the rest'')"

definition wanted_section :: "firewall_section option \<Rightarrow> firewall_section \<Rightarrow> bool" where
  "wanted_section section this \<longleftrightarrow> section = None \<or> section = Some this"

definition zone_based_sections ::
  "firewall_decoders \<Rightarrow> ('e, 'x) tool_runtime_scheme \<Rightarrow> string \<Rightarrow> firewall_section option \<Rightarrow> u64 \<Rightarrow> ('e, zone_scan) tool" where
  "zone_based_sections dec rt site section start =
     bind_io (if wanted_section section Zones
              then map_io (\<lambda>(rows, truncated).
                     (let (scan, cut) = note_truncation section start truncated Zones (length rows) (zone_scan_default, [])
                      in (scan\<lparr>zs_zones := rows\<rparr>, cut)))
                   (zones_section dec rt site (scan_start section start Zones))
              else return_io (Inr (zone_scan_default, []))) (\<lambda>(scan, cut).
     bind_io (if wanted_section section Policies
              then map_io (\<lambda>(rows, truncated).
                     (let (scan, cut) = note_truncation section start truncated Policies (length rows) (scan, cut)
                      in (scan\<lparr>zs_policies := rows\<rparr>, cut)))
                   (policies_section dec rt site (scan_start section start Policies))
              else return_io (Inr (scan, cut))) (\<lambda>(scan, cut).
       return_io (Inr (scan\<lparr>zs_note := cut_note cut\<rparr>))))"

record firewall_read_output =
  fo_generation :: bool
  fo_section :: "firewall_section option"
  fo_scan :: zone_scan
  fo_port_forwards :: "port_forward_view list"
  fo_traffic_rules :: "traffic_rule list"
  fo_traffic_routes :: "traffic_route list"

text \<open>A legacy section is read only when it is wanted.\<close>

definition legacy_section :: "bool \<Rightarrow> ('e world \<Rightarrow> (api_error + 'a list) \<times> 'e world) \<Rightarrow> ('e, 'a list) tool" where
  "legacy_section wanted read = (if wanted then upstream read else return_io (Inr []))"

definition needs_generation :: "firewall_section option \<Rightarrow> bool" where
  "needs_generation section \<longleftrightarrow> (case section of None \<Rightarrow> True | Some s \<Rightarrow> generation_specific s)"

definition firewall_zone_based ::
  "firewall_decoders \<Rightarrow> ('e, 'x) tool_runtime_scheme \<Rightarrow> firewall_section option \<Rightarrow> ('e, bool) tool" where
  "firewall_zone_based dec rt section =
     (if needs_generation section
      then bind_io (resolve_site rt) (\<lambda>site.
           bind_io (upstream (detect (fd_info dec) (fd_zones dec) (integration rt) site)) (\<lambda>caps.
             return_io (case firewall_rejection caps of
                          Some refusal \<Rightarrow> Inl (mcp_api_error refusal)
                        | None \<Rightarrow> Inr (firewall caps = ZoneBased))))
      else return_io (Inr False))"

definition firewall_read_outcome ::
  "(json \<Rightarrow> string + firewall_read_input) \<Rightarrow> firewall_decoders \<Rightarrow> ('e, 'x) tool_runtime_scheme \<Rightarrow> params
     \<Rightarrow> ('e, firewall_read_output) tool" where
  "firewall_read_outcome from_value dec rt ps =
     bind_io (return_io (parse from_value ps)) (\<lambda>input.
     bind_io (return_io (validate_section_offset input)) (\<lambda>start.
     let section = fri_section input
     in bind_io (firewall_zone_based dec rt section) (\<lambda>zone_based.
        bind_io (if zone_based
                 then bind_io (resolve_site rt) (\<lambda>site. zone_based_sections dec rt site section start)
                 else return_io (Inr zone_scan_default)) (\<lambda>scan.
        bind_io (legacy_section (wanted_section section PortForwards)
                   (port_forwards (fd_port_forwards dec) (legacy rt) (legacy_site rt))) (\<lambda>forwards.
        bind_io (legacy_section (wanted_section section TrafficRules)
                   (traffic_rules (fd_traffic_rules dec) (legacy rt) (legacy_site rt))) (\<lambda>rules.
        bind_io (legacy_section (wanted_section section TrafficRoutes)
                   (traffic_routes (fd_traffic_routes dec) (legacy rt) (legacy_site rt))) (\<lambda>routes.
          return_io (Inr
            \<lparr>fo_generation = needs_generation section, fo_section = section, fo_scan = scan,
             fo_port_forwards = map port_forward_view_of forwards, fo_traffic_rules = rules,
             fo_traffic_routes = routes\<rparr>))))))))"

definition zone_view_json :: "firewall_zone \<Rightarrow> json" where
  "zone_view_json z = JObj (set_fields [(''id'', Some (JStr (fz_id z))), (''name'', Some (nullable JStr (fz_name z)))])"

definition traffic_rule_json :: "traffic_rule \<Rightarrow> json" where
  "traffic_rule_json r =
     JObj (set_fields
       [(''id'', Some (JStr (tr_id r))), (''description'', Some (nullable JStr (tr_description r))),
        (''enabled'', Some (nullable JBool (tr_enabled r))), (''action'', Some (nullable JStr (tr_action r))),
        (''matchingTarget'', Some (nullable JStr (tr_matching_target r))),
        (''networkId'', Some (nullable JStr (tr_network_id r))), (''domains'', Some (json_list JStr (tr_domains r)))])"

definition traffic_route_json :: "traffic_route \<Rightarrow> json" where
  "traffic_route_json r =
     JObj (set_fields
       [(''id'', Some (JStr (tt_id r))), (''description'', Some (nullable JStr (tt_description r))),
        (''enabled'', Some (nullable JBool (tt_enabled r))),
        (''matchingTarget'', Some (nullable JStr (tt_matching_target r))),
        (''networkId'', Some (nullable JStr (tt_network_id r))), (''interface'', Some (nullable JStr (tt_interface r))),
        (''domains'', Some (json_list JStr (tt_domains r)))])"

definition firewall_read_json :: "firewall_read_output \<Rightarrow> json" where
  "firewall_read_json out =
     (let scan = fo_scan out in
      JObj (set_fields
       [(''generation'', then_some (fo_generation out) (JStr ''zoneBased'')),
        (''section'', map_option (JStr \<circ> section_word) (fo_section out)),
        (''sectionsTruncated'', then_some (zs_truncated scan) (JBool True)),
        (''nextSectionOffset'', map_option word_json (zs_next_offset scan)),
        (''truncationNote'', map_option JStr (zs_note scan)),
        (''generationNote'',
           then_some (fo_generation out) (JStr ''zone-based firewall supported by the controller capability probe'')),
        (''zones'', Some (json_list zone_view_json (zs_zones scan))),
        (''policies'', Some (json_list policy_view_json (zs_policies scan))),
        (''portForwards'', Some (json_list port_forward_view_json (fo_port_forwards out))),
        (''trafficRules'', Some (json_list traffic_rule_json (fo_traffic_rules out))),
        (''trafficRoutes'', Some (json_list traffic_route_json (fo_traffic_routes out)))]))"

definition firewall_read where
  "firewall_read from_value dec rt ps =
     map_io (structured \<circ> firewall_read_json) (firewall_read_outcome from_value dec rt ps)"

section \<open>Networks and wireless networks\<close>

record network_conf =
  nc_id :: string
  nc_name :: "string option"
  nc_purpose :: "string option"
  nc_vlan :: "16 word option"
  nc_ip_subnet :: "string option"
  nc_enabled :: "bool option"
  nc_dhcpd_enabled :: "bool option"
  nc_dhcpd_start :: "string option"
  nc_dhcpd_stop :: "string option"

datatype networks_section = NetworksOnly | WlansOnly

definition network_view_json :: "network_conf \<Rightarrow> json" where
  "network_view_json n =
     JObj (set_fields
       [(''name'', Some (nullable JStr (nc_name n))), (''purpose'', Some (nullable JStr (nc_purpose n))),
        (''vlan'', Some (nullable word_json (nc_vlan n))), (''subnet'', Some (nullable JStr (nc_ip_subnet n))),
        (''enabled'', Some (nullable JBool (nc_enabled n))), (''dhcpEnabled'', Some (nullable JBool (nc_dhcpd_enabled n))),
        (''dhcpStart'', Some (nullable JStr (nc_dhcpd_start n))), (''dhcpStop'', Some (nullable JStr (nc_dhcpd_stop n)))])"

definition network_name :: "network_conf list \<Rightarrow> string \<Rightarrow> string option" where
  "network_name rows i = Option.bind (map_of (rev (map (\<lambda>n. (nc_id n, nc_name n)) rows)) i) id"

text \<open>A wireless network with the name of the network behind it.\<close>

definition wlan_view_json :: "network_conf list \<Rightarrow> wlan_conf \<Rightarrow> json" where
  "wlan_view_json rows w =
     JObj (set_fields
       [(''id'', Some (JStr (wlan_id w))), (''ssid'', Some (nullable JStr (wlan_name w))),
        (''enabled'', Some (nullable JBool (wlan_enabled w))), (''security'', Some (nullable JStr (wlan_security w))),
        (''hidden'', Some (nullable JBool (wlan_hide_ssid w))),
        (''network'', Some (nullable JStr (Option.bind (wlan_networkconf_id w) (network_name rows)))),
        (''passphrase'', map_option JStr (wlan_x_passphrase w)),
        (''radiusProfileId'', map_option JStr (wlan_radius_profile_id w))])"

definition networks_read ::
  "(json \<Rightarrow> string + networks_section option) \<Rightarrow> network_conf legacy_envelope decoder \<Rightarrow> wlan_conf legacy_envelope decoder
     \<Rightarrow> ('e, 'x) tool_runtime_scheme \<Rightarrow> params \<Rightarrow> ('e, call_result) tool" where
  "networks_read from_value ndec wdec rt ps =
     bind_io (return_io (parse from_value ps)) (\<lambda>section.
     bind_io (upstream (networks ndec (legacy rt) (legacy_site rt))) (\<lambda>rows.
     bind_io (legacy_section (section \<noteq> Some NetworksOnly) (wlans wdec (legacy rt) (legacy_site rt))) (\<lambda>ws.
       return_io (Inr (structured (JObj (set_fields
         [(''networks'', Some (json_list network_view_json (if section = Some WlansOnly then [] else rows))),
          (''wlans'', Some (json_list (wlan_view_json rows) ws))])))))))"


section \<open>Complete records of the diagnostic sources\<close>

text \<open>\<open>NetworkSource\<close> has the constructors of \<open>LegacyDiagnosticSource\<close>, to which it converts.\<close>

primrec source_word :: "legacy_diagnostic_source \<Rightarrow> string" where
  "source_word ActiveClients = ''activeClients''"
| "source_word SiteHealth = ''siteHealth''"
| "source_word NetworkConfiguration = ''networkConfiguration''"
| "source_word NeighborAccessPoints = ''neighborAccessPoints''"
| "source_word DpiCounters = ''dpiCounters''"

record source_read_input =
  si_source :: legacy_diagnostic_source
  si_offset :: u64
  si_limit :: nat

record source_read_output =
  sr_source :: legacy_diagnostic_source
  sr_records :: "json list option"
  sr_records_in_content :: "bool option"
  sr_controller_metadata :: "(string \<times> json) list option"
  sr_controller_metadata_in_content :: "bool option"
  sr_offset :: u64
  sr_limit :: nat
  sr_count :: u64
  sr_total_count :: u64
  sr_next_offset :: "u64 option"

definition source_read_json :: "source_read_output \<Rightarrow> json" where
  "source_read_json out =
     JObj (set_fields
       [(''source'', Some (JStr (source_word (sr_source out)))), (''records'', map_option JArr (sr_records out)),
        (''recordsInContent'', map_option JBool (sr_records_in_content out)),
        (''controllerMetadata'', map_option JObj (sr_controller_metadata out)),
        (''controllerMetadataInContent'', map_option JBool (sr_controller_metadata_in_content out)),
        (''offset'', Some (word_json (sr_offset out))), (''limit'', Some (jnat (sr_limit out))),
        (''count'', Some (word_json (sr_count out))), (''totalCount'', Some (word_json (sr_total_count out))),
        (''nextOffset'', map_option word_json (sr_next_offset out)),
        (''paginationNote'', Some (JStr (''Paging is local to this call's controller response. Each call fetches a new '' @
           ''response; rows may change between pages.'')))])"

definition source_steps ::
  "('e, 'x) tool_runtime_scheme \<Rightarrow> (string \<times> (source_read_output \<Rightarrow> (string \<times> source_read_output) option)) list" where
  "source_steps rt =
     [(''records'', \<lambda>out. map_option (\<lambda>rows. (show_json rt (JArr rows),
          out\<lparr>sr_records := None, sr_records_in_content := Some True\<rparr>)) (sr_records out)),
      (''controllerMetadata'', \<lambda>out. map_option (\<lambda>m. (show_json rt (JObj m),
          out\<lparr>sr_controller_metadata := None, sr_controller_metadata_in_content := Some True\<rparr>))
          (sr_controller_metadata out))]"

text \<open>The page cut out of the complete response; \<open>expect\<close>ed parts are of an envelope the client checked.\<close>

definition source_page :: "source_read_input \<Rightarrow> json \<Rightarrow> mcp_error + source_read_output" where
  "source_page input envelope =
     bind_res (ok_or (InternalError ''panicked: validated envelope'') (jobj envelope)) (\<lambda>m.
     bind_res (ok_or (InternalError ''panicked: validated data array'') (Option.bind (get ''data'' m) jarr)) (\<lambda>rows.
     let records = take (si_limit input) (drop (unat (si_offset input)) rows);
         matched = of_nat (length rows)
     in Inr \<lparr>sr_source = si_source input, sr_records = Some records, sr_records_in_content = None,
             sr_controller_metadata = Some (map_remove ''data'' m), sr_controller_metadata_in_content = None,
             sr_offset = si_offset input, sr_limit = si_limit input, sr_count = of_nat (length records),
             sr_total_count = matched,
             sr_next_offset = (case checked_add (si_offset input) (of_nat (length records)) of
                                 None \<Rightarrow> None | Some n \<Rightarrow> then_some (n < matched) n)\<rparr>))"

definition network_source_read_outcome ::
  "(json \<Rightarrow> string + source_read_input) \<Rightarrow> ('e, 'x) tool_runtime_scheme \<Rightarrow> params \<Rightarrow> ('e, source_read_output) tool" where
  "network_source_read_outcome from_value rt ps =
     bind_io (return_io (parse from_value ps)) (\<lambda>input.
     bind_io (return_io (validate_search_page (si_limit input))) (\<lambda>_.
     bind_io (upstream (diagnostic_records (dec_envelope rt) (legacy rt) (legacy_site rt) (si_source input))) (\<lambda>envelope.
       return_io (source_page input envelope))))"

definition network_source_read where
  "network_source_read from_value rt ps =
     map_io (spilled_result rt source_read_json (source_steps rt)) (network_source_read_outcome from_value rt ps)"

section \<open>Diagnosis of the air\<close>

definition DEFAULT_WEAK_SIGNAL_DBM :: int where
  "DEFAULT_WEAK_SIGNAL_DBM = - 75"

definition WEAK_CLIENT_CEILING :: nat where
  "WEAK_CLIENT_CEILING = 50"

definition ROGUE_AP_CEILING :: nat where
  "ROGUE_AP_CEILING = 100"

definition AP_DETAIL_CEILING :: nat where
  "AP_DETAIL_CEILING = 16"

record weak_client_row =
  wk_name :: "string option"
  wk_mac :: "string option"
  wk_ssid :: "string option"
  wk_ap_name :: "string option"
  wk_signal_dbm :: int
  wk_rssi :: "int option"

definition ap_mac_of :: "active_client \<Rightarrow> string option" where
  "ap_mac_of c = map_option normalize_mac (ac_ap_mac c)"

definition is_weak :: "int \<Rightarrow> active_client \<Rightarrow> bool" where
  "is_weak threshold c \<longleftrightarrow> (case ac_signal c of None \<Rightarrow> False | Some signal \<Rightarrow> signal < threshold)"

definition weak_row :: "int \<Rightarrow> (string \<Rightarrow> string option) \<Rightarrow> active_client \<Rightarrow> weak_client_row" where
  "weak_row threshold ap_names c =
     \<lparr>wk_name = or_else (ac_name c) (ac_hostname c), wk_mac = ac_mac c, wk_ssid = ac_essid c,
      wk_ap_name = Option.bind (ap_mac_of c) ap_names,
      wk_signal_dbm = (case ac_signal c of Some signal \<Rightarrow> signal | None \<Rightarrow> threshold), wk_rssi = ac_rssi c\<rparr>"

text \<open>The counts are \<open>u32\<close> in the source; a list of clients in memory is shorter than their range.\<close>

definition load_step ::
  "int \<Rightarrow> (string \<Rightarrow> string option) \<Rightarrow> active_client
     \<Rightarrow> (string \<Rightarrow> (nat \<times> nat) option) \<times> weak_client_row list
     \<Rightarrow> (string \<Rightarrow> (nat \<times> nat) option) \<times> weak_client_row list" where
  "load_step threshold ap_names c = (\<lambda>(by_ap, weak_rows).
     if ac_is_wired c = Some True then (by_ap, weak_rows)
     else
       (let weak = is_weak threshold c
        in (case ap_mac_of c of
              None \<Rightarrow> by_ap
            | Some mac \<Rightarrow>
                (let (n, k) = (case by_ap mac of Some entry \<Rightarrow> entry | None \<Rightarrow> (0, 0))
                 in by_ap(mac \<mapsto> (n + 1, if weak then k + 1 else k))),
            if weak then weak_rows @ [weak_row threshold ap_names c] else weak_rows)))"

definition wireless_load ::
  "active_client list \<Rightarrow> int \<Rightarrow> (string \<Rightarrow> string option)
     \<Rightarrow> (string \<Rightarrow> (nat \<times> nat) option) \<times> weak_client_row list" where
  "wireless_load rows threshold ap_names =
     (case fold (load_step threshold ap_names) rows (\<lambda>_. None, []) of
        (by_ap, weak_rows) \<Rightarrow> (by_ap, take WEAK_CLIENT_CEILING (sort_key wk_signal_dbm weak_rows)))"

record access_point_health =
  ah_name :: "string option"
  ah_mac :: "string option"
  ah_state :: "string option"
  ah_radios :: "device_radio list"
  ah_radios_truncated :: bool
  ah_clients :: nat
  ah_weak_clients :: nat

record rogue_ap =
  ra_bssid :: "string option"
  ra_essid :: "string option"
  ra_channel :: "u32 option"
  ra_rssi :: "int option"

definition device_load :: "(string \<Rightarrow> (nat \<times> nat) option) \<Rightarrow> device_summary \<Rightarrow> (nat \<times> nat) option" where
  "device_load by_ap d = Option.bind (map_option normalize_mac (ds_mac_address d)) by_ap"

definition access_point ::
  "(string \<Rightarrow> (nat \<times> nat) option) \<Rightarrow> device_summary \<Rightarrow> device_detail_record \<Rightarrow> access_point_health option" where
  "access_point by_ap d detail =
     (let radios = (case dd_interfaces detail of Some i \<Rightarrow> di_radios i | None \<Rightarrow> []);
          (n, k) = (case device_load by_ap d of Some entry \<Rightarrow> entry | None \<Rightarrow> (0, 0))
      in if radios = [] then None
         else Some \<lparr>ah_name = ds_name (dd_summary detail), ah_mac = ds_mac_address (dd_summary detail),
                    ah_state = ds_state (dd_summary detail), ah_radios = take RADIO_TABLE_CEILING radios,
                    ah_radios_truncated = (RADIO_TABLE_CEILING < length radios), ah_clients = n, ah_weak_clients = k\<rparr>)"

text \<open>One detail read per device, in order; the first failure ends the diagnosis.\<close>

fun access_points ::
  "inventory_decoders \<Rightarrow> ('e, 'x) tool_runtime_scheme \<Rightarrow> string \<Rightarrow> (string \<Rightarrow> (nat \<times> nat) option)
     \<Rightarrow> device_summary list \<Rightarrow> ('e, access_point_health list) tool" where
  "access_points dec rt site by_ap [] = return_io (Inr [])"
| "access_points dec rt site by_ap (d # ds) =
     bind_io (upstream (device_detail (dec_detail dec) (integration rt) site (ds_id d))) (\<lambda>detail.
       map_io (\<lambda>aps. (case access_point by_ap d detail of None \<Rightarrow> aps | Some ap \<Rightarrow> ap # aps))
         (access_points dec rt site by_ap ds))"

record wifi_diagnose_output =
  wd_threshold :: int
  wd_access_points_truncated :: bool
  wd_access_points :: "access_point_health list"
  wd_weak_clients :: "weak_client_row list"
  wd_rogue_aps :: "rogue_ap list"
  wd_rogue_aps_truncated :: bool

definition rogue_section ::
  "rogue_ap legacy_envelope decoder \<Rightarrow> ('e, 'x) tool_runtime_scheme \<Rightarrow> ('e, rogue_ap list \<times> bool) tool" where
  "rogue_section rdec rt =
     map_io (\<lambda>all. (take ROGUE_AP_CEILING all, ROGUE_AP_CEILING < length all))
       (upstream (rogue_aps rdec (legacy rt) (legacy_site rt)))"

text \<open>\<open>sort_by_key\<close> puts the devices that carry clients first.\<close>

definition wifi_diagnose_outcome ::
  "(json \<Rightarrow> string + int option) \<Rightarrow> inventory_decoders \<Rightarrow> rogue_ap legacy_envelope decoder
     \<Rightarrow> ('e, 'x) tool_runtime_scheme \<Rightarrow> params \<Rightarrow> ('e, wifi_diagnose_output) tool" where
  "wifi_diagnose_outcome from_value dec rdec rt ps =
     bind_io (return_io (parse from_value ps)) (\<lambda>requested.
     let threshold = (case requested of Some t \<Rightarrow> t | None \<Rightarrow> DEFAULT_WEAK_SIGNAL_DBM)
     in if threshold < - 100 \<or> - 30 < threshold
        then return_io (Inl (InvalidParams ''weakSignalThresholdDbm must be between -100 and -30''))
        else
          bind_io (upstream (active_clients (dec_clients dec) (legacy rt) (legacy_site rt))) (\<lambda>rows.
          bind_io (device_inventory dec rt) (\<lambda>(inventory, inventory_truncated).
          let (by_ap, weak_rows) = wireless_load rows threshold (names_by_mac inventory)
          in bind_io (resolve_site rt) (\<lambda>site.
             let ordered = sort_key (\<lambda>d. device_load by_ap d = None) inventory
             in bind_io (access_points dec rt site by_ap (take AP_DETAIL_CEILING ordered)) (\<lambda>aps.
                bind_io (rogue_section rdec rt) (\<lambda>(rogues, rogues_truncated).
                  return_io (Inr
                    \<lparr>wd_threshold = threshold,
                     wd_access_points_truncated = (inventory_truncated \<or> AP_DETAIL_CEILING < length ordered),
                     wd_access_points = aps, wd_weak_clients = weak_rows, wd_rogue_aps = rogues,
                     wd_rogue_aps_truncated = rogues_truncated\<rparr>)))))))"

definition access_point_json :: "access_point_health \<Rightarrow> json" where
  "access_point_json ap =
     JObj (set_fields
       [(''name'', Some (nullable JStr (ah_name ap))), (''mac'', Some (nullable JStr (ah_mac ap))),
        (''state'', Some (nullable JStr (ah_state ap))), (''radios'', Some (json_list device_radio_json (ah_radios ap))),
        (''radiosTruncated'', then_some (ah_radios_truncated ap) (JBool True)),
        (''clients'', Some (jnat (ah_clients ap))), (''weakClients'', Some (jnat (ah_weak_clients ap)))])"

definition weak_client_json :: "weak_client_row \<Rightarrow> json" where
  "weak_client_json w =
     JObj (set_fields
       [(''name'', Some (nullable JStr (wk_name w))), (''mac'', Some (nullable JStr (wk_mac w))),
        (''ssid'', Some (nullable JStr (wk_ssid w))), (''apName'', Some (nullable JStr (wk_ap_name w))),
        (''signalDbm'', Some (jint (wk_signal_dbm w))), (''rssi'', Some (nullable jint (wk_rssi w)))])"

definition rogue_ap_json :: "rogue_ap \<Rightarrow> json" where
  "rogue_ap_json r =
     JObj (set_fields
       [(''ssid'', Some (nullable JStr (ra_essid r))), (''bssid'', Some (nullable JStr (ra_bssid r))),
        (''channel'', Some (nullable word_json (ra_channel r))), (''rssi'', Some (nullable jint (ra_rssi r)))])"

definition wifi_diagnose_json :: "wifi_diagnose_output \<Rightarrow> json" where
  "wifi_diagnose_json out =
     JObj (set_fields
       [(''weakSignalThresholdDbm'', Some (jint (wd_threshold out))),
        (''accessPointsTruncated'', then_some (wd_access_points_truncated out) (JBool True)),
        (''accessPoints'', Some (json_list access_point_json (wd_access_points out))),
        (''weakClients'', Some (json_list weak_client_json (wd_weak_clients out))),
        (''rogueAps'', Some (json_list rogue_ap_json (wd_rogue_aps out))),
        (''rogueApsTruncated'', then_some (wd_rogue_aps_truncated out) (JBool True))])"

definition wifi_diagnose where
  "wifi_diagnose from_value dec rdec rt ps =
     map_io (structured \<circ> wifi_diagnose_json) (wifi_diagnose_outcome from_value dec rdec rt ps)"


section \<open>Properties\<close>

definition stations :: "active_client list \<Rightarrow> string \<Rightarrow> active_client list" where
  "stations rows mac = filter (\<lambda>c. ac_is_wired c \<noteq> Some True \<and> ap_mac_of c = Some mac) rows"

lemma stations_snoc:
  "stations (rows @ [c]) mac =
     stations rows mac @ (if ac_is_wired c \<noteq> Some True \<and> ap_mac_of c = Some mac then [c] else [])"
  by (simp add: stations_def)

lemma fold_load_step:
  "fold (load_step threshold ap_names) rows (\<lambda>_. None, []) =
     (\<lambda>mac. if stations rows mac = [] then None
            else Some (length (stations rows mac), length (filter (is_weak threshold) (stations rows mac))),
      map (weak_row threshold ap_names) (filter (\<lambda>c. ac_is_wired c \<noteq> Some True \<and> is_weak threshold c) rows))"
  (is "_ = (?counts rows, ?weak rows)")
proof (induction rows rule: rev_induct)
  case (snoc c rows)
  have "load_step threshold ap_names c (?counts rows, ?weak rows) = (?counts (rows @ [c]), ?weak (rows @ [c]))"
    by (cases "ap_mac_of c") (simp_all add: load_step_def stations_snoc Let_def fun_eq_iff)
  then show ?case by (simp only: fold_append comp_apply fold_simps snoc.IH)
qed (simp add: stations_def)

text \<open>
  C24. The diagnosis counts every wireless client once: an access point is shown with the number of
  connected clients that report its address, wired ones apart, and the number of those below the
  threshold, whether or not its client list is long; the weak clients shown are the weakest of all
  wireless clients below the threshold, in order, at most fifty, those without an access point
  included.
\<close>

theorem wireless_load_is_exact:
  "fst (wireless_load rows threshold ap_names) mac =
     (if stations rows mac = [] then None
      else Some (length (stations rows mac), length (filter (is_weak threshold) (stations rows mac))))
   \<and> (\<exists>ranked. mset ranked = image_mset (weak_row threshold ap_names)
            (filter_mset (\<lambda>c. ac_is_wired c \<noteq> Some True \<and> is_weak threshold c) (mset rows))
        \<and> sorted (map wk_signal_dbm ranked)
        \<and> snd (wireless_load rows threshold ap_names) = take WEAK_CLIENT_CEILING ranked)"
proof -
  let ?weak = "map (weak_row threshold ap_names) (filter (\<lambda>c. ac_is_wired c \<noteq> Some True \<and> is_weak threshold c) rows)"
  have "mset (sort_key wk_signal_dbm ?weak) = image_mset (weak_row threshold ap_names)
      (filter_mset (\<lambda>c. ac_is_wired c \<noteq> Some True \<and> is_weak threshold c) (mset rows))"
    by (simp add: mset_filter)
  then show ?thesis
    by (auto simp: wireless_load_def fold_load_step intro!: exI [of _ "sort_key wk_signal_dbm ?weak"])
qed

text \<open>
  C25. Zones can be read to the end. On a console that serves its zone list in pages, a read narrowed
  to the zones returns the zones from the requested offset on, in order; the continuation offset is
  absent exactly when they were read to the end, and otherwise is the position of the first zone not
  returned, at least four hundred further on, so repeating the read with it misses and repeats nothing.
\<close>

theorem narrowed_zone_read_continues:
  assumes "serves_rows (\<lambda>offset. firewall_zones (fd_zones dec) (integration rt) site (page_at offset)) zones"
    and "length zones < 2 ^ 64 - 1" and "unat start \<le> length zones"
  shows "\<exists>scan s'. zone_based_sections dec rt site (Some Zones) start s = (Inr scan, s')
     \<and> zs_zones scan = take (length (zs_zones scan)) (drop (unat start) zones) \<and> zs_note scan = None
     \<and> (case zs_next_offset scan of
          None \<Rightarrow> zs_zones scan = drop (unat start) zones
        | Some n \<Rightarrow> unat n = unat start + length (zs_zones scan) \<and> unat n < length zones
            \<and> unat ZONE_SCAN_CEILING \<le> length (zs_zones scan))"
proof -
  obtain rows truncated s' where run: "zones_section dec rt site start s = (Inr (rows, truncated), s')"
    and got: "gathered (unat start) (unat ZONE_SCAN_CEILING) zones (rows, truncated)"
    using paged_gather_serves [OF assms(1) _ assms(3), of ZONE_SCAN_CEILING s] assms(2)
    unfolding zones_section_def by fastforce
  let ?next = "saturating_add64 start (of_nat (length rows))"
  have len: "unat start + length rows \<le> length zones"
  proof -
    have "length rows \<le> length (drop (unat start) zones)"
      using got unfolding gathered_def by (metis (mono_tags, lifting) case_prodD length_take min.cobounded1)
    with assms(3) show ?thesis by simp
  qed
  have count: "unat (of_nat (length rows) :: u64) = length rows"
    by (rule unat_u64_of_nat) (use len assms(2) in simp)
  have stop: "unat (of_nat (unat start + length rows) :: u64) = unat start + length rows"
    by (rule unat_u64_of_nat) (use len assms(2) in simp)
  have "checked_add start (of_nat (length rows)) = Some (of_nat (unat start + length rows))"
    by (simp only: checked_add_Some_iff count stop)
  then have "unat ?next = unat start + length rows" using stop by (simp add: saturating_add64_def)
  moreover have "zone_based_sections dec rt site (Some Zones) start s =
      (Inr (zone_scan_default\<lparr>zs_zones := rows, zs_truncated := truncated, zs_next_offset := then_some truncated ?next\<rparr>), s')"
    using run by (simp add: zone_based_sections_def wanted_section_def scan_start_def bind_io_def map_io_def
        note_truncation_def zone_scan_default_def cut_note_def then_some_def return_io_def)
  ultimately show ?thesis
    using got by (auto simp: gathered_def zone_scan_default_def then_some_def split: if_splits)
qed


text \<open>A console with one zone, which answers with it only at offset 0.\<close>

definition zone_console :: "unit integration_client" where
  "zone_console =
     (canned_integration empty_ok)\<lparr>ext_send := (\<lambda>r e.
        (Inr \<lparr>rs_status = 200, rs_header = (\<lambda>_. None),
              rs_chunks = [Inr (if (''offset'', ''0'') \<in> set (url_query (rq_url r)) then ''z'' else [])]\<rparr>, e))\<rparr>"

definition zone_console_decoders :: firewall_decoders where
  "zone_console_decoders =
     \<lparr>fd_info = (\<lambda>_. Inl ''none''),
      fd_zones = (\<lambda>body. Inr \<lparr>page_offset = 0, page_limit = 200, page_count = 0, total_count = 1,
         page_data = (if body = [] then [] else [\<lparr>fz_id = body, fz_name = None\<rparr>])\<rparr>),
      fd_policies = (\<lambda>_. Inl ''none''), fd_port_forwards = (\<lambda>_. Inl ''none''),
      fd_traffic_rules = (\<lambda>_. Inl ''none''), fd_traffic_routes = (\<lambda>_. Inl ''none'')\<rparr>"

lemma show_nat_zero: "show_nat n = ''0'' \<longleftrightarrow> n = 0" "''0'' = show_nat n \<longleftrightarrow> n = 0"
proof -
  show "show_nat n = ''0'' \<longleftrightarrow> n = 0"
  proof (cases "n < 10")
    case True
    then show ?thesis by (simp add: show_nat.simps [of n] char_of_eq_iff take_bit_eq_mod)
  next
    case False
    then show ?thesis by (subst show_nat.simps) (auto simp: append_eq_Cons_conv)
  qed
  then show "''0'' = show_nat n \<longleftrightarrow> n = 0" by metis
qed

lemma zone_console_serves:
  "serves_rows (\<lambda>offset. firewall_zones (fd_zones zone_console_decoders) zone_console ''s'' (page_at offset))
     [\<lparr>fz_id = ''z'', fz_name = None\<rparr>]"
  unfolding serves_rows_def
proof (intro allI)
  fix offset :: u64 and w :: "unit world"
  let ?pg = "\<lparr>page_offset = 0, page_limit = 200, page_count = 0, total_count = 1,
     page_data = (if offset = 0 then [\<lparr>fz_id = ''z'', fz_name = None\<rparr>] else [])\<rparr> :: firewall_zone page"
  have "\<exists>w'. firewall_zones (fd_zones zone_console_decoders) zone_console ''s'' (page_at offset) w = (Inr ?pg, w')"
    by (auto simp: firewall_zones_def page_query_def page_at_def get_json_def get_json_with_response_def get_attempt_def
        request_plain_def request_with_query_def endpoint_def integration_prefix_def build_url_def invalid_segment_def
        send_def send_request_def zone_console_def canned_integration_def zone_console_decoders_def decode_body_def
        read_bounded_body_def is_success_def bind_io_def map_io_def show_nat_zero unat_eq_zero return_io_def MAXIMUM_RESPONSE_BYTES_def)
  moreover have "page_data ?pg = take 1 (drop (unat offset) [\<lparr>fz_id = ''z'', fz_name = None\<rparr>])"
  proof (cases "offset = 0")
    case False
    then have "0 < unat offset" by (simp add: unat_gt_0)
    then show ?thesis using False by (cases "unat offset") simp_all
  qed simp
  ultimately show "\<exists>pg w' n. firewall_zones (fd_zones zone_console_decoders) zone_console ''s'' (page_at offset) w = (Inr pg, w')
      \<and> 0 < n \<and> n \<le> 200 \<and> page_data pg = take n (drop (unat offset) [\<lparr>fz_id = ''z'', fz_name = None\<rparr>])
      \<and> total_count pg = of_nat (length [\<lparr>fz_id = ''z'', fz_name = None\<rparr>])"
    by (intro exI [of _ ?pg] exI [of _ "1 :: nat"]) (auto simp del: drop_Cons take_Cons)
qed

theorem narrowed_zone_read_continues_witness:
  "\<exists>scan s'. zone_based_sections zone_console_decoders ((sample_runtime empty_ok [])\<lparr>integration := zone_console\<rparr>)
       ''s'' (Some Zones) 0 sample_state = (Inr scan, s')
     \<and> zs_next_offset scan = None \<and> zs_zones scan = [\<lparr>fz_id = ''z'', fz_name = None\<rparr>]"
proof -
  let ?rt = "(sample_runtime empty_ok [])\<lparr>integration := zone_console\<rparr>"
  let ?zones = "[\<lparr>fz_id = ''z'', fz_name = None\<rparr>]"
  have served: "serves_rows (\<lambda>offset. firewall_zones (fd_zones zone_console_decoders) (integration ?rt) ''s'' (page_at offset)) ?zones"
    using zone_console_serves by simp
  from narrowed_zone_read_continues [OF served, of 0 sample_state]
  show ?thesis by (fastforce simp: ZONE_SCAN_CEILING_def split: option.splits)
qed

end
