(* ===== verification/Tool_Statistics.thy ===== *)
theory Tool_Statistics
  imports Tool_Events Traffic
begin

text \<open>
  The statistics tools: \<open>stats_query\<close> and \<open>traffic_read\<close> of \<open>crates/unifi-mcp/src/tools.rs\<close> with the
  reports of \<open>tools/activity.rs\<close>. The theorems say which window a report covers, that pages of client
  history are slices of the ranked clients with totals over all of them, and when traffic is called
  reconciled with the WAN counters.
\<close>

unbundle bit_operations_syntax

section \<open>Inputs and the window\<close>

datatype stats_report = WanHourly | DpiApplications | ClientWanHistory

record stats_query_input =
  sq_report :: stats_report
  sq_hours :: "u32 option"
  sq_top :: "nat option"
  sq_start_ms :: "u64 option"
  sq_end_ms :: "u64 option"
  sq_limit :: "nat option"
  sq_offset :: "nat option"

definition HOUR_MS :: u64 where
  "HOUR_MS = 3600000"

definition DEFAULT_WAN_REPORT_HOURS :: u32 where
  "DEFAULT_WAN_REPORT_HOURS = 24"

definition DEFAULT_TOP_APPLICATIONS :: nat where
  "DEFAULT_TOP_APPLICATIONS = 10"

text \<open>The match of \<open>report_window\<close> once the clock is read; the product of hours cannot overflow.\<close>

definition window_at :: "stats_query_input \<Rightarrow> u64 \<Rightarrow> mcp_error + activity_window" where
  "window_at input now =
     (case (sq_start_ms input, sq_end_ms input, sq_hours input) of
        (Some from_ms, Some to_ms, None) \<Rightarrow>
          (if to_ms \<le> now
           then map_err (\<lambda>_. InvalidParams ''startMs/endMs must cover ordered whole UTC hours ending in the past'')
                  (activity_window_new from_ms to_ms)
           else Inl (InvalidParams ''supply both startMs/endMs instead of hours, with endMs in the past''))
      | (None, None, hours) \<Rightarrow>
          (let h = (case hours of Some h \<Rightarrow> h | None \<Rightarrow> DEFAULT_WAN_REPORT_HOURS)
           in if h = 0 then Inl (InvalidParams ''hours must be positive'')
              else (let to_ms = (if sq_report input = WanHourly then now else now div HOUR_MS * HOUR_MS)
                    in Inr \<lparr>win_start = saturating_sub64 to_ms (ucast h * HOUR_MS), win_stop = to_ms\<rparr>))
      | _ \<Rightarrow> Inl (InvalidParams ''supply both startMs/endMs instead of hours, with endMs in the past''))"

definition report_window ::
  "('e, 'y) event_externals_scheme \<Rightarrow> stats_query_input \<Rightarrow> ('e, activity_window) tool" where
  "report_window X input = bind_io (current_time_ms X) (\<lambda>now. return_io (window_at input now))"

section \<open>Outputs\<close>

text \<open>
  Arithmetic on doubles, as the language does it: only the sums and differences of WAN counters and
  their tests are used, and the values are shown by the JSON number serde writes.
\<close>

record 'f float_ops =
  f_zero :: 'f
  f_add :: "'f \<Rightarrow> 'f \<Rightarrow> 'f"
  f_sub :: "'f \<Rightarrow> 'f \<Rightarrow> 'f"
  f_of_u64 :: "u64 \<Rightarrow> 'f"
  f_finite :: "'f \<Rightarrow> bool"
  f_negative :: "'f \<Rightarrow> bool"
  f_json :: "'f \<Rightarrow> json"

record top_application_row =
  ta_application_id :: u32
  ta_category_id :: u32
  ta_tx_bytes :: u64
  ta_rx_bytes :: u64
  ta_application_name :: "string option"
  ta_category_name :: "string option"

definition top_application_json :: "top_application_row \<Rightarrow> json" where
  "top_application_json r =
     JObj (set_fields
       [(''applicationId'', Some (word_json (ta_application_id r))), (''categoryId'', Some (word_json (ta_category_id r))),
        (''txBytes'', Some (word_json (ta_tx_bytes r))), (''rxBytes'', Some (word_json (ta_rx_bytes r))),
        (''applicationName'', map_option JStr (ta_application_name r)),
        (''categoryName'', map_option JStr (ta_category_name r))])"

record temporal_evidence =
  te_status :: string
  te_observed_start_ms :: "u64 option"
  te_observed_end_ms :: "u64 option"
  te_sample_count :: nat

definition temporal_evidence_json :: "temporal_evidence \<Rightarrow> json" where
  "temporal_evidence_json t =
     JObj (set_fields
       [(''status'', Some (JStr (te_status t))), (''source'', Some (JStr ''v2/app-traffic-rate'')),
        (''observedStartMs'', Some (nullable word_json (te_observed_start_ms t))),
        (''observedEndMs'', Some (nullable word_json (te_observed_end_ms t))),
        (''sampleCount'', Some (jnat (te_sample_count t))),
        (''bucketBoundarySemantics'', Some (JStr (''Observed bounds are graph sample timestamps, not proven collection '' @
           ''boundaries. Missing timestamps do not establish zero usage.''))),
        (''perClientObservedIntervalKnown'', Some (JBool False))])"

record 'f reconciliation =
  rc_complete :: bool
  rc_complete_wan_hours :: nat
  rc_expected_wan_hours :: u64
  rc_site_rx_bytes :: "'f option"
  rc_site_tx_bytes :: "'f option"
  rc_unmatched_rx_bytes :: "'f option"
  rc_unmatched_tx_bytes :: "'f option"

definition reconciliation_json :: "'f float_ops \<Rightarrow> 'f reconciliation \<Rightarrow> json" where
  "reconciliation_json F r =
     JObj (set_fields
       [(''status'', Some (JStr (if rc_complete r then ''compared'' else ''incompleteWan''))),
        (''completeWanHours'', Some (jnat (rc_complete_wan_hours r))),
        (''expectedWanHours'', Some (word_json (rc_expected_wan_hours r))),
        (''siteRxBytes'', Some (nullable (f_json F) (rc_site_rx_bytes r))),
        (''siteTxBytes'', Some (nullable (f_json F) (rc_site_tx_bytes r))),
        (''unmatchedRxBytes'', Some (nullable (f_json F) (rc_unmatched_rx_bytes r))),
        (''unmatchedTxBytes'', Some (nullable (f_json F) (rc_unmatched_tx_bytes r))),
        (''reason'', Some (JStr (''Site WAN minus all returned client activity over identical whole-hour boundaries, '' @
           ''excluding the bucket at endMs. Differences use the controller's fractional WAN counters and are '' @
           ''approximate. A positive difference is unattributed by this report; a negative difference indicates '' @
           ''greater attributed usage. Neither identifies the cause or proves complete collection.'')))])"

record 'f activity_details =
  ad_clients :: "Traffic.client_row list"
  ad_total_clients :: nat
  ad_next_offset :: "nat option"
  ad_client_totals :: byte_counts
  ad_application_totals :: byte_counts
  ad_temporal_evidence :: temporal_evidence
  ad_reconciliation :: "'f reconciliation"
  ad_names_status :: string

definition byte_counts_fields :: "byte_counts \<Rightarrow> (string \<times> json option) list" where
  "byte_counts_fields b =
     [(''rxBytes'', Some (word_json (rx_bytes b))), (''txBytes'', Some (word_json (tx_bytes b)))]"

definition activity_client_json :: "Traffic.client_row \<Rightarrow> json" where
  "activity_client_json r =
     JObj (set_fields ([(''mac'', Some (JStr (row_mac r))), (''name'', Some (nullable JStr (row_name r)))]
       @ byte_counts_fields (row_bytes r)))"

definition ACTIVITY_LIMITATIONS :: string where
  "ACTIVITY_LIMITATIONS =
     ''The Activity view reports Internet usage, not LAN association counters. Its aggregate response has no '' @
     ''per-client observed timestamps, reset markers, or collection-completeness proof. Site graph gaps are '' @
     ''unknown, not zero. IPv6, UDP/QUIC, VPN encapsulation, gateway-originated traffic, proxy attribution, and '' @
     ''interface accounting may contribute to differences; this source does not identify their contributions. '' @
     ''Application names describe classifier labels, not a verified service or process. Pages re-read a mutable '' @
     ''source; reuse fixed timestamps. This read creates no retained history.''"

definition activity_details_json :: "'f float_ops \<Rightarrow> 'f activity_details \<Rightarrow> json" where
  "activity_details_json F a =
     JObj (set_fields
       [(''clients'', Some (json_list activity_client_json (ad_clients a))),
        (''totalClients'', Some (jnat (ad_total_clients a))),
        (''nextOffset'', Some (nullable jnat (ad_next_offset a))),
        (''clientTotals'', Some (JObj (set_fields (byte_counts_fields (ad_client_totals a))))),
        (''applicationTotals'', Some (JObj (set_fields (byte_counts_fields (ad_application_totals a))))),
        (''temporalEvidence'', Some (temporal_evidence_json (ad_temporal_evidence a))),
        (''reconciliation'', Some (reconciliation_json F (ad_reconciliation a))),
        (''namesStatus'', Some (JStr (ad_names_status a))), (''limitations'', Some (JStr ACTIVITY_LIMITATIONS))])"

record 'f stats_query_output =
  qo_report :: string
  qo_coverage :: traffic_coverage
  qo_counter_semantics :: counter_semantics
  qo_total_applications :: "nat option"
  qo_wan_hourly :: "'f site_wan_sample list option"
  qo_top_applications :: "top_application_row list option"
  qo_activity :: "'f activity_details option"
  qo_source_errors :: "(string \<times> string) list"

definition wan_sample_json :: "'f float_ops \<Rightarrow> 'f site_wan_sample \<Rightarrow> json" where
  "wan_sample_json F r =
     JObj (set_fields
       [(''time'', Some (nullable word_json (sample_time r))),
        (''txBytes'', Some (nullable (f_json F) (sample_tx_bytes r))),
        (''rxBytes'', Some (nullable (f_json F) (sample_rx_bytes r)))])"

definition stats_query_json :: "'f float_ops \<Rightarrow> 'f stats_query_output \<Rightarrow> json" where
  "stats_query_json F out =
     JObj (set_fields
       [(''report'', Some (JStr (qo_report out))), (''coverage'', Some (traffic_coverage_json (qo_coverage out))),
        (''counterSemantics'', Some (counter_semantics_json (qo_counter_semantics out))),
        (''totalApplications'', map_option jnat (qo_total_applications out)),
        (''wanHourly'', map_option (json_list (wan_sample_json F)) (qo_wan_hourly out)),
        (''topApplications'', map_option (json_list top_application_json) (qo_top_applications out)),
        (''activity'', map_option (activity_details_json F) (qo_activity out)),
        (''sourceErrors'', Some (json_list (\<lambda>(src, err).
           JObj (set_fields [(''source'', Some (JStr src)), (''error'', Some (JStr err))])) (qo_source_errors out)))])"

text \<open>One step of \<open>structured_stats\<close>: a member of a result that is too large moves to the content.\<close>

definition stats_step ::
  "('e, 'x) tool_runtime_scheme \<Rightarrow> bool \<Rightarrow> string \<times> string \<Rightarrow> json \<times> string list \<Rightarrow> json \<times> string list" where
  "stats_step rt applies = (\<lambda>(field, marker) (v, content).
     (case v of
        JObj m \<Rightarrow>
          (if applies \<and> exceeds rt v
           then (case get field m of
                   None \<Rightarrow> (v, content)
                 | Some part \<Rightarrow>
                     (JObj (map_insert marker (JBool True) (map_remove field m)),
                      content @ [text_block field (show_json rt part)]))
           else (v, content))
      | _ \<Rightarrow> (v, content)))"

definition structured_stats ::
  "'f float_ops \<Rightarrow> ('e, 'x) tool_runtime_scheme \<Rightarrow> 'f stats_query_output \<Rightarrow> call_result" where
  "structured_stats F rt out =
     (case stats_step rt True (''activity'', ''activityInContent'')
             (stats_step rt (qo_source_errors out \<noteq> []) (''sourceErrors'', ''sourceErrorsInContent'')
                (stats_query_json F out, [])) of
        (v, content) \<Rightarrow> (structured v)\<lparr>extra_content := content\<rparr>)"

section \<open>Reports\<close>

text \<open>What serde decodes for these tools.\<close>

record 'f stats_decoders =
  sd_wan :: "'f site_wan_sample legacy_envelope decoder"
  sd_dpi :: "dpi_record legacy_envelope decoder"
  sd_activity :: "activity_report decoder"
  sd_buckets :: "activity_bucket list decoder"
  sd_names :: "dpi_name page decoder"
  sd_sources :: "'f source_readers"

definition WAN_COVERAGE_REASON :: string where
  "WAN_COVERAGE_REASON =
     ''Coverage describes returned buckets only; absent buckets or counters are unknown, not zero.''"

definition wan_hourly_report :: "activity_window \<Rightarrow> 'f site_wan_sample list \<Rightarrow> 'f stats_query_output" where
  "wan_hourly_report win rows =
     (let samples = filter (\<lambda>r. case sample_time r of None \<Rightarrow> True | Some t \<Rightarrow> win_start win \<le> t \<and> t < win_stop win) rows;
          missing = list_ex (\<lambda>r. sample_time r = None \<or> sample_rx_bytes r = None \<or> sample_tx_bytes r = None) samples
      in \<lparr>qo_report = ''wanHourly'',
          qo_coverage = \<lparr>tc_status = (if samples = [] then CoverEmpty else if missing then CoverPartial else CoverReported),
                         tc_reason = WAN_COVERAGE_REASON, tc_unrecognized_records = 0\<rparr>,
          qo_counter_semantics = semantics_wan (win_start win) (win_stop win),
          qo_total_applications = None, qo_wan_hourly = Some samples, qo_top_applications = None,
          qo_activity = None, qo_source_errors = []\<rparr>)"

subsection \<open>The DPI report\<close>

definition DPI_UNSUPPORTED_REASON :: string where
  "DPI_UNSUPPORTED_REASON =
     ''The legacy DPI endpoint is unavailable on this controller. '' @
     ''This does not establish that DPI is disabled.''"

definition DPI_RANKING_REASON :: string where
  "DPI_RANKING_REASON =
     ''Ranking includes only records with application/category IDs and both byte counters. Empty or '' @
     ''incomplete data does not establish zero traffic or whether DPI is enabled; '' @
     ''classification coverage is unknown.''"

definition dpi_unavailable :: "dpi_report \<Rightarrow> (coverage_status \<times> string) option" where
  "dpi_unavailable report =
     (case availability report of
        DpiUnsupported \<Rightarrow> Some (CoverUnsupported, DPI_UNSUPPORTED_REASON)
      | DpiUnrecognized \<Rightarrow>
          Some (CoverUnrecognized, ''The controller response could not be interpreted as a DPI report.'')
      | DpiReported \<Rightarrow> None)"

definition row_traffic :: "top_application_row \<Rightarrow> nat" where
  "row_traffic r = unat (ta_tx_bytes r) + unat (ta_rx_bytes r)"

text \<open>\<open>sort_by_key(Reverse)\<close> is stable: the larger sum first, ties as they came.\<close>

definition ranked_applications :: "dpi_application list \<Rightarrow> top_application_row list" where
  "ranked_applications rows =
     sort_key (\<lambda>r. - int (row_traffic r)) (map (\<lambda>a.
       \<lparr>ta_application_id = app a, ta_category_id = cat a, ta_tx_bytes = dpi_tx_bytes a,
        ta_rx_bytes = dpi_rx_bytes a, ta_application_name = None, ta_category_name = None\<rparr>) rows)"

definition dpi_output :: "nat \<Rightarrow> (string \<times> string) list \<Rightarrow> dpi_report \<Rightarrow> 'f stats_query_output" where
  "dpi_output top_n source_errors report =
     (let out = \<lparr>qo_report = ''dpiApplications'',
                 qo_coverage = \<lparr>tc_status = CoverReported, tc_reason = [], tc_unrecognized_records = 0\<rparr>,
                 qo_counter_semantics = semantics_dpi, qo_total_applications = None, qo_wan_hourly = None,
                 qo_top_applications = Some [], qo_activity = None, qo_source_errors = source_errors\<rparr>
      in case dpi_unavailable report of
           Some (status, reason) \<Rightarrow>
             out\<lparr>qo_coverage := \<lparr>tc_status = status, tc_reason = reason, tc_unrecognized_records = 0\<rparr>\<rparr>
         | None \<Rightarrow>
             out\<lparr>qo_coverage :=
                   \<lparr>tc_status = (case (applications report = [], 0 < unrecognized_records report) of
                                   (True, True) \<Rightarrow> CoverUnrecognized
                                 | (True, False) \<Rightarrow> CoverEmpty
                                 | (False, True) \<Rightarrow> CoverPartial
                                 | (False, False) \<Rightarrow> CoverReported),
                    tc_reason = DPI_RANKING_REASON, tc_unrecognized_records = unrecognized_records report\<rparr>,
                 qo_total_applications := Some (length (applications report)),
                 qo_top_applications := Some (take top_n (ranked_applications (applications report)))\<rparr>)"

definition dpi_stats ::
  "'f stats_decoders \<Rightarrow> ('e, 'x) tool_runtime_scheme \<Rightarrow> nat \<Rightarrow> api_error option \<Rightarrow> ('e, 'f stats_query_output) tool" where
  "dpi_stats dec rt top_n activity_response s =
     (case on_world (dpi_by_application (sd_dpi dec) (legacy rt) (legacy_site rt)) s of
        (Inl err, s) \<Rightarrow>
          (Inl (case activity_response of
                  Some act \<Rightarrow> InternalError (''activity source: '' @ render act @ ''; dpi source: '' @ render err)
                | None \<Rightarrow> mcp_api_error err), s)
      | (Inr report, s) \<Rightarrow>
          (Inr (dpi_output top_n
             ((case activity_response of None \<Rightarrow> [] | Some err \<Rightarrow> [(''activity'', render err)])
              @ (case unsupported_response report of None \<Rightarrow> [] | Some err \<Rightarrow> [(''dpi'', render err)])) report), s))"

subsection \<open>Evidence beside the totals\<close>

definition report_totals ::
  "('e, 'x) externals_scheme \<Rightarrow> activity_report \<Rightarrow> bytes
     \<Rightarrow> mcp_error + Traffic.client_row list \<times> byte_counts \<times> byte_counts" where
  "report_totals X report response =
     map_ok (\<lambda>(rows, all, apps). (map (\<lambda>r. r\<lparr>row_name := map_option bounded_text (row_name r)\<rparr>) rows, all, apps))
       (map_err mcp_api_error (activity_totals_with_response X report response))"

definition temporal :: "activity_bucket list activity_read \<Rightarrow> activity_window \<Rightarrow> temporal_evidence \<times> api_error option" where
  "temporal read win =
     (let none = \<lparr>te_status = ''unavailable'', te_observed_start_ms = None, te_observed_end_ms = None, te_sample_count = 0\<rparr>
      in case read of
           Unsupported response \<Rightarrow> (none, response)
         | Unrecognized \<Rightarrow> (none\<lparr>te_status := ''unrecognized''\<rparr>, None)
         | Reported rows \<Rightarrow>
             (let times = sort (remdups (filter (\<lambda>t. win_start win \<le> t \<and> t \<le> win_stop win) (map bucket_timestamp rows)))
              in (\<lparr>te_status = (if times = [] then ''empty'' else ''reported''),
                   te_observed_start_ms = then_some (times \<noteq> []) (hd times),
                   te_observed_end_ms = then_some (times \<noteq> []) (last times), te_sample_count = length times\<rparr>, None)))"

text \<open>One row of the WAN comparison; \<open>hours\<close> are the buckets counted so far.\<close>

record 'f wan_acc =
  ws_hours :: "u64 list"
  ws_missing :: bool
  ws_rx :: 'f
  ws_tx :: 'f

definition wan_step ::
  "'f float_ops \<Rightarrow> activity_window \<Rightarrow> 'f site_wan_sample \<Rightarrow> 'f wan_acc \<Rightarrow> 'f wan_acc option" where
  "wan_step F win row acc =
     (case sample_time row of
        None \<Rightarrow> Some (acc\<lparr>ws_missing := True\<rparr>)
      | Some t \<Rightarrow>
          if t < win_start win \<or> win_stop win \<le> t then Some acc
          else case (sample_rx_bytes row, sample_tx_bytes row) of
                 (Some r, Some x) \<Rightarrow>
                   (if t mod HOUR_MS \<noteq> 0 \<or> \<not> f_finite F r \<or> \<not> f_finite F x \<or> f_negative F r \<or> f_negative F x
                       \<or> t \<in> set (ws_hours acc)
                    then None
                    else Some (acc\<lparr>ws_hours := t # ws_hours acc, ws_rx := f_add F (ws_rx acc) r,
                                   ws_tx := f_add F (ws_tx acc) x\<rparr>))
               | _ \<Rightarrow> Some (acc\<lparr>ws_missing := True\<rparr>))"

fun wan_sums ::
  "'f float_ops \<Rightarrow> activity_window \<Rightarrow> 'f site_wan_sample list \<Rightarrow> 'f wan_acc \<Rightarrow> 'f wan_acc option" where
  "wan_sums F win [] acc = Some acc"
| "wan_sums F win (row # rows) acc = Option.bind (wan_step F win row acc) (wan_sums F win rows)"

definition reconciled :: "'f float_ops \<Rightarrow> activity_window \<Rightarrow> byte_counts \<Rightarrow> 'f wan_acc \<Rightarrow> 'f reconciliation" where
  "reconciled F win attributed acc =
     (let expected = (win_stop win - win_start win) div HOUR_MS;
          complete = (\<not> ws_missing acc \<and> of_nat (length (ws_hours acc)) = expected
                      \<and> f_finite F (ws_rx acc) \<and> f_finite F (ws_tx acc))
      in \<lparr>rc_complete = complete, rc_complete_wan_hours = length (ws_hours acc), rc_expected_wan_hours = expected,
          rc_site_rx_bytes = then_some complete (ws_rx acc), rc_site_tx_bytes = then_some complete (ws_tx acc),
          rc_unmatched_rx_bytes = then_some complete (f_sub F (ws_rx acc) (f_of_u64 F (rx_bytes attributed))),
          rc_unmatched_tx_bytes = then_some complete (f_sub F (ws_tx acc) (f_of_u64 F (tx_bytes attributed)))\<rparr>)"

definition wan_sums_init :: "'f float_ops \<Rightarrow> 'f wan_acc" where
  "wan_sums_init F = \<lparr>ws_hours = [], ws_missing = False, ws_rx = f_zero F, ws_tx = f_zero F\<rparr>"

definition reconcile_activity ::
  "'f float_ops \<Rightarrow> 'f stats_decoders \<Rightarrow> ('e, 'x) tool_runtime_scheme \<Rightarrow> activity_window \<Rightarrow> byte_counts
     \<Rightarrow> ('e, 'f reconciliation) tool" where
  "reconcile_activity F dec rt win attributed =
     bind_io (upstream (hourly_wan_report_with_response (sd_wan dec) (legacy rt) (legacy_site rt)
                (win_start win) (win_stop win))) (\<lambda>(rows, response).
       return_io (case wan_sums F win rows (wan_sums_init F) of
         None \<Rightarrow> Inl (mcp_api_error (DecodeResponse (from_controller_bytes (ext_b64 (legacy rt)) response)
                   (bounded_new ''WAN comparison contains invalid or duplicate buckets'')))
       | Some acc \<Rightarrow> Inr (reconciled F win attributed acc)))"

subsection \<open>Names\<close>

definition dpi_key :: "application_activity \<Rightarrow> u32" where
  "dpi_key a = push_bit 16 (ucast (category a)) OR ucast (application a)"

text \<open>A \<open>BTreeMap\<close> collected from pairs keeps the last name of an id.\<close>

definition name_map :: "api_error + dpi_name list \<Rightarrow> u32 \<Rightarrow> string option" where
  "name_map r = (case r of Inl _ \<Rightarrow> (\<lambda>_. None)
                         | Inr rows \<Rightarrow> map_of (rev (map (\<lambda>n. (dpi_id n, dpi_display n)) rows)))"

definition lookup_error :: "string \<Rightarrow> api_error + 'a \<Rightarrow> (string \<times> string) list" where
  "lookup_error src r = (case r of Inl err \<Rightarrow> [(src, render err)] | Inr _ \<Rightarrow> [])"

definition named_application ::
  "(u32 \<Rightarrow> string option) \<Rightarrow> (u32 \<Rightarrow> string option) \<Rightarrow> application_activity \<Rightarrow> top_application_row" where
  "named_application apps cats a =
     \<lparr>ta_application_id = ucast (application a), ta_category_id = ucast (category a),
      ta_tx_bytes = bytes_transmitted a, ta_rx_bytes = bytes_received a,
      ta_application_name = map_option bounded_text (apps (dpi_key a)),
      ta_category_name = map_option bounded_text (cats (ucast (category a)))\<rparr>"

definition distinct_ids :: "u32 list \<Rightarrow> u32 list" where
  "distinct_ids ids = sort (remdups ids)"

definition activity_names ::
  "'f stats_decoders \<Rightarrow> ('e, 'x) tool_runtime_scheme \<Rightarrow> application_activity list \<Rightarrow> 'e tool_state
     \<Rightarrow> (top_application_row list \<times> string \<times> (string \<times> string) list) \<times> 'e tool_state" where
  "activity_names dec rt rows s =
     (if rows = [] then (([], ''empty'', []), s)
      else
        let named = take MAXIMUM_DPI_NAME_IDS rows in
        case on_world (dpi_names (sd_names dec) (integration rt) (distinct_ids (map dpi_key named)) False) s of
          (app_names, s) \<Rightarrow>
        case on_world (dpi_names (sd_names dec) (integration rt)
                         (distinct_ids (map (\<lambda>a. ucast (category a)) named)) True) s of
          (cat_names, s) \<Rightarrow>
            (let errors = lookup_error ''dpiApplications'' app_names @ lookup_error ''dpiCategories'' cat_names;
                 apps = name_map app_names; cats = name_map cat_names;
                 complete = list_all (\<lambda>a. apps (dpi_key a) \<noteq> None \<and> cats (ucast (category a)) \<noteq> None) rows
             in ((map (named_application apps cats) rows,
                  if errors \<noteq> [] then ''unavailable'' else if complete then ''reported'' else ''partial'',
                  errors), s)))"

subsection \<open>The activity report\<close>

definition semantics_activity :: "activity_window \<Rightarrow> counter_semantics" where
  "semantics_activity win =
     \<lparr>sem_source = ''v2/traffic'', sem_unit = ''bytes'',
      sem_scope = ''Controller Activity view: attributed Internet traffic, including unidentified applications; '' @
        ''not exhaustive WAN accounting.'',
      sem_direction = ''Client perspective: rx/download is received; tx/upload is transmitted.'',
      sem_window = ''Fixed requested startMs/endMs interval. Aggregate rows do not supply observed timestamps; '' @
        ''site graph evidence is separate.'',
      sem_reset = ''No reset markers supplied; missing collection or retention cannot be reconstructed.'',
      sem_requested_start_ms = Some (win_start win), sem_requested_end_ms = Some (win_stop win)\<rparr>"

definition report_name :: "stats_report \<Rightarrow> string" where
  "report_name report = (if report = ClientWanHistory then ''clientWanHistory'' else ''dpiApplications'')"

definition unavailable ::
  "stats_report \<Rightarrow> activity_window \<Rightarrow> coverage_status \<Rightarrow> api_error option \<Rightarrow> 'f stats_query_output" where
  "unavailable report win status response =
     \<lparr>qo_report = report_name report,
      qo_coverage =
        \<lparr>tc_status = status,
         tc_reason = ''The controller Activity source is unsupported or unrecognized. No Internet attribution '' @
           ''measurements could be established; current connection counters are not a substitute.'',
         tc_unrecognized_records = 0\<rparr>,
      qo_counter_semantics = semantics_activity win, qo_total_applications = None, qo_wan_hourly = None,
      qo_top_applications = None, qo_activity = None,
      qo_source_errors = (case response of None \<Rightarrow> [] | Some err \<Rightarrow> [(''activity'', render err)])\<rparr>"

definition client_traffic :: "Traffic.client_row \<Rightarrow> nat" where
  "client_traffic r = unat (rx_bytes (row_bytes r)) + unat (tx_bytes (row_bytes r))"

text \<open>The larger total first, ties by address.\<close>

definition ranked_clients :: "Traffic.client_row list \<Rightarrow> Traffic.client_row list" where
  "ranked_clients rows = sort_key (\<lambda>r. (- int (client_traffic r), row_mac r)) rows"

definition ranked_activity :: "application_activity list \<Rightarrow> application_activity list" where
  "ranked_activity rows = sort_key (\<lambda>a. - int (unat (bytes_received a) + unat (bytes_transmitted a))) rows"

definition ACTIVITY_COVERAGE_REASON :: string where
  "ACTIVITY_COVERAGE_REASON =
     ''Controller-attributed Internet activity, including unidentified traffic. Collection and classification '' @
     ''completeness are not established; inspect temporal evidence and WAN differences.''"

definition usize_saturating_add :: "nat \<Rightarrow> nat \<Rightarrow> nat" where
  "usize_saturating_add a b = min (a + b) (2 ^ 64 - 1)"

text \<open>The answer once every source has been read.\<close>

definition activity_output ::
  "stats_query_input \<Rightarrow> activity_window \<Rightarrow> Traffic.client_row list \<times> byte_counts \<times> byte_counts \<Rightarrow> nat
     \<Rightarrow> temporal_evidence \<times> api_error option \<Rightarrow> 'f reconciliation
     \<Rightarrow> top_application_row list option \<times> string \<times> (string \<times> string) list \<Rightarrow> 'f stats_query_output" where
  "activity_output input win totals3 total_applications evidence reconciliation names =
     (let (rows, client_totals, application_totals) = totals3;
          (top_rows, names_status, name_errors) = names;
          (temporal_evidence, graph_error) = evidence;
          history = (sq_report input = ClientWanHistory);
          page_limit = (case sq_limit input of Some n \<Rightarrow> n | None \<Rightarrow> 50);
          offset = (case sq_offset input of Some n \<Rightarrow> n | None \<Rightarrow> 0);
          ranked = ranked_clients rows;
          next = usize_saturating_add offset page_limit
      in \<lparr>qo_report = report_name (sq_report input),
          qo_coverage =
            \<lparr>tc_status = (if length ranked = 0 \<and> total_applications = 0 then CoverEmpty else CoverPartial),
             tc_reason = ACTIVITY_COVERAGE_REASON, tc_unrecognized_records = 0\<rparr>,
          qo_counter_semantics = semantics_activity win, qo_total_applications = Some total_applications,
          qo_wan_hourly = None, qo_top_applications = top_rows,
          qo_activity = Some
            \<lparr>ad_clients = (if history then take page_limit (drop offset ranked) else []),
             ad_total_clients = length ranked,
             ad_next_offset = (if history then then_some (next < length ranked) next else None),
             ad_client_totals = client_totals, ad_application_totals = application_totals,
             ad_temporal_evidence = temporal_evidence, ad_reconciliation = reconciliation,
             ad_names_status = names_status\<rparr>,
          qo_source_errors = (case graph_error of None \<Rightarrow> [] | Some err \<Rightarrow> [(''graph'', render err)]) @ name_errors\<rparr>)"

text \<open>The arguments that fit no report.\<close>

definition misplaced_paging :: "stats_query_input \<Rightarrow> bool" where
  "misplaced_paging input \<longleftrightarrow>
     sq_top input = Some 0 \<or> sq_limit input = Some 0
     \<or> (sq_report input = ClientWanHistory \<and> sq_top input \<noteq> None)
     \<or> (sq_report input = DpiApplications \<and> (sq_limit input \<noteq> None \<or> sq_offset input \<noteq> None))"

definition top_of :: "stats_query_input \<Rightarrow> nat" where
  "top_of input = (case sq_top input of Some n \<Rightarrow> n | None \<Rightarrow> DEFAULT_TOP_APPLICATIONS)"

definition reported_activity ::
  "'f float_ops \<Rightarrow> 'f stats_decoders \<Rightarrow> ('e, 'x) tool_runtime_scheme \<Rightarrow> stats_query_input \<Rightarrow> activity_window
     \<Rightarrow> activity_report \<Rightarrow> bytes \<Rightarrow> ('e, 'f stats_query_output) tool" where
  "reported_activity F dec rt input win report response =
     bind_io (return_io (report_totals (legacy rt) report response)) (\<lambda>totals3.
     bind_io (upstream (activity_buckets (sd_buckets dec) (legacy rt) (legacy_site rt) win)) (\<lambda>graph.
     bind_io (reconcile_activity F dec rt win (fst (snd totals3))) (\<lambda>reconciliation.
     let apps = take (top_of input) (ranked_activity (total_usage_by_app report))
     in bind_io (if sq_report input = DpiApplications
                 then (\<lambda>s. case activity_names dec rt apps s of
                         ((rows, status, errors), s) \<Rightarrow> (Inr (Some rows, status, errors), s))
                 else return_io (Inr (None, ''notRequested'', []))) (\<lambda>names.
          return_io (Inr (activity_output input win totals3 (length (total_usage_by_app report))
            (temporal graph win) reconciliation names))))))"

definition activity_stats ::
  "'f float_ops \<Rightarrow> 'f stats_decoders \<Rightarrow> ('e, 'y) event_externals_scheme \<Rightarrow> ('e, 'x) tool_runtime_scheme
     \<Rightarrow> stats_query_input \<Rightarrow> ('e, 'f stats_query_output) tool" where
  "activity_stats F dec X rt input =
     bind_io (report_window X input) (\<lambda>win.
     if misplaced_paging input
     then return_io (Inl (InvalidParams (''positive top applies only to dpiApplications; positive limit and '' @
            ''nonnegative offset apply only to clientWanHistory'')))
     else
       bind_io (upstream (activity_with_response (sd_activity dec) (legacy rt) (legacy_site rt) win)) (\<lambda>read.
         case read of
           Reported (report, response) \<Rightarrow> reported_activity F dec rt input win report response
         | Unsupported response \<Rightarrow>
             (if sq_report input = DpiApplications \<and> sq_hours input = None \<and> sq_start_ms input = None
              then dpi_stats dec rt (top_of input) response
              else return_io (Inr (unavailable (sq_report input) win CoverUnsupported response)))
         | Unrecognized \<Rightarrow> return_io (Inr (unavailable (sq_report input) win CoverUnrecognized None))))"

definition stats_query_outcome ::
  "(json \<Rightarrow> string + stats_query_input) \<Rightarrow> 'f float_ops \<Rightarrow> 'f stats_decoders \<Rightarrow> ('e, 'y) event_externals_scheme
     \<Rightarrow> ('e, 'x) tool_runtime_scheme \<Rightarrow> params \<Rightarrow> ('e, 'f stats_query_output) tool" where
  "stats_query_outcome from_value F dec X rt ps =
     bind_io (return_io (parse from_value ps)) (\<lambda>input.
     if sq_report input \<noteq> WanHourly then activity_stats F dec X rt input
     else if sq_top input \<noteq> None \<or> sq_limit input \<noteq> None \<or> sq_offset input \<noteq> None
     then return_io (Inl (InvalidParams ''top and client pagination do not apply to wanHourly''))
     else
       bind_io (report_window X input) (\<lambda>win.
         map_io (wan_hourly_report win)
           (upstream (hourly_wan_report (sd_wan dec) (legacy rt) (legacy_site rt) (win_start win) (win_stop win)))))"

definition stats_query where
  "stats_query from_value F dec X rt ps =
     map_io (structured_stats F rt) (stats_query_outcome from_value F dec X rt ps)"

section \<open>Traffic sources as the controller sent them\<close>

record traffic_read_input =
  ti_source :: traffic_source_kind
  ti_hours :: "u32 option"
  ti_start_ms :: "u64 option"
  ti_end_ms :: "u64 option"

record traffic_read_output =
  to_source :: traffic_source_kind
  to_status :: source_status
  to_start_ms :: u64
  to_end_ms :: u64
  to_data :: "json option"
  to_data_in_content :: "bool option"
  to_error :: "string option"
  to_error_in_content :: "bool option"

primrec traffic_source_word :: "traffic_source_kind \<Rightarrow> string" where
  "traffic_source_word ActivitySource = ''activity''"
| "traffic_source_word GraphSource = ''graph''"
| "traffic_source_word WanSource = ''wan''"

primrec source_status_word :: "source_status \<Rightarrow> string" where
  "source_status_word Collected = ''collected''"
| "source_status_word SourceUnsupported = ''unsupported''"
| "source_status_word SourceUnrecognized = ''unrecognized''"
| "source_status_word Failed = ''failed''"

definition traffic_read_json :: "traffic_read_output \<Rightarrow> json" where
  "traffic_read_json out =
     JObj (set_fields
       [(''source'', Some (JStr (traffic_source_word (to_source out)))),
        (''status'', Some (JStr (source_status_word (to_status out)))),
        (''startMs'', Some (word_json (to_start_ms out))), (''endMs'', Some (word_json (to_end_ms out))),
        (''data'', to_data out), (''dataInContent'', map_option JBool (to_data_in_content out)),
        (''error'', map_option JStr (to_error out)),
        (''errorInContent'', map_option JBool (to_error_in_content out))])"

text \<open>The text of a source is read as a JSON value to be passed on.\<close>

definition traffic_data :: "('e, 'x) tool_runtime_scheme \<Rightarrow> string option \<Rightarrow> mcp_error + json option" where
  "traffic_data rt data =
     (case data of
        None \<Rightarrow> Inr None
      | Some raw \<Rightarrow>
          map_ok Some (map_err (\<lambda>err. mcp_api_error
            (DecodeResponse (from_controller_bytes (ext_b64 (legacy rt)) raw) (bounded_new err)))
            (ext_value (legacy rt) raw)))"

definition traffic_read_outcome ::
  "(json \<Rightarrow> string + traffic_read_input) \<Rightarrow> 'f source_readers \<Rightarrow> ('e, 'y) event_externals_scheme
     \<Rightarrow> ('e, 'x) tool_runtime_scheme \<Rightarrow> params \<Rightarrow> ('e, traffic_read_output) tool" where
  "traffic_read_outcome from_value readers X rt ps =
     bind_io (return_io (parse from_value ps)) (\<lambda>input.
     bind_io (report_window X
       \<lparr>sq_report = ClientWanHistory, sq_hours = ti_hours input, sq_top = None, sq_start_ms = ti_start_ms input,
        sq_end_ms = ti_end_ms input, sq_limit = None, sq_offset = None\<rparr>) (\<lambda>win.
     bind_io (upstream (traffic_source readers (legacy rt) (legacy_site rt) win (ti_source input))) (\<lambda>report.
     bind_io (return_io (traffic_data rt (src_data report))) (\<lambda>data.
       return_io (Inr
         \<lparr>to_source = ti_source input, to_status = src_status report, to_start_ms = win_start win,
          to_end_ms = win_stop win, to_data = data, to_data_in_content = None, to_error = src_error report,
          to_error_in_content = None\<rparr>)))))"

definition traffic_steps ::
  "('e, 'x) tool_runtime_scheme \<Rightarrow> (string \<times> (traffic_read_output \<Rightarrow> (string \<times> traffic_read_output) option)) list" where
  "traffic_steps rt =
     [(''data'', \<lambda>out. map_option (\<lambda>v. (show_json rt v, out\<lparr>to_data := None, to_data_in_content := Some True\<rparr>))
          (to_data out)),
      (''error'', \<lambda>out. map_option (\<lambda>t. (t, out\<lparr>to_error := None, to_error_in_content := Some True\<rparr>))
          (to_error out))]"

text \<open>The result and whether it is flagged as an error.\<close>

definition traffic_read_result :: "('e, 'x) tool_runtime_scheme \<Rightarrow> traffic_read_output \<Rightarrow> call_result \<times> bool" where
  "traffic_read_result rt out = (spilled_result rt traffic_read_json (traffic_steps rt) out, to_status out = Failed)"

definition traffic_read where
  "traffic_read from_value readers X rt ps =
     map_io (traffic_read_result rt) (traffic_read_outcome from_value readers X rt ps)"


section \<open>Properties\<close>

subsection \<open>Comparison with the WAN counters\<close>

text \<open>The rows of the window, and its whole hours.\<close>

definition bucket_in :: "activity_window \<Rightarrow> 'f site_wan_sample \<Rightarrow> bool" where
  "bucket_in win row \<longleftrightarrow> (\<exists>t. sample_time row = Some t \<and> win_start win \<le> t \<and> t < win_stop win)"

definition window_hours :: "activity_window \<Rightarrow> u64 set" where
  "window_hours win = {t. win_start win \<le> t \<and> t < win_stop win \<and> t mod HOUR_MS = 0}"

lemma wan_step_complete:
  assumes "wan_step F win row acc = Some acc'" and "\<not> ws_missing acc'"
  shows "\<not> ws_missing acc \<and> sample_time row \<noteq> None
    \<and> (if bucket_in win row
       then (\<exists>t r x. sample_time row = Some t \<and> sample_rx_bytes row = Some r \<and> sample_tx_bytes row = Some x
              \<and> t \<in> window_hours win - set (ws_hours acc) \<and> ws_hours acc' = t # ws_hours acc
              \<and> ws_rx acc' = f_add F (ws_rx acc) r \<and> ws_tx acc' = f_add F (ws_tx acc) x)
       else acc' = acc)"
  using assms
  by (auto simp: wan_step_def bucket_in_def window_hours_def not_less not_le split: option.splits if_splits)

lemma wan_sums_hours:
  assumes "wan_sums F win rows acc = Some acc'" and "\<not> ws_missing acc'"
  shows "\<not> ws_missing acc \<and> (distinct (ws_hours acc) \<longrightarrow> distinct (ws_hours acc'))
    \<and> set (ws_hours acc') \<subseteq> set (ws_hours acc) \<union> window_hours win"
  using assms
proof (induction rows arbitrary: acc)
  case (Cons row rows)
  then obtain mid where mid: "wan_step F win row acc = Some mid" "wan_sums F win rows mid = Some acc'"
    by (auto simp: bind_eq_Some_conv)
  note rest = Cons.IH [OF mid(2) Cons.prems(2)]
  with wan_step_complete [OF mid(1)] show ?case
    by (cases "bucket_in win row") (auto simp: insert_absorb)
qed simp

lemma wan_sums_complete:
  assumes "wan_sums F win rows acc = Some acc'" and "\<not> ws_missing acc'"
  shows "(\<forall>row\<in>set rows. sample_time row \<noteq> None)
    \<and> (\<forall>row\<in>set rows. bucket_in win row \<longrightarrow> sample_rx_bytes row \<noteq> None \<and> sample_tx_bytes row \<noteq> None)
    \<and> ws_hours acc' = rev (map (the \<circ> sample_time) (filter (bucket_in win) rows)) @ ws_hours acc
    \<and> ws_rx acc' = foldl (f_add F) (ws_rx acc) (map (the \<circ> sample_rx_bytes) (filter (bucket_in win) rows))
    \<and> ws_tx acc' = foldl (f_add F) (ws_tx acc) (map (the \<circ> sample_tx_bytes) (filter (bucket_in win) rows))"
  using assms
proof (induction rows arbitrary: acc)
  case (Cons row rows)
  then obtain mid where mid: "wan_step F win row acc = Some mid" "wan_sums F win rows mid = Some acc'"
    by (auto simp: bind_eq_Some_conv)
  note rest = Cons.IH [OF mid(2) Cons.prems(2)]
  from wan_sums_hours [OF mid(2) Cons.prems(2)] have "\<not> ws_missing mid" by simp
  from wan_step_complete [OF mid(1) this] rest show ?case
    by (cases "bucket_in win row") auto
qed simp

lemma div_less_mono: "a < b \<Longrightarrow> c dvd a \<Longrightarrow> c dvd b \<Longrightarrow> a div c < b div c" for a b c :: nat
  by (metis dvd_div_mult_self mult_less_cancel2 mult_le_mono1 not_le)

lemma div_diff_nat: "c dvd a \<Longrightarrow> c dvd b \<Longrightarrow> (b - a) div c = b div c - a div c" for a b c :: nat
proof (elim dvdE)
  fix k l assume "a = c * k" "b = c * l"
  then show ?thesis by (cases "c = 0") (simp_all add: diff_mult_distrib2 [symmetric])
qed

lemma inj_on_unat_window: "inj_on unat (A :: u64 set)"
  by (rule inj_onI) (rule word_unat_eq_iff [THEN iffD2])

text \<open>A window of whole hours holds as many whole hours as its length says.\<close>

lemma card_window_hours:
  assumes "win_start win mod HOUR_MS = 0" and "win_stop win mod HOUR_MS = 0" and "win_start win \<le> win_stop win"
  shows "finite (window_hours win)"
    and "card (window_hours win) \<le> unat ((win_stop win - win_start win) div HOUR_MS)"
proof -
  let ?a = "unat (win_start win) div 3600000" and ?b = "unat (win_stop win) div 3600000"
  have unat_mod: "unat (t mod HOUR_MS) = unat t mod 3600000" for t :: u64
    by (simp add: HOUR_MS_def unat_mod_distrib)
  have mult: "t mod HOUR_MS = 0 \<longleftrightarrow> 3600000 dvd unat t" for t :: u64
    by (simp only: unat_eq_zero [symmetric] unat_mod dvd_eq_mod_eq_0)
  have ends: "3600000 dvd unat (win_start win)" "3600000 dvd unat (win_stop win)"
    using assms by (simp_all add: mult)
  have "unat ` window_hours win \<subseteq> (\<lambda>k. k * 3600000) ` {?a..<?b}"
  proof (rule image_subsetI)
    fix t assume "t \<in> window_hours win"
    then have t: "unat (win_start win) \<le> unat t" "unat t < unat (win_stop win)" "3600000 dvd unat t"
      by (auto simp: window_hours_def mult word_le_nat_alt word_less_nat_alt)
    with ends have "unat t div 3600000 \<in> {?a..<?b}"
      by (auto simp: div_le_mono div_less_mono)
    with t(3) show "unat t \<in> (\<lambda>k. k * 3600000) ` {?a..<?b}"
      by (intro image_eqI [of _ _ "unat t div 3600000"]) simp_all
  qed
  then have "card (unat ` window_hours win) \<le> card ((\<lambda>k. k * 3600000) ` {?a..<?b})"
    by (rule card_mono [rotated]) simp
  also have "\<dots> \<le> ?b - ?a"
    using card_image_le [of "{?a..<?b}" "\<lambda>k. k * 3600000"] by simp
  finally have "card (unat ` window_hours win) \<le> ?b - ?a" .
  moreover have "unat ((win_stop win - win_start win) div HOUR_MS) = ?b - ?a"
  proof -
    have "unat ((win_stop win - win_start win) div HOUR_MS)
        = (unat (win_stop win) - unat (win_start win)) div 3600000"
      using assms(3) by (simp add: HOUR_MS_def unat_div_distrib unat_sub)
    also have "\<dots> = ?b - ?a"
      using ends by (rule div_diff_nat)
    finally show ?thesis .
  qed
  ultimately show "card (window_hours win) \<le> unat ((win_stop win - win_start win) div HOUR_MS)"
    by (simp add: card_image [OF inj_on_unat_window])
  show "finite (window_hours win)" by simp
qed

text \<open>
  C23. A comparison with the WAN counters is called complete only when it covers every hour: on a
  window of whole hours, the report then has, for each hour of the window, exactly one bucket, with
  both counters, and no bucket without a time; the site bytes given are the sums of those buckets, and
  the differences are those sums less the attributed bytes.
\<close>

theorem complete_comparison_covers_window:
  assumes "wan_sums F win rows (wan_sums_init F) = Some acc" and "rc_complete (reconciled F win attributed acc)"
    and "win_start win mod HOUR_MS = 0" and "win_stop win mod HOUR_MS = 0" and "win_start win \<le> win_stop win"
  shows "distinct (map sample_time (filter (bucket_in win) rows))
    \<and> set (map sample_time (filter (bucket_in win) rows)) = Some ` window_hours win
    \<and> (\<forall>row\<in>set rows. sample_time row \<noteq> None
         \<and> (bucket_in win row \<longrightarrow> sample_rx_bytes row \<noteq> None \<and> sample_tx_bytes row \<noteq> None))
    \<and> (let received = foldl (f_add F) (f_zero F) (map (the \<circ> sample_rx_bytes) (filter (bucket_in win) rows));
           transmitted = foldl (f_add F) (f_zero F) (map (the \<circ> sample_tx_bytes) (filter (bucket_in win) rows))
       in rc_site_rx_bytes (reconciled F win attributed acc) = Some received
          \<and> rc_site_tx_bytes (reconciled F win attributed acc) = Some transmitted
          \<and> rc_unmatched_rx_bytes (reconciled F win attributed acc) = Some (f_sub F received (f_of_u64 F (rx_bytes attributed)))
          \<and> rc_unmatched_tx_bytes (reconciled F win attributed acc) = Some (f_sub F transmitted (f_of_u64 F (tx_bytes attributed))))"
proof -
  let ?in = "filter (bucket_in win) rows" and ?expected = "(win_stop win - win_start win) div HOUR_MS"
  have whole: "\<not> ws_missing acc" and count: "of_nat (length (ws_hours acc)) = ?expected"
    using assms(2) by (simp_all add: reconciled_def Let_def)
  note run = wan_sums_complete [OF assms(1) whole]
  have hours: "ws_hours acc = rev (map (the \<circ> sample_time) ?in)"
    and timed: "\<forall>row\<in>set rows. sample_time row \<noteq> None"
    using run by (simp_all add: wan_sums_init_def)
  have dist: "distinct (ws_hours acc)" and sub: "set (ws_hours acc) \<subseteq> window_hours win"
    using wan_sums_hours [OF assms(1) whole] by (simp_all add: wan_sums_init_def)
  note hs = card_window_hours [OF assms(3-5)]
  have "length (ws_hours acc) \<le> card (window_hours win)"
    using card_mono [OF hs(1) sub] distinct_card [OF dist] by simp
  then have "unat (of_nat (length (ws_hours acc)) :: u64) = length (ws_hours acc)"
    using hs(2) unsigned_less [of ?expected, where ?'a = nat] by (intro unat_u64_of_nat) simp
  then have "card (window_hours win) \<le> card (set (ws_hours acc))"
    using hs(2) count distinct_card [OF dist] by simp
  then have all: "set (ws_hours acc) = window_hours win" by (rule card_seteq [OF hs(1) sub])
  have times: "map sample_time ?in = map Some (rev (ws_hours acc))"
    using timed by (auto simp: hours rev_map [symmetric] intro!: map_cong)
  have "distinct (map sample_time ?in)" and "set (map sample_time ?in) = Some ` window_hours win"
    using dist all by (simp_all only: times) (auto simp: distinct_map)
  with run assms(2) show ?thesis
    by (simp add: reconciled_def wan_sums_init_def Let_def then_some_def)
qed

definition int_ops :: "int float_ops" where
  "int_ops =
     \<lparr>f_zero = 0, f_add = (+), f_sub = (-), f_of_u64 = (\<lambda>v. int (unat v)), f_finite = (\<lambda>_. True),
      f_negative = (\<lambda>v. v < 0), f_json = jint\<rparr>"

definition sample_hour :: "int site_wan_sample" where
  "sample_hour = \<lparr>sample_time = Some 0, sample_tx_bytes = Some 7, sample_rx_bytes = Some 9\<rparr>"

theorem complete_comparison_covers_window_witness:
  "window_hours \<lparr>win_start = 0, win_stop = 3600000\<rparr> = {0}
   \<and> rc_unmatched_rx_bytes (reconciled int_ops \<lparr>win_start = 0, win_stop = 3600000\<rparr> \<lparr>rx_bytes = 4, tx_bytes = 7\<rparr>
        \<lparr>ws_hours = [0], ws_missing = False, ws_rx = 9, ws_tx = 7\<rparr>) = Some 5"
proof -
  have run: "wan_sums int_ops \<lparr>win_start = 0, win_stop = 3600000\<rparr> [sample_hour] (wan_sums_init int_ops)
      = Some \<lparr>ws_hours = [0], ws_missing = False, ws_rx = 9, ws_tx = 7\<rparr>"
    by (simp add: wan_step_def int_ops_def sample_hour_def wan_sums_init_def HOUR_MS_def)
  have "bucket_in \<lparr>win_start = 0, win_stop = 3600000\<rparr> sample_hour"
    by (simp add: bucket_in_def sample_hour_def)
  then show ?thesis
    using complete_comparison_covers_window [OF run, of "\<lparr>rx_bytes = 4, tx_bytes = 7\<rparr>"]
    by (simp add: reconciled_def then_some_def HOUR_MS_def int_ops_def Let_def) (auto simp: sample_hour_def)
qed

subsection \<open>Windows\<close>

lemma hours_ms: "unat (ucast h * HOUR_MS :: u64) = unat (h :: u32) * 3600000"
proof -
  have "unat h < 2 ^ 32" using unsigned_less [of h, where ?'a = nat] by simp
  then show ?thesis by (simp add: HOUR_MS_def unat_word_ariths unsigned_ucast_eq take_bit_eq_mod)
qed

text \<open>
  An activity report covers whole hours that are over: its window begins and ends on an hour,
  ends no later than now, and is never reversed. Given a number of hours, it ends at the last full
  hour and spans exactly that many hours, or all hours since the epoch if there are fewer.
\<close>

theorem activity_windows_are_whole_hours:
  assumes "window_at input now = Inr win" and "sq_report input \<noteq> WanHourly"
  shows "win_start win mod HOUR_MS = 0 \<and> win_stop win mod HOUR_MS = 0 \<and> win_stop win \<le> now
    \<and> win_start win \<le> win_stop win
    \<and> (sq_start_ms input = None \<longrightarrow>
         unat now < unat (win_stop win) + 3600000
         \<and> unat (win_stop win) - unat (win_start win)
             = min (unat (win_stop win)) (3600000 * unat (case sq_hours input of Some h \<Rightarrow> h | None \<Rightarrow> DEFAULT_WAN_REPORT_HOURS)))"
proof (cases "sq_start_ms input")
  case (Some from_ms)
  with assms(1) obtain to_ms where fixed: "to_ms \<le> now" "activity_window_new from_ms to_ms = Inr win"
    by (auto simp: window_at_def map_err_def split: option.splits if_splits sum.splits)
  have "win_start win < win_stop win \<and> win_start win mod 3600000 = 0 \<and> win_stop win mod 3600000 = 0
      \<and> to_ms = win_stop win"
    using fixed(2) by (simp add: activity_window_new_def not_le split: if_splits) (metis activity_window.select_convs)
  with fixed(1) Some show ?thesis by (simp add: HOUR_MS_def less_imp_le)
next
  case None
  define h where "h = (case sq_hours input of Some h \<Rightarrow> h | None \<Rightarrow> DEFAULT_WAN_REPORT_HOURS)"
  define to_ms where "to_ms = now div HOUR_MS * HOUR_MS"
  have win: "win_start win = saturating_sub64 to_ms (ucast h * HOUR_MS)" "win_stop win = to_ms"
    using assms None by (auto simp: window_at_def h_def to_ms_def Let_def split: option.splits if_splits)
  have stop: "unat to_ms = unat now div 3600000 * 3600000"
  proof -
    have "unat now div 3600000 * 3600000 < 2 ^ 64"
      using unsigned_less [of now, where ?'a = nat] div_times_less_eq_dividend [of "unat now" 3600000]
      by simp
    then show ?thesis by (simp add: to_ms_def HOUR_MS_def unat_word_ariths unat_div_distrib)
  qed
  have span: "unat (ucast h * HOUR_MS :: u64) = unat h * 3600000"
    by (rule hours_ms)
  have "unat (win_start win) = unat to_ms - unat h * 3600000"
    using span by (auto simp: win saturating_sub64_def word_less_nat_alt unat_sub word_le_nat_alt not_less)
  moreover have "unat (t mod HOUR_MS) = unat t mod 3600000" for t :: u64
    by (simp add: HOUR_MS_def unat_mod_distrib)
  ultimately show ?thesis
    using None stop by (auto simp: win unat_eq_zero [symmetric] word_le_nat_alt h_def [symmetric])
qed

theorem activity_windows_are_whole_hours_witness:
  "window_at \<lparr>sq_report = ClientWanHistory, sq_hours = Some 2, sq_top = None, sq_start_ms = None, sq_end_ms = None,
      sq_limit = None, sq_offset = None\<rparr> 10800001 = Inr \<lparr>win_start = 3600000, win_stop = 10800000\<rparr>
   \<and> unat (10800000 :: u64) - unat (3600000 :: u64) = min (unat (10800000 :: u64)) (3600000 * unat (2 :: u32))"
proof -
  let ?input = "\<lparr>sq_report = ClientWanHistory, sq_hours = Some 2, sq_top = None, sq_start_ms = None, sq_end_ms = None,
      sq_limit = None, sq_offset = None\<rparr>"
  have at: "window_at ?input 10800001 = Inr \<lparr>win_start = 3600000, win_stop = 10800000\<rparr>"
    by (simp add: window_at_def HOUR_MS_def saturating_sub64_def Let_def)
  from activity_windows_are_whole_hours [OF at] at show ?thesis by simp
qed

subsection \<open>Client history\<close>

lemma reported_activity_InrD:
  assumes "fst (reported_activity F dec rt input win report response s) = Inr out"
  shows "\<exists>totals evidence reconciliation names. report_totals (legacy rt) report response = Inr totals
    \<and> out = activity_output input win totals (length (total_usage_by_app report)) evidence reconciliation names"
  using assms by (auto simp: reported_activity_def fst_bind_io_Inr Let_def return_io_def
      simp del: split_paired_Ex split_paired_All)

lemma activity_stats_InrD:
  assumes "fst (activity_stats F dec X rt input s) = Inr out" and "qo_activity out \<noteq> None"
  shows "\<exists>win s1 report response s'. \<not> misplaced_paging input \<and> report_window X input s = (Inr win, s1)
    \<and> upstream (activity_with_response (sd_activity dec) (legacy rt) (legacy_site rt) win) s1
        = (Inr (Reported (report, response)), s')
    \<and> fst (reported_activity F dec rt input win report response s') = Inr out"
proof -
  from assms(1) obtain win s1 read s' where paging: "\<not> misplaced_paging input"
    "report_window X input s = (Inr win, s1)"
    "upstream (activity_with_response (sd_activity dec) (legacy rt) (legacy_site rt) win) s1 = (Inr read, s')"
    and run: "fst ((case read of
           Reported (report, response) \<Rightarrow> reported_activity F dec rt input win report response
         | Unsupported response \<Rightarrow>
             (if sq_report input = DpiApplications \<and> sq_hours input = None \<and> sq_start_ms input = None
              then dpi_stats dec rt (top_of input) response
              else return_io (Inr (unavailable (sq_report input) win CoverUnsupported response)))
         | Unrecognized \<Rightarrow> return_io (Inr (unavailable (sq_report input) win CoverUnrecognized None))) s') = Inr out"
    by (auto simp: activity_stats_def fst_bind_io_Inr return_io_def split: if_splits)
  show ?thesis
  proof (cases read)
    case (Reported got)
    obtain report response where got: "got = (report, response)" by (cases got)
    from run Reported got have "fst (reported_activity F dec rt input win report response s') = Inr out" by simp
    with paging [unfolded Reported got] show ?thesis by blast
  next
    case (Unsupported response)
    with run assms(2) show ?thesis
      by (auto simp: dpi_stats_def dpi_output_def unavailable_def return_io_def Let_def split: if_splits sum.splits prod.splits option.splits)
  next
    case Unrecognized
    with run assms(2) show ?thesis by (auto simp: unavailable_def return_io_def)
  qed
qed

lemma qo_activity_wan [simp]: "qo_activity (wan_hourly_report win rows) = None"
  by (simp add: wan_hourly_report_def Let_def)

lemma stats_query_InrD:
  assumes "fst (stats_query_outcome from_value F dec X rt ps s) = Inr out" and "qo_activity out \<noteq> None"
  shows "\<exists>input win s1 report response s'. parse from_value ps = Inr input \<and> sq_report input \<noteq> WanHourly
    \<and> \<not> misplaced_paging input \<and> report_window X input s = (Inr win, s1)
    \<and> upstream (activity_with_response (sd_activity dec) (legacy rt) (legacy_site rt) win) s1
        = (Inr (Reported (report, response)), s')
    \<and> fst (reported_activity F dec rt input win report response s') = Inr out"
proof -
  from assms obtain input where "parse from_value ps = Inr input" "sq_report input \<noteq> WanHourly"
      "fst (activity_stats F dec X rt input s) = Inr out"
    by (auto simp: stats_query_outcome_def fst_bind_io_Inr return_io_def map_ok_eq_Inr
        split: if_splits)
  with activity_stats_InrD [OF _ assms(2)] show ?thesis by blast
qed

text \<open>A row of the report shows the client it was counted for.\<close>

definition shows_client :: "client_activity \<Rightarrow> Traffic.client_row \<Rightarrow> bool" where
  "shows_client c r \<longleftrightarrow>
     row_mac r = normal_mac c \<and> row_name r = map_option bounded_text (client_name (client c))
     \<and> unat (rx_bytes (row_bytes r)) = received (usage_by_app c)
     \<and> unat (tx_bytes (row_bytes r)) = transmitted (usage_by_app c)"

lemma report_totals_exact:
  assumes "report_totals X report response = Inr (rows, all, apps)"
  shows "list_all2 shows_client (client_usage_by_app report) rows
    \<and> unat (rx_bytes all) = (\<Sum>c\<leftarrow>client_usage_by_app report. received (usage_by_app c))
    \<and> unat (tx_bytes all) = (\<Sum>c\<leftarrow>client_usage_by_app report. transmitted (usage_by_app c))"
proof -
  from assms obtain raw where raw: "totals_loop {} [] bytes_default (client_usage_by_app report) = Inr (raw, all)"
    and rows: "rows = map (\<lambda>r. r\<lparr>row_name := map_option bounded_text (row_name r)\<rparr>) raw"
    by (auto simp: report_totals_def activity_totals_with_response_def activity_totals_def map_err_def map_ok_def
        bind_res_def split: sum.splits prod.splits)
  from totals_loop_exact [OF raw] show ?thesis
    by (auto simp: rows bytes_default_def list.rel_map shows_client_def client_row_of_def elim!: list.rel_mono_strong)
qed

text \<open>
  C22. Pages of client history are slices of one ranking of all clients the controller reported. A
  history answer with activity comes from the report that the controller gave when it was asked for
  the requested window. Every client of that report has one row, with its address and its exact
  counters; the rows are ranked by their true traffic, largest first and ties by address; the answer
  is the requested page of that ranking, with the number of all clients, with a next offset exactly
  when clients remain and pointing at the first of them, and with totals that are the exact sums over
  every client of the report, not over the page.
\<close>

theorem client_history_pages:
  assumes "fst (stats_query_outcome from_value F dec X rt ps s) = Inr out"
    and "parse from_value ps = Inr input" and "sq_report input = ClientWanHistory" and "qo_activity out = Some a"
  shows "\<exists>win s1 report response s2 rows ranked.
      report_window X input s = (Inr win, s1)
    \<and> upstream (activity_with_response (sd_activity dec) (legacy rt) (legacy_site rt) win) s1
        = (Inr (Reported (report, response)), s2)
    \<and> list_all2 shows_client (client_usage_by_app report) rows
    \<and> mset ranked = mset rows
    \<and> sorted_wrt (\<lambda>x y. client_traffic y < client_traffic x
                   \<or> client_traffic y = client_traffic x \<and> row_mac x \<le> row_mac y) ranked
    \<and> ad_clients a = take (case sq_limit input of Some n \<Rightarrow> n | None \<Rightarrow> 50)
                        (drop (case sq_offset input of Some n \<Rightarrow> n | None \<Rightarrow> 0) ranked)
    \<and> ad_total_clients a = length (client_usage_by_app report)
    \<and> (length ranked < 2 ^ 64 \<longrightarrow> ad_next_offset a =
         (let next = (case sq_offset input of Some n \<Rightarrow> n | None \<Rightarrow> 0) + (case sq_limit input of Some n \<Rightarrow> n | None \<Rightarrow> 50)
          in if next < length ranked then Some next else None))
    \<and> unat (rx_bytes (ad_client_totals a)) = (\<Sum>c\<leftarrow>client_usage_by_app report. received (usage_by_app c))
    \<and> unat (tx_bytes (ad_client_totals a)) = (\<Sum>c\<leftarrow>client_usage_by_app report. transmitted (usage_by_app c))"
proof -
  from stats_query_InrD [OF assms(1)] assms(2,4) obtain win s1 report response s2
    where read: "report_window X input s = (Inr win, s1)"
      "upstream (activity_with_response (sd_activity dec) (legacy rt) (legacy_site rt) win) s1
         = (Inr (Reported (report, response)), s2)"
      and "fst (reported_activity F dec rt input win report response s2) = Inr out" by auto
  then obtain rows all apps evidence reconciliation names
    where tot: "report_totals (legacy rt) report response = Inr (rows, all, apps)"
      and out: "out = activity_output input win (rows, all, apps) (length (total_usage_by_app report)) evidence
         reconciliation names"
    by (auto dest!: reported_activity_InrD)
  obtain te ge tr st ne where parts: "evidence = (te, ge)" "names = (tr, st, ne)"
    by (cases evidence; cases names) auto
  have "sorted_wrt (\<lambda>x y. client_traffic y < client_traffic x
      \<or> client_traffic y = client_traffic x \<and> row_mac x \<le> row_mac y) (ranked_clients rows)"
    using sorted_sort_key [of "\<lambda>r. (- int (client_traffic r), row_mac r)" rows]
    unfolding ranked_clients_def sorted_map by (rule sorted_wrt_mono_rel [rotated]) (auto simp: less_eq_prod_def)
  moreover from report_totals_exact [OF tot] have "length rows = length (client_usage_by_app report)"
    by (auto dest: list_all2_lengthD)
  ultimately show ?thesis
    by (intro exI [of _ win] exI [of _ s1] exI [of _ report] exI [of _ response] exI [of _ s2] exI [of _ rows]
        exI [of _ "ranked_clients rows"])
      (use read report_totals_exact [OF tot] assms(3,4) in
        \<open>auto simp: out parts activity_output_def Let_def ranked_clients_def usize_saturating_add_def then_some_def min_def\<close>)
qed

definition os_state :: "unit tool_state" where
  "os_state = (Some ''site'', canned_world (session_default\<lparr>kind := Some UnifiOs, authenticated := True\<rparr>))"

definition sample_stats_decoders :: "int stats_decoders" where
  "sample_stats_decoders =
     \<lparr>sd_wan = (\<lambda>_. Inr \<lparr>meta_rc = ''ok'', meta_msg = None, envelope_data = []\<rparr>), sd_dpi = (\<lambda>_. Inl ''none''),
      sd_activity = (\<lambda>_. Inr sample_report), sd_buckets = (\<lambda>_. Inr []), sd_names = (\<lambda>_. Inl ''none''),
      sd_sources = \<lparr>read_raw = (\<lambda>_. Inl ''none''), read_activity = (\<lambda>_. Inl ''none''), read_buckets = (\<lambda>_. Inl ''none''),
                    read_wan = (\<lambda>_. Inl ''none'')\<rparr>\<rparr>"

definition sample_history :: stats_query_input where
  "sample_history =
     \<lparr>sq_report = ClientWanHistory, sq_hours = Some 1, sq_top = None, sq_start_ms = None, sq_end_ms = None,
      sq_limit = None, sq_offset = None\<rparr>"

definition sample_clock :: "unit event_externals" where
  "sample_clock =
     \<lparr>ee_log = (\<lambda>_. Inl ''none''), ee_entries = (\<lambda>_. Inl ''none''), ee_whole = (\<lambda>_. Inl ''none''),
      ee_clock = (\<lambda>_. Some 3600000)\<rparr>"

definition first_hour :: activity_window where
  "first_hour = \<lparr>win_start = 0, win_stop = 3600000\<rparr>"

lemma sample_history_window: "report_window sample_clock sample_history s = (Inr first_hour, s)"
  by (simp add: report_window_def current_time_ms_def sample_clock_def sample_history_def window_at_def first_hour_def
      bind_io_def return_io_def HOUR_MS_def saturating_sub64_def Let_def)

lemma sample_totals:
  "report_totals X sample_report body =
     Inr ([\<lparr>row_mac = ''02:00:00:00:00:01'', row_name = None, row_bytes = \<lparr>rx_bytes = 7, tx_bytes = 5\<rparr>\<rparr>],
          \<lparr>rx_bytes = 7, tx_bytes = 5\<rparr>, \<lparr>rx_bytes = 7, tx_bytes = 5\<rparr>)"
  using sample_report_totals by (simp add: report_totals_def activity_totals_with_response_def)

lemmas os_run_defs =
  os_state_def first_hour_def activity_read_with_bytes_def activity_window_new_def read_with_reauth_def
  execute_activity_def activity_url_def activity_request_def finish_activity_def sample_stats_decoders_def
  capture_csrf_into_def header_value_def sample_run_defs

text \<open>The three reads of the sample console, from any point of its one session.\<close>

definition os_world :: "io_event list \<Rightarrow> unit tool_state" where
  "os_world tr = (fst os_state, (snd os_state)\<lparr>trace := tr\<rparr>)"

lemma sample_reads:
  "\<exists>tr'. upstream (activity_with_response (sd_activity sample_stats_decoders) (legacy (sample_runtime empty_ok []))
      (legacy_site (sample_runtime empty_ok [])) first_hour) (os_world tr) = (Inr (Reported (sample_report, [])), os_world tr')"
  "\<exists>tr'. upstream (activity_buckets (sd_buckets sample_stats_decoders) (legacy (sample_runtime empty_ok []))
      (legacy_site (sample_runtime empty_ok [])) first_hour) (os_world tr) = (Inr (Reported []), os_world tr')"
  "\<exists>r tr'. reconcile_activity int_ops sample_stats_decoders (sample_runtime empty_ok []) first_hour totals (os_world tr)
      = (Inr r, os_world tr')"
  by (simp_all add: activity_with_response_def activity_buckets_def return_io_def os_run_defs os_world_def
      reconcile_activity_def hourly_wan_report_with_response_def wan_sums_init_def)

theorem client_history_pages_witness:
  "\<exists>out a ranked. fst (stats_query_outcome (\<lambda>_. Inr sample_history) int_ops sample_stats_decoders sample_clock
        (sample_runtime empty_ok []) \<lparr>arguments = None\<rparr> (os_world [])) = Inr out
     \<and> qo_activity out = Some a \<and> ad_clients a = take 50 (drop 0 ranked) \<and> ad_total_clients a = length ranked"
proof -
  let ?rt = "sample_runtime empty_ok []"
  obtain t1 where r1: "upstream (activity_with_response (sd_activity sample_stats_decoders) (legacy ?rt)
      (legacy_site ?rt) first_hour) (os_world []) = (Inr (Reported (sample_report, [])), os_world t1)"
    using sample_reads(1) by blast
  obtain t2 where r2: "upstream (activity_buckets (sd_buckets sample_stats_decoders) (legacy ?rt)
      (legacy_site ?rt) first_hour) (os_world t1) = (Inr (Reported []), os_world t2)"
    using sample_reads(2) by blast
  obtain r t3 where r3: "reconcile_activity int_ops sample_stats_decoders ?rt first_hour
      \<lparr>rx_bytes = 7, tx_bytes = 5\<rparr> (os_world t2) = (Inr r, os_world t3)"
    using sample_reads(3) by blast
  have input: "parse (\<lambda>_. Inr sample_history) \<lparr>arguments = None\<rparr> = Inr sample_history"
    by (simp add: parse_def)
  have kind: "sq_report sample_history = ClientWanHistory" "\<not> misplaced_paging sample_history"
    "sq_limit sample_history = None" "sq_offset sample_history = None"
    by (simp_all add: sample_history_def misplaced_paging_def)
  let ?out = "activity_output sample_history first_hour
      ([\<lparr>row_mac = ''02:00:00:00:00:01'', row_name = None, row_bytes = \<lparr>rx_bytes = 7, tx_bytes = 5\<rparr>\<rparr>],
       \<lparr>rx_bytes = 7, tx_bytes = 5\<rparr>, \<lparr>rx_bytes = 7, tx_bytes = 5\<rparr>) (length (total_usage_by_app sample_report))
      (temporal (Reported []) first_hour) r (None, ''notRequested'', [])"
  have run: "fst (stats_query_outcome (\<lambda>_. Inr sample_history) int_ops sample_stats_decoders sample_clock
        ?rt \<lparr>arguments = None\<rparr> (os_world [])) = Inr ?out"
    by (simp add: stats_query_outcome_def activity_stats_def reported_activity_def bind_io_def return_io_def
        input kind sample_history_window sample_totals r1 r2 r3 Let_def)
  obtain a where act: "qo_activity ?out = Some a"
    by (simp add: activity_output_def temporal_def Let_def)
  from client_history_pages [OF run input kind(1) act, unfolded kind option.case]
  have "\<exists>(report :: activity_report) rows (ranked :: Traffic.client_row list). list_all2 shows_client (client_usage_by_app report) rows
      \<and> mset ranked = mset rows \<and> ad_clients a = take 50 (drop 0 ranked)
      \<and> ad_total_clients a = length (client_usage_by_app report)"
    by blast
  then obtain report :: activity_report and rows and ranked :: "Traffic.client_row list"
    where "list_all2 shows_client (client_usage_by_app report) rows" "mset ranked = mset rows"
      "ad_clients a = take 50 (drop 0 ranked)" "ad_total_clients a = length (client_usage_by_app report)"
    by blast
  moreover have "length ranked = length rows" using \<open>mset ranked = mset rows\<close> by (rule mset_eq_length)
  ultimately show ?thesis using run act by (metis list_all2_lengthD)
qed
end
