(* ===== verification/Tool_Dispatch.thy ===== *)
theory Tool_Dispatch
  imports Registry Tool_Configuration Tool_Network Tool_Statistics
begin

text \<open>
  One tool call of a server for a Network controller, from the request to the answer:
  \<open>UnifiMcp::call_tool\<close> of \<open>crates/unifi-mcp/src/handler.rs\<close> and the exhaustive dispatch
  \<open>UnifiMcp::call\<close> of \<open>tools.rs\<close>. The theorems say that a call with an unknown name or with arguments
  its tool cannot read touches nothing, and that only a confirmed call of a write tool puts a write
  on the wire, at most once.
\<close>

section \<open>What serde reads\<close>

text \<open>
  The argument types of the tools, as serde reads them from the arguments object, and the response
  types of the clients; one field per tool (tools that share a Rust type may be given the same reader)
  and per response type. \<open>'n\<close>, \<open>'b\<close> and \<open>'l\<close> are the typed configurations of a
  network, a Wi-Fi broadcast and a WLAN.
\<close>

type_synonym 'i reader = "json \<Rightarrow> string + 'i"

record device_readers =
  of_clients_search :: "clients_search_input reader"
  of_clients_context :: "string reader"
  of_devices_search :: "devices_search_input reader"
  of_devices_status :: "string reader"
  of_pending_list :: "list_input reader"
  of_radius_list :: "list_input reader"
  of_devices_adopt :: "devices_adopt_input reader"
  of_devices_remove :: "devices_remove_input reader"
  of_clients_control :: "clients_control_input reader"
  of_devices_control :: "devices_control_input reader"
  of_guests_status :: "string reader"
  of_guests_authorize :: "guests_authorize_input reader"
  of_guests_unauthorize :: "guests_unauthorize_input reader"

record ('n, 'b, 'l) network_readers =
  of_firewall_read :: "firewall_read_input reader"
  of_networks_read :: "networks_section option reader"
  of_networks_list :: "networks_list_input reader"
  of_networks_status :: "(string \<times> bool) reader"
  of_networks_configure :: "'n configure_input reader"
  of_broadcasts_list :: "list_input reader"
  of_broadcasts_status :: "string reader"
  of_broadcasts_configure :: "'b configure_input reader"
  of_source_read :: "source_read_input reader"
  of_inventory_list :: "inventory_list_input reader"
  of_inventory_detail :: "inventory_detail_input reader"
  of_switching_detail :: "(switching_detail_kind \<times> string) reader"
  of_wlan_page :: "(u32 \<times> nat) reader"
  of_wlan_status :: "string reader"
  of_wlan_groups :: "(wlan_group_kind \<times> u32 \<times> nat) reader"
  of_wlans_configure :: "'l legacy_configure_input reader"
  of_wlans_update :: "wlans_update_input reader"
  of_forward_page :: "(u32 \<times> nat) reader"
  of_forward_status :: "string reader"
  of_forward_configure :: "port_forward_configuration legacy_configure_input reader"
  of_forwards_update :: "port_forwards_update_input reader"

record policy_readers =
  of_overview :: "unit reader"
  of_policy_order :: "unit reader"
  of_acl_order :: "unit reader"
  of_policy_list :: "policy_list_input reader"
  of_policy_detail :: "(network_policy_kind \<times> string) reader"
  of_acl_rules :: "acl_rule_request policy_configure_input reader"
  of_acl_ordering :: "acl_rules_ordering_input reader"
  of_policy_ordering :: "firewall_policy_ordering_input reader"
  of_zones :: "firewall_zone_request policy_configure_input reader"
  of_policies :: "firewall_policy_request policy_configure_input reader"
  of_dns_policies :: "dns_policy_request policy_configure_input reader"
  of_traffic_lists :: "traffic_list_request policy_configure_input reader"
  of_policy_update :: "firewall_policies_update_input reader"
  of_policy_delete :: "firewall_policies_delete_input reader"

record report_readers =
  of_wifi_diagnose :: "int option reader"
  of_events_search :: "events_search_input reader"
  of_events_read :: "events_read_input reader"
  of_stats_query :: "stats_query_input reader"
  of_traffic_read :: "traffic_read_input reader"
  of_vouchers_search :: "vouchers_search_input reader"
  of_vouchers_status :: "string reader"
  of_vouchers_revoke :: "voucher_revoke_input reader"
  of_vouchers_matching :: "revoke_matching_input reader"
  of_vouchers_create :: "vouchers_create_input reader"

record ('e, 'f, 'z) response_decoders =
  as_network :: network_decoders
  as_inventory :: inventory_decoders
  as_firewall :: firewall_decoders
  as_events :: "'e event_externals"
  as_stats :: "'f stats_decoders"
  as_guest :: guest_decoders
  as_object :: "bytes \<Rightarrow> string + (string \<times> json) list"
  as_page :: "json page decoder"
  as_page_value :: "json \<Rightarrow> string + json page"
  as_networks :: "network_conf legacy_envelope decoder"
  as_wlans :: "wlan_conf legacy_envelope decoder"
  as_rogues :: "rogue_ap legacy_envelope decoder"
  as_groups :: "json list decoder"
  as_wlan :: "json \<Rightarrow> string + wlan_conf"
  as_forward :: "json \<Rightarrow> string + port_forward"
  as_connected :: "Tool_Actions.active_client legacy_envelope decoder"
  as_device :: "device_record decoder"
  as_zone_page :: "'z page decoder"
  as_raw_record :: "raw_record decoder"
  as_raw_value :: "string \<Rightarrow> json"
  as_voucher_page :: "voucher_details page decoder"
  as_voucher_list :: "voucher_row list decoder"
  as_voucher :: "voucher_details decoder"

text \<open>
  Everything a Network runtime calls that is not its own: serde, the clock, doubles, \<open>Debug\<close>. The
  handlers of the Protect tools, which stop at \<open>unreachable!\<close> on a Network runtime, are a parameter
  about which nothing is assumed.
\<close>

record ('e, 'f, 'z, 'n, 'b, 'l) network_env =
  rd_device :: device_readers
  rd_network :: "('n, 'b, 'l) network_readers"
  rd_policy :: policy_readers
  rd_report :: report_readers
  responses :: "('e, 'f, 'z) response_decoders"
  floats :: "'f float_ops"
  network_value :: "'n \<Rightarrow> json"
  broadcast_value :: "'b \<Rightarrow> json"
  wlan_value :: "'l \<Rightarrow> json"
  controller_name :: string
  debug_text :: "string \<Rightarrow> string"
  protect_handler :: "tool_kind \<Rightarrow> params \<Rightarrow> ('e, call_result \<times> bool) tool"

section \<open>Dispatch\<close>

text \<open>A result with its error flag; only \<open>traffic_read\<close> sets it.\<close>

definition answered :: "('e, call_result) tool \<Rightarrow> ('e, call_result \<times> bool) tool" where
  "answered m = map_io (\<lambda>r. (r, False)) m"

text \<open>The match of \<open>call\<close>; the arms of the Protect tools are the parameter's.\<close>

definition network_handler ::
  "('e, 'f, 'z, 'n, 'b, 'l) network_env \<Rightarrow> ('e, 'x) tool_runtime_scheme \<Rightarrow> params \<Rightarrow> tool_kind
     \<Rightarrow> ('e, call_result \<times> bool) tool" where
  "network_handler E rt ps k =
     (let D = rd_device E; N = rd_network E; P = rd_policy E; R = rd_report E; d = responses E in
      case k of
        NetworkOverview \<Rightarrow> answered (network_overview (of_overview P) (as_network d) (as_events d) (controller_name E) rt ps)
      | ClientsSearch \<Rightarrow> answered (clients_search (of_clients_search D) (as_inventory d) rt ps)
      | ClientsContext \<Rightarrow> answered (clients_context (of_clients_context D) (as_inventory d) (as_events d) rt ps)
      | DevicesSearch \<Rightarrow> answered (devices_search (of_devices_search D) (as_inventory d) rt ps)
      | DevicesStatus \<Rightarrow> answered (devices_status (of_devices_status D) (as_inventory d) rt ps)
      | PendingDevicesList \<Rightarrow> answered (pending_devices_list (of_pending_list D) (as_object d) (as_page d) rt ps)
      | DevicesAdopt \<Rightarrow> answered (devices_adopt (of_devices_adopt D) rt ps)
      | DevicesRemove \<Rightarrow> answered (devices_remove (of_devices_remove D) rt ps)
      | FirewallRead \<Rightarrow> answered (firewall_read (of_firewall_read N) (as_firewall d) rt ps)
      | NetworksRead \<Rightarrow> answered (networks_read (of_networks_read N) (as_networks d) (as_wlans d) rt ps)
      | NetworksList \<Rightarrow> answered (networks_list (of_networks_list N) (as_page_value d) rt ps)
      | NetworksStatus \<Rightarrow> answered (networks_status (of_networks_status N) rt ps)
      | NetworksConfigure \<Rightarrow> answered (networks_configure (network_value E) (of_networks_configure N) (as_object d) rt ps)
      | WifiBroadcastsConfigure \<Rightarrow>
          answered (wifi_broadcasts_configure (broadcast_value E) (of_broadcasts_configure N) (as_object d) rt ps)
      | RadiusProfilesList \<Rightarrow> answered (radius_profiles_list (of_radius_list D) (as_object d) (as_page d) rt ps)
      | NetworkSourceRead \<Rightarrow> answered (network_source_read (of_source_read N) rt ps)
      | NetworkInventoryList \<Rightarrow> answered (network_inventory_list (of_inventory_list N) (as_object d) (as_page d) rt ps)
      | NetworkInventoryDetail \<Rightarrow> answered (network_inventory_detail (of_inventory_detail N) rt ps)
      | NetworkSwitchingDetail \<Rightarrow> answered (network_switching_detail (of_switching_detail N) rt ps)
      | NetworkPolicyList \<Rightarrow> answered (network_policy_list (of_policy_list P) (as_object d) (as_page d) rt ps)
      | NetworkPolicyDetail \<Rightarrow> answered (network_policy_detail_tool (of_policy_detail P) rt ps)
      | AclRulesConfigure \<Rightarrow> answered (acl_rules_configure (of_acl_rules P) rt ps)
      | FirewallPoliciesOrderingRead \<Rightarrow> answered (firewall_policies_ordering_read (of_policy_order P) rt ps)
      | FirewallPoliciesOrderingConfigure \<Rightarrow>
          answered (firewall_policies_ordering_configure (of_policy_ordering P) rt ps)
      | AclRulesOrderingRead \<Rightarrow> answered (acl_rules_ordering_read (of_acl_order P) rt ps)
      | AclRulesOrderingConfigure \<Rightarrow> answered (acl_rules_ordering_configure (of_acl_ordering P) rt ps)
      | FirewallZonesConfigure \<Rightarrow> answered (firewall_zones_configure (of_zones P) rt ps)
      | FirewallPoliciesConfigure \<Rightarrow> answered (firewall_policies_configure (of_policies P) rt ps)
      | DnsPoliciesConfigure \<Rightarrow> answered (dns_policies_configure (of_dns_policies P) rt ps)
      | TrafficListsConfigure \<Rightarrow> answered (traffic_lists_configure (of_traffic_lists P) rt ps)
      | WifiBroadcastsList \<Rightarrow> answered (wifi_broadcasts_list (of_broadcasts_list N) (as_page_value d) rt ps)
      | WifiBroadcastsStatus \<Rightarrow> answered (wifi_broadcasts_status (of_broadcasts_status N) (as_object d) rt ps)
      | WifiDiagnose \<Rightarrow> answered (wifi_diagnose (of_wifi_diagnose R) (as_inventory d) (as_rogues d) rt ps)
      | EventsSearch \<Rightarrow> answered (events_search (of_events_search R) (as_events d) rt ps)
      | EventsRead \<Rightarrow> answered (events_read (of_events_read R) (as_events d) rt ps)
      | StatsQuery \<Rightarrow> answered (stats_query (of_stats_query R) (floats E) (as_stats d) (as_events d) rt ps)
      | TrafficRead \<Rightarrow> traffic_read (of_traffic_read R) (sd_sources (as_stats d)) (as_events d) rt ps
      | WlansList \<Rightarrow> answered (wlans_list (of_wlan_page N) rt ps)
      | WlansStatus \<Rightarrow> answered (wlans_status (of_wlan_status N) rt ps)
      | WlanGroupsList \<Rightarrow> answered (wlan_groups_list (of_wlan_groups N) (as_groups d) rt ps)
      | WlansConfigure \<Rightarrow> answered (wlans_configure (wlan_value E) (of_wlans_configure N) rt ps)
      | WlansUpdate \<Rightarrow> answered (wlans_update (of_wlans_update N) (as_wlan d) rt ps)
      | ClientsControl \<Rightarrow> answered (clients_control (of_clients_control D) (as_connected d) rt ps)
      | DevicesControl \<Rightarrow> answered (devices_control (of_devices_control D) (as_device d) rt ps)
      | GuestsStatus \<Rightarrow> answered (guests_status (of_guests_status D) (as_guest d) rt ps)
      | GuestsAuthorize \<Rightarrow> answered (guests_authorize (of_guests_authorize D) (as_guest d) rt ps)
      | GuestsUnauthorize \<Rightarrow> answered (guests_unauthorize (of_guests_unauthorize D) (as_guest d) rt ps)
      | PortForwardsList \<Rightarrow> answered (port_forward_list (of_forward_page N) rt ps)
      | PortForwardsStatus \<Rightarrow> answered (port_forward_status (of_forward_status N) rt ps)
      | PortForwardsConfigure \<Rightarrow> answered (port_forward_configure (of_forward_configure N) rt ps)
      | PortForwardsUpdate \<Rightarrow> answered (port_forwards_update (of_forwards_update N) (as_forward d) rt ps)
      | FirewallPoliciesUpdate \<Rightarrow>
          answered (firewall_policies_update (of_policy_update P) (nd_info (as_network d)) (as_zone_page d)
            (as_raw_record d) (as_raw_value d) rt ps)
      | FirewallPoliciesDelete \<Rightarrow>
          answered (firewall_policies_delete (of_policy_delete P) (nd_info (as_network d)) (as_zone_page d)
            (as_raw_record d) rt ps)
      | VouchersSearch \<Rightarrow> answered (vouchers_search (of_vouchers_search R) (as_voucher_page d) rt ps)
      | VouchersStatus \<Rightarrow> answered (vouchers_status (of_vouchers_status R) (as_voucher d) rt ps)
      | VouchersRevoke \<Rightarrow> answered (vouchers_revoke (of_vouchers_revoke R) (as_voucher d) rt ps)
      | VouchersRevokeMatching \<Rightarrow> answered (vouchers_revoke_matching (of_vouchers_matching R) (as_page d) rt ps)
      | VouchersCreate \<Rightarrow>
          answered (vouchers_create (of_vouchers_create R) (as_voucher_list d) (as_voucher d) rt ps)
      | _ \<Rightarrow> protect_handler E k ps)"

text \<open>The trust labels every result carries under its own key of the metadata.\<close>

record tool_answer =
  ta_result :: call_result
  ta_is_error :: bool
  ta_sensitive :: bool
  ta_untrusted :: bool

definition trust_annotated :: "tool_behavior \<Rightarrow> call_result \<times> bool \<Rightarrow> tool_answer" where
  "trust_annotated b = (\<lambda>(result, failed).
     \<lparr>ta_result = result, ta_is_error = failed, ta_sensitive = result_sensitive b, ta_untrusted = result_untrusted b\<rparr>)"

definition unknown_tool :: "('e, 'f, 'z, 'n, 'b, 'l) network_env \<Rightarrow> string \<Rightarrow> mcp_error" where
  "unknown_tool E name = InvalidParams (''unknown tool '' @ debug_text E name @ ''; tools/list is the catalog'')"

definition call ::
  "('e, 'f, 'z, 'n, 'b, 'l) network_env \<Rightarrow> ('e, 'x) tool_runtime_scheme \<Rightarrow> string \<Rightarrow> params \<Rightarrow> ('e, tool_answer) tool" where
  "call E rt name ps =
     (case find (\<lambda>spec. spec_name spec = name) (tools_for_surface NetworkSurface) of
        None \<Rightarrow> return_io (Inl (unknown_tool E name))
      | Some spec \<Rightarrow> map_io (trust_annotated (spec_behavior spec)) (network_handler E rt ps (spec_kind spec)))"

text \<open>
  The request around it: the verified caller, the permit of the bounded server and the overall
  deadline, whose expiry drops the call wherever it is.
\<close>

record 'p request_context =
  local_transport :: bool
  caller :: "'p option"
  permits :: nat

definition call_tool ::
  "('e, 'f, 'z, 'n, 'b, 'l) network_env \<Rightarrow> ('e, 'x) tool_runtime_scheme \<Rightarrow> 'p request_context \<Rightarrow> string \<Rightarrow> params
     \<Rightarrow> ('e, tool_answer) tool" where
  "call_tool E rt ctx name ps s =
     (if \<not> local_transport ctx \<and> caller ctx = None
      then (Inl (InvalidRequest ''verified caller identity required''), s)
      else if permits ctx = 0
      then (Inl (InternalError ''server is busy; no tool action was started''), s)
      else case tokio_timeout rt (request_timeout rt) (call E rt name ps) s of
             (None, s) \<Rightarrow>
               (Inl (InternalError (''request timed out; a confirmed mutation may have taken effect; inspect '' @
                  ''controller state before another action'')), s)
           | (Some r, s) \<Rightarrow> (r, s))"


section \<open>Questions are not writes\<close>

lemma execute_request_queries:
  "query_request request \<Longrightarrow> extends 0 w (snd (execute_request_bytes cl cls request w))"
  using execute_request_bytes_snd [of cl cls request w] by (auto simp: extends_def)

lemma query_tail_request:
  assumes "build_url b (pre @ tail) q = Inr u" and "tail \<in> set query_tails"
  shows "query_request \<lparr>rq_method = POST, rq_url = u, rq_headers = hs, rq_body = body\<rparr>"
  using assms(2) build_url_segments [OF assms(1)]
  by (auto simp: query_request_def list_ex_iff intro!: bexI [of _ tail])

lemma site_tail_request:
  "build_url b (site_segments k site tail) q = Inr u \<Longrightarrow> tail \<in> set query_tails
     \<Longrightarrow> query_request \<lparr>rq_method = POST, rq_url = u, rq_headers = hs, rq_body = body\<rparr>"
  by (cases k) (auto intro: query_tail_request [of b "[''proxy'', ''network'', ''api'', ''s'', site]"]
      query_tail_request [of b "[''api'', ''s'', site]"])

lemma execute_bytes_queries:
  "tail \<in> set query_tails \<Longrightarrow> extends 0 w (snd (execute_bytes cl cls POST site tail body w))"
  by (auto simp: execute_bytes_def intro!: execute_request_queries site_tail_request split: option.split sum.split)

lemma posted_query_attempt:
  "tail \<in> set query_tails \<Longrightarrow> reading_attempt (execute_with_status_bytes dec cl cls POST site tail body)"
  by unfold_locales (simp add: execute_bytes_queries)

lemma posted_queries_extend:
  assumes "tail \<in> set query_tails"
  shows "extends 0 w (snd (request_with_reauth_with_bytes dec cl IdempotentRead POST site tail body w))"
  unfolding request_with_reauth_with_bytes_def snd_map_io request_idempotent_eq
  by (rule reading_attempt.read_with_reauth_extends [OF posted_query_attempt [OF assms]])

lemma query_tails_members [simp]:
  "[''stat'', ''report'', ''hourly.site''] \<in> set query_tails" "[''stat'', ''sitedpi''] \<in> set query_tails"
  "[''system-log'', ''all''] \<in> set query_tails" "[''app-traffic-rate''] \<in> set query_tails"
  by (simp_all add: query_tails_def)

interpretation log_attempt: reading_attempt "execute_system_log dec cl site q"
  for dec :: "json system_log_page decoder" and cl :: "('e, 'x) legacy_client_scheme" and site q
proof unfold_locales
  fix w :: "'e world"
  have "query_request \<lparr>rq_method = POST, rq_url = u, rq_headers = hs, rq_body = body\<rparr>"
    if "build_url (base cl) (system_log_route k site) [] = Inr u" for u hs body k
    using that query_tail_request [of "base cl" "(if k = Some UnifiOs then [''proxy'', ''network''] else [])
        @ [''v2'', ''api'', ''site'', site]" "[''system-log'', ''all'']"]
    by (simp add: system_log_route_def)
  then show "extends 0 w (snd (execute_system_log dec cl site q w))"
    by (auto simp: execute_system_log_def snd_bind_io extends_def capture_csrf_def split: sum.split)
qed

interpretation activity_attempt: reading_attempt "execute_activity dec cl site win graph"
  for dec :: "'a decoder" and cl :: "('e, 'x) legacy_client_scheme" and site win graph
proof unfold_locales
  fix w :: "'e world"
  have "rq_method (activity_request graph token u) = GET \<or> query_request (activity_request graph token u)"
    if "activity_url cl site win graph = Inr u" for u token
    using that query_tail_request [of "base cl" "[''proxy'', ''network'', ''v2'', ''api'', ''site'', site]"
        "[''app-traffic-rate'']"]
    by (auto simp: activity_url_def activity_request_def)
  then show "extends 0 w (snd (execute_activity dec cl site win graph w))"
    by (auto simp: execute_activity_def snd_bind_io extends_def capture_csrf_def split: sum.split)
qed

interpretation dpi_attempt: reading_attempt "execute_dpi dec cl site"
  for dec :: "dpi_record legacy_envelope decoder" and cl :: "('e, 'x) legacy_client_scheme" and site
  by unfold_locales (simp add: execute_bytes_queries)

interpretation wan_attempt: reading_attempt "collect_wan_bytes cl site body"
  for cl :: "('e, 'x) legacy_client_scheme" and site body
  by unfold_locales (simp add: execute_bytes_queries)

lemma activity_bytes_extends: "extends 0 w (snd (activity_read_with_bytes dec cl site win graph w))"
  by (auto simp: activity_read_with_bytes_def activity_attempt.read_with_reauth_extends split: sum.split)

lemma read_source_extends: "extends 0 w (snd (read_source rd cl site win selected w))"
  by (cases selected) (simp_all add: read_source_def activity_read_only_def activity_bytes_extends snd_collect_wan
      wan_attempt.read_with_reauth_extends)

lemma posted_reads_extend [io_bounds]:
  "extends 0 w (snd (system_log ldec ldec' cl site q w))"
  "extends 0 w (snd (system_log_records ldec odec cl site q w))"
  "extends 0 w (snd (hourly_wan_report_with_response wdec cl site a b w))"
  "extends 0 w (snd (hourly_wan_report wdec cl site a b w))"
  "extends 0 w (snd (dpi_by_application ddec cl site w))"
  "extends 0 w (snd (activity_with_response adec cl site win w))"
  "extends 0 w (snd (activity_buckets bdec cl site win w))"
  "extends 0 w (snd (traffic_source rd cl site win selected w))"
  "extends 0 w (snd (diagnostic_records edec cl site src w))"
proof -
  show "extends 0 w (snd (system_log ldec ldec' cl site q w))"
    and "extends 0 w (snd (system_log_records ldec odec cl site q w))"
    unfolding system_log_def system_log_records_def system_log_bytes_def
    by (subst snd_bind_io_pure; simp add: log_attempt.read_with_reauth_extends split: prod.split)+
  show "extends 0 w (snd (hourly_wan_report_with_response wdec cl site a b w))"
    and "extends 0 w (snd (hourly_wan_report wdec cl site a b w))"
    by (auto simp: hourly_wan_report_def hourly_wan_report_with_response_def posted_queries_extend)
  show "extends 0 w (snd (dpi_by_application ddec cl site w))"
    by (simp add: dpi_by_application_def dpi_attempt.read_with_reauth_extends)
  show "extends 0 w (snd (activity_with_response adec cl site win w))"
    by (simp add: activity_with_response_def activity_bytes_extends)
  show "extends 0 w (snd (activity_buckets bdec cl site win w))"
    unfolding activity_buckets_def
    by (subst snd_bind_io_pure; simp add: activity_bytes_extends split: prod.split)
  show "extends 0 w (snd (traffic_source rd cl site win selected w))"
    by (auto simp: traffic_source_def read_source_extends split: sum.split)
  show "extends 0 w (snd (diagnostic_records edec cl site src w))"
    by (cases src) (simp_all add: diagnostic_records_def read_envelope_def snd_bind_io_pure split_beta legacy_get_extends
        posted_queries_extend)
qed

section \<open>The other reads\<close>

lemma listed_reads_extend [io_bounds]:
  "extends 0 w (snd (dpi_catalog pdec ic k pg flt w))"
  "extends 0 w (snd (dpi_names ndec ic ids categories w))"
  "extends 0 w (snd (site_inventory pdec ic site sk pg flt w))"
  "extends 0 w (snd (countries pdec ic pg flt w))"
  "extends 0 w (snd (site_records pdec ic pg flt w))"
  "extends 0 w (snd (pending_devices pdec ic pg flt w))"
  "extends 0 w (snd (radius_profile_records pdec ic site pg flt w))"
  "extends 0 w (snd (network_policy_page pdec ic site coll pg flt w))"
  "extends 0 w (snd (wifi_broadcast_records ic site pg flt w))"
  "extends 0 w (snd (inventory_detail ic site dk rid w))"
  "extends 0 w (snd (switching_detail ic site wk rid w))"
  "extends 0 w (snd (info_record ic w))"
  "extends 0 w (snd (devices pdec ic site pg w))"
  "extends 0 w (snd (device_statistics adec ic site rid w))"
  "extends 0 w (snd (firewall_policies pdec ic site pg w))"
  by (simp_all only: read_trace_extends [OF inventory_detail_trace] read_trace_extends [OF dpi_names_trace] dpi_catalog_def site_inventory_def countries_def site_records_def pending_devices_def
      radius_profile_records_def network_policy_page_def wifi_broadcast_records_def switching_detail_def info_record_def
      devices_def device_statistics_def firewall_policies_def get_json_extends get_with_message_extends snd_map_io)

lemma legacy_lists_extend [io_bounds]:
  "extends 0 w (snd (site_health hdec cl site w))"
  "extends 0 w (snd (networks ndec cl site w))"
  "extends 0 w (snd (wlans wdec cl site w))"
  "extends 0 w (snd (port_forwards fdec cl site w))"
  "extends 0 w (snd (traffic_rules rdec cl site w))"
  "extends 0 w (snd (traffic_routes tdec cl site w))"
  "extends 0 w (snd (rogue_aps adec cl site w))"
  by (simp_all add: site_health_def networks_def wlans_def port_forwards_def traffic_rules_def traffic_routes_def
      rogue_aps_def request_with_reauth_def legacy_get_extends)

section \<open>Read tools do not write\<close>

lemma group_records_extend [io_bounds]: "extends 0 w (snd (group_records adec rt k w))"
  by (cases k) (simp_all add: group_records_def legacy_records_extend)

lemmas read_calls =
  client_reads detect_extends [THEN writes_within_upstream] posted_reads_extend [THEN writes_within_upstream]
  listed_reads_extend [THEN writes_within_upstream] legacy_lists_extend [THEN writes_within_upstream]
  configuration_reads_extend [THEN writes_within_upstream] legacy_records_extend [THEN writes_within_upstream]
  group_records_extend [THEN writes_within_upstream] integration_client_id_reads guest_detail_reads read_voucher_reads
  expect_reads [of 0]

lemma clock_reads: "writes_within 0 (current_time_ms X)" "writes_within 0 (log_window X hours)"
    "writes_within 0 (report_window X input)"
proof -
  show clock: "writes_within 0 (current_time_ms X)"
    by (simp add: writes_within_def current_time_ms_def split: option.split)
  then show "writes_within 0 (log_window X hours)" unfolding log_window_def by (rule writes_within_map)
  show "writes_within 0 (report_window X input)"
    unfolding report_window_def by (intro writes_within_read_bind clock writes_within_return_any)
qed

lemma device_inventory_reads: "writes_within 0 (device_inventory idec rt)"
  unfolding device_inventory_def by (intro writes_within_read_bind resolve_site_reads paged_gather_reads io_bounds)

lemma ap_lookup_reads: "writes_within 0 (ap_lookup idec rt rows)"
  unfolding ap_lookup_def device_names_by_mac_def
  by (intro handler_rules writes_within_map writes_within_read_bind device_inventory_reads)

lemma writes_within_tail: "writes_within n m \<Longrightarrow> writes_within n (\<lambda>s. case m s of (r, s') \<Rightarrow> (k r, s'))"
  by (simp add: writes_within_def split_beta)

lemmas read_steps =
  handler_rules writes_within_map read_calls read_calls [THEN writes_within_read_bind]
  clock_reads [THEN writes_within_read_bind] device_inventory_reads [THEN writes_within_read_bind]
  ap_lookup_reads [THEN writes_within_read_bind]

lemma search_reads:
  "writes_within 0 (clients_search_outcome cv idec rt ps)"
  "writes_within 0 (devices_search_outcome dv idec rt ps)"
  "writes_within 0 (clients_context_outcome sv idec X rt ps)"
  unfolding clients_search_outcome_def devices_search_outcome_def clients_context_outcome_def
  by (intro read_steps)+

lemma devices_status_reads: "writes_within 0 (devices_status_outcome sv idec rt ps)"
  unfolding devices_status_outcome_def Let_def
  by (intro read_steps writes_within_tail writes_within_on_world io_bounds)

lemma list_reads:
  "writes_within 0 (pending_devices_list lv fs pdec rt ps)"
  "writes_within 0 (radius_profiles_list lv fs pdec rt ps)"
  "writes_within 0 (network_policy_list plv fs pdec rt ps)"
  "writes_within 0 (network_policy_detail_tool dv rt ps)"
  "writes_within 0 (firewall_policies_ordering_read uv rt ps)"
  "writes_within 0 (acl_rules_ordering_read uv rt ps)"
  "writes_within 0 (network_switching_detail wv rt ps)"
  "writes_within 0 (network_inventory_detail iv rt ps)"
  "writes_within 0 (wifi_broadcasts_list blv po rt ps)"
  "writes_within 0 (wifi_broadcasts_status sv odec rt ps)"
  unfolding pending_devices_list_def pending_devices_list_outcome_def radius_profiles_list_def
    radius_profiles_list_outcome_def network_policy_list_def network_policy_detail_tool_def
    firewall_policies_ordering_read_def acl_rules_ordering_read_def network_switching_detail_def
    network_inventory_detail_def wifi_broadcasts_list_def wifi_broadcasts_status_def
  by (intro read_steps)+

lemma inventory_list_reads: "writes_within 0 (network_inventory_list iv fs pdec rt ps)"
proof -
  have fetch: "writes_within 0 (inventory_fetch pdec rt k base)" for k base
    unfolding inventory_fetch_def by (intro read_steps)
  show ?thesis
    unfolding network_inventory_list_def by (intro read_steps fetch [THEN writes_within_read_bind])
qed

lemma event_reads:
  "writes_within 0 (events_search_outcome esv X rt ps)"
  "writes_within 0 (events_read_outcome erv X rt ps)"
  "writes_within 0 (network_overview_outcome uv ndec X rt ps)"
  unfolding events_search_outcome_def events_read_outcome_def network_overview_outcome_def
  by (intro read_steps)+

lemma legacy_section_reads: "(\<And>w. extends 0 w (snd (m w))) \<Longrightarrow> writes_within 0 (legacy_section wanted m)"
  by (simp add: legacy_section_def writes_within_upstream writes_within_return_any)

lemma zone_sections_read: "writes_within 0 (zone_based_sections fdec rt site section start)"
proof -
  have "writes_within 0 (zones_section fdec rt site from_row)" "writes_within 0 (policies_section fdec rt site from_row)"
    for from_row
    unfolding zones_section_def policies_section_def by (intro writes_within_map paged_gather_reads io_bounds)+
  then show ?thesis
    unfolding zone_based_sections_def
    by (intro read_steps writes_within_read_bind) (auto intro: writes_within_map writes_within_return_any)
qed

lemma firewall_read_reads: "writes_within 0 (firewall_read_outcome fv fdec rt ps)"
proof -
  have "writes_within 0 (firewall_zone_based fdec rt sec)" for sec
    unfolding firewall_zone_based_def by (intro read_steps)
  then show ?thesis
    unfolding firewall_read_outcome_def
    by (intro read_steps writes_within_read_bind legacy_section_reads zone_sections_read io_bounds)
qed

lemma networks_read_reads: "writes_within 0 (networks_read nv ndec wdec rt ps)"
  unfolding networks_read_def by (intro read_steps legacy_section_reads [THEN writes_within_read_bind] io_bounds)

lemma source_read_reads: "writes_within 0 (network_source_read_outcome sv rt ps)"
  unfolding network_source_read_outcome_def by (intro read_steps)

lemma access_points_read: "writes_within 0 (access_points idec rt site by_ap ds)"
proof (induction ds)
  case (Cons d ds)
  then show ?case unfolding access_points.simps by (intro read_steps)
qed (unfold access_points.simps, rule writes_within_return_any)

lemma wifi_diagnose_reads: "writes_within 0 (wifi_diagnose_outcome wv idec rdec rt ps)"
  unfolding wifi_diagnose_outcome_def rogue_section_def
  by (intro read_steps access_points_read [THEN writes_within_read_bind]
      writes_within_map [THEN writes_within_read_bind] read_calls)

lemma stats_reads: "writes_within 0 (stats_query_outcome sqv F sdec X rt ps)"
proof -
  have reconcile: "writes_within 0 (reconcile_activity F sdec rt win attributed)" for win attributed
    unfolding reconcile_activity_def by (intro read_steps)
  have dpi: "writes_within 0 (dpi_stats sdec rt n response)" for n response
  proof (rule writes_withinI)
    fix s
    obtain r s1 where run: "on_world (dpi_by_application (sd_dpi sdec) (legacy rt) (legacy_site rt)) s = (r, s1)"
      by (metis surj_pair)
    have "writes_within 0 (on_world (dpi_by_application (sd_dpi sdec) (legacy rt) (legacy_site rt)))"
      by (intro writes_within_on_world io_bounds)
    from writes_within_run [OF this run] have "extends 0 (snd s) (snd s1)" .
    then show "extends 0 (snd s) (snd (snd (dpi_stats sdec rt n response s)))"
      by (cases r) (simp_all add: dpi_stats_def run)
  qed
  have names: "writes_within 0 (activity_names sdec rt rows)" for rows
  proof (rule writes_withinI)
    fix s
    let ?ask = "\<lambda>ids cats. on_world (dpi_names (sd_names sdec) (integration rt) ids cats)"
    let ?named = "take MAXIMUM_DPI_NAME_IDS rows"
    obtain a s1 where 1: "?ask (distinct_ids (map dpi_key ?named)) False s = (a, s1)" by (metis surj_pair)
    obtain c s2 where 2: "?ask (distinct_ids (map (\<lambda>a. ucast (category a)) ?named)) True s1 = (c, s2)"
      by (metis surj_pair)
    have ask: "writes_within 0 (?ask ids cats)" for ids cats by (intro writes_within_on_world io_bounds)
    have "extends 0 (snd s) (snd s2)"
      using extends_trans [OF writes_within_run [OF ask 1] writes_within_run [OF ask 2]] by simp
    then show "extends 0 (snd s) (snd (snd (activity_names sdec rt rows s)))"
      by (simp add: activity_names_def 1 2 Let_def)
  qed
  have named: "writes_within 0 (if wanted then (\<lambda>s. case activity_names sdec rt rows s of
        ((rs, status, errors), s) \<Rightarrow> (Inr (Some rs, status, errors), s)) else return_io (Inr (None, ''notRequested'', [])))"
    for wanted :: bool and rows
    using names [of rows] by (auto simp: writes_within_def split_beta return_io_def)
  have reported: "writes_within 0 (reported_activity F sdec rt input win report response)" for input win report response
    unfolding reported_activity_def
    by (intro read_steps reconcile [THEN writes_within_read_bind] named [THEN writes_within_read_bind])
  have "writes_within 0 (activity_stats F sdec X rt input)" for input
    unfolding activity_stats_def
    by (intro read_steps) (auto intro!: reported dpi writes_within_return_any split: activity_read.split prod.split)
  then show ?thesis
    unfolding stats_query_outcome_def by (intro read_steps)
qed

lemma traffic_reads: "writes_within 0 (traffic_read_outcome tv readers X rt ps)"
  unfolding traffic_read_outcome_def by (intro read_steps)

lemma legacy_list_reads:
  "writes_within 0 (port_forward_list pv rt ps)" "writes_within 0 (wlans_list pv rt ps)"
  "writes_within 0 (wlan_groups_list gv adec rt ps)"
  "writes_within 0 (port_forward_status sv rt ps)" "writes_within 0 (wlans_status sv rt ps)"
  unfolding port_forward_list_def wlans_list_def wlan_groups_list_def port_forward_status_def wlans_status_def
    legacy_list_def legacy_status_def legacy_page_def
  by (intro read_steps)+

lemma record_status_reads:
  "writes_within 0 (networks_list nlv po rt ps)"
  "writes_within 0 (guests_status sv gdec rt ps)"
  "writes_within 0 (vouchers_search vv vdec rt ps)"
  "writes_within 0 (vouchers_status sv vdec' rt ps)"
  unfolding networks_list_def guests_status_def vouchers_search_def vouchers_status_def
  by (intro read_steps)+

lemma networks_status_reads: "writes_within 0 (networks_status nsv rt ps)"
  by (rule writes_withinI, unfold networks_status_def, rule writes_withinD)
    (intro read_steps writes_within_timed_tail writes_within_on_world io_bounds)

section \<open>Write tools write once, and only when told to\<close>

text \<open>What a caller has agreed to: the \<open>confirm\<close> flag of the arguments, as the tool reads it.\<close>

definition consents :: "'i reader \<Rightarrow> params \<Rightarrow> ('i \<Rightarrow> bool) \<Rightarrow> bool" where
  "consents rd ps c = (case parse rd ps of Inr input \<Rightarrow> c input | Inl _ \<Rightarrow> False)"

definition confirmed :: "('e, 'f, 'z, 'n, 'b, 'l) network_env \<Rightarrow> params \<Rightarrow> tool_kind \<Rightarrow> bool" where
  "confirmed E ps k =
     (let D = rd_device E; N = rd_network E; P = rd_policy E; R = rd_report E in
      case k of
        DevicesAdopt \<Rightarrow> consents (of_devices_adopt D) ps ai_confirm
      | DevicesRemove \<Rightarrow> consents (of_devices_remove D) ps ri_confirm
      | DevicesControl \<Rightarrow> consents (of_devices_control D) ps (\<lambda>i. ci_confirm i = Some True)
      | ClientsControl \<Rightarrow> consents (of_clients_control D) ps (\<lambda>i. ki_confirm i = Some True)
      | GuestsAuthorize \<Rightarrow> consents (of_guests_authorize D) ps (\<lambda>i. gi_confirm i = Some True)
      | GuestsUnauthorize \<Rightarrow> consents (of_guests_unauthorize D) ps (\<lambda>i. gx_confirm i = Some True)
      | NetworksConfigure \<Rightarrow> consents (of_networks_configure N) ps cf_confirm
      | WifiBroadcastsConfigure \<Rightarrow> consents (of_broadcasts_configure N) ps cf_confirm
      | WlansConfigure \<Rightarrow> consents (of_wlans_configure N) ps lci_confirm
      | WlansUpdate \<Rightarrow> consents (of_wlans_update N) ps (\<lambda>i. wu_confirm i = Some True)
      | PortForwardsConfigure \<Rightarrow> consents (of_forward_configure N) ps lci_confirm
      | PortForwardsUpdate \<Rightarrow> consents (of_forwards_update N) ps (\<lambda>i. pu_confirm i = Some True)
      | AclRulesConfigure \<Rightarrow> consents (of_acl_rules P) ps pc_confirm
      | AclRulesOrderingConfigure \<Rightarrow> consents (of_acl_ordering P) ps ao_ordering_confirm
      | FirewallPoliciesOrderingConfigure \<Rightarrow> consents (of_policy_ordering P) ps fo_ordering_confirm
      | FirewallZonesConfigure \<Rightarrow> consents (of_zones P) ps pc_confirm
      | FirewallPoliciesConfigure \<Rightarrow> consents (of_policies P) ps pc_confirm
      | DnsPoliciesConfigure \<Rightarrow> consents (of_dns_policies P) ps pc_confirm
      | TrafficListsConfigure \<Rightarrow> consents (of_traffic_lists P) ps pc_confirm
      | FirewallPoliciesUpdate \<Rightarrow> consents (of_policy_update P) ps (\<lambda>i. lu_confirm i = Some True)
      | FirewallPoliciesDelete \<Rightarrow> consents (of_policy_delete P) ps li_confirm
      | VouchersRevoke \<Rightarrow> consents (of_vouchers_revoke R) ps vr_confirm
      | VouchersRevokeMatching \<Rightarrow> consents (of_vouchers_matching R) ps rm_confirm
      | VouchersCreate \<Rightarrow> consents (of_vouchers_create R) ps (\<lambda>i. vi_confirm i = Some True)
      | _ \<Rightarrow> False)"

lemma confirmed_is_write: "confirmed E ps k \<Longrightarrow> requires_write_access k"
  by (cases k) (simp_all add: confirmed_def requires_write_access_def write_kinds_def)

text \<open>The contract of a write tool: at most one write, and none before its arguments agree to it.\<close>

locale consenting_tool =
  fixes m :: "params \<Rightarrow> ('e, 'o) tool" and rd :: "'i reader" and c :: "'i \<Rightarrow> bool"
  assumes once: "writes_within 1 (m ps)"
    and preview: "parse rd ps = Inr input \<Longrightarrow> \<not> c input \<Longrightarrow> writes_within 0 (m ps)"
    and unread: "parse rd ps = Inl err \<Longrightarrow> writes_within 0 (m ps)"
begin

lemma bounded: "writes_within (if consents rd ps c then 1 else 0) (m ps)"
  by (cases "parse rd ps") (auto simp: consents_def simp del: One_nat_def intro: once preview unread)

lemma rendered: "writes_within (if consents rd ps c then 1 else 0) (answered (map_io f (m ps)))"
  unfolding answered_def by (intro writes_within_map bounded)

end

lemma unread_device_arguments:
  "parse av ps = Inl err \<Longrightarrow> writes_within n (devices_adopt_outcome av rt ps)"
  "parse rv ps = Inl err \<Longrightarrow> writes_within n (devices_remove_outcome rv rt ps)"
  "parse cv ps = Inl err \<Longrightarrow> writes_within n (devices_control_outcome cv ddec rt ps)"
  "parse kv ps = Inl err \<Longrightarrow> writes_within n (clients_control_outcome kv adec rt ps)"
  "parse gv ps = Inl err \<Longrightarrow> writes_within n (guests_authorize_outcome gv gdec rt ps)"
  "parse uv ps = Inl err \<Longrightarrow> writes_within n (guests_unauthorize_outcome uv gdec rt ps)"
  by (simp_all add: writes_within_def bind_io_def return_io_def devices_adopt_outcome_def devices_remove_outcome_def
      devices_control_outcome_def clients_control_outcome_def guests_authorize_outcome_def guests_unauthorize_outcome_def)

lemma unread_network_arguments:
  "parse nv ps = Inl err \<Longrightarrow> writes_within n (configuration_outcome family ser nv odec rt ps)"
  "parse lv ps = Inl err \<Longrightarrow> writes_within n (legacy_configuration_outcome family' ser' lv rt ps)"
  "parse wv ps = Inl err \<Longrightarrow> writes_within n (wlans_update_outcome wv wdec rt ps)"
  "parse pv ps = Inl err \<Longrightarrow> writes_within n (port_forwards_update_outcome pv fdec rt ps)"
  "parse cv ps = Inl err \<Longrightarrow> writes_within n (configure_outcome pkind validate ser'' cv rt ps)"
  by (simp_all add: writes_within_def bind_io_def return_io_def configuration_outcome_def legacy_configuration_outcome_def
      wlans_update_outcome_def port_forwards_update_outcome_def configure_outcome_def split: sum.split)

lemma unread_policy_arguments:
  "parse uv ps = Inl err \<Longrightarrow> writes_within n (firewall_policies_update_outcome uv idec zdec rdec raw rt ps)"
  "parse dv ps = Inl err \<Longrightarrow> writes_within n (firewall_policies_delete_outcome dv idec zdec rdec rt ps)"
  "parse rv ps = Inl err \<Longrightarrow> writes_within n (vouchers_revoke_outcome rv vdec rt ps)"
  "parse mv ps = Inl err \<Longrightarrow> writes_within n (vouchers_revoke_matching_outcome mv pdec rt ps)"
  "parse cv ps = Inl err \<Longrightarrow> writes_within n (vouchers_create_outcome cv ldec vdec rt ps)"
  by (simp_all add: writes_within_def bind_io_def return_io_def firewall_policies_update_outcome_def
      firewall_policies_delete_outcome_def vouchers_revoke_outcome_def vouchers_revoke_matching_outcome_def
      vouchers_create_outcome_def split: sum.split)

text \<open>The plan of a policy tool carries the caller's confirmation, and an unconfirmed plan is only shown.\<close>

lemma configure_preview:
  assumes "parse cv ps = Inr input" and "\<not> pc_confirm input"
  shows "writes_within 0 (configure_outcome pkind validate ser cv rt ps)"
  using assms
  by (auto simp: writes_within_def configure_outcome_def bind_io_def return_io_def policy_write_plan_def
      network_policy_preview split: sum.split)

lemma ordering_tools_write:
  "writes_within 1 (acl_rules_ordering_configure av rt ps)"
  "writes_within 1 (firewall_policies_ordering_configure fv rt ps)"
  unfolding acl_rules_ordering_configure_def firewall_policies_ordering_configure_def
  by (intro writes_within_map handler_rules ordering_writes io_bounds)+

lemma ordering_tools_preview:
  "parse av ps = Inr input \<Longrightarrow> \<not> ao_ordering_confirm input \<Longrightarrow> writes_within 0 (acl_rules_ordering_configure av rt ps)"
  "parse fv ps = Inr input' \<Longrightarrow> \<not> fo_ordering_confirm input'
     \<Longrightarrow> writes_within 0 (firewall_policies_ordering_configure fv rt ps)"
  by (simp_all add: writes_within_def acl_rules_ordering_configure_def firewall_policies_ordering_configure_def
      bind_io_def return_io_def snd_map_io ordering_preview)

lemma unread_ordering_arguments:
  "parse av ps = Inl err \<Longrightarrow> writes_within n (acl_rules_ordering_configure av rt ps)"
  "parse fv ps = Inl err \<Longrightarrow> writes_within n (firewall_policies_ordering_configure fv rt ps)"
  by (simp_all add: writes_within_def acl_rules_ordering_configure_def firewall_policies_ordering_configure_def
      bind_io_def return_io_def snd_map_io)

interpretation adopt_tool: consenting_tool "\<lambda>ps. devices_adopt_outcome rd rt ps" rd "ai_confirm"
  for rd and rt :: "('e, 'x) tool_runtime_scheme"
  by unfold_locales (rule devices_adopt_writes, rule devices_adopt_preview, assumption+, rule unread_device_arguments)

interpretation remove_tool: consenting_tool "\<lambda>ps. devices_remove_outcome rd rt ps" rd "ri_confirm"
  for rd and rt :: "('e, 'x) tool_runtime_scheme"
  by unfold_locales (rule devices_remove_writes, rule devices_remove_preview, assumption+, rule unread_device_arguments)

interpretation device_tool: consenting_tool "\<lambda>ps. devices_control_outcome rd dec rt ps" rd "\<lambda>i. ci_confirm i = Some True"
  for rd and dec and rt :: "('e, 'x) tool_runtime_scheme"
  by unfold_locales (rule devices_control_writes, rule devices_control_preview, assumption+, rule unread_device_arguments)

interpretation client_tool: consenting_tool "\<lambda>ps. clients_control_outcome rd dec rt ps" rd "\<lambda>i. ki_confirm i = Some True"
  for rd and dec and rt :: "('e, 'x) tool_runtime_scheme"
  by unfold_locales (rule clients_control_writes, rule clients_control_preview, assumption+, rule unread_device_arguments)

interpretation authorize_tool: consenting_tool "\<lambda>ps. guests_authorize_outcome rd dec rt ps" rd "\<lambda>i. gi_confirm i = Some True"
  for rd and dec and rt :: "('e, 'x) tool_runtime_scheme"
  by unfold_locales (rule guests_authorize_writes, rule guests_authorize_preview, assumption+, rule unread_device_arguments)

interpretation unauthorize_tool: consenting_tool "\<lambda>ps. guests_unauthorize_outcome rd dec rt ps" rd "\<lambda>i. gx_confirm i = Some True"
  for rd and dec and rt :: "('e, 'x) tool_runtime_scheme"
  by unfold_locales (rule guests_unauthorize_writes, rule guests_unauthorize_preview, assumption+, rule unread_device_arguments)

interpretation configuration_tool: consenting_tool "\<lambda>ps. configuration_outcome family ser rd dec rt ps" rd "cf_confirm"
  for rd and family ser dec and rt :: "('e, 'x) tool_runtime_scheme"
  by unfold_locales (rule configuration_outcome_writes, rule configuration_outcome_preview, assumption+, rule unread_network_arguments)

interpretation legacy_tool: consenting_tool "\<lambda>ps. legacy_configuration_outcome family ser rd rt ps" rd "lci_confirm"
  for rd and family ser and rt :: "('e, 'x) tool_runtime_scheme"
  by unfold_locales (rule legacy_configuration_outcome_writes, rule legacy_configuration_outcome_preview, assumption+, rule unread_network_arguments)

interpretation wlan_tool: consenting_tool "\<lambda>ps. wlans_update_outcome rd dec rt ps" rd "\<lambda>i. wu_confirm i = Some True"
  for rd and dec and rt :: "('e, 'x) tool_runtime_scheme"
  by unfold_locales (rule wlans_update_writes, rule wlans_preview_reads, assumption+, rule unread_network_arguments)

interpretation forward_tool: consenting_tool "\<lambda>ps. port_forwards_update_outcome rd dec rt ps" rd "\<lambda>i. pu_confirm i = Some True"
  for rd and dec and rt :: "('e, 'x) tool_runtime_scheme"
  by unfold_locales (rule port_forwards_update_writes, rule port_forwards_preview_reads, assumption+, rule unread_network_arguments)

interpretation policy_tool: consenting_tool "\<lambda>ps. configure_outcome pkind validate ser rd rt ps" rd "pc_confirm"
  for rd and pkind validate ser and rt :: "('e, 'x) tool_runtime_scheme"
  by unfold_locales (rule configure_writes, rule configure_preview, assumption+, rule unread_network_arguments)

interpretation acl_order_tool: consenting_tool "\<lambda>ps. acl_rules_ordering_configure rd rt ps" rd "ao_ordering_confirm"
  for rd and rt :: "('e, 'x) tool_runtime_scheme"
  by unfold_locales (rule ordering_tools_write, rule ordering_tools_preview, assumption+, rule unread_ordering_arguments)

interpretation policy_order_tool: consenting_tool "\<lambda>ps. firewall_policies_ordering_configure rd rt ps" rd "fo_ordering_confirm"
  for rd and rt :: "('e, 'x) tool_runtime_scheme"
  by unfold_locales (rule ordering_tools_write, rule ordering_tools_preview, assumption+, rule unread_ordering_arguments)

interpretation rule_update_tool: consenting_tool "\<lambda>ps. firewall_policies_update_outcome rd idec zdec rdec raw rt ps" rd "\<lambda>i. lu_confirm i = Some True"
  for rd and idec zdec rdec raw and rt :: "('e, 'x) tool_runtime_scheme"
  by unfold_locales (rule firewall_update_writes, rule firewall_update_preview, assumption+, rule unread_policy_arguments)

interpretation rule_delete_tool: consenting_tool "\<lambda>ps. firewall_policies_delete_outcome rd idec zdec rdec rt ps" rd "li_confirm"
  for rd and idec zdec rdec and rt :: "('e, 'x) tool_runtime_scheme"
  by unfold_locales (rule firewall_delete_writes, rule firewall_delete_preview, assumption+, rule unread_policy_arguments)

interpretation revoke_tool: consenting_tool "\<lambda>ps. vouchers_revoke_outcome rd dec rt ps" rd "vr_confirm"
  for rd and dec and rt :: "('e, 'x) tool_runtime_scheme"
  by unfold_locales (rule vouchers_revoke_writes, rule vouchers_revoke_preview, assumption+, rule unread_policy_arguments)

interpretation revoke_batch_tool: consenting_tool "\<lambda>ps. vouchers_revoke_matching_outcome rd dec rt ps" rd "rm_confirm"
  for rd and dec and rt :: "('e, 'x) tool_runtime_scheme"
  by unfold_locales (rule vouchers_revoke_matching_writes, rule vouchers_revoke_matching_preview, assumption+, rule unread_policy_arguments)

interpretation create_tool: consenting_tool "\<lambda>ps. vouchers_create_outcome rd ldec dec rt ps" rd "\<lambda>i. vi_confirm i = Some True"
  for rd and ldec dec and rt :: "('e, 'x) tool_runtime_scheme"
  by unfold_locales (rule vouchers_create_writes, rule vouchers_create_preview, assumption+, rule unread_policy_arguments)

section \<open>Every handler of the match\<close>

lemma read_handlers:
  assumes "surface k = NetworkSurface" and "\<not> requires_write_access k"
  shows "writes_within 0 (network_handler E rt ps k)"
  using assms
  by (cases k; simp add: network_handler_def Let_def requires_write_access_def write_kinds_def surface_def
        protect_kinds_def;
      (unfold answered_def network_overview_def clients_search_def clients_context_def devices_search_def devices_status_def
        firewall_read_def network_source_read_def wifi_diagnose_def events_search_def events_read_def stats_query_def
        traffic_read_def)?;
      intro writes_within_map search_reads devices_status_reads list_reads inventory_list_reads event_reads
        firewall_read_reads networks_read_reads source_read_reads wifi_diagnose_reads stats_reads traffic_reads
        legacy_list_reads record_status_reads networks_status_reads)

lemma ordering_tools_rendered:
  "writes_within (if consents av ps ao_ordering_confirm then 1 else 0) (answered (acl_rules_ordering_configure av rt ps))"
  "writes_within (if consents fv ps fo_ordering_confirm then 1 else 0)
     (answered (firewall_policies_ordering_configure fv rt ps))"
  unfolding answered_def
  by (rule writes_within_map [OF acl_order_tool.bounded], rule writes_within_map [OF policy_order_tool.bounded])

lemmas rendered_tools =
  adopt_tool.rendered remove_tool.rendered device_tool.rendered client_tool.rendered authorize_tool.rendered
  unauthorize_tool.rendered configuration_tool.rendered legacy_tool.rendered wlan_tool.rendered forward_tool.rendered
  policy_tool.rendered ordering_tools_rendered rule_update_tool.rendered rule_delete_tool.rendered revoke_tool.rendered
  revoke_batch_tool.rendered create_tool.rendered

lemma write_handlers:
  assumes "surface k = NetworkSurface" and "requires_write_access k"
  shows "writes_within (if confirmed E ps k then 1 else 0) (network_handler E rt ps k)"
  by (insert assms, cases k; simp add: network_handler_def confirmed_def Let_def requires_write_access_def write_kinds_def
        surface_def protect_kinds_def del: One_nat_def split del: if_split;
      (unfold devices_adopt_def devices_remove_def devices_control_def clients_control_def guests_authorize_def
        guests_unauthorize_def networks_configure_def wifi_broadcasts_configure_def wlans_configure_def wlans_update_def
        port_forward_configure_def port_forwards_update_def acl_rules_configure_def firewall_zones_configure_def
        firewall_policies_configure_def dns_policies_configure_def traffic_lists_configure_def
        firewall_policies_update_def firewall_policies_delete_def vouchers_revoke_def vouchers_revoke_matching_def
        vouchers_create_def)?;
      rule rendered_tools)

lemma handler_writes:
  assumes "surface k = NetworkSurface"
  shows "writes_within (if confirmed E ps k then 1 else 0) (network_handler E rt ps k)"
proof (cases "requires_write_access k")
  case True
  with assms show ?thesis by (rule write_handlers)
next
  case False
  with confirmed_is_write have "\<not> confirmed E ps k" by blast
  with read_handlers [OF assms False] show ?thesis by simp
qed

section \<open>From a name to its handler\<close>

text \<open>A name is one tool's, so looking it up in the surface's tools and in the whole table agree.\<close>

lemma find_filter_unique:
  "distinct (map f xs) \<Longrightarrow> x \<in> set xs \<Longrightarrow> P x \<Longrightarrow> find (\<lambda>y. f y = f x) (filter P xs) = Some x"
  by (induction xs) auto

lemma find_unique: "distinct (map f xs) \<Longrightarrow> x \<in> set xs \<Longrightarrow> find (\<lambda>y. f y = f x) xs = Some x"
  using find_filter_unique [of f xs x "\<lambda>_. True"] by simp

lemma find_in_surface:
  "find (\<lambda>spec. spec_name spec = name) (tools_for_surface surf) =
     (case find (\<lambda>spec. spec_name spec = name) TOOL_REGISTRY of
        None \<Rightarrow> None
      | Some spec \<Rightarrow> if surface (spec_kind spec) = surf then Some spec else None)"
proof (cases "\<exists>spec\<in>set TOOL_REGISTRY. spec_name spec = name")
  case True
  then obtain spec where spec: "spec \<in> set TOOL_REGISTRY" "name = spec_name spec" by blast
  have other: "find (\<lambda>y. spec_name y = spec_name spec) (filter P TOOL_REGISTRY) = None" if "\<not> P spec" for P
    using registry_names_distinct spec(1) that by (auto simp: find_None_iff distinct_map dest: inj_onD)
  show ?thesis
    using find_unique [OF registry_names_distinct spec(1)] find_filter_unique [OF registry_names_distinct spec(1)]
      other [of "\<lambda>spec. surface (spec_kind spec) = surf"]
    by (simp add: spec(2) tools_for_surface_def)
next
  case False
  then have "find (\<lambda>spec. spec_name spec = name) TOOL_REGISTRY = None"
    "find (\<lambda>spec. spec_name spec = name) (tools_for_surface surf) = None"
    by (auto simp: find_None_iff tools_for_surface_def)
  then show ?thesis by simp
qed

lemma only_traffic_flags:
  assumes "surface k = NetworkSurface" and "network_handler E rt ps k s = (Inr (result, True), s')"
  shows "k = TrafficRead"
proof (rule ccontr)
  assume "k \<noteq> TrafficRead"
  with assms(1) have "\<exists>h. network_handler E rt ps k = answered h"
    by (cases k) (auto simp: network_handler_def Let_def surface_def protect_kinds_def)
  with assms(2) show False by (auto simp: answered_def map_io_def map_ok_eq_Inr split: prod.splits)
qed

lemma call_writes:
  "writes_within (if \<exists>spec\<in>set (tools_for_surface NetworkSurface).
       spec_name spec = name \<and> requires_write_access (spec_kind spec) \<and> confirmed E ps (spec_kind spec)
     then 1 else 0) (call E rt name ps)" (is "writes_within (if ?agreed then 1 else 0) _")
proof (cases "find (\<lambda>spec. spec_name spec = name) (tools_for_surface NetworkSurface)")
  case None
  then show ?thesis by (simp add: call_def writes_within_return_any)
next
  case (Some spec)
  then have spec: "spec \<in> set (tools_for_surface NetworkSurface)" "spec_name spec = name"
    by (auto simp: find_Some_iff)
  then have ours: "surface (spec_kind spec) = NetworkSurface" by (simp add: tools_for_surface_def)
  from spec have "(if confirmed E ps (spec_kind spec) then 1 else 0) \<le> (if ?agreed then 1 else 0 :: nat)"
    using confirmed_is_write by auto
  then show ?thesis
    unfolding call_def Some option.case by (intro writes_within_map writes_within_mono [OF handler_writes [OF ours]])
qed

section \<open>Arguments are read first\<close>

definition refused :: "'i reader \<Rightarrow> params \<Rightarrow> mcp_error option" where
  "refused rd ps = (case parse rd ps of Inl err \<Rightarrow> Some err | Inr _ \<Rightarrow> None)"

text \<open>The three tools that take a change object name its unknown fields before they read the arguments.\<close>

definition refused_change :: "string list \<Rightarrow> 'i reader \<Rightarrow> params \<Rightarrow> mcp_error option" where
  "refused_change accepted_fields rd ps =
     (case reject_unknown_change_fields ps accepted_fields of Inl err \<Rightarrow> Some err | Inr _ \<Rightarrow> refused rd ps)"

text \<open>The error a tool has for the arguments of a call that it cannot read.\<close>

definition unreadable :: "('e, 'f, 'z, 'n, 'b, 'l) network_env \<Rightarrow> params \<Rightarrow> tool_kind \<Rightarrow> mcp_error option" where
  "unreadable E ps k =
     (let D = rd_device E; N = rd_network E; P = rd_policy E; R = rd_report E in
      case k of
        NetworkOverview \<Rightarrow> refused (of_overview P) ps
      | ClientsSearch \<Rightarrow> refused (of_clients_search D) ps
      | ClientsContext \<Rightarrow> refused (of_clients_context D) ps
      | DevicesSearch \<Rightarrow> refused (of_devices_search D) ps
      | DevicesStatus \<Rightarrow> refused (of_devices_status D) ps
      | PendingDevicesList \<Rightarrow> refused (of_pending_list D) ps
      | DevicesAdopt \<Rightarrow> refused (of_devices_adopt D) ps
      | DevicesRemove \<Rightarrow> refused (of_devices_remove D) ps
      | FirewallRead \<Rightarrow> refused (of_firewall_read N) ps
      | NetworksRead \<Rightarrow> refused (of_networks_read N) ps
      | NetworksList \<Rightarrow> refused (of_networks_list N) ps
      | NetworksStatus \<Rightarrow> refused (of_networks_status N) ps
      | NetworksConfigure \<Rightarrow> refused (of_networks_configure N) ps
      | WifiBroadcastsConfigure \<Rightarrow> refused (of_broadcasts_configure N) ps
      | RadiusProfilesList \<Rightarrow> refused (of_radius_list D) ps
      | NetworkSourceRead \<Rightarrow> refused (of_source_read N) ps
      | NetworkInventoryList \<Rightarrow> refused (of_inventory_list N) ps
      | NetworkInventoryDetail \<Rightarrow> refused (of_inventory_detail N) ps
      | NetworkSwitchingDetail \<Rightarrow> refused (of_switching_detail N) ps
      | NetworkPolicyList \<Rightarrow> refused (of_policy_list P) ps
      | NetworkPolicyDetail \<Rightarrow> refused (of_policy_detail P) ps
      | AclRulesConfigure \<Rightarrow> refused (of_acl_rules P) ps
      | FirewallPoliciesOrderingRead \<Rightarrow> refused (of_policy_order P) ps
      | FirewallPoliciesOrderingConfigure \<Rightarrow> refused (of_policy_ordering P) ps
      | AclRulesOrderingRead \<Rightarrow> refused (of_acl_order P) ps
      | AclRulesOrderingConfigure \<Rightarrow> refused (of_acl_ordering P) ps
      | FirewallZonesConfigure \<Rightarrow> refused (of_zones P) ps
      | FirewallPoliciesConfigure \<Rightarrow> refused (of_policies P) ps
      | DnsPoliciesConfigure \<Rightarrow> refused (of_dns_policies P) ps
      | TrafficListsConfigure \<Rightarrow> refused (of_traffic_lists P) ps
      | WifiBroadcastsList \<Rightarrow> refused (of_broadcasts_list N) ps
      | WifiBroadcastsStatus \<Rightarrow> refused (of_broadcasts_status N) ps
      | WifiDiagnose \<Rightarrow> refused (of_wifi_diagnose R) ps
      | EventsSearch \<Rightarrow> refused (of_events_search R) ps
      | EventsRead \<Rightarrow> refused (of_events_read R) ps
      | StatsQuery \<Rightarrow> refused (of_stats_query R) ps
      | TrafficRead \<Rightarrow> refused (of_traffic_read R) ps
      | WlansList \<Rightarrow> refused (of_wlan_page N) ps
      | WlansStatus \<Rightarrow> refused (of_wlan_status N) ps
      | WlanGroupsList \<Rightarrow> refused (of_wlan_groups N) ps
      | WlansConfigure \<Rightarrow> refused (of_wlans_configure N) ps
      | WlansUpdate \<Rightarrow> refused_change WLAN_CHANGE_FIELDS (of_wlans_update N) ps
      | ClientsControl \<Rightarrow> refused (of_clients_control D) ps
      | DevicesControl \<Rightarrow> refused (of_devices_control D) ps
      | GuestsStatus \<Rightarrow> refused (of_guests_status D) ps
      | GuestsAuthorize \<Rightarrow> refused (of_guests_authorize D) ps
      | GuestsUnauthorize \<Rightarrow> refused (of_guests_unauthorize D) ps
      | PortForwardsList \<Rightarrow> refused (of_forward_page N) ps
      | PortForwardsStatus \<Rightarrow> refused (of_forward_status N) ps
      | PortForwardsConfigure \<Rightarrow> refused (of_forward_configure N) ps
      | PortForwardsUpdate \<Rightarrow> refused_change PORT_FORWARD_CHANGE_FIELDS (of_forwards_update N) ps
      | FirewallPoliciesUpdate \<Rightarrow> refused_change FIREWALL_POLICY_CHANGE_FIELDS (of_policy_update P) ps
      | FirewallPoliciesDelete \<Rightarrow> refused (of_policy_delete P) ps
      | VouchersSearch \<Rightarrow> refused (of_vouchers_search R) ps
      | VouchersStatus \<Rightarrow> refused (of_vouchers_status R) ps
      | VouchersRevoke \<Rightarrow> refused (of_vouchers_revoke R) ps
      | VouchersRevokeMatching \<Rightarrow> refused (of_vouchers_matching R) ps
      | VouchersCreate \<Rightarrow> refused (of_vouchers_create R) ps
      | _ \<Rightarrow> None)"

text \<open>Every handler begins by reading its arguments, so it goes no further when it cannot.\<close>

lemma first_map: "m s = (Inl err, s) \<Longrightarrow> map_io f m s = (Inl err, s)"
  by (simp add: map_io_def map_ok_def)

lemma first_answered: "m s = (Inl err, s) \<Longrightarrow> answered m s = (Inl err, s)"
  unfolding answered_def by (rule first_map)

lemma first_read: "refused rd ps = Some err \<Longrightarrow> bind_io (return_io (parse rd ps)) f s = (Inl err, s)"
  by (auto simp: refused_def bind_io_def split: sum.splits)

lemma first_checked:
  assumes "refused_change fs rd ps = Some err"
  shows "bind_io (return_io (reject_unknown_change_fields ps fs)) (\<lambda>_. bind_io (return_io (parse rd ps)) f) s = (Inl err, s)"
proof (cases "reject_unknown_change_fields ps fs")
  case (Inl e)
  with assms show ?thesis by (simp add: refused_change_def bind_io_def)
next
  case (Inr u)
  with assms have "refused rd ps = Some err" by (simp add: refused_change_def)
  from first_read [OF this] Inr show ?thesis by (simp add: bind_io_def)
qed

lemmas handlers_read_first =
  network_overview_def clients_search_def clients_context_def devices_search_def devices_status_def
  pending_devices_list_def devices_adopt_def devices_remove_def firewall_read_def networks_read_def
  networks_list_def networks_status_def networks_configure_def wifi_broadcasts_configure_def
  radius_profiles_list_def network_source_read_def network_inventory_list_def network_inventory_detail_def
  network_switching_detail_def network_policy_list_def network_policy_detail_tool_def acl_rules_configure_def
  firewall_policies_ordering_read_def firewall_policies_ordering_configure_def acl_rules_ordering_read_def
  acl_rules_ordering_configure_def firewall_zones_configure_def firewall_policies_configure_def
  dns_policies_configure_def traffic_lists_configure_def wifi_broadcasts_list_def wifi_broadcasts_status_def
  wifi_diagnose_def events_search_def events_read_def stats_query_def traffic_read_def wlans_list_def
  wlans_status_def wlan_groups_list_def wlans_configure_def wlans_update_def clients_control_def
  devices_control_def guests_status_def guests_authorize_def guests_unauthorize_def port_forward_list_def
  port_forward_status_def port_forward_configure_def port_forwards_update_def firewall_policies_update_def
  firewall_policies_delete_def vouchers_search_def vouchers_status_def vouchers_revoke_def
  vouchers_revoke_matching_def vouchers_create_def clients_context_outcome_def clients_control_outcome_def
  clients_search_outcome_def configuration_outcome_def configure_outcome_def devices_adopt_outcome_def
  devices_control_outcome_def devices_remove_outcome_def devices_search_outcome_def devices_status_outcome_def
  events_read_outcome_def events_search_outcome_def firewall_policies_delete_outcome_def
  firewall_policies_update_outcome_def firewall_read_outcome_def guests_authorize_outcome_def
  guests_unauthorize_outcome_def legacy_configuration_outcome_def network_overview_outcome_def
  network_source_read_outcome_def pending_devices_list_outcome_def port_forwards_update_outcome_def
  radius_profiles_list_outcome_def stats_query_outcome_def traffic_read_outcome_def
  vouchers_create_outcome_def vouchers_revoke_matching_outcome_def vouchers_revoke_outcome_def
  wifi_diagnose_outcome_def wlans_update_outcome_def legacy_list_def legacy_status_def

lemma unreadable_arguments:
  assumes "unreadable E ps k = Some err"
  shows "network_handler E rt ps k s = (Inl err, s)"
  by (insert assms, cases k; simp add: unreadable_def network_handler_def Let_def;
      unfold handlers_read_first Let_def; (intro first_answered first_map)?; (rule first_read | rule first_checked); assumption)

section \<open>What the dispatch guarantees\<close>

text \<open>
  C1. A call writes to the controller at most once, and not at all unless the request carries an identity
  and a permit, the name is that of a write tool of the Network surface, and the arguments confirm it.
\<close>

theorem call_writes_only_when_confirmed:
  "\<exists>tr. trace (snd (snd (call_tool E rt ctx name ps s))) = trace (snd s) @ tr
     \<and> write_count tr \<le>
         (if (local_transport ctx \<or> caller ctx \<noteq> None) \<and> 0 < permits ctx
             \<and> (\<exists>spec\<in>set (tools_for_surface NetworkSurface).
                  spec_name spec = name \<and> requires_write_access (spec_kind spec) \<and> confirmed E ps (spec_kind spec))
          then 1 else 0)" (is "\<exists>tr. _ \<and> _ \<le> (if ?known \<and> ?permitted \<and> ?agreed then 1 else 0)")
proof (cases "(local_transport ctx \<or> caller ctx \<noteq> None) \<and> 0 < permits ctx")
  case True
  have "snd (snd (call_tool E rt ctx name ps s)) =
      snd (snd (tokio_timeout rt (request_timeout rt) (call E rt name ps) s))"
    using True by (auto simp: call_tool_def split: prod.splits option.splits)
  moreover have "writes_within (if ?agreed then 1 else 0) (tokio_timeout rt (request_timeout rt) (call E rt name ps))"
    by (intro writes_within_timeout call_writes)
  from writes_withinD [OF this, of s]
  have "extends (if ?agreed then 1 else 0) (snd s)
      (snd (snd (tokio_timeout rt (request_timeout rt) (call E rt name ps) s)))" .
  ultimately show ?thesis
    using True by (simp add: extends_def del: One_nat_def split del: if_split)
next
  case False
  then have "snd (call_tool E rt ctx name ps s) = s" by (auto simp: call_tool_def)
  with False show ?thesis by (intro exI [of _ "[]"]) auto
qed

text \<open>A server whose reader accepts any arguments as a confirmed adoption, and two callers.\<close>

definition adopting_env :: "(unit, unit, unit, unit, unit, unit) network_env" where
  "adopting_env = undefined\<lparr>rd_device := undefined\<lparr>of_devices_adopt :=
     (\<lambda>_. Inr \<lparr>ai_mac_address = ''02:00:00:00:00:01'', ai_ignore_device_limit = False, ai_confirm = True\<rparr>)\<rparr>\<rparr>"

definition caller_over :: "bool \<Rightarrow> unit request_context" where
  "caller_over over_stdio = \<lparr>local_transport = over_stdio, caller = None, permits = 1\<rparr>"

theorem call_writes_only_when_confirmed_witness:
  "confirmed adopting_env \<lparr>arguments = None\<rparr> DevicesAdopt
   \<and> (\<exists>tr. trace (snd (snd (call_tool adopting_env (sample_runtime empty_ok []) (caller_over True) ''devices.adopt''
          \<lparr>arguments = None\<rparr> sample_state))) = trace (snd sample_state) @ tr \<and> write_count tr \<le> 1)
   \<and> (\<exists>tr. trace (snd (snd (call_tool adopting_env (sample_runtime empty_ok []) (caller_over False) ''devices.adopt''
          \<lparr>arguments = None\<rparr> sample_state))) = trace (snd sample_state) @ tr \<and> write_count tr = 0)"
proof (intro conjI)
  note bounds = call_writes_only_when_confirmed [where E = adopting_env and rt = "sample_runtime empty_ok []"
      and name = "''devices.adopt''" and ps = "\<lparr>arguments = None\<rparr>" and s = sample_state]
  show "confirmed adopting_env \<lparr>arguments = None\<rparr> DevicesAdopt"
    by (simp add: confirmed_def adopting_env_def consents_def parse_def)
  show "\<exists>tr. trace (snd (snd (call_tool adopting_env (sample_runtime empty_ok []) (caller_over True) ''devices.adopt''
      \<lparr>arguments = None\<rparr> sample_state))) = trace (snd sample_state) @ tr \<and> write_count tr \<le> 1"
    using bounds [of "caller_over True"] by (auto intro: order_trans split: if_splits)
  show "\<exists>tr. trace (snd (snd (call_tool adopting_env (sample_runtime empty_ok []) (caller_over False) ''devices.adopt''
      \<lparr>arguments = None\<rparr> sample_state))) = trace (snd sample_state) @ tr \<and> write_count tr = 0"
    using bounds [of "caller_over False"] by (simp add: caller_over_def)
qed

text \<open>
  C2. A call is refused before it acts. A name that no row of the table carries, or that is a Protect
  tool's, is answered as an unknown tool; arguments that the named tool's own reader refuses are
  answered with that reader's error (unknown fields of a change object first, for the three tools
  that take one); in both cases nothing is sent and no state changes, whatever the Protect handlers
  would do. Any other answer carries the trust labels of the row the caller
  named, and only \<open>traffic_read\<close> can raise its error flag.
\<close>

theorem call_checks_before_acting:
  "case find (\<lambda>spec. spec_name spec = name) TOOL_REGISTRY of
     None \<Rightarrow> call E rt name ps s = (Inl (unknown_tool E name), s)
   | Some spec \<Rightarrow>
       (if surface (spec_kind spec) = ProtectSurface then call E rt name ps s = (Inl (unknown_tool E name), s)
        else case unreadable E ps (spec_kind spec) of
               Some err \<Rightarrow> call E rt name ps s = (Inl err, s)
             | None \<Rightarrow>
                 (case fst (call E rt name ps s) of
                    Inl _ \<Rightarrow> True
                  | Inr ans \<Rightarrow>
                      ta_sensitive ans = result_sensitive (spec_behavior spec)
                      \<and> ta_untrusted ans = result_untrusted (spec_behavior spec)
                      \<and> (ta_is_error ans \<longrightarrow> spec_kind spec = TrafficRead)))"
proof (cases "find (\<lambda>spec. spec_name spec = name) TOOL_REGISTRY")
  case None
  then show ?thesis by (simp add: call_def find_in_surface)
next
  case (Some spec)
  show ?thesis
  proof (cases "surface (spec_kind spec) = ProtectSurface")
    case True
    with Some show ?thesis by (simp add: call_def find_in_surface)
  next
    case False
    then have ours: "surface (spec_kind spec) = NetworkSurface" by (simp add: surface_def split: if_splits)
    with Some have run: "call E rt name ps = map_io (trust_annotated (spec_behavior spec)) (network_handler E rt ps (spec_kind spec))"
      by (simp add: call_def find_in_surface)
    show ?thesis
    proof (cases "unreadable E ps (spec_kind spec)")
      case (Some err)
      with \<open>find _ _ = _\<close> False show ?thesis by (simp add: run first_map [OF unreadable_arguments])
    next
      case None
      obtain r s' where "network_handler E rt ps (spec_kind spec) s = (r, s')" by (metis surj_pair)
      moreover have "spec_kind spec = TrafficRead" if "r = Inr (result, True)" for result
        by (rule only_traffic_flags [OF ours]) (use calculation that in simp)
      ultimately show ?thesis
        using Some None False by (cases r) (auto simp: run map_io_def trust_annotated_def)
    qed
  qed
qed

text \<open>A server whose reader accepts no arguments for an adoption.\<close>

definition refusing_env :: "(unit, unit, unit, unit, unit, unit) network_env" where
  "refusing_env = undefined\<lparr>rd_device := undefined\<lparr>of_devices_adopt := (\<lambda>_. Inl ''no'')\<rparr>, debug_text := (\<lambda>name. name)\<rparr>"

lemma sample_rows:
  "case find (\<lambda>spec. spec_name spec = ''devices.adopt'') TOOL_REGISTRY of
     Some spec \<Rightarrow> (case spec_kind spec of DevicesAdopt \<Rightarrow> True | _ \<Rightarrow> False) | None \<Rightarrow> False"
  "case find (\<lambda>spec. spec_name spec = ''cameras.search'') TOOL_REGISTRY of
     Some spec \<Rightarrow> (case spec_kind spec of CamerasSearch \<Rightarrow> True | _ \<Rightarrow> False) | None \<Rightarrow> False"
  by (code_simp, simp)+

theorem call_checks_before_acting_witness:
  "(\<exists>message. call refusing_env (sample_runtime empty_ok []) ''devices.adopt'' \<lparr>arguments = None\<rparr> sample_state =
       (Inl (InvalidParams message), sample_state))
   \<and> call refusing_env (sample_runtime empty_ok []) ''cameras.search'' \<lparr>arguments = None\<rparr> sample_state =
       (Inl (InvalidParams ''unknown tool cameras.search; tools/list is the catalog''), sample_state)"
proof
  obtain spec where spec: "find (\<lambda>spec. spec_name spec = ''devices.adopt'') TOOL_REGISTRY = Some spec"
      "spec_kind spec = DevicesAdopt"
    using sample_rows(1) by (auto split: option.splits tool_kind.splits)
  show "\<exists>message. call refusing_env (sample_runtime empty_ok []) ''devices.adopt'' \<lparr>arguments = None\<rparr> sample_state =
       (Inl (InvalidParams message), sample_state)"
    using call_checks_before_acting [of refusing_env "sample_runtime empty_ok []" "''devices.adopt''" "\<lparr>arguments = None\<rparr>" sample_state]
    by (simp add: spec surface_def protect_kinds_def unreadable_def refused_def refusing_env_def parse_def)
next
  obtain spec where spec: "find (\<lambda>spec. spec_name spec = ''cameras.search'') TOOL_REGISTRY = Some spec"
      "spec_kind spec = CamerasSearch"
    using sample_rows(2) by (auto split: option.splits tool_kind.splits)
  show "call refusing_env (sample_runtime empty_ok []) ''cameras.search'' \<lparr>arguments = None\<rparr> sample_state =
       (Inl (InvalidParams ''unknown tool cameras.search; tools/list is the catalog''), sample_state)"
    using call_checks_before_acting [of refusing_env "sample_runtime empty_ok []" "''cameras.search''" "\<lparr>arguments = None\<rparr>" sample_state]
    by (simp add: spec surface_def protect_kinds_def unknown_tool_def refusing_env_def)
qed

end
