(* ===== verification/Server_Config.thy ===== *)
theory Server_Config
  imports Portable Pinning Registry
begin

text \<open>
  The configuration of the gateway server (\<open>crates/unifi-server/src/config.rs\<close>): every setting is
  read from the environment once, at start, and anything unsafe, malformed or out of bounds refuses
  the start. URL parsing and reading the certificate bundle belong to libraries and are parameters.
\<close>

section \<open>Settings\<close>

datatype tls_mode = SystemRoots | CustomCa bytes | Pinned "fingerprint list" | AcceptInvalid

record console_url = jwks_url +
  cu_path :: string

record controller_settings =
  cs_name :: string
  cs_base_url :: console_url
  cs_api_key :: string
  cs_username :: string
  cs_password :: string
  cs_tls :: tls_mode
  cs_timeout :: duration
  cs_site :: string

record protect_legacy_settings =
  pls_username :: string
  pls_password :: string

record protect_settings =
  ps_name :: string
  ps_base_url :: console_url
  ps_api_key :: string
  ps_tls :: tls_mode
  ps_timeout :: duration
  ps_legacy :: "protect_legacy_settings option"

datatype runtime_settings = NetworkRuntime controller_settings | ProtectRuntime protect_settings

record listener_settings =
  li_host :: string
  li_port :: u16

record server_settings =
  st_host :: string
  st_port :: u16
  st_log_level :: string
  st_allowed_hosts :: "string list"
  st_allowed_origins :: "string list"
  st_request_timeout :: duration
  st_max_concurrent_requests :: nat
  st_max_body_bytes :: nat
  st_bearers :: gateway_bearers
  st_identity :: identity_verifier_settings
  st_runtime :: runtime_settings

datatype config_error =
    Missing string
  | InvalidSetting string string
  | SecretEnvironment string
  | AuthSetting auth_config_error

text \<open>
  The outside: the process environment, the URL parser, and the first bytes of a file (at most as
  many as asked for) or the text of an input error.
\<close>

record config_externals =
  cx_var :: env_vars
  cx_url :: "string \<Rightarrow> string + console_url"
  cx_read :: "string \<Rightarrow> nat \<Rightarrow> string + bytes"

definition MAXIMUM_SECRET_BYTES :: nat where
  "MAXIMUM_SECRET_BYTES = 16 * 1024"

definition MAXIMUM_CA_BYTES :: nat where
  "MAXIMUM_CA_BYTES = 64 * 1024"

section \<open>Reading single values\<close>

definition optional_var :: "env_vars \<Rightarrow> string \<Rightarrow> string option" where
  "optional_var vars name =
     (case vars name of
        EnvText v \<Rightarrow> (if trim v = [] then None else Some (trim v))
      | _ \<Rightarrow> None)"

definition required_var :: "env_vars \<Rightarrow> string \<Rightarrow> config_error + string" where
  "required_var vars name = ok_or (Missing name) (optional_var vars name)"

definition required_unmodified :: "env_vars \<Rightarrow> string \<Rightarrow> config_error + string" where
  "required_unmodified vars name = (case vars name of EnvText v \<Rightarrow> Inr v | _ \<Rightarrow> Inl (Missing name))"

definition value_or :: "env_vars \<Rightarrow> string \<Rightarrow> string \<Rightarrow> string" where
  "value_or vars name default_text =
     (case optional_var vars name of Some v \<Rightarrow> v | None \<Rightarrow> default_text)"

definition validate_secret :: "string \<Rightarrow> string \<Rightarrow> config_error + string" where
  "validate_secret name v =
     (if v = [] \<or> MAXIMUM_SECRET_BYTES < length v then Inl (SecretEnvironment name) else Inr v)"

definition required_secret :: "env_vars \<Rightarrow> string \<Rightarrow> config_error + string" where
  "required_secret vars name =
     (case vars name of EnvText v \<Rightarrow> validate_secret name v | _ \<Rightarrow> Inl (SecretEnvironment name))"

definition optional_secret :: "env_vars \<Rightarrow> string \<Rightarrow> config_error + string option" where
  "optional_secret vars name =
     (case vars name of
        EnvText v \<Rightarrow> (if v = [] then Inr None else map_ok Some (validate_secret name v))
      | NotPresent \<Rightarrow> Inr None
      | NotUnicode \<Rightarrow> Inl (SecretEnvironment name))"

text \<open>The display form of the integer parser's error: the first thing that goes wrong, digit by digit.\<close>

fun digits_error :: "nat \<Rightarrow> nat \<Rightarrow> string \<Rightarrow> string" where
  "digits_error mx acc [] = []"
| "digits_error mx acc (c # cs) =
     (case digit_value c of
        None \<Rightarrow> ''invalid digit found in string''
      | Some d \<Rightarrow>
          (if mx < acc * 10 + d then ''number too large to fit in target type''
           else digits_error mx (acc * 10 + d) cs))"

definition parse_int_error :: "nat \<Rightarrow> string \<Rightarrow> string" where
  "parse_int_error mx s =
     (case s of
        [] \<Rightarrow> ''cannot parse integer from empty string''
      | c # cs \<Rightarrow>
          (if cs = [] \<and> c \<in> {CHR ''+'', CHR ''-''} then ''invalid digit found in string''
           else digits_error mx 0 (if c = CHR ''+'' then cs else s)))"

text \<open>\<open>parse_number\<close> at a type whose largest value is \<open>mx\<close>; \<open>usize\<close> is the 64-bit type.\<close>

definition parse_number_value ::
  "nat \<Rightarrow> string \<Rightarrow> string option \<Rightarrow> nat \<Rightarrow> nat \<Rightarrow> nat \<Rightarrow> config_error + nat" where
  "parse_number_value mx name raw default_value low high =
     bind_res (case raw of
                 None \<Rightarrow> Inr default_value
               | Some text \<Rightarrow> ok_or (InvalidSetting name (parse_int_error mx text)) (parse_unsigned mx text))
       (\<lambda>v. if v < low \<or> high < v then Inl (InvalidSetting name ''value is outside the supported range'') else Inr v)"

definition parse_number ::
  "nat \<Rightarrow> env_vars \<Rightarrow> string \<Rightarrow> nat \<Rightarrow> nat \<Rightarrow> nat \<Rightarrow> config_error + nat" where
  "parse_number mx vars name default_value low high =
     parse_number_value mx name (optional_var vars name) default_value low high"

definition parse_url :: "(string \<Rightarrow> string + console_url) \<Rightarrow> string \<Rightarrow> string \<Rightarrow> config_error + console_url" where
  "parse_url url_parse name v = map_err (InvalidSetting name) (url_parse v)"

definition parse_csv :: "string \<Rightarrow> string list" where
  "parse_csv v = map to_ascii_lowercase (filter (\<lambda>part. part \<noteq> []) (map trim (split_on CHR '','' v)))"

section \<open>The console\<close>

record console_vars =
  cv_url :: string
  cv_tls :: string
  cv_ca_file :: string
  cv_cert_sha256 :: string

definition CONTROLLER_VARS :: console_vars where
  "CONTROLLER_VARS =
     \<lparr>cv_url = ''UNIFI_MCP_CONTROLLER_URL'', cv_tls = ''UNIFI_MCP_CONTROLLER_TLS'',
      cv_ca_file = ''UNIFI_MCP_CONTROLLER_CA_FILE'', cv_cert_sha256 = ''UNIFI_MCP_CONTROLLER_CERT_SHA256''\<rparr>"

definition PROTECT_VARS :: console_vars where
  "PROTECT_VARS =
     \<lparr>cv_url = ''UNIFI_MCP_PROTECT_URL'', cv_tls = ''UNIFI_MCP_PROTECT_TLS'',
      cv_ca_file = ''UNIFI_MCP_PROTECT_CA_FILE'', cv_cert_sha256 = ''UNIFI_MCP_PROTECT_CERT_SHA256''\<rparr>"

definition is_loopback_host :: "'a jwks_url_scheme \<Rightarrow> bool" where
  "is_loopback_host u =
     (case ju_host u of
        Some (Domain d) \<Rightarrow> eq_ignore_ascii_case d ''localhost''
      | Some h \<Rightarrow> is_loopback h
      | None \<Rightarrow> False)"

definition controller_url :: "config_externals \<Rightarrow> console_vars \<Rightarrow> config_error + console_url" where
  "controller_url X vars =
     bind_res (required_var (cx_var X) (cv_url vars)) (\<lambda>raw.
     bind_res (parse_url (cx_url X) (cv_url vars) raw) (\<lambda>url.
       if ju_scheme url \<notin> {''http'', ''https''}
       then Inl (InvalidSetting (cv_url vars) ''scheme must be http or https'')
       else if ju_scheme url = ''http'' \<and> \<not> is_loopback_host url
       then Inl (InvalidSetting (cv_url vars) ''http is only supported for loopback controllers; use https'')
       else if cu_path url \<notin> {'''', ''/''}
       then Inl (InvalidSetting (cv_url vars) ''URL must not carry a path; clients own API paths'')
       else if ju_query url \<noteq> None \<or> ju_fragment url \<noteq> None
       then Inl (InvalidSetting (cv_url vars) ''URL must not carry a query or fragment'')
       else if ju_username url \<noteq> [] \<or> ju_password url \<noteq> None
       then Inl (InvalidSetting (cv_url vars) ''credentials must not travel in the URL'')
       else Inr url))"

definition read_bounded_ca :: "config_externals \<Rightarrow> string \<Rightarrow> string \<Rightarrow> config_error + bytes" where
  "read_bounded_ca X path name =
     bind_res (map_err (InvalidSetting name) (cx_read X path (MAXIMUM_CA_BYTES + 1))) (\<lambda>pem.
       if MAXIMUM_CA_BYTES < length pem
       then Inl (InvalidSetting name ''certificate bundle exceeds the supported size'') else Inr pem)"

text \<open>\<open>collect\<close> into a \<open>Result\<close>: the first error, or all the values.\<close>

fun collect_res :: "('e + 'a) list \<Rightarrow> 'e + 'a list" where
  "collect_res [] = Inr []"
| "collect_res (Inl e # rest) = Inl e"
| "collect_res (Inr x # rest) = map_ok ((#) x) (collect_res rest)"

definition controller_pins :: "env_vars \<Rightarrow> console_vars \<Rightarrow> config_error + fingerprint list" where
  "controller_pins getenv vars =
     bind_res (required_var getenv (cv_cert_sha256 vars)) (\<lambda>raw.
     bind_res (map_err (InvalidSetting (cv_cert_sha256 vars))
                (collect_res (map parse_fingerprint
                   (filter (\<lambda>part. part \<noteq> []) (map trim (split_on CHR '','' raw)))))) (\<lambda>pins.
       if pins = [] then Inl (InvalidSetting (cv_cert_sha256 vars) ''names no fingerprint'') else Inr pins))"

definition controller_tls :: "config_externals \<Rightarrow> console_vars \<Rightarrow> config_error + tls_mode" where
  "controller_tls X vars =
     (let mode = value_or (cx_var X) (cv_tls vars) ''system''
      in if mode = ''system'' then Inr SystemRoots
         else if mode = ''accept-invalid'' then Inr AcceptInvalid
         else if mode = ''custom-ca''
         then bind_res (required_var (cx_var X) (cv_ca_file vars)) (\<lambda>path.
                map_ok CustomCa (read_bounded_ca X path (cv_ca_file vars)))
         else if mode = ''pinned'' then map_ok Pinned (controller_pins (cx_var X) vars)
         else Inl (InvalidSetting (cv_tls vars) ''expected system, custom-ca, pinned, or accept-invalid''))"

primrec is_pinned_mode :: "tls_mode \<Rightarrow> bool" where
  "is_pinned_mode SystemRoots = False"
| "is_pinned_mode (CustomCa pem) = False"
| "is_pinned_mode (Pinned pins) = True"
| "is_pinned_mode AcceptInvalid = False"

definition controller_from_environment :: "config_externals \<Rightarrow> config_error + controller_settings" where
  "controller_from_environment X =
     bind_res (controller_url X CONTROLLER_VARS) (\<lambda>base_url.
     bind_res (controller_tls X CONTROLLER_VARS) (\<lambda>tls.
       if is_pinned_mode tls \<and> ju_scheme base_url \<noteq> ''https''
       then Inl (InvalidSetting ''UNIFI_MCP_CONTROLLER_TLS''
              (''pinned requires an https controller URL;                  UNIFI_MCP_CONTROLLER_URL uses ''
               @ ju_scheme base_url))
       else
         bind_res (required_secret (cx_var X) ''UNIFI_MCP_CONTROLLER_API_KEY'') (\<lambda>api_key.
         bind_res (required_var (cx_var X) ''UNIFI_MCP_CONTROLLER_USERNAME'') (\<lambda>username.
         bind_res (required_secret (cx_var X) ''UNIFI_MCP_CONTROLLER_PASSWORD'') (\<lambda>password.
         bind_res (parse_number u64_max (cx_var X) ''UNIFI_MCP_CONTROLLER_TIMEOUT_SECONDS'' 15 1 60) (\<lambda>seconds.
           let site = value_or (cx_var X) ''UNIFI_MCP_CONTROLLER_SITE'' ''default''
           in if site = ''.'' \<or> site = ''..'' \<or> CHR ''/'' \<in> set site
              then Inl (InvalidSetting ''UNIFI_MCP_CONTROLLER_SITE'' ''site must be a plain controller site name'')
              else Inr \<lparr>cs_name = value_or (cx_var X) ''UNIFI_MCP_CONTROLLER_NAME'' ''unifi'',
                     cs_base_url = base_url, cs_api_key = api_key, cs_username = username,
                     cs_password = password, cs_tls = tls, cs_timeout = from_secs seconds, cs_site = site\<rparr>))))))"

definition protect_legacy ::
  "string option \<Rightarrow> string option \<Rightarrow> config_error + protect_legacy_settings option" where
  "protect_legacy username password =
     (case (username, password) of
        (None, None) \<Rightarrow> Inr None
      | (Some u, Some p) \<Rightarrow> Inr (Some \<lparr>pls_username = u, pls_password = p\<rparr>)
      | (Some _, None) \<Rightarrow> Inl (SecretEnvironment ''UNIFI_MCP_PROTECT_PASSWORD'')
      | (None, Some _) \<Rightarrow> Inl (Missing ''UNIFI_MCP_PROTECT_USERNAME''))"

definition protect_from_environment :: "config_externals \<Rightarrow> config_error + protect_settings" where
  "protect_from_environment X =
     bind_res (controller_url X PROTECT_VARS) (\<lambda>base_url.
     bind_res (controller_tls X PROTECT_VARS) (\<lambda>tls.
       if is_pinned_mode tls \<and> ju_scheme base_url \<noteq> ''https''
       then Inl (InvalidSetting (cv_tls PROTECT_VARS)
              (''pinned requires an https console URL; '' @ cv_url PROTECT_VARS @ '' uses '' @ ju_scheme base_url))
       else
         bind_res (optional_secret (cx_var X) ''UNIFI_MCP_PROTECT_PASSWORD'') (\<lambda>password.
         bind_res (protect_legacy (optional_var (cx_var X) ''UNIFI_MCP_PROTECT_USERNAME'') password) (\<lambda>legacy.
         bind_res (required_secret (cx_var X) ''UNIFI_MCP_PROTECT_API_KEY'') (\<lambda>api_key.
         bind_res (parse_number u64_max (cx_var X) ''UNIFI_MCP_PROTECT_TIMEOUT_SECONDS'' 15 1 60) (\<lambda>seconds.
           Inr \<lparr>ps_name = value_or (cx_var X) ''UNIFI_MCP_PROTECT_NAME'' ''protect'', ps_base_url = base_url,
                ps_api_key = api_key, ps_tls = tls, ps_timeout = from_secs seconds, ps_legacy = legacy\<rparr>))))))"

section \<open>The whole configuration\<close>

definition surface_from_environment :: "env_vars \<Rightarrow> config_error + tool_surface" where
  "surface_from_environment vars =
     bind_res (case vars ''UNIFI_MCP_SURFACE'' of
                 EnvText v \<Rightarrow> Inr v
               | NotPresent \<Rightarrow> Inr []
               | NotUnicode \<Rightarrow> Inl (InvalidSetting ''UNIFI_MCP_SURFACE'' ''value is not valid Unicode'')) (\<lambda>v.
       if trim v \<in> {'''', ''network''} then Inr NetworkSurface
       else if trim v = ''protect'' then Inr ProtectSurface
       else Inl (InvalidSetting ''UNIFI_MCP_SURFACE'' ''must be network or protect''))"

definition listener_from_environment :: "env_vars \<Rightarrow> config_error + listener_settings" where
  "listener_from_environment vars =
     map_ok (\<lambda>port. \<lparr>li_host = value_or vars ''UNIFI_MCP_HOST'' ''0.0.0.0'', li_port = of_nat port\<rparr>)
       (parse_number 65535 vars ''UNIFI_MCP_PORT'' 8000 1 65535)"

definition runtime_of :: "config_externals \<Rightarrow> tool_surface \<Rightarrow> config_error + runtime_settings" where
  "runtime_of X sf =
     (case sf of
        NetworkSurface \<Rightarrow> map_ok NetworkRuntime (controller_from_environment X)
      | ProtectSurface \<Rightarrow> map_ok ProtectRuntime (protect_from_environment X))"

definition runtime_from_env :: "config_externals \<Rightarrow> config_error + runtime_settings" where
  "runtime_from_env X = bind_res (surface_from_environment (cx_var X)) (runtime_of X)"

definition default_allowed_hosts :: "tool_surface \<Rightarrow> string" where
  "default_allowed_hosts sf =
     (case sf of
        NetworkSurface \<Rightarrow> ''unifi-mcp,unifi-mcp:8000,localhost,127.0.0.1''
      | ProtectSurface \<Rightarrow> ''unifi-protect-mcp,unifi-protect-mcp:8000,localhost,127.0.0.1'')"

definition identity_settings ::
  "env_vars \<Rightarrow> tool_surface \<Rightarrow> jwks_url \<Rightarrow> config_error + identity_verifier_settings" where
  "identity_settings vars sf jwks =
     bind_res (required_var vars ''UNIFI_MCP_IDENTITY_ISSUER'') (\<lambda>iss.
     bind_res (required_unmodified vars ''UNIFI_MCP_IDENTITY_ACTOR'') (\<lambda>act.
       let identity = \<lparr>jwks_url_setting = jwks, issuer = iss, actor = act, audience = server_name sf,
                       request_timeout = from_secs 3, cache_ttl = from_secs 300\<rparr>
       in bind_res (map_err AuthSetting (validate_settings identity)) (\<lambda>_. Inr identity)))"

definition from_environment :: "config_externals \<Rightarrow> config_error + server_settings" where
  "from_environment X =
     (let vars = cx_var X in
     bind_res (listener_from_environment vars) (\<lambda>listener.
     bind_res (surface_from_environment vars) (\<lambda>sf.
     bind_res (required_secret vars ''UNIFI_MCP_GATEWAY_BEARER_CURRENT'') (\<lambda>cur.
     bind_res (optional_secret vars ''UNIFI_MCP_GATEWAY_BEARER_PREVIOUS'') (\<lambda>prev.
     bind_res (required_var vars ''UNIFI_MCP_IDENTITY_JWKS_URL'') (\<lambda>raw.
     bind_res (parse_url (cx_url X) ''UNIFI_MCP_IDENTITY_JWKS_URL'' raw) (\<lambda>jwks.
     bind_res (parse_number u64_max vars ''UNIFI_MCP_REQUEST_TIMEOUT_SECONDS'' 30 1 120) (\<lambda>timeout.
     bind_res (parse_number u64_max vars ''UNIFI_MCP_MAX_CONCURRENT_REQUESTS'' 32 1 256) (\<lambda>concurrent.
     bind_res (parse_number u64_max vars ''UNIFI_MCP_MAX_BODY_BYTES'' (1024 * 1024) 1024 (4 * 1024 * 1024)) (\<lambda>body.
     bind_res (map_err AuthSetting (from_protected cur prev)) (\<lambda>rotation.
     bind_res (identity_settings vars sf (jwks_url.truncate jwks)) (\<lambda>identity.
     bind_res (runtime_of X sf) (\<lambda>runtime.
       Inr \<lparr>st_host = li_host listener, st_port = li_port listener,
            st_log_level = value_or vars ''UNIFI_MCP_LOG_LEVEL'' ''info'',
            st_allowed_hosts = parse_csv (value_or vars ''UNIFI_MCP_ALLOWED_HOSTS'' (default_allowed_hosts sf)),
            st_allowed_origins =
              parse_csv (case vars ''UNIFI_MCP_ALLOWED_ORIGINS'' of EnvText v \<Rightarrow> v | _ \<Rightarrow> []),
            st_request_timeout = from_secs timeout, st_max_concurrent_requests = concurrent,
            st_max_body_bytes = body, st_bearers = rotation, st_identity = identity, st_runtime = runtime\<rparr>)))))))))))))"

section \<open>What a loaded configuration guarantees\<close>

lemma parse_number_range: "parse_number mx vars name d low high = Inr n \<Longrightarrow> low \<le> n \<and> n \<le> high"
  by (auto simp: parse_number_def parse_number_value_def bind_res_eq_Inr split: if_splits)

definition secret :: "string \<Rightarrow> bool" where
  "secret v \<longleftrightarrow> v \<noteq> [] \<and> length v \<le> 16384"

lemma required_secret_Inr: "required_secret vars name = Inr v \<Longrightarrow> secret v"
  by (auto simp: required_secret_def validate_secret_def secret_def MAXIMUM_SECRET_BYTES_def
      split: env_var.splits if_splits)

lemma optional_secret_Inr: "optional_secret vars name = Inr (Some v) \<Longrightarrow> secret v"
  by (auto simp: optional_secret_def validate_secret_def secret_def MAXIMUM_SECRET_BYTES_def map_ok_def
      split: env_var.splits if_splits)

text \<open>
  The console is reached over TLS or without leaving the machine, its URL carries nothing but the
  origin, and a pinned console has a pin and a handshake to check it in.
\<close>

definition safe_console :: "console_url \<Rightarrow> tls_mode \<Rightarrow> bool" where
  "safe_console url tls \<longleftrightarrow>
     (ju_scheme url = ''https'' \<or> ju_scheme url = ''http'' \<and> is_loopback_host url)
     \<and> cu_path url \<in> {'''', ''/''} \<and> ju_query url = None \<and> ju_fragment url = None
     \<and> ju_username url = [] \<and> ju_password url = None
     \<and> (case tls of
          Pinned pins \<Rightarrow> ju_scheme url = ''https'' \<and> pins \<noteq> [] \<and> (\<forall>pin\<in>set pins. length pin = 32)
        | CustomCa pem \<Rightarrow> length pem \<le> 65536
        | _ \<Rightarrow> True)"

primrec safe_runtime :: "runtime_settings \<Rightarrow> bool" where
  "safe_runtime (NetworkRuntime c) \<longleftrightarrow>
     safe_console (cs_base_url c) (cs_tls c) \<and> secret (cs_api_key c) \<and> secret (cs_password c)
     \<and> from_secs 1 \<le> cs_timeout c \<and> cs_timeout c \<le> from_secs 60
     \<and> \<not> invalid_segment (cs_site c) \<and> CHR ''/'' \<notin> set (cs_site c)"
| "safe_runtime (ProtectRuntime p) \<longleftrightarrow>
     safe_console (ps_base_url p) (ps_tls p) \<and> secret (ps_api_key p)
     \<and> from_secs 1 \<le> ps_timeout p \<and> ps_timeout p \<le> from_secs 60
     \<and> (\<forall>legacy. ps_legacy p = Some legacy \<longrightarrow> pls_username legacy \<noteq> [] \<and> secret (pls_password legacy))"

lemma controller_url_Inr:
  "controller_url X vars = Inr url \<Longrightarrow>
     (ju_scheme url = ''https'' \<or> ju_scheme url = ''http'' \<and> is_loopback_host url)
     \<and> cu_path url \<in> {'''', ''/''} \<and> ju_query url = None \<and> ju_fragment url = None
     \<and> ju_username url = [] \<and> ju_password url = None"
  by (auto simp: controller_url_def bind_res_eq_Inr split: if_splits)

lemma collect_res_Inr: "collect_res rs = Inr xs \<longleftrightarrow> rs = map Inr xs"
  by (induction rs arbitrary: xs rule: collect_res.induct) (auto simp: map_ok_eq_Inr Cons_eq_map_conv)

lemma parse_fingerprint_length: "parse_fingerprint v = Inr pin \<Longrightarrow> length pin = 32"
  by (auto simp: parse_fingerprint_def Let_def split: if_splits option.splits)

lemma controller_tls_Inr:
  assumes "controller_tls X vars = Inr tls"
  shows "case tls of Pinned pins \<Rightarrow> pins \<noteq> [] \<and> (\<forall>pin\<in>set pins. length pin = 32)
                   | CustomCa pem \<Rightarrow> length pem \<le> 65536 | _ \<Rightarrow> True"
proof (cases tls)
  case (Pinned pins)
  with assms have pins: "controller_pins (cx_var X) vars = Inr pins"
    by (auto simp: controller_tls_def Let_def map_ok_eq_Inr bind_res_eq_Inr split: if_splits)
  then obtain parts where "map parse_fingerprint parts = map Inr pins" "pins \<noteq> []"
    by (auto simp: controller_pins_def bind_res_eq_Inr collect_res_Inr split: if_splits)
  then have "\<forall>pin\<in>set pins. Inr pin \<in> parse_fingerprint ` set parts" by (metis image_eqI list.set_map)
  with Pinned \<open>pins \<noteq> []\<close> parse_fingerprint_length show ?thesis by (auto simp: image_iff)
next
  case (CustomCa pem)
  with assms show ?thesis
    by (auto simp: controller_tls_def read_bounded_ca_def MAXIMUM_CA_BYTES_def Let_def map_ok_eq_Inr
        bind_res_eq_Inr split: if_splits)
qed simp_all

lemma safe_consoleI:
  assumes "controller_url X vars = Inr url" and "controller_tls X vars = Inr tls"
    and "\<not> (is_pinned_mode tls \<and> ju_scheme url \<noteq> ''https'')"
  shows "safe_console url tls"
  using controller_url_Inr [OF assms(1)] controller_tls_Inr [OF assms(2)] assms(3)
  by (cases tls) (simp_all add: safe_console_def)

lemma optional_var_nonempty: "optional_var vars name \<noteq> Some []"
  by (simp add: optional_var_def split: env_var.split)

lemma value_or_nonempty: "d \<noteq> [] \<Longrightarrow> value_or vars name d \<noteq> []"
  using optional_var_nonempty [of vars name] by (auto simp: value_or_def split: option.split)

lemma controller_from_environment_safe:
  assumes "controller_from_environment X = Inr c"
  shows "safe_runtime (NetworkRuntime c)"
proof -
  from assms obtain url tls api_key username password n where
    url: "controller_url X CONTROLLER_VARS = Inr url" "controller_tls X CONTROLLER_VARS = Inr tls"
      "\<not> (is_pinned_mode tls \<and> ju_scheme url \<noteq> ''https'')"
    and secrets: "required_secret (cx_var X) ''UNIFI_MCP_CONTROLLER_API_KEY'' = Inr api_key"
      "required_secret (cx_var X) ''UNIFI_MCP_CONTROLLER_PASSWORD'' = Inr password"
    and n: "parse_number u64_max (cx_var X) ''UNIFI_MCP_CONTROLLER_TIMEOUT_SECONDS'' 15 1 60 = Inr n"
    and c: "cs_base_url c = url" "cs_tls c = tls" "cs_api_key c = api_key" "cs_password c = password"
      "cs_timeout c = from_secs n" "cs_site c = value_or (cx_var X) ''UNIFI_MCP_CONTROLLER_SITE'' ''default''"
      "cs_site c \<noteq> ''.''" "cs_site c \<noteq> ''..''" "CHR ''/'' \<notin> set (cs_site c)"
    by (auto simp: controller_from_environment_def bind_res_eq_Inr Let_def split: if_splits)
  have "cs_site c \<noteq> []" unfolding c(6) by (rule value_or_nonempty) simp
  with safe_consoleI [OF url] secrets [THEN required_secret_Inr] parse_number_range [OF n] c(7-9)
  show ?thesis by (simp add: c(1-5) invalid_segment_def from_secs_def)
qed

lemma protect_legacy_Inr:
  "protect_legacy username password = Inr (Some legacy) \<Longrightarrow>
     username = Some (pls_username legacy) \<and> password = Some (pls_password legacy)"
  by (auto simp: protect_legacy_def split: option.splits)

lemma protect_from_environment_safe:
  assumes "protect_from_environment X = Inr p"
  shows "safe_runtime (ProtectRuntime p)"
proof -
  from assms obtain url tls api_key password n where
    url: "controller_url X PROTECT_VARS = Inr url" "controller_tls X PROTECT_VARS = Inr tls"
      "\<not> (is_pinned_mode tls \<and> ju_scheme url \<noteq> ''https'')"
    and key: "required_secret (cx_var X) ''UNIFI_MCP_PROTECT_API_KEY'' = Inr api_key"
    and password: "optional_secret (cx_var X) ''UNIFI_MCP_PROTECT_PASSWORD'' = Inr password"
    and legacy: "protect_legacy (optional_var (cx_var X) ''UNIFI_MCP_PROTECT_USERNAME'') password = Inr (ps_legacy p)"
    and n: "parse_number u64_max (cx_var X) ''UNIFI_MCP_PROTECT_TIMEOUT_SECONDS'' 15 1 60 = Inr n"
    and p: "ps_base_url p = url" "ps_tls p = tls" "ps_api_key p = api_key" "ps_timeout p = from_secs n"
    by (auto simp: protect_from_environment_def bind_res_eq_Inr split: if_splits)
  have "pls_username l \<noteq> [] \<and> secret (pls_password l)" if l: "ps_legacy p = Some l" for l
  proof -
    from protect_legacy_Inr [OF legacy [unfolded l]] password optional_secret_Inr optional_var_nonempty
    show ?thesis by metis
  qed
  with safe_consoleI [OF url] required_secret_Inr [OF key] parse_number_range [OF n]
  show ?thesis by (simp add: p from_secs_def)
qed

lemma runtime_of_safe: "runtime_of X sf = Inr r \<Longrightarrow> safe_runtime r"
  by (auto simp del: safe_runtime.simps simp: runtime_of_def map_ok_eq_Inr controller_from_environment_safe
      protect_from_environment_safe split: tool_surface.splits)

text \<open>
  C14. A configuration that loads is safe to run with: a plaintext console is on this machine, a
  pinned console is reached by TLS and has pins, credentials are nonempty and bounded, the site name
  is accepted by request construction, all numeric settings are within their documented ranges, the
  gateway bearers and the identity verifier meet their requirements and the tokens must be issued
  for the surface that is served. The health check and the independent transports, which read parts
  of the configuration alone, see the same listener and the same console.
\<close>

theorem loaded_settings_are_safe:
  assumes "from_environment X = Inr st"
  shows "safe_runtime (st_runtime st) \<and> runtime_from_env X = Inr (st_runtime st)
       \<and> listener_from_environment (cx_var X) = Inr \<lparr>li_host = st_host st, li_port = st_port st\<rparr> \<and> st_port st \<noteq> 0
       \<and> from_secs 1 \<le> st_request_timeout st \<and> st_request_timeout st \<le> from_secs 120
       \<and> st_max_concurrent_requests st \<in> {1..256} \<and> st_max_body_bytes st \<in> {1024..4194304}
       \<and> strong_bearer (current (st_bearers st)) \<and> (\<forall>p. previous (st_bearers st) = Some p \<longrightarrow> strong_bearer p)
       \<and> validate_settings (st_identity st) = Inr ()
       \<and> (\<exists>sf. surface_from_environment (cx_var X) = Inr sf \<and> audience (st_identity st) = server_name sf)"
proof -
  let ?v = "cx_var X"
  from assms obtain l sf cur prev t n m b i r jwks where
    l: "listener_from_environment ?v = Inr l" and sf: "surface_from_environment ?v = Inr sf"
    and t: "parse_number u64_max ?v ''UNIFI_MCP_REQUEST_TIMEOUT_SECONDS'' 30 1 120 = Inr t"
    and n: "parse_number u64_max ?v ''UNIFI_MCP_MAX_CONCURRENT_REQUESTS'' 32 1 256 = Inr n"
    and m: "parse_number u64_max ?v ''UNIFI_MCP_MAX_BODY_BYTES'' (1024 * 1024) 1024 (4 * 1024 * 1024) = Inr m"
    and b: "from_protected cur prev = Inr b" and i: "identity_settings ?v sf jwks = Inr i" and r: "runtime_of X sf = Inr r"
    and st: "st_host st = li_host l" "st_port st = li_port l" "st_request_timeout st = from_secs t"
      "st_max_concurrent_requests st = n" "st_max_body_bytes st = m" "st_bearers st = b" "st_identity st = i"
      "st_runtime st = r"
    unfolding from_environment_def Let_def by (auto simp: bind_res_eq_Inr)
  from l obtain p where p: "parse_number 65535 ?v ''UNIFI_MCP_PORT'' 8000 1 65535 = Inr p" "li_port l = of_nat p"
    by (auto simp: listener_from_environment_def map_ok_eq_Inr)
  have "(of_nat p :: u16) \<noteq> 0"
    using parse_number_range [OF p(1)] by (auto simp: word_of_nat_eq_0_iff dest: dvd_imp_le)
  moreover have "strong_bearer (current b)" "\<forall>q. previous b = Some q \<longrightarrow> strong_bearer q"
    using b by (auto simp: from_protected_def bind_res_eq_Inr validate_bearer_iff split: option.splits if_splits)
  moreover have "validate_settings i = Inr ()" "audience i = server_name sf"
    using i by (auto simp: identity_settings_def bind_res_eq_Inr Let_def)
  ultimately show ?thesis
    using l sf r runtime_of_safe [OF r] parse_number_range [OF t] parse_number_range [OF n] parse_number_range [OF m]
    by (simp add: st p(2) runtime_from_env_def from_secs_def)
qed

definition sample_url :: console_url where
  "sample_url =
     \<lparr>ju_scheme = ''https'', ju_username = [], ju_password = None, ju_host = Some (Domain ''console''),
      ju_query = None, ju_fragment = None, cu_path = ''/''\<rparr>"

definition sample_vars :: "(string \<times> string) list" where
  "sample_vars =
     [(''UNIFI_MCP_GATEWAY_BEARER_CURRENT'', replicate 32 CHR ''b''),
      (''UNIFI_MCP_IDENTITY_JWKS_URL'', ''u''), (''UNIFI_MCP_IDENTITY_ISSUER'', ''i''),
      (''UNIFI_MCP_IDENTITY_ACTOR'', ''gateway''), (''UNIFI_MCP_CONTROLLER_URL'', ''u''),
      (''UNIFI_MCP_CONTROLLER_API_KEY'', ''k''), (''UNIFI_MCP_CONTROLLER_USERNAME'', ''n''),
      (''UNIFI_MCP_CONTROLLER_PASSWORD'', ''p'')]"

definition sample_config :: config_externals where
  "sample_config =
     \<lparr>cx_var = (\<lambda>name. case map_of sample_vars name of Some v \<Rightarrow> EnvText v | None \<Rightarrow> NotPresent),
      cx_url = (\<lambda>_. Inr sample_url), cx_read = (\<lambda>_ _. Inl ''no file'')\<rparr>"

theorem loaded_settings_are_safe_witness:
  "\<exists>st. from_environment sample_config = Inr st \<and> safe_runtime (st_runtime st)"
proof -
  have vars: "cx_var sample_config = (\<lambda>name. case map_of sample_vars name of Some v \<Rightarrow> EnvText v | None \<Rightarrow> NotPresent)"
    "cx_url sample_config = (\<lambda>_. Inr sample_url)" by (simp_all add: sample_config_def)
  have trims: "trim ''u'' = ''u''" "trim ''i'' = ''i''" "trim ''n'' = ''n''" "trim ''gateway'' = ''gateway''" "trim [] = []"
    "trim ''unifi'' = ''unifi''" "\<not> list_ex is_control (chars ''gateway'')" "\<not> list_ex is_control (chars ''unifi'')"
    "\<not> list_ex is_ascii_whitespace (replicate 32 CHR ''b'')"
    by code_simp+
  obtain st where "from_environment sample_config = Inr st"
    by (simp add: from_environment_def vars sample_vars_def optional_var_def required_var_def required_unmodified_def
        value_or_def required_secret_def optional_secret_def validate_secret_def MAXIMUM_SECRET_BYTES_def
        parse_number_def parse_number_value_def parse_url_def listener_from_environment_def surface_from_environment_def
        from_protected_def validate_bearer_def MINIMUM_BEARER_BYTES_def identity_settings_def validate_settings_def
        validate_jwks_url_def runtime_of_def controller_from_environment_def controller_url_def controller_tls_def
        sample_url_def jwks_url.defs trims CONTROLLER_VARS_def MAXIMUM_IDENTITY_ACTOR_BYTES_def from_secs_def
        Let_def del: chars.simps)
  with loaded_settings_are_safe show ?thesis by blast
qed

end
