(* ===== verification/Protect_Client.thy ===== *)
theory Protect_Client
  imports Integration_Client Legacy_Protect
begin

text \<open>
  The client of the official Protect integration API (\<open>crates/unifi-api/src/protect.rs\<close>): the types
  it decodes, the request path with its one bounded retry of reads, every operation, and the finite
  observation of a subscription (\<open>protect/subscription.rs\<close>). Decoders are generated by serde and are
  parameters; a multipart form and the WebSocket are the work of libraries, so the body a form
  becomes and what a socket yields are parameters too. Logging is left out.
\<close>

section \<open>Data\<close>

datatype protect_device_family =
    FamLight | FamSensor | FamChime | FamSiren | FamFob | FamRelay | FamSpeaker | FamBridge | FamLinkStation
  | FamAlarmHub

primrec family_path :: "protect_device_family \<Rightarrow> string" where
  "family_path FamLight = ''lights''"
| "family_path FamSensor = ''sensors''"
| "family_path FamChime = ''chimes''"
| "family_path FamSiren = ''sirens''"
| "family_path FamFob = ''fobs''"
| "family_path FamRelay = ''relays''"
| "family_path FamSpeaker = ''speakers''"
| "family_path FamBridge = ''bridges''"
| "family_path FamLinkStation = ''link-stations''"
| "family_path FamAlarmHub = ''alarm-hubs''"

datatype protect_device_action_route =
    RouteSirenPlay | RouteSirenStop | RouteSirenTestSound | RouteRelayActivate string | RouteSpeakerTestSound
  | RouteAlarmHubTrigger string

datatype protect_arm_route =
  ArmCreate | ArmUpdate string | ArmDelete string | ArmSelect | ArmEnable | ArmDisable | ArmWebhook string

datatype protect_user_family = FamUser | FamIdentityUser

primrec user_path :: "protect_user_family \<Rightarrow> string" where
  "user_path FamUser = ''users''"
| "user_path FamIdentityUser = ''ulp-users''"

text \<open>A patrol slot that is not reported differs from a patrol that is reported as stopped.\<close>

datatype protect_patrol_state = Unreported | PatrolStopped | PatrolRunning u8

record protect_osd_settings =
  os_is_name_enabled :: "bool option"
  os_is_date_enabled :: "bool option"
  os_is_logo_enabled :: "bool option"
  os_is_debug_enabled :: "bool option"
  os_overlay_location :: "string option"

record protect_led_settings =
  ls_is_enabled :: "bool option"
  ls_welcome_led :: "bool option"
  ls_flood_led :: "bool option"

record protect_smart_detect_settings =
  sds_object_types :: "string list option"
  sds_audio_types :: "string list option"

record protect_camera =
  cam_id :: string
  cam_model_key :: string
  cam_name :: "string option"
  cam_state :: string
  cam_device_type :: "string option"
  cam_guid :: "string option"
  cam_mac :: "string option"
  cam_is_mic_enabled :: "bool option"
  cam_mic_volume :: "u8 option"
  cam_osd_settings :: "protect_osd_settings option"
  cam_led_settings :: "protect_led_settings option"
  cam_lcd_message :: "json option"
  cam_video_mode :: "string option"
  cam_hdr_type :: "string option"
  cam_smart_detect_settings :: "protect_smart_detect_settings option"
  cam_active_patrol_slot :: protect_patrol_state

record protect_nvr =
  pn_id :: string
  pn_model_key :: string
  pn_name :: "string option"
  pn_device_type :: "string option"
  pn_guid :: "string option"
  pn_mac :: "string option"

record protect_camera_settings_patch =
  sp_name :: "string option"
  sp_osd_settings :: "protect_osd_settings option"
  sp_led_settings :: "protect_led_settings option"
  sp_lcd_message :: "json option"
  sp_mic_volume :: "u8 option"
  sp_video_mode :: "string option"
  sp_hdr_type :: "string option"
  sp_smart_detect_settings :: "protect_smart_detect_settings option"

definition osd_settings_json :: "protect_osd_settings \<Rightarrow> json" where
  "osd_settings_json o1 =
     JObj (set_fields
       [(''isNameEnabled'', map_option JBool (os_is_name_enabled o1)),
        (''isDateEnabled'', map_option JBool (os_is_date_enabled o1)),
        (''isLogoEnabled'', map_option JBool (os_is_logo_enabled o1)),
        (''isDebugEnabled'', map_option JBool (os_is_debug_enabled o1)),
        (''overlayLocation'', map_option JStr (os_overlay_location o1))])"

definition led_settings_json :: "protect_led_settings \<Rightarrow> json" where
  "led_settings_json l =
     JObj (set_fields
       [(''isEnabled'', map_option JBool (ls_is_enabled l)), (''welcomeLed'', map_option JBool (ls_welcome_led l)),
        (''floodLed'', map_option JBool (ls_flood_led l))])"

definition smart_detect_settings_json :: "protect_smart_detect_settings \<Rightarrow> json" where
  "smart_detect_settings_json d =
     JObj (set_fields
       [(''objectTypes'', map_option (\<lambda>ks. JArr (map JStr ks)) (sds_object_types d)),
        (''audioTypes'', map_option (\<lambda>ks. JArr (map JStr ks)) (sds_audio_types d))])"

definition camera_settings_patch_json :: "protect_camera_settings_patch \<Rightarrow> json" where
  "camera_settings_patch_json p =
     JObj (set_fields
       [(''name'', map_option JStr (sp_name p)),
        (''osdSettings'', map_option osd_settings_json (sp_osd_settings p)),
        (''ledSettings'', map_option led_settings_json (sp_led_settings p)),
        (''lcdMessage'', sp_lcd_message p),
        (''micVolume'', map_option jword (sp_mic_volume p)),
        (''videoMode'', map_option JStr (sp_video_mode p)),
        (''hdrType'', map_option JStr (sp_hdr_type p)),
        (''smartDetectSettings'', map_option smart_detect_settings_json (sp_smart_detect_settings p))])"

text \<open>An \<open>i32\<close> slot is kept as the integer it stands for.\<close>

datatype protect_ptz_command = GotoPreset int | StartPatrol u8 | StopPatrol

datatype protect_stream_quality = QualityHigh | QualityMedium | QualityLow | QualityPackage

primrec quality_text :: "protect_stream_quality \<Rightarrow> string" where
  "quality_text QualityHigh = ''high''"
| "quality_text QualityMedium = ''medium''"
| "quality_text QualityLow = ''low''"
| "quality_text QualityPackage = ''package''"

record protect_stream_urls =
  su_high :: "string option"
  su_medium :: "string option"
  su_low :: "string option"
  su_package :: "string option"

record protect_talkback_session =
  ts_url :: string
  ts_codec :: string
  ts_sampling_rate :: u32
  ts_bits_per_sample :: u16

datatype protect_availability = Available string | Unsupported nat bounded_message

text \<open>The client, its decoders and the body a multipart form becomes.\<close>

record protect_decoders =
  dec_application :: "string stream_decoder"
  dec_value :: "json stream_decoder"
  dec_values :: "json list stream_decoder"
  dec_camera :: "protect_camera stream_decoder"
  dec_cameras :: "protect_camera list stream_decoder"
  dec_nvr :: "protect_nvr stream_decoder"
  dec_streams :: "protect_stream_urls stream_decoder"
  dec_talkback :: "protect_talkback_session stream_decoder"
  form_body :: "string \<Rightarrow> string \<Rightarrow> bytes \<Rightarrow> string + json"

record 'e protect_client = "'e externals" +
  px_base :: base_url
  px_api_key :: string
  px_dec :: protect_decoders

section \<open>Checks of a response\<close>

definition MAXIMUM_DEVICE_IDENTIFIER_BYTES :: nat where
  "MAXIMUM_DEVICE_IDENTIFIER_BYTES = 256"

definition mismatch :: "string \<Rightarrow> string \<Rightarrow> api_error" where
  "mismatch ep path = SchemaMismatch ep (bounded_new path) None"

definition validate_model_key :: "string \<Rightarrow> string \<Rightarrow> string \<Rightarrow> api_error + unit" where
  "validate_model_key ep actual expected =
     (if actual = expected then Inr () else Inl (mismatch ep ''modelKey''))"

definition validate_identifier :: "string \<Rightarrow> string \<Rightarrow> api_error + unit" where
  "validate_identifier ep ident =
     (if ident \<noteq> [] \<and> length ident \<le> MAXIMUM_DEVICE_IDENTIFIER_BYTES then Inr ()
      else Inl (mismatch ep ''id''))"

definition validate_resource_record :: "string \<Rightarrow> json \<Rightarrow> string option \<Rightarrow> api_error + unit" where
  "validate_resource_record ep rec requested =
     (case Option.bind (jget ''id'' rec) jstr of
        None \<Rightarrow> Inl (mismatch ep ''id'')
      | Some ident \<Rightarrow>
          bind_res (validate_identifier ep ident) (\<lambda>_.
            if requested \<noteq> None \<and> requested \<noteq> Some ident then Inl (mismatch ep ''id'') else Inr ()))"

fun validate_all :: "('a \<Rightarrow> api_error + unit) \<Rightarrow> 'a list \<Rightarrow> api_error + unit" where
  "validate_all check [] = Inr ()"
| "validate_all check (v # vs) = bind_res (check v) (\<lambda>_. validate_all check vs)"

text \<open>The loop over the cameras, with the identifiers seen so far.\<close>

fun validate_cameras :: "string set \<Rightarrow> protect_camera list \<Rightarrow> api_error + unit" where
  "validate_cameras ids [] = Inr ()"
| "validate_cameras ids (cam # rest) =
     bind_res (validate_model_key ''cameras'' (cam_model_key cam) ''camera'') (\<lambda>_.
     bind_res (validate_identifier ''cameras'' (cam_id cam)) (\<lambda>_.
       if cam_id cam \<in> ids then Inl (mismatch ''cameras'' ''duplicate id'')
       else validate_cameras (insert (cam_id cam) ids) rest))"

definition validate_camera :: "protect_camera \<Rightarrow> api_error + unit" where
  "validate_camera cam =
     bind_res (validate_model_key ''cameras.by_id'' (cam_model_key cam) ''camera'') (\<lambda>_.
       validate_identifier ''cameras.by_id'' (cam_id cam))"

text \<open>\<open>seen[index]\<close> for the four qualities, as the set of the qualities seen.\<close>

fun distinct_qualities :: "protect_stream_quality set \<Rightarrow> protect_stream_quality list \<Rightarrow> api_error + unit" where
  "distinct_qualities seen [] = Inr ()"
| "distinct_qualities seen (q # qs) =
     (if q \<in> seen then Inl (Config ''stream qualities must be distinct'')
      else distinct_qualities (insert q seen) qs)"

definition validate_stream_qualities :: "protect_stream_quality list \<Rightarrow> api_error + unit" where
  "validate_stream_qualities qs =
     (if qs = [] \<or> 4 < length qs then Inl (Config ''select one to four stream qualities'')
      else distinct_qualities {} qs)"

text \<open>The fixed endpoint names of the diagnostics.\<close>

definition is_device_path :: "string \<Rightarrow> bool" where
  "is_device_path path \<longleftrightarrow>
     path \<in> {''lights'', ''sensors'', ''chimes'', ''sirens'', ''fobs'', ''relays'', ''speakers'', ''bridges'',
       ''link-stations'', ''alarm-hubs''}"

definition endpoint_name :: "string list \<Rightarrow> string" where
  "endpoint_name segments =
     (if segments = [''meta'', ''info''] then ''meta.info''
      else case segments of
        [a] \<Rightarrow>
          (if a = ''cameras'' then ''cameras''
           else if a = ''nvrs'' then ''nvrs''
           else if is_device_path a then ''protect.devices''
           else if a = ''users'' \<or> a = ''ulp-users'' then ''protect.users''
           else if a = ''viewers'' then ''protect.viewers''
           else if a = ''liveviews'' then ''protect.liveviews''
           else ''protect.integration'')
      | [a, _] \<Rightarrow>
          (if a = ''cameras'' then ''cameras.by_id''
           else if is_device_path a then ''protect.devices.by_id''
           else if a = ''users'' \<or> a = ''ulp-users'' then ''protect.users.by_id''
           else if a = ''viewers'' then ''protect.viewers.by_id''
           else if a = ''liveviews'' then ''protect.liveviews.by_id''
           else ''protect.integration'')
      | [a, b, _, d] \<Rightarrow>
          (if a = ''pos'' \<and> b = ''cameras'' \<and> d = ''transactions'' then ''protect.pos.transactions''
           else ''protect.integration'')
      | _ \<Rightarrow> ''protect.integration'')"

section \<open>The request path\<close>

definition protect_prefix :: "string list" where
  "protect_prefix = [''proxy'', ''protect'', ''integration'', ''v1'']"

definition protect_request_with_query ::
  "('e, 'x) protect_client_scheme \<Rightarrow> http_method \<Rightarrow> string list \<Rightarrow> (string \<times> string) list
     \<Rightarrow> api_error + request" where
  "protect_request_with_query pc verb segments query =
     bind_res (build_url (px_base pc) (protect_prefix @ segments) query) (\<lambda>u.
       Inr \<lparr>rq_method = verb, rq_url = u,
            rq_headers = [(''X-API-Key'', px_api_key pc), (''accept'', ''application/json'')], rq_body = None\<rparr>)"

definition protect_request ::
  "('e, 'x) protect_client_scheme \<Rightarrow> http_method \<Rightarrow> string list \<Rightarrow> api_error + request" where
  "protect_request pc verb segments = protect_request_with_query pc verb segments []"

definition protect_send :: "('e, 'x) externals_scheme \<Rightarrow> request \<Rightarrow> ('e, 'w, response) api_call" where
  "protect_send X request =
     bind_io (send_request X request) (\<lambda>response.
       return_io
         (let status = rs_status response
          in if is_success status then Inr response
             else if status = 429 then Inl (rate_limited_error (ext_b64 X) response)
             else bind_res (read_bounded_body response)
                    (\<lambda>body. Inl (Status status (from_controller_bytes (ext_b64 X) body)))))"

text \<open>
  A read: the request, once more after a short rate limit, then the bounded body, its value and the
  check of the value, whose failure is given the response.
\<close>

definition protect_get_with_response ::
  "'a stream_decoder \<Rightarrow> ('a \<Rightarrow> api_error + unit) \<Rightarrow> ('e, 'x) protect_client_scheme \<Rightarrow> string list
     \<Rightarrow> ('e, 'w, 'a \<times> bytes) api_call" where
  "protect_get_with_response dec check pc segments =
     bind_io (return_io (protect_request pc GET segments)) (\<lambda>request.
     bind_io
       (\<lambda>w. case protect_send pc request w of
              (Inr response, w) \<Rightarrow> (Inr response, w)
            | (Inl err, w) \<Rightarrow>
                (case retry_delay err of
                   Some delay \<Rightarrow> protect_send pc request (sleep pc delay w)
                 | None \<Rightarrow> (Inl err, w)))
       (\<lambda>response.
          return_io
            (bind_res (read_bounded_body response) (\<lambda>body.
             bind_res (decode_json dec (ext_b64 pc) (endpoint_name segments) body) (\<lambda>v.
             bind_res (map_err (\<lambda>e. with_controller_response (ext_b64 pc) e body) (check v)) (\<lambda>_.
               Inr (v, body)))))))"

definition protect_get ::
  "'a stream_decoder \<Rightarrow> ('a \<Rightarrow> api_error + unit) \<Rightarrow> ('e, 'x) protect_client_scheme \<Rightarrow> string list
     \<Rightarrow> ('e, 'w, 'a) api_call" where
  "protect_get dec check pc segments = map_io fst (protect_get_with_response dec check pc segments)"

text \<open>A write: one request, then its status and bounded body, or its decoded value with them.\<close>

definition protect_accepted ::
  "('e, 'x) externals_scheme \<Rightarrow> (api_error + request) \<Rightarrow> ('e, 'w, nat \<times> bytes) api_call" where
  "protect_accepted X request =
     bind_io (return_io request) (\<lambda>request.
     bind_io (protect_send X request) (\<lambda>response.
       return_io (map_ok (\<lambda>body. (rs_status response, body)) (read_bounded_body response))))"

definition send_json_once ::
  "'a stream_decoder \<Rightarrow> ('e, 'x) externals_scheme \<Rightarrow> (api_error + request) \<Rightarrow> string
     \<Rightarrow> ('e, 'w, 'a \<times> nat \<times> bytes) api_call" where
  "send_json_once dec X request ep =
     bind_io (protect_accepted X request) (\<lambda>(status, body).
       return_io (map_ok (\<lambda>v. (v, status, body)) (decode_json dec (ext_b64 X) ep body)))"

text \<open>The check of an identifier that comes before a request.\<close>

definition checked_id :: "string \<Rightarrow> string \<Rightarrow> ('e, 'w, 'a) api_call \<Rightarrow> ('e, 'w, 'a) api_call" where
  "checked_id ep ident m = bind_io (return_io (validate_identifier ep ident)) (\<lambda>_. m)"

section \<open>Reads\<close>

definition no_check :: "'a \<Rightarrow> api_error + unit" where
  "no_check v = Inr ()"

definition protect_info :: "('e, 'x) protect_client_scheme \<Rightarrow> ('e, 'w, string) api_call" where
  "protect_info pc = protect_get (dec_application (px_dec pc)) no_check pc [''meta'', ''info'']"

definition protect_info_record :: "('e, 'x) protect_client_scheme \<Rightarrow> ('e, 'w, json) api_call" where
  "protect_info_record pc = protect_get (dec_value (px_dec pc)) no_check pc [''meta'', ''info'']"

definition protect_nvr_record :: "('e, 'x) protect_client_scheme \<Rightarrow> ('e, 'w, json) api_call" where
  "protect_nvr_record pc = protect_get (dec_value (px_dec pc)) no_check pc [''nvrs'']"

definition protect_cameras_with_response ::
  "('e, 'x) protect_client_scheme \<Rightarrow> ('e, 'w, protect_camera list \<times> bytes) api_call" where
  "protect_cameras_with_response pc =
     protect_get_with_response (dec_cameras (px_dec pc)) (validate_cameras {}) pc [''cameras'']"

definition protect_cameras :: "('e, 'x) protect_client_scheme \<Rightarrow> ('e, 'w, protect_camera list) api_call" where
  "protect_cameras pc = map_io fst (protect_cameras_with_response pc)"

definition protect_camera_by_id ::
  "('e, 'x) protect_client_scheme \<Rightarrow> string \<Rightarrow> ('e, 'w, protect_camera) api_call" where
  "protect_camera_by_id pc cid = protect_get (dec_camera (px_dec pc)) validate_camera pc [''cameras'', cid]"

definition camera_with_response ::
  "('e, 'x) protect_client_scheme \<Rightarrow> string \<Rightarrow> ('e, 'w, protect_camera \<times> json) api_call" where
  "camera_with_response pc cid =
     checked_id ''cameras.by_id'' cid
       (bind_io
          (protect_get_with_response (dec_camera (px_dec pc))
             (\<lambda>cam. bind_res (validate_camera cam) (\<lambda>_.
                if cam_id cam \<noteq> cid then Inl (mismatch ''cameras.by_id'' ''id'') else Inr ()))
             pc [''cameras'', cid])
          (\<lambda>(cam, body).
             return_io (map_ok (\<lambda>complete. (cam, complete))
               (decode_json (dec_value (px_dec pc)) (ext_b64 pc) ''cameras.by_id'' body))))"

definition camera_raw :: "('e, 'x) protect_client_scheme \<Rightarrow> string \<Rightarrow> ('e, 'w, json) api_call" where
  "camera_raw pc cid =
     checked_id ''cameras.by_id'' cid
       (protect_get (dec_value (px_dec pc)) (\<lambda>v. validate_resource_record ''cameras.by_id'' v (Some cid)) pc
          [''cameras'', cid])"

definition animation_assets :: "('e, 'x) protect_client_scheme \<Rightarrow> ('e, 'w, json list) api_call" where
  "animation_assets pc = protect_get (dec_values (px_dec pc)) no_check pc [''files'', ''animations'']"

text \<open>A collection of records, and one record by its id, with the checks all families share.\<close>

definition resource_list ::
  "('e, 'x) protect_client_scheme \<Rightarrow> string \<Rightarrow> string \<Rightarrow> ('e, 'w, json list) api_call" where
  "resource_list pc ep path =
     protect_get (dec_values (px_dec pc)) (validate_all (\<lambda>v. validate_resource_record ep v None)) pc [path]"

definition resource_by_id ::
  "('e, 'x) protect_client_scheme \<Rightarrow> string \<Rightarrow> string \<Rightarrow> string \<Rightarrow> ('e, 'w, json) api_call" where
  "resource_by_id pc ep path rid =
     checked_id ep rid
       (protect_get (dec_value (px_dec pc)) (\<lambda>v. validate_resource_record ep v (Some rid)) pc [path, rid])"

definition protect_devices ::
  "('e, 'x) protect_client_scheme \<Rightarrow> protect_device_family \<Rightarrow> ('e, 'w, json list) api_call" where
  "protect_devices pc fam = resource_list pc ''protect.devices'' (family_path fam)"

definition protect_device ::
  "('e, 'x) protect_client_scheme \<Rightarrow> protect_device_family \<Rightarrow> string \<Rightarrow> ('e, 'w, json) api_call" where
  "protect_device pc fam rid = resource_by_id pc ''protect.devices.by_id'' (family_path fam) rid"

definition arm_profiles :: "('e, 'x) protect_client_scheme \<Rightarrow> ('e, 'w, json list) api_call" where
  "arm_profiles pc = protect_get (dec_values (px_dec pc)) no_check pc [''arm-profiles'']"

definition protect_users ::
  "('e, 'x) protect_client_scheme \<Rightarrow> protect_user_family \<Rightarrow> ('e, 'w, json list) api_call" where
  "protect_users pc fam = resource_list pc ''protect.users'' (user_path fam)"

definition protect_user ::
  "('e, 'x) protect_client_scheme \<Rightarrow> protect_user_family \<Rightarrow> string \<Rightarrow> ('e, 'w, json) api_call" where
  "protect_user pc fam rid = resource_by_id pc ''protect.users.by_id'' (user_path fam) rid"

definition viewers :: "('e, 'x) protect_client_scheme \<Rightarrow> ('e, 'w, json list) api_call" where
  "viewers pc = resource_list pc ''protect.viewers'' ''viewers''"

definition viewer :: "('e, 'x) protect_client_scheme \<Rightarrow> string \<Rightarrow> ('e, 'w, json) api_call" where
  "viewer pc rid = resource_by_id pc ''protect.viewers.by_id'' ''viewers'' rid"

definition liveviews :: "('e, 'x) protect_client_scheme \<Rightarrow> ('e, 'w, json list) api_call" where
  "liveviews pc = resource_list pc ''protect.liveviews'' ''liveviews''"

definition liveview :: "('e, 'x) protect_client_scheme \<Rightarrow> string \<Rightarrow> ('e, 'w, json) api_call" where
  "liveview pc rid = resource_by_id pc ''protect.liveviews.by_id'' ''liveviews'' rid"

definition camera_streams :: "('e, 'x) protect_client_scheme \<Rightarrow> string \<Rightarrow> ('e, 'w, protect_stream_urls) api_call" where
  "camera_streams pc cid =
     checked_id ''cameras.streams'' cid
       (protect_get (dec_streams (px_dec pc)) no_check pc [''cameras'', cid, ''rtsps-stream''])"

definition show_bool :: "bool \<Rightarrow> string" where
  "show_bool b = (if b then ''true'' else ''false'')"

definition camera_snapshot ::
  "('e, 'x) protect_client_scheme \<Rightarrow> string \<Rightarrow> string \<Rightarrow> bool \<Rightarrow> ('e, 'w, bytes) api_call" where
  "camera_snapshot pc cid channel high_quality =
     bind_io (return_io (build_url (px_base pc) (protect_prefix @ [''cameras'', cid, ''snapshot''])
        [(''channel'', channel), (''highQuality'', show_bool high_quality)])) (\<lambda>u.
     bind_io (protect_send pc
        \<lparr>rq_method = GET, rq_url = u,
         rq_headers = [(''X-API-Key'', px_api_key pc), (''accept'', ''image/jpeg'')], rq_body = None\<rparr>) (\<lambda>response.
       return_io (read_jpeg (ext_b64 pc) response)))"

definition protect_nvr_with_response ::
  "('e, 'x) protect_client_scheme \<Rightarrow> ('e, 'w, protect_nvr \<times> bytes) api_call" where
  "protect_nvr_with_response pc =
     protect_get_with_response (dec_nvr (px_dec pc))
       (\<lambda>v. bind_res (validate_model_key ''nvrs'' (pn_model_key v) ''nvr'') (\<lambda>_.
          validate_identifier ''nvrs'' (pn_id v))) pc [''nvrs'']"

definition protect_nvr_read :: "('e, 'x) protect_client_scheme \<Rightarrow> ('e, 'w, protect_nvr) api_call" where
  "protect_nvr_read pc = map_io fst (protect_nvr_with_response pc)"

text \<open>A \<open>404\<close> says that the API is not there; any other failure is one.\<close>

definition availability :: "('e, 'x) protect_client_scheme \<Rightarrow> ('e, 'w, protect_availability) api_call" where
  "availability pc w =
     (case protect_info pc w of
        (Inr version, w) \<Rightarrow> (Inr (Available version), w)
      | (Inl err, w) \<Rightarrow>
          (case err of
             Status status message \<Rightarrow>
               (if status = 404 then (Inr (Unsupported 404 message), w) else (Inl err, w))
           | _ \<Rightarrow> (Inl err, w)))"

section \<open>Writes\<close>

definition camera_disable_mic :: "('e, 'x) protect_client_scheme \<Rightarrow> string \<Rightarrow> ('e, 'w, nat \<times> bytes) api_call" where
  "camera_disable_mic pc cid =
     checked_id ''cameras.microphone.disable'' cid
       (protect_accepted pc (protect_request pc POST [''cameras'', cid, ''disable-mic-permanently'']))"

definition animation_asset_upload ::
  "('e, 'x) protect_client_scheme \<Rightarrow> string \<Rightarrow> string \<Rightarrow> bytes \<Rightarrow> ('e, 'w, json) api_call" where
  "animation_asset_upload pc file_name mime_type content =
     bind_io (return_io (map_err Config (form_body (px_dec pc) file_name mime_type content))) (\<lambda>form.
       map_io fst
         (send_json_once (dec_value (px_dec pc)) pc
            (with_json (protect_request pc POST [''files'', ''animations'']) form) ''protect.assets.upload''))"

definition device_settings_patch ::
  "('e, 'x) protect_client_scheme \<Rightarrow> protect_device_family \<Rightarrow> string \<Rightarrow> json \<Rightarrow> ('e, 'w, nat \<times> bytes) api_call" where
  "device_settings_patch pc fam rid changes =
     checked_id ''protect.devices.settings.update'' rid
       (protect_accepted pc (with_json (protect_request pc PATCH [family_path fam, rid]) changes))"

text \<open>\<open>if let Some(body) = body { request = request.json(body) }\<close>.\<close>

definition with_optional_json :: "(api_error + request) \<Rightarrow> json option \<Rightarrow> api_error + request" where
  "with_optional_json request body = (case body of None \<Rightarrow> request | Some v \<Rightarrow> with_json request v)"

fun device_action_segments :: "string \<Rightarrow> protect_device_action_route \<Rightarrow> api_error + string list" where
  "device_action_segments rid RouteSirenPlay = Inr [''sirens'', rid, ''play'']"
| "device_action_segments rid RouteSirenStop = Inr [''sirens'', rid, ''stop'']"
| "device_action_segments rid RouteSirenTestSound = Inr [''sirens'', rid, ''test-sound'']"
| "device_action_segments rid (RouteRelayActivate out) =
     bind_res (validate_identifier ''protect.relays.activate'' out) (\<lambda>_.
       Inr [''relays'', rid, ''outputs'', out, ''activate''])"
| "device_action_segments rid RouteSpeakerTestSound = Inr [''speakers'', rid, ''test-sound'']"
| "device_action_segments rid (RouteAlarmHubTrigger out) =
     bind_res (validate_identifier ''protect.alarm_hubs.trigger'' out) (\<lambda>_.
       Inr [''alarm-hubs'', rid, ''outputs'', out, ''trigger''])"

definition device_action ::
  "('e, 'x) protect_client_scheme \<Rightarrow> string \<Rightarrow> protect_device_action_route \<Rightarrow> json option
     \<Rightarrow> ('e, 'w, nat \<times> bytes) api_call" where
  "device_action pc rid route body =
     checked_id ''protect.devices.action'' rid
       (protect_accepted pc
          (bind_res (device_action_segments rid route) (\<lambda>segments.
             with_optional_json (protect_request pc POST segments) body)))"

fun arm_target :: "protect_arm_route \<Rightarrow> api_error + http_method \<times> string list" where
  "arm_target ArmCreate = Inr (POST, [''arm-profiles''])"
| "arm_target (ArmUpdate pid) =
     bind_res (validate_identifier ''protect.arm.update'' pid) (\<lambda>_. Inr (PATCH, [''arm-profiles'', pid]))"
| "arm_target (ArmDelete pid) =
     bind_res (validate_identifier ''protect.arm.delete'' pid) (\<lambda>_. Inr (DELETE, [''arm-profiles'', pid]))"
| "arm_target ArmSelect = Inr (PATCH, [''arm-profiles'', ''settings''])"
| "arm_target ArmEnable = Inr (POST, [''arm-profiles'', ''enable''])"
| "arm_target ArmDisable = Inr (POST, [''arm-profiles'', ''disable''])"
| "arm_target (ArmWebhook trigger) =
     bind_res (validate_identifier ''protect.arm.webhook'' trigger) (\<lambda>_.
       Inr (POST, [''alarm-manager'', ''webhook'', trigger]))"

definition arm_operation ::
  "('e, 'x) protect_client_scheme \<Rightarrow> protect_arm_route \<Rightarrow> json option \<Rightarrow> ('e, 'w, nat \<times> bytes) api_call" where
  "arm_operation pc route body =
     protect_accepted pc
       (bind_res (arm_target route) (\<lambda>(verb, segments).
          with_optional_json (protect_request pc verb segments) body))"

definition pos_result_check :: "json \<Rightarrow> api_error + unit" where
  "pos_result_check result =
     (if (case jget ''created'' result of Some (JBool _) \<Rightarrow> False | _ \<Rightarrow> True)
      then Inl (mismatch ''protect.pos.transactions'' ''created'')
      else if (case jget ''eventId'' result of None \<Rightarrow> False | Some v \<Rightarrow> jstr v = None)
      then Inl (mismatch ''protect.pos.transactions'' ''eventId'')
      else Inr ())"

definition camera_pos_transaction ::
  "('e, 'x) protect_client_scheme \<Rightarrow> string \<Rightarrow> json \<Rightarrow> ('e, 'w, json) api_call" where
  "camera_pos_transaction pc cid transaction =
     checked_id ''protect.pos.transactions'' cid
       (bind_io
          (send_json_once (dec_value (px_dec pc)) pc
             (with_json (protect_request pc POST [''pos'', ''cameras'', cid, ''transactions'']) transaction)
             ''protect.pos.transactions'')
          (\<lambda>(result, _, body).
             return_io (bind_res (map_err (\<lambda>e. with_controller_response (ext_b64 pc) e body)
               (pos_result_check result)) (\<lambda>_. Inr result))))"

definition viewer_settings_patch ::
  "('e, 'x) protect_client_scheme \<Rightarrow> string \<Rightarrow> json \<Rightarrow> ('e, 'w, json) api_call" where
  "viewer_settings_patch pc rid changes =
     checked_id ''protect.viewers.patch'' rid
       (map_io fst (send_json_once (dec_value (px_dec pc)) pc
          (with_json (protect_request pc PATCH [''viewers'', rid]) changes) ''protect.viewers.patch''))"

definition liveview_create :: "('e, 'x) protect_client_scheme \<Rightarrow> json \<Rightarrow> ('e, 'w, json) api_call" where
  "liveview_create pc configuration =
     map_io fst (send_json_once (dec_value (px_dec pc)) pc
       (with_json (protect_request pc POST [''liveviews'']) configuration) ''protect.liveviews.create'')"

definition liveview_patch :: "('e, 'x) protect_client_scheme \<Rightarrow> string \<Rightarrow> json \<Rightarrow> ('e, 'w, json) api_call" where
  "liveview_patch pc rid changes =
     checked_id ''protect.liveviews.patch'' rid
       (map_io fst (send_json_once (dec_value (px_dec pc)) pc
          (with_json (protect_request pc PATCH [''liveviews'', rid]) changes) ''protect.liveviews.patch''))"

definition camera_settings_patch_with_response ::
  "('e, 'x) protect_client_scheme \<Rightarrow> string \<Rightarrow> protect_camera_settings_patch
     \<Rightarrow> ('e, 'w, protect_camera \<times> json) api_call" where
  "camera_settings_patch_with_response pc cid patch =
     checked_id ''cameras.settings.update'' cid
       (bind_io
          (send_json_once (dec_camera (px_dec pc)) pc
             (with_json (protect_request pc PATCH [''cameras'', cid]) (camera_settings_patch_json patch))
             ''cameras.settings.update'')
          (\<lambda>(cam, _, body).
             return_io
               (bind_res (map_err (\<lambda>e. with_controller_response (ext_b64 pc) e body)
                  (bind_res (validate_model_key ''cameras.settings.update'' (cam_model_key cam) ''camera'') (\<lambda>_.
                     if cam_id cam \<noteq> cid then Inl (mismatch ''cameras.settings.update'' ''id'') else Inr ())))
                  (\<lambda>_. map_ok (\<lambda>complete. (cam, complete))
                    (decode_json (dec_value (px_dec pc)) (ext_b64 pc) ''cameras.settings.update'' body)))))"

definition camera_settings_patch ::
  "('e, 'x) protect_client_scheme \<Rightarrow> string \<Rightarrow> protect_camera_settings_patch \<Rightarrow> ('e, 'w, protect_camera) api_call" where
  "camera_settings_patch pc cid patch = map_io fst (camera_settings_patch_with_response pc cid patch)"

definition show_slot :: "int \<Rightarrow> string" where
  "show_slot v = (if v < 0 then ''-'' @ show_nat (nat (- v)) else show_nat (nat v))"

fun ptz_segments :: "protect_ptz_command \<Rightarrow> api_error + string list" where
  "ptz_segments (GotoPreset v) =
     (if v < - 1 then Inl (Config ''preset slot must be -1 or greater'') else Inr [''goto'', show_slot v])"
| "ptz_segments (StartPatrol v) =
     (if 4 < v then Inl (Config ''patrol slot must be 0-4'')
      else Inr [''patrol'', ''start'', show_nat (unat v)])"
| "ptz_segments StopPatrol = Inr [''patrol'', ''stop'']"

definition camera_ptz ::
  "('e, 'x) protect_client_scheme \<Rightarrow> string \<Rightarrow> protect_ptz_command \<Rightarrow> ('e, 'w, nat \<times> bytes) api_call" where
  "camera_ptz pc cid command =
     checked_id ''cameras.ptz'' cid
       (protect_accepted pc
          (bind_res (ptz_segments command) (\<lambda>tail. protect_request pc POST ([''cameras'', cid, ''ptz''] @ tail))))"

definition camera_streams_create ::
  "('e, 'x) protect_client_scheme \<Rightarrow> string \<Rightarrow> protect_stream_quality list
     \<Rightarrow> ('e, 'w, protect_stream_urls \<times> nat \<times> bytes) api_call" where
  "camera_streams_create pc cid qualities =
     checked_id ''cameras.streams.create'' cid
       (bind_io (return_io (validate_stream_qualities qualities)) (\<lambda>_.
          send_json_once (dec_streams (px_dec pc)) pc
            (with_json (protect_request pc POST [''cameras'', cid, ''rtsps-stream''])
               (JObj [(''qualities'', JArr (map (\<lambda>q. JStr (quality_text q)) qualities))]))
            ''cameras.streams.create''))"

definition camera_streams_delete ::
  "('e, 'x) protect_client_scheme \<Rightarrow> string \<Rightarrow> protect_stream_quality list \<Rightarrow> ('e, 'w, nat \<times> bytes) api_call" where
  "camera_streams_delete pc cid qualities =
     checked_id ''cameras.streams.delete'' cid
       (bind_io (return_io (validate_stream_qualities qualities)) (\<lambda>_.
          protect_accepted pc
            (protect_request_with_query pc DELETE [''cameras'', cid, ''rtsps-stream'']
               (map (\<lambda>q. (''qualities'', quality_text q)) qualities))))"

definition camera_talkback_session ::
  "('e, 'x) protect_client_scheme \<Rightarrow> string \<Rightarrow> ('e, 'w, protect_talkback_session \<times> nat \<times> bytes) api_call" where
  "camera_talkback_session pc cid =
     checked_id ''cameras.talkback'' cid
       (send_json_once (dec_talkback (px_dec pc)) pc
          (protect_request pc POST [''cameras'', cid, ''talkback-session'']) ''cameras.talkback'')"

section \<open>Subscriptions\<close>

datatype protect_subscription_source = SourceDevices | SourceEvents

datatype protect_subscription_end = EndWindowComplete | EndMessageLimit | EndByteLimit | EndClosed | EndFailed

datatype protect_subscription_message = TextMessage string | BinaryMessage bytes

record protect_subscription_batch =
  sb_messages :: "protect_subscription_message list"
  sb_end :: protect_subscription_end
  sb_received_bytes :: nat
  sb_omitted_message_bytes :: "nat option"
  sb_close_code :: "u16 option"
  sb_close_reason :: "string option"
  sb_error :: "bounded_message option"

text \<open>
  What one turn of the loop gets from the socket within the window: the window ends, the stream
  ends or fails (a \<open>Capacity\<close> error or another), or a message arrives; a ping is answered by a flush
  that completes, fails or does not return in the window. A socket is the list of its turns; one
  whose turns are used up is quiet until the window ends.
\<close>

datatype flush_outcome = Flushed | FlushFailed string | FlushElapsed

datatype socket_turn =
    Elapsed | StreamEnded | StreamError bool string
  | GotMessage protect_subscription_message
  | GotClose "(u16 \<times> string) option"
  | GotPing flush_outcome | GotPong

fun message_bytes :: "protect_subscription_message \<Rightarrow> nat" where
  "message_bytes (TextMessage t) = length t"
| "message_bytes (BinaryMessage b) = length b"

definition empty_batch :: protect_subscription_batch where
  "empty_batch =
     \<lparr>sb_messages = [], sb_end = EndWindowComplete, sb_received_bytes = 0, sb_omitted_message_bytes = None,
      sb_close_code = None, sb_close_reason = None, sb_error = None\<rparr>"

definition failed_batch :: "string \<Rightarrow> protect_subscription_batch \<Rightarrow> protect_subscription_batch" where
  "failed_batch err batch = batch\<lparr>sb_end := EndFailed, sb_error := Some (bounded_new err)\<rparr>"

definition omitted_batch :: "nat \<Rightarrow> protect_subscription_batch \<Rightarrow> protect_subscription_batch" where
  "omitted_batch n batch =
     batch\<lparr>sb_end := EndByteLimit, sb_omitted_message_bytes := Some n,
       sb_error := Some (bounded_new
         ''the next complete upstream message exceeds the remaining subscription byte budget'')\<rparr>"

fun observe_loop ::
  "nat \<Rightarrow> nat \<Rightarrow> socket_turn list \<Rightarrow> protect_subscription_batch \<Rightarrow> protect_subscription_batch" where
  "observe_loop max_messages max_bytes [] batch = batch"
| "observe_loop max_messages max_bytes (turn # turns) batch =
     (case turn of
        Elapsed \<Rightarrow> batch
      | StreamEnded \<Rightarrow> batch\<lparr>sb_end := EndClosed\<rparr>
      | StreamError capacity err \<Rightarrow>
          (failed_batch err batch)\<lparr>sb_end := if capacity then EndByteLimit else EndFailed\<rparr>
      | GotClose frame \<Rightarrow>
          (case frame of
             None \<Rightarrow> batch\<lparr>sb_end := EndClosed\<rparr>
           | Some (code, reason) \<Rightarrow>
               batch\<lparr>sb_end := EndClosed, sb_close_code := Some code, sb_close_reason := Some reason\<rparr>)
      | GotPing Flushed \<Rightarrow> observe_loop max_messages max_bytes turns batch
      | GotPing FlushElapsed \<Rightarrow> batch
      | GotPing (FlushFailed err) \<Rightarrow> failed_batch err batch
      | GotPong \<Rightarrow> observe_loop max_messages max_bytes turns batch
      | GotMessage m \<Rightarrow>
          (if message_bytes m > max_bytes - sb_received_bytes batch
           then omitted_batch (message_bytes m) batch
           else
             let batch = batch\<lparr>sb_received_bytes := sb_received_bytes batch + message_bytes m,
                               sb_messages := sb_messages batch @ [m]\<rparr>
             in if length (sb_messages batch) = max_messages then batch\<lparr>sb_end := EndMessageLimit\<rparr>
                else if sb_received_bytes batch = max_bytes then batch\<lparr>sb_end := EndByteLimit\<rparr>
                else observe_loop max_messages max_bytes turns batch))"

text \<open>
  The library between the request and the socket: a fresh key, the accept key it expects, the header
  values of a response, the upgrade, and the turns of the upgraded socket within the window.
\<close>

record 'e socket_library =
  fresh_key :: "'e \<Rightarrow> string"
  accept_key :: "string \<Rightarrow> string"
  header_values :: "response \<Rightarrow> string \<Rightarrow> string option list"
  upgrade :: "response \<Rightarrow> nat \<Rightarrow> string + socket_turn list"

primrec subscription_route :: "protect_subscription_source \<Rightarrow> string" where
  "subscription_route SourceDevices = ''devices''"
| "subscription_route SourceEvents = ''events''"

definition valid_token :: "('e, 'y) socket_library_scheme \<Rightarrow> response \<Rightarrow> string \<Rightarrow> string \<Rightarrow> bool" where
  "valid_token lib response name expected =
     list_ex (\<lambda>token. eq_ignore_ascii_case (trim token) expected)
       (concat (map (split_on CHR '','') (List.map_filter id (header_values lib response name))))"

definition valid_upgrade :: "('e, 'y) socket_library_scheme \<Rightarrow> string \<Rightarrow> response \<Rightarrow> bool" where
  "valid_upgrade lib key response \<longleftrightarrow>
     valid_token lib response ''connection'' ''upgrade''
     \<and> valid_token lib response ''upgrade'' ''websocket''
     \<and> (case header_values lib response ''sec-websocket-accept'' of
          Some v # _ \<Rightarrow> v = accept_key lib key
        | _ \<Rightarrow> False)"

definition subscription_socket ::
  "('e, 'y) socket_library_scheme \<Rightarrow> ('e, 'x) protect_client_scheme \<Rightarrow> protect_subscription_source \<Rightarrow> nat
     \<Rightarrow> ('e, 'w, socket_turn list) api_call" where
  "subscription_socket lib pc source max_bytes w =
     (let key = fresh_key lib (env w)
      in bind_io
           (return_io (map_ok
              (\<lambda>r. r\<lparr>rq_headers := rq_headers r @
                 [(''connection'', ''Upgrade''), (''upgrade'', ''websocket''), (''sec-websocket-version'', ''13''),
                  (''sec-websocket-key'', key)]\<rparr>)
              (protect_request pc GET [''subscribe'', subscription_route source])))
           (\<lambda>request. bind_io (send_request pc request) (\<lambda>response.
              return_io
                (if rs_status response \<noteq> 101
                 then (if rs_status response = 429 then Inl (rate_limited_error (ext_b64 pc) response)
                       else bind_res (read_bounded_body response) (\<lambda>body.
                              Inl (Status (rs_status response) (from_controller_bytes (ext_b64 pc) body))))
                 else if \<not> valid_upgrade lib key response
                 then Inl (Transport (bounded_new
                        ''upstream WebSocket upgrade headers failed protocol validation''))
                 else map_err (\<lambda>err. Transport (bounded_new err)) (upgrade lib response max_bytes)))) w)"

text \<open>
  \<open>connected\<close> is tokio's timer around the connection: \<open>None\<close> when it used up the window.
\<close>

definition valid_observation :: "duration \<Rightarrow> nat \<Rightarrow> nat \<Rightarrow> bool" where
  "valid_observation window max_messages max_bytes \<longleftrightarrow>
     0 < window \<and> window \<le> from_secs 20 \<and> max_messages \<in> {1..200} \<and> max_bytes \<in> {1..MAXIMUM_RESPONSE_BYTES}"

definition observe_updates ::
  "((('e, 'w) net_scheme \<Rightarrow> (api_error + socket_turn list) \<times> ('e, 'w) net_scheme) \<Rightarrow> ('e, 'w) net_scheme
       \<Rightarrow> (api_error + socket_turn list) option \<times> ('e, 'w) net_scheme)
     \<Rightarrow> ('e, 'y) socket_library_scheme \<Rightarrow> ('e, 'x) protect_client_scheme \<Rightarrow> protect_subscription_source
     \<Rightarrow> duration \<Rightarrow> nat \<Rightarrow> nat \<Rightarrow> ('e, 'w, protect_subscription_batch) api_call" where
  "observe_updates within_window lib pc source window max_messages max_bytes w =
     (if \<not> valid_observation window max_messages max_bytes
      then (Inl (Config (''subscription duration must be positive and at most 20 seconds, maxMessages 1-200, '' @
              ''and maxBytes 1-4194304'')), w)
      else case within_window (subscription_socket lib pc source max_bytes) w of
             (None, w) \<Rightarrow>
               (Inl (Transport (bounded_new ''subscription connection exceeded the requested observation window'')), w)
           | (Some (Inl err), w) \<Rightarrow> (Inl err, w)
           | (Some (Inr turns), w) \<Rightarrow> (Inr (observe_loop max_messages max_bytes turns empty_batch), w))"

section \<open>What the operations put on the wire\<close>

text \<open>A request of this client: to its own console, below the Protect prefix and with its key.\<close>

definition console_request :: "('e, 'x) protect_client_scheme \<Rightarrow> request \<Rightarrow> bool" where
  "console_request pc r \<longleftrightarrow>
     url_base (rq_url r) = px_base pc
     \<and> take 4 (url_segments (rq_url r)) = protect_prefix
     \<and> (''X-API-Key'', px_api_key pc) \<in> set (rq_headers r)"

definition console_read :: "('e, 'x) protect_client_scheme \<Rightarrow> io_event list \<Rightarrow> bool" where
  "console_read pc tr \<longleftrightarrow>
     tr = [] \<or>
     (\<exists>r. console_request pc r \<and> rq_method r = GET \<and> rq_body r = None
        \<and> (tr = [Sent r] \<or> (\<exists>d\<le>MAXIMUM_RETRY_AFTER. tr = [Sent r, Slept d, Sent r])))"

definition console_write :: "('e, 'x) protect_client_scheme \<Rightarrow> io_event list \<Rightarrow> bool" where
  "console_write pc tr \<longleftrightarrow>
     tr = [] \<or> (\<exists>r. console_request pc r \<and> rq_method r \<noteq> GET \<and> tr = [Sent r])"

lemma console_traces_Nil [simp]: "console_read pc []" "console_write pc []"
  by (simp_all add: console_read_def console_write_def)

text \<open>What one call adds to the trace, as a contract and its rules.\<close>

definition adds :: "(io_event list \<Rightarrow> bool) \<Rightarrow> ('e, 'w, 'a) api_call \<Rightarrow> bool" where
  "adds P m \<longleftrightarrow> (\<forall>w. \<exists>tr. trace (snd (m w)) = trace w @ tr \<and> P tr)"

named_theorems wire_rules "how a call of the client adds to the trace"

lemma addsD: "adds P m \<Longrightarrow> \<exists>tr. trace (snd (m w)) = trace w @ tr \<and> P tr"
  by (simp add: adds_def)

lemma adds_map [wire_rules]: "adds P m \<Longrightarrow> adds P (map_io f m)"
  by (simp add: adds_def)

lemma adds_then_pure: "adds P m \<Longrightarrow> (\<And>a w. snd (f a w) = w) \<Longrightarrow> adds P (bind_io m f)"
  by (simp add: adds_def snd_bind_io_pure)

lemma adds_checked: "P [] \<Longrightarrow> (\<And>a. r = Inr a \<Longrightarrow> adds P (f a)) \<Longrightarrow> adds P (bind_io (return_io r) f)"
  by (cases r) (auto simp: adds_def bind_io_def intro: exI [of _ "[]"])

lemma adds_checked_id [wire_rules]: "P [] \<Longrightarrow> adds P m \<Longrightarrow> adds P (checked_id route ident m)"
  unfolding checked_id_def by (rule adds_checked)

lemma bind_res_map_ok: "bind_res (map_ok f r) g = bind_res r (\<lambda>a. g (f a))"
  by (cases r) simp_all

lemma protect_send_is_send: "protect_send X r = send X r"
  unfolding protect_send_def send_def bounded_error_message_def bind_res_map_ok by (rule refl)

lemma console_request_with_query:
  assumes "protect_request_with_query pc verb segments query = Inr r"
  shows "console_request pc r \<and> rq_method r = verb \<and> rq_body r = None
     \<and> url_segments (rq_url r) = protect_prefix @ segments \<and> url_query (rq_url r) = query"
proof -
  from assms obtain u where u: "build_url (px_base pc) (protect_prefix @ segments) query = Inr u"
    and r: "r = \<lparr>rq_method = verb, rq_url = u,
       rq_headers = [(''X-API-Key'', px_api_key pc), (''accept'', ''application/json'')], rq_body = None\<rparr>"
    by (auto simp: protect_request_with_query_def bind_res_eq_Inr)
  from u have "u = \<lparr>url_base = px_base pc, url_segments = protect_prefix @ segments, url_query = query\<rparr>"
    unfolding build_url_iff by blast
  with r show ?thesis by (simp add: console_request_def protect_prefix_def)
qed

lemma protect_get_adds [wire_rules]: "adds (console_read pc) (protect_get_with_response dec check pc segments)"
  unfolding protect_get_with_response_def
proof (rule adds_checked)
  fix r assume "protect_request pc GET segments = Inr r"
  then have ok: "console_request pc r" "rq_method r = GET" "rq_body r = None"
    by (simp_all add: console_request_with_query protect_request_def)
  show "adds (console_read pc) (bind_io
      (\<lambda>w. case protect_send pc r w of
             (Inr response, w) \<Rightarrow> (Inr response, w)
           | (Inl err, w) \<Rightarrow>
               (case retry_delay err of
                  Some delay \<Rightarrow> protect_send pc r (sleep pc delay w)
                | None \<Rightarrow> (Inl err, w)))
      (\<lambda>response.
         return_io
           (bind_res (read_bounded_body response) (\<lambda>body.
            bind_res (decode_json dec (ext_b64 pc) (endpoint_name segments) body) (\<lambda>v.
            bind_res (map_err (\<lambda>e. with_controller_response (ext_b64 pc) e body) (check v)) (\<lambda>_.
              Inr (v, body)))))))"
  proof (rule adds_then_pure)
    show "adds (console_read pc)
        (\<lambda>w. case protect_send pc r w of
               (Inr response, w) \<Rightarrow> (Inr response, w)
             | (Inl err, w) \<Rightarrow>
                 (case retry_delay err of
                    Some delay \<Rightarrow> protect_send pc r (sleep pc delay w)
                  | None \<Rightarrow> (Inl err, w)))"
      unfolding adds_def
    proof
      fix w
      obtain res w1 where first: "protect_send pc r w = (res, w1)" by (metis surj_pair)
      then have "trace w1 = trace w @ [Sent r]" by (metis protect_send_is_send snd_conv trace_send)
      with first ok show "\<exists>tr. trace (snd (case protect_send pc r w of
             (Inr response, w) \<Rightarrow> (Inr response, w)
           | (Inl err, w) \<Rightarrow>
               (case retry_delay err of
                  Some delay \<Rightarrow> protect_send pc r (sleep pc delay w)
                | None \<Rightarrow> (Inl err, w)))) = trace w @ tr \<and> console_read pc tr"
        unfolding console_read_def
        by (auto simp: protect_send_is_send dest: retry_delay_bound split: sum.split option.split)
    qed
  qed simp
qed simp

lemma protect_accepted_adds:
  assumes "\<And>r. request = Inr r \<Longrightarrow> console_request pc r \<and> rq_method r \<noteq> GET"
  shows "adds (console_write pc) (protect_accepted pc request)"
  unfolding protect_accepted_def
proof (rule adds_checked)
  fix r assume r: "request = Inr r"
  have "adds (console_write pc) (protect_send pc r)"
    using assms [OF r] by (simp add: adds_def protect_send_is_send console_write_def)
  then show "adds (console_write pc) (bind_io (protect_send pc r) (\<lambda>response.
      return_io (map_ok (\<lambda>body. (rs_status response, body)) (read_bounded_body response))))"
    by (rule adds_then_pure) simp
qed simp

lemma console_request_body: "console_request pc r \<Longrightarrow> console_request pc (r\<lparr>rq_body := b\<rparr>)"
  by (simp add: console_request_def)

lemma with_json_console:
  assumes "with_json request body = Inr r" and "\<And>r. request = Inr r \<Longrightarrow> console_request pc r \<and> rq_method r \<noteq> GET"
  shows "console_request pc r \<and> rq_method r \<noteq> GET"
  using assms by (auto simp: with_json_def map_ok_eq_Inr console_request_body)

lemma console_request_plain:
  "protect_request pc verb segments = Inr r \<Longrightarrow> verb \<noteq> GET \<Longrightarrow> console_request pc r \<and> rq_method r \<noteq> GET"
  by (simp add: protect_request_def console_request_with_query)

lemma arm_target_verb: "arm_target route = Inr (verb, segments) \<Longrightarrow> verb \<noteq> GET"
  by (cases route) (auto simp: bind_res_eq_Inr)

lemma with_optional_json_console:
  "with_optional_json (protect_request pc verb segments) body = Inr r \<Longrightarrow> verb \<noteq> GET
     \<Longrightarrow> console_request pc r \<and> rq_method r \<noteq> GET"
  using console_request_plain [of pc verb segments] with_json_console [of "protect_request pc verb segments" _ r pc]
  by (cases body) (simp_all add: with_optional_json_def)

lemma json_write_adds [wire_rules]:
  "verb \<noteq> GET \<Longrightarrow> adds (console_write pc) (protect_accepted pc (with_json (protect_request pc verb segments) body))"
  by (rule protect_accepted_adds, erule with_json_console, erule console_request_plain)

lemma plain_write_adds [wire_rules]:
  "verb \<noteq> GET \<Longrightarrow> adds (console_write pc) (protect_accepted pc (protect_request pc verb segments))"
  by (rule protect_accepted_adds, erule console_request_plain)

lemma query_write_adds [wire_rules]:
  "verb \<noteq> GET \<Longrightarrow> adds (console_write pc) (protect_accepted pc (protect_request_with_query pc verb segments query))"
  by (rule protect_accepted_adds) (simp add: console_request_with_query)

lemma send_json_once_adds [wire_rules]:
  fixes request :: "api_error + request" and X :: "('e, 'x) externals_scheme"
  assumes "adds P (protect_accepted X request :: ('e, 'w, nat \<times> bytes) api_call)"
  shows "adds P (send_json_once dec X request route :: ('e, 'w, 'a \<times> nat \<times> bytes) api_call)"
  unfolding send_json_once_def using assms by (rule adds_then_pure) (simp split: prod.split)

text \<open>Every read and every write of the client, as a change of the world.\<close>

inductive protect_read ::
  "('e, 'x) protect_client_scheme \<Rightarrow> (('e, 'w) net_scheme \<Rightarrow> ('e, 'w) net_scheme) \<Rightarrow> bool" for pc where
  "protect_read pc (\<lambda>w. snd (protect_info pc w))"
| "protect_read pc (\<lambda>w. snd (protect_info_record pc w))"
| "protect_read pc (\<lambda>w. snd (protect_nvr_record pc w))"
| "protect_read pc (\<lambda>w. snd (protect_cameras_with_response pc w))"
| "protect_read pc (\<lambda>w. snd (protect_cameras pc w))"
| "protect_read pc (\<lambda>w. snd (protect_camera_by_id pc cid w))"
| "protect_read pc (\<lambda>w. snd (camera_with_response pc cid w))"
| "protect_read pc (\<lambda>w. snd (camera_raw pc cid w))"
| "protect_read pc (\<lambda>w. snd (animation_assets pc w))"
| "protect_read pc (\<lambda>w. snd (protect_devices pc fam w))"
| "protect_read pc (\<lambda>w. snd (protect_device pc fam rid w))"
| "protect_read pc (\<lambda>w. snd (arm_profiles pc w))"
| "protect_read pc (\<lambda>w. snd (protect_users pc ufam w))"
| "protect_read pc (\<lambda>w. snd (protect_user pc ufam rid w))"
| "protect_read pc (\<lambda>w. snd (viewers pc w))"
| "protect_read pc (\<lambda>w. snd (viewer pc rid w))"
| "protect_read pc (\<lambda>w. snd (liveviews pc w))"
| "protect_read pc (\<lambda>w. snd (liveview pc rid w))"
| "protect_read pc (\<lambda>w. snd (camera_streams pc cid w))"
| "protect_read pc (\<lambda>w. snd (camera_snapshot pc cid channel high w))"
| "protect_read pc (\<lambda>w. snd (protect_nvr_with_response pc w))"
| "protect_read pc (\<lambda>w. snd (protect_nvr_read pc w))"
| "protect_read pc (\<lambda>w. snd (availability pc w))"

inductive protect_write ::
  "('e, 'x) protect_client_scheme \<Rightarrow> (('e, 'w) net_scheme \<Rightarrow> ('e, 'w) net_scheme) \<Rightarrow> bool" for pc where
  "protect_write pc (\<lambda>w. snd (camera_disable_mic pc cid w))"
| "protect_write pc (\<lambda>w. snd (animation_asset_upload pc name mime content w))"
| "protect_write pc (\<lambda>w. snd (device_settings_patch pc fam rid changes w))"
| "protect_write pc (\<lambda>w. snd (device_action pc rid route body w))"
| "protect_write pc (\<lambda>w. snd (arm_operation pc aroute body w))"
| "protect_write pc (\<lambda>w. snd (camera_pos_transaction pc cid transaction w))"
| "protect_write pc (\<lambda>w. snd (viewer_settings_patch pc rid changes w))"
| "protect_write pc (\<lambda>w. snd (liveview_create pc configuration w))"
| "protect_write pc (\<lambda>w. snd (liveview_patch pc rid changes w))"
| "protect_write pc (\<lambda>w. snd (camera_settings_patch_with_response pc cid patch w))"
| "protect_write pc (\<lambda>w. snd (camera_settings_patch pc cid patch w))"
| "protect_write pc (\<lambda>w. snd (camera_ptz pc cid command w))"
| "protect_write pc (\<lambda>w. snd (camera_streams_create pc cid qualities w))"
| "protect_write pc (\<lambda>w. snd (camera_streams_delete pc cid qualities w))"
| "protect_write pc (\<lambda>w. snd (camera_talkback_session pc cid w))"

lemma protect_plain_get_adds [wire_rules]: "adds (console_read pc) (protect_get dec check pc segments)"
  unfolding protect_get_def by (intro wire_rules)

lemma resource_reads_add [wire_rules]:
  "adds (console_read pc) (resource_list pc route path)"
  "adds (console_read pc) (resource_by_id pc route path rid)"
  unfolding resource_list_def resource_by_id_def by (intro wire_rules console_traces_Nil)+

lemma protect_camera_reads_add:
  "adds (console_read pc) (camera_with_response pc cid)"
  "adds (console_read pc) (camera_raw pc cid)"
  "adds (console_read pc) (camera_streams pc cid)"
  unfolding camera_with_response_def camera_raw_def camera_streams_def
  by (intro wire_rules adds_then_pure console_traces_Nil; simp split: prod.split)+

lemma camera_snapshot_adds: "adds (console_read pc) (camera_snapshot pc cid channel high)"
  unfolding camera_snapshot_def
proof (rule adds_checked)
  fix u assume u: "build_url (px_base pc) (protect_prefix @ [''cameras'', cid, ''snapshot''])
      [(''channel'', channel), (''highQuality'', show_bool high)] = Inr u"
  let ?r = "\<lparr>rq_method = GET, rq_url = u,
      rq_headers = [(''X-API-Key'', px_api_key pc), (''accept'', ''image/jpeg'')], rq_body = None\<rparr>"
  from u have "console_request pc ?r"
    by (simp add: build_url_iff console_request_def protect_prefix_def)
  then have "adds (console_read pc) (protect_send pc ?r)"
    unfolding adds_def protect_send_is_send trace_send console_read_def
    by (intro allI exI [of _ "[Sent ?r]"]) auto
  then show "adds (console_read pc) (bind_io (protect_send pc ?r) (\<lambda>response. return_io (read_jpeg (ext_b64 pc) response)))"
    by (rule adds_then_pure) simp
qed simp

lemma snd_availability: "snd (availability pc w) = snd (protect_info pc w)"
  by (auto simp: availability_def split: prod.split sum.split api_error.split)

lemma availability_adds: "adds (console_read pc) (availability pc)"
  using wire_rules by (simp add: adds_def snd_availability protect_info_def)

lemma protect_reads_add:
  "adds (console_read pc) (protect_info pc)" "adds (console_read pc) (protect_info_record pc)"
  "adds (console_read pc) (protect_nvr_record pc)" "adds (console_read pc) (protect_cameras_with_response pc)"
  "adds (console_read pc) (protect_cameras pc)" "adds (console_read pc) (protect_camera_by_id pc cid)"
  "adds (console_read pc) (animation_assets pc)" "adds (console_read pc) (protect_devices pc fam)"
  "adds (console_read pc) (protect_device pc fam rid)" "adds (console_read pc) (arm_profiles pc)"
  "adds (console_read pc) (protect_users pc ufam)" "adds (console_read pc) (protect_user pc ufam rid)"
  "adds (console_read pc) (viewers pc)" "adds (console_read pc) (viewer pc rid)"
  "adds (console_read pc) (liveviews pc)" "adds (console_read pc) (liveview pc rid)"
  "adds (console_read pc) (protect_nvr_with_response pc)" "adds (console_read pc) (protect_nvr_read pc)"
  unfolding protect_info_def protect_info_record_def protect_nvr_record_def protect_cameras_with_response_def
    protect_cameras_def protect_camera_by_id_def animation_assets_def protect_devices_def protect_device_def
    arm_profiles_def protect_users_def protect_user_def viewers_def viewer_def liveviews_def liveview_def
    protect_nvr_with_response_def protect_nvr_read_def
  by (intro wire_rules)+

lemma routed_writes_add:
  "adds (console_write pc) (device_action pc rid route body)"
  "adds (console_write pc) (arm_operation pc aroute body)"
  "adds (console_write pc) (camera_ptz pc cid command)"
  "adds (console_write pc) (animation_asset_upload pc name mime content)"
  unfolding device_action_def arm_operation_def camera_ptz_def animation_asset_upload_def
  by (intro wire_rules console_traces_Nil protect_accepted_adds adds_checked;
      auto simp: bind_res_eq_Inr dest!: with_optional_json_console console_request_plain arm_target_verb)+

lemma patched_writes_add:
  "adds (console_write pc) (camera_disable_mic pc cid)"
  "adds (console_write pc) (device_settings_patch pc fam rid changes)"
  "adds (console_write pc) (viewer_settings_patch pc rid changes)"
  "adds (console_write pc) (liveview_create pc configuration)"
  "adds (console_write pc) (liveview_patch pc rid changes)"
  "adds (console_write pc) (camera_talkback_session pc cid)"
  "adds (console_write pc) (camera_pos_transaction pc cid transaction)"
  "adds (console_write pc) (camera_settings_patch_with_response pc cid patch)"
  "adds (console_write pc) (camera_streams_create pc cid qualities)"
  "adds (console_write pc) (camera_streams_delete pc cid qualities)"
  unfolding camera_disable_mic_def device_settings_patch_def viewer_settings_patch_def liveview_create_def
    liveview_patch_def camera_talkback_session_def camera_pos_transaction_def camera_settings_patch_with_response_def
    camera_streams_create_def camera_streams_delete_def
  by (intro wire_rules console_traces_Nil adds_then_pure adds_checked; simp split: prod.split)+

lemma camera_settings_patch_adds: "adds (console_write pc) (camera_settings_patch pc cid patch)"
  using patched_writes_add(8) unfolding adds_def camera_settings_patch_def snd_map_io .

text \<open>
  Every one of the reads of a Protect console sends one \<open>GET\<close> to that console with its key, or that
  same \<open>GET\<close> twice with one pause of at most ten seconds in between.
\<close>

theorem protect_reads_are_bounded:
  assumes "protect_read pc run"
  shows "\<exists>tr. trace (run w) = trace w @ tr \<and> console_read pc tr"
  using assms
  by cases (simp_all only: addsD [OF protect_reads_add(1)] addsD [OF protect_reads_add(2)]
      addsD [OF protect_reads_add(3)] addsD [OF protect_reads_add(4)] addsD [OF protect_reads_add(5)]
      addsD [OF protect_reads_add(6)] addsD [OF protect_reads_add(7)] addsD [OF protect_reads_add(8)]
      addsD [OF protect_reads_add(9)] addsD [OF protect_reads_add(10)] addsD [OF protect_reads_add(11)]
      addsD [OF protect_reads_add(12)] addsD [OF protect_reads_add(13)] addsD [OF protect_reads_add(14)]
      addsD [OF protect_reads_add(15)] addsD [OF protect_reads_add(16)] addsD [OF protect_reads_add(17)]
      addsD [OF protect_reads_add(18)] addsD [OF protect_camera_reads_add(1)] addsD [OF protect_camera_reads_add(2)]
      addsD [OF protect_camera_reads_add(3)] addsD [OF camera_snapshot_adds] addsD [OF availability_adds])

text \<open>
  C4. Every one of the fifteen writes to a Protect console puts at most one request on the wire, to that
  console with its key, whatever the console or the network answers: an action is never repeated.
\<close>

theorem protect_writes_are_sent_once:
  assumes "protect_write pc run"
  shows "\<exists>tr. trace (run w) = trace w @ tr \<and> console_write pc tr"
  using assms
  by cases (simp_all only: addsD [OF routed_writes_add(1)] addsD [OF routed_writes_add(2)]
      addsD [OF routed_writes_add(3)] addsD [OF routed_writes_add(4)] addsD [OF patched_writes_add(1)]
      addsD [OF patched_writes_add(2)] addsD [OF patched_writes_add(3)] addsD [OF patched_writes_add(4)]
      addsD [OF patched_writes_add(5)] addsD [OF patched_writes_add(6)] addsD [OF patched_writes_add(7)]
      addsD [OF camera_settings_patch_adds] addsD [OF patched_writes_add(8)] addsD [OF patched_writes_add(9)] addsD [OF patched_writes_add(10)])

definition canned_console :: "(string + response) \<Rightarrow> unit protect_client" where
  "canned_console answer =
     \<lparr>ext_send = (\<lambda>_ e. (answer, e)), ext_now = (\<lambda>_. 0), ext_sleep = (\<lambda>_ e. e), ext_value = (\<lambda>_. Inl ''x''),
      ext_b64 = id, ext_lowercase = id, px_base = \<lparr>base_origin = ''https://console'', cannot_be_a_base = False\<rparr>,
      px_api_key = ''key'',
      px_dec = \<lparr>dec_application = (\<lambda>_. Inr (''6.0'', None)), dec_value = (\<lambda>_. Inr (JNull, None)),
        dec_values = (\<lambda>_. Inr ([], None)), dec_camera = (\<lambda>_. Inl (DataFault ''id'')),
        dec_cameras = (\<lambda>_. Inr ([], None)), dec_nvr = (\<lambda>_. Inl (DataFault ''id'')),
        dec_streams = (\<lambda>_. Inl (DataFault ''high'')), dec_talkback = (\<lambda>_. Inl (DataFault ''url'')),
        form_body = (\<lambda>_ _ _. Inr JNull)\<rparr>\<rparr>"

theorem protect_reads_are_bounded_witness:
  "\<exists>tr. trace (snd (viewer (canned_console (Inl ''down'')) ''id'' \<lparr>env = (), trace = []\<rparr>)) = [] @ tr
      \<and> console_read (canned_console (Inl ''down'')) tr"
  using protect_reads_are_bounded [OF protect_read.intros(16), of "canned_console (Inl ''down'')" "''id''"
      "\<lparr>env = (), trace = []\<rparr>"] by simp

theorem protect_writes_are_sent_once_witness:
  "\<exists>tr. trace (snd (camera_disable_mic (canned_console (Inl ''down'')) ''id'' \<lparr>env = (), trace = []\<rparr>)) = [] @ tr
      \<and> console_write (canned_console (Inl ''down'')) tr"
  using protect_writes_are_sent_once [OF protect_write.intros(1), of "canned_console (Inl ''down'')" "''id''"
      "\<lparr>env = (), trace = []\<rparr>"] by simp

section \<open>Finite observations\<close>

text \<open>The messages a socket delivers before it ends, fails or the window is over.\<close>

fun delivered :: "socket_turn list \<Rightarrow> protect_subscription_message list" where
  "delivered (GotMessage m # turns) = m # delivered turns"
| "delivered (GotPong # turns) = delivered turns"
| "delivered (GotPing Flushed # turns) = delivered turns"
| "delivered _ = []"

definition total_bytes :: "protect_subscription_message list \<Rightarrow> nat" where
  "total_bytes ms = sum_list (map message_bytes ms)"

lemma total_bytes_simps [simp]:
  "total_bytes [] = 0" "total_bytes (m # ms) = message_bytes m + total_bytes ms"
  "total_bytes (ms @ ms') = total_bytes ms + total_bytes ms'"
  by (simp_all add: total_bytes_def)

text \<open>A batch that has room for more, and what the loop may make of it.\<close>

definition within_limits :: "nat \<Rightarrow> nat \<Rightarrow> protect_subscription_batch \<Rightarrow> bool" where
  "within_limits n limit b \<longleftrightarrow>
     sb_received_bytes b = total_bytes (sb_messages b) \<and> sb_received_bytes b \<le> limit \<and> length (sb_messages b) \<le> n"

definition observed ::
  "nat \<Rightarrow> nat \<Rightarrow> protect_subscription_message list \<Rightarrow> protect_subscription_message list
     \<Rightarrow> protect_subscription_batch \<Rightarrow> bool" where
  "observed n limit before pending b \<longleftrightarrow>
     within_limits n limit b
     \<and> (\<exists>k. sb_messages b = before @ take k pending
          \<and> (case drop k pending of
               [] \<Rightarrow> True
             | m # _ \<Rightarrow>
                 (sb_end b = EndMessageLimit \<and> length (sb_messages b) = n)
                 \<or> (sb_end b = EndByteLimit
                    \<and> (sb_received_bytes b = limit
                       \<or> sb_omitted_message_bytes b = Some (message_bytes m)
                         \<and> limit < sb_received_bytes b + message_bytes m))))"

lemma observed_cons: "observed n limit (before @ [m]) pending b \<Longrightarrow> observed n limit before (m # pending) b"
  unfolding observed_def by (elim conjE exE) (rule conjI, assumption, rule_tac x = "Suc k" in exI, simp)

lemma observe_loop_observed:
  assumes "within_limits n limit b" and "length (sb_messages b) < n" and "sb_received_bytes b < limit"
  shows "observed n limit (sb_messages b) (delivered turns) (observe_loop n limit turns b)"
  using assms
proof (induction turns arbitrary: b rule: delivered.induct)
  case (1 m turns)
  show ?case
  proof (cases "message_bytes m > limit - sb_received_bytes b")
    case True
    with 1 show ?thesis
      by (auto simp: observed_def within_limits_def omitted_batch_def intro!: exI [of _ 0])
  next
    case False
    let ?b = "b\<lparr>sb_received_bytes := sb_received_bytes b + message_bytes m, sb_messages := sb_messages b @ [m]\<rparr>"
    from False 1 have ok: "within_limits n limit ?b" by (auto simp: within_limits_def)
    consider "length (sb_messages ?b) = n" | "length (sb_messages ?b) \<noteq> n" "sb_received_bytes ?b = limit"
      | "length (sb_messages ?b) < n" "sb_received_bytes ?b < limit"
      using ok unfolding within_limits_def by linarith
    then show ?thesis
    proof cases
      case 3
      from 1(1) [OF ok 3] have "observed n limit (sb_messages b @ [m]) (delivered turns) (observe_loop n limit turns ?b)"
        by simp
      moreover have "observe_loop n limit (GotMessage m # turns) b = observe_loop n limit turns ?b"
        using False 3 by (simp add: Let_def)
      ultimately show ?thesis by (simp only: delivered.simps observed_cons)
    qed (use ok False in \<open>auto simp: observed_def within_limits_def Let_def intro!: exI [of _ 1] split: list.split\<close>)
  qed
next
  case (2 turns)
  then show ?case by simp
next
  case (3 turns)
  then show ?case by simp
qed (auto simp: observed_def within_limits_def failed_batch_def intro!: exI [of _ 0] split: option.split)

text \<open>
  C37. A finite observation returns what the stream delivered, in order and from the start, within both
  limits and with the true number of bytes; where it leaves a delivered message out, it says so: the
  message limit is reached, the byte budget is used up, or the next message is larger than what is
  left of the budget and its size is given.
\<close>

theorem observation_is_a_bounded_prefix:
  assumes "fst (observe_updates within_window lib pc source window n limit w) = Inr b"
  shows "\<exists>turns. fst (within_window (subscription_socket lib pc source limit) w) = Some (Inr turns)
     \<and> observed n limit [] (delivered turns) b"
proof -
  from assms obtain turns where "valid_observation window n limit"
    and "fst (within_window (subscription_socket lib pc source limit) w) = Some (Inr turns)"
    and b: "b = observe_loop n limit turns empty_batch"
    by (auto simp: observe_updates_def split: if_splits prod.splits option.splits sum.splits)
  moreover then have "observed n limit [] (delivered turns) b"
    using observe_loop_observed [of n limit empty_batch turns]
    by (simp add: empty_batch_def within_limits_def valid_observation_def)
  ultimately show ?thesis by blast
qed

definition sample_socket :: "unit socket_library" where
  "sample_socket =
     \<lparr>fresh_key = (\<lambda>_. ''k''), accept_key = id,
      header_values = (\<lambda>_ name. if name = ''connection'' then [Some ''keep-alive, Upgrade'']
        else if name = ''upgrade'' then [Some ''websocket''] else [Some ''k'']),
      upgrade = (\<lambda>_ _. Inr [GotPong, GotMessage (TextMessage ''abc''), GotMessage (BinaryMessage ''de'')])\<rparr>"

definition unhurried :: "('w \<Rightarrow> 'r \<times> 'w) \<Rightarrow> 'w \<Rightarrow> 'r option \<times> 'w" where
  "unhurried m w = (case m w of (r, w) \<Rightarrow> (Some r, w))"

theorem observation_is_a_bounded_prefix_witness:
  "\<exists>turns b. fst (observe_updates unhurried sample_socket
        (canned_console (Inr \<lparr>rs_status = 101, rs_header = (\<lambda>_. None), rs_chunks = []\<rparr>)) SourceEvents
        (from_secs 1) 200 4 \<lparr>env = (), trace = []\<rparr>) = Inr b
     \<and> sb_messages b = [TextMessage ''abc''] \<and> sb_omitted_message_bytes b = Some 2
     \<and> observed 200 4 [] (delivered turns) b"
proof -
  let ?pc = "canned_console (Inr \<lparr>rs_status = 101, rs_header = (\<lambda>_. None), rs_chunks = []\<rparr>)"
  let ?run = "observe_updates unhurried sample_socket ?pc SourceEvents (from_secs 1) 200 4 \<lparr>env = (), trace = []\<rparr>"
  have "valid_upgrade sample_socket ''k'' \<lparr>rs_status = 101, rs_header = (\<lambda>_. None), rs_chunks = []\<rparr>"
    by code_simp
  then obtain b where b: "fst ?run = Inr b" "sb_messages b = [TextMessage ''abc'']"
      "sb_omitted_message_bytes b = Some 2"
    by (simp add: observe_updates_def valid_observation_def unhurried_def subscription_socket_def bind_io_def
        protect_request_def protect_request_with_query_def build_url_def canned_console_def send_request_def
        push_segments_spec invalid_segment_def protect_prefix_def from_secs_def MAXIMUM_RESPONSE_BYTES_def
        empty_batch_def omitted_batch_def sample_socket_def Let_def)
  from observation_is_a_bounded_prefix [OF b(1)] b show ?thesis by blast
qed

end
