(* ===== verification/Spec2Isabelle.thy ===== *)
theory Spec2Isabelle
  imports Protect_Paging Legacy_Operations Traffic System_Log Auth Collector Handler Mutation
    Pinning Portable Registry Tool_Configuration Tool_Network Tool_Statistics Tool_Dispatch Server_Config
    Protect_Client
begin

text \<open>
  \<^bold>\<open>A verification library for the UniFi MCP server.\<close>

  The program (\<open>src/crates\<close>) is a server that offers curated tools over two UniFi consoles. Its
  parts and how they interact:

  \<^item> \<open>unifi-api\<close> talks to the consoles. The legacy client keeps a cookie session (login, console
    detection, CSRF token, shared login failure) and reissues idempotent reads, never mutations;
    the Integration client carries an API key and repeats a rate-limited read once. On these sit
    the typed operations, Protect over the local session, the system log and traffic reports. The
    Protect client carries an API key as well and subscribes to updates over a websocket.
  \<^item> \<open>unifi-mcp\<close> turns tool calls into client operations: a registry of tools, the dispatch of a
    call under its identity, permit and deadline, the resolution of the configured site, read tools
    that page and summarise, and write tools that preview, write once and read back.
  \<^item> \<open>unifi-server\<close> authenticates callers, serves the transports and runs the collector that
    archives activity to a sink.

  \<^bold>\<open>Theories, in import order.\<close>

  \<^descr>[Prelude, Rust_Std] results and their combinators, ordered lookup, the parts of the Rust
    standard library the sources use (UTF-8 boundaries, integer parsing, trimming, joining).
  \<^descr>[Api_Error] \<open>unifi-api/src/error.rs\<close>: bounded messages and the error type.
  \<^descr>[Json] \<open>serde_json::Value\<close> as the workspace configures it: ordered maps, numbers as text.
  \<^descr>[Http] \<open>http.rs\<close>: bounded bodies, URL construction, retry timing, and the boundary to the
    outside: the HTTP stack, clock, JSON parser, Base64 and case table are fields of a record of
    parameters (\<open>externals\<close>), and what is done to the outside is a trace of requests and sleeps.
  \<^descr>[Legacy_Session, Legacy_Client, Legacy_Operations, Legacy_Protect] \<open>legacy.rs\<close> and
    \<open>legacy/*.rs\<close>: session state machine (an inductive step relation with its invariant), the
    request path, every operation, and Protect over the local session.
  \<^descr>[Models] \<open>models.rs\<close> and \<open>collection.rs\<close>: patches and their wire form, the DPI report, record
    fingerprints.
  \<^descr>[Protect_Paging, Traffic, System_Log] the paged and summed reads built on the legacy client.
  \<^descr>[Integration_Client, Integration_Operations] \<open>client.rs\<close>: request path and all operations.
  \<^descr>[Protect_Client] \<open>protect.rs\<close> and \<open>protect/subscription.rs\<close>: the client of the official Protect API, with
    every read and write, the checks of their answers, and the finite subscription to updates.
  \<^descr>[Handler] \<open>capability.rs\<close> and the site resolution of \<open>handler.rs\<close>.
  \<^descr>[Mutation, Registry] \<open>mutation.rs\<close> and \<open>registry.rs\<close>.
  \<^descr>[Pinning, Portable, Auth, Sink, Collector, Server_Config] certificate pinning, the independent
    transports, gateway authentication, the collector with its sink, and the settings of
    \<open>unifi-server/src/config.rs\<close>.
  \<^descr>[Tool_Runtime] what every handler of \<open>tools.rs\<close> runs on: client calls, argument parsing, the
    timed read-back, results that move long texts to content blocks, and the counting of writes.
  \<^descr>[Tool_Updates, Tool_Actions, Tool_Guests, Tool_Vouchers, Tool_Firewall, Tool_Policies,
    Tool_Configuration] the write tools: preview, one write, read-back, verdict, result.
  \<^descr>[Json_Match, Wire, Firewall_Request, Policy_Request] typed requests of
    \<open>tools/firewall_policy_request.rs\<close> and \<open>tools.rs\<close>, their JSON, and the comparison of a record read
    back with the request.
  \<^descr>[Tool_Lists, Tool_Search, Tool_Events, Tool_Network, Tool_Statistics] the read tools: listings,
    client and device search, the system log, the network reads, activity and WAN reports.
  \<^descr>[Tool_Dispatch] \<open>call_tool\<close> and \<open>call\<close>: from a request to the handler of its registry row.

  A handler \<open>x\<close> of the code is a definition \<open>x_outcome\<close> (what it decides and does) and a definition \<open>x\<close>
  that renders the outcome; where the code renders on the way, there is only \<open>x\<close>.

  \<^bold>\<open>Lemma groups.\<close> Session invariants and step relation (Legacy_Session); what a request may put on
  the wire (\<open>client_defs\<close>, \<open>io_bounds\<close> and the rules \<open>handler_rules\<close>, which follow the structure of a
  handler and bound its writes); accepted inputs of each validator (\<open>.._iff\<close>); what a verified read-back
  means (\<open>verified_..\<close>); exactness of pages, sums and rankings; reading back of typed requests
  (\<open>wire_reads\<close>); dispatch (\<open>read_handlers\<close>, \<open>write_handlers\<close>, \<open>unreadable_arguments\<close>); the worker over
  many rounds (\<open>collect_each_done\<close>, \<open>worker_round_done\<close>, \<open>passed_over\<close>).

  \<^bold>\<open>Interfaces.\<close> Locales, each interpreted on the definitions of the model: \<open>ordered_map_ops\<close> (ordered
  maps), \<open>request_attempt\<close>, \<open>writing_attempt\<close> and \<open>reading_attempt\<close> (one attempt of a legacy request),
  \<open>integration_reader\<close> and \<open>integration_writer\<close> (what an operation of the Integration client may put on
  the wire), \<open>spill_steps\<close> (results that lose nothing), \<open>omitting_wire\<close> and \<open>wire\<close> (types that can be
  read off a matching record), \<open>matched_policy\<close> (what a record matching a policy request holds), \<open>paged_listing\<close> (listings that can be followed to the end)
  and \<open>consenting_tool\<close> (one write at most, none before the arguments agree).

  \<^bold>\<open>Parameters.\<close> Code that is not in the repository is an argument of the definitions that use it:
  \<open>externals\<close> (HTTP exchange, clock, JSON parser, Base64, case table), the decoders and readers serde
  derives, \<open>rt_cut\<close> (tokio's timer: it may drop a future at any of its steps), \<open>float_ops\<close> (arithmetic on
  doubles), the URL parser, the JWT library, the file system. The witnesses instantiate them.

  \<^bold>\<open>Bounds and fuel.\<close> No definition uses fuel: every loop of the source is a structural recursion
  or a \<open>function\<close> with a measure (the site scan by the distance to its ceiling, \<open>gather_loop\<close> by the
  rows left below its ceiling, \<open>message_loop\<close>, \<open>chars\<close> and \<open>from_utf8_lossy\<close> by the bytes left). Integers
  keep their width where the code adds, multiplies or casts them.

  \<^bold>\<open>Not modelled.\<close> The tools of a Protect runtime (\<open>tools/protect_updates.rs\<close> and the Protect
  handlers of \<open>tools.rs\<close>), which pass console records and media of the modelled clients through; in
  the dispatch, which is that of a Network runtime, they are a parameter (\<open>protect_handler\<close>) about
  which nothing is assumed. \<open>network_request.rs\<close>, \<open>wifi_request.rs\<close> and \<open>legacy_wlan_request.rs\<close> declare types
  whose behaviour serde generates; the configuration tools take them as parameters. Schema generation
  and prose descriptions of the catalog carry no logic. \<open>main.rs\<close>, \<open>server.rs\<close> and the constructors wire
  libraries together (TLS, listeners, signals). Logging has no effect on results.
\<close>

end
